(* ===== verification/Prelude.thy ===== *)
theory Prelude
  imports Main "HOL-Library.Char_ord" "HOL-Library.List_Lexorder"
begin

text \<open>
  Shared vocabulary of the development: bytes and times, the fallible results
  of the Go code, 64-bit wrap-around, and the SQL statements the two databases
  use, over tables that are lists of rows in insertion order.  Every statement
  form has its own combinator, so that a component theory reads like the SQL of
  the source; the lemmas below are the only facts about tables the other
  theories use.
\<close>

type_synonym bytes = string
type_synonym time = int

named_theorems key_simps \<open>unfolding of the key predicates of the tables\<close>
named_theorems frame_simps \<open>fields and tables an operation leaves alone\<close>

section \<open>Go's int64\<close>

definition wrap64 :: "int \<Rightarrow> int" where
  "wrap64 n = (n + 2 ^ 63) mod 2 ^ 64 - 2 ^ 63"

definition max_int64 :: int where
  "max_int64 = 2 ^ 63 - 1"

lemma wrap64_id: "- (2 ^ 63) \<le> n \<Longrightarrow> n < 2 ^ 63 \<Longrightarrow> wrap64 n = n"
  by (simp add: wrap64_def)

lemma wrap64_range: "- (2 ^ 63) \<le> wrap64 n \<and> wrap64 n < 2 ^ 63"
  using pos_mod_bound [of "2 ^ 64" "n + 2 ^ 63"] pos_mod_sign [of "2 ^ 64" "n + 2 ^ 63"]
  by (simp add: wrap64_def)

section \<open>SQL statements on tables of rows\<close>

text \<open>\<open>SELECT ... WHERE p\<close> read with \<open>QueryRow\<close> is \<open>List.find p\<close>: the first row, or
  no row (\<open>sql.ErrNoRows\<close>).\<close>

definition row_exists :: "('r \<Rightarrow> bool) \<Rightarrow> 'r list \<Rightarrow> bool" where
  "row_exists p t = list_ex p t"

definition count_rows :: "('r \<Rightarrow> bool) \<Rightarrow> 'r list \<Rightarrow> nat" where
  "count_rows p t = length (filter p t)"

definition update_where :: "('r \<Rightarrow> bool) \<Rightarrow> ('r \<Rightarrow> 'r) \<Rightarrow> 'r list \<Rightarrow> 'r list" where
  "update_where p f t = map (\<lambda>r. if p r then f r else r) t"

definition delete_where :: "('r \<Rightarrow> bool) \<Rightarrow> 'r list \<Rightarrow> 'r list" where
  "delete_where p t = filter (\<lambda>r. \<not> p r) t"

text \<open>\<open>INSERT ... ON CONFLICT(key) DO UPDATE\<close>: \<open>p\<close> selects the row with the key.\<close>

definition upsert :: "('r \<Rightarrow> bool) \<Rightarrow> 'r \<Rightarrow> ('r \<Rightarrow> 'r) \<Rightarrow> 'r list \<Rightarrow> 'r list" where
  "upsert p new f t = (if row_exists p t then update_where p f t else t @ [new])"

definition insert_or_ignore :: "('r \<Rightarrow> bool) \<Rightarrow> 'r \<Rightarrow> 'r list \<Rightarrow> 'r list" where
  "insert_or_ignore p new t = (if row_exists p t then t else t @ [new])"

definition insert_or_replace :: "('r \<Rightarrow> bool) \<Rightarrow> 'r \<Rightarrow> 'r list \<Rightarrow> 'r list" where
  "insert_or_replace p new t = delete_where p t @ [new]"

subsection \<open>Membership\<close>

lemma row_exists_iff: "row_exists p t \<longleftrightarrow> (\<exists>r \<in> set t. p r)"
  by (simp add: row_exists_def list_ex_iff)

lemma set_update_where: "set (update_where p f t) = (\<lambda>r. if p r then f r else r) ` set t"
  by (simp add: update_where_def)

lemma key_image_update_where:
  "(\<And>r. key (f r) = key r) \<Longrightarrow> key ` set (update_where p f t) = key ` set t"
  by (induction t) (simp_all add: update_where_def)

lemma set_delete_where [simp]: "set (delete_where p t) = {r \<in> set t. \<not> p r}"
  by (simp add: delete_where_def)

lemma set_insert_or_ignore:
  "set (insert_or_ignore p new t) = (if row_exists p t then set t else insert new (set t))"
  by (simp add: insert_or_ignore_def)

lemma set_upsert_sub:
  "r \<in> set (upsert p new f t) \<Longrightarrow> r = new \<or> r \<in> set t \<or> (\<exists>r' \<in> set t. p r' \<and> r = f r')"
  by (auto simp: upsert_def set_update_where split: if_splits)

lemma row_exists_append [simp]: "row_exists p (s @ t) \<longleftrightarrow> row_exists p s \<or> row_exists p t"
  by (auto simp: row_exists_iff)

lemma row_exists_single [simp]: "row_exists p [r] \<longleftrightarrow> p r" "\<not> row_exists p []"
  by (auto simp: row_exists_iff)

lemma row_exists_update_where:
  "(\<And>r. p (f r) = p r) \<Longrightarrow> row_exists p (update_where q f t) = row_exists p t"
  by (induction t) (auto simp: update_where_def row_exists_def)

subsection \<open>Looking a row up after a statement\<close>

lemma find_none_iff: "List.find p t = None \<longleftrightarrow> \<not> row_exists p t"
  by (auto simp: find_None_iff row_exists_iff)

lemma find_some_mem: "List.find p t = Some r \<Longrightarrow> r \<in> set t \<and> p r"
  by (auto simp: find_Some_iff)

lemma find_append:
  "List.find p (s @ t) = (case List.find p s of None \<Rightarrow> List.find p t | Some r \<Rightarrow> Some r)"
  by (induction s) auto

lemma find_update_where:
  assumes "\<And>r. p (f r) = p r"
  shows "List.find p (update_where q f t)
    = map_option (\<lambda>r. if q r then f r else r) (List.find p t)"
  using assms by (induction t) (auto simp: update_where_def)

lemma find_delete_where_other:
  assumes "\<And>r. p r \<Longrightarrow> \<not> q r"
  shows "List.find p (delete_where q t) = List.find p t"
  using assms by (induction t) (auto simp: delete_where_def)

lemma find_delete_where_same:
  assumes "\<And>r. p r \<Longrightarrow> q r"
  shows "List.find p (delete_where q t) = None"
  using assms by (induction t) (auto simp: delete_where_def)

lemma find_upsert_same:
  assumes "p new" and "\<And>r. p (f r) = p r"
  shows "List.find p (upsert p new f t)
    = Some (case List.find p t of None \<Rightarrow> new | Some r \<Rightarrow> f r)"
proof (cases "List.find p t")
  case None
  then have "\<not> row_exists p t" by (simp add: find_none_iff)
  with None assms(1) show ?thesis
    by (simp add: upsert_def find_append)
next
  case (Some r)
  then have "row_exists p t" "p r"
    using find_some_mem [OF Some] by (auto simp: row_exists_iff)
  with Some assms(2) show ?thesis
    by (simp add: upsert_def find_update_where)
qed

lemma find_update_where_disjoint:
  assumes "\<And>r. p r \<Longrightarrow> \<not> q r" and "\<And>r. q r \<Longrightarrow> \<not> p (f r)"
  shows "List.find p (update_where q f t) = List.find p t"
  using assms by (induction t) (auto simp: update_where_def)

lemma find_upsert_other:
  assumes "\<And>r. p r \<Longrightarrow> \<not> q r" and "\<And>r. q r \<Longrightarrow> \<not> p (f r)" and "\<not> p new"
  shows "List.find p (upsert q new f t) = List.find p t"
  using assms by (auto simp: upsert_def find_update_where_disjoint find_append split: option.splits)

subsection \<open>Primary keys\<close>

definition unique_key :: "('r \<Rightarrow> 'k) \<Rightarrow> 'r list \<Rightarrow> bool" where
  "unique_key key t = distinct (map key t)"

lemma unique_key_update_where:
  assumes "unique_key key t" and "\<And>r. key (f r) = key r"
  shows "unique_key key (update_where p f t)"
proof -
  have "map key (update_where p f t) = map key t"
    using assms(2) by (simp add: update_where_def)
  with assms(1) show ?thesis by (simp add: unique_key_def)
qed

lemma unique_key_delete_where: "unique_key key t \<Longrightarrow> unique_key key (delete_where p t)"
  by (simp add: unique_key_def delete_where_def distinct_map_filter)

lemma unique_key_snoc:
  "unique_key key t \<Longrightarrow> \<not> row_exists p t \<Longrightarrow> (\<And>r. p r = (key r = key new))
    \<Longrightarrow> unique_key key (t @ [new])"
  by (auto simp: unique_key_def row_exists_iff)

lemma unique_key_insert_or_ignore:
  "unique_key key t \<Longrightarrow> (\<And>r. p r = (key r = key new)) \<Longrightarrow> unique_key key (insert_or_ignore p new t)"
  by (simp add: insert_or_ignore_def unique_key_snoc)

lemma unique_key_insert_or_replace:
  "unique_key key t \<Longrightarrow> (\<And>r. p r = (key r = key new)) \<Longrightarrow> unique_key key (insert_or_replace p new t)"
  unfolding insert_or_replace_def
  by (rule unique_key_snoc [where p = p]) (auto simp: unique_key_delete_where row_exists_iff)

lemma unique_key_upsert:
  "unique_key key t \<Longrightarrow> (\<And>r. p r = (key r = key new)) \<Longrightarrow> (\<And>r. key (f r) = key r)
    \<Longrightarrow> unique_key key (upsert p new f t)"
  by (simp add: upsert_def unique_key_snoc unique_key_update_where)

lemma unique_key_eq:
  "unique_key key t \<Longrightarrow> r \<in> set t \<Longrightarrow> r' \<in> set t \<Longrightarrow> key r = key r' \<Longrightarrow> r = r'"
  by (metis unique_key_def distinct_map inj_on_def)

lemma find_unique:
  "unique_key key t \<Longrightarrow> r \<in> set t \<Longrightarrow> (\<And>x. p x = (key x = key r)) \<Longrightarrow> List.find p t = Some r"
  by (cases "List.find p t")
    (auto simp: find_none_iff row_exists_iff dest!: find_some_mem intro: unique_key_eq)

subsection \<open>Counting rows\<close>

lemma count_rows_nil [simp]: "count_rows p [] = 0"
  by (simp add: count_rows_def)

lemma count_rows_append [simp]: "count_rows p (s @ t) = count_rows p s + count_rows p t"
  by (simp add: count_rows_def)

lemma count_rows_single: "count_rows p [r] = (if p r then 1 else 0)"
  by (simp add: count_rows_def)

lemma count_rows_zero_iff: "count_rows p t = 0 \<longleftrightarrow> \<not> row_exists p t"
  by (auto simp: count_rows_def row_exists_iff filter_empty_conv)

lemma count_rows_split:
  "count_rows p (delete_where q t) + count_rows (\<lambda>r. p r \<and> q r) t = count_rows p t"
  by (induction t) (auto simp: count_rows_def delete_where_def)

lemma count_rows_le_delete: "count_rows p (delete_where q t) \<le> count_rows p t"
  by (induction t) (auto simp: count_rows_def delete_where_def)

lemma count_rows_update_same:
  "(\<And>r. p (f r) = p r) \<Longrightarrow> count_rows p (update_where q f t) = count_rows p t"
  by (induction t) (auto simp: count_rows_def update_where_def)

lemma count_rows_unique_le:
  "unique_key key t \<Longrightarrow> (\<And>r. p r \<Longrightarrow> key r = k) \<Longrightarrow> count_rows p t \<le> 1"
proof (induction t)
  case (Cons r t)
  then have IH: "count_rows p t \<le> 1" and d: "key r \<notin> key ` set t"
    by (auto simp: unique_key_def)
  show ?case
  proof (cases "p r")
    case True
    with Cons.prems(2) d have "\<not> row_exists p t"
      by (force simp: row_exists_iff)
    then have "count_rows p t = 0" by (simp add: count_rows_zero_iff)
    with True show ?thesis by (simp add: count_rows_def)
  next
    case False
    with IH show ?thesis by (simp add: count_rows_def)
  qed
qed simp

section \<open>Lists and results\<close>

lemma fold_invariant:
  "P s \<Longrightarrow> (\<And>x s. x \<in> set xs \<Longrightarrow> P s \<Longrightarrow> P (f x s)) \<Longrightarrow> P (fold f xs s)"
  by (induction xs arbitrary: s) auto

lemma fold_frame:
  "(\<And>x s. g (f x s) = g s) \<Longrightarrow> g (fold f xs s) = g s"
  by (induction xs arbitrary: s) auto

lemma count_list_pos: "x \<in> set xs \<Longrightarrow> 1 \<le> count_list xs x"
  by (induction xs) auto

lemma sorted_key_filter: "sorted (map k t) \<Longrightarrow> sorted (map k (filter p t))"
  by (induction t) auto

section \<open>\<^verbatim>\<open>strings.Split\<close> and \<^verbatim>\<open>strings.Join\<close>\<close>

definition nul :: char where
  "nul = char_of (0::nat)"

fun split_on :: "char \<Rightarrow> string \<Rightarrow> string list" where
  "split_on d [] = [[]]"
| "split_on d (c # cs) =
     (if c = d then [] # split_on d cs
      else case split_on d cs of [] \<Rightarrow> [[c]] | p # ps \<Rightarrow> (c # p) # ps)"

lemma split_on_nonempty [simp]: "split_on d s \<noteq> []"
  by (induction s) (auto split: list.split)

lemma split_on_none: "d \<notin> set s \<Longrightarrow> split_on d s = [s]"
  by (induction s) auto

fun join_on :: "char \<Rightarrow> string list \<Rightarrow> string" where
  "join_on d [] = []"
| "join_on d [p] = p"
| "join_on d (p # q # ps) = p @ d # join_on d (q # ps)"

lemma split_on_Cons_sep: "split_on d (a @ d # b) = split_on d a @ split_on d b"
  by (induction a) (auto split: list.split)

lemma split_on_append: "d \<notin> set p \<Longrightarrow> split_on d (p @ d # s) = p # split_on d s"
  by (simp add: split_on_Cons_sep split_on_none)

lemma split_on_no_sep: "p \<in> set (split_on d s) \<Longrightarrow> d \<notin> set p"
proof (induction s arbitrary: p)
  case (Cons c s)
  then show ?case by (cases "split_on d s") (auto split: if_splits)
qed simp

lemma join_on_Cons: "ps \<noteq> [] \<Longrightarrow> join_on d (p # ps) = p @ d # join_on d ps"
  by (cases ps) auto

lemma join_split_on [simp]: "join_on d (split_on d s) = s"
proof (induction s)
  case (Cons c s)
  then show ?case
    by (cases "split_on d s") (auto simp: join_on_Cons, metis Cons_eq_appendI append_Nil join_on.simps(2) join_on_Cons)
qed simp

lemma split_join_on: "ps \<noteq> [] \<Longrightarrow> \<forall>p \<in> set ps. d \<notin> set p \<Longrightarrow> split_on d (join_on d ps) = ps"
  by (induction d ps rule: join_on.induct) (simp_all add: split_on_none split_on_append)

lemma join_on_append: "ps \<noteq> [] \<Longrightarrow> qs \<noteq> [] \<Longrightarrow> join_on d (ps @ qs) = join_on d ps @ d # join_on d qs"
  by (induction d ps rule: join_on.induct) (simp_all add: join_on_Cons)

lemma join_on_inj:
  "ps \<noteq> [] \<Longrightarrow> qs \<noteq> [] \<Longrightarrow> \<forall>p \<in> set ps \<union> set qs. d \<notin> set p \<Longrightarrow> join_on d ps = join_on d qs \<Longrightarrow> ps = qs"
  by (metis UnCI split_join_on)

end
