(* ===== verification/Protocol.thy ===== *)
theory Protocol
  imports Prelude
begin

text \<open>
  The wire types of \<^verbatim>\<open>internal/common/protocol/types.go\<close>.  A Go string type with
  named constants is a datatype with one constructor per constant and one for
  every other string, since the JSON decoder accepts any string; the decoders
  and encoders below fix the spelling.  A Go struct is a record with a field per
  Go field, a nil-able pointer an option.
\<close>

definition VersionHeader :: string where
  "VersionHeader = ''X-Syna-Protocol''"

definition CapabilityRootIncarnationBinding :: string where
  "CapabilityRootIncarnationBinding = ''root_incarnation_binding''"

definition MaxFileChunkPlainSize :: int where
  "MaxFileChunkPlainSize = 4 * 2 ^ 20"

definition MaxSnapshotPlainSize :: int where
  "MaxSnapshotPlainSize = 16 * 2 ^ 20"

section \<open>Named string constants\<close>

datatype EventType = EventRootAdd | EventRootRemove | EventDirPut | EventFilePut | EventDelete
  | EventTypeOther string

datatype RootKind = RootKindFile | RootKindDir | RootKindOther string

datatype RootState = RootStateActive | RootStateBlockedNonEmpty | RootStateRemoved

datatype ConnectionState = ConnectionNeedsBootstrap | ConnectionDisconnected
  | ConnectionAuthenticating | ConnectionCatchingUp | ConnectionLive | ConnectionBlockedNonEmpty
  | ConnectionDegraded | ConnectionWorkspacePurged

datatype DaemonIssueKind = IssueServiceInstall | IssueServiceDisable | IssueSocket | IssueAuth
  | IssueBootstrap | IssueWatcher | IssueTransport | IssueScanner | IssueWorkspaceGone

fun event_type_string :: "EventType \<Rightarrow> string" where
  "event_type_string EventRootAdd = ''root_add''"
| "event_type_string EventRootRemove = ''root_remove''"
| "event_type_string EventDirPut = ''dir_put''"
| "event_type_string EventFilePut = ''file_put''"
| "event_type_string EventDelete = ''delete''"
| "event_type_string (EventTypeOther s) = s"

definition event_type_of_string :: "string \<Rightarrow> EventType" where
  "event_type_of_string s =
     (if s = ''root_add'' then EventRootAdd
      else if s = ''root_remove'' then EventRootRemove
      else if s = ''dir_put'' then EventDirPut
      else if s = ''file_put'' then EventFilePut
      else if s = ''delete'' then EventDelete
      else EventTypeOther s)"

fun root_kind_string :: "RootKind \<Rightarrow> string" where
  "root_kind_string RootKindFile = ''file''"
| "root_kind_string RootKindDir = ''dir''"
| "root_kind_string (RootKindOther s) = s"

definition root_kind_of_string :: "string \<Rightarrow> RootKind" where
  "root_kind_of_string s =
     (if s = ''file'' then RootKindFile else if s = ''dir'' then RootKindDir else RootKindOther s)"

lemma event_type_string_of_string [simp]: "event_type_string (event_type_of_string s) = s"
  by (simp add: event_type_of_string_def)

lemma event_type_of_string_string:
  "(\<forall>s. t \<noteq> EventTypeOther s) \<Longrightarrow> event_type_of_string (event_type_string t) = t"
  by (cases t) (auto simp: event_type_of_string_def)

lemma root_kind_string_of_string [simp]: "root_kind_string (root_kind_of_string s) = s"
  by (simp add: root_kind_of_string_def)

section \<open>Requests and responses\<close>

record EventSubmitRequest =
  rq_RootID :: string
  rq_PathID :: string
  rq_RootKind :: RootKind
  rq_EventType :: EventType
  rq_BaseSeq :: "int option"
  rq_RootCreatedSeq :: "int option"
  rq_PayloadBlob :: bytes
  rq_ObjectRefs :: "string list"

record EventRecord =
  er_Seq :: int
  er_RootID :: string
  er_PathID :: "string option"
  er_EventType :: EventType
  er_BaseSeq :: "int option"
  er_AuthorDeviceID :: string
  er_PayloadBlob :: bytes
  er_ObjectRefs :: "string list"
  er_CreatedAt :: time

record EventFetchResponse =
  fr_Events :: "EventRecord list"
  fr_CurrentSeq :: int

record SnapshotSubmitRequest =
  sr_RootID :: string
  sr_BaseSeq :: int
  sr_ObjectID :: string
  sr_ObjectRefs :: "string list"

record BootstrapRoot =
  br_RootID :: string
  br_Kind :: RootKind
  br_DescriptorBlob :: bytes
  br_CreatedSeq :: int
  br_RemovedSeq :: "int option"
  br_LatestSnapshotObjectID :: string
  br_LatestSnapshotSeq :: int

record BootstrapResponse =
  bs_WorkspaceID :: string
  bs_CurrentSeq :: int
  bs_BootstrapAfterSeq :: int
  bs_Roots :: "BootstrapRoot list"

record SessionStartRequest =
  ss_WorkspaceID :: string
  ss_DeviceID :: string
  ss_DeviceName :: string
  ss_ClientNonce :: string
  ss_CreateIfMissing :: bool
  ss_WorkspacePubKey :: string

record SessionStartResponse =
  ssr_WorkspaceExists :: bool
  ssr_Created :: bool
  ssr_ServerNonce :: string
  ssr_ServerTime :: time
  ssr_ProtocolVersion :: int

record SessionFinishRequest =
  sf_WorkspaceID :: string
  sf_DeviceID :: string
  sf_ClientNonce :: string
  sf_ServerNonce :: string
  sf_Signature :: string

record SessionFinishResponse =
  sfr_SessionToken :: string
  sfr_ExpiresAt :: time
  sfr_WorkspaceID :: string
  sfr_CurrentSeq :: int

record ErrorResponse =
  eb_Code :: string
  eb_Message :: string
  eb_CurrentSeq :: int
  eb_RetainedFloorSeq :: int

record ChunkRef =
  ch_ObjectID :: string
  ch_PlainSize :: int

record EventSubmitResponse =
  es_AcceptedSeq :: int
  es_WorkspaceSeq :: int

record SnapshotSubmitResponse =
  sn_RootID_r :: string
  sn_BaseSeq_r :: int
  sn_ObjectID_r :: string

section \<open>Payloads the server cannot read\<close>

record RootAddPayload =
  ra_RootID :: string
  ra_Kind :: RootKind
  ra_HomeRelPath :: string

record RootRemovePayload =
  rr_RootID :: string

record DirPutPayload =
  dp_Path :: string
  dp_Mode :: int
  dp_MTimeNS :: int

record FilePutPayload =
  fp_Path :: string
  fp_Mode :: int
  fp_MTimeNS :: int
  fp_SizeBytes :: int
  fp_ContentSHA256 :: string
  fp_Chunks :: "ChunkRef list"

record DeletePayload =
  del_Path :: string

record SnapshotEntry =
  sne_Path :: string
  sne_Kind :: RootKind
  sne_Mode :: int
  sne_MTimeNS :: int
  sne_SizeBytes :: int
  sne_ContentSHA256 :: string
  sne_Chunks :: "ChunkRef list"

record SnapshotPayload =
  snp_RootID :: string
  snp_Kind :: RootKind
  snp_HomeRelPath :: string
  snp_BaseSeq :: int
  snp_Entries :: "SnapshotEntry list"

text \<open>What the daemon reports to the command line.\<close>

record DaemonIssue =
  di_Kind :: DaemonIssueKind
  di_Message :: string

record RootStatus =
  rs_RootID :: string
  rs_Kind :: RootKind
  rs_HomeRelPath :: string
  rs_TargetAbsPath :: string
  rs_State :: RootState

text \<open>\<open>ServerTime\<close> of a websocket message is never set by the server.\<close>

record WSMessage =
  wm_Type :: string
  wm_Event :: "EventRecord option"

end
