(* ===== verification/ServerStore.thy ===== *)
theory ServerStore
  imports Protocol
begin

text \<open>
  The server's SQLite database: the tables of \<^verbatim>\<open>internal/server/db/migrations.go\<close>
  as a record of row lists, the errors of the \<^verbatim>\<open>db\<close> package as values, and the
  statements every other server theory shares: visibility of objects
  (\<^verbatim>\<open>objects.go\<close>) and reference counts (\<^verbatim>\<open>refs.go\<close>).

  The \<open>events\<close> table is AUTOINCREMENT: \<open>t_last_seq\<close> is SQLite's sequence for it,
  the largest seq ever handed out over all workspaces, which deletes do not
  lower.  The connection pool has one connection (\<open>SetMaxOpenConns(1)\<close>), so each
  statement, and each transaction, is atomic.
\<close>

record workspace_row =
  ws_id :: string
  ws_pubkey :: bytes
  ws_current_seq :: int
  ws_floor :: int
  ws_created_at :: time
  ws_updated_at :: time

record device_row =
  dv_ws :: string
  dv_id :: string
  dv_name :: string
  dv_first_seen :: time
  dv_last_seen :: time

record session_row =
  sn_token_hash :: bytes
  sn_ws :: string
  sn_device :: string
  sn_issued_at :: time
  sn_expires_at :: time
  sn_last_used :: time

record challenge_row =
  cl_ws :: string
  cl_device :: string
  cl_client_nonce :: bytes
  cl_server_nonce :: bytes
  cl_device_name :: string
  cl_expires_at :: time
  cl_created_at :: time

record root_row =
  rt_ws :: string
  rt_id :: string
  rt_kind :: RootKind
  rt_descriptor :: bytes
  rt_created_seq :: int
  rt_removed_seq :: "int option"
  rt_snap_obj :: "string option"
  rt_snap_seq :: "int option"
  rt_created_at :: time
  rt_updated_at :: time

record path_head_row =
  ph_ws :: string
  ph_root :: string
  ph_path :: string
  ph_kind :: string
  ph_seq :: int
  ph_deleted :: bool
  ph_updated_at :: time

record event_row =
  ev_seq :: int
  ev_ws :: string
  ev_root :: string
  ev_path :: "string option"
  ev_type :: EventType
  ev_base_seq :: "int option"
  ev_author :: string
  ev_payload :: bytes
  ev_created_at :: time

record event_ref_row =
  xr_seq :: int
  xr_obj :: string

record snapshot_row =
  sp_ws :: string
  sp_root :: string
  sp_obj :: string
  sp_base_seq :: int
  sp_author :: string
  sp_created_at :: time

record snapshot_ref_row =
  rf_snap :: string
  rf_obj :: string

record object_row =
  ob_id :: string
  ob_kind :: string
  ob_size :: int
  ob_path :: string
  ob_refs :: int
  ob_zero_at :: "time option"
  ob_created_at :: time
  ob_accessed_at :: time

record ws_object_row =
  wo_ws :: string
  wo_obj :: string
  wo_created_at :: time

record server_db =
  t_workspaces :: "workspace_row list"
  t_devices :: "device_row list"
  t_sessions :: "session_row list"
  t_challenges :: "challenge_row list"
  t_roots :: "root_row list"
  t_path_heads :: "path_head_row list"
  t_events :: "event_row list"
  t_last_seq :: int
  t_event_refs :: "event_ref_row list"
  t_snapshots :: "snapshot_row list"
  t_snapshot_refs :: "snapshot_ref_row list"
  t_objects :: "object_row list"
  t_ws_objects :: "ws_object_row list"
  t_transferred :: "int option"

definition empty_db :: server_db where
  "empty_db = \<lparr>t_workspaces = [], t_devices = [], t_sessions = [], t_challenges = [],
     t_roots = [], t_path_heads = [], t_events = [], t_last_seq = 0, t_event_refs = [],
     t_snapshots = [], t_snapshot_refs = [], t_objects = [], t_ws_objects = [],
     t_transferred = None\<rparr>"

record Session =
  se_WorkspaceID :: string
  se_DeviceID :: string
  se_ExpiresAt :: time

section \<open>Errors\<close>

datatype db_error = ErrNoRows | DatabaseFull
  | RootIDRequired | UnsupportedEventType string | MissingObjectRef string
  | RootAddRequiresKind | RootAlreadyActive | UnknownRoot | RootAlreadyRemoved
  | ContentNeedsPathAndBase | RootRemoved
  | RootIncarnationMismatch int | PathHeadMismatch int | ResyncRequired int
  | SnapshotPredatesIncarnation | StaleSnapshot | SnapshotBeyondHead
  | MissingSnapshotObject | MissingSnapshotObjectRef string
  | ObjectNotAvailable | SessionExpired
  | ErrWorkspaceLimitReached | WorkspaceKeyMismatch | ErrWorkspaceNotFound

section \<open>Keys\<close>

definition is_ws :: "string \<Rightarrow> workspace_row \<Rightarrow> bool" where
  [key_simps]: "is_ws w r \<longleftrightarrow> ws_id r = w"

definition is_root :: "string \<Rightarrow> string \<Rightarrow> root_row \<Rightarrow> bool" where
  [key_simps]: "is_root w i r \<longleftrightarrow> rt_ws r = w \<and> rt_id r = i"

definition is_head :: "string \<Rightarrow> string \<Rightarrow> string \<Rightarrow> path_head_row \<Rightarrow> bool" where
  [key_simps]: "is_head w i p r \<longleftrightarrow> ph_ws r = w \<and> ph_root r = i \<and> ph_path r = p"

definition is_obj :: "string \<Rightarrow> object_row \<Rightarrow> bool" where
  [key_simps]: "is_obj oid r \<longleftrightarrow> ob_id r = oid"

definition is_ws_obj :: "string \<Rightarrow> string \<Rightarrow> ws_object_row \<Rightarrow> bool" where
  [key_simps]: "is_ws_obj w oid r \<longleftrightarrow> wo_ws r = w \<and> wo_obj r = oid"

definition is_snapshot :: "string \<Rightarrow> string \<Rightarrow> string \<Rightarrow> snapshot_row \<Rightarrow> bool" where
  [key_simps]: "is_snapshot w i oid r \<longleftrightarrow> sp_ws r = w \<and> sp_root r = i \<and> sp_obj r = oid"

definition is_event_ref :: "int \<Rightarrow> string \<Rightarrow> event_ref_row \<Rightarrow> bool" where
  [key_simps]: "is_event_ref q oid r \<longleftrightarrow> xr_seq r = q \<and> xr_obj r = oid"

definition is_snapshot_ref :: "string \<Rightarrow> string \<Rightarrow> snapshot_ref_row \<Rightarrow> bool" where
  [key_simps]: "is_snapshot_ref sid oid r \<longleftrightarrow> rf_snap r = sid \<and> rf_obj r = oid"

definition is_device :: "string \<Rightarrow> string \<Rightarrow> device_row \<Rightarrow> bool" where
  [key_simps]: "is_device w d r \<longleftrightarrow> dv_ws r = w \<and> dv_id r = d"

section \<open>Object visibility (objects.go)\<close>

definition objectVisibleToWorkspace :: "string \<Rightarrow> string \<Rightarrow> server_db \<Rightarrow> bool" where
  "objectVisibleToWorkspace w oid s = row_exists (is_ws_obj w oid) (t_ws_objects s)"

definition associateObjectWithWorkspace ::
  "time \<Rightarrow> string \<Rightarrow> string \<Rightarrow> server_db \<Rightarrow> (db_error + unit) \<times> server_db" where
  "associateObjectWithWorkspace now w oid s =
     (let insert_ok = row_exists (is_ws w) (t_workspaces s) \<and> row_exists (is_obj oid) (t_objects s)
          \<and> \<not> row_exists (is_ws_obj w oid) (t_ws_objects s);
          s' = (if insert_ok
                then s\<lparr>t_ws_objects := t_ws_objects s
                         @ [\<lparr>wo_ws = w, wo_obj = oid, wo_created_at = now\<rparr>]\<rparr>
                else s)
      in if \<not> insert_ok \<and> \<not> objectVisibleToWorkspace w oid s'
         then (Inl ObjectNotAvailable, s')
         else (Inr (), s'))"

section \<open>Reference counts (refs.go)\<close>

definition incrementObjectRef :: "string \<Rightarrow> server_db \<Rightarrow> server_db" where
  "incrementObjectRef oid s =
     s\<lparr>t_objects := update_where (is_obj oid)
         (\<lambda>r. r\<lparr>ob_refs := ob_refs r + 1, ob_zero_at := None\<rparr>) (t_objects s)\<rparr>"

definition decrementObjectRef :: "time \<Rightarrow> string \<Rightarrow> server_db \<Rightarrow> server_db" where
  "decrementObjectRef now oid s =
     s\<lparr>t_objects := update_where (is_obj oid)
         (\<lambda>r. r\<lparr>ob_refs := (if ob_refs r > 0 then ob_refs r - 1 else 0),
                ob_zero_at := (if ob_refs r \<le> 1 then Some now else ob_zero_at r)\<rparr>) (t_objects s)\<rparr>"

text \<open>\<open>DELETE FROM objects\<close> with the foreign key of \<open>workspace_objects\<close>
  (\<open>ON DELETE CASCADE\<close>; foreign keys are switched on in the connection string).\<close>

definition delete_object :: "string \<Rightarrow> server_db \<Rightarrow> server_db" where
  "delete_object oid s =
     s\<lparr>t_objects := delete_where (is_obj oid) (t_objects s),
       t_ws_objects := delete_where (\<lambda>r. wo_obj r = oid) (t_ws_objects s)\<rparr>"

text \<open>What the counter is meant to count (docs/04-data-model-and-storage.md):
  rows of \<open>event_object_refs\<close>, of \<open>snapshots\<close> and of \<open>snapshot_object_refs\<close>.\<close>

definition refs_to :: "server_db \<Rightarrow> string \<Rightarrow> nat" where
  "refs_to s oid = count_rows (\<lambda>r. xr_obj r = oid) (t_event_refs s)
     + count_rows (\<lambda>r. sp_obj r = oid) (t_snapshots s)
     + count_rows (\<lambda>r. rf_obj r = oid) (t_snapshot_refs s)"

definition ref_count_of :: "server_db \<Rightarrow> string \<Rightarrow> int option" where
  "ref_count_of s oid = map_option ob_refs (List.find (is_obj oid) (t_objects s))"

section \<open>The interface of the reference counter\<close>

text \<open>
  Event submission, snapshot submission and retention use the counter only
  through these two laws.
\<close>

locale ref_counter =
  fixes incr :: "string \<Rightarrow> 's \<Rightarrow> 's"
    and decr :: "string \<Rightarrow> 's \<Rightarrow> 's"
    and rc :: "'s \<Rightarrow> string \<Rightarrow> int option"
  assumes rc_incr: "rc (incr oid s) oid' = (if oid = oid' then map_option (\<lambda>n. n + 1) (rc s oid') else rc s oid')"
    and rc_decr: "rc (decr oid s) oid'
      = (if oid = oid' then map_option (\<lambda>n. if n > 0 then n - 1 else 0) (rc s oid') else rc s oid')"
begin

lemma rc_fold_incr:
  "rc (fold incr oids s) oid = map_option (\<lambda>n. n + int (count_list oids oid)) (rc s oid)"
proof (induction oids arbitrary: s)
  case Nil
  show ?case by (simp add: option.map_ident)
next
  case (Cons a oids)
  then show ?case by (cases "rc s oid") (auto simp: rc_incr)
qed

lemma rc_fold_decr_none: "rc s oid = None \<Longrightarrow> rc (fold decr oids s) oid = None"
  by (induction oids arbitrary: s) (auto simp: rc_decr)

lemma rc_fold_decr:
  "rc s oid = Some n \<Longrightarrow> int (count_list oids oid) \<le> n
    \<Longrightarrow> rc (fold decr oids s) oid = Some (n - int (count_list oids oid))"
proof (induction oids arbitrary: s n)
  case (Cons a oids)
  show ?case
  proof (cases "a = oid")
    case True
    with Cons.prems have "rc (decr a s) oid = Some (n - 1)" and "int (count_list oids oid) \<le> n - 1"
      by (auto simp: rc_decr)
    from Cons.IH [OF this] True show ?thesis by simp
  next
    case False
    with Cons.prems have "rc (decr a s) oid = Some n" and "int (count_list oids oid) \<le> n"
      by (auto simp: rc_decr)
    from Cons.IH [OF this] False show ?thesis by simp
  qed
qed simp

end

lemma find_is_obj_update:
  "List.find (is_obj oid) (update_where (is_obj oid') f t)
    = (if oid = oid' then map_option f (List.find (is_obj oid) t) else List.find (is_obj oid) t)"
  if "\<And>r. ob_id (f r) = ob_id r"
  using that by (induction t) (auto simp: update_where_def key_simps)

interpretation refs: ref_counter incrementObjectRef "decrementObjectRef now" ref_count_of for now
proof
  fix oid oid' s
  show "ref_count_of (incrementObjectRef oid s) oid'
      = (if oid = oid' then map_option (\<lambda>n. n + 1) (ref_count_of s oid') else ref_count_of s oid')"
    by (simp add: ref_count_of_def incrementObjectRef_def find_is_obj_update option.map_comp comp_def)
  show "ref_count_of (decrementObjectRef now oid s) oid'
      = (if oid = oid' then map_option (\<lambda>n. if n > 0 then n - 1 else 0) (ref_count_of s oid')
         else ref_count_of s oid')"
    by (simp add: ref_count_of_def decrementObjectRef_def find_is_obj_update option.map_comp comp_def)
qed

section \<open>What the shared statements leave alone\<close>

text \<open>Every field but the touched one is unchanged; the two counters touch \<open>t_objects\<close> only.\<close>

lemma incr_frame [frame_simps]:
  "t_workspaces (incrementObjectRef oid s) = t_workspaces s"
  "t_devices (incrementObjectRef oid s) = t_devices s"
  "t_sessions (incrementObjectRef oid s) = t_sessions s"
  "t_challenges (incrementObjectRef oid s) = t_challenges s"
  "t_roots (incrementObjectRef oid s) = t_roots s"
  "t_path_heads (incrementObjectRef oid s) = t_path_heads s"
  "t_events (incrementObjectRef oid s) = t_events s"
  "t_last_seq (incrementObjectRef oid s) = t_last_seq s"
  "t_event_refs (incrementObjectRef oid s) = t_event_refs s"
  "t_snapshots (incrementObjectRef oid s) = t_snapshots s"
  "t_snapshot_refs (incrementObjectRef oid s) = t_snapshot_refs s"
  "t_ws_objects (incrementObjectRef oid s) = t_ws_objects s"
  by (simp_all add: incrementObjectRef_def)

lemma decr_frame [frame_simps]:
  "t_workspaces (decrementObjectRef now oid s) = t_workspaces s"
  "t_roots (decrementObjectRef now oid s) = t_roots s"
  "t_path_heads (decrementObjectRef now oid s) = t_path_heads s"
  "t_events (decrementObjectRef now oid s) = t_events s"
  "t_last_seq (decrementObjectRef now oid s) = t_last_seq s"
  "t_event_refs (decrementObjectRef now oid s) = t_event_refs s"
  "t_snapshots (decrementObjectRef now oid s) = t_snapshots s"
  "t_snapshot_refs (decrementObjectRef now oid s) = t_snapshot_refs s"
  "t_ws_objects (decrementObjectRef now oid s) = t_ws_objects s"
  by (simp_all add: decrementObjectRef_def)

lemma objects_keys_counter:
  "unique_key ob_id (t_objects s) \<Longrightarrow> unique_key ob_id (t_objects (incrementObjectRef oid s))"
  "unique_key ob_id (t_objects s) \<Longrightarrow> unique_key ob_id (t_objects (decrementObjectRef now oid s))"
  by (simp_all add: incrementObjectRef_def decrementObjectRef_def unique_key_update_where)

lemma ref_count_of_row:
  "unique_key ob_id (t_objects s) \<Longrightarrow> r \<in> set (t_objects s) \<Longrightarrow> ref_count_of s (ob_id r) = Some (ob_refs r)"
  by (simp add: ref_count_of_def find_unique [where key = ob_id] is_obj_def)

lemma ref_count_of_exists: "ref_count_of s oid = None \<longleftrightarrow> \<not> row_exists (is_obj oid) (t_objects s)"
  by (simp add: ref_count_of_def find_none_iff)

lemma ref_count_of_delete_object:
  "ref_count_of (delete_object oid s) oid' = (if oid = oid' then None else ref_count_of s oid')"
proof (cases "oid = oid'")
  case True
  then show ?thesis
    by (simp add: ref_count_of_def delete_object_def find_none_iff row_exists_iff key_simps)
next
  case False
  then have "List.find (is_obj oid') (delete_where (is_obj oid) (t_objects s))
      = List.find (is_obj oid') (t_objects s)"
    by (intro find_delete_where_other) (simp add: key_simps)
  with False show ?thesis by (simp add: ref_count_of_def delete_object_def)
qed

end
