(* ===== verification/Workspaces.thy ===== *)
theory Workspaces
  imports ServerStore
begin

text \<open>
  \<^verbatim>\<open>internal/server/db/workspace.go\<close>: creation of workspaces within a limit, the
  queries on a workspace row, the active roots in root-id order, and the
  recomputation of the retained floor, the sequence below which events may be
  pruned.
\<close>

definition EnsureWorkspaceWithinLimit ::
  "time \<Rightarrow> string \<Rightarrow> bytes \<Rightarrow> int \<Rightarrow> server_db \<Rightarrow> (db_error + bool) \<times> server_db" where
  "EnsureWorkspaceWithinLimit now w pubKey maxWorkspaces s =
     (case List.find (is_ws w) (t_workspaces s) of
        None \<Rightarrow>
          (if pubKey = [] then (Inl ErrNoRows, s)
           else if maxWorkspaces > 0 \<and> int (length (t_workspaces s)) \<ge> maxWorkspaces
             then (Inl ErrWorkspaceLimitReached, s)
           else (Inr True, s\<lparr>t_workspaces := t_workspaces s
                   @ [\<lparr>ws_id = w, ws_pubkey = pubKey, ws_current_seq = 0, ws_floor = 0,
                       ws_created_at = now, ws_updated_at = now\<rparr>]\<rparr>))
      | Some r \<Rightarrow>
          (if pubKey \<noteq> [] \<and> pubKey \<noteq> ws_pubkey r then (Inl WorkspaceKeyMismatch, s)
           else (Inr False, s)))"

definition EnsureWorkspace ::
  "time \<Rightarrow> string \<Rightarrow> bytes \<Rightarrow> server_db \<Rightarrow> (db_error + bool) \<times> server_db" where
  "EnsureWorkspace now w pubKey s = EnsureWorkspaceWithinLimit now w pubKey 0 s"

definition WorkspacePubKey :: "string \<Rightarrow> server_db \<Rightarrow> db_error + bytes" where
  "WorkspacePubKey w s = (case List.find (is_ws w) (t_workspaces s) of
     None \<Rightarrow> Inl ErrNoRows | Some r \<Rightarrow> Inr (ws_pubkey r))"

definition CurrentSeq :: "string \<Rightarrow> server_db \<Rightarrow> db_error + int" where
  "CurrentSeq w s = (case List.find (is_ws w) (t_workspaces s) of
     None \<Rightarrow> Inl ErrNoRows | Some r \<Rightarrow> Inr (ws_current_seq r))"

definition RetainedFloor :: "string \<Rightarrow> server_db \<Rightarrow> db_error + int" where
  "RetainedFloor w s = (case List.find (is_ws w) (t_workspaces s) of
     None \<Rightarrow> Inl ErrNoRows | Some r \<Rightarrow> Inr (ws_floor r))"

definition ActiveRoots :: "string \<Rightarrow> server_db \<Rightarrow> root_row list" where
  "ActiveRoots w s =
     sort_key rt_id (filter (\<lambda>r. rt_ws r = w \<and> rt_removed_seq r = None) (t_roots s))"

text \<open>The loop of \<open>RecomputeRetainedFloor\<close>; the first root without a snapshot breaks it.\<close>

fun floor_loop :: "int \<Rightarrow> root_row list \<Rightarrow> int" where
  "floor_loop floor [] = floor"
| "floor_loop floor (root # roots) =
     (case rt_snap_seq root of
        None \<Rightarrow> 0
      | Some q \<Rightarrow> floor_loop (if q < floor \<or> floor = 0 then q else floor) roots)"

definition computed_floor :: "int \<Rightarrow> root_row list \<Rightarrow> int" where
  "computed_floor currentSeq roots = (if roots = [] then currentSeq else floor_loop 0 roots)"

definition RecomputeRetainedFloor :: "time \<Rightarrow> string \<Rightarrow> server_db \<Rightarrow> (db_error + unit) \<times> server_db" where
  "RecomputeRetainedFloor now w s =
     (let roots = ActiveRoots w s in
      case CurrentSeq w s of
        Inl e \<Rightarrow> (Inl e, s)
      | Inr currentSeq \<Rightarrow>
          (Inr (), s\<lparr>t_workspaces := update_where (is_ws w)
             (\<lambda>r. r\<lparr>ws_floor := computed_floor currentSeq roots, ws_updated_at := now\<rparr>)
             (t_workspaces s)\<rparr>))"

section \<open>Active roots\<close>

lemma set_ActiveRoots:
  "set (ActiveRoots w s) = {r \<in> set (t_roots s). rt_ws r = w \<and> rt_removed_seq r = None}"
  by (simp add: ActiveRoots_def)

lemma ActiveRoots_cong: "t_roots s = t_roots s' \<Longrightarrow> ActiveRoots w s = ActiveRoots w s'"
  by (simp add: ActiveRoots_def)

section \<open>The floor is the least snapshot of the active roots\<close>

lemma floor_loop_missing:
  "\<exists>r \<in> set roots. rt_snap_seq r = None \<Longrightarrow> floor_loop f roots = 0"
  by (induction roots arbitrary: f) (auto split: option.splits)

lemma floor_loop_min:
  assumes "f > 0" and "\<forall>r \<in> set roots. \<exists>q > 0. rt_snap_seq r = Some q"
  shows "floor_loop f roots = Min (insert f ((\<lambda>r. the (rt_snap_seq r)) ` set roots))"
  using assms
proof (induction roots arbitrary: f)
  case (Cons r roots)
  let ?S = "(\<lambda>r. the (rt_snap_seq r)) ` set roots"
  from Cons.prems(2) obtain q where q: "q > 0" "rt_snap_seq r = Some q" by auto
  define g where "g = (if q < f then q else f)"
  have g: "g > 0" "g = min f q" using q(1) Cons.prems(1) by (auto simp: g_def)
  have "floor_loop f (r # roots) = floor_loop g roots"
    using q(2) Cons.prems(1) by (simp add: g_def)
  also have "\<dots> = Min (insert g ?S)"
    using Cons.IH [OF g(1)] Cons.prems(2) by simp
  also have "\<dots> = Min (insert f (insert q ?S))"
    unfolding g(2) by (cases "set roots = {}") (auto simp: min.assoc)
  finally show ?case using q(2) by simp
qed simp

lemma computed_floor_snapshots:
  assumes "roots \<noteq> []" and "\<forall>r \<in> set roots. \<exists>q > 0. rt_snap_seq r = Some q"
  shows "computed_floor cur roots = Min ((\<lambda>r. the (rt_snap_seq r)) ` set roots)"
proof (cases roots)
  case (Cons r rs)
  with assms(2) obtain q where q: "q > 0" "rt_snap_seq r = Some q" by auto
  have "computed_floor cur roots = floor_loop q rs"
    using q(2) Cons by (simp add: computed_floor_def)
  also have "\<dots> = Min (insert q ((\<lambda>r. the (rt_snap_seq r)) ` set rs))"
    using assms(2) Cons by (intro floor_loop_min [OF q(1)]) auto
  finally show ?thesis using q(2) Cons by simp
qed (use assms(1) in simp)

lemma computed_floor_missing:
  "r \<in> set roots \<Longrightarrow> rt_snap_seq r = None \<Longrightarrow> computed_floor cur roots = 0"
  by (auto simp: computed_floor_def intro: floor_loop_missing)

lemma computed_floor_range:
  assumes "0 \<le> cur" and "\<And>r q. r \<in> set roots \<Longrightarrow> rt_snap_seq r = Some q \<Longrightarrow> 0 < q \<and> q \<le> cur"
  shows "0 \<le> computed_floor cur roots \<and> computed_floor cur roots \<le> cur"
proof (cases "roots = [] \<or> (\<exists>r \<in> set roots. rt_snap_seq r = None)")
  case True
  then have "computed_floor cur roots = cur \<or> computed_floor cur roots = 0"
    unfolding computed_floor_def using floor_loop_missing [of roots 0] by metis
  with assms(1) show ?thesis by auto
next
  case False
  let ?S = "(\<lambda>r. the (rt_snap_seq r)) ` set roots"
  from False assms(2) have pos: "\<forall>r \<in> set roots. \<exists>q > 0. rt_snap_seq r = Some q"
    by (metis option.exhaust)
  have "computed_floor cur roots = Min ?S"
    using computed_floor_snapshots [OF _ pos] False by simp
  moreover from False have "Min ?S \<in> ?S" by (intro Min_in) auto
  then obtain r where "r \<in> set roots" "Min ?S = the (rt_snap_seq r)" by auto
  with pos assms(2) [of r] have "0 < Min ?S \<and> Min ?S \<le> cur" by force
  ultimately show ?thesis by simp
qed

section \<open>What the workspace statements change\<close>

lemma RecomputeRetainedFloor_frame [frame_simps]:
  "t_devices (snd (RecomputeRetainedFloor now w s)) = t_devices s"
  "t_sessions (snd (RecomputeRetainedFloor now w s)) = t_sessions s"
  "t_challenges (snd (RecomputeRetainedFloor now w s)) = t_challenges s"
  "t_roots (snd (RecomputeRetainedFloor now w s)) = t_roots s"
  "t_path_heads (snd (RecomputeRetainedFloor now w s)) = t_path_heads s"
  "t_events (snd (RecomputeRetainedFloor now w s)) = t_events s"
  "t_last_seq (snd (RecomputeRetainedFloor now w s)) = t_last_seq s"
  "t_event_refs (snd (RecomputeRetainedFloor now w s)) = t_event_refs s"
  "t_snapshots (snd (RecomputeRetainedFloor now w s)) = t_snapshots s"
  "t_snapshot_refs (snd (RecomputeRetainedFloor now w s)) = t_snapshot_refs s"
  "t_objects (snd (RecomputeRetainedFloor now w s)) = t_objects s"
  "t_ws_objects (snd (RecomputeRetainedFloor now w s)) = t_ws_objects s"
  by (simp_all add: RecomputeRetainedFloor_def Let_def split: sum.splits)

lemma find_ws_RecomputeRetainedFloor:
  "List.find (is_ws w') (t_workspaces (snd (RecomputeRetainedFloor now w s)))
    = (if w' = w
       then map_option (\<lambda>r. r\<lparr>ws_floor := computed_floor (ws_current_seq r) (ActiveRoots w s), ws_updated_at := now\<rparr>)
              (List.find (is_ws w) (t_workspaces s))
       else List.find (is_ws w') (t_workspaces s))"
proof (cases "List.find (is_ws w) (t_workspaces s)")
  case None
  then show ?thesis by (simp add: RecomputeRetainedFloor_def CurrentSeq_def)
next
  case (Some r)
  let ?f = "\<lambda>x. x\<lparr>ws_floor := computed_floor (ws_current_seq r) (ActiveRoots w s), ws_updated_at := now\<rparr>"
  have t: "t_workspaces (snd (RecomputeRetainedFloor now w s)) = update_where (is_ws w) ?f (t_workspaces s)"
    using Some by (simp add: RecomputeRetainedFloor_def CurrentSeq_def)
  show ?thesis
  proof (cases "w' = w")
    case True
    have "List.find (is_ws w) (update_where (is_ws w) ?f (t_workspaces s))
        = map_option (\<lambda>r. if is_ws w r then ?f r else r) (List.find (is_ws w) (t_workspaces s))"
      by (rule find_update_where) (simp add: key_simps)
    with True Some t find_some_mem [OF Some] show ?thesis by simp
  next
    case False
    then have "List.find (is_ws w') (update_where (is_ws w) ?f (t_workspaces s))
        = List.find (is_ws w') (t_workspaces s)"
      by (intro find_update_where_disjoint) (auto simp: key_simps)
    with False t show ?thesis by simp
  qed
qed

lemma RecomputeRetainedFloor_ok:
  "List.find (is_ws w) (t_workspaces s) = Some r \<Longrightarrow> fst (RecomputeRetainedFloor now w s) = Inr ()"
  by (simp add: RecomputeRetainedFloor_def CurrentSeq_def)

lemma EnsureWorkspace_tables:
  "snd (EnsureWorkspaceWithinLimit now w k m s) = s \<or>
    (\<not> row_exists (is_ws w) (t_workspaces s) \<and>
     snd (EnsureWorkspaceWithinLimit now w k m s) = s\<lparr>t_workspaces := t_workspaces s
        @ [\<lparr>ws_id = w, ws_pubkey = k, ws_current_seq = 0, ws_floor = 0,
            ws_created_at = now, ws_updated_at = now\<rparr>]\<rparr>)"
  by (auto simp: EnsureWorkspaceWithinLimit_def find_none_iff split: option.splits)

end
