(* ===== verification/ServerInvariant.thy ===== *)
theory ServerInvariant
  imports Workspaces
begin

text \<open>
  The well-formedness of the server database that every operation keeps.
  \<open>keys_inv\<close>: primary keys.  \<open>log_inv\<close>: the event log is in strictly increasing
  seq order, no event is newer than its workspace's \<open>current_seq\<close>, and references
  belong to logged events.  \<open>refs_inv\<close>: an object that is referenced exists and its
  counter is at least the number of references.  \<open>roots_inv\<close>: sequence numbers of
  roots, snapshots, path heads and floors are ordered as the protocol relies on.
  \<open>vis_inv\<close>: what an event or an advertised snapshot refers to is visible to its
  workspace, and visibility rows only name existing objects and workspaces.
\<close>

definition cur_seq :: "server_db \<Rightarrow> string \<Rightarrow> int" where
  "cur_seq s w = (case List.find (is_ws w) (t_workspaces s) of None \<Rightarrow> 0 | Some r \<Rightarrow> ws_current_seq r)"

definition floor_seq :: "server_db \<Rightarrow> string \<Rightarrow> int" where
  "floor_seq s w = (case List.find (is_ws w) (t_workspaces s) of None \<Rightarrow> 0 | Some r \<Rightarrow> ws_floor r)"

definition keys_inv :: "server_db \<Rightarrow> bool" where
  "keys_inv s \<longleftrightarrow> unique_key ws_id (t_workspaces s)
     \<and> unique_key (\<lambda>r. (rt_ws r, rt_id r)) (t_roots s)
     \<and> unique_key (\<lambda>r. (ph_ws r, ph_root r, ph_path r)) (t_path_heads s)
     \<and> unique_key (\<lambda>r. (xr_seq r, xr_obj r)) (t_event_refs s)
     \<and> unique_key (\<lambda>r. (sp_ws r, sp_root r, sp_obj r)) (t_snapshots s)
     \<and> unique_key (\<lambda>r. (rf_snap r, rf_obj r)) (t_snapshot_refs s)
     \<and> unique_key ob_id (t_objects s)
     \<and> unique_key (\<lambda>r. (wo_ws r, wo_obj r)) (t_ws_objects s)"

definition log_inv :: "server_db \<Rightarrow> bool" where
  "log_inv s \<longleftrightarrow> sorted_wrt (<) (map ev_seq (t_events s))
     \<and> 0 \<le> t_last_seq s
     \<and> (\<forall>e \<in> set (t_events s). 0 < ev_seq e \<and> ev_seq e \<le> cur_seq s (ev_ws e))
     \<and> (\<forall>w. 0 \<le> cur_seq s w \<and> cur_seq s w \<le> t_last_seq s)
     \<and> (\<forall>x \<in> set (t_event_refs s). xr_seq x \<in> ev_seq ` set (t_events s))"

fun count_ok :: "int option \<Rightarrow> nat \<Rightarrow> bool" where
  "count_ok None k \<longleftrightarrow> k = 0"
| "count_ok (Some n) k \<longleftrightarrow> int k \<le> n"

definition refs_inv :: "server_db \<Rightarrow> bool" where
  "refs_inv s \<longleftrightarrow> (\<forall>oid. count_ok (ref_count_of s oid) (refs_to s oid))"

definition refs_exact :: "server_db \<Rightarrow> bool" where
  "refs_exact s \<longleftrightarrow> (\<forall>oid n. ref_count_of s oid = Some n \<longrightarrow> n = int (refs_to s oid))"

definition root_ok :: "server_db \<Rightarrow> root_row \<Rightarrow> bool" where
  "root_ok s r \<longleftrightarrow> 0 < rt_created_seq r \<and> rt_created_seq r \<le> cur_seq s (rt_ws r)
     \<and> (\<forall>q. rt_removed_seq r = Some q \<longrightarrow> rt_created_seq r < q \<and> q \<le> cur_seq s (rt_ws r))
     \<and> (\<forall>q. rt_snap_seq r = Some q \<longrightarrow> rt_created_seq r \<le> q \<and> q \<le> cur_seq s (rt_ws r))
     \<and> (rt_removed_seq r \<noteq> None \<longrightarrow> rt_snap_obj r = None)
     \<and> (rt_snap_obj r = None \<longleftrightarrow> rt_snap_seq r = None)"

definition head_ok :: "server_db \<Rightarrow> path_head_row \<Rightarrow> bool" where
  "head_ok s h \<longleftrightarrow> (\<exists>r. List.find (is_root (ph_ws h) (ph_root h)) (t_roots s) = Some r
     \<and> rt_removed_seq r = None \<and> rt_created_seq r < ph_seq h \<and> ph_seq h \<le> cur_seq s (ph_ws h))"

definition roots_inv :: "server_db \<Rightarrow> bool" where
  "roots_inv s \<longleftrightarrow> (\<forall>r \<in> set (t_roots s). root_ok s r)
     \<and> (\<forall>h \<in> set (t_path_heads s). head_ok s h)
     \<and> (\<forall>w. 0 \<le> floor_seq s w \<and> floor_seq s w \<le> cur_seq s w)"

definition vis_inv :: "server_db \<Rightarrow> bool" where
  "vis_inv s \<longleftrightarrow> (\<forall>e \<in> set (t_events s). \<forall>x \<in> set (t_event_refs s).
        xr_seq x = ev_seq e \<longrightarrow> objectVisibleToWorkspace (ev_ws e) (xr_obj x) s)
     \<and> (\<forall>p \<in> set (t_snapshots s). objectVisibleToWorkspace (sp_ws p) (sp_obj p) s)
     \<and> (\<forall>r \<in> set (t_roots s). \<forall>oid. rt_snap_obj r = Some oid
          \<longrightarrow> row_exists (is_snapshot (rt_ws r) (rt_id r) oid) (t_snapshots s))
     \<and> (\<forall>x \<in> set (t_ws_objects s). row_exists (is_obj (wo_obj x)) (t_objects s)
          \<and> row_exists (is_ws (wo_ws x)) (t_workspaces s))"

definition content_event :: "EventType \<Rightarrow> bool" where
  "content_event t \<longleftrightarrow> t \<noteq> EventRootAdd \<and> t \<noteq> EventRootRemove"

definition head_covers :: "server_db \<Rightarrow> event_row \<Rightarrow> bool" where
  "head_covers s e \<longleftrightarrow> (\<exists>p h. ev_path e = Some p
     \<and> List.find (is_head (ev_ws e) (ev_root e) p) (t_path_heads s) = Some h \<and> ev_seq e \<le> ph_seq h)"

definition heads_inv :: "server_db \<Rightarrow> bool" where
  "heads_inv s \<longleftrightarrow> (\<forall>e \<in> set (t_events s). \<forall>r. content_event (ev_type e)
     \<longrightarrow> List.find (is_root (ev_ws e) (ev_root e)) (t_roots s) = Some r \<longrightarrow> rt_removed_seq r = None
     \<longrightarrow> rt_created_seq r < ev_seq e \<longrightarrow> head_covers s e)"

definition server_inv :: "server_db \<Rightarrow> bool" where
  "server_inv s \<longleftrightarrow> keys_inv s \<and> log_inv s \<and> refs_inv s \<and> roots_inv s \<and> vis_inv s \<and> heads_inv s"

lemmas inv_defs = keys_inv_def log_inv_def refs_inv_def roots_inv_def vis_inv_def heads_inv_def

lemma server_inv_empty: "server_inv empty_db"
  by (simp add: ref_count_of_def server_inv_def inv_defs empty_db_def cur_seq_def floor_seq_def refs_to_def
      unique_key_def)

lemma find_is_ws_update:
  "(\<And>r. ws_id (f r) = ws_id r) \<Longrightarrow> List.find (is_ws v) (update_where (is_ws w) f t)
    = (if v = w then map_option f (List.find (is_ws v) t) else List.find (is_ws v) t)"
  by (induction t) (auto simp: update_where_def key_simps)

section \<open>Congruence: an invariant reads only some tables\<close>

lemma cur_seq_cong: "t_workspaces s' = t_workspaces s \<Longrightarrow> cur_seq s' w = cur_seq s w"
  by (simp add: cur_seq_def)

lemma refs_to_cong:
  "t_event_refs s' = t_event_refs s \<Longrightarrow> t_snapshots s' = t_snapshots s
    \<Longrightarrow> t_snapshot_refs s' = t_snapshot_refs s \<Longrightarrow> refs_to s' oid = refs_to s oid"
  by (simp add: refs_to_def)

lemma ref_count_of_cong: "t_objects s' = t_objects s \<Longrightarrow> ref_count_of s' oid = ref_count_of s oid"
  by (simp add: ref_count_of_def)

lemma visible_cong:
  "t_ws_objects s' = t_ws_objects s \<Longrightarrow> objectVisibleToWorkspace w oid s' = objectVisibleToWorkspace w oid s"
  by (simp add: objectVisibleToWorkspace_def)

lemma root_ok_cong: "(\<And>w. cur_seq s' w = cur_seq s w) \<Longrightarrow> root_ok s' r = root_ok s r"
  by (simp add: root_ok_def)

lemma root_ok_mono:
  "root_ok s r \<Longrightarrow> (\<And>w. cur_seq s w \<le> cur_seq s' w) \<Longrightarrow> root_ok s' r"
  unfolding root_ok_def by (meson order_trans)

lemma refs_inv_exists: "refs_inv s \<Longrightarrow> refs_to s oid > 0 \<Longrightarrow> \<exists>n. ref_count_of s oid = Some n"
  by (cases "ref_count_of s oid") (auto simp: refs_inv_def dest!: spec [of _ oid])

lemma refs_inv_le: "refs_inv s \<Longrightarrow> ref_count_of s oid = Some n \<Longrightarrow> int (refs_to s oid) \<le> n"
  by (metis refs_inv_def count_ok.simps(2))

lemma vis_inv_object:
  "vis_inv s \<Longrightarrow> objectVisibleToWorkspace w oid s \<Longrightarrow> \<exists>n. ref_count_of s oid = Some n"
  using ref_count_of_exists [of s oid]
  by (force simp: vis_inv_def objectVisibleToWorkspace_def row_exists_iff key_simps)

lemma log_inv_fresh:
  "log_inv s \<Longrightarrow> e \<in> set (t_events s) \<Longrightarrow> ev_seq e \<le> t_last_seq s"
  by (meson log_inv_def order_trans)

lemma log_inv_ref_fresh:
  "log_inv s \<Longrightarrow> x \<in> set (t_event_refs s) \<Longrightarrow> xr_seq x \<le> t_last_seq s"
  using log_inv_fresh [of s] by (auto simp: log_inv_def)

section \<open>The floor statement keeps the invariant\<close>

lemma cur_seq_Recompute [simp]:
  "cur_seq (snd (RecomputeRetainedFloor now w s)) v = cur_seq s v"
  by (simp add: cur_seq_def find_ws_RecomputeRetainedFloor split: option.splits)

lemma floor_seq_Recompute:
  "floor_seq (snd (RecomputeRetainedFloor now w s)) v
    = (if v = w \<and> row_exists (is_ws w) (t_workspaces s)
       then computed_floor (cur_seq s w) (ActiveRoots w s) else floor_seq s v)"
  by (auto simp: floor_seq_def cur_seq_def find_ws_RecomputeRetainedFloor find_none_iff
      split: option.splits)
    (metis find_none_iff option.distinct(1))+

lemma ws_exists_Recompute [simp]:
  "row_exists (is_ws v) (t_workspaces (snd (RecomputeRetainedFloor now w s)))
    = row_exists (is_ws v) (t_workspaces s)"
proof -
  have "List.find (is_ws v) (t_workspaces (snd (RecomputeRetainedFloor now w s))) = None
      \<longleftrightarrow> List.find (is_ws v) (t_workspaces s) = None"
    by (simp add: find_ws_RecomputeRetainedFloor)
  then show ?thesis by (simp add: find_none_iff)
qed

lemma ActiveRoots_floor_range:
  assumes "roots_inv s" and "0 \<le> cur_seq s w"
  shows "0 \<le> computed_floor (cur_seq s w) (ActiveRoots w s)
    \<and> computed_floor (cur_seq s w) (ActiveRoots w s) \<le> cur_seq s w"
proof (rule computed_floor_range [OF assms(2)])
  fix r q
  assume "r \<in> set (ActiveRoots w s)" and q: "rt_snap_seq r = Some q"
  then have "r \<in> set (t_roots s)" and w: "rt_ws r = w" by (auto simp: set_ActiveRoots)
  with assms(1) have "root_ok s r" by (simp add: roots_inv_def)
  with q w show "0 < q \<and> q \<le> cur_seq s w" by (auto simp: root_ok_def)
qed

lemma keys_inv_Recompute: "keys_inv s \<Longrightarrow> keys_inv (snd (RecomputeRetainedFloor now w s))"
  by (auto simp: keys_inv_def frame_simps RecomputeRetainedFloor_def Let_def
      intro!: unique_key_update_where split: sum.splits)

lemma RecomputeRetainedFloor_inv:
  assumes "server_inv s"
  shows "server_inv (snd (RecomputeRetainedFloor now w s))" (is "server_inv ?s'")
proof -
  from assms have k: "keys_inv s" and l: "log_inv s" and r: "refs_inv s" and o: "roots_inv s"
    and v: "vis_inv s" and h: "heads_inv s" by (auto simp: server_inv_def)
  have "log_inv ?s'"
    using l by (simp add: log_inv_def frame_simps)
  moreover have "refs_inv ?s'"
    using r by (simp add: refs_inv_def frame_simps refs_to_cong [of ?s' s] ref_count_of_cong [of ?s' s])
  moreover have "roots_inv ?s'"
  proof -
    have "0 \<le> floor_seq ?s' v \<and> floor_seq ?s' v \<le> cur_seq s v" for v
      using o l ActiveRoots_floor_range [OF o, of w]
      by (auto simp: floor_seq_Recompute roots_inv_def log_inv_def)
    with o show ?thesis
      by (simp add: roots_inv_def frame_simps root_ok_def head_ok_def)
  qed
  moreover have "vis_inv ?s'"
    using v by (simp add: vis_inv_def frame_simps visible_cong [of ?s' s])
  moreover have "heads_inv ?s'"
    using h by (simp add: heads_inv_def head_covers_def frame_simps)
  ultimately show ?thesis
    using keys_inv_Recompute [OF k] by (simp add: server_inv_def)
qed

section \<open>Creating a workspace keeps the invariant\<close>

lemma find_ws_snoc:
  "\<not> row_exists (is_ws w) t \<Longrightarrow> ws_id r = w \<Longrightarrow>
    List.find (is_ws v) (t @ [r]) = (if v = w then Some r else List.find (is_ws v) t)"
  by (auto simp: find_append find_none_iff [symmetric] key_simps split: option.splits)

lemma EnsureWorkspace_inv:
  assumes "server_inv s"
  shows "server_inv (snd (EnsureWorkspaceWithinLimit now w k m s))"
proof (cases "snd (EnsureWorkspaceWithinLimit now w k m s) = s")
  case False
  define row where "row = \<lparr>ws_id = w, ws_pubkey = k, ws_current_seq = 0, ws_floor = 0,
    ws_created_at = now, ws_updated_at = now\<rparr>"
  let ?s' = "s\<lparr>t_workspaces := t_workspaces s @ [row]\<rparr>"
  from False EnsureWorkspace_tables [of now w k m s]
  have new: "\<not> row_exists (is_ws w) (t_workspaces s)"
    and s': "snd (EnsureWorkspaceWithinLimit now w k m s) = ?s'"
    by (auto simp: row_def)
  have f: "List.find (is_ws v) (t_workspaces ?s')
      = (if v = w then Some row else List.find (is_ws v) (t_workspaces s))" for v
    using find_ws_snoc [OF new, of row] by (simp add: row_def)
  have none: "List.find (is_ws w) (t_workspaces s) = None" using new by (simp add: find_none_iff)
  have c: "cur_seq ?s' v = cur_seq s v" and fl: "floor_seq ?s' v = floor_seq s v" for v
    using f none by (auto simp: cur_seq_def floor_seq_def row_def)
  have "unique_key ws_id (t_workspaces s @ [row])"
    using assms new by (intro unique_key_snoc [where p = "is_ws w"])
      (auto simp: server_inv_def keys_inv_def key_simps row_def)
  then have "server_inv ?s'"
    using assms by (auto simp: server_inv_def inv_defs c fl root_ok_cong [of ?s' s] head_ok_def head_covers_def
        refs_to_cong [of ?s' s] ref_count_of_cong [of ?s' s] visible_cong [of ?s' s])
  with s' show ?thesis by simp
qed (use assms in simp)

end
