(* ===== verification/Events.thy ===== *)
theory Events
  imports ServerInvariant
begin

text \<open>
  \<^verbatim>\<open>internal/server/db/events.go\<close>: accepting an event (the checks of the three
  kinds of event, the append to the log, the root and path-head rows, the object
  references, the bump of the workspace head, then the floor) and reading events
  back.  \<open>SubmitEvent\<close> is one transaction followed, for lifecycle events, by
  \<open>RecomputeRetainedFloor\<close>; a rejected event leaves the database as it was,
  which is the rollback of the source.
\<close>

record SubmitResult =
  su_AcceptedSeq :: int
  su_WorkspaceSeq :: int
  su_Event :: EventRecord

section \<open>Checks\<close>

definition validateEventRequest :: "EventSubmitRequest \<Rightarrow> db_error option" where
  "validateEventRequest req =
     (if rq_RootID req = '''' then Some RootIDRequired
      else case rq_EventType req of
        EventTypeOther t \<Rightarrow> Some (UnsupportedEventType t)
      | _ \<Rightarrow> None)"

definition missing_ref :: "string \<Rightarrow> string list \<Rightarrow> server_db \<Rightarrow> string option" where
  "missing_ref w refs s = List.find (\<lambda>oid. \<not> objectVisibleToWorkspace w oid s) refs"

definition check_root_add :: "string \<Rightarrow> EventSubmitRequest \<Rightarrow> server_db \<Rightarrow> db_error option" where
  "check_root_add w req s =
     (if rq_RootKind req \<noteq> RootKindDir \<and> rq_RootKind req \<noteq> RootKindFile then Some RootAddRequiresKind
      else case List.find (is_root w (rq_RootID req)) (t_roots s) of
        None \<Rightarrow> None
      | Some r \<Rightarrow> (if rt_removed_seq r = None then Some RootAlreadyActive else None))"

definition check_root_remove :: "string \<Rightarrow> EventSubmitRequest \<Rightarrow> server_db \<Rightarrow> db_error option" where
  "check_root_remove w req s =
     (case List.find (is_root w (rq_RootID req)) (t_roots s) of
        None \<Rightarrow> Some UnknownRoot
      | Some r \<Rightarrow>
          (case rq_RootCreatedSeq req of
             Some c \<Rightarrow> (if c \<noteq> rt_created_seq r then Some (RootIncarnationMismatch (rt_created_seq r))
                        else if rt_removed_seq r \<noteq> None then Some RootAlreadyRemoved else None)
           | None \<Rightarrow> (if rt_removed_seq r \<noteq> None then Some RootAlreadyRemoved else None)))"

definition check_head :: "string \<Rightarrow> EventSubmitRequest \<Rightarrow> int \<Rightarrow> server_db \<Rightarrow> db_error option" where
  "check_head w req base s =
     (case List.find (is_head w (rq_RootID req) (rq_PathID req)) (t_path_heads s) of
        None \<Rightarrow> (if base \<noteq> 0 then Some (PathHeadMismatch 0) else None)
      | Some h \<Rightarrow> (if ph_seq h > base then Some (PathHeadMismatch (ph_seq h)) else None))"

definition check_content :: "string \<Rightarrow> EventSubmitRequest \<Rightarrow> server_db \<Rightarrow> db_error option" where
  "check_content w req s =
     (case rq_BaseSeq req of
        None \<Rightarrow> Some ContentNeedsPathAndBase
      | Some base \<Rightarrow>
         if rq_PathID req = '''' then Some ContentNeedsPathAndBase
         else (case List.find (is_root w (rq_RootID req)) (t_roots s) of
            None \<Rightarrow> Some UnknownRoot
          | Some r \<Rightarrow>
              if rt_removed_seq r \<noteq> None then Some RootRemoved
              else (case rq_RootCreatedSeq req of
                 Some c \<Rightarrow> (if c \<noteq> rt_created_seq r
                            then Some (RootIncarnationMismatch (rt_created_seq r))
                            else check_head w req base s)
               | None \<Rightarrow> check_head w req base s)))"

definition check_event :: "string \<Rightarrow> EventSubmitRequest \<Rightarrow> server_db \<Rightarrow> db_error option" where
  "check_event w req s =
     (if List.find (is_ws w) (t_workspaces s) = None then Some ErrNoRows
      else case missing_ref w (rq_ObjectRefs req) s of
        Some oid \<Rightarrow> Some (MissingObjectRef oid)
      | None \<Rightarrow>
         (case rq_EventType req of
            EventRootAdd \<Rightarrow> check_root_add w req s
          | EventRootRemove \<Rightarrow> check_root_remove w req s
          | _ \<Rightarrow> check_content w req s))"

section \<open>Writes\<close>

definition nullString :: "string \<Rightarrow> string option" where
  "nullString v = (if v = '''' then None else Some v)"

definition entryKindFromEvent :: "EventType \<Rightarrow> string" where
  "entryKindFromEvent t = (case t of EventDirPut \<Rightarrow> ''dir'' | EventFilePut \<Rightarrow> ''file'' | _ \<Rightarrow> ''delete'')"

definition event_row_of :: "time \<Rightarrow> Session \<Rightarrow> EventSubmitRequest \<Rightarrow> int \<Rightarrow> event_row" where
  "event_row_of now sess req q =
     \<lparr>ev_seq = q, ev_ws = se_WorkspaceID sess, ev_root = rq_RootID req,
      ev_path = nullString (rq_PathID req), ev_type = rq_EventType req,
      ev_base_seq = rq_BaseSeq req, ev_author = se_DeviceID sess,
      ev_payload = rq_PayloadBlob req, ev_created_at = now\<rparr>"

definition insert_event :: "time \<Rightarrow> Session \<Rightarrow> EventSubmitRequest \<Rightarrow> server_db \<Rightarrow> server_db" where
  "insert_event now sess req s =
     s\<lparr>t_events := t_events s @ [event_row_of now sess req (t_last_seq s + 1)],
       t_last_seq := t_last_seq s + 1\<rparr>"

definition drop_heads :: "string \<Rightarrow> string \<Rightarrow> server_db \<Rightarrow> server_db" where
  "drop_heads w root s =
     s\<lparr>t_path_heads := delete_where (\<lambda>h. ph_ws h = w \<and> ph_root h = root) (t_path_heads s)\<rparr>"

definition write_root_add :: "time \<Rightarrow> string \<Rightarrow> EventSubmitRequest \<Rightarrow> int \<Rightarrow> server_db \<Rightarrow> server_db" where
  "write_root_add now w req q s =
     drop_heads w (rq_RootID req)
       (s\<lparr>t_roots := upsert (is_root w (rq_RootID req))
            \<lparr>rt_ws = w, rt_id = rq_RootID req, rt_kind = rq_RootKind req,
             rt_descriptor = rq_PayloadBlob req, rt_created_seq = q, rt_removed_seq = None,
             rt_snap_obj = None, rt_snap_seq = None, rt_created_at = now, rt_updated_at = now\<rparr>
            (\<lambda>r. r\<lparr>rt_kind := rq_RootKind req, rt_descriptor := rq_PayloadBlob req,
                   rt_created_seq := q, rt_removed_seq := None,
                   rt_snap_obj := None, rt_snap_seq := None, rt_updated_at := now\<rparr>)
            (t_roots s)\<rparr>)"

definition write_root_remove :: "time \<Rightarrow> string \<Rightarrow> EventSubmitRequest \<Rightarrow> int \<Rightarrow> server_db \<Rightarrow> server_db" where
  "write_root_remove now w req q s =
     drop_heads w (rq_RootID req)
       (s\<lparr>t_roots := update_where (is_root w (rq_RootID req))
            (\<lambda>r. r\<lparr>rt_removed_seq := Some q, rt_snap_obj := None, rt_snap_seq := None,
                   rt_updated_at := now\<rparr>)
            (t_roots s)\<rparr>)"

definition write_content :: "time \<Rightarrow> string \<Rightarrow> EventSubmitRequest \<Rightarrow> int \<Rightarrow> server_db \<Rightarrow> server_db" where
  "write_content now w req q s =
     (let deleted = (rq_EventType req = EventDelete);
          kind = entryKindFromEvent (rq_EventType req)
      in s\<lparr>t_path_heads := upsert (is_head w (rq_RootID req) (rq_PathID req))
            \<lparr>ph_ws = w, ph_root = rq_RootID req, ph_path = rq_PathID req, ph_kind = kind,
             ph_seq = q, ph_deleted = deleted, ph_updated_at = now\<rparr>
            (\<lambda>h. h\<lparr>ph_kind := kind, ph_seq := q, ph_deleted := deleted, ph_updated_at := now\<rparr>)
            (t_path_heads s)\<rparr>)"

definition write_tables :: "time \<Rightarrow> string \<Rightarrow> EventSubmitRequest \<Rightarrow> int \<Rightarrow> server_db \<Rightarrow> server_db" where
  "write_tables now w req q s =
     (case rq_EventType req of
        EventRootAdd \<Rightarrow> write_root_add now w req q s
      | EventRootRemove \<Rightarrow> write_root_remove now w req q s
      | _ \<Rightarrow> write_content now w req q s)"

definition add_event_ref :: "int \<Rightarrow> string \<Rightarrow> server_db \<Rightarrow> server_db" where
  "add_event_ref q oid s =
     incrementObjectRef oid
       (s\<lparr>t_event_refs := insert_or_ignore (is_event_ref q oid) \<lparr>xr_seq = q, xr_obj = oid\<rparr>
            (t_event_refs s)\<rparr>)"

definition touch_and_bump :: "time \<Rightarrow> Session \<Rightarrow> int \<Rightarrow> server_db \<Rightarrow> server_db" where
  "touch_and_bump now sess q s =
     s\<lparr>t_devices := update_where (is_device (se_WorkspaceID sess) (se_DeviceID sess))
         (\<lambda>d. d\<lparr>dv_last_seen := now\<rparr>) (t_devices s),
       t_workspaces := update_where (is_ws (se_WorkspaceID sess))
         (\<lambda>r. r\<lparr>ws_current_seq := q, ws_updated_at := now\<rparr>) (t_workspaces s)\<rparr>"

text \<open>The state the transaction commits; \<open>q\<close> is the seq the log assigned.\<close>

definition commit_event :: "time \<Rightarrow> Session \<Rightarrow> EventSubmitRequest \<Rightarrow> int \<Rightarrow> server_db \<Rightarrow> server_db" where
  "commit_event now sess req q s =
     touch_and_bump now sess q
       (fold (add_event_ref q) (rq_ObjectRefs req)
         (write_tables now (se_WorkspaceID sess) req q (insert_event now sess req s)))"

definition event_record_of :: "time \<Rightarrow> Session \<Rightarrow> EventSubmitRequest \<Rightarrow> int \<Rightarrow> EventRecord" where
  "event_record_of now sess req q =
     \<lparr>er_Seq = q, er_RootID = rq_RootID req, er_PathID = nullString (rq_PathID req),
      er_EventType = rq_EventType req, er_BaseSeq = rq_BaseSeq req,
      er_AuthorDeviceID = se_DeviceID sess, er_PayloadBlob = rq_PayloadBlob req,
      er_ObjectRefs = rq_ObjectRefs req, er_CreatedAt = now\<rparr>"

definition lifecycle_event :: "EventType \<Rightarrow> bool" where
  "lifecycle_event t \<longleftrightarrow> t = EventRootAdd \<or> t = EventRootRemove"

definition SubmitEvent ::
  "time \<Rightarrow> Session \<Rightarrow> EventSubmitRequest \<Rightarrow> server_db \<Rightarrow> (db_error + SubmitResult) \<times> server_db" where
  "SubmitEvent now sess req s =
     (case validateEventRequest req of
        Some e \<Rightarrow> (Inl e, s)
      | None \<Rightarrow>
         (case check_event (se_WorkspaceID sess) req s of
            Some e \<Rightarrow> (Inl e, s)
          | None \<Rightarrow>
             if t_last_seq s \<ge> max_int64 then (Inl DatabaseFull, s)
             else
               let q = t_last_seq s + 1;
                   committed = commit_event now sess req q s;
                   result = \<lparr>su_AcceptedSeq = q, su_WorkspaceSeq = q,
                             su_Event = event_record_of now sess req q\<rparr>
               in if lifecycle_event (rq_EventType req)
                  then (case RecomputeRetainedFloor now (se_WorkspaceID sess) committed of
                          (Inl e, s') \<Rightarrow> (Inl e, s')
                        | (Inr u, s') \<Rightarrow> (Inr result, s'))
                  else (Inr result, committed)))"

section \<open>Reading events\<close>

definition eventRefs :: "int \<Rightarrow> server_db \<Rightarrow> string list" where
  "eventRefs q s = sort (map xr_obj (filter (\<lambda>x. xr_seq x = q) (t_event_refs s)))"

definition record_of_row :: "server_db \<Rightarrow> event_row \<Rightarrow> EventRecord" where
  "record_of_row s e =
     \<lparr>er_Seq = ev_seq e, er_RootID = ev_root e, er_PathID = ev_path e, er_EventType = ev_type e,
      er_BaseSeq = ev_base_seq e, er_AuthorDeviceID = ev_author e, er_PayloadBlob = ev_payload e,
      er_ObjectRefs = eventRefs (ev_seq e) s, er_CreatedAt = ev_created_at e\<rparr>"

definition select_events :: "string \<Rightarrow> int \<Rightarrow> int \<Rightarrow> nat \<Rightarrow> server_db \<Rightarrow> event_row list" where
  "select_events w afterSeq currentSeq limit s =
     take limit (sort_key ev_seq
       (filter (\<lambda>e. ev_ws e = w \<and> ev_seq e > afterSeq \<and> ev_seq e \<le> currentSeq) (t_events s)))"

definition FetchEvents ::
  "string \<Rightarrow> int \<Rightarrow> nat \<Rightarrow> server_db \<Rightarrow> db_error + (EventRecord list \<times> int)" where
  "FetchEvents w afterSeq limit s =
     (case List.find (is_ws w) (t_workspaces s) of
        None \<Rightarrow> Inl ErrNoRows
      | Some r \<Rightarrow>
          (if afterSeq < ws_floor r then Inl (ResyncRequired (ws_floor r))
           else Inr (map (record_of_row s) (select_events w afterSeq (ws_current_seq r) limit s),
                     ws_current_seq r)))"

end
