(* ===== verification/Maintenance.thy ===== *)
theory Maintenance
  imports Events "HOL-Library.Multiset"
begin

text \<open>
  Retention: \<^verbatim>\<open>internal/server/db/maintenance.go\<close> and \<^verbatim>\<open>metrics.go\<close>.
  \<open>Prune\<close> is a sequence of SQL statements outside any transaction, so each
  loop body is modelled as the list of its statements, and \<open>run_stmts\<close> runs
  such a list; a crash inside the body runs a prefix of it.
\<close>

section \<open>Counts and the transfer metric\<close>

definition Counts :: "server_db \<Rightarrow> (string \<times> nat) list" where
  "Counts s = [(''workspaces'', length (t_workspaces s)), (''devices'', length (t_devices s)),
     (''roots'', length (t_roots s)), (''events'', length (t_events s)),
     (''objects'', length (t_objects s)), (''sessions'', length (t_sessions s))]"

definition AddTransferredBytes :: "int \<Rightarrow> server_db \<Rightarrow> server_db" where
  "AddTransferredBytes n s =
     (if n \<le> 0 then s
      else s\<lparr>t_transferred := Some (case t_transferred s of None \<Rightarrow> n | Some v \<Rightarrow> v + n)\<rparr>)"

definition TransferredBytes :: "server_db \<Rightarrow> int" where
  "TransferredBytes s = (case t_transferred s of None \<Rightarrow> 0 | Some v \<Rightarrow> v)"

section \<open>Pruning\<close>

type_synonym stmt = "server_db \<Rightarrow> server_db"

definition run_stmts :: "stmt list \<Rightarrow> server_db \<Rightarrow> server_db" where
  "run_stmts stmts s = fold (\<lambda>stmt s. stmt s) stmts s"

definition prunable_seqs :: "string \<Rightarrow> int \<Rightarrow> time \<Rightarrow> server_db \<Rightarrow> int list" where
  "prunable_seqs w floor cutoff s =
     map ev_seq (filter (\<lambda>e. ev_ws e = w \<and> ev_seq e \<le> floor \<and> ev_created_at e \<le> cutoff) (t_events s))"

definition prune_event_stmts :: "time \<Rightarrow> int \<Rightarrow> server_db \<Rightarrow> stmt list" where
  "prune_event_stmts now q s =
     map (decrementObjectRef now) (eventRefs q s)
     @ [\<lambda>s. s\<lparr>t_event_refs := delete_where (\<lambda>x. xr_seq x = q) (t_event_refs s)\<rparr>,
        \<lambda>s. s\<lparr>t_events := delete_where (\<lambda>e. ev_seq e = q) (t_events s)\<rparr>]"

definition prune_event :: "time \<Rightarrow> int \<Rightarrow> server_db \<Rightarrow> server_db" where
  "prune_event now q s = run_stmts (prune_event_stmts now q s) s"

definition prune_workspace_events ::
  "time \<Rightarrow> time \<Rightarrow> string \<times> int \<Rightarrow> nat \<times> server_db \<Rightarrow> nat \<times> server_db" where
  "prune_workspace_events now cutoff floor ns =
     fold (\<lambda>q (n, s). (n + 1, prune_event now q s))
       (prunable_seqs (fst floor) (snd floor) cutoff (snd ns)) ns"

definition prune_events :: "time \<Rightarrow> time \<Rightarrow> server_db \<Rightarrow> nat \<times> server_db" where
  "prune_events now cutoff s =
     fold (prune_workspace_events now cutoff) (map (\<lambda>r. (ws_id r, ws_floor r)) (t_workspaces s)) (0, s)"

text \<open>The \<open>LEFT JOIN\<close> with \<open>roots\<close>: a snapshot of an unknown or removed root, or
  one that the active root no longer advertises.\<close>

definition snapshot_prunable :: "time \<Rightarrow> server_db \<Rightarrow> snapshot_row \<Rightarrow> bool" where
  "snapshot_prunable cutoff s p \<longleftrightarrow> sp_created_at p \<le> cutoff \<and>
     (case List.find (is_root (sp_ws p) (sp_root p)) (t_roots s) of
        None \<Rightarrow> True
      | Some r \<Rightarrow> rt_removed_seq r \<noteq> None \<or>
          (case rt_snap_obj r of None \<Rightarrow> False | Some oid \<Rightarrow> sp_obj p \<noteq> oid))"

definition snapshotRefs :: "string \<Rightarrow> server_db \<Rightarrow> string list" where
  "snapshotRefs oid s = map rf_obj (filter (\<lambda>x. rf_snap x = oid) (t_snapshot_refs s))"

definition prune_snapshot_stmts :: "time \<Rightarrow> snapshot_row \<Rightarrow> server_db \<Rightarrow> stmt list" where
  "prune_snapshot_stmts now p s =
     map (decrementObjectRef now) (sp_obj p # snapshotRefs (sp_obj p) s)
     @ [\<lambda>s. s\<lparr>t_snapshot_refs := delete_where (\<lambda>x. rf_snap x = sp_obj p) (t_snapshot_refs s)\<rparr>,
        \<lambda>s. s\<lparr>t_snapshots := delete_where (is_snapshot (sp_ws p) (sp_root p) (sp_obj p)) (t_snapshots s)\<rparr>]"

definition prune_snapshot :: "time \<Rightarrow> snapshot_row \<Rightarrow> server_db \<Rightarrow> server_db" where
  "prune_snapshot now p s = run_stmts (prune_snapshot_stmts now p s) s"

definition prune_snapshots :: "time \<Rightarrow> time \<Rightarrow> server_db \<Rightarrow> nat \<times> server_db" where
  "prune_snapshots now cutoff s =
     (let ps = filter (snapshot_prunable cutoff s) (t_snapshots s)
      in (length ps, fold (prune_snapshot now) ps s))"

definition collectable :: "time \<Rightarrow> object_row \<Rightarrow> bool" where
  "collectable cutoff r \<longleftrightarrow> ob_refs r = 0 \<and>
     (case ob_zero_at r of None \<Rightarrow> ob_created_at r | Some z \<Rightarrow> z) \<le> cutoff"

definition prune_objects :: "time \<Rightarrow> server_db \<Rightarrow> string list \<times> server_db" where
  "prune_objects cutoff s =
     (let oids = map ob_id (filter (collectable cutoff) (t_objects s))
      in (oids, fold delete_object oids s))"

definition Prune :: "time \<Rightarrow> time \<Rightarrow> time \<Rightarrow> server_db \<Rightarrow> (nat \<times> nat \<times> string list) \<times> server_db" where
  "Prune now eventRetention zeroRefRetention s =
     (let (deletedEvents, s1) = prune_events now (now - eventRetention) s;
          (deletedSnapshots, s2) = prune_snapshots now (now - eventRetention) s1;
          (objectIDs, s3) = prune_objects (now - zeroRefRetention) s2
      in ((deletedEvents, deletedSnapshots, objectIDs), s3))"

section \<open>Running statement lists\<close>

lemma run_stmts_simps [simp]:
  "run_stmts [] s = s"
  "run_stmts (a # as) s = run_stmts as (a s)"
  "run_stmts (as @ bs) s = run_stmts bs (run_stmts as s)"
  by (simp_all add: run_stmts_def)

lemma run_stmts_map [simp]: "run_stmts (map f xs) s = fold f xs s"
  by (induction xs arbitrary: s) simp_all

lemma prune_event_eq:
  "prune_event now q s =
     (let s1 = fold (decrementObjectRef now) (eventRefs q s) s
      in s1\<lparr>t_event_refs := delete_where (\<lambda>x. xr_seq x = q) (t_event_refs s1),
            t_events := delete_where (\<lambda>e. ev_seq e = q) (t_events s1)\<rparr>)"
  by (simp add: prune_event_def prune_event_stmts_def Let_def)

lemma prune_snapshot_eq:
  "prune_snapshot now p s =
     (let s1 = fold (decrementObjectRef now) (sp_obj p # snapshotRefs (sp_obj p) s) s
      in s1\<lparr>t_snapshot_refs := delete_where (\<lambda>x. rf_snap x = sp_obj p) (t_snapshot_refs s1),
            t_snapshots := delete_where (is_snapshot (sp_ws p) (sp_root p) (sp_obj p)) (t_snapshots s1)\<rparr>)"
  by (simp add: prune_snapshot_def prune_snapshot_stmts_def Let_def)

text \<open>Decrementing touches the object rows only.\<close>

lemma fold_decr_objects:
  "fold (decrementObjectRef now) oids s = s\<lparr>t_objects := t_objects (fold (decrementObjectRef now) oids s)\<rparr>"
proof (induction oids arbitrary: s)
  case (Cons a oids)
  show ?case
    by (simp, subst Cons.IH) (simp add: decrementObjectRef_def)
qed simp

lemma fold_decr_frame [frame_simps]:
  "t_workspaces (fold (decrementObjectRef now) oids s) = t_workspaces s"
  "t_roots (fold (decrementObjectRef now) oids s) = t_roots s"
  "t_path_heads (fold (decrementObjectRef now) oids s) = t_path_heads s"
  "t_events (fold (decrementObjectRef now) oids s) = t_events s"
  "t_last_seq (fold (decrementObjectRef now) oids s) = t_last_seq s"
  "t_event_refs (fold (decrementObjectRef now) oids s) = t_event_refs s"
  "t_snapshots (fold (decrementObjectRef now) oids s) = t_snapshots s"
  "t_snapshot_refs (fold (decrementObjectRef now) oids s) = t_snapshot_refs s"
  "t_ws_objects (fold (decrementObjectRef now) oids s) = t_ws_objects s"
  by (subst fold_decr_objects, simp)+

lemma prune_event_tables [frame_simps]:
  "t_workspaces (prune_event now q s) = t_workspaces s"
  "t_roots (prune_event now q s) = t_roots s"
  "t_path_heads (prune_event now q s) = t_path_heads s"
  "t_last_seq (prune_event now q s) = t_last_seq s"
  "t_snapshots (prune_event now q s) = t_snapshots s"
  "t_snapshot_refs (prune_event now q s) = t_snapshot_refs s"
  "t_ws_objects (prune_event now q s) = t_ws_objects s"
  "t_events (prune_event now q s) = delete_where (\<lambda>e. ev_seq e = q) (t_events s)"
  "t_event_refs (prune_event now q s) = delete_where (\<lambda>x. xr_seq x = q) (t_event_refs s)"
  "t_objects (prune_event now q s) = t_objects (fold (decrementObjectRef now) (eventRefs q s) s)"
  by (simp_all add: prune_event_eq Let_def frame_simps)

lemma prune_snapshot_tables [frame_simps]:
  "t_workspaces (prune_snapshot now p s) = t_workspaces s"
  "t_roots (prune_snapshot now p s) = t_roots s"
  "t_path_heads (prune_snapshot now p s) = t_path_heads s"
  "t_events (prune_snapshot now p s) = t_events s"
  "t_last_seq (prune_snapshot now p s) = t_last_seq s"
  "t_event_refs (prune_snapshot now p s) = t_event_refs s"
  "t_ws_objects (prune_snapshot now p s) = t_ws_objects s"
  "t_snapshots (prune_snapshot now p s)
    = delete_where (is_snapshot (sp_ws p) (sp_root p) (sp_obj p)) (t_snapshots s)"
  "t_snapshot_refs (prune_snapshot now p s)
    = delete_where (\<lambda>x. rf_snap x = sp_obj p) (t_snapshot_refs s)"
  "t_objects (prune_snapshot now p s)
    = t_objects (fold (decrementObjectRef now) (sp_obj p # snapshotRefs (sp_obj p) s) s)"
  by (simp_all add: prune_snapshot_eq Let_def frame_simps del: fold_simps)

section \<open>Reference counts under pruning\<close>

lemma count_list_map_filter:
  "count_list (map f (filter p t)) v = count_rows (\<lambda>x. f x = v \<and> p x) t"
  by (induction t) (auto simp: count_rows_def)

lemma count_list_sort: "count_list (sort (xs :: 'a::linorder list)) v = count_list xs v"
  by (simp add: count_mset [symmetric])

lemma count_eventRefs:
  "count_list (eventRefs q s) oid = count_rows (\<lambda>x. xr_obj x = oid \<and> xr_seq x = q) (t_event_refs s)"
  by (simp add: eventRefs_def count_list_sort count_list_map_filter)

lemma count_snapshotRefs:
  "count_list (snapshotRefs sid s) oid = count_rows (\<lambda>x. rf_obj x = oid \<and> rf_snap x = sid) (t_snapshot_refs s)"
  by (simp add: snapshotRefs_def count_list_map_filter)

text \<open>Decrementing the counted references and deleting their rows keeps the
  counters right.\<close>

lemma refs_inv_release:
  assumes "refs_inv s" and "\<And>oid. refs_to s' oid + count_list oids oid = refs_to s oid"
    and "\<And>oid. ref_count_of s' oid = ref_count_of (fold (decrementObjectRef now) oids s) oid"
  shows "refs_inv s'"
  unfolding refs_inv_def
proof
  fix oid
  show "count_ok (ref_count_of s' oid) (refs_to s' oid)"
  proof (cases "ref_count_of s oid")
    case None
    then have "refs_to s oid = 0"
      using assms(1) by (metis refs_inv_def count_ok.simps(1))
    with None assms(2) [of oid] show ?thesis
      by (simp add: assms(3) refs.rc_fold_decr_none)
  next
    case (Some n)
    have le: "int (refs_to s oid) \<le> n" using refs_inv_le [OF assms(1) Some] .
    with assms(2) [of oid] have "int (count_list oids oid) \<le> n" by linarith
    from refs.rc_fold_decr [OF Some this] assms(2) [of oid] le show ?thesis
      by (simp add: assms(3))
  qed
qed

lemma refs_inv_prune_event:
  assumes "refs_inv s"
  shows "refs_inv (prune_event now q s)"
proof (rule refs_inv_release [OF assms])
  fix oid
  show "refs_to (prune_event now q s) oid + count_list (eventRefs q s) oid = refs_to s oid"
    using count_rows_split [of "\<lambda>x. xr_obj x = oid" "\<lambda>x. xr_seq x = q" "t_event_refs s"]
    by (simp add: refs_to_def frame_simps count_eventRefs)
  show "ref_count_of (prune_event now q s) oid
      = ref_count_of (fold (decrementObjectRef now) (eventRefs q s) s) oid"
    by (simp add: ref_count_of_def frame_simps)
qed

lemma count_rows_key:
  assumes "unique_key key t" and "p \<in> set t" and "\<And>r. q r = (key r = key p)"
  shows "count_rows q t = 1"
  using assms
proof (induction t)
  case (Cons a t)
  from Cons.prems(1) have u: "unique_key key t" and d: "key a \<notin> key ` set t"
    by (auto simp: unique_key_def)
  have IH: "p \<in> set t \<Longrightarrow> count_rows q t = 1"
    by (rule Cons.IH [OF u _ Cons.prems(3)])
  have c: "count_rows q (a # t) = (if q a then Suc (count_rows q t) else count_rows q t)"
    by (simp add: count_rows_def)
  show ?case
  proof (cases "a = p")
    case True
    have "\<not> q r" if "r \<in> set t" for r
      using d True that unfolding Cons.prems(3) by (metis image_eqI)
    then have "count_rows q t = 0" by (simp add: count_rows_zero_iff row_exists_iff)
    moreover have "q a" using True by (simp add: Cons.prems(3))
    ultimately show ?thesis using c by simp
  next
    case False
    with Cons.prems(2) have "p \<in> set t" by simp
    with d Cons.prems(3) IH c show ?thesis by (metis image_eqI)
  qed
qed simp

lemma refs_inv_prune_snapshot:
  assumes "refs_inv s" and "keys_inv s" and p: "p \<in> set (t_snapshots s)"
  shows "refs_inv (prune_snapshot now p s)"
proof (rule refs_inv_release [OF assms(1)])
  fix oid
  let ?k = "is_snapshot (sp_ws p) (sp_root p) (sp_obj p)"
  have "count_rows ?k (t_snapshots s) = 1"
    using assms(2) by (intro count_rows_key [where key = "\<lambda>r. (sp_ws r, sp_root r, sp_obj r)", OF _ p])
      (auto simp: keys_inv_def key_simps)
  moreover have "count_rows (\<lambda>r. sp_obj r = oid \<and> ?k r) (t_snapshots s)
      = (if sp_obj p = oid then count_rows ?k (t_snapshots s) else 0)"
  proof (cases "sp_obj p = oid")
    case True
    then have "(\<lambda>r. sp_obj r = oid \<and> ?k r) = ?k" by (auto simp: key_simps)
    with True show ?thesis by simp
  next
    case False
    then have "(\<lambda>r. sp_obj r = oid \<and> ?k r) = (\<lambda>r. False)" by (auto simp: key_simps)
    with False show ?thesis by (simp add: count_rows_def)
  qed
  ultimately show "refs_to (prune_snapshot now p s) oid
      + count_list (sp_obj p # snapshotRefs (sp_obj p) s) oid = refs_to s oid"
    using count_rows_split [of "\<lambda>x. rf_obj x = oid" "\<lambda>x. rf_snap x = sp_obj p" "t_snapshot_refs s"]
      count_rows_split [of "\<lambda>x. sp_obj x = oid" ?k "t_snapshots s"]
    by (auto simp: refs_to_def frame_simps count_snapshotRefs)
  show "ref_count_of (prune_snapshot now p s) oid
      = ref_count_of (fold (decrementObjectRef now) (sp_obj p # snapshotRefs (sp_obj p) s) s) oid"
    by (simp add: ref_count_of_def frame_simps del: fold_simps)
qed

end
