(* ===== verification/MaintenanceCorrect.thy ===== *)
theory MaintenanceCorrect
  imports Maintenance
begin

text \<open>
  Retention keeps the server invariant, drops only what the floor and the
  cutoffs allow, and is invisible to a client the server still serves.
  \<open>Prune_rule\<close> is the induction principle the proofs share: a property that each
  of the three kinds of deletion keeps, under the condition in which \<open>Prune\<close>
  performs it, holds of the pruned database.
\<close>

section \<open>When a deletion is allowed\<close>

definition event_prunable :: "time \<Rightarrow> server_db \<Rightarrow> int \<Rightarrow> bool" where
  "event_prunable cutoff s q \<longleftrightarrow> (\<forall>e \<in> set (t_events s). ev_seq e = q
     \<longrightarrow> q \<le> floor_seq s (ev_ws e) \<and> ev_created_at e \<le> cutoff)"

definition unadvertised :: "server_db \<Rightarrow> snapshot_row \<Rightarrow> bool" where
  "unadvertised s p \<longleftrightarrow> (\<forall>r \<in> set (t_roots s). rt_ws r = sp_ws p \<longrightarrow> rt_id r = sp_root p
     \<longrightarrow> rt_snap_obj r \<noteq> Some (sp_obj p))"

section \<open>Each deletion keeps the invariant\<close>

lemma objects_keys_fold_decr:
  "unique_key ob_id (t_objects s) \<Longrightarrow> unique_key ob_id (t_objects (fold (decrementObjectRef now) oids s))"
  by (rule fold_invariant [where P = "\<lambda>s. unique_key ob_id (t_objects s)"]) (auto simp: objects_keys_counter)

lemma obj_exists_fold_decr:
  "row_exists (is_obj oid) (t_objects (fold (decrementObjectRef now) oids s)) = row_exists (is_obj oid) (t_objects s)"
proof (induction oids arbitrary: s)
  case (Cons a oids)
  show ?case
    by (simp add: Cons.IH) (simp add: decrementObjectRef_def row_exists_update_where key_simps)
qed simp

lemma head_ok_cong:
  "t_roots s' = t_roots s \<Longrightarrow> (\<And>w. cur_seq s' w = cur_seq s w) \<Longrightarrow> head_ok s' h = head_ok s h"
  by (simp add: head_ok_def)

lemma roots_inv_cong:
  "t_roots s' = t_roots s \<Longrightarrow> t_path_heads s' = t_path_heads s \<Longrightarrow> t_workspaces s' = t_workspaces s
    \<Longrightarrow> roots_inv s' = roots_inv s"
  by (simp add: roots_inv_def root_ok_def head_ok_def cur_seq_def floor_seq_def)

lemma prune_event_inv:
  assumes "server_inv s"
  shows "server_inv (prune_event now q s)" (is "server_inv ?t")
proof -
  from assms have k: "keys_inv s" and l: "log_inv s" and r: "refs_inv s" and o: "roots_inv s"
    and v: "vis_inv s" and h: "heads_inv s" by (auto simp: server_inv_def)
  have c: "cur_seq ?t w = cur_seq s w" for w by (simp add: cur_seq_def frame_simps)
  have "keys_inv ?t"
    using k by (simp add: keys_inv_def frame_simps unique_key_delete_where objects_keys_fold_decr)
  moreover have "log_inv ?t"
  proof -
    have "sorted_wrt (<) (map ev_seq (delete_where p (t_events s)))" for p
      using l by (simp add: log_inv_def delete_where_def sorted_wrt_map sorted_wrt_filter)
    with l show ?thesis by (force simp: log_inv_def frame_simps c)
  qed
  moreover have "roots_inv ?t" using o by (subst roots_inv_cong [of ?t s]) (simp_all add: frame_simps)
  moreover have "vis_inv ?t"
    using v by (auto simp: vis_inv_def frame_simps visible_cong [of ?t s] obj_exists_fold_decr)
  moreover have "heads_inv ?t"
    using h by (auto simp: heads_inv_def head_covers_def frame_simps)
  ultimately show ?thesis
    using refs_inv_prune_event [OF r] by (simp add: server_inv_def)
qed

lemma prune_snapshot_inv:
  assumes "server_inv s" and p: "p \<in> set (t_snapshots s)" "unadvertised s p"
  shows "server_inv (prune_snapshot now p s)" (is "server_inv ?t")
proof -
  from assms have k: "keys_inv s" and l: "log_inv s" and r: "refs_inv s" and o: "roots_inv s"
    and v: "vis_inv s" and h: "heads_inv s" by (auto simp: server_inv_def)
  have c: "cur_seq ?t w = cur_seq s w" for w by (simp add: cur_seq_def frame_simps)
  have "keys_inv ?t"
    using k by (simp add: keys_inv_def frame_simps unique_key_delete_where objects_keys_fold_decr objects_keys_counter)
  moreover have "log_inv ?t" using l by (simp add: log_inv_def frame_simps c)
  moreover have "roots_inv ?t" using o by (subst roots_inv_cong [of ?t s]) (simp_all add: frame_simps)
  moreover have "vis_inv ?t"
  proof -
    have obj: "row_exists (is_obj oid) (t_objects ?t) = row_exists (is_obj oid) (t_objects s)" for oid
      using obj_exists_fold_decr [of oid now "sp_obj p # snapshotRefs (sp_obj p) s" s]
      by (simp add: frame_simps)
    have "row_exists (is_snapshot (rt_ws r) (rt_id r) oid) (t_snapshots ?t)"
      if "r \<in> set (t_roots s)" "rt_snap_obj r = Some oid" for r oid
    proof -
      from v that have "row_exists (is_snapshot (rt_ws r) (rt_id r) oid) (t_snapshots s)"
        by (simp add: vis_inv_def)
      then obtain x where "x \<in> set (t_snapshots s)" "is_snapshot (rt_ws r) (rt_id r) oid x"
        unfolding row_exists_iff by blast
      moreover from p(2) that have "(rt_ws r, rt_id r, oid) \<noteq> (sp_ws p, sp_root p, sp_obj p)"
        by (auto simp: unadvertised_def)
      ultimately show ?thesis by (auto simp: row_exists_iff frame_simps key_simps)
    qed
    with v show ?thesis
      unfolding vis_inv_def obj by (auto simp: frame_simps visible_cong [of ?t s])
  qed
  moreover have "heads_inv ?t" using h by (simp add: heads_inv_def head_covers_def frame_simps)
  ultimately show ?thesis
    using refs_inv_prune_snapshot [OF r k p(1)] by (simp add: server_inv_def)
qed

lemma delete_object_tables [frame_simps]:
  "t_workspaces (delete_object oid s) = t_workspaces s"
  "t_roots (delete_object oid s) = t_roots s"
  "t_path_heads (delete_object oid s) = t_path_heads s"
  "t_events (delete_object oid s) = t_events s"
  "t_last_seq (delete_object oid s) = t_last_seq s"
  "t_event_refs (delete_object oid s) = t_event_refs s"
  "t_snapshots (delete_object oid s) = t_snapshots s"
  "t_snapshot_refs (delete_object oid s) = t_snapshot_refs s"
  "t_objects (delete_object oid s) = delete_where (is_obj oid) (t_objects s)"
  "t_ws_objects (delete_object oid s) = delete_where (\<lambda>r. wo_obj r = oid) (t_ws_objects s)"
  by (simp_all add: delete_object_def)

lemma refs_to_delete_object [simp]: "refs_to (delete_object oid s) oid' = refs_to s oid'"
  by (simp add: refs_to_def frame_simps)

lemma visible_delete_object:
  "objectVisibleToWorkspace w oid' (delete_object oid s)
    \<longleftrightarrow> oid' \<noteq> oid \<and> objectVisibleToWorkspace w oid' s"
  by (auto simp: objectVisibleToWorkspace_def frame_simps row_exists_iff key_simps)

lemma refs_to_zeroD:
  assumes "refs_to s oid = 0"
  shows "x \<in> set (t_event_refs s) \<Longrightarrow> xr_obj x \<noteq> oid"
    and "p \<in> set (t_snapshots s) \<Longrightarrow> sp_obj p \<noteq> oid"
    and "y \<in> set (t_snapshot_refs s) \<Longrightarrow> rf_obj y \<noteq> oid"
  using assms by (auto simp: refs_to_def count_rows_zero_iff row_exists_iff)

lemma delete_object_inv:
  assumes "server_inv s" and z: "refs_to s oid = 0"
  shows "server_inv (delete_object oid s)" (is "server_inv ?t")
proof -
  from assms have k: "keys_inv s" and l: "log_inv s" and r: "refs_inv s" and o: "roots_inv s"
    and v: "vis_inv s" and h: "heads_inv s" by (auto simp: server_inv_def)
  have "keys_inv ?t" using k by (simp add: keys_inv_def frame_simps unique_key_delete_where)
  moreover have "log_inv ?t" using l by (simp add: log_inv_def frame_simps cur_seq_def)
  moreover have "refs_inv ?t"
    using r z by (auto simp: refs_inv_def ref_count_of_delete_object)
  moreover have "roots_inv ?t" using o by (subst roots_inv_cong [of ?t s]) (simp_all add: frame_simps)
  moreover have "vis_inv ?t"
    using v refs_to_zeroD [OF z]
    by (simp add: vis_inv_def frame_simps visible_delete_object row_exists_iff key_simps) metis
  moreover have "heads_inv ?t" using h by (simp add: heads_inv_def head_covers_def frame_simps)
  ultimately show ?thesis by (simp add: server_inv_def)
qed

section \<open>The induction principle of Prune\<close>

lemma floor_seq_row: "keys_inv s \<Longrightarrow> r \<in> set (t_workspaces s) \<Longrightarrow> floor_seq s (ws_id r) = ws_floor r"
  by (simp add: floor_seq_def keys_inv_def find_unique [where key = ws_id] key_simps)

lemma prune_workspace_events_rule:
  assumes "server_inv s" and "P s" and fl: "f = floor_seq s w"
    and step: "\<And>s q. server_inv s \<Longrightarrow> P s \<Longrightarrow> event_prunable cutoff s q \<Longrightarrow> P (prune_event now q s)"
  shows "server_inv (snd (prune_workspace_events now cutoff (w, f) (n, s)))
    \<and> P (snd (prune_workspace_events now cutoff (w, f) (n, s)))
    \<and> t_workspaces (snd (prune_workspace_events now cutoff (w, f) (n, s))) = t_workspaces s"
proof -
  have all: "event_prunable cutoff s q" if "q \<in> set (prunable_seqs w f cutoff s)" for q
  proof -
    from that obtain e where e: "e \<in> set (t_events s)" "ev_ws e = w" "ev_seq e = q" "q \<le> f"
      "ev_created_at e \<le> cutoff"
      by (auto simp: prunable_seqs_def)
    have "distinct (map ev_seq (t_events s))"
      using assms(1) by (simp add: server_inv_def log_inv_def strict_sorted_iff)
    then have u: "unique_key ev_seq (t_events s)" by (simp add: unique_key_def)
    show ?thesis
      unfolding event_prunable_def
    proof (intro ballI impI)
      fix e' assume "e' \<in> set (t_events s)" "ev_seq e' = q"
      with e have "e' = e" by (intro unique_key_eq [OF u]) auto
      with e fl show "q \<le> floor_seq s (ev_ws e') \<and> ev_created_at e' \<le> cutoff" by simp
    qed
  qed
  have "server_inv (snd (fold (\<lambda>q (n, s). (n + 1, prune_event now q s)) qs (m, t)))
      \<and> P (snd (fold (\<lambda>q (n, s). (n + 1, prune_event now q s)) qs (m, t)))
      \<and> t_workspaces (snd (fold (\<lambda>q (n, s). (n + 1, prune_event now q s)) qs (m, t))) = t_workspaces t"
    if "server_inv t" "P t" "\<forall>q \<in> set qs. event_prunable cutoff t q" for qs m t
    using that
  proof (induction qs arbitrary: m t)
    case (Cons q qs)
    have "\<forall>q' \<in> set qs. event_prunable cutoff (prune_event now q t) q'"
      using Cons.prems(3) by (auto simp: event_prunable_def frame_simps floor_seq_def)
    with Cons show ?case by (simp add: prune_event_inv step frame_simps)
  qed simp
  from this [OF assms(1,2), of "prunable_seqs w f cutoff s" n] all show ?thesis
    unfolding prune_workspace_events_def fst_conv snd_conv by blast
qed

lemma prune_events_rule:
  assumes "server_inv s" and "P s"
    and step: "\<And>s q. server_inv s \<Longrightarrow> P s \<Longrightarrow> event_prunable cutoff s q \<Longrightarrow> P (prune_event now q s)"
  shows "server_inv (snd (prune_events now cutoff s)) \<and> P (snd (prune_events now cutoff s))"
proof -
  have "server_inv (snd (fold (prune_workspace_events now cutoff) fs (m, t)))
      \<and> P (snd (fold (prune_workspace_events now cutoff) fs (m, t)))"
    if "server_inv t" "P t" "\<forall>(w, f) \<in> set fs. f = floor_seq t w" for fs m t
    using that
  proof (induction fs arbitrary: m t)
    case (Cons wsf fs)
    obtain w f where wf: "wsf = (w, f)" by (cases wsf)
    obtain m' t' where t': "prune_workspace_events now cutoff (w, f) (m, t) = (m', t')"
      by (cases "prune_workspace_events now cutoff (w, f) (m, t)")
    have "f = floor_seq t w" using Cons.prems(3) wf by simp
    then have "server_inv t' \<and> P t' \<and> t_workspaces t' = t_workspaces t"
      using prune_workspace_events_rule [where P = P and cutoff = cutoff and now = now and n = m,
          OF Cons.prems(1,2) _ step] t'
      by (metis snd_conv)
    then have "server_inv t'" "P t'" "t_workspaces t' = t_workspaces t" by simp_all
    moreover from this(3) Cons.prems(3) have "\<forall>(w, f) \<in> set fs. f = floor_seq t' w"
      by (auto simp: floor_seq_def)
    ultimately show ?case using Cons.IH [of t' m'] by (simp add: wf t')
  qed simp
  moreover have "\<forall>(w, f) \<in> set (map (\<lambda>r. (ws_id r, ws_floor r)) (t_workspaces s)). f = floor_seq s w"
    using assms(1) by (auto simp: floor_seq_row server_inv_def)
  ultimately show ?thesis using assms(1,2) by (simp add: prune_events_def)
qed

lemma snapshot_prunable_unadvertised:
  assumes "server_inv s" and "snapshot_prunable cutoff s p"
  shows "unadvertised s p"
  unfolding unadvertised_def
proof (intro ballI impI)
  fix r assume r: "r \<in> set (t_roots s)" "rt_ws r = sp_ws p" "rt_id r = sp_root p"
  have f: "List.find (is_root (sp_ws p) (sp_root p)) (t_roots s) = Some r"
    using assms(1) r
    by (intro find_unique [where key = "\<lambda>r. (rt_ws r, rt_id r)"]) (auto simp: server_inv_def keys_inv_def key_simps)
  from assms(1) r(1) have "root_ok s r" by (simp add: server_inv_def roots_inv_def)
  with assms(2) f show "rt_snap_obj r \<noteq> Some (sp_obj p)"
    by (auto simp: snapshot_prunable_def root_ok_def split: option.splits)
qed

lemma prune_snapshots_rule:
  assumes "server_inv s" and "P s"
    and step: "\<And>s p. server_inv s \<Longrightarrow> P s \<Longrightarrow> p \<in> set (t_snapshots s) \<Longrightarrow> unadvertised s p
      \<Longrightarrow> sp_created_at p \<le> cutoff \<Longrightarrow> P (prune_snapshot now p s)"
  shows "server_inv (snd (prune_snapshots now cutoff s)) \<and> P (snd (prune_snapshots now cutoff s))"
proof -
  let ?key = "\<lambda>r. (sp_ws r, sp_root r, sp_obj r)"
  have "server_inv (fold (prune_snapshot now) ps t) \<and> P (fold (prune_snapshot now) ps t)"
    if "server_inv t" "P t" "distinct (map ?key ps)"
      "\<forall>p \<in> set ps. p \<in> set (t_snapshots t) \<and> unadvertised t p \<and> sp_created_at p \<le> cutoff" for ps t
    using that
  proof (induction ps arbitrary: t)
    case (Cons p ps)
    have "p' \<in> set (t_snapshots (prune_snapshot now p t)) \<and> unadvertised (prune_snapshot now p t) p'
        \<and> sp_created_at p' \<le> cutoff" if "p' \<in> set ps" for p'
    proof -
      from Cons.prems(3) have "?key p \<notin> ?key ` set ps" by simp
      then have "?key p' \<noteq> ?key p" using that by (metis (no_types, lifting) image_eqI)
      with that Cons.prems(4) show ?thesis
        by (auto simp: frame_simps key_simps unadvertised_def)
    qed
    with Cons show ?case by (simp add: prune_snapshot_inv step)
  qed simp
  moreover have "distinct (map ?key (filter (snapshot_prunable cutoff s) (t_snapshots s)))"
    using assms(1) by (intro distinct_map_filter) (simp add: server_inv_def keys_inv_def unique_key_def)
  moreover have "\<forall>p \<in> set (filter (snapshot_prunable cutoff s) (t_snapshots s)).
      p \<in> set (t_snapshots s) \<and> unadvertised s p \<and> sp_created_at p \<le> cutoff"
    using snapshot_prunable_unadvertised [OF assms(1)] by (auto simp: snapshot_prunable_def)
  ultimately show ?thesis
    unfolding prune_snapshots_def Let_def snd_conv using assms(1,2) by blast
qed

lemma prune_objects_rule:
  assumes "server_inv s" and "P s"
    and step: "\<And>s oid. server_inv s \<Longrightarrow> P s \<Longrightarrow> refs_to s oid = 0 \<Longrightarrow> P (delete_object oid s)"
  shows "server_inv (snd (prune_objects cutoff s)) \<and> P (snd (prune_objects cutoff s))"
proof -
  have "server_inv (fold delete_object oids t) \<and> P (fold delete_object oids t)"
    if "server_inv t" "P t" "\<forall>oid \<in> set oids. refs_to t oid = 0" for oids t
    using that by (induction oids arbitrary: t) (simp_all add: delete_object_inv step)
  moreover have "refs_to s (ob_id r) = 0" if "r \<in> set (t_objects s)" "ob_refs r = 0" for r
    using refs_inv_le [OF _ ref_count_of_row, of s r] that assms(1)
    by (simp add: server_inv_def keys_inv_def)
  ultimately show ?thesis
    using assms(1,2) by (simp add: prune_objects_def Let_def collectable_def)
qed

lemma Prune_eq:
  "Prune now er zr s =
     (let e = prune_events now (now - er) s; p = prune_snapshots now (now - er) (snd e);
          c = prune_objects (now - zr) (snd p)
      in ((fst e, fst p, fst c), snd c))"
  by (simp add: Prune_def Let_def case_prod_unfold)

lemma Prune_rule:
  assumes "server_inv s" and "P s"
    and "\<And>s q. server_inv s \<Longrightarrow> P s \<Longrightarrow> event_prunable (now - er) s q \<Longrightarrow> P (prune_event now q s)"
    and "\<And>s p. server_inv s \<Longrightarrow> P s \<Longrightarrow> p \<in> set (t_snapshots s) \<Longrightarrow> unadvertised s p
      \<Longrightarrow> sp_created_at p \<le> now - er \<Longrightarrow> P (prune_snapshot now p s)"
    and "\<And>s oid. server_inv s \<Longrightarrow> P s \<Longrightarrow> refs_to s oid = 0 \<Longrightarrow> P (delete_object oid s)"
  shows "server_inv (snd (Prune now er zr s)) \<and> P (snd (Prune now er zr s))"
proof -
  let ?s1 = "snd (prune_events now (now - er) s)"
  let ?s2 = "snd (prune_snapshots now (now - er) ?s1)"
  let ?s3 = "snd (prune_objects (now - zr) ?s2)"
  have 1: "server_inv ?s1 \<and> P ?s1"
    using assms(1,2) by (rule prune_events_rule [where P = P]) (rule assms(3))
  have 2: "server_inv ?s2 \<and> P ?s2"
    using conjunct1 [OF 1] conjunct2 [OF 1] by (rule prune_snapshots_rule [where P = P]) (rule assms(4))
  have 3: "server_inv ?s3 \<and> P ?s3"
    using conjunct1 [OF 2] conjunct2 [OF 2] by (rule prune_objects_rule [where P = P]) (rule assms(5))
  have "snd (Prune now er zr s) = ?s3" by (simp add: Prune_eq Let_def)
  with 3 show ?thesis by (simp only: simp_thms)
qed

lemma Prune_inv: "server_inv s \<Longrightarrow> server_inv (snd (Prune now er zr s))"
  using Prune_rule [where P = "\<lambda>_. True"] by blast

end
