(* ===== verification/Purge.thy ===== *)
theory Purge
  imports MaintenanceCorrect
begin

text \<open>
  \<^verbatim>\<open>internal/server/db/purge.go\<close>: deleting one workspace.  The whole of
  \<open>PurgeWorkspace\<close> is one transaction; its statements are composed in the order
  of the source.  The reference counts are recomputed from the remaining rows,
  then the candidate objects nobody owns or refers to any more are deleted.
\<close>

record PurgeObject =
  po_ObjectID :: string
  po_SizeBytes :: int

record PurgeResult =
  pr_Devices :: nat
  pr_Sessions :: nat
  pr_Roots :: nat
  pr_Events :: nat
  pr_Snapshots :: nat
  pr_Objects :: "PurgeObject list"

text \<open>The join yields one row per \<open>workspace_objects\<close> row with an object, ordered by id.\<close>

definition WorkspacePurgeObjects :: "string \<Rightarrow> server_db \<Rightarrow> PurgeObject list" where
  "WorkspacePurgeObjects w s =
     sort_key po_ObjectID
       (concat (map (\<lambda>wo. map (\<lambda>o'. \<lparr>po_ObjectID = wo_obj wo, po_SizeBytes = ob_size o'\<rparr>)
                  (filter (is_obj (wo_obj wo)) (t_objects s)))
         (filter (\<lambda>wo. wo_ws wo = w \<and>
            \<not> row_exists (\<lambda>other. wo_obj other = wo_obj wo \<and> wo_ws other \<noteq> w) (t_ws_objects s))
           (t_ws_objects s))))"

definition purge_event_refs :: "string \<Rightarrow> server_db \<Rightarrow> server_db" where
  "purge_event_refs w s =
     s\<lparr>t_event_refs := delete_where
         (\<lambda>x. row_exists (\<lambda>e. ev_seq e = xr_seq x \<and> ev_ws e = w) (t_events s)) (t_event_refs s)\<rparr>"

definition purge_snapshot_refs :: "string \<Rightarrow> server_db \<Rightarrow> server_db" where
  "purge_snapshot_refs w s =
     s\<lparr>t_snapshot_refs := delete_where
         (\<lambda>x. row_exists (\<lambda>p. sp_obj p = rf_snap x \<and> sp_ws p = w \<and>
                \<not> row_exists (\<lambda>other. sp_obj other = sp_obj p \<and> sp_ws other \<noteq> w) (t_snapshots s))
              (t_snapshots s))
         (t_snapshot_refs s)\<rparr>"

definition purge_rows :: "string \<Rightarrow> server_db \<Rightarrow> server_db" where
  "purge_rows w s =
     (let s1 = s\<lparr>t_sessions := delete_where (\<lambda>r. sn_ws r = w) (t_sessions s),
                 t_challenges := delete_where (\<lambda>r. cl_ws r = w) (t_challenges s),
                 t_devices := delete_where (\<lambda>r. dv_ws r = w) (t_devices s)\<rparr>;
          s2 = purge_event_refs w s1;
          s3 = s2\<lparr>t_events := delete_where (\<lambda>e. ev_ws e = w) (t_events s2)\<rparr>;
          s4 = purge_snapshot_refs w s3
      in s4\<lparr>t_snapshots := delete_where (\<lambda>p. sp_ws p = w) (t_snapshots s4),
            t_path_heads := delete_where (\<lambda>h. ph_ws h = w) (t_path_heads s4),
            t_roots := delete_where (\<lambda>r. rt_ws r = w) (t_roots s4),
            t_ws_objects := delete_where (\<lambda>r. wo_ws r = w) (t_ws_objects s4),
            t_workspaces := delete_where (is_ws w) (t_workspaces s4)\<rparr>)"

definition recount_refs :: "time \<Rightarrow> server_db \<Rightarrow> server_db" where
  "recount_refs now s =
     s\<lparr>t_objects := map (\<lambda>o'. o'\<lparr>ob_refs := int (refs_to s (ob_id o')),
           ob_zero_at := (if refs_to s (ob_id o') = 0
              then Some (case ob_zero_at o' of None \<Rightarrow> now | Some z \<Rightarrow> z) else None)\<rparr>) (t_objects s)\<rparr>"

definition unused_object :: "string \<Rightarrow> server_db \<Rightarrow> bool" where
  "unused_object oid s \<longleftrightarrow> \<not> row_exists (\<lambda>r. wo_obj r = oid) (t_ws_objects s)
     \<and> \<not> row_exists (\<lambda>x. xr_obj x = oid) (t_event_refs s)
     \<and> \<not> row_exists (\<lambda>p. sp_obj p = oid) (t_snapshots s)
     \<and> \<not> row_exists (\<lambda>x. rf_obj x = oid) (t_snapshot_refs s)"

definition purge_candidate :: "PurgeObject \<Rightarrow> PurgeObject list \<times> server_db \<Rightarrow> PurgeObject list \<times> server_db" where
  "purge_candidate object acc_s =
     (let (acc, s) = acc_s in
      if row_exists (is_obj (po_ObjectID object)) (t_objects s) \<and> unused_object (po_ObjectID object) s
      then (acc @ [object], delete_object (po_ObjectID object) s)
      else (acc, s))"

definition PurgeWorkspace ::
  "string \<Rightarrow> PurgeObject list \<Rightarrow> time \<Rightarrow> server_db \<Rightarrow> (db_error + PurgeResult) \<times> server_db" where
  "PurgeWorkspace w candidates now s =
     (if \<not> row_exists (is_ws w) (t_workspaces s) then (Inl ErrWorkspaceNotFound, s)
      else
        let (objects, s') = fold purge_candidate candidates ([], recount_refs now (purge_rows w s))
        in (Inr \<lparr>pr_Devices = count_rows (\<lambda>r. dv_ws r = w) (t_devices s),
                 pr_Sessions = count_rows (\<lambda>r. sn_ws r = w) (t_sessions s),
                 pr_Roots = count_rows (\<lambda>r. rt_ws r = w) (t_roots s),
                 pr_Events = count_rows (\<lambda>e. ev_ws e = w) (t_events s),
                 pr_Snapshots = count_rows (\<lambda>p. sp_ws p = w) (t_snapshots s),
                 pr_Objects = objects\<rparr>, s'))"

section \<open>What a purge leaves\<close>

lemma purge_rows_tables [frame_simps]:
  "t_last_seq (purge_rows w s) = t_last_seq s"
  "t_objects (purge_rows w s) = t_objects s"
  "t_transferred (purge_rows w s) = t_transferred s"
  "t_sessions (purge_rows w s) = delete_where (\<lambda>r. sn_ws r = w) (t_sessions s)"
  "t_challenges (purge_rows w s) = delete_where (\<lambda>r. cl_ws r = w) (t_challenges s)"
  "t_devices (purge_rows w s) = delete_where (\<lambda>r. dv_ws r = w) (t_devices s)"
  "t_workspaces (purge_rows w s) = delete_where (is_ws w) (t_workspaces s)"
  "t_roots (purge_rows w s) = delete_where (\<lambda>r. rt_ws r = w) (t_roots s)"
  "t_path_heads (purge_rows w s) = delete_where (\<lambda>h. ph_ws h = w) (t_path_heads s)"
  "t_events (purge_rows w s) = delete_where (\<lambda>e. ev_ws e = w) (t_events s)"
  "t_snapshots (purge_rows w s) = delete_where (\<lambda>p. sp_ws p = w) (t_snapshots s)"
  "t_ws_objects (purge_rows w s) = delete_where (\<lambda>r. wo_ws r = w) (t_ws_objects s)"
  "t_event_refs (purge_rows w s) = t_event_refs (purge_event_refs w s)"
  "t_snapshot_refs (purge_rows w s) = t_snapshot_refs (purge_snapshot_refs w s)"
  by (simp_all add: purge_rows_def purge_event_refs_def purge_snapshot_refs_def Let_def)

lemma recount_refs_tables [frame_simps]:
  "t_workspaces (recount_refs now s) = t_workspaces s"
  "t_devices (recount_refs now s) = t_devices s"
  "t_sessions (recount_refs now s) = t_sessions s"
  "t_challenges (recount_refs now s) = t_challenges s"
  "t_roots (recount_refs now s) = t_roots s"
  "t_path_heads (recount_refs now s) = t_path_heads s"
  "t_events (recount_refs now s) = t_events s"
  "t_last_seq (recount_refs now s) = t_last_seq s"
  "t_event_refs (recount_refs now s) = t_event_refs s"
  "t_snapshots (recount_refs now s) = t_snapshots s"
  "t_snapshot_refs (recount_refs now s) = t_snapshot_refs s"
  "t_ws_objects (recount_refs now s) = t_ws_objects s"
  by (simp_all add: recount_refs_def)

lemma refs_to_recount [simp]: "refs_to (recount_refs now s) oid = refs_to s oid"
  by (simp add: refs_to_def frame_simps)

lemma find_is_obj_map:
  "(\<And>r. ob_id (f r) = ob_id r) \<Longrightarrow> List.find (is_obj oid) (map f t) = map_option f (List.find (is_obj oid) t)"
  by (induction t) (auto simp: key_simps)

lemma ref_count_of_recount:
  "ref_count_of (recount_refs now s) oid = map_option (\<lambda>_. int (refs_to s oid)) (ref_count_of s oid)"
proof -
  have "ob_id r = oid" if "List.find (is_obj oid) (t_objects s) = Some r" for r
    using find_some_mem [OF that] by (simp add: key_simps)
  then show ?thesis
    by (cases "List.find (is_obj oid) (t_objects s)")
      (simp_all add: ref_count_of_def recount_refs_def find_is_obj_map)
qed

lemma refs_to_purge_le: "refs_to (purge_rows w s) oid \<le> refs_to s oid"
  unfolding refs_to_def frame_simps purge_event_refs_def purge_snapshot_refs_def
  by (simp add: add_mono count_rows_le_delete)

lemma unused_refs_to: "unused_object oid s \<Longrightarrow> refs_to s oid = 0"
  by (simp add: unused_object_def refs_to_def count_rows_zero_iff)

lemma refs_exact_recount: "refs_exact (recount_refs now s)"
  by (auto simp: refs_exact_def ref_count_of_recount)

section \<open>A purge keeps the invariant\<close>

lemma find_delete_other_ws:
  "v \<noteq> w \<Longrightarrow> List.find (is_ws v) (delete_where (is_ws w) t) = List.find (is_ws v) t"
  "v \<noteq> w \<Longrightarrow> List.find (is_root v i) (delete_where (\<lambda>r. rt_ws r = w) tr) = List.find (is_root v i) tr"
  "v \<noteq> w \<Longrightarrow> List.find (is_head v i p) (delete_where (\<lambda>h. ph_ws h = w) th) = List.find (is_head v i p) th"
  by (rule find_delete_where_other; simp add: key_simps)+

lemma find_delete_same_ws:
  "List.find (is_ws w) (delete_where (is_ws w) t) = None"
  "List.find (is_root w i) (delete_where (\<lambda>r. rt_ws r = w) tr) = None"
  by (rule find_delete_where_same; simp add: key_simps)+

lemma cur_seq_purge: "cur_seq (purge_rows w s) v = (if v = w then 0 else cur_seq s v)"
  "floor_seq (purge_rows w s) v = (if v = w then 0 else floor_seq s v)"
  by (simp_all add: cur_seq_def floor_seq_def frame_simps find_delete_other_ws find_delete_same_ws)

lemma visible_purge:
  "objectVisibleToWorkspace v oid (purge_rows w s) \<longleftrightarrow> v \<noteq> w \<and> objectVisibleToWorkspace v oid s"
  by (auto simp: objectVisibleToWorkspace_def frame_simps row_exists_iff key_simps)

lemma recount_inv:
  assumes "keys_inv s" and "log_inv s" and "roots_inv s" and "vis_inv s" and "heads_inv s"
    and "\<And>oid. ref_count_of s oid = None \<Longrightarrow> refs_to s oid = 0"
  shows "server_inv (recount_refs now s)" (is "server_inv ?t")
proof -
  have obj: "row_exists (is_obj oid) (t_objects ?t) = row_exists (is_obj oid) (t_objects s)" for oid
    using ref_count_of_exists [of s oid] ref_count_of_exists [of ?t oid]
    by (simp add: ref_count_of_recount)
  have "unique_key ob_id (t_objects ?t)"
    using assms(1) by (simp add: keys_inv_def recount_refs_def unique_key_def comp_def)
  then have "keys_inv ?t" using assms(1) by (simp add: keys_inv_def frame_simps)
  moreover have "refs_inv ?t"
    unfolding refs_inv_def
  proof
    fix oid
    show "count_ok (ref_count_of ?t oid) (refs_to ?t oid)"
      using assms(6) [of oid] by (cases "ref_count_of s oid") (simp_all add: ref_count_of_recount)
  qed
  ultimately show ?thesis
    using assms(2-5)
    by (simp add: server_inv_def log_inv_def roots_inv_def root_ok_def head_ok_def vis_inv_def
        heads_inv_def head_covers_def frame_simps obj cur_seq_def floor_seq_def visible_cong [of ?t s])
qed

lemma purge_rows_inv:
  assumes "server_inv s"
  shows "server_inv (recount_refs now (purge_rows w s))"
proof (rule recount_inv)
  let ?t = "purge_rows w s"
  from assms have k: "keys_inv s" and l: "log_inv s" and r: "refs_inv s" and o: "roots_inv s"
    and v: "vis_inv s" and h: "heads_inv s" by (auto simp: server_inv_def)
  show "keys_inv ?t"
    using k by (simp add: keys_inv_def frame_simps purge_event_refs_def purge_snapshot_refs_def
        unique_key_delete_where)
  show "log_inv ?t"
  proof -
    have "sorted_wrt (<) (map ev_seq (delete_where p (t_events s)))" for p
      using l by (simp add: log_inv_def delete_where_def sorted_wrt_map sorted_wrt_filter)
    with l show ?thesis
      by (force simp: log_inv_def frame_simps cur_seq_purge purge_event_refs_def row_exists_iff)
  qed
  show "roots_inv ?t"
    using o by (auto simp: roots_inv_def root_ok_def head_ok_def frame_simps cur_seq_purge find_delete_other_ws)
  have snap: "row_exists (is_snapshot v i oid) (delete_where (\<lambda>p. sp_ws p = w) (t_snapshots s))"
    if "row_exists (is_snapshot v i oid) (t_snapshots s)" "v \<noteq> w" for v i oid
    using that by (auto simp: row_exists_iff key_simps)
  have wsx: "row_exists (is_ws v) (delete_where (is_ws w) (t_workspaces s))"
    if "row_exists (is_ws v) (t_workspaces s)" "v \<noteq> w" for v
    using that by (auto simp: row_exists_iff key_simps)
  show "vis_inv ?t"
    using v by (auto simp: vis_inv_def frame_simps visible_purge purge_event_refs_def snap wsx)
  show "heads_inv ?t"
    using h by (auto simp: heads_inv_def head_covers_def frame_simps find_delete_other_ws)
  show "refs_to ?t oid = 0" if "ref_count_of ?t oid = None" for oid
  proof -
    from that have "ref_count_of s oid = None" by (simp add: ref_count_of_def frame_simps)
    with r have "refs_to s oid = 0" by (metis refs_inv_def count_ok.simps(1))
    with refs_to_purge_le [of w s oid] show ?thesis by simp
  qed
qed

lemma purge_candidate_snd:
  "snd (purge_candidate c (acc, s)) = s \<or>
   (unused_object (po_ObjectID c) s \<and> snd (purge_candidate c (acc, s)) = delete_object (po_ObjectID c) s)"
  by (simp add: purge_candidate_def)

lemma purge_candidates_rule:
  assumes "P s" and "\<And>s oid. P s \<Longrightarrow> unused_object oid s \<Longrightarrow> P (delete_object oid s)"
  shows "P (snd (fold purge_candidate cs (acc, s)))"
  using assms(1)
proof (induction cs arbitrary: acc s)
  case (Cons c cs)
  obtain acc' s' where s': "purge_candidate c (acc, s) = (acc', s')"
    by (cases "purge_candidate c (acc, s)")
  with purge_candidate_snd [of c acc s] Cons.prems assms(2) have "P s'" by auto
  with Cons.IH show ?case by (simp add: s')
qed simp

lemma PurgeWorkspace_snd:
  "snd (PurgeWorkspace w cs now s) =
    (if row_exists (is_ws w) (t_workspaces s)
     then snd (fold purge_candidate cs ([], recount_refs now (purge_rows w s))) else s)"
  by (simp add: PurgeWorkspace_def split: prod.split)

lemma PurgeWorkspace_inv: "server_inv s \<Longrightarrow> server_inv (snd (PurgeWorkspace w cs now s))"
  by (auto simp: PurgeWorkspace_snd intro!: purge_candidates_rule [where P = server_inv]
      purge_rows_inv delete_object_inv unused_refs_to)

end
