(* ===== verification/Encoding.thy ===== *)
theory Encoding
  imports Prelude
begin

text \<open>
  The encodings of Go's standard library the program relies on: lower-case hex
  (\<^verbatim>\<open>encoding/hex\<close>), unpadded standard base64 (\<^verbatim>\<open>encoding/base64\<close>,
  \<open>RawStdEncoding\<close>) and decimal integers (\<^verbatim>\<open>strconv\<close>), with their round trips.
  A byte is a \<open>char\<close>; \<open>of_char\<close> and \<open>char_of\<close> convert to and from 0..255.
\<close>

section \<open>Hex\<close>

definition hex_digit :: "nat \<Rightarrow> char" where
  "hex_digit n = (if n < 10 then char_of (48 + n) else char_of (87 + n))"

definition hex_value :: "char \<Rightarrow> nat option" where
  "hex_value c =
     (let n = of_char c :: nat in
      if 48 \<le> n \<and> n \<le> 57 then Some (n - 48)
      else if 97 \<le> n \<and> n \<le> 102 then Some (n - 87)
      else if 65 \<le> n \<and> n \<le> 70 then Some (n - 55)
      else None)"

definition hex_encode :: "bytes \<Rightarrow> string" where
  "hex_encode bs = concat (map (\<lambda>b. [hex_digit (of_char b div 16), hex_digit (of_char b mod 16)]) bs)"

fun hex_decode :: "string \<Rightarrow> bytes option" where
  "hex_decode [] = Some []"
| "hex_decode [a] = None"
| "hex_decode (a # b # cs) =
     (case (hex_value a, hex_value b) of
        (Some x, Some y) \<Rightarrow> map_option (\<lambda>r. char_of (16 * x + y) # r) (hex_decode cs)
      | _ \<Rightarrow> None)"

definition is_hex_char :: "char \<Rightarrow> bool" where
  "is_hex_char c \<longleftrightarrow> (let n = of_char c :: nat in (48 \<le> n \<and> n \<le> 57) \<or> (97 \<le> n \<and> n \<le> 102))"

lemma of_char_less [simp]: "(of_char c :: nat) < 256"
  using of_char_mod_256 [of c, where ?'a = nat] by (metis mod_less_divisor zero_less_numeral)

lemma hex_value_digit [simp]: "n < 16 \<Longrightarrow> hex_value (hex_digit n) = Some n"
  by (auto simp: hex_value_def hex_digit_def Let_def)

lemma is_hex_char_digit [simp]: "n < 16 \<Longrightarrow> is_hex_char (hex_digit n)"
  by (auto simp: is_hex_char_def hex_digit_def Let_def)

lemma div16_less [simp]: "(of_char c :: nat) div 16 < 16"
  using of_char_less [of c] by (simp add: less_mult_imp_div_less)

lemma hex_decode_encode [simp]: "hex_decode (hex_encode bs) = Some bs"
  by (induction bs) (simp_all add: hex_encode_def)

lemma length_hex_encode [simp]: "length (hex_encode bs) = 2 * length bs"
  by (induction bs) (simp_all add: hex_encode_def)

lemma set_hex_encode: "c \<in> set (hex_encode bs) \<Longrightarrow> is_hex_char c"
  by (induction bs) (auto simp: hex_encode_def)

lemma hex_encode_inj: "hex_encode a = hex_encode b \<longleftrightarrow> a = b"
  by (metis hex_decode_encode option.inject)

lemma length_hex_decode: "hex_decode cs = Some bs \<Longrightarrow> length cs = 2 * length bs"
  by (induction cs arbitrary: bs rule: hex_decode.induct) (auto split: option.splits)

lemma hex_digit_value: "is_hex_char c \<Longrightarrow> \<exists>n < 16. hex_value c = Some n \<and> hex_digit n = c"
proof -
  assume h: "is_hex_char c"
  let ?n = "of_char c :: nat"
  have c: "char_of ?n = c" by simp
  from h consider "48 \<le> ?n \<and> ?n \<le> 57" | "97 \<le> ?n \<and> ?n \<le> 102"
    by (auto simp: is_hex_char_def Let_def)
  then show ?thesis
  proof cases
    case 1
    then have "hex_value c = Some (?n - 48)" "hex_digit (?n - 48) = c" "?n - 48 < 16"
      using c by (auto simp: hex_value_def hex_digit_def Let_def)
    then show ?thesis by blast
  next
    case 2
    then have "hex_value c = Some (?n - 87)" "hex_digit (?n - 87) = c" "?n - 87 < 16"
      using c by (auto simp: hex_value_def hex_digit_def Let_def)
    then show ?thesis by blast
  qed
qed

lemma hex_encode_decode:
  assumes "hex_decode cs = Some bs" and "\<And>c. c \<in> set cs \<Longrightarrow> is_hex_char c"
  shows "hex_encode bs = cs"
  using assms
proof (induction cs arbitrary: bs rule: hex_decode.induct)
  case (3 a b cs)
  obtain x y where x: "x < 16" "hex_value a = Some x" "hex_digit x = a"
    and y: "y < 16" "hex_value b = Some y" "hex_digit y = b"
    using hex_digit_value [of a] hex_digit_value [of b] "3.prems"(2) by auto
  then obtain r where r: "hex_decode cs = Some r" "bs = char_of (16 * x + y) # r"
    using "3.prems"(1) by auto
  moreover from this x y "3.prems" have "hex_encode r = cs" by (intro "3.IH" [of "Some x" "Some y" x y]) auto
  ultimately show ?case using x y by (simp add: hex_encode_def)
qed (simp_all add: hex_encode_def)

section \<open>Base64 without padding\<close>

definition b64_char :: "nat \<Rightarrow> char" where
  "b64_char n = (if n < 26 then char_of (65 + n) else if n < 52 then char_of (71 + n)
     else if n < 62 then char_of (n - 4) else if n = 62 then CHR ''+'' else CHR ''/'')"

definition b64_value :: "char \<Rightarrow> nat option" where
  "b64_value c =
     (let n = of_char c :: nat in
      if 65 \<le> n \<and> n \<le> 90 then Some (n - 65)
      else if 97 \<le> n \<and> n \<le> 122 then Some (n - 71)
      else if 48 \<le> n \<and> n \<le> 57 then Some (n + 4)
      else if n = 43 then Some 62 else if n = 47 then Some 63 else None)"

fun b64_encode :: "bytes \<Rightarrow> string" where
  "b64_encode [] = []"
| "b64_encode [a] = (let x = of_char a in [b64_char (x div 4), b64_char (x mod 4 * 16)])"
| "b64_encode [a, b] =
     (let x = of_char a; y = of_char b
      in [b64_char (x div 4), b64_char (x mod 4 * 16 + y div 16), b64_char (y mod 16 * 4)])"
| "b64_encode (a # b # c # cs) =
     (let x = of_char a; y = of_char b; z = of_char c
      in [b64_char (x div 4), b64_char (x mod 4 * 16 + y div 16),
          b64_char (y mod 16 * 4 + z div 64), b64_char (z mod 64)] @ b64_encode cs)"

text \<open>Go's decoder drops CR and LF and, not being \<open>Strict\<close>, ignores trailing bits.\<close>

fun b64_quanta :: "nat list \<Rightarrow> bytes option" where
  "b64_quanta [] = Some []"
| "b64_quanta [p] = None"
| "b64_quanta [p, q] = Some [char_of (p * 4 + q div 16)]"
| "b64_quanta [p, q, r] = Some [char_of (p * 4 + q div 16), char_of (q mod 16 * 16 + r div 4)]"
| "b64_quanta (p # q # r # t # vs) =
     map_option (\<lambda>bs. [char_of (p * 4 + q div 16), char_of (q mod 16 * 16 + r div 4),
                       char_of (r mod 4 * 64 + t)] @ bs) (b64_quanta vs)"

fun b64_values :: "string \<Rightarrow> nat list option" where
  "b64_values [] = Some []"
| "b64_values (c # cs) = (case b64_value c of
     None \<Rightarrow> None | Some v \<Rightarrow> map_option (\<lambda>vs. v # vs) (b64_values cs))"

definition b64_decode :: "string \<Rightarrow> bytes option" where
  "b64_decode s =
     (case b64_values (filter (\<lambda>c. (of_char c :: nat) \<noteq> 10 \<and> (of_char c :: nat) \<noteq> 13) s) of
        None \<Rightarrow> None | Some vs \<Rightarrow> b64_quanta vs)"

lemma b64_value_char [simp]: "n < 64 \<Longrightarrow> b64_value (b64_char n) = Some n"
  by (auto simp: b64_value_def b64_char_def Let_def)

lemma b64_char_no_eol: "n < 64 \<Longrightarrow> (of_char (b64_char n) :: nat) \<noteq> 10 \<and> (of_char (b64_char n) :: nat) \<noteq> 13"
  by (auto simp: b64_char_def)

lemma byte_parts:
  assumes "x < 256" and "y < 256" and "z < (256::nat)"
  shows "x div 4 < 64" "x mod 4 * 16 < 64" "x mod 4 * 16 + y div 16 < 64" "y mod 16 * 4 < 64"
    "y mod 16 * 4 + z div 64 < 64" "z mod 64 < 64"
    "x div 4 * 4 + (x mod 4 * 16 + y div 16) div 16 = x" "x div 4 * 4 + x mod 4 = x"
    "(x mod 4 * 16 + y div 16) mod 16 * 16 + (y mod 16 * 4 + z div 64) div 4 = y"
    "(x mod 4 * 16 + y div 16) mod 16 * 16 + y mod 16 = y"
    "(y mod 16 * 4 + z div 64) mod 4 * 64 + z mod 64 = z"
proof -
  have q: "y div 16 < 16" "z div 64 < 4" using assms by (simp_all add: less_mult_imp_div_less)
  have r: "x mod 4 < 4" "y mod 16 < 16" by simp_all
  show "x div 4 < 64" using assms by (simp add: less_mult_imp_div_less)
  show "x mod 4 * 16 < 64" "x mod 4 * 16 + y div 16 < 64" "y mod 16 * 4 < 64"
    "y mod 16 * 4 + z div 64 < 64" "z mod 64 < 64"
    using q r by linarith+
  show "x div 4 * 4 + (x mod 4 * 16 + y div 16) div 16 = x" "x div 4 * 4 + x mod 4 = x"
    using q by simp_all
  show "(x mod 4 * 16 + y div 16) mod 16 * 16 + (y mod 16 * 4 + z div 64) div 4 = y"
    "(x mod 4 * 16 + y div 16) mod 16 * 16 + y mod 16 = y"
    using q by simp_all
  show "(y mod 16 * 4 + z div 64) mod 4 * 64 + z mod 64 = z" using q by simp
qed

lemma b64_encode_values:
  "\<exists>vs. b64_values (b64_encode bs) = Some vs \<and> b64_quanta vs = Some bs"
proof (induction bs rule: b64_encode.induct)
  case (2 a)
  then show ?case using byte_parts [of "of_char a" 0 0] by (simp add: Let_def)
next
  case (3 a b)
  then show ?case using byte_parts [of "of_char a" "of_char b" 0] by (simp add: Let_def)
next
  case (4 a b c cs)
  then obtain vs where "b64_values (b64_encode cs) = Some vs" "b64_quanta vs = Some cs" by blast
  then show ?case using byte_parts [of "of_char a" "of_char b" "of_char c"] by (simp add: Let_def)
qed simp

lemma b64_encode_no_eol:
  "c \<in> set (b64_encode bs) \<Longrightarrow> (of_char c :: nat) \<noteq> 10 \<and> (of_char c :: nat) \<noteq> 13"
proof (induction bs rule: b64_encode.induct)
  case (2 a)
  then show ?case using byte_parts [of "of_char a" 0 0] b64_char_no_eol by (auto simp: Let_def)
next
  case (3 a b)
  then show ?case using byte_parts [of "of_char a" "of_char b" 0] b64_char_no_eol by (auto simp: Let_def)
next
  case (4 a b c cs)
  then show ?case
    using byte_parts [of "of_char a" "of_char b" "of_char c"] b64_char_no_eol by (auto simp: Let_def)
qed simp

lemma b64_decode_encode [simp]: "b64_decode (b64_encode bs) = Some bs"
proof -
  have "filter (\<lambda>c. (of_char c :: nat) \<noteq> 10 \<and> (of_char c :: nat) \<noteq> 13) (b64_encode bs) = b64_encode bs"
    using b64_encode_no_eol by (intro filter_True) blast
  with b64_encode_values [of bs] show ?thesis by (auto simp: b64_decode_def)
qed

section \<open>Decimal integers\<close>

fun show_nat :: "nat \<Rightarrow> string" where
  "show_nat n = (if n < 10 then [char_of (48 + n)] else show_nat (n div 10) @ [char_of (48 + n mod 10)])"

declare show_nat.simps [simp del]

definition FormatInt :: "int \<Rightarrow> string" where
  "FormatInt i = (if i < 0 then CHR ''-'' # show_nat (nat (- i)) else show_nat (nat i))"

fun digits_value :: "nat \<Rightarrow> string \<Rightarrow> nat option" where
  "digits_value acc [] = Some acc"
| "digits_value acc (c # cs) =
     (let n = of_char c :: nat in
      if 48 \<le> n \<and> n \<le> 57 then digits_value (10 * acc + (n - 48)) cs else None)"

text \<open>\<open>strconv.ParseInt(s, 10, 64)\<close>; any error is \<open>None\<close>.\<close>

definition ParseInt64 :: "string \<Rightarrow> int option" where
  "ParseInt64 s =
     (case s of
        [] \<Rightarrow> None
      | c # cs \<Rightarrow>
          let signed = (c = CHR ''+'' \<or> c = CHR ''-'');
              ds = (if signed then cs else s)
          in if ds = [] then None
             else (case digits_value 0 ds of
                None \<Rightarrow> None
              | Some n \<Rightarrow>
                  let v = (if c = CHR ''-'' then - int n else int n)
                  in if - (2 ^ 63) \<le> v \<and> v \<le> max_int64 then Some v else None))"

definition is_digit :: "char \<Rightarrow> bool" where
  "is_digit c \<longleftrightarrow> 48 \<le> (of_char c :: nat) \<and> (of_char c :: nat) \<le> 57"

lemma digit_char [simp]: "n < 10 \<Longrightarrow> (of_char (char_of (48 + n)) :: nat) = 48 + n"
  by simp

lemma digits_value_append:
  "digits_value acc (xs @ ys) = (case digits_value acc xs of None \<Rightarrow> None | Some a \<Rightarrow> digits_value a ys)"
  by (induction xs arbitrary: acc) (auto simp: Let_def)

lemma digits_value_show: "digits_value 0 (show_nat n) = Some n"
proof (induction n rule: show_nat.induct)
  case (1 n)
  have m: "n mod 10 < 10" by simp
  show ?case
  proof (cases "n < 10")
    case True
    then show ?thesis by (simp add: show_nat.simps [of n] Let_def)
  next
    case False
    with 1 have IH: "digits_value 0 (show_nat (n div 10)) = Some (n div 10)" by simp
    from False show ?thesis
      by (simp add: show_nat.simps [of n] digits_value_append IH Let_def)
  qed
qed

lemma show_nat_digits: "c \<in> set (show_nat n) \<Longrightarrow> is_digit c"
proof (induction n rule: show_nat.induct)
  case (1 n)
  have m: "n mod 10 < 10" by simp
  have d: "is_digit (char_of (48 + k))" if "k < 10" for k :: nat
    using that by (simp add: is_digit_def)
  show ?case
  proof (cases "n < 10")
    case True
    with 1(2) d [of n] show ?thesis by (simp add: show_nat.simps [of n])
  next
    case False
    with 1 d [OF m] show ?thesis by (auto simp: show_nat.simps [of n])
  qed
qed

lemma show_nat_nonempty [simp]: "show_nat n \<noteq> []"
  by (simp add: show_nat.simps [of n])

lemma show_nat_hd: "hd (show_nat n) \<noteq> CHR ''-'' \<and> hd (show_nat n) \<noteq> CHR ''+''"
proof -
  have "is_digit (hd (show_nat n))" by (intro show_nat_digits [of _ n]) simp
  then show ?thesis by (auto simp: is_digit_def)
qed

lemma ParseInt64_FormatInt:
  assumes "- (2 ^ 63) \<le> i" and "i \<le> max_int64"
  shows "ParseInt64 (FormatInt i) = Some i"
proof (cases "i < 0")
  case True
  with assms show ?thesis by (simp add: ParseInt64_def FormatInt_def digits_value_show)
next
  case False
  obtain c cs where c: "show_nat (nat i) = c # cs" by (cases "show_nat (nat i)") simp_all
  with show_nat_hd [of "nat i"] have "c \<noteq> CHR ''-''" "c \<noteq> CHR ''+''" by simp_all
  with False c assms digits_value_show [of "nat i"] show ?thesis
    by (simp add: ParseInt64_def FormatInt_def)
qed

lemma FormatInt_inj: "FormatInt i = FormatInt j \<longleftrightarrow> i = j"
proof
  assume eq: "FormatInt i = FormatInt j"
  have inj: "show_nat m = show_nat n \<Longrightarrow> m = n" for m n
    by (metis digits_value_show option.inject)
  show "i = j"
  proof (cases "i < 0 \<longleftrightarrow> j < 0")
    case True
    with eq have "nat \<bar>i\<bar> = nat \<bar>j\<bar>"
      by (intro inj) (auto simp: FormatInt_def split: if_splits)
    with True show ?thesis by (auto split: if_splits)
  next
    case False
    with eq show_nat_hd [of "nat i"] show_nat_hd [of "nat j"] show ?thesis
      by (metis FormatInt_def list.sel(1))
  qed
qed simp

lemma FormatInt_chars: "c \<in> set (FormatInt i) \<Longrightarrow> is_digit c \<or> c = CHR ''-''"
  by (auto simp: FormatInt_def dest: show_nat_digits split: if_splits)

end
