(* ===== verification/Sessions.thy ===== *)
theory Sessions
  imports Purge Encoding
begin

text \<open>
  \<^verbatim>\<open>internal/server/db/sessions.go\<close>: login challenges and session tokens.  The
  SHA-256 of the standard library is the argument \<open>sha256\<close>, and the 32 random
  bytes of a token are the argument \<open>tokenBytes\<close>; times are in seconds.
\<close>

definition challenge_ttl :: time where
  "challenge_ttl = 60"

definition is_challenge :: "string \<Rightarrow> string \<Rightarrow> bytes \<Rightarrow> challenge_row \<Rightarrow> bool" where
  [key_simps]: "is_challenge w d n r \<longleftrightarrow> cl_ws r = w \<and> cl_device r = d \<and> cl_client_nonce r = n"

definition is_token :: "bytes \<Rightarrow> session_row \<Rightarrow> bool" where
  [key_simps]: "is_token h r \<longleftrightarrow> sn_token_hash r = h"

definition PruneExpiredChallenges :: "time \<Rightarrow> server_db \<Rightarrow> nat \<times> server_db" where
  "PruneExpiredChallenges now s =
     (count_rows (\<lambda>r. cl_expires_at r \<le> now) (t_challenges s),
      s\<lparr>t_challenges := delete_where (\<lambda>r. cl_expires_at r \<le> now) (t_challenges s)\<rparr>)"

definition SaveChallenge ::
  "time \<Rightarrow> string \<Rightarrow> string \<Rightarrow> string \<Rightarrow> bytes \<Rightarrow> bytes \<Rightarrow> server_db \<Rightarrow> server_db" where
  "SaveChallenge now w d deviceName clientNonce serverNonce s =
     (let s1 = snd (PruneExpiredChallenges now s)
      in s1\<lparr>t_challenges := insert_or_replace (is_challenge w d clientNonce)
            \<lparr>cl_ws = w, cl_device = d, cl_client_nonce = clientNonce, cl_server_nonce = serverNonce,
             cl_device_name = deviceName, cl_expires_at = now + challenge_ttl, cl_created_at = now\<rparr>
            (t_challenges s1)\<rparr>)"

definition LoadChallenge ::
  "string \<Rightarrow> string \<Rightarrow> bytes \<Rightarrow> server_db \<Rightarrow> db_error + (bytes \<times> string \<times> time)" where
  "LoadChallenge w d clientNonce s =
     (case List.find (is_challenge w d clientNonce) (t_challenges s) of
        None \<Rightarrow> Inl ErrNoRows
      | Some r \<Rightarrow> Inr (cl_server_nonce r, cl_device_name r, cl_expires_at r))"

definition DeleteChallenge :: "string \<Rightarrow> string \<Rightarrow> bytes \<Rightarrow> server_db \<Rightarrow> server_db" where
  "DeleteChallenge w d clientNonce s =
     s\<lparr>t_challenges := delete_where (is_challenge w d clientNonce) (t_challenges s)\<rparr>"

definition CreateSession ::
  "(bytes \<Rightarrow> bytes) \<Rightarrow> time \<Rightarrow> bytes \<Rightarrow> string \<Rightarrow> string \<Rightarrow> string \<Rightarrow> time \<Rightarrow> server_db
    \<Rightarrow> (db_error + (string \<times> time \<times> int)) \<times> server_db" where
  "CreateSession sha256 now tokenBytes w d deviceName ttl s =
     (let token = hex_encode tokenBytes;
          tokenHash = sha256 token;
          expiresAt = now + ttl
      in case CurrentSeq w s of
           Inl e \<Rightarrow> (Inl e, s)
         | Inr currentSeq \<Rightarrow>
             (Inr (token, expiresAt, currentSeq),
              s\<lparr>t_sessions := insert_or_replace (is_token tokenHash)
                  \<lparr>sn_token_hash = tokenHash, sn_ws = w, sn_device = d, sn_issued_at = now,
                   sn_expires_at = expiresAt, sn_last_used = now\<rparr> (t_sessions s),
                t_devices := upsert (is_device w d)
                  \<lparr>dv_ws = w, dv_id = d, dv_name = deviceName, dv_first_seen = now, dv_last_seen = now\<rparr>
                  (\<lambda>r. r\<lparr>dv_name := deviceName, dv_last_seen := now\<rparr>) (t_devices s)\<rparr>))"

definition Authenticate ::
  "(bytes \<Rightarrow> bytes) \<Rightarrow> time \<Rightarrow> string \<Rightarrow> server_db \<Rightarrow> (db_error + Session) \<times> server_db" where
  "Authenticate sha256 now token s =
     (let tokenHash = sha256 token in
      case List.find (is_token tokenHash) (t_sessions s) of
        None \<Rightarrow> (Inl ErrNoRows, s)
      | Some r \<Rightarrow>
          if now > sn_expires_at r then (Inl SessionExpired, s)
          else (Inr \<lparr>se_WorkspaceID = sn_ws r, se_DeviceID = sn_device r, se_ExpiresAt = sn_expires_at r\<rparr>,
                s\<lparr>t_sessions := update_where (is_token tokenHash) (\<lambda>r. r\<lparr>sn_last_used := now\<rparr>)
                     (t_sessions s)\<rparr>))"

section \<open>The tables sessions touch\<close>

definition same_log :: "server_db \<Rightarrow> server_db \<Rightarrow> bool" where
  "same_log s s' \<longleftrightarrow> t_workspaces s' = t_workspaces s \<and> t_roots s' = t_roots s
     \<and> t_path_heads s' = t_path_heads s \<and> t_events s' = t_events s \<and> t_last_seq s' = t_last_seq s
     \<and> t_event_refs s' = t_event_refs s \<and> t_snapshots s' = t_snapshots s
     \<and> t_snapshot_refs s' = t_snapshot_refs s \<and> t_objects s' = t_objects s
     \<and> t_ws_objects s' = t_ws_objects s"

lemma same_log_inv: "same_log s s' \<Longrightarrow> server_inv s \<Longrightarrow> server_inv s'"
  unfolding same_log_def server_inv_def inv_defs root_ok_def head_ok_def head_covers_def
    cur_seq_def floor_seq_def refs_to_def ref_count_of_def objectVisibleToWorkspace_def
  by (elim conjE) (simp only: simp_thms)

lemma session_same_log:
  "same_log s (SaveChallenge now w d name cn sn s)"
  "same_log s (snd (PruneExpiredChallenges now s))"
  "same_log s (DeleteChallenge w d cn s)"
  "same_log s (snd (CreateSession h now tb w d name ttl s))"
  "same_log s (snd (Authenticate h now token s))"
  "same_log s (AddTransferredBytes n s)"
  by (auto simp: same_log_def SaveChallenge_def PruneExpiredChallenges_def DeleteChallenge_def
      CreateSession_def Authenticate_def AddTransferredBytes_def Let_def split: sum.splits option.splits)

lemma find_insert_or_replace_same: "p new \<Longrightarrow> List.find p (insert_or_replace p new t) = Some new"
proof -
  assume "p new"
  moreover have "List.find p (delete_where p t) = None"
    by (rule find_delete_where_same)
  ultimately show ?thesis by (simp add: insert_or_replace_def find_append)
qed

lemma find_insert_or_replace_other:
  "(\<And>r. p r \<Longrightarrow> \<not> q r) \<Longrightarrow> \<not> p new \<Longrightarrow> List.find p (insert_or_replace q new t) = List.find p t"
  by (simp add: insert_or_replace_def find_append find_delete_where_other split: option.split)

end
