(* ===== verification/ObjectStore.thy ===== *)
theory ObjectStore
  imports Sessions
begin

text \<open>
  \<^verbatim>\<open>internal/server/objectstore/store.go\<close>: the content-addressed object files.
  The data directory is a map from relative paths to file contents; SHA-256 is
  the argument \<open>sha256\<close>.  \<open>Put\<close> links the verified upload into place (an existing
  file is kept) and then writes the \<open>objects\<close> row.
\<close>

type_synonym files = "string \<rightharpoonup> bytes"

datatype store_error = InvalidObjectID | InvalidPlainSize | InvalidUploadLimit
  | UploadExceeds int | EmptyUpload | ObjectHashMismatch | FileMissing

definition objectIDLength :: nat where
  "objectIDLength = 32 * 2"

definition ValidObjectID :: "string \<Rightarrow> bool" where
  "ValidObjectID oid \<longleftrightarrow> length oid = objectIDLength \<and> list_all is_hex_char oid"

definition relStorePath :: "string \<Rightarrow> string" where
  "relStorePath oid = ''objects/'' @ take 2 oid @ ''/'' @ take 2 (drop 2 oid) @ ''/'' @ oid @ ''.bin''"

definition object_row_new :: "time \<Rightarrow> string \<Rightarrow> string \<Rightarrow> int \<Rightarrow> object_row" where
  "object_row_new now oid kind sizeBytes =
     \<lparr>ob_id = oid, ob_kind = kind, ob_size = sizeBytes, ob_path = relStorePath oid, ob_refs = 0,
      ob_zero_at = Some now, ob_created_at = now, ob_accessed_at = now\<rparr>"

definition upsert_object :: "time \<Rightarrow> string \<Rightarrow> string \<Rightarrow> int \<Rightarrow> server_db \<Rightarrow> server_db" where
  "upsert_object now oid kind sizeBytes s =
     s\<lparr>t_objects := upsert (is_obj oid) (object_row_new now oid kind sizeBytes)
         (\<lambda>r. r\<lparr>ob_accessed_at := now\<rparr>) (t_objects s)\<rparr>"

definition Put ::
  "(bytes \<Rightarrow> bytes) \<Rightarrow> time \<Rightarrow> string \<Rightarrow> string \<Rightarrow> int \<Rightarrow> int \<Rightarrow> bytes \<Rightarrow> files \<times> server_db
    \<Rightarrow> (store_error + bool) \<times> files \<times> server_db" where
  "Put sha256 now oid kind plainSize maxBytes body fs =
     (let (f, s) = fs in
      if \<not> ValidObjectID oid then (Inl InvalidObjectID, f, s)
      else if plainSize \<le> 0 then (Inl InvalidPlainSize, f, s)
      else if maxBytes \<le> 0 then (Inl InvalidUploadLimit, f, s)
      else if int (length body) > maxBytes then (Inl (UploadExceeds maxBytes), f, s)
      else if body = [] then (Inl EmptyUpload, f, s)
      else if hex_encode (sha256 body) \<noteq> oid then (Inl ObjectHashMismatch, f, s)
      else
        let p = relStorePath oid;
            created = (f p = None);
            f' = (if created then f(p \<mapsto> body) else f)
        in (Inr created, f', upsert_object now oid kind (int (length body)) s))"

definition Get ::
  "time \<Rightarrow> string \<Rightarrow> files \<times> server_db \<Rightarrow> (store_error + bytes) \<times> files \<times> server_db" where
  "Get now oid fs =
     (let (f, s) = fs in
      if \<not> ValidObjectID oid then (Inl InvalidObjectID, f, s)
      else
        let s' = s\<lparr>t_objects := update_where (is_obj oid) (\<lambda>r. r\<lparr>ob_accessed_at := now\<rparr>) (t_objects s)\<rparr>
        in (case f (relStorePath oid) of
              None \<Rightarrow> (Inl FileMissing, f, s')
            | Some body \<Rightarrow> (Inr body, f, s')))"

text \<open>\<open>admin.GC\<close>: prune the database, then remove the files of the collected objects.\<close>

definition GC :: "time \<Rightarrow> time \<Rightarrow> time \<Rightarrow> files \<times> server_db \<Rightarrow> (nat \<times> nat \<times> string list) \<times> files \<times> server_db" where
  "GC now eventRetention zeroRefRetention fs =
     (let (f, s) = fs;
          ((deletedEvents, deletedSnapshots, objectIDs), s') = Prune now eventRetention zeroRefRetention s
      in ((deletedEvents, deletedSnapshots, objectIDs),
          fold (\<lambda>oid f. f(relStorePath oid := None)) objectIDs f, s'))"

section \<open>Paths\<close>

lemma relStorePath_inj:
  assumes "length a = length b" and "relStorePath a = relStorePath b"
  shows "a = b"
proof -
  have l: "length (take 2 a) = length (take 2 b)" "length (take 2 (drop 2 a)) = length (take 2 (drop 2 b))"
    using assms(1) by simp_all
  from assms(2) l show ?thesis by (auto simp: relStorePath_def)
qed

lemma ValidObjectID_hash: "length (sha256 body) = 32 \<Longrightarrow> ValidObjectID (hex_encode (sha256 body))"
  by (auto simp: ValidObjectID_def objectIDLength_def list_all_iff dest: set_hex_encode)

section \<open>The store invariant\<close>

text \<open>
  Every object row has a valid id and its file, and every file under a valid
  object's path has the content the id names.
\<close>

definition content_ok :: "(bytes \<Rightarrow> bytes) \<Rightarrow> files \<Rightarrow> bool" where
  "content_ok sha256 f \<longleftrightarrow> (\<forall>oid body. ValidObjectID oid \<longrightarrow> f (relStorePath oid) = Some body
     \<longrightarrow> hex_encode (sha256 body) = oid)"

definition rows_have_files :: "files \<Rightarrow> server_db \<Rightarrow> bool" where
  "rows_have_files f s \<longleftrightarrow> (\<forall>r \<in> set (t_objects s). ValidObjectID (ob_id r) \<and> f (relStorePath (ob_id r)) \<noteq> None)"

definition store_inv :: "(bytes \<Rightarrow> bytes) \<Rightarrow> files \<times> server_db \<Rightarrow> bool" where
  "store_inv sha256 fs \<longleftrightarrow> content_ok sha256 (fst fs) \<and> rows_have_files (fst fs) (snd fs)"

definition object_ids :: "server_db \<Rightarrow> string set" where
  "object_ids s = ob_id ` set (t_objects s)"

lemma rows_have_files_ids:
  "rows_have_files f s \<longleftrightarrow> (\<forall>oid \<in> object_ids s. ValidObjectID oid \<and> f (relStorePath oid) \<noteq> None)"
  by (auto simp: rows_have_files_def object_ids_def)

lemma object_ids_iff: "oid \<in> object_ids s \<longleftrightarrow> row_exists (is_obj oid) (t_objects s)"
  by (auto simp: object_ids_def row_exists_iff key_simps)

lemma object_ids_ref: "oid \<in> object_ids s \<longleftrightarrow> ref_count_of s oid \<noteq> None"
  using ref_count_of_exists [of s oid] by (auto simp: object_ids_iff)

lemma object_ids_update [simp]:
  "(\<And>r. ob_id (g r) = ob_id r) \<Longrightarrow> object_ids (s\<lparr>t_objects := update_where p g (t_objects s)\<rparr>) = object_ids s"
  by (simp add: object_ids_def key_image_update_where)

lemma object_ids_upsert: "object_ids (upsert_object now oid kind n s) = insert oid (object_ids s)"
proof (cases "row_exists (is_obj oid) (t_objects s)")
  case True
  then have "oid \<in> object_ids s" by (simp add: object_ids_iff)
  with True show ?thesis
    by (simp add: upsert_object_def upsert_def insert_absorb)
next
  case False
  then show ?thesis by (simp add: upsert_object_def upsert_def object_ids_def object_row_new_def)
qed

lemma Put_store_inv:
  assumes "store_inv sha256 fs"
  shows "store_inv sha256 (snd (Put sha256 now oid kind n m body fs))"
proof -
  obtain f s where fs: "fs = (f, s)" by (cases fs)
  let ?p = "relStorePath oid"
  have new: "store_inv sha256 (if f ?p = None then f(?p \<mapsto> body) else f, upsert_object now oid kind (int (length body)) s)"
    if v: "ValidObjectID oid" and h: "hex_encode (sha256 body) = oid"
  proof -
    have same: "oid' = oid" if "ValidObjectID oid'" "relStorePath oid' = ?p" for oid'
      using that v by (auto simp: ValidObjectID_def dest: relStorePath_inj [rotated])
    have "content_ok sha256 (f(?p \<mapsto> body))"
      unfolding content_ok_def
    proof (intro allI impI)
      fix oid' b
      assume a: "ValidObjectID oid'" "(f(?p \<mapsto> body)) (relStorePath oid') = Some b"
      show "hex_encode (sha256 b) = oid'"
      proof (cases "relStorePath oid' = ?p")
        case True
        with same [OF a(1) True] a(2) h show ?thesis by simp
      next
        case False
        with a assms fs show ?thesis by (simp add: store_inv_def content_ok_def)
      qed
    qed
    with assms fs v show ?thesis
      by (auto simp: store_inv_def rows_have_files_ids object_ids_upsert)
  qed
  show ?thesis
    using new assms by (auto simp: Put_def fs Let_def)
qed

lemma Get_store_inv: "store_inv sha256 fs \<Longrightarrow> store_inv sha256 (snd (Get now oid fs))"
  by (cases fs) (auto simp: Get_def Let_def store_inv_def rows_have_files_ids split: option.splits)

section \<open>Garbage collection keeps the store\<close>

lemma object_ids_cong: "t_objects s' = t_objects s \<Longrightarrow> object_ids s' = object_ids s"
  by (simp add: object_ids_def)

lemma object_ids_decr [simp]: "object_ids (decrementObjectRef now oid s) = object_ids s"
  by (simp add: decrementObjectRef_def)

lemma object_ids_incr [simp]: "object_ids (incrementObjectRef oid s) = object_ids s"
  by (simp add: incrementObjectRef_def)

lemma object_ids_fold_decr [simp]: "object_ids (fold (decrementObjectRef now) oids s) = object_ids s"
  by (rule fold_frame) simp

lemma object_ids_prune_event [simp]: "object_ids (prune_event now q s) = object_ids s"
  by (rule trans [OF object_ids_cong [OF prune_event_tables(10)]]) simp

lemma object_ids_prune_snapshot [simp]: "object_ids (prune_snapshot now p s) = object_ids s"
  by (rule trans [OF object_ids_cong [OF prune_snapshot_tables(10)]]) (rule object_ids_fold_decr)

lemma object_ids_delete [simp]: "object_ids (delete_object oid s) = object_ids s - {oid}"
  by (auto simp: object_ids_def delete_object_def key_simps)

lemma object_ids_prune_events [simp]: "object_ids (snd (prune_events now cutoff s)) = object_ids s"
proof -
  have one: "object_ids (snd (fold (\<lambda>q (n, s). (Suc n, prune_event now q s)) qs ns)) = object_ids (snd ns)"
    for qs ns
    by (rule fold_frame [where g = "\<lambda>ns. object_ids (snd ns)"]) (simp add: case_prod_beta)
  show ?thesis
    unfolding prune_events_def
    by (subst fold_frame [where g = "\<lambda>ns. object_ids (snd ns)"])
      (simp_all add: prune_workspace_events_def one)
qed

lemma object_ids_prune_snapshots [simp]: "object_ids (snd (prune_snapshots now cutoff s)) = object_ids s"
  unfolding prune_snapshots_def Let_def snd_conv by (rule fold_frame) simp

lemma object_ids_fold_delete: "object_ids (fold delete_object oids s) = object_ids s - set oids"
  by (induction oids arbitrary: s) auto

lemma object_ids_Prune:
  "object_ids (snd (Prune now er zr s)) = object_ids s - set (snd (snd (fst (Prune now er zr s))))"
proof -
  let ?s1 = "snd (prune_events now (now - er) s)"
  let ?s2 = "snd (prune_snapshots now (now - er) ?s1)"
  have "object_ids (snd (prune_objects (now - zr) ?s2))
      = object_ids ?s2 - set (fst (prune_objects (now - zr) ?s2))"
    by (simp add: prune_objects_def Let_def object_ids_fold_delete)
  then show ?thesis by (simp add: Prune_eq Let_def)
qed

lemma Prune_ids_valid:
  "oid \<in> set (snd (snd (fst (Prune now er zr s)))) \<Longrightarrow> oid \<in> object_ids s"
proof -
  let ?s1 = "snd (prune_events now (now - er) s)"
  let ?s2 = "snd (prune_snapshots now (now - er) ?s1)"
  assume "oid \<in> set (snd (snd (fst (Prune now er zr s))))"
  then have "oid \<in> set (fst (prune_objects (now - zr) ?s2))" by (simp add: Prune_eq Let_def)
  then have "oid \<in> object_ids ?s2" by (auto simp: prune_objects_def object_ids_def Let_def)
  then show ?thesis by simp
qed

lemma remove_files:
  "fold (\<lambda>oid f. f(relStorePath oid := None)) oids f p = (if p \<in> relStorePath ` set oids then None else f p)"
  for f :: files
  by (induction oids arbitrary: f) auto

lemma rows_have_files_remove:
  assumes "rows_have_files f s" and "object_ids s' = object_ids s - set oids"
    and "set oids \<subseteq> object_ids s"
  shows "rows_have_files (fold (\<lambda>oid f. f(relStorePath oid := None)) oids f) s'"
  unfolding rows_have_files_ids
proof
  fix oid assume "oid \<in> object_ids s'"
  with assms(2) have o: "oid \<in> object_ids s" "oid \<notin> set oids" by auto
  have "relStorePath oid \<notin> relStorePath ` set oids"
  proof
    assume "relStorePath oid \<in> relStorePath ` set oids"
    then obtain oid' where oid': "oid' \<in> set oids" "relStorePath oid = relStorePath oid'" by auto
    with assms(1,3) o have "length oid = length oid'"
      by (auto simp: rows_have_files_ids ValidObjectID_def)
    with relStorePath_inj [OF _ oid'(2)] oid'(1) o(2) show False by simp
  qed
  with assms(1) o(1) show "ValidObjectID oid \<and>
      fold (\<lambda>oid f. f(relStorePath oid := None)) oids f (relStorePath oid) \<noteq> None"
    by (simp add: rows_have_files_ids remove_files)
qed

lemma GC_store_inv:
  assumes "store_inv sha256 fs"
  shows "store_inv sha256 (snd (GC now er zr fs))"
proof -
  obtain f s where fs: "fs = (f, s)" by (cases fs)
  let ?oids = "snd (snd (fst (Prune now er zr s)))"
  let ?f = "fold (\<lambda>oid f. f(relStorePath oid := None)) ?oids f"
  have gc: "snd (GC now er zr fs) = (?f, snd (Prune now er zr s))"
    by (simp add: GC_def fs split: prod.split)
  have "rows_have_files ?f (snd (Prune now er zr s))"
    using assms fs Prune_ids_valid
    by (intro rows_have_files_remove [where s = s]) (auto simp: store_inv_def object_ids_Prune)
  moreover have "content_ok sha256 ?f"
    using assms fs by (auto simp: store_inv_def content_ok_def remove_files split: if_splits)
  ultimately show ?thesis by (simp add: gc store_inv_def)
qed

end
