(* ===== verification/Admin.thy ===== *)
theory Admin
  imports ObjectStore
begin

text \<open>
  The purge command of \<^verbatim>\<open>internal/server/admin/admin.go\<close>.  The object files of
  the workspace are first renamed into a staging directory, then the database
  transaction runs, then files whose rows survived are renamed back and the
  staging directory is removed.  Each rename, the transaction and the final
  removal is one atomic action; the command is the sequence of its actions, and
  a crash runs a prefix of it.  \<open>RecoverPurgeStaging\<close> runs when the server starts.
  The staging directory is the list of its entries (object id, content).
\<close>

record admin_state =
  ad_files :: files
  ad_stage :: "(string \<times> bytes) list"
  ad_db :: server_db

datatype admin_error = InvalidWorkspaceID | InvalidStagingEntry string | InvalidOwnedObjectID string
  | AdminDb db_error

definition validWorkspaceID :: "string \<Rightarrow> bool" where
  "validWorkspaceID w \<longleftrightarrow> length w = 32 \<and> list_all is_hex_char w"

definition stage_object :: "string \<Rightarrow> admin_state \<Rightarrow> admin_state" where
  "stage_object oid a =
     (case ad_files a (relStorePath oid) of
        None \<Rightarrow> a
      | Some body \<Rightarrow> a\<lparr>ad_files := (ad_files a)(relStorePath oid := None),
                       ad_stage := ad_stage a @ [(oid, body)]\<rparr>)"

definition restoreStagedObject :: "string \<Rightarrow> admin_state \<Rightarrow> admin_state" where
  "restoreStagedObject oid a =
     (let rest = filter (\<lambda>e. fst e \<noteq> oid) (ad_stage a) in
      case ad_files a (relStorePath oid) of
        Some _ \<Rightarrow> a\<lparr>ad_stage := rest\<rparr>
      | None \<Rightarrow>
          (case map_of (ad_stage a) oid of
             None \<Rightarrow> a
           | Some body \<Rightarrow> a\<lparr>ad_files := (ad_files a)(relStorePath oid \<mapsto> body), ad_stage := rest\<rparr>))"

definition restoreStagedObjects :: "admin_state \<Rightarrow> admin_state" where
  "restoreStagedObjects a = fold (\<lambda>e. restoreStagedObject (fst e)) (ad_stage a) a"

definition remove_staged :: "string \<Rightarrow> admin_state \<Rightarrow> admin_state" where
  "remove_staged oid a = a\<lparr>ad_stage := filter (\<lambda>e. fst e \<noteq> oid) (ad_stage a)\<rparr>"

definition recover_entry :: "string \<Rightarrow> admin_state \<Rightarrow> admin_state" where
  "recover_entry oid a =
     (if row_exists (is_obj oid) (t_objects (ad_db a)) then restoreStagedObject oid a
      else remove_staged oid a)"

fun recover_entries :: "(string \<times> bytes) list \<Rightarrow> admin_state \<Rightarrow> (admin_error + unit) \<times> admin_state" where
  "recover_entries [] a = (Inr (), a)"
| "recover_entries (e # es) a =
     (if \<not> ValidObjectID (fst e) then (Inl (InvalidStagingEntry (fst e)), a)
      else recover_entries es (recover_entry (fst e) a))"

definition RecoverPurgeStaging :: "admin_state \<Rightarrow> (admin_error + unit) \<times> admin_state" where
  "RecoverPurgeStaging a = recover_entries (ad_stage a) a"

text \<open>\<open>stagePurgeObjects\<close>: an invalid id rolls the staging back.\<close>

fun stage_all :: "PurgeObject list \<Rightarrow> admin_state \<Rightarrow> (admin_error + unit) \<times> admin_state" where
  "stage_all [] a = (Inr (), a)"
| "stage_all (ob # obs) a =
     (if \<not> ValidObjectID (po_ObjectID ob)
      then (Inl (InvalidOwnedObjectID (po_ObjectID ob)), restoreStagedObjects a)
      else stage_all obs (stage_object (po_ObjectID ob) a))"

definition purge_db :: "time \<Rightarrow> string \<Rightarrow> PurgeObject list \<Rightarrow> admin_state \<Rightarrow> (db_error + PurgeResult) \<times> admin_state" where
  "purge_db now w candidates a =
     (let (r, s) = PurgeWorkspace w candidates now (ad_db a) in (r, a\<lparr>ad_db := s\<rparr>))"

definition restore_kept :: "PurgeResult \<Rightarrow> admin_state \<Rightarrow> admin_state" where
  "restore_kept result a =
     fold (\<lambda>e. restoreStagedObject (fst e))
       (filter (\<lambda>e. fst e \<notin> po_ObjectID ` set (pr_Objects result)) (ad_stage a)) a"

definition admin_PurgeWorkspace :: "time \<Rightarrow> string \<Rightarrow> admin_state \<Rightarrow> (admin_error + PurgeResult) \<times> admin_state" where
  "admin_PurgeWorkspace now w a =
     (if \<not> validWorkspaceID w then (Inl InvalidWorkspaceID, a)
      else case RecoverPurgeStaging a of
        (Inl e, a1) \<Rightarrow> (Inl e, a1)
      | (Inr _, a1) \<Rightarrow>
          let candidates = WorkspacePurgeObjects w (ad_db a1) in
          (case stage_all candidates a1 of
             (Inl e, a2) \<Rightarrow> (Inl e, a2)
           | (Inr _, a2) \<Rightarrow>
               (case purge_db now w candidates a2 of
                  (Inl e, a3) \<Rightarrow> (Inl (AdminDb e), restoreStagedObjects a3)
                | (Inr result, a3) \<Rightarrow>
                    (Inr result, (restore_kept result a3)\<lparr>ad_stage := []\<rparr>))))"

text \<open>The actions of a purge after the recovery, for crashes in between.\<close>

type_synonym action = "admin_state \<Rightarrow> admin_state"

definition purge_actions :: "time \<Rightarrow> string \<Rightarrow> admin_state \<Rightarrow> action list" where
  "purge_actions now w a =
     (let candidates = WorkspacePurgeObjects w (ad_db a);
          a2 = snd (stage_all candidates a);
          kept = (case fst (purge_db now w candidates a2) of
                    Inl _ \<Rightarrow> ad_stage a2
                  | Inr result \<Rightarrow> filter (\<lambda>e. fst e \<notin> po_ObjectID ` set (pr_Objects result)) (ad_stage a2))
      in map (\<lambda>ob. stage_object (po_ObjectID ob)) candidates
         @ [\<lambda>a. snd (purge_db now w candidates a)]
         @ map (\<lambda>e. restoreStagedObject (fst e)) kept
         @ [\<lambda>a. a\<lparr>ad_stage := []\<rparr>])"

definition run_actions :: "action list \<Rightarrow> admin_state \<Rightarrow> admin_state" where
  "run_actions as a = fold (\<lambda>f a. f a) as a"

section \<open>What holds at every moment of a purge\<close>

definition stage_inv :: "(bytes \<Rightarrow> bytes) \<Rightarrow> admin_state \<Rightarrow> bool" where
  "stage_inv sha256 a \<longleftrightarrow> content_ok sha256 (ad_files a)
     \<and> (\<forall>(oid, body) \<in> set (ad_stage a). ValidObjectID oid \<and> hex_encode (sha256 body) = oid)
     \<and> (\<forall>oid \<in> object_ids (ad_db a). ValidObjectID oid \<and>
          (ad_files a (relStorePath oid) \<noteq> None \<or> oid \<in> fst ` set (ad_stage a)))"

lemma stage_inv_store:
  "stage_inv sha256 a \<Longrightarrow> ad_stage a = [] \<Longrightarrow> store_inv sha256 (ad_files a, ad_db a)"
  by (simp add: stage_inv_def store_inv_def rows_have_files_ids)

lemma store_stage_inv:
  "store_inv sha256 (ad_files a, ad_db a) \<Longrightarrow> ad_stage a = [] \<Longrightarrow> stage_inv sha256 a"
  by (simp add: stage_inv_def store_inv_def rows_have_files_ids)

lemma content_ok_upd:
  assumes "content_ok sha256 f" and "ValidObjectID oid" and "hex_encode (sha256 body) = oid"
  shows "content_ok sha256 (f(relStorePath oid \<mapsto> body))"
  unfolding content_ok_def
proof (intro allI impI)
  fix oid' b
  assume a: "ValidObjectID oid'" "(f(relStorePath oid \<mapsto> body)) (relStorePath oid') = Some b"
  show "hex_encode (sha256 b) = oid'"
  proof (cases "relStorePath oid' = relStorePath oid")
    case True
    with a(1) assms(2) have "oid' = oid" by (auto simp: ValidObjectID_def dest: relStorePath_inj [rotated])
    with a(2) assms(3) show ?thesis by simp
  next
    case False
    with a assms(1) show ?thesis by (simp add: content_ok_def)
  qed
qed

lemma content_ok_del: "content_ok sha256 f \<Longrightarrow> content_ok sha256 (f(p := None))"
  by (simp add: content_ok_def)

lemma stage_object_inv:
  assumes "stage_inv sha256 a" and v: "ValidObjectID oid"
  shows "stage_inv sha256 (stage_object oid a)"
proof (cases "ad_files a (relStorePath oid)")
  case None
  with assms show ?thesis by (simp add: stage_object_def)
next
  case (Some body)
  have "hex_encode (sha256 body) = oid"
    using assms Some by (simp add: stage_inv_def content_ok_def)
  moreover have "oid' = oid" if "ValidObjectID oid'" "relStorePath oid' = relStorePath oid" for oid'
    using that v by (auto simp: ValidObjectID_def dest: relStorePath_inj [rotated])
  ultimately show ?thesis
    using assms Some by (auto simp: stage_object_def stage_inv_def content_ok_del)
qed

lemma restoreStagedObject_inv:
  assumes "stage_inv sha256 a"
  shows "stage_inv sha256 (restoreStagedObject oid a)"
proof (cases "ad_files a (relStorePath oid)")
  case (Some b)
  have "ad_files a (relStorePath oid') \<noteq> None \<or> oid' \<in> fst ` set (filter (\<lambda>e. fst e \<noteq> oid) (ad_stage a))"
    if "oid' \<in> object_ids (ad_db a)" for oid'
    using assms that Some by (cases "oid' = oid") (auto simp: stage_inv_def)
  with assms Some show ?thesis by (auto simp: restoreStagedObject_def Let_def stage_inv_def)
next
  case None
  show ?thesis
  proof (cases "map_of (ad_stage a) oid")
    case None
    with assms \<open>ad_files a (relStorePath oid) = None\<close> show ?thesis
      by (simp add: restoreStagedObject_def Let_def)
  next
    case (Some body)
    then have "(oid, body) \<in> set (ad_stage a)" by (rule map_of_SomeD)
    with assms have v: "ValidObjectID oid" and h: "hex_encode (sha256 body) = oid"
      by (auto simp: stage_inv_def)
    from assms have c: "content_ok sha256 (ad_files a)" by (simp add: stage_inv_def)
    let ?f = "(ad_files a)(relStorePath oid \<mapsto> body)"
    have "?f (relStorePath oid') \<noteq> None \<or> oid' \<in> fst ` set (filter (\<lambda>e. fst e \<noteq> oid) (ad_stage a))"
      if "oid' \<in> object_ids (ad_db a)" for oid'
      using assms that by (cases "oid' = oid") (auto simp: stage_inv_def)
    with assms None Some content_ok_upd [OF c v h] show ?thesis
      by (auto simp: restoreStagedObject_def Let_def stage_inv_def)
  qed
qed

lemma purge_db_frame [frame_simps]:
  "ad_db (snd (purge_db now w cs a)) = snd (PurgeWorkspace w cs now (ad_db a))"
  "ad_files (snd (purge_db now w cs a)) = ad_files a"
  "ad_stage (snd (purge_db now w cs a)) = ad_stage a"
  "fst (purge_db now w cs a) = fst (PurgeWorkspace w cs now (ad_db a))"
  by (simp_all add: purge_db_def Let_def case_prod_unfold)

lemma purge_db_inv:
  assumes "stage_inv sha256 a"
  shows "stage_inv sha256 (snd (purge_db now w cs a))"
proof -
  have "object_ids (snd (PurgeWorkspace w cs now s)) \<subseteq> object_ids s" for s
  proof -
    have "object_ids (recount_refs now (purge_rows w s)) = object_ids s"
      by (simp add: object_ids_def recount_refs_def image_image frame_simps)
    then show ?thesis
      unfolding PurgeWorkspace_snd
      using purge_candidates_rule [where P = "\<lambda>t. object_ids t \<subseteq> object_ids s"
          and s = "recount_refs now (purge_rows w s)" and cs = cs and acc = "[]"]
      by auto
  qed
  then have sub: "object_ids (ad_db (snd (purge_db now w cs a))) \<subseteq> object_ids (ad_db a)"
    by (simp add: purge_db_frame)
  from assms show ?thesis
    unfolding stage_inv_def using sub by (auto simp: purge_db_frame)
qed

lemma remove_staged_inv:
  "stage_inv sha256 a \<Longrightarrow> oid \<notin> object_ids (ad_db a) \<Longrightarrow> stage_inv sha256 (remove_staged oid a)"
  by (auto simp: stage_inv_def remove_staged_def)

lemma recover_entry_inv: "stage_inv sha256 a \<Longrightarrow> stage_inv sha256 (recover_entry oid a)"
  by (simp add: recover_entry_def restoreStagedObject_inv remove_staged_inv object_ids_iff)

lemma stage_frames [frame_simps]:
  "ad_db (stage_object oid a) = ad_db a"
  "ad_db (restoreStagedObject oid a) = ad_db a"
  "ad_db (recover_entry oid a) = ad_db a"
  by (auto simp: stage_object_def restoreStagedObject_def recover_entry_def remove_staged_def Let_def
      split: option.split)

lemma ad_stage_restore:
  "ad_stage (restoreStagedObject oid a) = filter (\<lambda>e. fst e \<noteq> oid) (ad_stage a)"
proof -
  have "map_of es oid = None \<Longrightarrow> filter (\<lambda>e. fst e \<noteq> oid) es = es" for es :: "(string \<times> bytes) list"
    by (induction es) auto
  then show ?thesis by (auto simp: restoreStagedObject_def Let_def split: option.split)
qed

lemma ad_stage_recover: "ad_stage (recover_entry oid a) = filter (\<lambda>e. fst e \<noteq> oid) (ad_stage a)"
  by (simp add: recover_entry_def ad_stage_restore remove_staged_def)

lemma recover_entries_spec:
  assumes "stage_inv sha256 a" and "\<forall>e \<in> set es. ValidObjectID (fst e)"
  shows "fst (recover_entries es a) = Inr () \<and> stage_inv sha256 (snd (recover_entries es a))
    \<and> ad_db (snd (recover_entries es a)) = ad_db a
    \<and> ad_stage (snd (recover_entries es a)) = filter (\<lambda>e. fst e \<notin> fst ` set es) (ad_stage a)"
  using assms
proof (induction es arbitrary: a)
  case (Cons e es)
  have "filter (\<lambda>x. fst x \<notin> fst ` set es) (filter (\<lambda>x. fst x \<noteq> fst e) xs)
      = filter (\<lambda>x. fst x \<notin> fst ` set (e # es)) xs" for xs :: "(string \<times> bytes) list"
    by (auto intro: filter_cong)
  with Cons.IH [of "recover_entry (fst e) a"] Cons.prems show ?case
    by (simp add: recover_entry_inv frame_simps ad_stage_recover)
qed simp

lemma Recover_spec:
  assumes "stage_inv sha256 a"
  shows "fst (RecoverPurgeStaging a) = Inr () \<and> ad_stage (snd (RecoverPurgeStaging a)) = []
    \<and> ad_db (snd (RecoverPurgeStaging a)) = ad_db a
    \<and> store_inv sha256 (ad_files (snd (RecoverPurgeStaging a)), ad_db (snd (RecoverPurgeStaging a)))"
proof -
  have "\<forall>e \<in> set (ad_stage a). ValidObjectID (fst e)" using assms by (auto simp: stage_inv_def)
  note r = recover_entries_spec [OF assms this]
  have "filter (\<lambda>e. fst e \<notin> fst ` set (ad_stage a)) (ad_stage a) = []"
    by (auto simp: filter_empty_conv)
  with r show ?thesis
    unfolding RecoverPurgeStaging_def by (metis stage_inv_store)
qed

section \<open>A crashed purge is recovered\<close>

lemma stage_all_valid:
  "\<forall>ob \<in> set obs. ValidObjectID (po_ObjectID ob)
    \<Longrightarrow> stage_all obs a = (Inr (), fold (\<lambda>ob. stage_object (po_ObjectID ob)) obs a)"
  by (induction obs arbitrary: a) simp_all

lemma run_actions_simps [simp]:
  "run_actions [] a = a"
  "run_actions (f # fs) a = run_actions fs (f a)"
  "run_actions (fs @ gs) a = run_actions gs (run_actions fs a)"
  by (simp_all add: run_actions_def)

lemma run_actions_map [simp]: "run_actions (map f xs) a = fold f xs a"
  by (induction xs arbitrary: a) simp_all

lemma run_actions_inv:
  "stage_inv sha256 a \<Longrightarrow> (\<And>f a. f \<in> set fs \<Longrightarrow> stage_inv sha256 a \<Longrightarrow> stage_inv sha256 (f a))
    \<Longrightarrow> stage_inv sha256 (run_actions fs a)"
  unfolding run_actions_def by (rule fold_invariant [of "stage_inv sha256"]) auto

lemma purge_objects_deleted:
  assumes "fst (PurgeWorkspace w cs now s) = Inr result" and "ob \<in> set (pr_Objects result)"
  shows "po_ObjectID ob \<notin> object_ids (snd (PurgeWorkspace w cs now s))"
proof -
  have gone: "\<forall>ob \<in> set (fst (fold purge_candidate cs (acc, t))).
      po_ObjectID ob \<notin> object_ids (snd (fold purge_candidate cs (acc, t)))"
    if "\<forall>ob \<in> set acc. po_ObjectID ob \<notin> object_ids t" for cs acc t
    using that
  proof (induction cs arbitrary: acc t)
    case (Cons c cs)
    obtain acc' t' where eq: "purge_candidate c (acc, t) = (acc', t')"
      by (cases "purge_candidate c (acc, t)")
    then have "\<forall>ob \<in> set acc'. po_ObjectID ob \<notin> object_ids t'"
      using Cons.prems by (auto simp: purge_candidate_def split: if_splits)
    from Cons.IH [OF this] show ?case by (simp add: eq)
  qed simp
  from assms show ?thesis
    using gone [of "[]" "recount_refs now (purge_rows w s)" cs]
    by (auto simp: PurgeWorkspace_def split: if_splits prod.splits)
qed

lemma fold_restore_stage:
  "ad_stage (fold (\<lambda>e. restoreStagedObject (fst e)) es a) = filter (\<lambda>e. fst e \<notin> fst ` set es) (ad_stage a)"
proof (induction es arbitrary: a)
  case (Cons e es)
  show ?case
    by (simp add: Cons.IH ad_stage_restore conj_commute)
qed simp

lemma fold_restore_db: "ad_db (fold (\<lambda>e. restoreStagedObject (fst e)) es a) = ad_db a"
  by (rule fold_frame) (simp add: frame_simps)

lemma fold_restore_inv:
  "stage_inv sha256 a \<Longrightarrow> stage_inv sha256 (fold (\<lambda>e. restoreStagedObject (fst e)) es a)"
  by (rule fold_invariant [of "stage_inv sha256"]) (auto intro: restoreStagedObject_inv)

lemma purge_candidates_valid:
  assumes "store_inv sha256 (ad_files a, ad_db a)" and "ob \<in> set (WorkspacePurgeObjects w (ad_db a))"
  shows "ValidObjectID (po_ObjectID ob)"
  using assms by (auto simp: WorkspacePurgeObjects_def store_inv_def rows_have_files_def key_simps)

lemma purge_actions_inv:
  assumes "store_inv sha256 (ad_files a, ad_db a)" and "ad_stage a = []"
    and "f \<in> set (butlast (purge_actions now w a))" and "stage_inv sha256 b"
  shows "stage_inv sha256 (f b)"
proof -
  from assms(3) have "(\<exists>ob \<in> set (WorkspacePurgeObjects w (ad_db a)). f = stage_object (po_ObjectID ob))
      \<or> f = (\<lambda>b. snd (purge_db now w (WorkspacePurgeObjects w (ad_db a)) b))
      \<or> (\<exists>oid. f = restoreStagedObject oid)"
    by (auto simp: purge_actions_def Let_def butlast_append split: if_splits)
  then show ?thesis
    using assms(4) purge_candidates_valid [OF assms(1)]
    by (auto intro: stage_object_inv purge_db_inv restoreStagedObject_inv)
qed

lemma stage_all_stage:
  assumes "stage_inv sha256 a" and "\<forall>ob \<in> set obs. ValidObjectID (po_ObjectID ob)"
  shows "stage_inv sha256 (fold (\<lambda>ob. stage_object (po_ObjectID ob)) obs a)
    \<and> ad_db (fold (\<lambda>ob. stage_object (po_ObjectID ob)) obs a) = ad_db a"
  using assms by (induction obs arbitrary: a) (auto simp: stage_object_inv frame_simps)

text \<open>The whole list of actions ends with an empty staging directory and no row
  without its file.\<close>

lemma purge_actions_done:
  assumes "store_inv sha256 (ad_files a, ad_db a)" and "ad_stage a = []"
  shows "stage_inv sha256 (run_actions (purge_actions now w a) a)
    \<and> ad_stage (run_actions (purge_actions now w a) a) = []
    \<and> ad_db (run_actions (purge_actions now w a) a)
        = snd (PurgeWorkspace w (WorkspacePurgeObjects w (ad_db a)) now (ad_db a))"
proof -
  let ?cs = "WorkspacePurgeObjects w (ad_db a)"
  define a2 where "a2 = fold (\<lambda>ob. stage_object (po_ObjectID ob)) ?cs a"
  define r where "r = fst (PurgeWorkspace w ?cs now (ad_db a))"
  define kept where "kept = (case r of Inl _ \<Rightarrow> ad_stage a2
      | Inr result \<Rightarrow> filter (\<lambda>e. fst e \<notin> po_ObjectID ` set (pr_Objects result)) (ad_stage a2))"
  have v: "\<forall>ob \<in> set ?cs. ValidObjectID (po_ObjectID ob)"
    using purge_candidates_valid [OF assms(1)] by blast
  have a2: "stage_inv sha256 a2" "ad_db a2 = ad_db a"
    using stage_all_stage [OF store_stage_inv [OF assms] v] by (simp_all add: a2_def)
  define a3 where "a3 = snd (purge_db now w ?cs a2)"
  have a3: "stage_inv sha256 a3" "ad_stage a3 = ad_stage a2"
    "ad_db a3 = snd (PurgeWorkspace w ?cs now (ad_db a))"
    using purge_db_inv [OF a2(1)] a2(2) by (simp_all add: a3_def frame_simps)
  define a4 where "a4 = fold (\<lambda>e. restoreStagedObject (fst e)) kept a3"
  have a4: "stage_inv sha256 a4" "ad_db a4 = ad_db a3"
    "ad_stage a4 = filter (\<lambda>e. fst e \<notin> fst ` set kept) (ad_stage a2)"
    using fold_restore_inv [OF a3(1)] by (simp_all add: a4_def fold_restore_db fold_restore_stage a3(2))
  have run: "run_actions (purge_actions now w a) a = a4\<lparr>ad_stage := []\<rparr>"
    by (cases r) (simp_all add: purge_actions_def Let_def stage_all_valid [OF v] a2_def [symmetric]
        frame_simps a2(2) r_def [symmetric] a3_def [symmetric] a4_def kept_def)
  have "fst e \<notin> object_ids (ad_db a4)" if e: "e \<in> set (ad_stage a4)" for e
  proof (cases r)
    case (Inl err)
    with e a4(3) show ?thesis by (auto simp: kept_def)
  next
    case (Inr result)
    with e a4(3) have "fst e \<in> po_ObjectID ` set (pr_Objects result)" by (auto simp: kept_def)
    then obtain ob where "ob \<in> set (pr_Objects result)" "fst e = po_ObjectID ob" by blast
    with purge_objects_deleted [of w ?cs now "ad_db a" result ob] Inr show ?thesis
      by (simp add: r_def a4(2) a3(3))
  qed
  then have "stage_inv sha256 (a4\<lparr>ad_stage := []\<rparr>)"
    using a4(1) by (fastforce simp: stage_inv_def)
  then show ?thesis by (simp add: run a4(2) a3(3))
qed

lemma run_actions_db:
  assumes "store_inv sha256 (ad_files a, ad_db a)"
  shows "ad_db (run_actions (take n (purge_actions now w a)) a)
    \<in> {ad_db a, snd (PurgeWorkspace w (WorkspacePurgeObjects w (ad_db a)) now (ad_db a))}"
proof -
  let ?cs = "WorkspacePurgeObjects w (ad_db a)"
  define stages where "stages = map (\<lambda>ob. stage_object (po_ObjectID ob)) ?cs"
  obtain tail where acts: "purge_actions now w a = stages @ (\<lambda>b. snd (purge_db now w ?cs b)) # tail"
    and tail: "\<forall>f \<in> set tail. \<forall>b. ad_db (f b) = ad_db b"
    by (auto simp: purge_actions_def Let_def stages_def frame_simps)
  have keep: "ad_db (run_actions fs b) = ad_db b" if "\<forall>f \<in> set fs. \<forall>b. ad_db (f b) = ad_db b" for fs b
    using that by (induction fs arbitrary: b) simp_all
  have st: "\<forall>f \<in> set stages. \<forall>b. ad_db (f b) = ad_db b" by (auto simp: stages_def frame_simps)
  show ?thesis
  proof (cases "n \<le> length stages")
    case True
    then have "take n (purge_actions now w a) = take n stages" by (simp add: acts)
    moreover have "ad_db (run_actions (take n stages) a) = ad_db a"
      by (rule keep) (use st in_set_takeD in fast)
    ultimately show ?thesis by (simp only: insert_iff simp_thms)
  next
    case False
    then obtain k where "n - length stages = Suc k" by (metis diff_is_0_eq not0_implies_Suc)
    with False have "take n (purge_actions now w a) = stages @ (\<lambda>b. snd (purge_db now w ?cs b)) # take k tail"
      by (simp add: acts)
    moreover have "ad_db (run_actions stages a) = ad_db a" by (rule keep [OF st])
    moreover have "ad_db (run_actions (take k tail) b) = ad_db b" for b
      by (rule keep) (use tail in_set_takeD in fast)
    ultimately show ?thesis
      by (simp only: run_actions_simps purge_db_frame insert_iff simp_thms)
  qed
qed

lemma purge_crash_stage:
  assumes "store_inv sha256 (ad_files a, ad_db a)" and "ad_stage a = []"
  shows "stage_inv sha256 (run_actions (take n (purge_actions now w a)) a)"
proof (cases "n < length (purge_actions now w a)")
  case True
  then have "set (take n (purge_actions now w a)) \<subseteq> set (butlast (purge_actions now w a))"
    by (metis Suc_leI Suc_pred butlast_conv_take diff_Suc_1 less_Suc_eq_le length_greater_0_conv
        list.size(3) not_less_zero set_take_subset_set_take)
  then show ?thesis
    using purge_actions_inv [OF assms] store_stage_inv [OF assms]
    by (intro run_actions_inv) blast+
next
  case False
  with purge_actions_done [OF assms] show ?thesis by simp
qed

end
