(* ===== verification/Crypto.thy ===== *)
theory Crypto
  imports Encoding
begin

text \<open>
  \<^verbatim>\<open>internal/common/crypto/crypto.go\<close>: recovery keys, key derivation, the ids and
  the login transcript computed from them, the blob format and its additional
  data.  The primitives of the standard library and of \<^verbatim>\<open>x/crypto\<close> (SHA-256,
  HMAC, HKDF, ed25519, XChaCha20-Poly1305) are the fields of \<open>primitives\<close>; random
  bytes are arguments.
\<close>

record primitives =
  px_sha256 :: "bytes \<Rightarrow> bytes"
  px_hmac :: "bytes \<Rightarrow> bytes \<Rightarrow> bytes"
  px_hkdf :: "bytes \<Rightarrow> bytes \<Rightarrow> bytes \<Rightarrow> nat \<Rightarrow> bytes"
  px_newkey :: "bytes \<Rightarrow> bytes"
  px_public :: "bytes \<Rightarrow> bytes"
  px_sign :: "bytes \<Rightarrow> bytes \<Rightarrow> bytes"
  px_verify :: "bytes \<Rightarrow> bytes \<Rightarrow> bytes \<Rightarrow> bool"
  px_seal :: "bytes \<Rightarrow> bytes \<Rightarrow> bytes \<Rightarrow> bytes \<Rightarrow> bytes"
  px_open :: "bytes \<Rightarrow> bytes \<Rightarrow> bytes \<Rightarrow> bytes \<Rightarrow> bytes option"

datatype crypto_error = BadPrefix | BadShape | BadKeyBytes | BadChecksum | BadKeyLength nat
  | BlobTooShort | UnsupportedBlobVersion nat | AeadFailed | NegativePlainSize int
  | WriteFailed | ShortWrite

section \<open>Recovery keys\<close>

definition recoveryPrefix :: string where
  "recoveryPrefix = ''syna1-''"

definition FormatRecoveryKey :: "primitives \<Rightarrow> bytes \<Rightarrow> string" where
  "FormatRecoveryKey px raw =
     recoveryPrefix @ hex_encode raw @ ''-'' @ hex_encode (take 4 (px_sha256 px raw))"

definition GenerateRecoveryKey :: "primitives \<Rightarrow> bytes \<Rightarrow> string \<times> bytes" where
  "GenerateRecoveryKey px random = (FormatRecoveryKey px random, random)"

definition ParseRecoveryKey :: "primitives \<Rightarrow> string \<Rightarrow> crypto_error + bytes" where
  "ParseRecoveryKey px display =
     (if take 6 display \<noteq> recoveryPrefix then Inl BadPrefix
      else case split_on (CHR ''-'') display of
        [a, b, c] \<Rightarrow>
          (case hex_decode b of
             None \<Rightarrow> Inl BadKeyBytes
           | Some raw \<Rightarrow>
               if length raw \<noteq> 32 then Inl BadKeyBytes
               else if hex_encode (take 4 (px_sha256 px raw)) \<noteq> c then Inl BadChecksum
               else Inr raw)
      | _ \<Rightarrow> Inl BadShape)"

section \<open>Key derivation and ids\<close>

record DerivedKeys =
  dk_WorkspaceIDKey :: bytes
  dk_PathIDKey :: bytes
  dk_BlobKey :: bytes
  dk_EventKey :: bytes
  dk_SnapshotKey :: bytes
  dk_AuthSeed :: bytes

definition derive_info :: "primitives \<Rightarrow> bytes \<Rightarrow> string \<Rightarrow> bytes" where
  "derive_info px raw info = px_hkdf px raw ''syna-v1'' info 32"

definition Derive :: "primitives \<Rightarrow> bytes \<Rightarrow> crypto_error + DerivedKeys" where
  "Derive px raw =
     (if length raw \<noteq> 32 then Inl (BadKeyLength (length raw))
      else Inr \<lparr>dk_WorkspaceIDKey = derive_info px raw ''workspace-id'',
                dk_PathIDKey = derive_info px raw ''path-id'',
                dk_BlobKey = derive_info px raw ''blob'',
                dk_EventKey = derive_info px raw ''event'',
                dk_SnapshotKey = derive_info px raw ''snapshot'',
                dk_AuthSeed = derive_info px raw ''auth-ed25519-seed''\<rparr>)"

definition WorkspaceID :: "primitives \<Rightarrow> DerivedKeys \<Rightarrow> string" where
  "WorkspaceID px k = take 32 (hex_encode (px_hmac px (dk_WorkspaceIDKey k) ''workspace''))"

definition root_id_input :: "string \<Rightarrow> bytes" where
  "root_id_input homeRelPath = ''root'' @ [nul] @ homeRelPath"

definition path_id_input :: "string \<Rightarrow> string \<Rightarrow> bytes" where
  "path_id_input rootID relPath = rootID @ [nul] @ relPath"

definition RootID :: "primitives \<Rightarrow> DerivedKeys \<Rightarrow> string \<Rightarrow> string" where
  "RootID px k homeRelPath = hex_encode (px_hmac px (dk_PathIDKey k) (root_id_input homeRelPath))"

definition PathID :: "primitives \<Rightarrow> DerivedKeys \<Rightarrow> string \<Rightarrow> string \<Rightarrow> string" where
  "PathID px k rootID relPath = hex_encode (px_hmac px (dk_PathIDKey k) (path_id_input rootID relPath))"

definition ObjectID :: "primitives \<Rightarrow> bytes \<Rightarrow> string" where
  "ObjectID px blob = hex_encode (px_sha256 px blob)"

section \<open>Login transcript\<close>

definition transcript :: "string \<Rightarrow> string \<Rightarrow> bytes \<Rightarrow> bytes \<Rightarrow> bytes" where
  "transcript workspaceID deviceID clientNonce serverNonce =
     ''syna-auth-v1'' @ [nul] @ workspaceID @ [nul] @ deviceID @ [nul] @ clientNonce @ [nul] @ serverNonce"

definition TranscriptDigest :: "primitives \<Rightarrow> string \<Rightarrow> string \<Rightarrow> bytes \<Rightarrow> bytes \<Rightarrow> bytes" where
  "TranscriptDigest px workspaceID deviceID clientNonce serverNonce =
     px_sha256 px (transcript workspaceID deviceID clientNonce serverNonce)"

definition AuthKeys :: "primitives \<Rightarrow> DerivedKeys \<Rightarrow> bytes \<times> bytes" where
  "AuthKeys px k =
     (let privateKey = px_newkey px (dk_AuthSeed k) in (privateKey, px_public px privateKey))"

definition SignTranscript ::
  "primitives \<Rightarrow> bytes \<Rightarrow> string \<Rightarrow> string \<Rightarrow> bytes \<Rightarrow> bytes \<Rightarrow> bytes" where
  "SignTranscript px privateKey workspaceID deviceID clientNonce serverNonce =
     px_sign px privateKey (TranscriptDigest px workspaceID deviceID clientNonce serverNonce)"

definition VerifyTranscript ::
  "primitives \<Rightarrow> bytes \<Rightarrow> string \<Rightarrow> string \<Rightarrow> bytes \<Rightarrow> bytes \<Rightarrow> bytes \<Rightarrow> bool" where
  "VerifyTranscript px publicKey workspaceID deviceID clientNonce serverNonce signature \<longleftrightarrow>
     length publicKey = 32 \<and> length signature = 64 \<and>
     px_verify px publicKey (TranscriptDigest px workspaceID deviceID clientNonce serverNonce) signature"

section \<open>Blobs\<close>

definition blobFormatVersion :: nat where
  "blobFormatVersion = 1"

definition NonceSizeX :: nat where
  "NonceSizeX = 24"

definition aeadOverhead :: nat where
  "aeadOverhead = 16"

definition Encrypt :: "primitives \<Rightarrow> bytes \<Rightarrow> bytes \<Rightarrow> bytes \<Rightarrow> bytes \<Rightarrow> crypto_error + bytes" where
  "Encrypt px nonce key plaintext aad =
     (if length key \<noteq> 32 then Inl (BadKeyLength (length key))
      else Inr (char_of blobFormatVersion # nonce @ px_seal px key nonce plaintext aad))"

definition Decrypt :: "primitives \<Rightarrow> bytes \<Rightarrow> bytes \<Rightarrow> bytes \<Rightarrow> crypto_error + bytes" where
  "Decrypt px key blob aad =
     (if length blob < 1 + NonceSizeX then Inl BlobTooShort
      else if of_char (hd blob) \<noteq> blobFormatVersion then Inl (UnsupportedBlobVersion (of_char (hd blob)))
      else if length key \<noteq> 32 then Inl (BadKeyLength (length key))
      else case px_open px key (take NonceSizeX (tl blob)) (drop NonceSizeX (tl blob)) aad of
        None \<Rightarrow> Inl AeadFailed | Some plain \<Rightarrow> Inr plain)"

text \<open>The in-place variant returns the same bytes; the buffer it overwrites is not read again.\<close>

definition DecryptInPlace :: "primitives \<Rightarrow> bytes \<Rightarrow> bytes \<Rightarrow> bytes \<Rightarrow> crypto_error + bytes" where
  "DecryptInPlace px key blob aad =
     (if length blob < 1 + NonceSizeX then Inl BlobTooShort
      else if of_char (hd blob) \<noteq> blobFormatVersion then Inl (UnsupportedBlobVersion (of_char (hd blob)))
      else if length key \<noteq> 32 then Inl (BadKeyLength (length key))
      else case px_open px key (take NonceSizeX (tl blob)) (drop NonceSizeX (tl blob)) aad of
        None \<Rightarrow> Inl AeadFailed | Some plain \<Rightarrow> Inr plain)"

text \<open>A writer takes bytes and tells how many it wrote and whether it failed.\<close>

type_synonym 'w writer = "bytes \<Rightarrow> 'w \<Rightarrow> (nat \<times> bool) \<times> 'w"

definition DecryptToWriter ::
  "primitives \<Rightarrow> bytes \<Rightarrow> bytes \<Rightarrow> bytes \<Rightarrow> 'w writer \<Rightarrow> 'w \<Rightarrow> (int \<times> crypto_error option) \<times> 'w" where
  "DecryptToWriter px key blob aad write dst =
     (case DecryptInPlace px key blob aad of
        Inl e \<Rightarrow> ((0, Some e), dst)
      | Inr plain \<Rightarrow>
          (case write plain dst of
             ((n, failed), dst') \<Rightarrow>
               if failed then ((int n, Some WriteFailed), dst')
               else if n \<noteq> length plain then ((int n, Some ShortWrite), dst')
               else ((int n, None), dst')))"

definition EncryptedSize :: "int \<Rightarrow> crypto_error + int" where
  "EncryptedSize plainSize =
     (if plainSize < 0 then Inl (NegativePlainSize plainSize)
      else Inr (wrap64 (plainSize + 1 + int NonceSizeX + int aeadOverhead)))"

section \<open>Additional data\<close>

definition joinAAD :: "string list \<Rightarrow> bytes" where
  "joinAAD parts = join_on nul parts"

definition BlobAAD :: "string \<Rightarrow> string \<Rightarrow> string \<Rightarrow> int \<Rightarrow> int \<Rightarrow> bytes" where
  "BlobAAD w rootID pathID chunkIndex plainSize =
     joinAAD [''syna-blob-v1'', w, rootID, pathID, FormatInt chunkIndex, FormatInt plainSize]"

definition EventAAD :: "string \<Rightarrow> string \<Rightarrow> string \<Rightarrow> string \<Rightarrow> bytes" where
  "EventAAD w rootID pathID eventType = joinAAD [''syna-event-v1'', w, rootID, pathID, eventType]"

definition SnapshotAAD :: "string \<Rightarrow> string \<Rightarrow> int \<Rightarrow> bytes" where
  "SnapshotAAD w rootID baseSeq = joinAAD [''syna-snapshot-v1'', w, rootID, FormatInt baseSeq]"

section \<open>Facts\<close>

lemma nul_hex: "nul \<notin> set (hex_encode bs)"
  by (auto dest: set_hex_encode simp: is_hex_char_def nul_def Let_def)

lemma nul_FormatInt: "nul \<notin> set (FormatInt i)"
  by (auto dest!: FormatInt_chars simp: is_digit_def nul_def char_of_def)

lemma dash_hex: "CHR ''-'' \<notin> set (hex_encode bs)"
  by (auto dest: set_hex_encode simp: is_hex_char_def Let_def)

lemma joinAAD_inj:
  "ps \<noteq> [] \<Longrightarrow> qs \<noteq> [] \<Longrightarrow> \<forall>p \<in> set ps \<union> set qs. nul \<notin> set p \<Longrightarrow> joinAAD ps = joinAAD qs \<Longrightarrow> ps = qs"
  unfolding joinAAD_def by (rule join_on_inj)

lemma ParseRecoveryKey_Format:
  assumes "length raw = 32"
  shows "ParseRecoveryKey px (FormatRecoveryKey px raw) = Inr raw"
proof -
  let ?sum = "hex_encode (take 4 (px_sha256 px raw))"
  have "FormatRecoveryKey px raw = ''syna1'' @ CHR ''-'' # (hex_encode raw @ CHR ''-'' # ?sum)"
    by (simp add: FormatRecoveryKey_def recoveryPrefix_def)
  moreover have "split_on (CHR ''-'') (''syna1'' @ CHR ''-'' # (hex_encode raw @ CHR ''-'' # ?sum))
      = [''syna1'', hex_encode raw, ?sum]"
    by (subst split_on_append, simp, subst split_on_append, rule dash_hex)
      (simp add: split_on_none dash_hex)
  moreover have "take 6 (FormatRecoveryKey px raw) = recoveryPrefix"
    by (simp add: FormatRecoveryKey_def recoveryPrefix_def)
  ultimately show ?thesis
    using assms by (simp add: ParseRecoveryKey_def)
qed

lemma Decrypt_Encrypt:
  assumes "length key = 32" and "length nonce = NonceSizeX"
    and "px_open px key nonce (px_seal px key nonce plain aad) aad = Some plain"
    and "Encrypt px nonce key plain aad = Inr blob"
  shows "Decrypt px key blob aad = Inr plain"
proof -
  have "blob = char_of blobFormatVersion # nonce @ px_seal px key nonce plain aad"
    using assms(1,4) by (simp add: Encrypt_def)
  with assms show ?thesis by (simp add: Decrypt_def blobFormatVersion_def)
qed

lemma DecryptInPlace_eq: "DecryptInPlace = Decrypt"
  by (intro ext) (simp add: DecryptInPlace_def Decrypt_def)

lemma length_Encrypt:
  assumes "Encrypt px nonce key plain aad = Inr blob" and "length nonce = NonceSizeX"
    and "length (px_seal px key nonce plain aad) = length plain + aeadOverhead"
    and "int (length plain) \<le> max_int64 - 41"
  shows "EncryptedSize (int (length plain)) = Inr (int (length blob))"
proof -
  have "blob = char_of blobFormatVersion # nonce @ px_seal px key nonce plain aad"
    using assms(1) by (simp add: Encrypt_def split: if_splits)
  with assms(2-4) show ?thesis
    by (simp add: EncryptedSize_def NonceSizeX_def aeadOverhead_def wrap64_id max_int64_def)
qed

lemma append_nul_inj:
  "a @ nul # b = c @ nul # d \<Longrightarrow> nul \<notin> set a \<Longrightarrow> nul \<notin> set c \<Longrightarrow> a = c \<and> b = d"
  using split_on_append [of nul a b] split_on_append [of nul c d] by simp

lemma transcript_inj:
  assumes "transcript w d cn sn = transcript w' d' cn' sn'"
    and "nul \<notin> set w" "nul \<notin> set w'" "nul \<notin> set d" "nul \<notin> set d'" "length cn = length cn'"
  shows "w = w' \<and> d = d' \<and> cn = cn' \<and> sn = sn'"
proof -
  from assms(1) have "w @ nul # d @ nul # cn @ nul # sn = w' @ nul # d' @ nul # cn' @ nul # sn'"
    by (simp add: transcript_def)
  with assms(2,3) have "w = w'" and "d @ nul # cn @ nul # sn = d' @ nul # cn' @ nul # sn'"
    using append_nul_inj by blast+
  with assms(4,5) have "w = w'" "d = d'" and "cn @ nul # sn = cn' @ nul # sn'"
    using append_nul_inj by blast+
  with assms(6) show ?thesis by simp
qed

end
