(* ===== verification/Hub.thy ===== *)
theory Hub
  imports Protocol
begin

text \<open>
  \<^verbatim>\<open>internal/server/hub/hub.go\<close>: fan-out of messages to the websocket
  subscribers of a workspace.  A subscriber is the number of its channel; a
  channel is a bounded buffer with a closed flag, from which a receiver may still
  drain what is buffered after the close, as Go's channels allow.
\<close>

definition subscriber_buffer :: nat where
  "subscriber_buffer = 32"

record 'm channel =
  cn_buf :: "'m list"
  cn_closed :: bool

record 'm hub =
  hb_maxPerWS :: int
  hb_next :: nat
  hb_subs :: "string \<Rightarrow> nat list"
  hb_chan :: "nat \<Rightarrow> 'm channel"

definition new_hub :: "int \<Rightarrow> 'm hub" where
  "new_hub m = \<lparr>hb_maxPerWS = m, hb_next = 0, hb_subs = (\<lambda>_. []),
                hb_chan = (\<lambda>_. \<lparr>cn_buf = [], cn_closed = False\<rparr>)\<rparr>"

text \<open>A workspace with no subscribers has no entry in the Go map, so the limit is
  only compared for a workspace that has one.\<close>

definition Subscribe :: "string \<Rightarrow> 'm hub \<Rightarrow> nat option \<times> 'm hub" where
  "Subscribe w h =
     (if hb_subs h w \<noteq> [] \<and> int (length (hb_subs h w)) \<ge> hb_maxPerWS h then (None, h)
      else (Some (hb_next h),
            h\<lparr>hb_next := hb_next h + 1,
              hb_subs := (hb_subs h)(w := hb_subs h w @ [hb_next h]),
              hb_chan := (hb_chan h)(hb_next h := \<lparr>cn_buf = [], cn_closed = False\<rparr>)\<rparr>))"

definition Unsubscribe :: "string \<Rightarrow> nat \<Rightarrow> 'm hub \<Rightarrow> 'm hub" where
  "Unsubscribe w sub h =
     (if sub \<notin> set (hb_subs h w) then h
      else h\<lparr>hb_subs := (hb_subs h)(w := filter (\<lambda>x. x \<noteq> sub) (hb_subs h w)),
             hb_chan := (hb_chan h)(sub := (hb_chan h sub)\<lparr>cn_closed := True\<rparr>)\<rparr>)"

definition try_send :: "'m \<Rightarrow> nat \<Rightarrow> nat list \<times> 'm hub \<Rightarrow> nat list \<times> 'm hub" where
  "try_send msg sub slow_h =
     (let (slow, h) = slow_h in
      if length (cn_buf (hb_chan h sub)) < subscriber_buffer
      then (slow, h\<lparr>hb_chan := (hb_chan h)(sub := (hb_chan h sub)\<lparr>cn_buf := cn_buf (hb_chan h sub) @ [msg]\<rparr>)\<rparr>)
      else (slow @ [sub], h))"

definition Publish :: "string \<Rightarrow> 'm \<Rightarrow> 'm hub \<Rightarrow> 'm hub" where
  "Publish w msg h =
     (let (slow, h1) = fold (try_send msg) (hb_subs h w) ([], h)
      in fold (Unsubscribe w) slow h1)"

text \<open>The receiving end, in \<^verbatim>\<open>api/websocket.go\<close>: \<open>None\<close> blocks, or reports the close
  of an emptied channel.\<close>

definition Receive :: "nat \<Rightarrow> 'm hub \<Rightarrow> 'm option \<times> 'm hub" where
  "Receive sub h =
     (case cn_buf (hb_chan h sub) of
        [] \<Rightarrow> (None, h)
      | m # ms \<Rightarrow> (Some m, h\<lparr>hb_chan := (hb_chan h)(sub := (hb_chan h sub)\<lparr>cn_buf := ms\<rparr>)\<rparr>))"

section \<open>The state of the hub\<close>

definition hub_inv :: "'m hub \<Rightarrow> bool" where
  "hub_inv h \<longleftrightarrow> (\<forall>w. distinct (hb_subs h w))
     \<and> (\<forall>w. \<forall>x \<in> set (hb_subs h w). x < hb_next h \<and> \<not> cn_closed (hb_chan h x))
     \<and> (\<forall>w w' x. x \<in> set (hb_subs h w) \<longrightarrow> x \<in> set (hb_subs h w') \<longrightarrow> w = w')
     \<and> (\<forall>x. length (cn_buf (hb_chan h x)) \<le> subscriber_buffer)
     \<and> (\<forall>w. int (length (hb_subs h w)) \<le> max 1 (hb_maxPerWS h))"

lemma new_hub_inv: "hub_inv (new_hub m)"
  by (simp add: hub_inv_def new_hub_def)

lemma Subscribe_inv:
  assumes "hub_inv h"
  shows "hub_inv (snd (Subscribe w h))"
proof -
  have "hb_next h \<notin> set (hb_subs h v)" for v using assms by (force simp: hub_inv_def)
  moreover have "x < hb_next h + 1" if "x \<in> set (hb_subs h v)" for x v
    using assms that by (force simp: hub_inv_def)
  ultimately show ?thesis
    using assms by (auto simp: hub_inv_def Subscribe_def)
qed

lemma filter_length_le: "int (length (filter p xs)) \<le> m" if "int (length xs) \<le> m"
  using that length_filter_le [of p xs] by linarith

lemma Unsubscribe_inv: "hub_inv h \<Longrightarrow> hub_inv (Unsubscribe w sub h)"
  unfolding hub_inv_def Unsubscribe_def by (auto intro: filter_length_le)

lemma Receive_inv: "hub_inv h \<Longrightarrow> hub_inv (snd (Receive sub h))"
  by (auto simp: hub_inv_def Receive_def split: list.splits)
    (metis Suc_leD length_Cons)+

text \<open>One pass over the subscribers: a channel with room gets the message, a full
  one is listed as slow.\<close>

lemma try_send_fold:
  assumes "distinct subs"
  shows "fold (try_send msg) subs (slow, h) =
    (slow @ filter (\<lambda>x. \<not> length (cn_buf (hb_chan h x)) < subscriber_buffer) subs,
     h\<lparr>hb_chan := (\<lambda>x. if x \<in> set subs \<and> length (cn_buf (hb_chan h x)) < subscriber_buffer
                  then (hb_chan h x)\<lparr>cn_buf := cn_buf (hb_chan h x) @ [msg]\<rparr> else hb_chan h x)\<rparr>)"
  using assms
proof (induction subs arbitrary: slow h)
  case (Cons s subs)
  let ?room = "\<lambda>h x. length (cn_buf (hb_chan h x)) < subscriber_buffer"
  show ?case
  proof (cases "?room h s")
    case True
    let ?h = "h\<lparr>hb_chan := (hb_chan h)(s := (hb_chan h s)\<lparr>cn_buf := cn_buf (hb_chan h s) @ [msg]\<rparr>)\<rparr>"
    have "filter (\<lambda>x. \<not> ?room ?h x) subs = filter (\<lambda>x. \<not> ?room h x) subs"
      using Cons.prems by (intro filter_cong) auto
    with True Cons.IH [of slow ?h] Cons.prems show ?thesis
      by (auto simp: try_send_def fun_eq_iff)
  next
    case False
    with Cons.IH [of "slow @ [s]" h] Cons.prems show ?thesis
      by (auto simp: try_send_def fun_eq_iff)
  qed
qed simp

lemma Unsubscribe_fold:
  assumes "set subs \<subseteq> set (hb_subs h w)" and "distinct subs"
  shows "fold (Unsubscribe w) subs h =
    h\<lparr>hb_subs := (hb_subs h)(w := filter (\<lambda>x. x \<notin> set subs) (hb_subs h w)),
      hb_chan := (\<lambda>x. if x \<in> set subs then (hb_chan h x)\<lparr>cn_closed := True\<rparr> else hb_chan h x)\<rparr>"
  using assms
proof (induction subs arbitrary: h)
  case (Cons s subs)
  let ?h = "Unsubscribe w s h"
  have u: "?h = h\<lparr>hb_subs := (hb_subs h)(w := filter (\<lambda>x. x \<noteq> s) (hb_subs h w)),
      hb_chan := (hb_chan h)(s := (hb_chan h s)\<lparr>cn_closed := True\<rparr>)\<rparr>"
    using Cons.prems by (simp add: Unsubscribe_def)
  have "set subs \<subseteq> set (hb_subs ?h w)" using Cons.prems by (auto simp: u)
  with Cons.IH [of ?h] Cons.prems show ?case
    by (auto simp: u fun_eq_iff intro!: filter_cong)
qed simp

lemma Publish_eq:
  assumes "hub_inv h"
  shows "Publish w msg h =
    h\<lparr>hb_subs := (hb_subs h)(w := filter (\<lambda>x. length (cn_buf (hb_chan h x)) < subscriber_buffer) (hb_subs h w)),
      hb_chan := (\<lambda>x. if x \<in> set (hb_subs h w)
          then (if length (cn_buf (hb_chan h x)) < subscriber_buffer
                then (hb_chan h x)\<lparr>cn_buf := cn_buf (hb_chan h x) @ [msg]\<rparr>
                else (hb_chan h x)\<lparr>cn_closed := True\<rparr>)
          else hb_chan h x)\<rparr>"
proof -
  have d: "distinct (hb_subs h w)" using assms by (simp add: hub_inv_def)
  show ?thesis
    unfolding Publish_def try_send_fold [OF d] Let_def split_conv append_Nil
    by (subst Unsubscribe_fold) (auto simp: d intro!: hub.equality ext filter_cong)
qed

lemma Publish_inv:
  assumes "hub_inv h"
  shows "hub_inv (Publish w msg h)"
  using assms unfolding Publish_eq [OF assms] hub_inv_def
  by (auto intro: filter_length_le)

section \<open>Delivery\<close>

text \<open>The trace of a hub: what was published to each subscriber's workspace since
  it subscribed, and what it has received.\<close>

datatype 'm hub_op = OpSubscribe string | OpUnsubscribe string nat | OpPublish string 'm | OpReceive nat

record 'm hub_trace =
  tr_hub :: "'m hub"
  tr_ws :: "nat \<Rightarrow> string option"
  tr_sent :: "nat \<Rightarrow> 'm list"
  tr_got :: "nat \<Rightarrow> 'm list"

fun hub_step :: "'m hub_op \<Rightarrow> 'm hub_trace \<Rightarrow> 'm hub_trace" where
  "hub_step (OpSubscribe w) t =
     (case Subscribe w (tr_hub t) of
        (None, h) \<Rightarrow> t\<lparr>tr_hub := h\<rparr>
      | (Some x, h) \<Rightarrow> t\<lparr>tr_hub := h, tr_ws := (tr_ws t)(x \<mapsto> w),
                       tr_sent := (tr_sent t)(x := []), tr_got := (tr_got t)(x := [])\<rparr>)"
| "hub_step (OpUnsubscribe w x) t = t\<lparr>tr_hub := Unsubscribe w x (tr_hub t)\<rparr>"
| "hub_step (OpPublish w m) t =
     t\<lparr>tr_hub := Publish w m (tr_hub t),
       tr_sent := (\<lambda>x. if tr_ws t x = Some w then tr_sent t x @ [m] else tr_sent t x)\<rparr>"
| "hub_step (OpReceive x) t =
     (case Receive x (tr_hub t) of
        (None, h) \<Rightarrow> t\<lparr>tr_hub := h\<rparr>
      | (Some m, h) \<Rightarrow> t\<lparr>tr_hub := h, tr_got := (tr_got t)(x := tr_got t x @ [m])\<rparr>)"

definition hub_run :: "int \<Rightarrow> 'm hub_op list \<Rightarrow> 'm hub_trace" where
  "hub_run maxPerWS ops = fold hub_step ops
     \<lparr>tr_hub = new_hub maxPerWS, tr_ws = (\<lambda>_. None), tr_sent = (\<lambda>_. []), tr_got = (\<lambda>_. [])\<rparr>"

definition delivery_inv :: "'m hub_trace \<Rightarrow> bool" where
  "delivery_inv t \<longleftrightarrow> hub_inv (tr_hub t)
     \<and> (\<forall>x. hb_next (tr_hub t) \<le> x \<longrightarrow> tr_ws t x = None \<and> cn_buf (hb_chan (tr_hub t) x) = [])
     \<and> (\<forall>x w. x \<in> set (hb_subs (tr_hub t) w) \<longrightarrow> tr_ws t x = Some w)
     \<and> (\<forall>x. \<exists>rest. tr_sent t x = tr_got t x @ cn_buf (hb_chan (tr_hub t) x) @ rest
          \<and> (\<forall>w. x \<in> set (hb_subs (tr_hub t) w) \<longrightarrow> rest = []))"

lemma delivery_step:
  assumes "delivery_inv t"
  shows "delivery_inv (hub_step op t)"
proof -
  let ?h = "tr_hub t"
  from assms have h: "hub_inv ?h" by (simp add: delivery_inv_def)
  show ?thesis
  proof (cases op)
    case (OpSubscribe w)
    have fresh: "hb_next ?h \<notin> set (hb_subs ?h v)" for v using h by (force simp: hub_inv_def)
    show ?thesis
    proof (cases "hb_subs ?h w \<noteq> [] \<and> int (length (hb_subs ?h w)) \<ge> hb_maxPerWS ?h")
      case True
      with OpSubscribe assms show ?thesis by (simp add: Subscribe_def)
    next
      case False
      let ?x = "hb_next ?h"
      obtain h' where s: "Subscribe w ?h = (Some ?x, h')"
        and tabs: "hb_subs h' = (hb_subs ?h)(w := hb_subs ?h w @ [?x])" "hb_next h' = ?x + 1"
        "hb_chan h' = (hb_chan ?h)(?x := \<lparr>cn_buf = [], cn_closed = False\<rparr>)"
        using False by (auto simp: Subscribe_def)
      have inv': "hub_inv h'" using Subscribe_inv [OF h, of w] by (simp add: s)
      have "\<exists>rest. ((tr_sent t)(?x := [])) x = ((tr_got t)(?x := [])) x @ cn_buf (hb_chan h' x) @ rest
          \<and> (\<forall>v. x \<in> set (hb_subs h' v) \<longrightarrow> rest = [])" for x
      proof (cases "x = ?x")
        case False
        obtain rest where "tr_sent t x = tr_got t x @ cn_buf (hb_chan ?h x) @ rest"
          and "\<And>v. x \<in> set (hb_subs ?h v) \<Longrightarrow> rest = []"
          using assms unfolding delivery_inv_def by metis
        with False show ?thesis by (intro exI [of _ rest]) (auto simp: tabs split: if_splits)
      qed (simp add: tabs)
      moreover have "tr_ws t x = None \<and> cn_buf (hb_chan h' x) = []" if "hb_next h' \<le> x" for x
        using assms that by (simp add: delivery_inv_def tabs)
      moreover have "((tr_ws t)(?x \<mapsto> w)) x = Some v" if "x \<in> set (hb_subs h' v)" for x v
        using assms that fresh by (auto simp: delivery_inv_def tabs split: if_splits)
      moreover have "hub_step op t = t\<lparr>tr_hub := h', tr_ws := (tr_ws t)(?x \<mapsto> w),
          tr_sent := (tr_sent t)(?x := []), tr_got := (tr_got t)(?x := [])\<rparr>"
        by (simp add: OpSubscribe s)
      moreover have "((tr_ws t)(?x \<mapsto> w)) x = None" if "hb_next h' \<le> x" for x
        using assms that by (simp add: delivery_inv_def tabs)
      ultimately show ?thesis
        using inv' unfolding delivery_inv_def by (simp del: fun_upd_apply)
    qed
  next
    case (OpUnsubscribe w x)
    let ?u = "Unsubscribe w x ?h"
    have tabs: "set (hb_subs ?u v) \<subseteq> set (hb_subs ?h v)" "hb_next ?u = hb_next ?h"
      "cn_buf (hb_chan ?u y) = cn_buf (hb_chan ?h y)" for v y
      by (auto simp: Unsubscribe_def)
    have "\<exists>rest. tr_sent t y = tr_got t y @ cn_buf (hb_chan ?u y) @ rest
        \<and> (\<forall>v. y \<in> set (hb_subs ?u v) \<longrightarrow> rest = [])" for y
    proof -
      obtain rest where "tr_sent t y = tr_got t y @ cn_buf (hb_chan ?h y) @ rest"
        and "\<And>v. y \<in> set (hb_subs ?h v) \<Longrightarrow> rest = []"
        using assms unfolding delivery_inv_def by metis
      with tabs(1) show ?thesis by (intro exI [of _ rest]) (auto simp: tabs(3))
    qed
    moreover have "tr_ws t y = Some v" if "y \<in> set (hb_subs ?u v)" for y v
      using assms subsetD [OF tabs(1) that] by (simp add: delivery_inv_def)
    ultimately show ?thesis
      using assms Unsubscribe_inv [OF h, of w x] unfolding OpUnsubscribe
      by (simp add: delivery_inv_def tabs(2,3))
  next
    case (OpReceive x)
    show ?thesis
    proof (cases "cn_buf (hb_chan ?h x)")
      case Nil
      with assms OpReceive show ?thesis by (simp add: Receive_def)
    next
      case (Cons m ms)
      obtain h' where r: "Receive x ?h = (Some m, h')" and tabs: "hb_subs h' = hb_subs ?h"
        "hb_next h' = hb_next ?h" "hb_chan h' = (hb_chan ?h)(x := (hb_chan ?h x)\<lparr>cn_buf := ms\<rparr>)"
        using Cons by (simp add: Receive_def)
      have inv': "hub_inv h'" using Receive_inv [OF h, of x] by (simp add: r)
      have lt: "x < hb_next ?h"
        using assms Cons unfolding delivery_inv_def by (metis leI list.distinct(1))
      have "\<exists>rest. tr_sent t y = ((tr_got t)(x := tr_got t x @ [m])) y @ cn_buf (hb_chan h' y) @ rest
          \<and> (\<forall>v. y \<in> set (hb_subs h' v) \<longrightarrow> rest = [])" for y
      proof -
        obtain rest where "tr_sent t y = tr_got t y @ cn_buf (hb_chan ?h y) @ rest"
          and "\<And>v. y \<in> set (hb_subs ?h v) \<Longrightarrow> rest = []"
          using assms unfolding delivery_inv_def by metis
        with Cons show ?thesis by (intro exI [of _ rest]) (auto simp: tabs)
      qed
      moreover have "tr_ws t y = None \<and> cn_buf (hb_chan h' y) = []" if "hb_next h' \<le> y" for y
        using assms that lt by (simp add: delivery_inv_def tabs)
      moreover have "tr_ws t y = Some v" if "y \<in> set (hb_subs h' v)" for y v
        using assms that by (simp add: delivery_inv_def tabs)
      moreover have "hub_step op t = t\<lparr>tr_hub := h', tr_got := (tr_got t)(x := tr_got t x @ [m])\<rparr>"
        by (simp add: OpReceive r)
      ultimately show ?thesis
        using inv' unfolding delivery_inv_def by (simp del: fun_upd_apply)
    qed
  next
    case (OpPublish w m)
    have sub: "x \<in> set (hb_subs ?h v) \<Longrightarrow> tr_ws t x = Some v" for x v
      using assms by (simp add: delivery_inv_def)
    have "\<exists>rest. (if tr_ws t x = Some w then tr_sent t x @ [m] else tr_sent t x)
        = tr_got t x @ cn_buf (hb_chan (Publish w m ?h) x) @ rest
        \<and> (\<forall>v. x \<in> set (hb_subs (Publish w m ?h) v) \<longrightarrow> rest = [])" for x
    proof -
      obtain rest where rest: "tr_sent t x = tr_got t x @ cn_buf (hb_chan ?h x) @ rest"
        and live: "\<And>v. x \<in> set (hb_subs ?h v) \<Longrightarrow> rest = []"
        using assms unfolding delivery_inv_def by metis
      show ?thesis
      proof (cases "x \<in> set (hb_subs ?h w)")
        case True
        then have none: "x \<notin> set (hb_subs ?h v)" if "v \<noteq> w" for v
          using sub [OF True] sub [of x v] that by auto
        show ?thesis
        proof (cases "length (cn_buf (hb_chan ?h x)) < subscriber_buffer")
          case room: True
          then show ?thesis
            using rest live [OF True] True sub [OF True]
            by (intro exI [of _ "[]"]) (simp add: Publish_eq [OF h])
        next
          case full: False
          then show ?thesis
            using rest live [OF True] True sub [OF True] none
            by (intro exI [of _ "[m]"]) (simp add: Publish_eq [OF h])
        qed
      next
        case False
        then show ?thesis
          using rest live sub
          by (intro exI [of _ "rest @ (if tr_ws t x = Some w then [m] else [])"])
            (auto simp: Publish_eq [OF h])
      qed
    qed
    moreover have "x \<in> set (hb_subs (Publish w m ?h) v) \<Longrightarrow> tr_ws t x = Some v" for x v
      using sub [of x v] by (auto simp: Publish_eq [OF h] split: if_splits)
    moreover have "hb_next (Publish w m ?h) = hb_next ?h" by (simp add: Publish_eq [OF h])
    moreover have "cn_buf (hb_chan (Publish w m ?h) x) = []" if "hb_next ?h \<le> x" for x
    proof -
      have "x \<notin> set (hb_subs ?h w)" using h that by (force simp: hub_inv_def)
      with that assms show ?thesis by (simp add: Publish_eq [OF h] delivery_inv_def)
    qed
    ultimately show ?thesis
      using assms OpPublish Publish_inv [OF h, of w m] by (simp add: delivery_inv_def)
  qed
qed

lemma delivery_run: "delivery_inv (hub_run m ops)"
  unfolding hub_run_def
  by (rule fold_invariant [of delivery_inv])
    (simp_all add: delivery_step, simp add: delivery_inv_def new_hub_inv, simp add: new_hub_def)

end
