(* ===== verification/EventsCorrect.thy ===== *)
theory EventsCorrect
  imports Events
begin

text \<open>
  Facts about event submission and fetching: what one committed event does to
  each table, that \<open>SubmitEvent\<close> keeps the server invariant, and the properties
  of optimistic concurrency, of the log order and of reading back.
\<close>

lemma is_event_ref_iff: "is_event_ref q oid r \<longleftrightarrow> r = \<lparr>xr_seq = q, xr_obj = oid\<rparr>"
  by (cases r) (auto simp: key_simps)

section \<open>The reference rows of one event\<close>

definition ref_rows :: "int \<Rightarrow> string list \<Rightarrow> event_ref_row list \<Rightarrow> event_ref_row list" where
  "ref_rows q oids t =
     fold (\<lambda>oid. insert_or_ignore (is_event_ref q oid) \<lparr>xr_seq = q, xr_obj = oid\<rparr>) oids t"

lemma ref_rows_simps [simp]:
  "ref_rows q [] t = t"
  "ref_rows q (oid # oids) t
    = ref_rows q oids (insert_or_ignore (is_event_ref q oid) \<lparr>xr_seq = q, xr_obj = oid\<rparr> t)"
  by (simp_all add: ref_rows_def)

lemma set_ref_rows:
  "set (ref_rows q oids t) = set t \<union> (\<lambda>oid. \<lparr>xr_seq = q, xr_obj = oid\<rparr>) ` set oids"
proof (induction oids arbitrary: t)
  case (Cons a oids)
  have "row_exists (is_event_ref q a) t \<Longrightarrow> \<lparr>xr_seq = q, xr_obj = a\<rparr> \<in> set t"
    by (auto simp: row_exists_iff is_event_ref_iff)
  with Cons show ?case by (auto simp: set_insert_or_ignore)
qed simp

lemma unique_ref_rows:
  "unique_key (\<lambda>r. (xr_seq r, xr_obj r)) t \<Longrightarrow> unique_key (\<lambda>r. (xr_seq r, xr_obj r)) (ref_rows q oids t)"
proof (induction oids arbitrary: t)
  case (Cons a oids)
  have "unique_key (\<lambda>r. (xr_seq r, xr_obj r))
      (insert_or_ignore (is_event_ref q a) \<lparr>xr_seq = q, xr_obj = a\<rparr> t)"
    by (rule unique_key_insert_or_ignore [OF Cons.prems]) (simp add: key_simps)
  from Cons.IH [OF this] show ?case by simp
qed simp

lemma count_ref_rows:
  "count_rows (\<lambda>x. xr_obj x = oid) (ref_rows q oids t) = count_rows (\<lambda>x. xr_obj x = oid) t
    + (if oid \<in> set oids \<and> \<not> row_exists (is_event_ref q oid) t then 1 else 0)"
proof (induction oids arbitrary: t)
  case (Cons a oids)
  show ?case
    unfolding ref_rows_simps Cons.IH
    by (auto simp: insert_or_ignore_def count_rows_single key_simps row_exists_iff)
qed simp

section \<open>What one committed event writes\<close>

lemma write_tables_frame [frame_simps]:
  "t_workspaces (write_tables now w req q s) = t_workspaces s"
  "t_devices (write_tables now w req q s) = t_devices s"
  "t_events (write_tables now w req q s) = t_events s"
  "t_last_seq (write_tables now w req q s) = t_last_seq s"
  "t_event_refs (write_tables now w req q s) = t_event_refs s"
  "t_snapshots (write_tables now w req q s) = t_snapshots s"
  "t_snapshot_refs (write_tables now w req q s) = t_snapshot_refs s"
  "t_objects (write_tables now w req q s) = t_objects s"
  "t_ws_objects (write_tables now w req q s) = t_ws_objects s"
  by (simp_all add: write_tables_def write_root_add_def write_root_remove_def write_content_def
      drop_heads_def Let_def split: EventType.split)

definition root_row_new :: "time \<Rightarrow> string \<Rightarrow> EventSubmitRequest \<Rightarrow> int \<Rightarrow> root_row" where
  "root_row_new now w req q =
     \<lparr>rt_ws = w, rt_id = rq_RootID req, rt_kind = rq_RootKind req,
      rt_descriptor = rq_PayloadBlob req, rt_created_seq = q, rt_removed_seq = None,
      rt_snap_obj = None, rt_snap_seq = None, rt_created_at = now, rt_updated_at = now\<rparr>"

definition root_row_readd :: "time \<Rightarrow> EventSubmitRequest \<Rightarrow> int \<Rightarrow> root_row \<Rightarrow> root_row" where
  "root_row_readd now req q r =
     r\<lparr>rt_kind := rq_RootKind req, rt_descriptor := rq_PayloadBlob req, rt_created_seq := q,
       rt_removed_seq := None, rt_snap_obj := None, rt_snap_seq := None, rt_updated_at := now\<rparr>"

definition root_row_removed :: "time \<Rightarrow> int \<Rightarrow> root_row \<Rightarrow> root_row" where
  "root_row_removed now q r =
     r\<lparr>rt_removed_seq := Some q, rt_snap_obj := None, rt_snap_seq := None, rt_updated_at := now\<rparr>"

lemma write_tables_roots:
  "rq_EventType req = EventRootAdd \<Longrightarrow> t_roots (write_tables now w req q s)
    = upsert (is_root w (rq_RootID req)) (root_row_new now w req q) (root_row_readd now req q) (t_roots s)"
  "rq_EventType req = EventRootRemove \<Longrightarrow> t_roots (write_tables now w req q s)
    = update_where (is_root w (rq_RootID req)) (root_row_removed now q) (t_roots s)"
  "content_event (rq_EventType req) \<Longrightarrow> t_roots (write_tables now w req q s) = t_roots s"
  by (auto simp: write_tables_def write_root_add_def write_root_remove_def write_content_def
      drop_heads_def Let_def content_event_def root_row_new_def root_row_readd_def [abs_def]
      root_row_removed_def [abs_def] split: EventType.split)

lemma write_tables_heads:
  "\<not> content_event (rq_EventType req) \<Longrightarrow> t_path_heads (write_tables now w req q s)
    = delete_where (\<lambda>h. ph_ws h = w \<and> ph_root h = rq_RootID req) (t_path_heads s)"
  "content_event (rq_EventType req) \<Longrightarrow> t_path_heads (write_tables now w req q s)
    = t_path_heads (write_content now w req q s)"
  by (auto simp: write_tables_def write_root_add_def write_root_remove_def
      drop_heads_def content_event_def split: EventType.split)

lemma write_tables_cong:
  assumes "t_roots s1 = t_roots s2" and "t_path_heads s1 = t_path_heads s2"
  shows "t_roots (write_tables now w req q s1) = t_roots (write_tables now w req q s2)"
    and "t_path_heads (write_tables now w req q s1) = t_path_heads (write_tables now w req q s2)"
  using assms
  by (cases "content_event (rq_EventType req)";
      simp add: write_tables_heads write_content_def Let_def;
      cases "rq_EventType req"; simp add: write_tables_roots content_event_def)+

lemma add_event_refs_tables:
  "t_event_refs (fold (add_event_ref q) oids s) = ref_rows q oids (t_event_refs s)"
  "t_objects (fold (add_event_ref q) oids s) = t_objects (fold incrementObjectRef oids s)"
  "t_workspaces (fold (add_event_ref q) oids s) = t_workspaces s"
  "t_devices (fold (add_event_ref q) oids s) = t_devices s"
  "t_roots (fold (add_event_ref q) oids s) = t_roots s"
  "t_path_heads (fold (add_event_ref q) oids s) = t_path_heads s"
  "t_events (fold (add_event_ref q) oids s) = t_events s"
  "t_last_seq (fold (add_event_ref q) oids s) = t_last_seq s"
  "t_snapshots (fold (add_event_ref q) oids s) = t_snapshots s"
  "t_snapshot_refs (fold (add_event_ref q) oids s) = t_snapshot_refs s"
  "t_ws_objects (fold (add_event_ref q) oids s) = t_ws_objects s"
proof -
  show "t_event_refs (fold (add_event_ref q) oids s) = ref_rows q oids (t_event_refs s)"
    by (induction oids arbitrary: s) (simp_all add: add_event_ref_def frame_simps)
  have "t_objects s = t_objects s' \<Longrightarrow>
      t_objects (fold (add_event_ref q) oids s) = t_objects (fold incrementObjectRef oids s')" for s'
    by (induction oids arbitrary: s s') (simp_all add: add_event_ref_def incrementObjectRef_def)
  then show "t_objects (fold (add_event_ref q) oids s) = t_objects (fold incrementObjectRef oids s)"
    by simp
qed (rule fold_frame, simp add: add_event_ref_def frame_simps)+

lemma insert_event_frame [frame_simps]:
  "t_workspaces (insert_event now sess req s) = t_workspaces s"
  "t_roots (insert_event now sess req s) = t_roots s"
  "t_path_heads (insert_event now sess req s) = t_path_heads s"
  "t_event_refs (insert_event now sess req s) = t_event_refs s"
  "t_snapshots (insert_event now sess req s) = t_snapshots s"
  "t_snapshot_refs (insert_event now sess req s) = t_snapshot_refs s"
  "t_objects (insert_event now sess req s) = t_objects s"
  "t_ws_objects (insert_event now sess req s) = t_ws_objects s"
  by (simp_all add: insert_event_def)

lemma touch_and_bump_frame [frame_simps]:
  "t_roots (touch_and_bump now sess q s) = t_roots s"
  "t_path_heads (touch_and_bump now sess q s) = t_path_heads s"
  "t_events (touch_and_bump now sess q s) = t_events s"
  "t_last_seq (touch_and_bump now sess q s) = t_last_seq s"
  "t_event_refs (touch_and_bump now sess q s) = t_event_refs s"
  "t_snapshots (touch_and_bump now sess q s) = t_snapshots s"
  "t_snapshot_refs (touch_and_bump now sess q s) = t_snapshot_refs s"
  "t_objects (touch_and_bump now sess q s) = t_objects s"
  "t_ws_objects (touch_and_bump now sess q s) = t_ws_objects s"
  by (simp_all add: touch_and_bump_def)

lemma objects_fold_incr_cong:
  "t_objects s1 = t_objects s2 \<Longrightarrow>
    t_objects (fold incrementObjectRef oids s1) = t_objects (fold incrementObjectRef oids s2)"
  by (induction oids arbitrary: s1 s2) (simp_all add: incrementObjectRef_def)

lemma commit_event_tables:
  "t_events (commit_event now sess req q s) = t_events s @ [event_row_of now sess req (t_last_seq s + 1)]"
  "t_last_seq (commit_event now sess req q s) = t_last_seq s + 1"
  "t_event_refs (commit_event now sess req q s) = ref_rows q (rq_ObjectRefs req) (t_event_refs s)"
  "t_objects (commit_event now sess req q s) = t_objects (fold incrementObjectRef (rq_ObjectRefs req) s)"
  "t_snapshots (commit_event now sess req q s) = t_snapshots s"
  "t_snapshot_refs (commit_event now sess req q s) = t_snapshot_refs s"
  "t_ws_objects (commit_event now sess req q s) = t_ws_objects s"
  "t_roots (commit_event now sess req q s) = t_roots (write_tables now (se_WorkspaceID sess) req q s)"
  "t_path_heads (commit_event now sess req q s)
    = t_path_heads (write_tables now (se_WorkspaceID sess) req q s)"
  "t_workspaces (commit_event now sess req q s) = update_where (is_ws (se_WorkspaceID sess))
     (\<lambda>r. r\<lparr>ws_current_seq := q, ws_updated_at := now\<rparr>) (t_workspaces s)"
proof -
  let ?w = "se_WorkspaceID sess" and ?i = "insert_event now sess req s"
  show "t_roots (commit_event now sess req q s) = t_roots (write_tables now ?w req q s)"
    and "t_path_heads (commit_event now sess req q s) = t_path_heads (write_tables now ?w req q s)"
    by (simp_all add: commit_event_def add_event_refs_tables frame_simps
        write_tables_cong [of ?i s])
  show "t_objects (commit_event now sess req q s) = t_objects (fold incrementObjectRef (rq_ObjectRefs req) s)"
    by (simp add: commit_event_def add_event_refs_tables frame_simps
        objects_fold_incr_cong [of "write_tables now ?w req q ?i" s])
qed (simp_all add: commit_event_def add_event_refs_tables frame_simps,
     simp_all add: insert_event_def touch_and_bump_def add_event_refs_tables frame_simps)

lemma ref_count_of_commit:
  "ref_count_of (commit_event now sess req q s) oid
    = map_option (\<lambda>n. n + int (count_list (rq_ObjectRefs req) oid)) (ref_count_of s oid)"
  using refs.rc_fold_incr [of "rq_ObjectRefs req" s oid]
  by (simp add: ref_count_of_def commit_event_tables)

lemma refs_to_commit:
  assumes "log_inv s" and "t_last_seq s < q"
  shows "refs_to (commit_event now sess req q s) oid
    = refs_to s oid + (if oid \<in> set (rq_ObjectRefs req) then 1 else 0)"
proof -
  have "\<not> row_exists (is_event_ref q oid) (t_event_refs s)"
    using assms log_inv_ref_fresh by (force simp: row_exists_iff key_simps)
  then show ?thesis by (simp add: refs_to_def commit_event_tables count_ref_rows)
qed

lemma find_ws_commit:
  "List.find (is_ws v) (t_workspaces (commit_event now sess req q s))
    = (if v = se_WorkspaceID sess
       then map_option (\<lambda>r. r\<lparr>ws_current_seq := q, ws_updated_at := now\<rparr>) (List.find (is_ws v) (t_workspaces s))
       else List.find (is_ws v) (t_workspaces s))"
  by (simp add: commit_event_tables find_is_ws_update)

lemma cur_seq_commit:
  "cur_seq (commit_event now sess req q s) v
    = (if v = se_WorkspaceID sess \<and> List.find (is_ws v) (t_workspaces s) \<noteq> None then q else cur_seq s v)"
  by (auto simp: cur_seq_def find_ws_commit split: option.splits)

lemma floor_seq_commit: "floor_seq (commit_event now sess req q s) v = floor_seq s v"
  by (auto simp: floor_seq_def find_ws_commit split: option.splits)

lemma ws_exists_commit [simp]:
  "row_exists (is_ws v) (t_workspaces (commit_event now sess req q s)) = row_exists (is_ws v) (t_workspaces s)"
  by (simp add: commit_event_tables row_exists_update_where key_simps)

section \<open>What an accepted event satisfied\<close>

lemma check_event_ws: "check_event w req s = None \<Longrightarrow> \<exists>r. List.find (is_ws w) (t_workspaces s) = Some r"
  by (auto simp: check_event_def split: if_splits)

lemma check_event_refs:
  "check_event w req s = None \<Longrightarrow> oid \<in> set (rq_ObjectRefs req) \<Longrightarrow> objectVisibleToWorkspace w oid s"
  by (auto simp: check_event_def missing_ref_def find_None_iff split: if_splits option.splits)

lemma check_event_kind:
  "check_event w req s = None \<Longrightarrow> content_event (rq_EventType req) \<Longrightarrow> check_content w req s = None"
  "check_event w req s = None \<Longrightarrow> rq_EventType req = EventRootAdd \<Longrightarrow> check_root_add w req s = None"
  "check_event w req s = None \<Longrightarrow> rq_EventType req = EventRootRemove \<Longrightarrow> check_root_remove w req s = None"
  by (auto simp: check_event_def content_event_def split: if_splits option.splits EventType.splits)

lemma check_content_ok:
  assumes "check_content w req s = None"
  obtains r base where "List.find (is_root w (rq_RootID req)) (t_roots s) = Some r"
    and "rt_removed_seq r = None" and "rq_BaseSeq req = Some base" and "rq_PathID req \<noteq> []"
    and "check_head w req base s = None"
    and "\<And>c. rq_RootCreatedSeq req = Some c \<Longrightarrow> c = rt_created_seq r"
  using assms by (auto simp: check_content_def split: option.splits if_splits)

section \<open>A committed event keeps the invariant\<close>

lemma is_root_row_funs [simp]:
  "is_root w i (root_row_readd now req q r) = is_root w i r"
  "is_root w i (root_row_removed now q r) = is_root w i r"
  "is_root w (rq_RootID req) (root_row_new now w req q)"
  by (simp_all add: key_simps root_row_readd_def root_row_removed_def root_row_new_def)

lemma root_row_keys [simp]:
  "rt_ws (root_row_readd now req q r) = rt_ws r" "rt_id (root_row_readd now req q r) = rt_id r"
  "rt_ws (root_row_removed now q r) = rt_ws r" "rt_id (root_row_removed now q r) = rt_id r"
  "rt_ws (root_row_new now w req q) = w" "rt_id (root_row_new now w req q) = rq_RootID req"
  by (simp_all add: root_row_readd_def root_row_removed_def root_row_new_def)

lemma keys_inv_commit:
  assumes "keys_inv s"
  shows "keys_inv (commit_event now sess req q s)"
proof -
  let ?w = "se_WorkspaceID sess" and ?kr = "\<lambda>r. (rt_ws r, rt_id r)"
  let ?kh = "\<lambda>r. (ph_ws r, ph_root r, ph_path r)"
  from assms have k: "unique_key ?kr (t_roots s)" "unique_key ?kh (t_path_heads s)"
    by (auto simp: keys_inv_def)
  have "unique_key ?kr (t_roots (write_tables now ?w req q s))"
  proof (cases "rq_EventType req")
    case EventRootAdd
    with k(1) show ?thesis
      by (simp add: write_tables_roots unique_key_upsert key_simps)
  next
    case EventRootRemove
    with k(1) show ?thesis by (simp add: write_tables_roots unique_key_update_where)
  qed (use k(1) in \<open>simp_all add: write_tables_roots content_event_def\<close>)
  moreover have "unique_key ?kh (t_path_heads (write_tables now ?w req q s))"
    using k(2) by (cases "content_event (rq_EventType req)")
      (simp_all add: write_tables_heads unique_key_delete_where write_content_def unique_key_upsert
        key_simps Let_def)
  moreover have "unique_key ob_id (t_objects (fold incrementObjectRef (rq_ObjectRefs req) s))"
    using assms by (intro fold_invariant [where P = "\<lambda>s. unique_key ob_id (t_objects s)"])
      (auto simp: keys_inv_def objects_keys_counter)
  ultimately show ?thesis
    using assms by (simp add: keys_inv_def commit_event_tables unique_ref_rows unique_key_update_where)
qed

lemma log_inv_commit:
  assumes "log_inv s" and "check_event (se_WorkspaceID sess) req s = None"
  shows "log_inv (commit_event now sess req (t_last_seq s + 1) s)" (is "log_inv ?c")
proof -
  let ?q = "t_last_seq s + 1"
  obtain r where r: "List.find (is_ws (se_WorkspaceID sess)) (t_workspaces s) = Some r"
    using check_event_ws [OF assms(2)] by blast
  have le: "cur_seq s v \<le> cur_seq ?c v" for v
    using assms(1) by (auto simp: cur_seq_commit log_inv_def intro: order_trans [of _ "t_last_seq s"])
  have fresh: "ev_seq e \<le> t_last_seq s" if "e \<in> set (t_events s)" for e
    using log_inv_fresh [OF assms(1) that] .
  have "sorted_wrt (<) (map ev_seq (t_events ?c))"
    using assms(1) fresh by (fastforce simp: commit_event_tables sorted_wrt_append log_inv_def event_row_of_def)
  moreover have "0 < ev_seq e \<and> ev_seq e \<le> cur_seq ?c (ev_ws e)" if "e \<in> set (t_events s)" for e
    using assms(1) that le [of "ev_ws e"] by (auto simp: log_inv_def intro: order_trans)
  then have "\<forall>e \<in> set (t_events ?c). 0 < ev_seq e \<and> ev_seq e \<le> cur_seq ?c (ev_ws e)"
    using assms(1) r by (simp add: commit_event_tables log_inv_def event_row_of_def cur_seq_commit)
  moreover have "0 \<le> cur_seq ?c v \<and> cur_seq ?c v \<le> t_last_seq ?c" for v
    using assms(1) by (auto simp: commit_event_tables log_inv_def cur_seq_commit intro: order_trans)
  moreover have "\<forall>x \<in> set (t_event_refs ?c). xr_seq x \<in> ev_seq ` set (t_events ?c)"
    using assms(1) by (auto simp: commit_event_tables set_ref_rows log_inv_def event_row_of_def)
  ultimately show ?thesis
    using assms(1) by (simp add: log_inv_def commit_event_tables)
qed

lemma refs_inv_commit:
  assumes "log_inv s" and "refs_inv s" and "vis_inv s"
    and "check_event (se_WorkspaceID sess) req s = None"
  shows "refs_inv (commit_event now sess req (t_last_seq s + 1) s)" (is "refs_inv ?c")
  unfolding refs_inv_def
proof
  fix oid
  let ?refs = "rq_ObjectRefs req"
  have to: "refs_to ?c oid = refs_to s oid + (if oid \<in> set ?refs then 1 else 0)"
    by (rule refs_to_commit [OF assms(1)]) simp
  show "count_ok (ref_count_of ?c oid) (refs_to ?c oid)"
  proof (cases "ref_count_of s oid")
    case None
    with assms(2) have "refs_to s oid = 0" by (metis refs_inv_def count_ok.simps(1))
    moreover have "oid \<notin> set ?refs"
      using None check_event_refs [OF assms(4)] vis_inv_object [OF assms(3)] by fastforce
    ultimately show ?thesis using None to by (simp add: ref_count_of_commit)
  next
    case (Some n)
    from refs_inv_le [OF assms(2) this] have "int (refs_to s oid) \<le> n" .
    moreover have "oid \<in> set ?refs \<Longrightarrow> 1 \<le> count_list ?refs oid"
      by (rule count_list_pos)
    ultimately show ?thesis using Some to by (auto simp: ref_count_of_commit)
  qed
qed

lemma find_is_root_other:
  assumes "(v, i) \<noteq> (w, j)" and f: "\<And>r. is_root w j r \<Longrightarrow> is_root w j (f r)" and new: "is_root w j new"
  shows "List.find (is_root v i) (upsert (is_root w j) new f t) = List.find (is_root v i) t"
    and "List.find (is_root v i) (update_where (is_root w j) f t) = List.find (is_root v i) t"
proof -
  have d: "\<not> (is_root v i r \<and> is_root w j r)" for r
    using assms(1) by (auto simp: key_simps)
  show "List.find (is_root v i) (upsert (is_root w j) new f t) = List.find (is_root v i) t"
    by (rule find_upsert_other) (use d f new in blast)+
  show "List.find (is_root v i) (update_where (is_root w j) f t) = List.find (is_root v i) t"
    by (rule find_update_where_disjoint) (use d f in blast)+
qed

lemma write_root_cases:
  assumes "r \<in> set (t_roots (write_tables now w req q s))"
  shows "r \<in> set (t_roots s)
    \<or> (rq_EventType req = EventRootAdd \<and> rt_ws r = w \<and> rt_created_seq r = q
        \<and> rt_removed_seq r = None \<and> rt_snap_obj r = None \<and> rt_snap_seq r = None)
    \<or> (rq_EventType req = EventRootRemove
        \<and> (\<exists>r' \<in> set (t_roots s). is_root w (rq_RootID req) r' \<and> r = root_row_removed now q r'))"
proof (cases "rq_EventType req")
  case EventRootAdd
  with assms show ?thesis
    by (auto simp: write_tables_roots root_row_new_def root_row_readd_def key_simps
        dest!: set_upsert_sub)
next
  case EventRootRemove
  with assms show ?thesis
    by (auto simp: write_tables_roots set_update_where split: if_splits)
qed (use assms in \<open>simp_all add: write_tables_roots content_event_def\<close>)

lemma root_ok_commit:
  assumes "log_inv s" and "roots_inv s" and "check_event (se_WorkspaceID sess) req s = None"
    and r: "r \<in> set (t_roots (commit_event now sess req (t_last_seq s + 1) s))"
  shows "root_ok (commit_event now sess req (t_last_seq s + 1) s) r" (is "root_ok ?c r")
proof -
  let ?q = "t_last_seq s + 1" and ?w = "se_WorkspaceID sess"
  obtain x where x: "List.find (is_ws ?w) (t_workspaces s) = Some x"
    using check_event_ws [OF assms(3)] by blast
  have "0 \<le> cur_seq s v \<and> cur_seq s v \<le> t_last_seq s" for v
    using assms(1) by (simp add: log_inv_def)
  then have le: "cur_seq s v < ?q" "0 \<le> cur_seq s v" for v
    by (simp_all add: add1_zle_eq zle_add1_eq_le)
  then have le_c: "cur_seq s v \<le> cur_seq ?c v" for v
    using less_imp_le [OF le(1) [of v]] by (auto simp: cur_seq_commit)
  have old: "root_ok ?c r'" "rt_created_seq r' < ?q" if "r' \<in> set (t_roots s)" for r'
  proof -
    from assms(2) that have ok: "root_ok s r'" by (simp add: roots_inv_def)
    show "root_ok ?c r'" by (rule root_ok_mono [OF ok le_c])
    from ok le(1) [of "rt_ws r'"] show "rt_created_seq r' < ?q" by (simp add: root_ok_def)
  qed
  from write_root_cases [OF r [unfolded commit_event_tables]] consider
      "r \<in> set (t_roots s)"
    | "rt_ws r = ?w \<and> rt_created_seq r = ?q \<and> rt_removed_seq r = None \<and> rt_snap_obj r = None
        \<and> rt_snap_seq r = None"
    | r' where "r' \<in> set (t_roots s)" "is_root ?w (rq_RootID req) r'" "r = root_row_removed now ?q r'"
    by blast
  then show ?thesis
  proof cases
    case 1
    then show ?thesis by (rule old)
  next
    case 2
    with x assms(1) show ?thesis by (simp add: root_ok_def cur_seq_commit log_inv_def)
  next
    case 3
    with x old [OF 3(1)] show ?thesis
      by (auto simp: root_ok_def root_row_removed_def cur_seq_commit key_simps)
  qed
qed

lemma find_root_commit_other:
  assumes "v \<noteq> se_WorkspaceID sess \<or> i \<noteq> rq_RootID req \<or> content_event (rq_EventType req)"
  shows "List.find (is_root v i) (t_roots (commit_event now sess req q s)) = List.find (is_root v i) (t_roots s)"
proof (cases "rq_EventType req")
  case EventRootAdd
  with assms have "(v, i) \<noteq> (se_WorkspaceID sess, rq_RootID req)"
    by (auto simp: content_event_def)
  then show ?thesis unfolding commit_event_tables write_tables_roots(1) [OF EventRootAdd]
    by (rule find_is_root_other(1)) simp_all
next
  case EventRootRemove
  with assms have "(v, i) \<noteq> (se_WorkspaceID sess, rq_RootID req)"
    by (auto simp: content_event_def)
  then show ?thesis unfolding commit_event_tables write_tables_roots(2) [OF EventRootRemove]
    by (rule find_is_root_other(2) [where new = "root_row_new now (se_WorkspaceID sess) req q"]) simp_all
qed (simp_all add: commit_event_tables write_tables_roots content_event_def)

lemma write_content_heads:
  assumes "h \<in> set (t_path_heads (write_content now w req q s))"
  shows "h \<in> set (t_path_heads s) \<or> (ph_ws h = w \<and> ph_root h = rq_RootID req \<and> ph_seq h = q)"
  using assms
  by (auto simp: write_content_def Let_def key_simps dest!: set_upsert_sub)

lemma head_ok_commit:
  assumes "log_inv s" and "roots_inv s" and chk: "check_event (se_WorkspaceID sess) req s = None"
    and h: "h \<in> set (t_path_heads (commit_event now sess req (t_last_seq s + 1) s))"
  shows "head_ok (commit_event now sess req (t_last_seq s + 1) s) h" (is "head_ok ?c h")
proof -
  let ?q = "t_last_seq s + 1" and ?w = "se_WorkspaceID sess"
  have bnd: "cur_seq s v \<le> t_last_seq s" for v using assms(1) by (simp add: log_inv_def)
  obtain x where x: "List.find (is_ws ?w) (t_workspaces s) = Some x"
    using check_event_ws [OF chk] by blast
  have le: "cur_seq s v \<le> cur_seq ?c v" for v
    using bnd [of v] by (auto simp: cur_seq_commit)
  have keep: "head_ok ?c h"
    if "h \<in> set (t_path_heads s)"
      and "ph_ws h \<noteq> ?w \<or> ph_root h \<noteq> rq_RootID req \<or> content_event (rq_EventType req)"
    using assms(2) that le [of "ph_ws h"]
    by (force simp: roots_inv_def head_ok_def find_root_commit_other)
  show ?thesis
  proof (cases "content_event (rq_EventType req)")
    case False
    with h have "h \<in> set (t_path_heads s)" "ph_ws h \<noteq> ?w \<or> ph_root h \<noteq> rq_RootID req"
      by (auto simp: commit_event_tables write_tables_heads)
    then show ?thesis using keep by blast
  next
    case True
    show ?thesis
    proof (cases "h \<in> set (t_path_heads s)")
      case False
      with True h have hh: "ph_ws h = ?w" "ph_root h = rq_RootID req" "ph_seq h = ?q"
        using write_content_heads [of h now ?w req ?q s] by (auto simp: commit_event_tables write_tables_heads)
      obtain r b where r: "List.find (is_root ?w (rq_RootID req)) (t_roots s) = Some r" "rt_removed_seq r = None"
        by (rule check_content_ok [OF check_event_kind(1) [OF chk True]]) blast
      from find_some_mem [OF r(1)] assms(2) have "root_ok s r" "rt_ws r = ?w"
        by (auto simp: roots_inv_def key_simps)
      with bnd [of ?w] have "rt_created_seq r < ?q" by (simp add: root_ok_def)
      with r hh x True show ?thesis
        by (simp add: head_ok_def find_root_commit_other cur_seq_commit)
    qed (use keep True in blast)
  qed
qed

lemma roots_inv_commit:
  assumes "log_inv s" and "roots_inv s" and "check_event (se_WorkspaceID sess) req s = None"
  shows "roots_inv (commit_event now sess req (t_last_seq s + 1) s)" (is "roots_inv ?c")
proof -
  have "0 \<le> floor_seq ?c v \<and> floor_seq ?c v \<le> cur_seq ?c v" for v
    using assms(1,2) by (auto simp: floor_seq_commit cur_seq_commit roots_inv_def log_inv_def)
      (meson add_increasing2 order_trans zero_le_one)
  then show ?thesis
    using root_ok_commit [OF assms] head_ok_commit [OF assms] by (simp add: roots_inv_def)
qed

lemma vis_inv_commit:
  assumes "log_inv s" and "vis_inv s" and chk: "check_event (se_WorkspaceID sess) req s = None"
  shows "vis_inv (commit_event now sess req (t_last_seq s + 1) s)" (is "vis_inv ?c")
proof -
  let ?q = "t_last_seq s + 1" and ?w = "se_WorkspaceID sess"
  have vis: "objectVisibleToWorkspace w oid ?c = objectVisibleToWorkspace w oid s" for w oid
    by (rule visible_cong) (simp add: commit_event_tables)
  have "objectVisibleToWorkspace (ev_ws e) (xr_obj x) s"
    if e: "e \<in> set (t_events ?c)" and x: "x \<in> set (t_event_refs ?c)" and eq: "xr_seq x = ev_seq e" for e x
  proof -
    have fresh: "ev_seq e' \<noteq> ?q" if "e' \<in> set (t_events s)" for e'
      using log_inv_fresh [OF assms(1) that] by simp
    have fresh_x: "xr_seq x' \<noteq> ?q" if "x' \<in> set (t_event_refs s)" for x'
      using log_inv_ref_fresh [OF assms(1) that] by simp
    from e x eq have "(e \<in> set (t_events s) \<and> x \<in> set (t_event_refs s))
        \<or> (ev_ws e = ?w \<and> xr_obj x \<in> set (rq_ObjectRefs req))"
      by (auto simp: commit_event_tables set_ref_rows event_row_of_def dest: fresh fresh_x)
    with eq assms(2) check_event_refs [OF chk] show ?thesis by (auto simp: vis_inv_def)
  qed
  moreover have "row_exists (is_snapshot (rt_ws r) (rt_id r) oid) (t_snapshots s)"
    if r: "r \<in> set (t_roots ?c)" and o: "rt_snap_obj r = Some oid" for r oid
    using write_root_cases [OF r [unfolded commit_event_tables]] o assms(2)
    by (auto simp: vis_inv_def root_row_removed_def)
  moreover have "row_exists (is_obj oid) (t_objects ?c)" if "row_exists (is_obj oid) (t_objects s)" for oid
    using that ref_count_of_exists [of s oid] ref_count_of_exists [of ?c oid]
    by (auto simp: ref_count_of_commit)
  ultimately show ?thesis
    using assms(2) unfolding vis_inv_def vis by (simp add: commit_event_tables(5,7) row_exists_update_where key_simps)
qed

lemma find_head_commit:
  assumes "content_event (rq_EventType req)"
  shows "List.find (is_head v i p) (t_path_heads (commit_event now sess req q s))
    = (if (v, i, p) = (se_WorkspaceID sess, rq_RootID req, rq_PathID req)
       then Some (case List.find (is_head v i p) (t_path_heads s) of
            None \<Rightarrow> \<lparr>ph_ws = v, ph_root = i, ph_path = p, ph_kind = entryKindFromEvent (rq_EventType req),
                     ph_seq = q, ph_deleted = (rq_EventType req = EventDelete), ph_updated_at = now\<rparr>
          | Some h \<Rightarrow> h\<lparr>ph_kind := entryKindFromEvent (rq_EventType req), ph_seq := q,
                        ph_deleted := (rq_EventType req = EventDelete), ph_updated_at := now\<rparr>)
       else List.find (is_head v i p) (t_path_heads s))"
proof (cases "(v, i, p) = (se_WorkspaceID sess, rq_RootID req, rq_PathID req)")
  case True
  then show ?thesis
    using assms unfolding commit_event_tables write_tables_heads(2) [OF assms] write_content_def Let_def
    by (simp, subst find_upsert_same) (auto simp: key_simps split: option.splits)
next
  case False
  then have d: "\<not> (is_head v i p h \<and> is_head (se_WorkspaceID sess) (rq_RootID req) (rq_PathID req) h)" for h
    by (auto simp: key_simps)
  show ?thesis
    using False unfolding commit_event_tables write_tables_heads(2) [OF assms] write_content_def Let_def
    by (simp, subst find_upsert_other) (use d in \<open>auto simp: key_simps\<close>)
qed

lemma find_head_commit_other:
  assumes "v \<noteq> se_WorkspaceID sess \<or> i \<noteq> rq_RootID req" and "\<not> content_event (rq_EventType req)"
  shows "List.find (is_head v i p) (t_path_heads (commit_event now sess req q s))
    = List.find (is_head v i p) (t_path_heads s)"
  unfolding commit_event_tables write_tables_heads(1) [OF assms(2)]
  using assms(1) by (intro find_delete_where_other) (auto simp: key_simps)

lemma find_root_commit_created:
  assumes "\<not> content_event (rq_EventType req)" and "check_event (se_WorkspaceID sess) req s = None"
    and "List.find (is_root (se_WorkspaceID sess) (rq_RootID req))
           (t_roots (commit_event now sess req q s)) = Some r"
  shows "rt_created_seq r = q \<or> rt_removed_seq r \<noteq> None"
proof (cases "rq_EventType req = EventRootAdd")
  case True
  then have "List.find (is_root (se_WorkspaceID sess) (rq_RootID req)) (t_roots (commit_event now sess req q s))
      = Some (case List.find (is_root (se_WorkspaceID sess) (rq_RootID req)) (t_roots s) of
          None \<Rightarrow> root_row_new now (se_WorkspaceID sess) req q | Some r \<Rightarrow> root_row_readd now req q r)"
    unfolding commit_event_tables write_tables_roots(1) [OF True] by (intro find_upsert_same) simp_all
  with assms(3) show ?thesis
    by (auto simp: root_row_new_def root_row_readd_def split: option.splits)
next
  case False
  with assms(1) have rem: "rq_EventType req = EventRootRemove" by (simp add: content_event_def)
  have "List.find (is_root (se_WorkspaceID sess) (rq_RootID req)) (t_roots (commit_event now sess req q s))
      = map_option (\<lambda>r. if is_root (se_WorkspaceID sess) (rq_RootID req) r then root_row_removed now q r else r)
          (List.find (is_root (se_WorkspaceID sess) (rq_RootID req)) (t_roots s))"
    unfolding commit_event_tables write_tables_roots(2) [OF rem] by (intro find_update_where) simp
  with assms(3) show ?thesis
    by (auto simp: root_row_removed_def dest!: find_some_mem)
qed

lemma heads_inv_commit:
  assumes "log_inv s" and "heads_inv s" and chk: "check_event (se_WorkspaceID sess) req s = None"
  shows "heads_inv (commit_event now sess req (t_last_seq s + 1) s)" (is "heads_inv ?c")
  unfolding heads_inv_def
proof (intro ballI allI impI)
  let ?q = "t_last_seq s + 1" and ?w = "se_WorkspaceID sess"
  fix e r
  assume e: "e \<in> set (t_events ?c)" and ct: "content_event (ev_type e)"
    and r: "List.find (is_root (ev_ws e) (ev_root e)) (t_roots ?c) = Some r"
    and act: "rt_removed_seq r = None" and new: "rt_created_seq r < ev_seq e"
  from e log_inv_fresh [OF assms(1)] have le: "ev_seq e \<le> ?q"
    by (force simp: commit_event_tables event_row_of_def)
  show "head_covers ?c e"
  proof (cases "content_event (rq_EventType req)")
    case False
    then have "e \<in> set (t_events s)"
      using e ct by (auto simp: commit_event_tables event_row_of_def)
    moreover have other: "ev_ws e \<noteq> ?w \<or> ev_root e \<noteq> rq_RootID req"
      using find_root_commit_created [OF False chk] r act new le by fastforce
    ultimately show ?thesis
      using assms(2) r act new ct other False
      by (auto simp: heads_inv_def head_covers_def find_head_commit_other find_root_commit_other)
  next
    case True
    show ?thesis
    proof (cases "e \<in> set (t_events s)")
      case in_s: True
      with assms(2) r act new ct True have "head_covers s e"
        by (auto simp: heads_inv_def find_root_commit_other)
      with le show ?thesis
        by (auto simp: head_covers_def find_head_commit [OF True] split: option.splits)
    next
      case False
      with e have row: "e = event_row_of now sess req ?q" by (auto simp: commit_event_tables)
      moreover have "rq_PathID req \<noteq> []"
        by (rule check_content_ok [OF check_event_kind(1) [OF chk True]]) blast
      ultimately show ?thesis
        by (auto simp: head_covers_def find_head_commit [OF True] event_row_of_def nullString_def
            split: option.splits)
    qed
  qed
qed

lemma commit_event_inv:
  assumes "server_inv s" and "check_event (se_WorkspaceID sess) req s = None"
  shows "server_inv (commit_event now sess req (t_last_seq s + 1) s)"
  using assms keys_inv_commit log_inv_commit refs_inv_commit roots_inv_commit vis_inv_commit heads_inv_commit
  by (simp add: server_inv_def)

lemma SubmitEvent_cases:
  obtains (rejected) e where "SubmitEvent now sess req s = (Inl e, s)"
  | (accepted) "validateEventRequest req = None" "check_event (se_WorkspaceID sess) req s = None"
      "t_last_seq s < max_int64"
      "SubmitEvent now sess req s =
        (Inr \<lparr>su_AcceptedSeq = t_last_seq s + 1, su_WorkspaceSeq = t_last_seq s + 1,
              su_Event = event_record_of now sess req (t_last_seq s + 1)\<rparr>,
         if lifecycle_event (rq_EventType req)
         then snd (RecomputeRetainedFloor now (se_WorkspaceID sess)
                (commit_event now sess req (t_last_seq s + 1) s))
         else commit_event now sess req (t_last_seq s + 1) s)"
proof (cases "validateEventRequest req = None \<and> check_event (se_WorkspaceID sess) req s = None
    \<and> t_last_seq s < max_int64")
  case True
  let ?c = "commit_event now sess req (t_last_seq s + 1) s" and ?w = "se_WorkspaceID sess"
  from True obtain r where "List.find (is_ws ?w) (t_workspaces s) = Some r"
    using check_event_ws by blast
  then have "fst (RecomputeRetainedFloor now ?w ?c) = Inr ()"
    by (intro RecomputeRetainedFloor_ok) (simp add: find_ws_commit)
  then have "RecomputeRetainedFloor now ?w ?c = (Inr (), snd (RecomputeRetainedFloor now ?w ?c))"
    by (metis prod.collapse)
  with True show ?thesis
    by (intro accepted) (auto simp: SubmitEvent_def Let_def split: prod.splits sum.splits)
next
  case False
  then show ?thesis
    by (cases "validateEventRequest req"; cases "check_event (se_WorkspaceID sess) req s")
      (auto simp: SubmitEvent_def intro: rejected)
qed

lemma SubmitEvent_inv: "server_inv s \<Longrightarrow> server_inv (snd (SubmitEvent now sess req s))"
  by (rule SubmitEvent_cases [of now sess req s])
    (auto intro: commit_event_inv RecomputeRetainedFloor_inv)

end
