(* ===== verification/Snapshots.thy ===== *)
theory Snapshots
  imports ServerInvariant
begin

text \<open>
  \<^verbatim>\<open>internal/server/db/snapshots.go\<close>: registering an encrypted root snapshot.
  The checks tie the snapshot to the current incarnation of the root and to the
  workspace head; the writes record the snapshot row, advertise it on the root,
  count the references of its chunks once per row, and recompute the floor.
\<close>

definition check_snapshot :: "string \<Rightarrow> SnapshotSubmitRequest \<Rightarrow> server_db \<Rightarrow> db_error option" where
  "check_snapshot w req s =
     (case List.find (is_root w (sr_RootID req)) (t_roots s) of
        None \<Rightarrow> Some UnknownRoot
      | Some r \<Rightarrow>
          if rt_removed_seq r \<noteq> None then Some RootRemoved
          else if sr_BaseSeq req < rt_created_seq r then Some SnapshotPredatesIncarnation
          else if (case rt_snap_seq r of None \<Rightarrow> False | Some q \<Rightarrow> sr_BaseSeq req < q) then Some StaleSnapshot
          else (case CurrentSeq w s of
              Inl e \<Rightarrow> Some e
            | Inr cur \<Rightarrow>
                if sr_BaseSeq req > cur then Some SnapshotBeyondHead
                else if \<not> objectVisibleToWorkspace w (sr_ObjectID req) s then Some MissingSnapshotObject
                else map_option MissingSnapshotObjectRef
                  (List.find (\<lambda>oid. \<not> objectVisibleToWorkspace w oid s) (sr_ObjectRefs req))))"

definition snapshot_row_of :: "time \<Rightarrow> Session \<Rightarrow> SnapshotSubmitRequest \<Rightarrow> snapshot_row" where
  "snapshot_row_of now sess req =
     \<lparr>sp_ws = se_WorkspaceID sess, sp_root = sr_RootID req, sp_obj = sr_ObjectID req,
      sp_base_seq = sr_BaseSeq req, sp_author = se_DeviceID sess, sp_created_at = now\<rparr>"

text \<open>\<open>INSERT OR IGNORE INTO snapshots\<close>, then the counter if a row was added.\<close>

definition add_snapshot :: "time \<Rightarrow> Session \<Rightarrow> SnapshotSubmitRequest \<Rightarrow> server_db \<Rightarrow> server_db" where
  "add_snapshot now sess req s =
     (let p = is_snapshot (se_WorkspaceID sess) (sr_RootID req) (sr_ObjectID req);
          affected = \<not> row_exists p (t_snapshots s);
          s1 = s\<lparr>t_snapshots := insert_or_ignore p (snapshot_row_of now sess req) (t_snapshots s)\<rparr>;
          s2 = s1\<lparr>t_roots := update_where (is_root (se_WorkspaceID sess) (sr_RootID req))
                 (\<lambda>r. r\<lparr>rt_snap_obj := Some (sr_ObjectID req), rt_snap_seq := Some (sr_BaseSeq req),
                        rt_updated_at := now\<rparr>) (t_roots s1)\<rparr>
      in if affected then incrementObjectRef (sr_ObjectID req) s2 else s2)"

definition add_snapshot_ref :: "string \<Rightarrow> string \<Rightarrow> server_db \<Rightarrow> server_db" where
  "add_snapshot_ref snap oid s =
     (let p = is_snapshot_ref snap oid;
          affected = \<not> row_exists p (t_snapshot_refs s);
          s1 = s\<lparr>t_snapshot_refs := insert_or_ignore p \<lparr>rf_snap = snap, rf_obj = oid\<rparr> (t_snapshot_refs s)\<rparr>
      in if affected then incrementObjectRef oid s1 else s1)"

definition commit_snapshot :: "time \<Rightarrow> Session \<Rightarrow> SnapshotSubmitRequest \<Rightarrow> server_db \<Rightarrow> server_db" where
  "commit_snapshot now sess req s =
     fold (add_snapshot_ref (sr_ObjectID req)) (sr_ObjectRefs req) (add_snapshot now sess req s)"

definition SaveSnapshot ::
  "time \<Rightarrow> Session \<Rightarrow> SnapshotSubmitRequest \<Rightarrow> server_db \<Rightarrow> (db_error + unit) \<times> server_db" where
  "SaveSnapshot now sess req s =
     (case check_snapshot (se_WorkspaceID sess) req s of
        Some e \<Rightarrow> (Inl e, s)
      | None \<Rightarrow> RecomputeRetainedFloor now (se_WorkspaceID sess) (commit_snapshot now sess req s))"

section \<open>What an accepted snapshot satisfied\<close>

lemma check_snapshot_ok:
  assumes "check_snapshot w req s = None"
  obtains r cur where "List.find (is_root w (sr_RootID req)) (t_roots s) = Some r"
    and "rt_removed_seq r = None" and "rt_created_seq r \<le> sr_BaseSeq req"
    and "\<And>q. rt_snap_seq r = Some q \<Longrightarrow> q \<le> sr_BaseSeq req"
    and "CurrentSeq w s = Inr cur" and "sr_BaseSeq req \<le> cur"
    and "objectVisibleToWorkspace w (sr_ObjectID req) s"
    and "\<And>oid. oid \<in> set (sr_ObjectRefs req) \<Longrightarrow> objectVisibleToWorkspace w oid s"
proof (cases "List.find (is_root w (sr_RootID req)) (t_roots s)")
  case None
  with assms show ?thesis by (simp add: check_snapshot_def)
next
  case (Some r)
  with assms obtain cur where cur: "CurrentSeq w s = Inr cur"
    by (auto simp: check_snapshot_def split: if_splits option.splits sum.splits)
  have "(\<forall>oid \<in> set (sr_ObjectRefs req). objectVisibleToWorkspace w oid s)"
    using assms Some cur
    by (auto simp: check_snapshot_def find_None_iff split: if_splits option.splits)
  with assms Some cur show ?thesis
    by (intro that [OF Some _ _ _ cur])
      (auto simp: check_snapshot_def split: if_splits option.splits)
qed

lemma CurrentSeq_cur_seq: "CurrentSeq w s = Inr cur \<Longrightarrow> cur_seq s w = cur"
  by (simp add: CurrentSeq_def cur_seq_def split: option.splits)

section \<open>What a committed snapshot writes\<close>

lemma add_snapshot_ref_frame [frame_simps]:
  "t_workspaces (add_snapshot_ref snap oid s) = t_workspaces s"
  "t_roots (add_snapshot_ref snap oid s) = t_roots s"
  "t_path_heads (add_snapshot_ref snap oid s) = t_path_heads s"
  "t_events (add_snapshot_ref snap oid s) = t_events s"
  "t_last_seq (add_snapshot_ref snap oid s) = t_last_seq s"
  "t_event_refs (add_snapshot_ref snap oid s) = t_event_refs s"
  "t_snapshots (add_snapshot_ref snap oid s) = t_snapshots s"
  "t_ws_objects (add_snapshot_ref snap oid s) = t_ws_objects s"
  by (simp_all add: add_snapshot_ref_def Let_def frame_simps)

lemma add_snapshot_frame [frame_simps]:
  "t_workspaces (add_snapshot now sess req s) = t_workspaces s"
  "t_path_heads (add_snapshot now sess req s) = t_path_heads s"
  "t_events (add_snapshot now sess req s) = t_events s"
  "t_last_seq (add_snapshot now sess req s) = t_last_seq s"
  "t_event_refs (add_snapshot now sess req s) = t_event_refs s"
  "t_snapshot_refs (add_snapshot now sess req s) = t_snapshot_refs s"
  "t_ws_objects (add_snapshot now sess req s) = t_ws_objects s"
  by (simp_all add: add_snapshot_def Let_def frame_simps)

definition root_row_snap :: "time \<Rightarrow> SnapshotSubmitRequest \<Rightarrow> root_row \<Rightarrow> root_row" where
  "root_row_snap now req r =
     r\<lparr>rt_snap_obj := Some (sr_ObjectID req), rt_snap_seq := Some (sr_BaseSeq req), rt_updated_at := now\<rparr>"

lemma commit_snapshot_tables:
  "t_workspaces (commit_snapshot now sess req s) = t_workspaces s"
  "t_path_heads (commit_snapshot now sess req s) = t_path_heads s"
  "t_events (commit_snapshot now sess req s) = t_events s"
  "t_last_seq (commit_snapshot now sess req s) = t_last_seq s"
  "t_event_refs (commit_snapshot now sess req s) = t_event_refs s"
  "t_ws_objects (commit_snapshot now sess req s) = t_ws_objects s"
  "t_snapshots (commit_snapshot now sess req s)
    = insert_or_ignore (is_snapshot (se_WorkspaceID sess) (sr_RootID req) (sr_ObjectID req))
        (snapshot_row_of now sess req) (t_snapshots s)"
  "t_roots (commit_snapshot now sess req s)
    = update_where (is_root (se_WorkspaceID sess) (sr_RootID req)) (root_row_snap now req) (t_roots s)"
proof -
  show "t_workspaces (commit_snapshot now sess req s) = t_workspaces s"
    "t_path_heads (commit_snapshot now sess req s) = t_path_heads s"
    "t_events (commit_snapshot now sess req s) = t_events s"
    "t_last_seq (commit_snapshot now sess req s) = t_last_seq s"
    "t_event_refs (commit_snapshot now sess req s) = t_event_refs s"
    "t_ws_objects (commit_snapshot now sess req s) = t_ws_objects s"
    unfolding commit_snapshot_def
    by (subst fold_frame, simp add: frame_simps, simp add: frame_simps)+
  have "t_snapshots (commit_snapshot now sess req s) = t_snapshots (add_snapshot now sess req s)"
    "t_roots (commit_snapshot now sess req s) = t_roots (add_snapshot now sess req s)"
    unfolding commit_snapshot_def by (rule fold_frame, simp add: frame_simps)+
  then show "t_snapshots (commit_snapshot now sess req s)
    = insert_or_ignore (is_snapshot (se_WorkspaceID sess) (sr_RootID req) (sr_ObjectID req))
        (snapshot_row_of now sess req) (t_snapshots s)"
    "t_roots (commit_snapshot now sess req s)
    = update_where (is_root (se_WorkspaceID sess) (sr_RootID req)) (root_row_snap now req) (t_roots s)"
    by (simp_all add: add_snapshot_def Let_def frame_simps root_row_snap_def [abs_def])
qed

section \<open>Reference counting of a snapshot\<close>

text \<open>Each statement adds as many references as it counts, for an object that exists.\<close>

lemma refs_inv_add_snapshot_ref:
  assumes "refs_inv s" and ex: "ref_count_of s oid \<noteq> None"
  shows "refs_inv (add_snapshot_ref snap oid s)"
  unfolding refs_inv_def
proof
  fix o'
  have to: "refs_to (add_snapshot_ref snap oid s) o' = refs_to s o'
      + (if o' = oid \<and> \<not> row_exists (is_snapshot_ref snap oid) (t_snapshot_refs s) then 1 else 0)"
    by (simp add: refs_to_def add_snapshot_ref_def Let_def frame_simps insert_or_ignore_def count_rows_single)
  have rc: "ref_count_of (add_snapshot_ref snap oid s) o' =
      (if o' = oid \<and> \<not> row_exists (is_snapshot_ref snap oid) (t_snapshot_refs s)
       then map_option (\<lambda>n. n + 1) (ref_count_of s o') else ref_count_of s o')"
    by (simp add: add_snapshot_ref_def Let_def refs.rc_incr) (simp add: ref_count_of_def)
  show "count_ok (ref_count_of (add_snapshot_ref snap oid s) o') (refs_to (add_snapshot_ref snap oid s) o')"
    using assms(1) [unfolded refs_inv_def, rule_format, of o'] ex
    unfolding to rc by (cases "ref_count_of s o'") auto
qed

lemma refs_inv_add_snapshot:
  assumes "refs_inv s" and ex: "ref_count_of s (sr_ObjectID req) \<noteq> None"
  shows "refs_inv (add_snapshot now sess req s)"
  unfolding refs_inv_def
proof
  fix o'
  let ?p = "is_snapshot (se_WorkspaceID sess) (sr_RootID req) (sr_ObjectID req)"
  have to: "refs_to (add_snapshot now sess req s) o' = refs_to s o'
      + (if o' = sr_ObjectID req \<and> \<not> row_exists ?p (t_snapshots s) then 1 else 0)"
    by (simp add: refs_to_def add_snapshot_def Let_def frame_simps insert_or_ignore_def
        count_rows_single snapshot_row_of_def)
  have rc: "ref_count_of (add_snapshot now sess req s) o' =
      (if o' = sr_ObjectID req \<and> \<not> row_exists ?p (t_snapshots s)
       then map_option (\<lambda>n. n + 1) (ref_count_of s o') else ref_count_of s o')"
    by (simp add: add_snapshot_def Let_def refs.rc_incr) (simp add: ref_count_of_def)
  show "count_ok (ref_count_of (add_snapshot now sess req s) o') (refs_to (add_snapshot now sess req s) o')"
    using assms(1) [unfolded refs_inv_def, rule_format, of o'] ex
    unfolding to rc by (cases "ref_count_of s o'") auto
qed

lemma ref_exists_add_snapshot_ref [simp]:
  "ref_count_of (add_snapshot_ref snap oid s) o' = None \<longleftrightarrow> ref_count_of s o' = None"
  "ref_count_of (add_snapshot now sess req s) o' = None \<longleftrightarrow> ref_count_of s o' = None"
  by (simp_all add: add_snapshot_ref_def add_snapshot_def Let_def refs.rc_incr ref_count_of_cong
      [of "s\<lparr>t_snapshot_refs := x\<rparr>" s for x] ref_count_of_cong [of "s\<lparr>t_snapshots := x, t_roots := y\<rparr>" s for x y])

lemma ref_exists_commit_snapshot [simp]:
  "ref_count_of (commit_snapshot now sess req s) oid = None \<longleftrightarrow> ref_count_of s oid = None"
proof -
  have "ref_count_of (fold (add_snapshot_ref snap) oids s') oid = None \<longleftrightarrow> ref_count_of s' oid = None"
    for snap oids s' by (induction oids arbitrary: s') simp_all
  then show ?thesis by (simp add: commit_snapshot_def)
qed

lemma refs_inv_commit_snapshot:
  assumes "refs_inv s" and "ref_count_of s (sr_ObjectID req) \<noteq> None"
    and "\<And>oid. oid \<in> set (sr_ObjectRefs req) \<Longrightarrow> ref_count_of s oid \<noteq> None"
  shows "refs_inv (commit_snapshot now sess req s)"
proof -
  have fold_inv: "refs_inv (fold (add_snapshot_ref snap) oids s')"
    if "refs_inv s'" "\<And>oid. oid \<in> set oids \<Longrightarrow> ref_count_of s' oid \<noteq> None" for snap oids s'
    using that
  proof (induction oids arbitrary: s')
    case (Cons a oids)
    have "refs_inv (add_snapshot_ref snap a s')"
      by (rule refs_inv_add_snapshot_ref [OF Cons.prems(1)]) (use Cons.prems(2) in auto)
    moreover have "ref_count_of (add_snapshot_ref snap a s') oid \<noteq> None" if "oid \<in> set oids" for oid
      unfolding ref_exists_add_snapshot_ref by (rule Cons.prems(2)) (use that in simp)
    ultimately have "refs_inv (fold (add_snapshot_ref snap) oids (add_snapshot_ref snap a s'))"
      by (rule Cons.IH)
    then show ?case by simp
  qed simp
  moreover have "refs_inv (add_snapshot now sess req s)"
    by (rule refs_inv_add_snapshot [OF assms(1,2)])
  moreover have "ref_count_of (add_snapshot now sess req s) oid \<noteq> None"
    if "oid \<in> set (sr_ObjectRefs req)" for oid
    unfolding ref_exists_add_snapshot_ref by (rule assms(3) [OF that])
  ultimately show ?thesis unfolding commit_snapshot_def by (intro fold_inv)
qed

section \<open>A committed snapshot keeps the invariant\<close>

lemma fold_add_snapshot_ref_keys:
  assumes "keys_inv s"
  shows "keys_inv (fold (add_snapshot_ref snap) oids s)"
proof (rule fold_invariant [of keys_inv, OF assms])
  fix oid s assume k: "keys_inv s"
  have "unique_key (\<lambda>r. (rf_snap r, rf_obj r))
      (insert_or_ignore (is_snapshot_ref snap oid) \<lparr>rf_snap = snap, rf_obj = oid\<rparr> (t_snapshot_refs s))"
    using k by (intro unique_key_insert_or_ignore) (auto simp: keys_inv_def key_simps)
  with k show "keys_inv (add_snapshot_ref snap oid s)"
    by (auto simp: keys_inv_def add_snapshot_ref_def Let_def frame_simps incrementObjectRef_def
        unique_key_update_where)
qed

lemma keys_inv_commit_snapshot:
  assumes "keys_inv s"
  shows "keys_inv (commit_snapshot now sess req s)"
  unfolding commit_snapshot_def
proof (rule fold_add_snapshot_ref_keys)
  have "unique_key (\<lambda>r. (sp_ws r, sp_root r, sp_obj r))
      (insert_or_ignore (is_snapshot (se_WorkspaceID sess) (sr_RootID req) (sr_ObjectID req))
        (snapshot_row_of now sess req) (t_snapshots s))"
    using assms by (intro unique_key_insert_or_ignore)
      (auto simp: keys_inv_def key_simps snapshot_row_of_def)
  with assms show "keys_inv (add_snapshot now sess req s)"
    by (auto simp: keys_inv_def add_snapshot_def Let_def frame_simps incrementObjectRef_def
        unique_key_update_where)
qed

lemma find_root_commit_snapshot:
  "List.find (is_root v i) (t_roots (commit_snapshot now sess req s))
    = map_option (\<lambda>r. if is_root (se_WorkspaceID sess) (sr_RootID req) r then root_row_snap now req r else r)
        (List.find (is_root v i) (t_roots s))"
  unfolding commit_snapshot_tables by (rule find_update_where) (simp add: root_row_snap_def key_simps)

lemma roots_inv_commit_snapshot:
  assumes "keys_inv s" and "roots_inv s" and chk: "check_snapshot (se_WorkspaceID sess) req s = None"
  shows "roots_inv (commit_snapshot now sess req s)" (is "roots_inv ?c")
proof -
  have cs: "cur_seq ?c v = cur_seq s v" and fs: "floor_seq ?c v = floor_seq s v" for v
    by (simp_all add: cur_seq_def floor_seq_def commit_snapshot_tables)
  have "root_ok ?c r" if "r \<in> set (t_roots ?c)" for r
  proof -
    from that obtain r' where r': "r' \<in> set (t_roots s)"
      and r: "r = (if is_root (se_WorkspaceID sess) (sr_RootID req) r' then root_row_snap now req r' else r')"
      by (auto simp: commit_snapshot_tables set_update_where)
    from r' assms(2) have ok: "root_ok s r'" by (simp add: roots_inv_def)
    show ?thesis
    proof (cases "is_root (se_WorkspaceID sess) (sr_RootID req) r'")
      case True
      obtain r0 cur where f: "List.find (is_root (se_WorkspaceID sess) (sr_RootID req)) (t_roots s) = Some r0"
        and c: "rt_removed_seq r0 = None" "rt_created_seq r0 \<le> sr_BaseSeq req"
          "CurrentSeq (se_WorkspaceID sess) s = Inr cur" "sr_BaseSeq req \<le> cur"
        by (rule check_snapshot_ok [OF chk]) blast
      from assms(1) f True r' have "r0 = r'"
        using find_some_mem [OF f]
        by (intro unique_key_eq [of "\<lambda>r. (rt_ws r, rt_id r)" "t_roots s"]) (auto simp: keys_inv_def key_simps)
      with ok True c CurrentSeq_cur_seq [OF c(3)] show ?thesis
        by (simp add: r root_ok_def cs root_row_snap_def key_simps)
    next
      case False
      with ok show ?thesis by (simp add: r root_ok_def cs)
    qed
  qed
  moreover have "head_ok ?c h" if "h \<in> set (t_path_heads ?c)" for h
  proof -
    from that assms(2) have "head_ok s h" by (simp add: roots_inv_def commit_snapshot_tables(2))
    then obtain r where r: "List.find (is_root (ph_ws h) (ph_root h)) (t_roots s) = Some r"
      and "rt_removed_seq r = None" "rt_created_seq r < ph_seq h" "ph_seq h \<le> cur_seq s (ph_ws h)"
      by (auto simp: head_ok_def)
    then show ?thesis
      unfolding head_ok_def find_root_commit_snapshot r option.map cs
      by (simp add: root_row_snap_def)
  qed
  ultimately show ?thesis
    using assms(2) by (simp add: roots_inv_def fs cs)
qed

lemma vis_inv_commit_snapshot:
  assumes "vis_inv s" and chk: "check_snapshot (se_WorkspaceID sess) req s = None"
  shows "vis_inv (commit_snapshot now sess req s)" (is "vis_inv ?c")
proof -
  let ?w = "se_WorkspaceID sess"
  have vis: "objectVisibleToWorkspace w oid ?c = objectVisibleToWorkspace w oid s" for w oid
    by (rule visible_cong) (simp add: commit_snapshot_tables)
  have obj: "row_exists (is_obj oid) (t_objects ?c) = row_exists (is_obj oid) (t_objects s)" for oid
    using ref_count_of_exists [of s oid] ref_count_of_exists [of ?c oid] by simp
  have seen: "objectVisibleToWorkspace ?w (sr_ObjectID req) s"
    by (rule check_snapshot_ok [OF chk])
  have "objectVisibleToWorkspace (sp_ws p) (sp_obj p) s" if "p \<in> set (t_snapshots ?c)" for p
    using that assms(1) seen
    by (auto simp: commit_snapshot_tables set_insert_or_ignore snapshot_row_of_def vis_inv_def split: if_splits)
  moreover have "row_exists (is_snapshot (rt_ws r) (rt_id r) oid) (t_snapshots ?c)"
    if r: "r \<in> set (t_roots ?c)" and o: "rt_snap_obj r = Some oid" for r oid
  proof -
    have mono: "row_exists p (t_snapshots s) \<Longrightarrow> row_exists p (t_snapshots ?c)" for p
      by (simp add: commit_snapshot_tables insert_or_ignore_def)
    have new: "row_exists (is_snapshot ?w (sr_RootID req) (sr_ObjectID req)) (t_snapshots ?c)"
      by (simp add: commit_snapshot_tables insert_or_ignore_def snapshot_row_of_def key_simps)
    from r obtain r' where "r' \<in> set (t_roots s)"
      and "r = (if is_root ?w (sr_RootID req) r' then root_row_snap now req r' else r')"
      by (auto simp: commit_snapshot_tables set_update_where)
    with o assms(1) mono new show ?thesis
      by (auto simp: vis_inv_def root_row_snap_def key_simps split: if_splits)
  qed
  ultimately show ?thesis
    using assms(1) by (simp add: vis_inv_def vis obj commit_snapshot_tables)
qed

lemma commit_snapshot_inv:
  assumes inv: "server_inv s" and chk: "check_snapshot (se_WorkspaceID sess) req s = None"
  shows "server_inv (commit_snapshot now sess req s)" (is "server_inv ?c")
proof -
  from inv have k: "keys_inv s" and l: "log_inv s" and r: "refs_inv s" and o: "roots_inv s"
    and v: "vis_inv s" and h: "heads_inv s" by (auto simp: server_inv_def)
  have ex: "objectVisibleToWorkspace w oid s \<Longrightarrow> ref_count_of s oid \<noteq> None" for w oid
    using vis_inv_object [OF v] by auto
  have "refs_inv ?c"
  proof (rule refs_inv_commit_snapshot [OF r])
    show "ref_count_of s (sr_ObjectID req) \<noteq> None"
      by (rule check_snapshot_ok [OF chk]) (rule ex)
    show "ref_count_of s oid \<noteq> None" if "oid \<in> set (sr_ObjectRefs req)" for oid
      by (rule check_snapshot_ok [OF chk]) (use ex that in blast)
  qed
  moreover have "log_inv ?c"
    using l by (simp add: log_inv_def cur_seq_def commit_snapshot_tables)
  moreover have "heads_inv ?c"
    using h by (auto simp: heads_inv_def head_covers_def find_root_commit_snapshot commit_snapshot_tables(2,3)
        root_row_snap_def split: if_splits)
  ultimately show ?thesis
    using keys_inv_commit_snapshot [OF k] roots_inv_commit_snapshot [OF k o chk]
      vis_inv_commit_snapshot [OF v chk]
    by (simp add: server_inv_def)
qed

lemma SaveSnapshot_inv: "server_inv s \<Longrightarrow> server_inv (snd (SaveSnapshot now sess req s))"
  by (auto simp: SaveSnapshot_def commit_snapshot_inv RecomputeRetainedFloor_inv split: option.splits)

end
