(* ===== verification/Api.thy ===== *)
theory Api
  imports Admin Crypto Hub EventsCorrect Snapshots
begin

text \<open>
  The HTTP handlers of \<^verbatim>\<open>internal/server/api\<close>.  A handler is a function from the
  decoded request and the server state to a response and the next state; \<open>None\<close>
  for a decoded body is a body that is not valid JSON or too large.  The time of
  day and random bytes are arguments, the cryptographic primitives a \<open>primitives\<close>.
  A handler that reads the database twice takes both states it reads.
\<close>

record config =
  cf_SessionTTL :: time
  cf_MaxEventFetchPage :: int
  cf_MaxPlainChunkSize :: int
  cf_MaxSnapshotPlain :: int
  cf_MaxWorkspaces :: int
  cf_MaxWSClients :: int

record server =
  sv_files :: files
  sv_db :: server_db
  sv_hub :: "WSMessage hub"

record request =
  hr_Method :: string
  hr_Path :: string
  hr_Version :: string
  hr_Authorization :: string
  hr_AfterSeq :: string
  hr_Limit :: string
  hr_ObjectKind :: string
  hr_PlainSize :: string
  hr_Body :: bytes

datatype body = BodyNone | BodyError ErrorResponse | BodyStart SessionStartResponse
  | BodyFinish SessionFinishResponse | BodyBootstrap BootstrapResponse | BodyEvents EventFetchResponse
  | BodySubmit EventSubmitResponse | BodySnapshot SnapshotSubmitResponse | BodyBytes bytes
  | BodyStream nat | BodyHealth "string list"

type_synonym response = "int \<times> body"

definition writeError :: "int \<Rightarrow> string \<Rightarrow> string \<Rightarrow> response" where
  "writeError status code message =
     (status, BodyError \<lparr>eb_Code = code, eb_Message = message, eb_CurrentSeq = 0, eb_RetainedFloorSeq = 0\<rparr>)"

definition method_not_allowed :: response where
  "method_not_allowed = writeError 405 ''method_not_allowed'' []"

definition unauthorized :: response where
  "unauthorized = writeError 401 ''unauthorized'' []"

definition handleHealthz :: response where
  "handleHealthz = (200, BodyHealth [CapabilityRootIncarnationBinding])"

section \<open>Authentication (auth.go)\<close>

definition sessionFromRequest ::
  "primitives \<Rightarrow> time \<Rightarrow> request \<Rightarrow> server_db \<Rightarrow> Session option \<times> server_db" where
  "sessionFromRequest px now r s =
     (if hr_Version r \<noteq> ''1'' then (None, s)
      else if take 7 (hr_Authorization r) \<noteq> ''Bearer '' then (None, s)
      else case Authenticate (px_sha256 px) now (drop 7 (hr_Authorization r)) s of
        (Inl e, s') \<Rightarrow> (None, s')
      | (Inr sess, s') \<Rightarrow> (Some sess, s'))"

definition withSession ::
  "(Session \<Rightarrow> server \<Rightarrow> response \<times> server) \<Rightarrow> primitives \<Rightarrow> time \<Rightarrow> request \<Rightarrow> server \<Rightarrow> response \<times> server" where
  "withSession handler px now r sv =
     (let (sess, s) = sessionFromRequest px now r (sv_db sv); sv' = sv\<lparr>sv_db := s\<rparr> in
      case sess of None \<Rightarrow> (unauthorized, sv') | Some x \<Rightarrow> handler x sv')"

section \<open>Logging in (session.go)\<close>

definition sessionNonceSize :: nat where
  "sessionNonceSize = 32"

definition parseFixedBase64 :: "string \<Rightarrow> nat \<Rightarrow> bytes option" where
  "parseFixedBase64 v n =
     (case b64_decode v of None \<Rightarrow> None | Some raw \<Rightarrow> if length raw \<noteq> n then None else Some raw)"

definition start_pubkey :: "SessionStartRequest \<Rightarrow> string + bytes" where
  "start_pubkey req =
     (if ss_WorkspacePubKey req = [] then Inr []
      else case b64_decode (ss_WorkspacePubKey req) of
        None \<Rightarrow> Inl ''invalid workspace_pubkey''
      | Some pubKey \<Rightarrow>
          if length pubKey \<noteq> 32 then Inl ''workspace_pubkey must be 32 bytes'' else Inr pubKey)"

definition start_workspace ::
  "config \<Rightarrow> time \<Rightarrow> SessionStartRequest \<Rightarrow> bytes \<Rightarrow> server_db \<Rightarrow> (response + bool) \<times> server_db" where
  "start_workspace cfg now req pubKey s =
     (case WorkspacePubKey (ss_WorkspaceID req) s of
        Inl e \<Rightarrow>
          if \<not> ss_CreateIfMissing req then (Inl (writeError 404 ''workspace_not_found'' []), s)
          else if length pubKey \<noteq> 32 then
            (Inl (writeError 400 ''bad_workspace_pubkey'' ''workspace_pubkey is required when creating a workspace''), s)
          else (case EnsureWorkspaceWithinLimit now (ss_WorkspaceID req) pubKey (cf_MaxWorkspaces cfg) s of
                  (Inl ErrWorkspaceLimitReached, s') \<Rightarrow>
                    (Inl (writeError 403 ''workspace_limit_reached'' ''workspace limit reached''), s')
                | (Inl e, s') \<Rightarrow> (Inl (writeError 400 ''workspace_create_failed'' ''workspace create failed''), s')
                | (Inr created, s') \<Rightarrow> (Inr created, s'))
      | Inr _ \<Rightarrow>
          (case EnsureWorkspace now (ss_WorkspaceID req) pubKey s of
             (Inl e, s') \<Rightarrow> (Inl (writeError 400 ''workspace_key_mismatch'' ''workspace public key mismatch''), s')
           | (Inr created, s') \<Rightarrow> (Inr created, s')))"

definition handleSessionStart ::
  "config \<Rightarrow> time \<Rightarrow> bytes \<Rightarrow> request \<Rightarrow> SessionStartRequest option \<Rightarrow> server \<Rightarrow> response \<times> server" where
  "handleSessionStart cfg now serverNonce r decoded sv =
     (if hr_Method r \<noteq> ''POST'' then (method_not_allowed, sv)
      else case decoded of
        None \<Rightarrow> (writeError 400 ''bad_json'' ''invalid JSON body'', sv)
      | Some req \<Rightarrow>
          if ss_WorkspaceID req = [] then (writeError 400 ''bad_workspace_id'' ''workspace_id is required'', sv)
          else if ss_DeviceID req = [] then (writeError 400 ''bad_device_id'' ''device_id is required'', sv)
          else (case parseFixedBase64 (ss_ClientNonce req) sessionNonceSize of
             None \<Rightarrow> (writeError 400 ''bad_client_nonce'' ''invalid client_nonce'', sv)
           | Some clientNonce \<Rightarrow>
               (case start_pubkey req of
                  Inl msg \<Rightarrow> (writeError 400 ''bad_workspace_pubkey'' msg, sv)
                | Inr pubKey \<Rightarrow>
                    (case start_workspace cfg now req pubKey (sv_db sv) of
                       (Inl resp, s) \<Rightarrow> (resp, sv\<lparr>sv_db := s\<rparr>)
                     | (Inr created, s) \<Rightarrow>
                         ((200, BodyStart \<lparr>ssr_WorkspaceExists = True, ssr_Created = created,
                             ssr_ServerNonce = b64_encode serverNonce, ssr_ServerTime = now,
                             ssr_ProtocolVersion = 1\<rparr>),
                          sv\<lparr>sv_db := SaveChallenge now (ss_WorkspaceID req) (ss_DeviceID req)
                               (ss_DeviceName req) clientNonce serverNonce s\<rparr>)))))"

definition finish_verify :: "primitives \<Rightarrow> time \<Rightarrow> SessionFinishRequest \<Rightarrow> bytes \<Rightarrow> server_db \<Rightarrow> response + string" where
  "finish_verify px now req clientNonce s =
     (case LoadChallenge (sf_WorkspaceID req) (sf_DeviceID req) clientNonce s of
        Inl e \<Rightarrow> Inl (writeError 401 ''challenge_not_found'' [])
      | Inr (serverNonce, deviceName, expiresAt) \<Rightarrow>
          if now > expiresAt then Inl (writeError 401 ''challenge_expired'' [])
          else if parseFixedBase64 (sf_ServerNonce req) sessionNonceSize \<noteq> Some serverNonce
            then Inl (writeError 401 ''server_nonce_mismatch'' [])
          else (case WorkspacePubKey (sf_WorkspaceID req) s of
             Inl e \<Rightarrow> Inl (writeError 401 ''workspace_not_found'' [])
           | Inr pubKey \<Rightarrow>
               if length pubKey \<noteq> 32 then Inl (writeError 401 ''bad_workspace_pubkey'' [])
               else (case parseFixedBase64 (sf_Signature req) 64 of
                  None \<Rightarrow> Inl (writeError 400 ''bad_signature'' ''invalid signature'')
                | Some signature \<Rightarrow>
                    if \<not> VerifyTranscript px pubKey (sf_WorkspaceID req) (sf_DeviceID req)
                           clientNonce serverNonce signature
                    then Inl (writeError 401 ''bad_signature'' [])
                    else Inr deviceName)))"

definition handleSessionFinish ::
  "config \<Rightarrow> primitives \<Rightarrow> time \<Rightarrow> bytes \<Rightarrow> request \<Rightarrow> SessionFinishRequest option \<Rightarrow> server \<Rightarrow> response \<times> server" where
  "handleSessionFinish cfg px now tokenBytes r decoded sv =
     (if hr_Method r \<noteq> ''POST'' then (method_not_allowed, sv)
      else case decoded of
        None \<Rightarrow> (writeError 400 ''bad_json'' ''invalid JSON body'', sv)
      | Some req \<Rightarrow>
          if sf_WorkspaceID req = [] then (writeError 400 ''bad_workspace_id'' ''workspace_id is required'', sv)
          else if sf_DeviceID req = [] then (writeError 400 ''bad_device_id'' ''device_id is required'', sv)
          else (case parseFixedBase64 (sf_ClientNonce req) sessionNonceSize of
             None \<Rightarrow> (writeError 400 ''bad_client_nonce'' ''invalid client_nonce'', sv)
           | Some clientNonce \<Rightarrow>
               (case finish_verify px now req clientNonce (sv_db sv) of
                  Inl resp \<Rightarrow> (resp, sv)
                | Inr deviceName \<Rightarrow>
                    (case CreateSession (px_sha256 px) now tokenBytes (sf_WorkspaceID req) (sf_DeviceID req)
                            deviceName (cf_SessionTTL cfg)
                            (DeleteChallenge (sf_WorkspaceID req) (sf_DeviceID req) clientNonce (sv_db sv)) of
                       (Inl e, s) \<Rightarrow>
                         (writeError 500 ''session_create_failed'' ''session create failed'', sv\<lparr>sv_db := s\<rparr>)
                     | (Inr (token, expires, currentSeq), s) \<Rightarrow>
                         ((200, BodyFinish \<lparr>sfr_SessionToken = token, sfr_ExpiresAt = expires,
                             sfr_WorkspaceID = sf_WorkspaceID req, sfr_CurrentSeq = currentSeq\<rparr>),
                          sv\<lparr>sv_db := s\<rparr>)))))"

section \<open>Bootstrap (bootstrap.go)\<close>

definition bootstrap_root :: "root_row \<Rightarrow> BootstrapRoot" where
  "bootstrap_root r =
     \<lparr>br_RootID = rt_id r, br_Kind = rt_kind r, br_DescriptorBlob = rt_descriptor r,
      br_CreatedSeq = rt_created_seq r, br_RemovedSeq = rt_removed_seq r,
      br_LatestSnapshotObjectID = (case rt_snap_obj r of None \<Rightarrow> [] | Some oid \<Rightarrow> oid),
      br_LatestSnapshotSeq = (case rt_snap_seq r of None \<Rightarrow> 0 | Some q \<Rightarrow> q)\<rparr>"

definition root_contrib :: "root_row \<Rightarrow> int" where
  "root_contrib r = (case rt_snap_seq r of None \<Rightarrow> rt_created_seq r - 1 | Some q \<Rightarrow> q)"

definition lower_cursor :: "root_row \<Rightarrow> int \<times> bool \<Rightarrow> int \<times> bool" where
  "lower_cursor r acc =
     (if \<not> snd acc \<or> root_contrib r < fst acc then (root_contrib r, True) else acc)"

definition bootstrap_after :: "int \<Rightarrow> root_row list \<Rightarrow> int" where
  "bootstrap_after currentSeq roots = fst (fold lower_cursor roots (currentSeq, False))"

definition bootstrap_response :: "string \<Rightarrow> root_row list \<Rightarrow> int \<Rightarrow> BootstrapResponse" where
  "bootstrap_response w roots currentSeq =
     \<lparr>bs_WorkspaceID = w, bs_CurrentSeq = currentSeq,
      bs_BootstrapAfterSeq = bootstrap_after currentSeq roots, bs_Roots = map bootstrap_root roots\<rparr>"

text \<open>\<open>s1\<close> is the database when the roots are read, \<open>s2\<close> when \<open>current_seq\<close> is:
  nothing stops another request between the two.\<close>

definition handleBootstrap :: "request \<Rightarrow> Session \<Rightarrow> server_db \<Rightarrow> server_db \<Rightarrow> response" where
  "handleBootstrap r sess s1 s2 =
     (if hr_Method r \<noteq> ''GET'' then method_not_allowed
      else case CurrentSeq (se_WorkspaceID sess) s2 of
        Inl e \<Rightarrow> writeError 500 ''db_error'' ''database error''
      | Inr currentSeq \<Rightarrow>
          (200, BodyBootstrap (bootstrap_response (se_WorkspaceID sess)
                  (ActiveRoots (se_WorkspaceID sess) s1) currentSeq)))"

section \<open>Events (events.go)\<close>

definition parseEventFetchQuery :: "config \<Rightarrow> request \<Rightarrow> (int \<times> int) option" where
  "parseEventFetchQuery cfg r =
     (case (if hr_AfterSeq r = [] then Some 0
            else case ParseInt64 (hr_AfterSeq r) of
              None \<Rightarrow> None | Some n \<Rightarrow> if n < 0 then None else Some n) of
        None \<Rightarrow> None
      | Some afterSeq \<Rightarrow>
          (case (if hr_Limit r = [] then Some 100
                 else case ParseInt64 (hr_Limit r) of
                   None \<Rightarrow> None | Some n \<Rightarrow> if n \<le> 0 then None else Some n) of
             None \<Rightarrow> None
           | Some limit \<Rightarrow>
               Some (afterSeq, if cf_MaxEventFetchPage cfg > 0 \<and> limit > cf_MaxEventFetchPage cfg
                               then cf_MaxEventFetchPage cfg else limit)))"

definition handleEventFetch :: "config \<Rightarrow> request \<Rightarrow> Session \<Rightarrow> server_db \<Rightarrow> response" where
  "handleEventFetch cfg r sess s =
     (case parseEventFetchQuery cfg r of
        None \<Rightarrow> writeError 400 ''bad_query'' ''invalid event query''
      | Some (afterSeq, limit) \<Rightarrow>
          (case FetchEvents (se_WorkspaceID sess) afterSeq (nat limit) s of
             Inl (ResyncRequired floorSeq) \<Rightarrow>
               (410, BodyError \<lparr>eb_Code = ''resync_required'', eb_Message = [], eb_CurrentSeq = 0,
                                eb_RetainedFloorSeq = floorSeq\<rparr>)
           | Inl e \<Rightarrow> writeError 500 ''db_error'' ''database error''
           | Inr (evs, currentSeq) \<Rightarrow>
               (200, BodyEvents \<lparr>fr_Events = evs, fr_CurrentSeq = currentSeq\<rparr>)))"

text \<open>The submission and the publication run under \<open>eventMu\<close>, so this is one step.\<close>

definition handleEventSubmit ::
  "time \<Rightarrow> EventSubmitRequest option \<Rightarrow> Session \<Rightarrow> server \<Rightarrow> response \<times> server" where
  "handleEventSubmit now decoded sess sv =
     (case decoded of
        None \<Rightarrow> (writeError 400 ''bad_json'' ''invalid JSON body'', sv)
      | Some req \<Rightarrow>
          (case SubmitEvent now sess req (sv_db sv) of
             (Inl (RootIncarnationMismatch q), s) \<Rightarrow>
               ((409, BodyError \<lparr>eb_Code = ''root_incarnation_mismatch'', eb_Message = [],
                                 eb_CurrentSeq = q, eb_RetainedFloorSeq = 0\<rparr>), sv\<lparr>sv_db := s\<rparr>)
           | (Inl (PathHeadMismatch q), s) \<Rightarrow>
               ((409, BodyError \<lparr>eb_Code = ''path_head_mismatch'', eb_Message = [],
                                 eb_CurrentSeq = q, eb_RetainedFloorSeq = 0\<rparr>), sv\<lparr>sv_db := s\<rparr>)
           | (Inl e, s) \<Rightarrow> (writeError 400 ''event_rejected'' ''event rejected'', sv\<lparr>sv_db := s\<rparr>)
           | (Inr result, s) \<Rightarrow>
               ((200, BodySubmit \<lparr>es_AcceptedSeq = su_AcceptedSeq result,
                                  es_WorkspaceSeq = su_WorkspaceSeq result\<rparr>),
                sv\<lparr>sv_db := s,
                   sv_hub := Publish (se_WorkspaceID sess)
                     \<lparr>wm_Type = ''event'', wm_Event = Some (su_Event result)\<rparr> (sv_hub sv)\<rparr>)))"

definition handleEvents ::
  "config \<Rightarrow> time \<Rightarrow> request \<Rightarrow> EventSubmitRequest option \<Rightarrow> Session \<Rightarrow> server \<Rightarrow> response \<times> server" where
  "handleEvents cfg now r decoded sess sv =
     (if hr_Method r = ''GET'' then (handleEventFetch cfg r sess (sv_db sv), sv)
      else if hr_Method r = ''POST'' then handleEventSubmit now decoded sess sv
      else (method_not_allowed, sv))"

section \<open>Snapshots (snapshots.go)\<close>

definition handleSnapshotSubmit ::
  "time \<Rightarrow> request \<Rightarrow> SnapshotSubmitRequest option \<Rightarrow> Session \<Rightarrow> server \<Rightarrow> response \<times> server" where
  "handleSnapshotSubmit now r decoded sess sv =
     (if hr_Method r \<noteq> ''POST'' then (method_not_allowed, sv)
      else case decoded of
        None \<Rightarrow> (writeError 400 ''bad_json'' ''invalid JSON body'', sv)
      | Some req \<Rightarrow>
          (case SaveSnapshot now sess req (sv_db sv) of
             (Inl e, s) \<Rightarrow> (writeError 400 ''snapshot_rejected'' ''snapshot rejected'', sv\<lparr>sv_db := s\<rparr>)
           | (Inr u, s) \<Rightarrow>
               ((200, BodySnapshot \<lparr>sn_RootID_r = sr_RootID req, sn_BaseSeq_r = sr_BaseSeq req,
                                    sn_ObjectID_r = sr_ObjectID req\<rparr>), sv\<lparr>sv_db := s\<rparr>)))"

section \<open>Objects (objects.go)\<close>

text \<open>\<open>path.Base\<close>\<close>

definition path_base :: "string \<Rightarrow> string" where
  "path_base p =
     (if p = [] then ''.''
      else let q = rev (dropWhile (\<lambda>c. c = CHR ''/'') (rev p))
           in if q = [] then ''/'' else rev (takeWhile (\<lambda>c. c \<noteq> CHR ''/'') (rev q)))"

definition validateObjectUpload :: "config \<Rightarrow> request \<Rightarrow> (string \<times> int \<times> int) option" where
  "validateObjectUpload cfg r =
     (let kind = hr_ObjectKind r in
      if kind \<noteq> ''file_chunk'' \<and> kind \<noteq> ''snapshot'' then None
      else case ParseInt64 (hr_PlainSize r) of
        None \<Rightarrow> None
      | Some plainSize \<Rightarrow>
          if plainSize \<le> 0 then None
          else if kind = ''file_chunk'' \<and> plainSize > cf_MaxPlainChunkSize cfg then None
          else if kind = ''snapshot'' \<and> plainSize > cf_MaxSnapshotPlain cfg then None
          else (case EncryptedSize plainSize of
                  Inl e \<Rightarrow> None | Inr maxUploadBytes \<Rightarrow> Some (kind, plainSize, maxUploadBytes)))"

definition upload_failed :: response where
  "upload_failed = writeError 400 ''object_upload_failed'' ''invalid object upload''"

definition object_not_found :: response where
  "object_not_found = writeError 404 ''object_not_found'' []"

definition object_put ::
  "config \<Rightarrow> primitives \<Rightarrow> time \<Rightarrow> request \<Rightarrow> Session \<Rightarrow> server \<Rightarrow> response \<times> server" where
  "object_put cfg px now r sess sv =
     (let objectID = path_base (hr_Path r) in
      case validateObjectUpload cfg r of
        None \<Rightarrow> (upload_failed, sv)
      | Some (kind, plainSize, maxUploadBytes) \<Rightarrow>
          (case Put (px_sha256 px) now objectID kind plainSize maxUploadBytes (hr_Body r)
                  (sv_files sv, sv_db sv) of
             (Inl e, f, s) \<Rightarrow> (upload_failed, sv\<lparr>sv_files := f, sv_db := s\<rparr>)
           | (Inr created, f, s) \<Rightarrow>
               (case associateObjectWithWorkspace now (se_WorkspaceID sess) objectID s of
                  (Inl e, s') \<Rightarrow> (upload_failed, sv\<lparr>sv_files := f, sv_db := s'\<rparr>)
                | (Inr u, s') \<Rightarrow> ((if created then 201 else 200, BodyNone),
                                sv\<lparr>sv_files := f, sv_db := s'\<rparr>))))"

definition object_get :: "time \<Rightarrow> request \<Rightarrow> Session \<Rightarrow> server \<Rightarrow> response \<times> server" where
  "object_get now r sess sv =
     (let objectID = path_base (hr_Path r) in
      if \<not> ValidObjectID objectID then (object_not_found, sv)
      else if \<not> objectVisibleToWorkspace (se_WorkspaceID sess) objectID (sv_db sv) then (object_not_found, sv)
      else case Get now objectID (sv_files sv, sv_db sv) of
        (Inl e, f, s) \<Rightarrow> (object_not_found, sv\<lparr>sv_db := s\<rparr>)
      | (Inr content, f, s) \<Rightarrow>
          ((200, BodyBytes content), sv\<lparr>sv_db := AddTransferredBytes (int (length content)) s\<rparr>))"

definition handleObjects :: "config \<Rightarrow> primitives \<Rightarrow> time \<Rightarrow> request \<Rightarrow> server \<Rightarrow> response \<times> server" where
  "handleObjects cfg px now r sv =
     (if hr_Method r = ''PUT'' then withSession (object_put cfg px now r) px now r sv
      else if hr_Method r = ''GET'' then withSession (object_get now r) px now r sv
      else (method_not_allowed, sv))"

section \<open>Websocket (websocket.go)\<close>

definition handleWS :: "primitives \<Rightarrow> time \<Rightarrow> request \<Rightarrow> server \<Rightarrow> response \<times> server" where
  "handleWS px now r sv =
     withSession (\<lambda>sess sv.
       case Subscribe (se_WorkspaceID sess) (sv_hub sv) of
         (None, h) \<Rightarrow> (writeError 503 ''websocket_limit_reached'' ''workspace websocket client limit reached'', sv)
       | (Some sub, h) \<Rightarrow> ((101, BodyStream sub), sv\<lparr>sv_hub := h\<rparr>)) px now r sv"

end
