(* ===== verification/ServerSystem.thy ===== *)
theory ServerSystem
  imports Api
begin

text \<open>
  The server as a whole: one step per request, and the administrator's commands
  between runs of the server (the process lock keeps them from running beside it).
  Every reachable state satisfies \<open>system_inv\<close>: the database invariant, the
  object store invariant, the hub invariant, and that the retained floor of a
  workspace is at or below the bootstrap cursor of each of its active roots.
\<close>

datatype server_op =
    ReqStart time bytes request "SessionStartRequest option"
  | ReqFinish time bytes request "SessionFinishRequest option"
  | ReqBootstrap time request
  | ReqEvents time request "EventSubmitRequest option"
  | ReqSnapshot time request "SnapshotSubmitRequest option"
  | ReqObjects time request
  | ReqWS time request
  | StreamDeliver nat
  | StreamClose string nat
  | AdminGC time time time
  | AdminPurge time string
  | AdminPurgeCrash time string nat

definition restart :: "config \<Rightarrow> files \<Rightarrow> server_db \<Rightarrow> server" where
  "restart cfg f s = \<lparr>sv_files = f, sv_db = s, sv_hub = new_hub (cf_MaxWSClients cfg)\<rparr>"

definition admin_of :: "server \<Rightarrow> admin_state" where
  "admin_of sv = \<lparr>ad_files = sv_files sv, ad_stage = [], ad_db = sv_db sv\<rparr>"

fun server_step :: "config \<Rightarrow> primitives \<Rightarrow> server_op \<Rightarrow> server \<Rightarrow> server" where
  "server_step cfg px (ReqStart now nonce r d) sv = snd (handleSessionStart cfg now nonce r d sv)"
| "server_step cfg px (ReqFinish now tok r d) sv = snd (handleSessionFinish cfg px now tok r d sv)"
| "server_step cfg px (ReqBootstrap now r) sv =
     snd (withSession (\<lambda>sess sv. (handleBootstrap r sess (sv_db sv) (sv_db sv), sv)) px now r sv)"
| "server_step cfg px (ReqEvents now r d) sv = snd (withSession (handleEvents cfg now r d) px now r sv)"
| "server_step cfg px (ReqSnapshot now r d) sv = snd (withSession (handleSnapshotSubmit now r d) px now r sv)"
| "server_step cfg px (ReqObjects now r) sv = snd (handleObjects cfg px now r sv)"
| "server_step cfg px (ReqWS now r) sv = snd (handleWS px now r sv)"
| "server_step cfg px (StreamDeliver x) sv = sv\<lparr>sv_hub := snd (Receive x (sv_hub sv))\<rparr>"
| "server_step cfg px (StreamClose w x) sv = sv\<lparr>sv_hub := Unsubscribe w x (sv_hub sv)\<rparr>"
| "server_step cfg px (AdminGC now er zr) sv =
     (let (counts, f, s) = GC now er zr (sv_files sv, sv_db sv) in restart cfg f s)"
| "server_step cfg px (AdminPurge now w) sv =
     (let a = snd (admin_PurgeWorkspace now w (admin_of sv)) in restart cfg (ad_files a) (ad_db a))"
| "server_step cfg px (AdminPurgeCrash now w n) sv =
     (let a = snd (RecoverPurgeStaging
                (run_actions (take n (purge_actions now w (admin_of sv))) (admin_of sv)))
      in restart cfg (ad_files a) (ad_db a))"

definition server_init :: "config \<Rightarrow> server" where
  "server_init cfg = restart cfg (\<lambda>_. None) empty_db"

definition server_run :: "config \<Rightarrow> primitives \<Rightarrow> server_op list \<Rightarrow> server" where
  "server_run cfg px ops = fold (server_step cfg px) ops (server_init cfg)"

section \<open>The floor is at or below every bootstrap cursor\<close>

definition floor_safe :: "server_db \<Rightarrow> bool" where
  "floor_safe s \<longleftrightarrow> (\<forall>r \<in> set (t_roots s). rt_removed_seq r = None \<longrightarrow> floor_seq s (rt_ws r) \<le> root_contrib r)"

lemma floor_safe_cong:
  "t_roots s' = t_roots s \<Longrightarrow> t_workspaces s' = t_workspaces s \<Longrightarrow> floor_safe s' = floor_safe s"
  by (simp add: floor_safe_def floor_seq_def)

lemma root_contrib_nonneg: "root_ok s r \<Longrightarrow> 0 \<le> root_contrib r"
  by (auto simp: root_ok_def root_contrib_def split: option.splits)

lemma computed_floor_le_contrib:
  assumes "\<And>r. r \<in> set roots \<Longrightarrow> root_ok s r" and r: "r \<in> set roots"
  shows "computed_floor cur roots \<le> root_contrib r"
proof (cases "\<exists>r' \<in> set roots. rt_snap_seq r' = None")
  case True
  then obtain r' where "r' \<in> set roots" "rt_snap_seq r' = None" by blast
  then have "computed_floor cur roots = 0" by (rule computed_floor_missing)
  with root_contrib_nonneg [OF assms(1) [OF r]] show ?thesis by simp
next
  case False
  have pos: "\<forall>r \<in> set roots. \<exists>q > 0. rt_snap_seq r = Some q"
  proof
    fix r' assume r': "r' \<in> set roots"
    with False obtain q where q: "rt_snap_seq r' = Some q" by auto
    with assms(1) [OF r'] show "\<exists>q > 0. rt_snap_seq r' = Some q" by (auto simp: root_ok_def)
  qed
  have "computed_floor cur roots = Min ((\<lambda>r. the (rt_snap_seq r)) ` set roots)"
    using r pos by (intro computed_floor_snapshots) auto
  also have "\<dots> \<le> the (rt_snap_seq r)" using r by simp
  also have "\<dots> = root_contrib r" using pos r by (force simp: root_contrib_def)
  finally show ?thesis .
qed

lemma Recompute_floor_safe:
  assumes "server_inv s" and "floor_safe s"
  shows "floor_safe (snd (RecomputeRetainedFloor now w s))"
  unfolding floor_safe_def
proof (intro ballI impI)
  fix r assume r: "r \<in> set (t_roots (snd (RecomputeRetainedFloor now w s)))" and act: "rt_removed_seq r = None"
  then have rs: "r \<in> set (t_roots s)" by (simp add: frame_simps)
  show "floor_seq (snd (RecomputeRetainedFloor now w s)) (rt_ws r) \<le> root_contrib r"
  proof (cases "rt_ws r = w \<and> row_exists (is_ws w) (t_workspaces s)")
    case True
    have "computed_floor (cur_seq s w) (ActiveRoots w s) \<le> root_contrib r"
      using assms(1) rs act True
      by (intro computed_floor_le_contrib [where s = s]) (auto simp: set_ActiveRoots server_inv_def roots_inv_def)
    with True show ?thesis by (simp add: floor_seq_Recompute)
  next
    case False
    with assms(2) rs act show ?thesis by (auto simp: floor_seq_Recompute floor_safe_def)
  qed
qed

lemma commit_event_floor_safe:
  assumes "server_inv s" and "floor_safe s"
  shows "floor_safe (commit_event now sess req (t_last_seq s + 1) s)" (is "floor_safe ?c")
  unfolding floor_safe_def floor_seq_commit
proof (intro ballI impI)
  fix r assume r: "r \<in> set (t_roots ?c)" and act: "rt_removed_seq r = None"
  have "floor_seq s v \<le> t_last_seq s" for v
    using assms(1) by (auto simp: server_inv_def roots_inv_def log_inv_def intro: order_trans)
  with write_root_cases [OF r [unfolded commit_event_tables]] act assms(2)
  show "floor_seq s (rt_ws r) \<le> root_contrib r"
    by (auto simp: floor_safe_def root_contrib_def root_row_removed_def)
qed

lemma SubmitEvent_floor_safe:
  "server_inv s \<Longrightarrow> floor_safe s \<Longrightarrow> floor_safe (snd (SubmitEvent now sess req s))"
  by (rule SubmitEvent_cases [of now sess req s])
    (auto intro: commit_event_floor_safe Recompute_floor_safe commit_event_inv)

lemma commit_snapshot_floor_safe:
  assumes "server_inv s" and "floor_safe s" and chk: "check_snapshot (se_WorkspaceID sess) req s = None"
  shows "floor_safe (commit_snapshot now sess req s)"
  unfolding floor_safe_def
proof (intro ballI impI)
  let ?w = "se_WorkspaceID sess" and ?i = "sr_RootID req"
  fix r assume r: "r \<in> set (t_roots (commit_snapshot now sess req s))" and act: "rt_removed_seq r = None"
  then obtain r' where r': "r' \<in> set (t_roots s)"
    and eq: "r = (if is_root ?w ?i r' then root_row_snap now req r' else r')"
    by (auto simp: commit_snapshot_tables set_update_where)
  have ws: "floor_seq (commit_snapshot now sess req s) v = floor_seq s v" for v
    by (simp add: floor_seq_def commit_snapshot_tables)
  show "floor_seq (commit_snapshot now sess req s) (rt_ws r) \<le> root_contrib r"
  proof (cases "is_root ?w ?i r'")
    case True
    obtain r0 where f: "List.find (is_root ?w ?i) (t_roots s) = Some r0"
      and c: "rt_created_seq r0 \<le> sr_BaseSeq req" "\<And>q. rt_snap_seq r0 = Some q \<Longrightarrow> q \<le> sr_BaseSeq req"
      by (rule check_snapshot_ok [OF chk]) blast
    have "r0 = r'"
      using assms(1) find_some_mem [OF f] r' True
      by (intro unique_key_eq [of "\<lambda>r. (rt_ws r, rt_id r)" "t_roots s"])
        (auto simp: server_inv_def keys_inv_def key_simps)
    then have "root_contrib r' \<le> sr_BaseSeq req" using c by (auto simp: root_contrib_def split: option.split)
    moreover have "floor_seq s (rt_ws r') \<le> root_contrib r'"
      using assms(2) r' act eq True by (simp add: floor_safe_def root_row_snap_def)
    ultimately show ?thesis
      using True eq by (simp add: ws root_contrib_def root_row_snap_def)
  next
    case False
    with assms(2) r' act eq show ?thesis by (simp add: ws floor_safe_def)
  qed
qed

lemma SaveSnapshot_floor_safe:
  "server_inv s \<Longrightarrow> floor_safe s \<Longrightarrow> floor_safe (snd (SaveSnapshot now sess req s))"
  by (auto simp: SaveSnapshot_def commit_snapshot_floor_safe commit_snapshot_inv Recompute_floor_safe
      split: option.splits)

lemma EnsureWorkspace_floor_safe:
  assumes "floor_safe s"
  shows "floor_safe (snd (EnsureWorkspaceWithinLimit now w k m s))"
proof (rule disjE [OF EnsureWorkspace_tables [of now w k m s]])
  assume "snd (EnsureWorkspaceWithinLimit now w k m s) = s"
  with assms show ?thesis by simp
next
  assume a: "\<not> row_exists (is_ws w) (t_workspaces s) \<and> snd (EnsureWorkspaceWithinLimit now w k m s)
    = s\<lparr>t_workspaces := t_workspaces s @ [\<lparr>ws_id = w, ws_pubkey = k, ws_current_seq = 0, ws_floor = 0,
            ws_created_at = now, ws_updated_at = now\<rparr>]\<rparr>"
  then have "floor_seq (snd (EnsureWorkspaceWithinLimit now w k m s)) v = floor_seq s v" for v
    by (auto simp: floor_seq_def find_append find_none_iff [symmetric] key_simps split: option.split)
  with assms a show ?thesis by (simp add: floor_safe_def)
qed

lemma Prune_floor_safe:
  assumes "server_inv s" and "floor_safe s"
  shows "floor_safe (snd (Prune now er zr s))"
proof -
  have eqs: "floor_safe (prune_event now q t) = floor_safe t" "floor_safe (prune_snapshot now p t) = floor_safe t"
    "floor_safe (delete_object oid t) = floor_safe t" for q p oid t
    by (rule floor_safe_cong; simp add: frame_simps)+
  show ?thesis
    by (rule conjunct2 [OF Prune_rule [where P = floor_safe, OF assms]]) (simp_all add: eqs)
qed

lemma Purge_floor_safe:
  assumes "floor_safe s"
  shows "floor_safe (snd (PurgeWorkspace w cs now s))"
proof -
  have "floor_safe (recount_refs now (purge_rows w s)) = floor_safe (purge_rows w s)"
    by (rule floor_safe_cong; simp add: frame_simps)
  moreover have "floor_safe (purge_rows w s)"
    using assms by (auto simp: floor_safe_def frame_simps cur_seq_purge)
  ultimately have 1: "floor_safe (recount_refs now (purge_rows w s))" by simp
  have 2: "floor_safe (delete_object oid t) = floor_safe t" for oid t
    by (rule floor_safe_cong; simp add: frame_simps)
  have "floor_safe (snd (fold purge_candidate cs ([], recount_refs now (purge_rows w s))))"
    by (rule purge_candidates_rule [where P = floor_safe, OF 1]) (simp add: 2)
  with assms show ?thesis by (simp add: PurgeWorkspace_snd)
qed

section \<open>The invariant of the system\<close>

definition db_inv :: "server_db \<Rightarrow> bool" where
  "db_inv s \<longleftrightarrow> server_inv s \<and> floor_safe s"

definition system_inv :: "primitives \<Rightarrow> server \<Rightarrow> bool" where
  "system_inv px sv \<longleftrightarrow> db_inv (sv_db sv) \<and> store_inv (px_sha256 px) (sv_files sv, sv_db sv) \<and> hub_inv (sv_hub sv)"

text \<open>Database operations keep \<open>db_inv\<close> and, but for pruning and purging, the objects.\<close>

lemma db_inv_empty: "db_inv empty_db"
  by (simp add: db_inv_def server_inv_empty) (simp add: floor_safe_def empty_db_def)

lemma SubmitEvent_objects:
  "object_ids (snd (SubmitEvent now sess req s)) = object_ids s"
proof -
  have "object_ids (commit_event now sess req q s) = object_ids s" for q
    by (rule trans [OF object_ids_cong [OF commit_event_tables(4)]]) (rule fold_frame, simp)
  moreover have "object_ids (snd (RecomputeRetainedFloor now w t)) = object_ids t" for w t
    by (rule object_ids_cong) (simp add: frame_simps)
  ultimately show ?thesis
    by (cases rule: SubmitEvent_cases [of now sess req s]) simp_all
qed

lemma SaveSnapshot_objects:
  "object_ids (snd (SaveSnapshot now sess req s)) = object_ids s"
proof -
  have "object_ids (add_snapshot_ref snap oid t) = object_ids t" for snap oid t
    by (auto simp: object_ids_ref simp del: not_None_eq)
  then have "object_ids (commit_snapshot now sess req s) = object_ids (add_snapshot now sess req s)"
    unfolding commit_snapshot_def by (rule fold_frame)
  moreover have "object_ids (add_snapshot now sess req s) = object_ids s"
    by (auto simp: object_ids_ref simp del: not_None_eq)
  moreover have "object_ids (snd (RecomputeRetainedFloor now w t)) = object_ids t" for w t
    by (rule object_ids_cong) (simp add: frame_simps)
  ultimately show ?thesis by (simp add: SaveSnapshot_def split: option.split)
qed

lemma store_inv_same_objects:
  "object_ids s' = object_ids s \<Longrightarrow> store_inv h (f, s') = store_inv h (f, s)"
  by (simp add: store_inv_def rows_have_files_ids)

lemma db_inv_same_log: "same_log s s' \<Longrightarrow> db_inv s \<Longrightarrow> db_inv s'"
  unfolding db_inv_def using same_log_inv [of s s'] floor_safe_cong [of s' s] by (simp add: same_log_def)

lemma object_ids_same_log: "same_log s s' \<Longrightarrow> object_ids s' = object_ids s"
  by (rule object_ids_cong) (simp add: same_log_def)

lemma upsert_object_inv:
  assumes "db_inv s"
  shows "db_inv (upsert_object now oid kind n s)" (is "db_inv ?t")
proof -
  from assms have k: "keys_inv s" and l: "log_inv s" and r: "refs_inv s" and o: "roots_inv s"
    and v: "vis_inv s" and h: "heads_inv s" and f: "floor_safe s"
    by (auto simp: db_inv_def server_inv_def)
  have tabs: "t_workspaces ?t = t_workspaces s" "t_roots ?t = t_roots s" "t_path_heads ?t = t_path_heads s"
    "t_events ?t = t_events s" "t_last_seq ?t = t_last_seq s" "t_event_refs ?t = t_event_refs s"
    "t_snapshots ?t = t_snapshots s" "t_snapshot_refs ?t = t_snapshot_refs s" "t_ws_objects ?t = t_ws_objects s"
    by (simp_all add: upsert_object_def)
  have "keys_inv ?t"
    using k by (auto simp: keys_inv_def tabs upsert_object_def object_row_new_def key_simps
        intro!: unique_key_upsert)
  moreover have "refs_inv ?t"
    unfolding refs_inv_def
  proof
    fix oid'
    have c: "count_ok (ref_count_of s oid') (refs_to s oid')" using r by (simp add: refs_inv_def)
    have to: "refs_to ?t oid' = refs_to s oid'" by (rule refs_to_cong) (simp_all add: tabs)
    have rc: "ref_count_of ?t oid' = (if oid' = oid \<and> ref_count_of s oid = None then Some 0 else ref_count_of s oid')"
    proof (cases "row_exists (is_obj oid) (t_objects s)")
      case True
      then have "ref_count_of s oid \<noteq> None" by (simp add: ref_count_of_exists del: not_None_eq)
      with True show ?thesis
        by (simp add: ref_count_of_def upsert_object_def upsert_def find_is_obj_update option.map_comp comp_def)
    next
      case False
      then have "ref_count_of s oid = None" by (simp add: ref_count_of_exists)
      moreover from this have "List.find (is_obj oid) (t_objects s) = None" by (simp add: ref_count_of_def)
      ultimately show ?thesis
        using False by (simp add: ref_count_of_def upsert_object_def upsert_def find_append object_row_new_def
            key_simps split: option.split)
    qed
    show "count_ok (ref_count_of ?t oid') (refs_to ?t oid')"
      using c unfolding to rc by auto
  qed
  moreover have "row_exists (is_obj oid') (t_objects ?t)" if "row_exists (is_obj oid') (t_objects s)" for oid'
    using that object_ids_upsert [of now oid kind n s] by (simp add: object_ids_iff [symmetric])
  then have "vis_inv ?t" using v by (auto simp: vis_inv_def tabs visible_cong [of ?t s])
  ultimately show ?thesis
    using l o h f by (simp add: db_inv_def server_inv_def log_inv_def roots_inv_def root_ok_def head_ok_def
        heads_inv_def head_covers_def cur_seq_def floor_seq_def tabs floor_safe_def)
qed

lemma update_where_none: "\<not> row_exists p t \<Longrightarrow> update_where p f t = t"
  by (induction t) (auto simp: update_where_def row_exists_def)

lemma Get_db_inv:
  assumes "db_inv s"
  shows "db_inv (snd (snd (Get now oid (f, s))))"
proof -
  let ?t = "s\<lparr>t_objects := update_where (is_obj oid) (\<lambda>r. r\<lparr>ob_accessed_at := now\<rparr>) (t_objects s)\<rparr>"
  have "db_inv ?t"
  proof (cases "row_exists (is_obj oid) (t_objects s)")
    case True
    then have "?t = upsert_object now oid [] 0 s" by (simp add: upsert_object_def upsert_def)
    with upsert_object_inv [OF assms] show ?thesis by simp
  next
    case False
    with assms show ?thesis by (simp add: update_where_none)
  qed
  with assms show ?thesis by (simp add: Get_def Let_def split: option.split)
qed

lemma Put_db_inv: "db_inv s \<Longrightarrow> db_inv (snd (snd (Put h now oid kind n m body (f, s))))"
  by (simp add: Put_def Let_def upsert_object_inv)

lemma associate_snd:
  "snd (associateObjectWithWorkspace now w oid s) = s \<or>
   (row_exists (is_ws w) (t_workspaces s) \<and> row_exists (is_obj oid) (t_objects s)
    \<and> \<not> row_exists (is_ws_obj w oid) (t_ws_objects s)
    \<and> snd (associateObjectWithWorkspace now w oid s)
        = s\<lparr>t_ws_objects := t_ws_objects s @ [\<lparr>wo_ws = w, wo_obj = oid, wo_created_at = now\<rparr>]\<rparr>)"
  by (auto simp: associateObjectWithWorkspace_def Let_def)

lemma associate_db_inv:
  assumes "db_inv s"
  shows "db_inv (snd (associateObjectWithWorkspace now w oid s))"
proof (rule disjE [OF associate_snd [of now w oid s]])
  assume "snd (associateObjectWithWorkspace now w oid s) = s"
  with assms show ?thesis by simp
next
  let ?t = "s\<lparr>t_ws_objects := t_ws_objects s @ [\<lparr>wo_ws = w, wo_obj = oid, wo_created_at = now\<rparr>]\<rparr>"
  assume a: "row_exists (is_ws w) (t_workspaces s) \<and> row_exists (is_obj oid) (t_objects s)
    \<and> \<not> row_exists (is_ws_obj w oid) (t_ws_objects s) \<and> snd (associateObjectWithWorkspace now w oid s) = ?t"
  have "unique_key (\<lambda>r. (wo_ws r, wo_obj r)) (t_ws_objects ?t)"
    using assms a by (simp, intro unique_key_snoc [where p = "is_ws_obj w oid"])
      (auto simp: db_inv_def server_inv_def keys_inv_def key_simps)
  moreover have "objectVisibleToWorkspace v o' ?t" if "objectVisibleToWorkspace v o' s" for v o'
    using that by (simp add: objectVisibleToWorkspace_def)
  then have "vis_inv ?t" using assms a by (auto simp: db_inv_def server_inv_def vis_inv_def)
  ultimately have "db_inv ?t"
    using assms by (simp add: db_inv_def server_inv_def keys_inv_def log_inv_def refs_inv_def roots_inv_def
        root_ok_def head_ok_def heads_inv_def head_covers_def cur_seq_def floor_seq_def floor_safe_def
        refs_to_def ref_count_of_def)
  with a show ?thesis by simp
qed

lemma associate_objects: "object_ids (snd (associateObjectWithWorkspace now w oid s)) = object_ids s"
  using associate_snd [of now w oid s] by (auto simp: object_ids_def)

lemma Ensure_db_inv: "db_inv s \<Longrightarrow> db_inv (snd (EnsureWorkspaceWithinLimit now w k m s))"
  by (simp add: db_inv_def EnsureWorkspace_inv EnsureWorkspace_floor_safe)

lemma Ensure_objects: "object_ids (snd (EnsureWorkspaceWithinLimit now w k m s)) = object_ids s"
  using EnsureWorkspace_tables [of now w k m s] by (auto simp: object_ids_def)

lemma SubmitEvent_db_inv: "db_inv s \<Longrightarrow> db_inv (snd (SubmitEvent now sess req s))"
  by (simp add: db_inv_def SubmitEvent_inv SubmitEvent_floor_safe)

lemma SaveSnapshot_db_inv: "db_inv s \<Longrightarrow> db_inv (snd (SaveSnapshot now sess req s))"
  by (simp add: db_inv_def SaveSnapshot_inv SaveSnapshot_floor_safe)

section \<open>Every step keeps the invariant\<close>

definition files_db_inv :: "primitives \<Rightarrow> files \<Rightarrow> server_db \<Rightarrow> bool" where
  "files_db_inv px f s \<longleftrightarrow> db_inv s \<and> store_inv (px_sha256 px) (f, s)"

lemma system_inv_eq: "system_inv px sv \<longleftrightarrow> files_db_inv px (sv_files sv) (sv_db sv) \<and> hub_inv (sv_hub sv)"
  by (auto simp: system_inv_def files_db_inv_def)

lemma files_db_same:
  "files_db_inv px f s \<Longrightarrow> db_inv s' \<Longrightarrow> object_ids s' = object_ids s \<Longrightarrow> files_db_inv px f s'"
  using store_inv_same_objects [of s' s] by (simp add: files_db_inv_def)

lemma files_db_same_log: "files_db_inv px f s \<Longrightarrow> same_log s s' \<Longrightarrow> files_db_inv px f s'"
  by (rule files_db_same [of px f s]) (auto simp: files_db_inv_def db_inv_same_log object_ids_same_log)

lemma sessionFromRequest_same_log: "same_log s (snd (sessionFromRequest px now r s))"
proof -
  have "same_log s (snd (Authenticate (px_sha256 px) now (drop 7 (hr_Authorization r)) s))"
    by (rule session_same_log)
  then show ?thesis
    by (auto simp: sessionFromRequest_def split: sum.splits prod.splits) (simp_all add: same_log_def)
qed

lemma withSession_inv:
  assumes "system_inv px sv" and "\<And>sess sv. system_inv px sv \<Longrightarrow> system_inv px (snd (handler sess sv))"
  shows "system_inv px (snd (withSession handler px now r sv))"
proof -
  have "system_inv px (sv\<lparr>sv_db := snd (sessionFromRequest px now r (sv_db sv))\<rparr>)"
    using assms(1) files_db_same_log [OF _ sessionFromRequest_same_log] by (simp add: system_inv_eq)
  with assms(2) show ?thesis
    by (simp add: withSession_def Let_def case_prod_unfold split: option.split)
qed

lemma handleSessionStart_inv:
  assumes "system_inv px sv"
  shows "system_inv px (snd (handleSessionStart cfg now nonce r d sv))"
proof -
  have inv: "files_db_inv px (sv_files sv) (sv_db sv)" "hub_inv (sv_hub sv)"
    using assms by (simp_all add: system_inv_eq)
  have "files_db_inv px (sv_files sv) (snd (EnsureWorkspaceWithinLimit now w k m (sv_db sv)))" for w k m
    using inv(1) by (intro files_db_same [OF inv(1)]) (auto simp: files_db_inv_def Ensure_db_inv Ensure_objects)
  then have start: "files_db_inv px (sv_files sv) (snd (start_workspace cfg now req k (sv_db sv)))" for req k
    using inv(1) by (auto simp: start_workspace_def EnsureWorkspace_def split: sum.split db_error.split prod.split)
      (metis snd_conv)+
  have chal: "files_db_inv px (sv_files sv) (SaveChallenge now w dv n cn sn (snd (start_workspace cfg now req k (sv_db sv))))"
    for w dv n cn sn req k
    by (rule files_db_same_log [OF start]) (rule session_same_log)
  show ?thesis
    using start chal assms inv(2)
    by (simp add: handleSessionStart_def case_prod_unfold system_inv_eq split: option.split sum.split)
qed

lemma handleSessionFinish_inv:
  assumes "system_inv px sv"
  shows "system_inv px (snd (handleSessionFinish cfg px now tok r d sv))"
proof -
  have inv: "files_db_inv px (sv_files sv) (sv_db sv)" "hub_inv (sv_hub sv)"
    using assms by (simp_all add: system_inv_eq)
  have del: "files_db_inv px (sv_files sv) (DeleteChallenge w dv cn (sv_db sv))" for w dv cn
    by (rule files_db_same_log [OF inv(1)]) (rule session_same_log)
  have "files_db_inv px (sv_files sv)
      (snd (CreateSession (px_sha256 px) now tok w dv n ttl (DeleteChallenge w dv cn (sv_db sv))))" for w dv n ttl cn
    by (rule files_db_same_log [OF del]) (rule session_same_log)
  then show ?thesis
    using assms inv(2)
    by (simp add: handleSessionFinish_def case_prod_unfold system_inv_eq split: option.split sum.split)
qed

lemma handleEvents_inv:
  assumes "system_inv px sv"
  shows "system_inv px (snd (handleEvents cfg now r d sess sv))"
proof -
  have inv: "files_db_inv px (sv_files sv) (sv_db sv)" "hub_inv (sv_hub sv)"
    using assms by (simp_all add: system_inv_eq)
  have sub: "files_db_inv px (sv_files sv) (snd (SubmitEvent now sess req (sv_db sv)))" for req
    using inv(1) by (intro files_db_same [OF inv(1)])
      (auto simp: files_db_inv_def SubmitEvent_db_inv SubmitEvent_objects)
  have "system_inv px (snd (handleEventSubmit now d sess sv))"
    using sub Publish_inv [OF inv(2)] inv
    by (auto simp: handleEventSubmit_def system_inv_eq split: option.split sum.split prod.split db_error.split)
      (metis snd_conv)+
  with assms show ?thesis by (simp add: handleEvents_def)
qed

lemma handleSnapshotSubmit_inv:
  assumes "system_inv px sv"
  shows "system_inv px (snd (handleSnapshotSubmit now r d sess sv))"
proof -
  have inv: "files_db_inv px (sv_files sv) (sv_db sv)" "hub_inv (sv_hub sv)"
    using assms by (simp_all add: system_inv_eq)
  have sub: "files_db_inv px (sv_files sv) (snd (SaveSnapshot now sess req (sv_db sv)))" for req
    using inv(1) by (intro files_db_same [OF inv(1)])
      (auto simp: files_db_inv_def SaveSnapshot_db_inv SaveSnapshot_objects)
  with assms inv(2) show ?thesis
    by (simp add: handleSnapshotSubmit_def case_prod_unfold system_inv_eq split: option.split sum.split)
qed

lemma object_put_inv:
  assumes "system_inv px sv"
  shows "system_inv px (snd (object_put cfg px now r sess sv))"
proof -
  have inv: "db_inv (sv_db sv)" "store_inv (px_sha256 px) (sv_files sv, sv_db sv)" "hub_inv (sv_hub sv)"
    using assms by (simp_all add: system_inv_def)
  define res where "res oid k n m = snd (Put (px_sha256 px) now oid k n m (hr_Body r) (sv_files sv, sv_db sv))"
    for oid k n m
  have put: "files_db_inv px (fst (res oid k n m)) (snd (res oid k n m))" for oid k n m
    using inv Put_store_inv [OF inv(2)] by (simp add: files_db_inv_def res_def Put_db_inv)
  have assoc: "files_db_inv px (fst (res oid k n m)) (snd (associateObjectWithWorkspace now w oid' (snd (res oid k n m))))"
    for oid k n m w oid'
    using put by (intro files_db_same [OF put]) (auto simp: files_db_inv_def associate_db_inv associate_objects)
  show ?thesis
    using put assoc assms inv(3)
    by (simp add: object_put_def Let_def case_prod_unfold system_inv_eq res_def split: option.split sum.split)
qed

lemma object_get_inv:
  assumes "system_inv px sv"
  shows "system_inv px (snd (object_get now r sess sv))"
proof -
  have inv: "db_inv (sv_db sv)" "store_inv (px_sha256 px) (sv_files sv, sv_db sv)" "hub_inv (sv_hub sv)"
    using assms by (simp_all add: system_inv_def)
  have same_f: "fst (snd (Get now oid (f, s))) = f" for oid f s
    by (simp add: Get_def Let_def split: option.split)
  have get: "files_db_inv px (sv_files sv) (snd (snd (Get now oid (sv_files sv, sv_db sv))))" for oid
    using inv Get_store_inv [OF inv(2), of now oid] same_f [of oid "sv_files sv" "sv_db sv"]
    by (simp add: files_db_inv_def Get_db_inv) (metis prod.collapse)
  have "files_db_inv px (sv_files sv) (AddTransferredBytes n (snd (snd (Get now oid (sv_files sv, sv_db sv)))))" for n oid
    by (rule files_db_same_log [OF get]) (rule session_same_log)
  with get assms inv(3) show ?thesis
    by (simp add: object_get_def Let_def case_prod_unfold system_inv_eq split: option.split sum.split)
qed

lemma restart_inv: "files_db_inv px f s \<Longrightarrow> system_inv px (restart cfg f s)"
  by (simp add: restart_def system_inv_eq new_hub_inv)

lemma purge_db_inv_db: "db_inv s \<Longrightarrow> db_inv (snd (PurgeWorkspace w cs now s))"
  by (simp add: db_inv_def PurgeWorkspace_inv Purge_floor_safe)

lemma GC_step_inv:
  assumes "system_inv px sv"
  shows "system_inv px (server_step cfg px (AdminGC now er zr) sv)"
proof -
  let ?g = "snd (GC now er zr (sv_files sv, sv_db sv))"
  have "store_inv (px_sha256 px) ?g"
    using assms by (intro GC_store_inv) (simp add: system_inv_def)
  moreover have "snd ?g = snd (Prune now er zr (sv_db sv))" by (simp add: GC_def Let_def case_prod_unfold)
  then have "db_inv (snd ?g)"
    using assms by (simp add: system_inv_def db_inv_def Prune_inv Prune_floor_safe)
  ultimately have "files_db_inv px (fst ?g) (snd ?g)" by (simp add: files_db_inv_def)
  then show ?thesis by (simp add: Let_def case_prod_unfold restart_inv)
qed

text \<open>An undisturbed purge does what its actions do, so both are covered by the
  actions.\<close>

lemma admin_purge_actions:
  assumes "store_inv (px_sha256 px) (ad_files a, ad_db a)" and "ad_stage a = []" and "validWorkspaceID w"
  shows "snd (admin_PurgeWorkspace now w a) = run_actions (purge_actions now w a) a"
proof -
  let ?cs = "WorkspacePurgeObjects w (ad_db a)"
  define a2 where "a2 = fold (\<lambda>ob. stage_object (po_ObjectID ob)) ?cs a"
  define a3 where "a3 = snd (purge_db now w ?cs a2)"
  have v: "\<forall>ob \<in> set ?cs. ValidObjectID (po_ObjectID ob)"
    using purge_candidates_valid [OF assms(1)] by blast
  have rec: "RecoverPurgeStaging a = (Inr (), a)" by (simp add: RecoverPurgeStaging_def assms(2))
  have st: "stage_all ?cs a = (Inr (), a2)" by (simp add: stage_all_valid [OF v] a2_def)
  have a3: "purge_db now w ?cs a2 = (fst (purge_db now w ?cs a2), a3)" by (simp add: a3_def)
  have stage3: "ad_stage a3 = ad_stage a2" by (simp add: a3_def frame_simps)
  have empty: "ad_stage (restoreStagedObjects a3) = []"
    by (simp add: restoreStagedObjects_def fold_restore_stage)
  show ?thesis
  proof (cases "fst (purge_db now w ?cs a2)")
    case (Inl e)
    with a3 have p: "purge_db now w ?cs a2 = (Inl e, a3)" by simp
    have "snd (admin_PurgeWorkspace now w a) = restoreStagedObjects a3"
      using assms(3) by (simp add: admin_PurgeWorkspace_def rec st p)
    moreover have "run_actions (purge_actions now w a) a = (restoreStagedObjects a3)\<lparr>ad_stage := []\<rparr>"
      using Inl by (simp add: purge_actions_def Let_def st a2_def [symmetric] a3_def [symmetric]
          restoreStagedObjects_def stage3)
    ultimately show ?thesis using empty by simp
  next
    case (Inr result)
    with a3 have p: "purge_db now w ?cs a2 = (Inr result, a3)" by simp
    have "snd (admin_PurgeWorkspace now w a) = (restore_kept result a3)\<lparr>ad_stage := []\<rparr>"
      using assms(3) by (simp add: admin_PurgeWorkspace_def rec st p)
    with Inr show ?thesis
      by (simp add: purge_actions_def Let_def st a2_def [symmetric] a3_def [symmetric] restore_kept_def stage3)
  qed
qed

lemma purge_step_inv:
  assumes "system_inv px sv"
  shows "system_inv px (server_step cfg px (AdminPurge now w) sv)"
proof -
  let ?a = "admin_of sv"
  have s: "store_inv (px_sha256 px) (ad_files ?a, ad_db ?a)" "ad_stage ?a = []" "db_inv (ad_db ?a)"
    using assms by (simp_all add: system_inv_def admin_of_def)
  let ?b = "snd (admin_PurgeWorkspace now w ?a)"
  have "files_db_inv px (ad_files ?b) (ad_db ?b)"
  proof (cases "validWorkspaceID w")
    case True
    note d = purge_actions_done [OF s(1,2), of now w]
    have "?b = run_actions (purge_actions now w ?a) ?a" by (rule admin_purge_actions [OF s(1,2) True])
    with d stage_inv_store purge_db_inv_db [OF s(3)] show ?thesis
      by (metis files_db_inv_def)
  next
    case False
    with s show ?thesis by (simp add: admin_PurgeWorkspace_def files_db_inv_def)
  qed
  then show ?thesis by (simp add: Let_def restart_inv)
qed

lemma purge_crash_step_inv:
  assumes "system_inv px sv"
  shows "system_inv px (server_step cfg px (AdminPurgeCrash now w n) sv)"
proof -
  let ?a = "admin_of sv"
  let ?b = "run_actions (take n (purge_actions now w ?a)) ?a"
  have s: "store_inv (px_sha256 px) (ad_files ?a, ad_db ?a)" "ad_stage ?a = []" "db_inv (ad_db ?a)"
    using assms by (simp_all add: system_inv_def admin_of_def)
  note r = Recover_spec [OF purge_crash_stage [OF s(1,2), of n now w]]
  have "db_inv (ad_db ?b)"
    using run_actions_db [OF s(1), of n now w] s(3) purge_db_inv_db [OF s(3)] by fastforce
  with r have "files_db_inv px (ad_files (snd (RecoverPurgeStaging ?b))) (ad_db (snd (RecoverPurgeStaging ?b)))"
    unfolding files_db_inv_def by metis
  then show ?thesis by (simp add: Let_def restart_inv)
qed

lemma server_step_inv:
  assumes "system_inv px sv"
  shows "system_inv px (server_step cfg px op sv)"
proof (cases op)
  case (ReqStart now nonce r d)
  with assms show ?thesis by (simp add: handleSessionStart_inv)
next
  case (ReqFinish now tok r d)
  with assms show ?thesis by (simp add: handleSessionFinish_inv)
next
  case (ReqBootstrap now r)
  with assms show ?thesis by (simp add: withSession_inv)
next
  case (ReqEvents now r d)
  with assms show ?thesis by (simp add: withSession_inv handleEvents_inv)
next
  case (ReqSnapshot now r d)
  with assms show ?thesis by (simp add: withSession_inv handleSnapshotSubmit_inv)
next
  case (ReqObjects now r)
  with assms show ?thesis by (simp add: handleObjects_def withSession_inv object_put_inv object_get_inv)
next
  case (ReqWS now r)
  have "system_inv px (snd (case Subscribe w (sv_hub sv) of
         (None, h) \<Rightarrow> (resp, sv) | (Some sub, h) \<Rightarrow> ((101, BodyStream sub), sv\<lparr>sv_hub := h\<rparr>)))"
    if "system_inv px sv" for w sv and resp :: response
    using that Subscribe_inv [of "sv_hub sv" w]
    by (simp add: system_inv_eq case_prod_unfold split: option.split)
  with assms ReqWS show ?thesis by (simp add: handleWS_def withSession_inv)
next
  case (StreamDeliver x)
  with assms show ?thesis by (simp add: system_inv_eq Receive_inv)
next
  case (StreamClose w x)
  with assms show ?thesis by (simp add: system_inv_eq Unsubscribe_inv)
next
  case (AdminGC now er zr)
  with GC_step_inv [OF assms] show ?thesis by simp
next
  case (AdminPurge now w)
  with purge_step_inv [OF assms] show ?thesis by simp
next
  case (AdminPurgeCrash now w n)
  with purge_crash_step_inv [OF assms] show ?thesis by simp
qed

lemma server_init_inv: "system_inv px (server_init cfg)"
  unfolding server_init_def
  by (rule restart_inv) (simp add: files_db_inv_def db_inv_empty store_inv_def content_ok_def
      rows_have_files_def, simp add: empty_db_def)

lemma server_run_inv: "system_inv px (server_run cfg px ops)"
  unfolding server_run_def
  by (rule fold_invariant [of "system_inv px"]) (simp_all add: server_init_inv server_step_inv)

end
