(* ===== verification/EventProperties.thy ===== *)
theory EventProperties
  imports ServerSystem
begin

text \<open>
  What event submission, fetching and retention promise to clients: optimistic
  concurrency per path, a log whose sequence numbers are never reused, reading
  back what was submitted, and retention that a served client cannot observe.
\<close>

section \<open>Accepted events\<close>

lemma SubmitEvent_accepted_all:
  assumes "fst (SubmitEvent now sess req s) = Inr res"
  shows "validateEventRequest req = None \<and> check_event (se_WorkspaceID sess) req s = None
    \<and> su_AcceptedSeq res = t_last_seq s + 1
    \<and> snd (SubmitEvent now sess req s) =
      (if lifecycle_event (rq_EventType req)
       then snd (RecomputeRetainedFloor now (se_WorkspaceID sess) (commit_event now sess req (t_last_seq s + 1) s))
       else commit_event now sess req (t_last_seq s + 1) s)
    \<and> t_last_seq s < max_int64 \<and> su_Event res = event_record_of now sess req (t_last_seq s + 1)"
proof (cases rule: SubmitEvent_cases [of now sess req s])
  case (rejected e)
  with assms show ?thesis by simp
next
  case accepted
  have "fst (SubmitEvent now sess req s) = Inr \<lparr>su_AcceptedSeq = t_last_seq s + 1,
      su_WorkspaceSeq = t_last_seq s + 1, su_Event = event_record_of now sess req (t_last_seq s + 1)\<rparr>"
    unfolding accepted(4) by simp
  with assms have r: "res = \<lparr>su_AcceptedSeq = t_last_seq s + 1,
      su_WorkspaceSeq = t_last_seq s + 1, su_Event = event_record_of now sess req (t_last_seq s + 1)\<rparr>"
    by simp
  show ?thesis
    using accepted(1-3) unfolding accepted(4) snd_conv r by simp
qed

lemmas SubmitEvent_accepted =
  SubmitEvent_accepted_all [THEN conjunct1]
  SubmitEvent_accepted_all [THEN conjunct2, THEN conjunct1]
  SubmitEvent_accepted_all [THEN conjunct2, THEN conjunct2, THEN conjunct1]
  SubmitEvent_accepted_all [THEN conjunct2, THEN conjunct2, THEN conjunct2, THEN conjunct1]
  SubmitEvent_accepted_all [THEN conjunct2, THEN conjunct2, THEN conjunct2, THEN conjunct2, THEN conjunct2]

lemma content_not_lifecycle: "content_event t \<longleftrightarrow> \<not> lifecycle_event t"
  by (auto simp: content_event_def lifecycle_event_def)

lemma ev_seq_unique:
  assumes "server_inv s"
  shows "unique_key ev_seq (t_events s)"
  using assms by (simp add: unique_key_def server_inv_def log_inv_def strict_sorted_iff)

section \<open>No lost update\<close>

text \<open>An accepted change to a path was made by a client that had seen every earlier
  change to it in the current incarnation of the root.\<close>

lemma accepted_base:
  assumes inv: "server_inv s"
    and acc: "fst (SubmitEvent now sess req s) = Inr res"
    and ct: "content_event (rq_EventType req)"
    and b: "rq_BaseSeq req = Some b"
    and r: "List.find (is_root (se_WorkspaceID sess) (rq_RootID req)) (t_roots s) = Some r"
    and e: "e \<in> set (t_events s)" "ev_ws e = se_WorkspaceID sess" "ev_root e = rq_RootID req"
      "ev_path e = Some (rq_PathID req)" "content_event (ev_type e)" "rt_created_seq r < ev_seq e"
  shows "ev_seq e \<le> b"
proof -
  note chk = check_event_kind(1) [OF SubmitEvent_accepted(2) [OF acc] ct]
  obtain r' b' where r': "List.find (is_root (se_WorkspaceID sess) (rq_RootID req)) (t_roots s) = Some r'"
    "rt_removed_seq r' = None" and b': "rq_BaseSeq req = Some b'"
    and h: "check_head (se_WorkspaceID sess) req b' s = None"
    by (rule check_content_ok [OF chk]) blast
  from r r' b b' have eq: "r' = r" "b' = b" by simp_all
  have "head_covers s e"
    using inv e r r'(2) eq by (simp add: server_inv_def heads_inv_def)
  with e(2-4) obtain h' where "List.find (is_head (se_WorkspaceID sess) (rq_RootID req) (rq_PathID req))
      (t_path_heads s) = Some h'" "ev_seq e \<le> ph_seq h'"
    by (auto simp: head_covers_def)
  with h eq show ?thesis by (auto simp: check_head_def split: if_splits)
qed

section \<open>The answer to a content event\<close>

lemma content_outcome:
  assumes "validateEventRequest req = None" and "content_event (rq_EventType req)"
    and "row_exists (is_ws (se_WorkspaceID sess)) (t_workspaces s)"
    and "\<forall>oid \<in> set (rq_ObjectRefs req). objectVisibleToWorkspace (se_WorkspaceID sess) oid s"
    and "List.find (is_root (se_WorkspaceID sess) (rq_RootID req)) (t_roots s) = Some r"
    and "rt_removed_seq r = None" and "rq_RootCreatedSeq req \<in> {None, Some (rt_created_seq r)}"
    and "rq_BaseSeq req = Some b" and "rq_PathID req \<noteq> []" and "t_last_seq s < max_int64"
  shows "fst (SubmitEvent now sess req s) =
    (let cur = (case List.find (is_head (se_WorkspaceID sess) (rq_RootID req) (rq_PathID req)) (t_path_heads s) of
                  None \<Rightarrow> 0 | Some h \<Rightarrow> ph_seq h);
         known = (List.find (is_head (se_WorkspaceID sess) (rq_RootID req) (rq_PathID req)) (t_path_heads s) \<noteq> None)
     in if cur > b \<or> (\<not> known \<and> b \<noteq> 0) then Inl (PathHeadMismatch cur)
        else Inr \<lparr>su_AcceptedSeq = t_last_seq s + 1, su_WorkspaceSeq = t_last_seq s + 1,
                  su_Event = event_record_of now sess req (t_last_seq s + 1)\<rparr>)"
proof -
  let ?w = "se_WorkspaceID sess"
  have "List.find (is_ws ?w) (t_workspaces s) \<noteq> None" using assms(3) by (simp add: find_none_iff)
  moreover have "missing_ref ?w (rq_ObjectRefs req) s = None"
    using assms(4) by (simp add: missing_ref_def find_None_iff)
  ultimately have ev: "check_event ?w req s = check_content ?w req s"
    using assms(2) by (auto simp: check_event_def content_event_def split: EventType.split)
  have ct: "check_content ?w req s = check_head ?w req b s"
    using assms(5-9) by (auto simp: check_content_def split: option.split)
  have nl: "\<not> lifecycle_event (rq_EventType req)" using assms(2) by (simp add: content_not_lifecycle)
  have "fst (SubmitEvent now sess req s) = (case check_head ?w req b s of Some e \<Rightarrow> Inl e
     | None \<Rightarrow> Inr \<lparr>su_AcceptedSeq = t_last_seq s + 1, su_WorkspaceSeq = t_last_seq s + 1,
                    su_Event = event_record_of now sess req (t_last_seq s + 1)\<rparr>)"
    using assms(1,10) nl by (simp add: SubmitEvent_def ev ct Let_def split: option.split)
  then show ?thesis by (auto simp: check_head_def Let_def split: option.split)
qed

section \<open>Reading back\<close>

lemma eventRefs_fresh:
  assumes "log_inv s" and "t_last_seq s < q"
  shows "eventRefs q (commit_event now sess req q s) = sort (remdups (rq_ObjectRefs req))"
proof -
  let ?new = "map xr_obj (filter (\<lambda>x. xr_seq x = q) (ref_rows q (rq_ObjectRefs req) (t_event_refs s)))"
  have none: "filter (\<lambda>x. xr_seq x = q) (t_event_refs s) = []"
  proof -
    have "xr_seq x \<noteq> q" if "x \<in> set (t_event_refs s)" for x
      using log_inv_ref_fresh [OF assms(1) that] assms(2) by simp
    then show ?thesis by (simp add: filter_empty_conv)
  qed
  have "set (filter (\<lambda>x. xr_seq x = q) (ref_rows q oids t))
      = set (filter (\<lambda>x. xr_seq x = q) t) \<union> (\<lambda>oid. \<lparr>xr_seq = q, xr_obj = oid\<rparr>) ` set oids" for oids t
    by (auto simp: set_ref_rows)
  then have img: "set (map xr_obj (filter (\<lambda>x. xr_seq x = q) (ref_rows q oids t)))
      = set (map xr_obj (filter (\<lambda>x. xr_seq x = q) t)) \<union> set oids" for oids t
    by (simp only: set_map image_Un image_image) simp
  have dis: "distinct (map xr_obj (filter (\<lambda>x. xr_seq x = q) (ref_rows q oids t)))"
    if "distinct (map xr_obj (filter (\<lambda>x. xr_seq x = q) t))" for oids t
    using that
  proof (induction oids arbitrary: t)
    case (Cons a oids)
    have "distinct (map xr_obj (filter (\<lambda>x. xr_seq x = q)
        (insert_or_ignore (is_event_ref q a) \<lparr>xr_seq = q, xr_obj = a\<rparr> t)))"
      using Cons.prems by (auto simp: insert_or_ignore_def row_exists_iff key_simps)
    from Cons.IH [OF this] show ?case by simp
  qed simp
  have "set ?new = set (rq_ObjectRefs req)"
    unfolding img none by simp
  moreover have "distinct ?new" by (rule dis) (simp add: none)
  ultimately have "sort ?new = sort (remdups (rq_ObjectRefs req))"
    by (intro sorted_distinct_set_unique) simp_all
  then show ?thesis by (simp add: eventRefs_def commit_event_tables)
qed

lemma FetchEvents_after_submit:
  assumes inv: "server_inv s" and chk: "check_event (se_WorkspaceID sess) req s = None"
    and lim: "0 < limit"
  defines "q \<equiv> t_last_seq s + 1"
  shows "FetchEvents (se_WorkspaceID sess) (q - 1) limit (commit_event now sess req q s)
    = Inr ([(event_record_of now sess req q)\<lparr>er_ObjectRefs := sort (remdups (rq_ObjectRefs req))\<rparr>], q)"
proof -
  let ?w = "se_WorkspaceID sess" and ?c = "commit_event now sess req q s"
  from inv have l: "log_inv s" by (simp add: server_inv_def)
  obtain x where x: "List.find (is_ws ?w) (t_workspaces s) = Some x"
    using check_event_ws [OF chk] by blast
  have fx: "List.find (is_ws ?w) (t_workspaces ?c) = Some (x\<lparr>ws_current_seq := q, ws_updated_at := now\<rparr>)"
    by (simp add: find_ws_commit x)
  have "floor_seq s ?w \<le> t_last_seq s"
    using inv by (auto simp: server_inv_def roots_inv_def log_inv_def intro: order_trans)
  then have fl: "ws_floor x \<le> q - 1" by (simp add: floor_seq_def x q_def)
  have "filter (\<lambda>e. ev_ws e = ?w \<and> ev_seq e > q - 1 \<and> ev_seq e \<le> q) (t_events s) = []"
    using log_inv_fresh [OF l] by (force simp: filter_empty_conv q_def)
  then have "select_events ?w (q - 1) q limit ?c = [event_row_of now sess req q]"
    using lim by (simp add: select_events_def commit_event_tables q_def event_row_of_def)
  moreover have "record_of_row ?c (event_row_of now sess req q)
      = (event_record_of now sess req q)\<lparr>er_ObjectRefs := sort (remdups (rq_ObjectRefs req))\<rparr>"
    using eventRefs_fresh [OF l, of q now sess req]
    by (simp add: record_of_row_def event_row_of_def event_record_of_def q_def)
  ultimately show ?thesis
    using fl by (simp add: FetchEvents_def fx)
qed

section \<open>Retention is invisible above the floor\<close>

lemma FetchEvents_cong:
  assumes "\<And>r. List.find (is_ws w) (t_workspaces s') = Some r \<longleftrightarrow> List.find (is_ws w) (t_workspaces s) = Some r"
    and "\<And>r. List.find (is_ws w) (t_workspaces s) = Some r \<Longrightarrow> ws_floor r \<le> afterSeq \<Longrightarrow>
      filter (\<lambda>e. ev_ws e = w \<and> ev_seq e > afterSeq \<and> ev_seq e \<le> ws_current_seq r) (t_events s')
      = filter (\<lambda>e. ev_ws e = w \<and> ev_seq e > afterSeq \<and> ev_seq e \<le> ws_current_seq r) (t_events s)"
    and "\<And>e. e \<in> set (t_events s) \<Longrightarrow> ev_ws e = w \<Longrightarrow> afterSeq < ev_seq e \<Longrightarrow> floor_seq s w \<le> afterSeq
      \<Longrightarrow> eventRefs (ev_seq e) s' = eventRefs (ev_seq e) s"
  shows "FetchEvents w afterSeq limit s' = FetchEvents w afterSeq limit s"
proof (cases "List.find (is_ws w) (t_workspaces s)")
  case None
  then have "List.find (is_ws w) (t_workspaces s') = None" using assms(1) by (metis option.exhaust option.distinct(1))
  with None show ?thesis by (simp add: FetchEvents_def)
next
  case (Some r)
  with assms(1) have s': "List.find (is_ws w) (t_workspaces s') = Some r" by blast
  show ?thesis
  proof (cases "afterSeq < ws_floor r")
    case True
    with Some s' show ?thesis by (simp add: FetchEvents_def)
  next
    case False
    then have sel: "select_events w afterSeq (ws_current_seq r) limit s'
        = select_events w afterSeq (ws_current_seq r) limit s"
      using assms(2) [OF Some] by (simp add: select_events_def)
    have fl: "floor_seq s w \<le> afterSeq" using False Some by (simp add: floor_seq_def)
    have "record_of_row s' e = record_of_row s e"
      if "e \<in> set (select_events w afterSeq (ws_current_seq r) limit s)" for e
    proof -
      from that have "e \<in> set (t_events s) \<and> ev_ws e = w \<and> afterSeq < ev_seq e"
        by (auto simp: select_events_def dest!: in_set_takeD)
      with assms(3) fl show ?thesis by (simp add: record_of_row_def)
    qed
    with Some s' False sel show ?thesis by (simp add: FetchEvents_def)
  qed
qed

lemma eventRefs_prune_event:
  "q' \<noteq> q \<Longrightarrow> eventRefs q' (prune_event now q s) = eventRefs q' s"
  by (simp add: eventRefs_def frame_simps delete_where_def) (metis (mono_tags, lifting))

lemma FetchEvents_prune_event:
  assumes "server_inv s" and "event_prunable cutoff s q"
  shows "FetchEvents w afterSeq limit (prune_event now q s) = FetchEvents w afterSeq limit s"
proof (rule FetchEvents_cong)
  have gone: "ev_seq e \<noteq> q" if "e \<in> set (t_events s)" "ev_ws e = w" "afterSeq < ev_seq e" "floor_seq s w \<le> afterSeq" for e
    using assms(2) that by (auto simp: event_prunable_def)
  fix r assume r: "List.find (is_ws w) (t_workspaces s) = Some r" "ws_floor r \<le> afterSeq"
  have "floor_seq s w = ws_floor r" by (simp add: floor_seq_def r)
  with gone r(2) show "filter (\<lambda>e. ev_ws e = w \<and> ev_seq e > afterSeq \<and> ev_seq e \<le> ws_current_seq r)
        (t_events (prune_event now q s))
      = filter (\<lambda>e. ev_ws e = w \<and> ev_seq e > afterSeq \<and> ev_seq e \<le> ws_current_seq r) (t_events s)"
    by (auto simp: frame_simps delete_where_def intro!: filter_cong)
next
  fix e assume "e \<in> set (t_events s)" "ev_ws e = w" "afterSeq < ev_seq e" "floor_seq s w \<le> afterSeq"
  then have "ev_seq e \<noteq> q" using assms(2) by (auto simp: event_prunable_def)
  then show "eventRefs (ev_seq e) (prune_event now q s) = eventRefs (ev_seq e) s"
    by (rule eventRefs_prune_event)
qed (simp add: frame_simps)

lemma FetchEvents_same_tables:
  "t_workspaces s' = t_workspaces s \<Longrightarrow> t_events s' = t_events s \<Longrightarrow> t_event_refs s' = t_event_refs s
    \<Longrightarrow> FetchEvents w a limit s' = FetchEvents w a limit s"
proof -
  assume t: "t_workspaces s' = t_workspaces s" "t_events s' = t_events s" "t_event_refs s' = t_event_refs s"
  have "record_of_row s' = record_of_row s"
    by (rule ext) (simp add: record_of_row_def eventRefs_def t)
  then show ?thesis by (simp add: FetchEvents_def select_events_def t split: option.split)
qed

lemma FetchEvents_Prune:
  assumes "server_inv s"
  shows "FetchEvents w afterSeq limit (snd (Prune now er zr s)) = FetchEvents w afterSeq limit s"
proof -
  let ?P = "\<lambda>t. FetchEvents w afterSeq limit t = FetchEvents w afterSeq limit s"
  have snap: "FetchEvents w afterSeq limit (prune_snapshot now p t) = FetchEvents w afterSeq limit t" for p t
    by (rule FetchEvents_same_tables) (simp_all add: frame_simps)
  have obj: "FetchEvents w afterSeq limit (delete_object oid t) = FetchEvents w afterSeq limit t" for oid t
    by (rule FetchEvents_same_tables) (simp_all add: frame_simps)
  show ?thesis
    by (rule conjunct2 [OF Prune_rule [where P = ?P, OF assms refl]])
      (simp_all add: FetchEvents_prune_event snap obj)
qed

end
