(* ===== verification/ServerGuarantees.thy ===== *)
theory ServerGuarantees
  imports EventProperties
begin

text \<open>
  Guarantees that span the server's components: sequence numbers over whole runs,
  what a purge touches, exact reference counts, the bootstrap cursor, the
  workspace limit and the size of stored files, and logging in.
\<close>

section \<open>Sequence numbers only grow\<close>

lemma SubmitEvent_last_seq: "t_last_seq s \<le> t_last_seq (snd (SubmitEvent now sess req s))"
  by (cases rule: SubmitEvent_cases [of now sess req s]) (simp_all add: frame_simps commit_event_tables)

lemma SaveSnapshot_last_seq: "t_last_seq (snd (SaveSnapshot now sess req s)) = t_last_seq s"
  by (simp add: SaveSnapshot_def frame_simps commit_snapshot_tables split: option.split)

lemma Prune_last_seq: "server_inv s \<Longrightarrow> t_last_seq (snd (Prune now er zr s)) = t_last_seq s"
  by (rule conjunct2 [OF Prune_rule [where P = "\<lambda>t. t_last_seq t = t_last_seq s", OF _ refl]])
    (simp_all add: frame_simps)

lemma Purge_last_seq: "t_last_seq (snd (PurgeWorkspace w cs now s)) = t_last_seq s"
proof -
  have "t_last_seq (snd (fold purge_candidate cs ([], recount_refs now (purge_rows w s)))) = t_last_seq s"
    by (rule purge_candidates_rule [where P = "\<lambda>t. t_last_seq t = t_last_seq s"]) (simp_all add: frame_simps)
  then show ?thesis by (simp add: PurgeWorkspace_snd)
qed

lemma same_log_last_seq: "same_log s s' \<Longrightarrow> t_last_seq s' = t_last_seq s"
  by (simp add: same_log_def)

text \<open>A property of the database that every database operation keeps holds after
  every step: the rule the run-level guarantees share.\<close>

locale db_preserved =
  fixes px :: primitives and cfg :: config and P :: "server_db \<Rightarrow> bool"
  assumes P_ensure: "\<And>now w k s. db_inv s \<Longrightarrow> P s \<Longrightarrow>
      P (snd (EnsureWorkspaceWithinLimit now w k (cf_MaxWorkspaces cfg) s))"
    and P_same_log: "\<And>s s'. same_log s s' \<Longrightarrow> P s \<Longrightarrow> P s'"
    and P_submit: "\<And>now sess req s. db_inv s \<Longrightarrow> P s \<Longrightarrow> P (snd (SubmitEvent now sess req s))"
    and P_snapshot: "\<And>now sess req s. db_inv s \<Longrightarrow> P s \<Longrightarrow> P (snd (SaveSnapshot now sess req s))"
    and P_put: "\<And>now oid kind n s. db_inv s \<Longrightarrow> P s \<Longrightarrow> P (upsert_object now oid kind n s)"
    and P_assoc: "\<And>now w oid s. db_inv s \<Longrightarrow> P s \<Longrightarrow> P (snd (associateObjectWithWorkspace now w oid s))"
    and P_prune: "\<And>now er zr s. db_inv s \<Longrightarrow> P s \<Longrightarrow> P (snd (Prune now er zr s))"
    and P_purge: "\<And>w cs now s. db_inv s \<Longrightarrow> P s \<Longrightarrow> P (snd (PurgeWorkspace w cs now s))"
begin

definition ok :: "server \<Rightarrow> bool" where
  "ok sv \<longleftrightarrow> system_inv px sv \<and> P (sv_db sv)"

lemma ensure_existing:
  assumes "List.find (is_ws w) (t_workspaces s) \<noteq> None"
  shows "snd (EnsureWorkspace now w k s) = s"
  using assms by (auto simp: EnsureWorkspace_def EnsureWorkspaceWithinLimit_def split: option.split)

lemma start_workspace_ok:
  assumes "db_inv s" and "P s"
  shows "P (snd (start_workspace cfg now req k s))"
proof (cases "List.find (is_ws (ss_WorkspaceID req)) (t_workspaces s)")
  case None
  then have "WorkspacePubKey (ss_WorkspaceID req) s = Inl ErrNoRows" by (simp add: WorkspacePubKey_def)
  moreover have "P (snd (EnsureWorkspaceWithinLimit now (ss_WorkspaceID req) k (cf_MaxWorkspaces cfg) s))"
    using assms by (rule P_ensure)
  ultimately show ?thesis
    using assms(2) by (auto simp: start_workspace_def split: sum.split prod.split db_error.split)
next
  case (Some r)
  then have "WorkspacePubKey (ss_WorkspaceID req) s = Inr (ws_pubkey r)" by (simp add: WorkspacePubKey_def)
  with ensure_existing [of "ss_WorkspaceID req" s now k] Some assms(2) show ?thesis
    by (auto simp: start_workspace_def split: sum.split prod.split)
qed

lemma session_ok:
  assumes "ok sv" and "\<And>sess sv. ok sv \<Longrightarrow> P (sv_db (snd (handler sess sv)))"
  shows "P (sv_db (snd (withSession handler px now r sv)))"
proof -
  have sl: "same_log (sv_db sv) (snd (sessionFromRequest px now r (sv_db sv)))"
    by (rule sessionFromRequest_same_log)
  then have "ok (sv\<lparr>sv_db := snd (sessionFromRequest px now r (sv_db sv))\<rparr>)"
    using assms(1) files_db_same_log [OF _ sl] P_same_log [OF sl] by (simp add: ok_def system_inv_eq)
  moreover from this have "P (snd (sessionFromRequest px now r (sv_db sv)))" by (simp add: ok_def)
  ultimately show ?thesis
    using assms(2) by (simp add: withSession_def Let_def case_prod_unfold split: option.split)
qed

lemma session_tables_ok:
  "P s \<Longrightarrow> P (SaveChallenge now w d n cn sn s)" "P s \<Longrightarrow> P (DeleteChallenge w d cn s)"
  "P s \<Longrightarrow> P (snd (CreateSession h now tok w d n ttl s))" "P s \<Longrightarrow> P (AddTransferredBytes m s)"
  by (rule P_same_log [OF session_same_log(1)] P_same_log [OF session_same_log(3)]
      P_same_log [OF session_same_log(4)] P_same_log [OF session_same_log(6)], assumption)+

lemma start_ok: "ok sv \<Longrightarrow> P (sv_db (snd (handleSessionStart cfg now nonce r d sv)))"
  using start_workspace_ok [of "sv_db sv"]
  by (auto simp: ok_def system_inv_def handleSessionStart_def case_prod_unfold session_tables_ok
      split: option.split sum.split)

lemma finish_ok: "ok sv \<Longrightarrow> P (sv_db (snd (handleSessionFinish cfg px now tok r d sv)))"
  by (auto simp: ok_def handleSessionFinish_def case_prod_unfold session_tables_ok
      split: option.split sum.split)

lemma events_ok: "ok sv \<Longrightarrow> P (sv_db (snd (handleEvents cfg now r d sess sv)))"
proof -
  assume o: "ok sv"
  have "P (snd (SubmitEvent now sess req (sv_db sv)))" for req
    using o P_submit by (simp add: ok_def system_inv_def)
  then have "P (sv_db (snd (handleEventSubmit now d sess sv)))"
    using o by (auto simp: ok_def handleEventSubmit_def split: option.split sum.split prod.split db_error.split)
      (metis snd_conv)+
  with o show ?thesis by (simp add: handleEvents_def ok_def)
qed

lemma snapshot_ok: "ok sv \<Longrightarrow> P (sv_db (snd (handleSnapshotSubmit now r d sess sv)))"
  by (auto simp: ok_def system_inv_def handleSnapshotSubmit_def case_prod_unfold P_snapshot
      split: option.split sum.split)

lemma put_ok: "ok sv \<Longrightarrow> P (sv_db (snd (object_put cfg px now r sess sv)))"
proof -
  assume o: "ok sv"
  have put: "db_inv (snd (snd (Put (px_sha256 px) now oid k n m (hr_Body r) (sv_files sv, sv_db sv))))
      \<and> P (snd (snd (Put (px_sha256 px) now oid k n m (hr_Body r) (sv_files sv, sv_db sv))))" for oid k n m
    using o by (auto simp: ok_def system_inv_def Put_db_inv) (simp add: Put_def Let_def P_put)
  then show ?thesis
    using o by (simp add: object_put_def Let_def case_prod_unfold ok_def P_assoc split: option.split sum.split)
qed

lemma get_ok: "ok sv \<Longrightarrow> P (sv_db (snd (object_get now r sess sv)))"
proof -
  assume o: "ok sv"
  have "P (snd (snd (Get now oid (sv_files sv, sv_db sv))))" for oid
  proof -
    let ?t = "(sv_db sv)\<lparr>t_objects := update_where (is_obj oid) (\<lambda>r. r\<lparr>ob_accessed_at := now\<rparr>) (t_objects (sv_db sv))\<rparr>"
    have "P ?t"
    proof (cases "row_exists (is_obj oid) (t_objects (sv_db sv))")
      case True
      then have "?t = upsert_object now oid [] 0 (sv_db sv)" by (simp add: upsert_object_def upsert_def)
      moreover have "P (upsert_object now oid [] 0 (sv_db sv))"
        using o by (simp add: ok_def system_inv_def P_put)
      ultimately show ?thesis by simp
    qed (use o in \<open>simp add: update_where_none ok_def\<close>)
    with o show ?thesis by (simp add: Get_def Let_def ok_def split: option.split)
  qed
  with o show ?thesis
    by (simp add: object_get_def Let_def case_prod_unfold ok_def session_tables_ok split: option.split sum.split)
qed

lemma purge_ok: "ok sv \<Longrightarrow> P (snd (PurgeWorkspace w cs now (sv_db sv)))"
  by (simp add: ok_def system_inv_def P_purge)

lemma step_ok:
  assumes o: "ok sv"
  shows "ok (server_step cfg px op sv)"
proof -
  have "P (sv_db (server_step cfg px op sv))"
  proof (cases op)
    case (ReqStart now nonce r d)
    with o show ?thesis by (simp add: start_ok)
  next
    case (ReqFinish now tok r d)
    with o show ?thesis by (simp add: finish_ok)
  next
    case (ReqBootstrap now r)
    then show ?thesis using session_ok [OF o] by (simp add: ok_def)
  next
    case (ReqEvents now r d)
    then show ?thesis using session_ok [OF o] events_ok by simp
  next
    case (ReqSnapshot now r d)
    then show ?thesis using session_ok [OF o] snapshot_ok by simp
  next
    case (ReqObjects now r)
    then show ?thesis
      using session_ok [OF o, where handler = "object_put cfg px now r"]
        session_ok [OF o, where handler = "object_get now r"] put_ok get_ok o
      by (simp add: handleObjects_def ok_def)
  next
    case (ReqWS now r)
    have "P (sv_db (snd (case Subscribe w (sv_hub sv) of (None, h) \<Rightarrow> (resp, sv)
        | (Some sub, h) \<Rightarrow> ((101, BodyStream sub), sv\<lparr>sv_hub := h\<rparr>))))" if "ok sv" for w sv and resp :: response
      using that by (simp add: ok_def case_prod_unfold split: option.split)
    with ReqWS session_ok [OF o] show ?thesis by (simp add: handleWS_def)
  next
    case (AdminGC now er zr)
    then show ?thesis
      using o by (simp add: ok_def system_inv_def restart_def GC_def Let_def case_prod_unfold P_prune)
  next
    case (AdminPurge now w)
    let ?a = "admin_of sv"
    have st: "store_inv (px_sha256 px) (ad_files ?a, ad_db ?a)" "ad_stage ?a = []"
      using o by (simp_all add: ok_def system_inv_def admin_of_def)
    have "P (ad_db (snd (admin_PurgeWorkspace now w ?a)))"
    proof (cases "validWorkspaceID w")
      case True
      have "ad_db ?a = sv_db sv" by (simp add: admin_of_def)
      with admin_purge_actions [OF st True, of now] purge_actions_done [OF st, of now w] purge_ok [OF o]
      show ?thesis by metis
    next
      case False
      with o show ?thesis by (simp add: admin_PurgeWorkspace_def ok_def admin_of_def)
    qed
    with AdminPurge show ?thesis by (simp add: restart_def Let_def)
  next
    case (AdminPurgeCrash now w n)
    let ?a = "admin_of sv"
    let ?b = "run_actions (take n (purge_actions now w ?a)) ?a"
    have st: "store_inv (px_sha256 px) (ad_files ?a, ad_db ?a)" "ad_stage ?a = []"
      using o by (simp_all add: ok_def system_inv_def admin_of_def)
    have "P (ad_db ?b)"
      using run_actions_db [OF st(1), of n now w] o purge_ok [OF o] by (auto simp: ok_def admin_of_def)
    moreover have "ad_db (snd (RecoverPurgeStaging ?b)) = ad_db ?b"
      using Recover_spec [OF purge_crash_stage [OF st, of n now w]] by blast
    ultimately show ?thesis using AdminPurgeCrash by (simp add: restart_def Let_def)
  qed (use o in \<open>simp_all add: ok_def\<close>)
  then show ?thesis using o server_step_inv by (simp add: ok_def)
qed

lemma run_ok: "ok sv \<Longrightarrow> ok (fold (server_step cfg px) ops sv)"
  by (rule fold_invariant [of ok]) (simp_all add: step_ok)

end

locale db_property = db_preserved +
  assumes P_empty: "P empty_db"
begin

lemma init_ok: "ok (server_init cfg)"
  using server_init_inv P_empty by (simp add: ok_def server_init_def restart_def)

lemma server_run_ok: "P (sv_db (server_run cfg px ops))"
  using run_ok [OF init_ok] by (simp add: server_run_def ok_def)

end

section \<open>The run-level guarantees\<close>

lemma Ensure_last_seq: "t_last_seq (snd (EnsureWorkspaceWithinLimit now w k m s)) = t_last_seq s"
  using EnsureWorkspace_tables [of now w k m s] by auto

lemma associate_last_seq: "t_last_seq (snd (associateObjectWithWorkspace now w oid s)) = t_last_seq s"
  using associate_snd [of now w oid s] by auto

interpretation seqs: db_preserved px cfg "\<lambda>s. n \<le> t_last_seq s" for px cfg n
proof
  fix now sess req s
  show "n \<le> t_last_seq s \<Longrightarrow> n \<le> t_last_seq (snd (SubmitEvent now sess req s))"
    using SubmitEvent_last_seq [of s now sess req] by simp
qed (simp_all add: Ensure_last_seq same_log_last_seq SaveSnapshot_last_seq upsert_object_def
    associate_last_seq Prune_last_seq Purge_last_seq db_inv_def)

definition within_limit :: "config \<Rightarrow> server_db \<Rightarrow> bool" where
  "within_limit cfg s \<longleftrightarrow> (cf_MaxWorkspaces cfg > 0 \<longrightarrow> int (length (t_workspaces s)) \<le> cf_MaxWorkspaces cfg)"

lemma within_limit_len: "length (t_workspaces s') \<le> length (t_workspaces s) \<Longrightarrow> within_limit cfg s \<Longrightarrow> within_limit cfg s'"
  unfolding within_limit_def by linarith

lemma length_update_where [simp]: "length (update_where p f t) = length t"
  by (simp add: update_where_def)

lemma length_delete_where: "length (delete_where p t) \<le> length t"
  by (simp add: delete_where_def)

lemma length_ws_Recompute:
  "length (t_workspaces (snd (RecomputeRetainedFloor now w s))) = length (t_workspaces s)"
  by (simp add: RecomputeRetainedFloor_def Let_def split: sum.split)

lemma Prune_workspaces: "server_inv s \<Longrightarrow> t_workspaces (snd (Prune now er zr s)) = t_workspaces s"
  by (rule conjunct2 [OF Prune_rule [where P = "\<lambda>t. t_workspaces t = t_workspaces s", OF _ refl]])
    (simp_all add: frame_simps)

lemma Purge_workspaces_len: "length (t_workspaces (snd (PurgeWorkspace w cs now s))) \<le> length (t_workspaces s)"
proof -
  have "length (t_workspaces (snd (fold purge_candidate cs ([], recount_refs now (purge_rows w s)))))
      \<le> length (t_workspaces s)"
    by (rule purge_candidates_rule [where P = "\<lambda>t. length (t_workspaces t) \<le> length (t_workspaces s)"])
      (simp_all add: frame_simps length_delete_where)
  then show ?thesis by (simp add: PurgeWorkspace_snd)
qed

lemma Ensure_within_limit:
  "within_limit cfg s \<Longrightarrow> within_limit cfg (snd (EnsureWorkspaceWithinLimit now w k (cf_MaxWorkspaces cfg) s))"
  by (auto simp: within_limit_def EnsureWorkspaceWithinLimit_def split: option.split)

interpretation wsl: db_property px cfg "within_limit cfg" for px cfg
proof
  show "within_limit cfg empty_db" by (simp add: within_limit_def empty_db_def)
next
  fix now sess req s
  assume w: "within_limit cfg s"
  show "within_limit cfg (snd (SubmitEvent now sess req s))"
    by (rule within_limit_len [OF _ w], cases rule: SubmitEvent_cases [of now sess req s])
      (simp_all add: length_ws_Recompute commit_event_tables)
next
  fix now sess req s
  assume w: "within_limit cfg s"
  show "within_limit cfg (snd (SaveSnapshot now sess req s))"
    by (rule within_limit_len [OF _ w])
      (simp add: SaveSnapshot_def length_ws_Recompute commit_snapshot_tables split: option.split)
next
  fix now w oid s
  assume "within_limit cfg s"
  then show "within_limit cfg (snd (associateObjectWithWorkspace now w oid s))"
    using associate_snd [of now w oid s] by (auto simp: within_limit_def)
next
  fix w cs now s
  assume w: "within_limit cfg s"
  show "within_limit cfg (snd (PurgeWorkspace w cs now s))"
    by (rule within_limit_len [OF Purge_workspaces_len w])
qed (simp_all add: Ensure_within_limit, simp_all add: within_limit_def same_log_def upsert_object_def
    Prune_workspaces db_inv_def)

section \<open>Reference counts of accepted events\<close>

lemma count_list_distinct: "distinct xs \<Longrightarrow> count_list xs x = (if x \<in> set xs then 1 else 0)"
  by (induction xs) auto

lemma SubmitEvent_counts:
  assumes "server_inv s" and acc: "fst (SubmitEvent now sess req s) = Inr res"
  shows "ref_count_of (snd (SubmitEvent now sess req s)) oid
      = map_option (\<lambda>n. n + int (count_list (rq_ObjectRefs req) oid)) (ref_count_of s oid)"
    and "refs_to (snd (SubmitEvent now sess req s)) oid
      = refs_to s oid + (if oid \<in> set (rq_ObjectRefs req) then 1 else 0)"
proof -
  let ?c = "commit_event now sess req (t_last_seq s + 1) s" and ?w = "se_WorkspaceID sess"
  have l: "log_inv s" using assms(1) by (simp add: server_inv_def)
  have rec: "ref_count_of (snd (RecomputeRetainedFloor now ?w ?c)) oid = ref_count_of ?c oid"
    "refs_to (snd (RecomputeRetainedFloor now ?w ?c)) oid = refs_to ?c oid"
    by (rule ref_count_of_cong refs_to_cong; simp add: frame_simps)+
  have s': "snd (SubmitEvent now sess req s) = (if lifecycle_event (rq_EventType req)
      then snd (RecomputeRetainedFloor now ?w ?c) else ?c)"
    by (rule SubmitEvent_accepted(4) [OF acc])
  show "ref_count_of (snd (SubmitEvent now sess req s)) oid
      = map_option (\<lambda>n. n + int (count_list (rq_ObjectRefs req) oid)) (ref_count_of s oid)"
    unfolding s' by (simp add: rec ref_count_of_commit)
  show "refs_to (snd (SubmitEvent now sess req s)) oid
      = refs_to s oid + (if oid \<in> set (rq_ObjectRefs req) then 1 else 0)"
    unfolding s' using refs_to_commit [OF l, of "t_last_seq s + 1"] by (simp add: rec)
qed

section \<open>The bootstrap cursor\<close>

lemma bootstrap_fold_set:
  "fst (fold lower_cursor roots (a, True)) = Min (insert a (root_contrib ` set roots))"
proof (induction roots arbitrary: a)
  case (Cons r roots)
  have "Min (insert a (insert b B)) = Min (insert (min b a) B)" if "finite B" for a b :: int and B
    using that by (cases "B = {}") (simp_all add: min.left_commute min.commute min.assoc)
  moreover have "lower_cursor r (a, True) = (min (root_contrib r) a, True)"
    by (simp add: lower_cursor_def)
  ultimately show ?case using Cons.IH by simp
qed simp

lemma bootstrap_after_Min:
  "bootstrap_after cur roots = (if roots = [] then cur else Min (root_contrib ` set roots))"
proof (cases roots)
  case (Cons r rs)
  have "lower_cursor r (cur, False) = (root_contrib r, True)" by (simp add: lower_cursor_def)
  then show ?thesis by (simp add: Cons bootstrap_after_def bootstrap_fold_set)
qed (simp add: bootstrap_after_def)

lemma bootstrap_after_floor:
  assumes "db_inv s" and ws: "List.find (is_ws w) (t_workspaces s) = Some x"
  shows "ws_floor x \<le> bootstrap_after (ws_current_seq x) (ActiveRoots w s)"
proof (cases "ActiveRoots w s = []")
  case True
  have "floor_seq s w \<le> cur_seq s w"
    using assms(1) by (simp add: db_inv_def server_inv_def roots_inv_def)
  with True ws show ?thesis by (simp add: bootstrap_after_Min floor_seq_def cur_seq_def)
next
  case False
  have "\<forall>r \<in> set (ActiveRoots w s). ws_floor x \<le> root_contrib r"
    using assms by (auto simp: db_inv_def floor_safe_def set_ActiveRoots floor_seq_def)
  with False show ?thesis by (simp add: bootstrap_after_Min)
qed

section \<open>Logging in\<close>

lemma CreateSession_ok:
  assumes "fst (CreateSession h now tok w d n ttl s) = Inr (token, expires, cur)"
  shows "token = hex_encode tok \<and> expires = now + ttl \<and>
    List.find (is_token (h token)) (t_sessions (snd (CreateSession h now tok w d n ttl s)))
      = Some \<lparr>sn_token_hash = h token, sn_ws = w, sn_device = d, sn_issued_at = now,
              sn_expires_at = expires, sn_last_used = now\<rparr>"
  using assms by (auto simp: CreateSession_def Let_def find_insert_or_replace_same is_token_def split: sum.splits)

lemma finish_verify_ok:
  assumes "finish_verify px now req cn s = Inr name"
  obtains sn expires pub sig where "LoadChallenge (sf_WorkspaceID req) (sf_DeviceID req) cn s = Inr (sn, name, expires)"
    and "now \<le> expires" and "parseFixedBase64 (sf_ServerNonce req) sessionNonceSize = Some sn"
    and "WorkspacePubKey (sf_WorkspaceID req) s = Inr pub"
    and "parseFixedBase64 (sf_Signature req) 64 = Some sig"
    and "VerifyTranscript px pub (sf_WorkspaceID req) (sf_DeviceID req) cn sn sig"
  using assms
  by (auto simp: finish_verify_def split: sum.splits prod.splits if_splits option.splits)

lemma LoadChallenge_deleted: "LoadChallenge w d cn (DeleteChallenge w d cn s) = Inl ErrNoRows"
proof -
  have "List.find (is_challenge w d cn) (delete_where (is_challenge w d cn) (t_challenges s)) = None"
    by (rule find_delete_where_same)
  then show ?thesis by (simp add: LoadChallenge_def DeleteChallenge_def)
qed

lemma finish_success:
  assumes "fst (handleSessionFinish cfg px now tok r (Some req) sv) = (200, body)"
  obtains cn name cur where "parseFixedBase64 (sf_ClientNonce req) sessionNonceSize = Some cn"
    and "finish_verify px now req cn (sv_db sv) = Inr name"
    and "hr_Method r = ''POST''"
    and "fst (CreateSession (px_sha256 px) now tok (sf_WorkspaceID req) (sf_DeviceID req) name (cf_SessionTTL cfg)
          (DeleteChallenge (sf_WorkspaceID req) (sf_DeviceID req) cn (sv_db sv)))
        = Inr (hex_encode tok, now + cf_SessionTTL cfg, cur)"
    and "snd (handleSessionFinish cfg px now tok r (Some req) sv) = sv\<lparr>sv_db := snd (CreateSession (px_sha256 px) now tok
          (sf_WorkspaceID req) (sf_DeviceID req) name (cf_SessionTTL cfg)
          (DeleteChallenge (sf_WorkspaceID req) (sf_DeviceID req) cn (sv_db sv)))\<rparr>"
    and "body = BodyFinish \<lparr>sfr_SessionToken = hex_encode tok, sfr_ExpiresAt = now + cf_SessionTTL cfg,
          sfr_WorkspaceID = sf_WorkspaceID req, sfr_CurrentSeq = cur\<rparr>"
proof -
  from assms obtain cn where m: "hr_Method r = ''POST''" "sf_WorkspaceID req \<noteq> []" "sf_DeviceID req \<noteq> []"
    and cn: "parseFixedBase64 (sf_ClientNonce req) sessionNonceSize = Some cn"
    by (auto simp: handleSessionFinish_def method_not_allowed_def writeError_def split: if_splits option.splits)
  from assms m cn obtain name where name: "finish_verify px now req cn (sv_db sv) = Inr name"
  proof (cases "finish_verify px now req cn (sv_db sv)")
    case (Inl resp)
    have "fst resp \<noteq> 200"
      using Inl by (auto simp: finish_verify_def writeError_def split: sum.splits prod.splits if_splits option.splits)
    with assms m cn Inl show ?thesis by (auto simp: handleSessionFinish_def)
  qed
  let ?cs = "CreateSession (px_sha256 px) now tok (sf_WorkspaceID req) (sf_DeviceID req) name (cf_SessionTTL cfg)
      (DeleteChallenge (sf_WorkspaceID req) (sf_DeviceID req) cn (sv_db sv))"
  obtain res db' where cs: "?cs = (res, db')" by (cases ?cs)
  show ?thesis
  proof (cases res)
    case (Inl e)
    with assms m cn name cs show ?thesis by (simp add: handleSessionFinish_def writeError_def)
  next
    case (Inr t)
    obtain token expires cur where t: "t = (token, expires, cur)" by (cases t)
    with Inr cs have "token = hex_encode tok" "expires = now + cf_SessionTTL cfg"
      using CreateSession_ok [of "px_sha256 px" now tok "sf_WorkspaceID req" "sf_DeviceID req" name "cf_SessionTTL cfg"
          "DeleteChallenge (sf_WorkspaceID req) (sf_DeviceID req) cn (sv_db sv)" token expires cur] by simp_all
    with assms m cn name cs Inr t show ?thesis
      by (intro that [OF cn name m(1)]) (auto simp: handleSessionFinish_def)
  qed
qed

section \<open>What a purge touches\<close>

lemma delete_unused_views:
  assumes "unused_object oid s"
  shows "FetchEvents v a l (delete_object oid s) = FetchEvents v a l s"
    and "ActiveRoots v (delete_object oid s) = ActiveRoots v s"
    and "objectVisibleToWorkspace v o' (delete_object oid s) = objectVisibleToWorkspace v o' s"
proof -
  show "FetchEvents v a l (delete_object oid s) = FetchEvents v a l s"
    by (rule FetchEvents_same_tables) (simp_all add: frame_simps)
  show "ActiveRoots v (delete_object oid s) = ActiveRoots v s"
    by (rule ActiveRoots_cong) (simp add: frame_simps)
  have "\<not> objectVisibleToWorkspace v oid s"
    using assms by (auto simp: unused_object_def objectVisibleToWorkspace_def row_exists_iff key_simps)
  then show "objectVisibleToWorkspace v o' (delete_object oid s) = objectVisibleToWorkspace v o' s"
    by (auto simp: visible_delete_object)
qed

lemma FetchEvents_purge_rows:
  assumes "server_inv s" and "v \<noteq> w"
  shows "FetchEvents v a l (purge_rows w s) = FetchEvents v a l s"
proof (rule FetchEvents_cong)
  show "List.find (is_ws v) (t_workspaces (purge_rows w s)) = Some r
      \<longleftrightarrow> List.find (is_ws v) (t_workspaces s) = Some r" for r
    using assms(2) by (simp add: frame_simps find_delete_other_ws)
  show "filter (\<lambda>e. ev_ws e = v \<and> ev_seq e > a \<and> ev_seq e \<le> ws_current_seq r) (t_events (purge_rows w s))
      = filter (\<lambda>e. ev_ws e = v \<and> ev_seq e > a \<and> ev_seq e \<le> ws_current_seq r) (t_events s)" for r
    using assms(2) by (auto simp: frame_simps delete_where_def intro!: filter_cong)
  fix e assume e: "e \<in> set (t_events s)" "ev_ws e = v"
  have "\<not> row_exists (\<lambda>e'. ev_seq e' = ev_seq e \<and> ev_ws e' = w) (t_events s)"
  proof
    assume "row_exists (\<lambda>e'. ev_seq e' = ev_seq e \<and> ev_ws e' = w) (t_events s)"
    then obtain e' where "e' \<in> set (t_events s)" "ev_seq e' = ev_seq e" "ev_ws e' = w"
      by (auto simp: row_exists_iff)
    with unique_key_eq [OF ev_seq_unique [OF assms(1)] _ e(1), of e'] e(2) assms(2) show False by simp
  qed
  then have "filter (\<lambda>x. xr_seq x = ev_seq e) (t_event_refs (purge_rows w s))
      = filter (\<lambda>x. xr_seq x = ev_seq e) (t_event_refs s)"
    by (auto simp: frame_simps purge_event_refs_def delete_where_def intro!: filter_cong)
  then show "eventRefs (ev_seq e) (purge_rows w s) = eventRefs (ev_seq e) s" by (simp add: eventRefs_def)
qed

lemma ActiveRoots_purge_rows: "v \<noteq> w \<Longrightarrow> ActiveRoots v (purge_rows w s) = ActiveRoots v s"
  by (auto simp: ActiveRoots_def frame_simps delete_where_def intro!: arg_cong [of _ _ "sort_key rt_id"] filter_cong)

definition same_view :: "string \<Rightarrow> server_db \<Rightarrow> server_db \<Rightarrow> bool" where
  "same_view v s t \<longleftrightarrow> (\<forall>a l. FetchEvents v a l t = FetchEvents v a l s) \<and> ActiveRoots v t = ActiveRoots v s
     \<and> (\<forall>oid. objectVisibleToWorkspace v oid t = objectVisibleToWorkspace v oid s)"

lemma purge_same_view:
  assumes "server_inv s" and "v \<noteq> w"
  shows "same_view v s (snd (PurgeWorkspace w cs now s))"
proof -
  let ?t = "recount_refs now (purge_rows w s)"
  have "FetchEvents v a l ?t = FetchEvents v a l (purge_rows w s)" for a l
    by (rule FetchEvents_same_tables) (simp_all add: frame_simps)
  moreover have "ActiveRoots v ?t = ActiveRoots v (purge_rows w s)"
    by (rule ActiveRoots_cong) (simp add: frame_simps)
  moreover have "objectVisibleToWorkspace v oid ?t = objectVisibleToWorkspace v oid (purge_rows w s)" for oid
    by (rule visible_cong) (simp add: frame_simps)
  ultimately have base: "same_view v s ?t"
    using assms by (simp add: same_view_def FetchEvents_purge_rows ActiveRoots_purge_rows visible_purge)
  have "same_view v s (snd (fold purge_candidate cs ([], ?t)))"
  proof (rule purge_candidates_rule [where P = "same_view v s", OF base])
    fix t oid assume "same_view v s t" "unused_object oid t"
    then show "same_view v s (delete_object oid t)"
      unfolding same_view_def using delete_unused_views [of oid t v] by simp
  qed
  then show ?thesis using base by (simp add: PurgeWorkspace_snd) (simp add: same_view_def)
qed

end
