(* ===== verification/Scenario.thy ===== *)
theory Scenario
  imports ServerGuarantees
begin

text \<open>
  One concrete run of the server's database, used to instantiate properties: a
  workspace is created, two objects are uploaded, a root is added, a file is put
  into it, and the root is given a snapshot.
\<close>

definition demo_ws :: string where
  "demo_ws = ''w''"

definition demo_sess :: Session where
  "demo_sess = \<lparr>se_WorkspaceID = demo_ws, se_DeviceID = ''d'', se_ExpiresAt = 1000\<rparr>"

definition demo_upload :: "time \<Rightarrow> string \<Rightarrow> server_db \<Rightarrow> server_db" where
  "demo_upload now oid s =
     snd (associateObjectWithWorkspace now demo_ws oid (upsert_object now oid ''file_chunk'' 5 s))"

definition demo_root_add :: EventSubmitRequest where
  "demo_root_add = \<lparr>rq_RootID = ''r'', rq_PathID = [], rq_RootKind = RootKindDir, rq_EventType = EventRootAdd,
     rq_BaseSeq = None, rq_RootCreatedSeq = None, rq_PayloadBlob = ''descriptor'', rq_ObjectRefs = []\<rparr>"

definition demo_file_put :: "int \<Rightarrow> EventSubmitRequest" where
  "demo_file_put base = \<lparr>rq_RootID = ''r'', rq_PathID = ''p'', rq_RootKind = RootKindOther [],
     rq_EventType = EventFilePut, rq_BaseSeq = Some base, rq_RootCreatedSeq = Some 1,
     rq_PayloadBlob = ''payload'', rq_ObjectRefs = [''o'']\<rparr>"

definition demo_snapshot :: SnapshotSubmitRequest where
  "demo_snapshot = \<lparr>sr_RootID = ''r'', sr_BaseSeq = 2, sr_ObjectID = ''x'', sr_ObjectRefs = [''o'']\<rparr>"

definition demo_db1 :: server_db where
  "demo_db1 = demo_upload 12 ''x'' (demo_upload 11 ''o''
     (snd (EnsureWorkspaceWithinLimit 10 demo_ws ''key'' 10 empty_db)))"

definition demo_db2 :: server_db where
  "demo_db2 = snd (SubmitEvent 13 demo_sess demo_root_add demo_db1)"

definition demo_db3 :: server_db where
  "demo_db3 = snd (SubmitEvent 14 demo_sess (demo_file_put 0) demo_db2)"

definition demo_db4 :: server_db where
  "demo_db4 = snd (SaveSnapshot 15 demo_sess demo_snapshot demo_db3)"

lemma demo_upload_inv: "db_inv s \<Longrightarrow> db_inv (demo_upload now oid s)"
  by (simp add: demo_upload_def associate_db_inv upsert_object_inv)

lemma demo_inv: "db_inv demo_db1" "db_inv demo_db2" "db_inv demo_db3" "db_inv demo_db4"
proof -
  show 1: "db_inv demo_db1"
    by (simp add: demo_db1_def demo_upload_inv Ensure_db_inv db_inv_empty)
  show 2: "db_inv demo_db2" by (simp add: demo_db2_def SubmitEvent_db_inv 1)
  show 3: "db_inv demo_db3" by (simp add: demo_db3_def SubmitEvent_db_inv 2)
  show "db_inv demo_db4" by (simp add: demo_db4_def SaveSnapshot_db_inv 3)
qed

lemma demo_server_inv: "server_inv demo_db1" "server_inv demo_db2" "server_inv demo_db3" "server_inv demo_db4"
  using demo_inv by (simp_all add: db_inv_def)

section \<open>A server with a real object\<close>

text \<open>The primitives are stand-ins of the right lengths: the hash pads its input to
  32 bytes, a signature is the public key followed by the digest.\<close>

definition demo_px :: primitives where
  "demo_px = \<lparr>px_sha256 = (\<lambda>b. take 32 (b @ replicate 32 (CHR ''.''))),
     px_hmac = (\<lambda>k m. take 32 (m @ k @ replicate 32 (CHR ''.''))),
     px_hkdf = (\<lambda>raw salt info n. take n (info @ raw)),
     px_newkey = (\<lambda>seed. take 32 (seed @ replicate 32 (CHR ''.''))),
     px_public = (\<lambda>sk. sk), px_sign = (\<lambda>sk digest. sk @ digest),
     px_verify = (\<lambda>pk digest sig. sig = pk @ digest),
     px_seal = (\<lambda>k n p a. p @ replicate 16 (CHR ''t'')),
     px_open = (\<lambda>k n c a. if length c < 16 then None else Some (take (length c - 16) c))\<rparr>"

definition demo_cfg :: config where
  "demo_cfg = \<lparr>cf_SessionTTL = 86400, cf_MaxEventFetchPage = 1000, cf_MaxPlainChunkSize = MaxFileChunkPlainSize,
     cf_MaxSnapshotPlain = MaxSnapshotPlainSize, cf_MaxWorkspaces = 10, cf_MaxWSClients = 32\<rparr>"

definition demo_body :: bytes where
  "demo_body = ''chunk''"

definition demo_id :: string where
  "demo_id = ObjectID demo_px demo_body"

definition demo_files :: files where
  "demo_files = [relStorePath demo_id \<mapsto> demo_body]"

definition demo_put_event :: EventSubmitRequest where
  "demo_put_event = (demo_file_put 0)\<lparr>rq_ObjectRefs := [demo_id]\<rparr>"

definition demo_sdb :: server_db where
  "demo_sdb = snd (SubmitEvent 14 demo_sess demo_put_event (snd (SubmitEvent 13 demo_sess demo_root_add
     (demo_upload 11 demo_id (snd (EnsureWorkspaceWithinLimit 10 demo_ws ''key'' 10 empty_db))))))"

definition demo_server :: server where
  "demo_server = \<lparr>sv_files = demo_files, sv_db = demo_sdb, sv_hub = new_hub 32\<rparr>"

lemma demo_id_valid: "ValidObjectID demo_id"
  unfolding demo_id_def ObjectID_def by (rule ValidObjectID_hash) (simp add: demo_px_def)

lemma demo_server_ok: "system_inv demo_px demo_server"
proof -
  have "content_ok (px_sha256 demo_px) ((\<lambda>_. None)(relStorePath demo_id \<mapsto> demo_body))"
    by (rule content_ok_upd) (simp_all add: content_ok_def demo_id_valid, simp add: demo_id_def ObjectID_def)
  moreover have "object_ids demo_sdb = {demo_id}"
    by (simp add: demo_sdb_def SubmitEvent_objects demo_upload_def associate_objects object_ids_upsert
        Ensure_objects) (simp add: object_ids_def empty_db_def)
  moreover have "db_inv demo_sdb"
    by (simp add: demo_sdb_def SubmitEvent_db_inv demo_upload_inv Ensure_db_inv db_inv_empty)
  ultimately show ?thesis
    by (simp add: system_inv_def demo_server_def store_inv_def rows_have_files_ids demo_files_def
        demo_id_valid new_hub_inv)
qed

lemmas demo_eval_defs = demo_sdb_def demo_put_event_def demo_file_put_def demo_root_add_def demo_upload_def
  demo_sess_def demo_ws_def

lemma demo_sdb_tables:
  "map ev_seq (t_events demo_sdb) = [1, 2] \<and> map ev_ws (t_events demo_sdb) = [demo_ws, demo_ws]
   \<and> t_event_refs demo_sdb = [\<lparr>xr_seq = 2, xr_obj = demo_id\<rparr>] \<and> t_last_seq demo_sdb = 2"
  by (simp add: demo_eval_defs SubmitEvent_def validateEventRequest_def check_event_def missing_ref_def
      check_root_add_def check_content_def check_head_def commit_event_def insert_event_def write_tables_def
      write_root_add_def write_content_def drop_heads_def touch_and_bump_def add_event_ref_def
      incrementObjectRef_def event_row_of_def lifecycle_event_def RecomputeRetainedFloor_def CurrentSeq_def
      EnsureWorkspaceWithinLimit_def empty_db_def upsert_object_def object_row_new_def
      associateObjectWithWorkspace_def objectVisibleToWorkspace_def upsert_def insert_or_ignore_def
      update_where_def delete_where_def row_exists_def key_simps max_int64_def Let_def ActiveRoots_def
      computed_floor_def)

section \<open>A server without objects\<close>

definition plain_db :: server_db where
  "plain_db = snd (SubmitEvent 13 demo_sess demo_root_add
     (snd (EnsureWorkspaceWithinLimit 10 demo_ws ''key'' 10 empty_db)))"

definition plain_server :: server where
  "plain_server = restart demo_cfg (\<lambda>_. None) plain_db"

lemma plain_server_ok: "system_inv demo_px plain_server"
proof -
  have "db_inv plain_db" by (simp add: plain_db_def SubmitEvent_db_inv Ensure_db_inv db_inv_empty)
  moreover have "object_ids plain_db = {}"
    by (simp add: plain_db_def SubmitEvent_objects Ensure_objects) (simp add: object_ids_def empty_db_def)
  ultimately show ?thesis
    unfolding plain_server_def
    by (intro restart_inv) (simp add: files_db_inv_def store_inv_def content_ok_def rows_have_files_ids)
qed

section \<open>Runs that go wrong\<close>

text \<open>Two files share the object \<open>o\<close>; the snapshot covers the first event only.\<close>

definition demo_second_put :: EventSubmitRequest where
  "demo_second_put = (demo_file_put 0)\<lparr>rq_PathID := ''q''\<rparr>"

definition demo_bare_snapshot :: SnapshotSubmitRequest where
  "demo_bare_snapshot = demo_snapshot\<lparr>sr_ObjectRefs := []\<rparr>"

definition shared_db :: server_db where
  "shared_db = snd (SaveSnapshot 16 demo_sess demo_bare_snapshot
     (snd (SubmitEvent 15 demo_sess demo_second_put demo_db3)))"

text \<open>A second root, added after the first run of \<open>Prune\<close>.\<close>

definition demo_second_root :: EventSubmitRequest where
  "demo_second_root = demo_root_add\<lparr>rq_RootID := ''r2''\<rparr>"

section \<open>A login\<close>

definition demo_key :: bytes where
  "demo_key = replicate 32 (CHR ''K'')"

definition demo_cnonce :: bytes where
  "demo_cnonce = replicate 32 (CHR ''c'')"

definition demo_snonce :: bytes where
  "demo_snonce = replicate 32 (CHR ''s'')"

definition demo_post :: request where
  "demo_post = \<lparr>hr_Method = ''POST'', hr_Path = [], hr_Version = ''1'', hr_Authorization = ''Bearer '' @ hex_encode ''token'',
     hr_AfterSeq = [], hr_Limit = [], hr_ObjectKind = [], hr_PlainSize = [], hr_Body = []\<rparr>"

definition demo_finish :: SessionFinishRequest where
  "demo_finish = \<lparr>sf_WorkspaceID = demo_ws, sf_DeviceID = ''d'', sf_ClientNonce = b64_encode demo_cnonce,
     sf_ServerNonce = b64_encode demo_snonce,
     sf_Signature = b64_encode (demo_key @ TranscriptDigest demo_px demo_ws ''d'' demo_cnonce demo_snonce)\<rparr>"

definition login_server :: server where
  "login_server = restart demo_cfg (\<lambda>_. None) (SaveChallenge 20 demo_ws ''d'' ''laptop'' demo_cnonce demo_snonce
     (snd (EnsureWorkspaceWithinLimit 10 demo_ws demo_key 10 empty_db)))"

lemma parseFixedBase64_encode: "parseFixedBase64 (b64_encode raw) n = (if length raw = n then Some raw else None)"
  by (simp add: parseFixedBase64_def)

lemma demo_login_ok:
  "\<exists>body. fst (handleSessionFinish demo_cfg demo_px 30 ''token'' demo_post (Some demo_finish) login_server) = (200, body)"
proof -
  have dig: "length (TranscriptDigest demo_px w d a b) = 32" for w d a b
    by (simp add: TranscriptDigest_def demo_px_def transcript_def)
  have ver: "VerifyTranscript demo_px demo_key demo_ws ''d'' demo_cnonce demo_snonce
      (demo_key @ TranscriptDigest demo_px demo_ws ''d'' demo_cnonce demo_snonce)"
    by (simp add: VerifyTranscript_def dig demo_key_def) (simp add: demo_px_def)
  have cn: "length demo_cnonce = 32" "length demo_snonce = 32" "length demo_key = 32"
    by (simp_all add: demo_cnonce_def demo_snonce_def demo_key_def)
  have ne: "demo_ws \<noteq> []" "demo_key \<noteq> []" by (simp_all add: demo_ws_def demo_key_def)
  have load: "LoadChallenge demo_ws ''d'' demo_cnonce (sv_db login_server) = Inr (demo_snonce, ''laptop'', 80)"
    by (simp add: login_server_def restart_def LoadChallenge_def SaveChallenge_def Let_def
        find_insert_or_replace_same is_challenge_def challenge_ttl_def)
  have tabs: "t_workspaces (sv_db login_server) = [\<lparr>ws_id = demo_ws, ws_pubkey = demo_key, ws_current_seq = 0,
      ws_floor = 0, ws_created_at = 10, ws_updated_at = 10\<rparr>]"
    using ne by (simp add: login_server_def restart_def SaveChallenge_def Let_def PruneExpiredChallenges_def
        EnsureWorkspaceWithinLimit_def empty_db_def)
  have pub: "WorkspacePubKey demo_ws (sv_db login_server) = Inr demo_key"
    by (simp add: WorkspacePubKey_def tabs is_ws_def)
  have "finish_verify demo_px 30 demo_finish demo_cnonce (sv_db login_server) = Inr ''laptop''"
    using ver by (simp add: finish_verify_def demo_finish_def load pub parseFixedBase64_encode sessionNonceSize_def cn dig)
  moreover have "CurrentSeq demo_ws (DeleteChallenge demo_ws ''d'' demo_cnonce (sv_db login_server)) = Inr 0"
    by (simp add: CurrentSeq_def DeleteChallenge_def tabs is_ws_def)
  then obtain db' where "CreateSession (px_sha256 demo_px) 30 ''token'' demo_ws ''d'' ''laptop'' (cf_SessionTTL demo_cfg)
      (DeleteChallenge demo_ws ''d'' demo_cnonce (sv_db login_server))
      = (Inr (hex_encode ''token'', 30 + cf_SessionTTL demo_cfg, 0), db')"
    by (simp add: CreateSession_def Let_def)
  moreover have "sf_WorkspaceID demo_finish = demo_ws" "sf_DeviceID demo_finish = ''d''"
    "parseFixedBase64 (sf_ClientNonce demo_finish) sessionNonceSize = Some demo_cnonce"
    by (simp_all add: demo_finish_def parseFixedBase64_encode sessionNonceSize_def cn)
  ultimately show ?thesis
    using ne by (simp add: handleSessionFinish_def demo_post_def)
qed

end
