(* ===== verification/ServerClaims.thy ===== *)
theory ServerClaims
  imports Scenario
begin

text \<open>
  The properties of the server.  Each is stated over the handlers and database
  operations of the model and followed, where it has hypotheses, by an instance
  on a concrete run.
\<close>

section \<open>States and storage\<close>

text \<open>C1: Every state the server can reach, by any sequence of requests and administrative
  commands, crashes of a purge included, is well formed: the database satisfies its key, log,
  reference, root, visibility and head invariants, every object row has a file whose content hashes
  to its id, and no live subscriber has a closed or overfull channel.\<close>

theorem reachable_states_wellformed: "system_inv px (server_run cfg px ops)"
  by (rule server_run_inv)

text \<open>C4: Durability. In a well-formed state every object that a logged event refers to can be
  downloaded by a session of the event's workspace, and what is downloaded hashes to the id.\<close>

theorem retained_content_downloadable:
  assumes "system_inv px sv" and "e \<in> set (t_events (sv_db sv))" and "x \<in> set (t_event_refs (sv_db sv))"
    and "xr_seq x = ev_seq e" and "se_WorkspaceID sess = ev_ws e" and "path_base (hr_Path r) = xr_obj x"
  shows "\<exists>content. fst (object_get now r sess sv) = (200, BodyBytes content) \<and> ObjectID px content = xr_obj x"
proof -
  from assms(1) have v: "vis_inv (sv_db sv)" and st: "content_ok (px_sha256 px) (sv_files sv)"
    "rows_have_files (sv_files sv) (sv_db sv)"
    by (simp_all add: system_inv_def db_inv_def server_inv_def store_inv_def)
  have vis: "objectVisibleToWorkspace (ev_ws e) (xr_obj x) (sv_db sv)"
    using v assms(2-4) by (simp add: vis_inv_def)
  with vis_inv_object [OF v vis] have "xr_obj x \<in> object_ids (sv_db sv)" by (simp add: object_ids_ref)
  with st obtain content where "ValidObjectID (xr_obj x)" "sv_files sv (relStorePath (xr_obj x)) = Some content"
    by (auto simp: rows_have_files_ids)
  with st(1) vis assms(5,6) show ?thesis
    by (simp add: object_get_def Get_def Let_def content_ok_def ObjectID_def)
qed

definition demo_get :: request where
  "demo_get = \<lparr>hr_Method = ''GET'', hr_Path = demo_id, hr_Version = ''1'', hr_Authorization = [],
     hr_AfterSeq = [], hr_Limit = [], hr_ObjectKind = [], hr_PlainSize = [], hr_Body = []\<rparr>"

lemma demo_path_base: "path_base (hr_Path demo_get) = demo_id"
proof -
  have n: "CHR ''/'' \<notin> set demo_id"
    using demo_id_valid by (auto simp: ValidObjectID_def list_all_iff is_hex_char_def Let_def dest: bspec)
  have ne: "demo_id \<noteq> []" using demo_id_valid by (auto simp: ValidObjectID_def objectIDLength_def)
  then have "hd (rev demo_id) \<noteq> CHR ''/''" using n by (metis hd_in_set rev_is_Nil_conv set_rev)
  then have "dropWhile (\<lambda>c. c = CHR ''/'') (rev demo_id) = rev demo_id"
    by (simp add: dropWhile_eq_self_iff)
  moreover have "takeWhile (\<lambda>c. c \<noteq> CHR ''/'') (rev demo_id) = rev demo_id"
    using n by (simp add: takeWhile_eq_all_conv) blast
  ultimately show ?thesis
    using ne by (simp only: path_base_def Let_def demo_get_def request.select_convs rev_is_Nil_conv
        if_False rev_rev_ident)
qed

theorem retained_content_downloadable_witness:
  "\<exists>content. fst (object_get 20 demo_get demo_sess demo_server) = (200, BodyBytes content)
     \<and> ObjectID demo_px content = demo_id"
proof -
  obtain a b where "t_events demo_sdb = [a, b]" "ev_seq b = 2" "ev_ws b = demo_ws"
    using demo_sdb_tables by (auto simp: map_eq_Cons_conv)
  then have "b \<in> set (t_events demo_sdb)" "ev_seq b = 2" "ev_ws b = demo_ws" by simp_all
  then have "\<exists>content. fst (object_get 20 demo_get demo_sess demo_server) = (200, BodyBytes content)
      \<and> ObjectID demo_px content = xr_obj \<lparr>xr_seq = 2, xr_obj = demo_id\<rparr>"
    using demo_sdb_tables demo_path_base
    by (intro retained_content_downloadable [OF demo_server_ok, of b])
      (simp_all add: demo_server_def demo_sess_def)
  then show ?thesis by simp
qed

section \<open>Events\<close>

text \<open>C5: No lost update. When the server accepts a file, directory or delete event with base \<open>b\<close>,
  every logged event on the same path of the same incarnation of the root has a sequence number of
  at most \<open>b\<close>: the client had seen them all.\<close>

theorem no_lost_update:
  assumes "server_inv s" and "fst (SubmitEvent now sess req s) = Inr res"
    and "content_event (rq_EventType req)" and "rq_BaseSeq req = Some b"
    and "List.find (is_root (se_WorkspaceID sess) (rq_RootID req)) (t_roots s) = Some r"
    and "e \<in> set (t_events s)" and "ev_ws e = se_WorkspaceID sess" and "ev_root e = rq_RootID req"
    and "ev_path e = Some (rq_PathID req)" and "content_event (ev_type e)" and "rt_created_seq r < ev_seq e"
  shows "ev_seq e \<le> b"
  using assms by (rule accepted_base)

lemma demo_no_lost_update_facts:
  "(case SubmitEvent 20 demo_sess (demo_file_put 2) demo_db3 of (Inr res, _) \<Rightarrow> su_AcceptedSeq res = 3 | _ \<Rightarrow> False)
   \<and> list_ex (\<lambda>e. ev_seq e = 2 \<and> ev_ws e = ''w'' \<and> ev_root e = ''r'' \<and> ev_path e = Some ''p''
        \<and> ev_type e = EventFilePut) (t_events demo_db3)
   \<and> map_option rt_created_seq (List.find (is_root ''w'' ''r'') (t_roots demo_db3)) = Some 1"
  by code_simp

theorem no_lost_update_witness:
  "\<exists>e \<in> set (t_events demo_db3). ev_path e = Some ''p'' \<and> ev_seq e \<le> 2"
proof -
  from demo_no_lost_update_facts obtain e where e: "e \<in> set (t_events demo_db3)"
    "ev_seq e = 2" "ev_ws e = ''w''" "ev_root e = ''r''" "ev_path e = Some ''p''" "ev_type e = EventFilePut"
    by (auto simp: list_ex_iff)
  from demo_no_lost_update_facts obtain r where r: "List.find (is_root ''w'' ''r'') (t_roots demo_db3) = Some r"
    "rt_created_seq r = 1" by auto
  from demo_no_lost_update_facts obtain res where "fst (SubmitEvent 20 demo_sess (demo_file_put 2) demo_db3) = Inr res"
    by (auto split: prod.splits sum.splits)
  from no_lost_update [OF demo_server_inv(3) this _ _ _ e(1), of 2 r] e r show ?thesis
    by (intro bexI [OF _ e(1)]) (simp add: demo_file_put_def demo_sess_def demo_ws_def content_event_def)
qed

text \<open>C6: The exact answer to a content event that is otherwise valid: a conflict carrying the path's
  current sequence number when the base is behind it, or when the path is unknown and the base is
  not zero; otherwise acceptance with the next sequence number.\<close>

theorem content_event_answer:
  assumes "validateEventRequest req = None" and "content_event (rq_EventType req)"
    and "row_exists (is_ws (se_WorkspaceID sess)) (t_workspaces s)"
    and "\<forall>oid \<in> set (rq_ObjectRefs req). objectVisibleToWorkspace (se_WorkspaceID sess) oid s"
    and "List.find (is_root (se_WorkspaceID sess) (rq_RootID req)) (t_roots s) = Some r"
    and "rt_removed_seq r = None" and "rq_RootCreatedSeq req \<in> {None, Some (rt_created_seq r)}"
    and "rq_BaseSeq req = Some b" and "rq_PathID req \<noteq> []" and "t_last_seq s < max_int64"
  shows "fst (SubmitEvent now sess req s) =
    (let head = List.find (is_head (se_WorkspaceID sess) (rq_RootID req) (rq_PathID req)) (t_path_heads s);
         cur = (case head of None \<Rightarrow> 0 | Some h \<Rightarrow> ph_seq h)
     in if cur > b \<or> (head = None \<and> b \<noteq> 0) then Inl (PathHeadMismatch cur)
        else Inr \<lparr>su_AcceptedSeq = t_last_seq s + 1, su_WorkspaceSeq = t_last_seq s + 1,
                  su_Event = event_record_of now sess req (t_last_seq s + 1)\<rparr>)"
  using content_outcome [OF assms] by (simp add: Let_def)

lemma demo_answer_facts:
  "validateEventRequest (demo_file_put 1) = None
   \<and> row_exists (is_ws (se_WorkspaceID demo_sess)) (t_workspaces demo_db3)
   \<and> objectVisibleToWorkspace (se_WorkspaceID demo_sess) ''o'' demo_db3
   \<and> map_option (\<lambda>r. (rt_removed_seq r, rt_created_seq r))
       (List.find (is_root (se_WorkspaceID demo_sess) ''r'') (t_roots demo_db3)) = Some (None, 1)
   \<and> map_option ph_seq (List.find (is_head (se_WorkspaceID demo_sess) ''r'' ''p'') (t_path_heads demo_db3)) = Some 2
   \<and> t_last_seq demo_db3 < max_int64"
  by code_simp

theorem content_event_answer_witness:
  "fst (SubmitEvent 20 demo_sess (demo_file_put 1) demo_db3) = Inl (PathHeadMismatch 2)"
proof -
  from demo_answer_facts obtain r h where
    r: "List.find (is_root (se_WorkspaceID demo_sess) ''r'') (t_roots demo_db3) = Some r"
      "rt_removed_seq r = None" "rt_created_seq r = 1"
    and h: "List.find (is_head (se_WorkspaceID demo_sess) ''r'' ''p'') (t_path_heads demo_db3) = Some h" "ph_seq h = 2"
    by auto
  have "fst (SubmitEvent 20 demo_sess (demo_file_put 1) demo_db3) =
    (let head = List.find (is_head (se_WorkspaceID demo_sess) (rq_RootID (demo_file_put 1)) (rq_PathID (demo_file_put 1)))
                  (t_path_heads demo_db3);
         cur = (case head of None \<Rightarrow> 0 | Some h \<Rightarrow> ph_seq h)
     in if cur > 1 \<or> (head = None \<and> (1::int) \<noteq> 0) then Inl (PathHeadMismatch cur)
        else Inr \<lparr>su_AcceptedSeq = t_last_seq demo_db3 + 1, su_WorkspaceSeq = t_last_seq demo_db3 + 1,
                  su_Event = event_record_of 20 demo_sess (demo_file_put 1) (t_last_seq demo_db3 + 1)\<rparr>)"
    by (rule content_event_answer [where r = r])
      (use demo_answer_facts r in \<open>simp_all add: demo_file_put_def content_event_def\<close>)
  with h show ?thesis by (simp add: demo_file_put_def)
qed



text \<open>C8: An accepted file, directory or delete event is what a client at the previous sequence
  number fetches next: the page holds exactly that event, with its references sorted and without
  duplicates, and the new workspace head.\<close>

theorem submitted_event_is_fetched:
  assumes "server_inv s" and "fst (SubmitEvent now sess req s) = Inr res"
    and "content_event (rq_EventType req)" and "0 < limit"
  shows "FetchEvents (se_WorkspaceID sess) (su_AcceptedSeq res - 1) limit (snd (SubmitEvent now sess req s))
    = Inr ([(su_Event res)\<lparr>er_ObjectRefs := sort (remdups (rq_ObjectRefs req))\<rparr>], su_AcceptedSeq res)"
proof -
  have "snd (SubmitEvent now sess req s) = commit_event now sess req (t_last_seq s + 1) s"
    using SubmitEvent_accepted(4) [OF assms(2)] assms(3) by (simp add: content_not_lifecycle)
  moreover have "su_Event res = event_record_of now sess req (t_last_seq s + 1)"
    using SubmitEvent_accepted_all [OF assms(2)] by blast
  ultimately show ?thesis
    using FetchEvents_after_submit [OF assms(1) SubmitEvent_accepted(2) [OF assms(2)] assms(4)]
      SubmitEvent_accepted(3) [OF assms(2)] by simp
qed

theorem submitted_event_is_fetched_witness:
  "\<exists>rec. FetchEvents demo_ws 1 10 demo_db3 = Inr ([rec], 2)"
proof -
  have "case SubmitEvent 14 demo_sess (demo_file_put 0) demo_db2 of (Inr res, _) \<Rightarrow> su_AcceptedSeq res = 2 | _ \<Rightarrow> False"
    by code_simp
  then obtain res where res: "fst (SubmitEvent 14 demo_sess (demo_file_put 0) demo_db2) = Inr res" "su_AcceptedSeq res = 2"
    by (auto split: prod.splits sum.splits)
  have "content_event (rq_EventType (demo_file_put 0))" by (simp add: demo_file_put_def content_event_def)
  from submitted_event_is_fetched [OF demo_server_inv(2) res(1) this, of 10] res(2) show ?thesis
    by (auto simp: demo_db3_def demo_sess_def)
qed

text \<open>C9: Sequence numbers are never reused. However many requests, prunings, purges and restarts lie
  between, an accepted event gets a number above that of every event that was ever in the log.\<close>

theorem seq_never_reused:
  assumes "system_inv px sv" and "e \<in> set (t_events (sv_db sv))"
    and "fst (SubmitEvent now sess req (sv_db (fold (server_step cfg px) ops sv))) = Inr res"
  shows "ev_seq e < su_AcceptedSeq res"
proof -
  have "log_inv (sv_db sv)" using assms(1) by (simp add: system_inv_def db_inv_def server_inv_def)
  then have "ev_seq e \<le> t_last_seq (sv_db sv)" using assms(2) by (rule log_inv_fresh)
  with assms(1) have "seqs.ok px (ev_seq e) sv" by (simp add: seqs.ok_def)
  then have "seqs.ok px (ev_seq e) (fold (server_step cfg px) ops sv)" by (rule seqs.run_ok)
  then have "ev_seq e \<le> t_last_seq (sv_db (fold (server_step cfg px) ops sv))" by (simp add: seqs.ok_def)
  with SubmitEvent_accepted(3) [OF assms(3)] show ?thesis by simp
qed

lemma plain_facts:
  "map ev_seq (t_events (sv_db plain_server)) = [1]
   \<and> (case SubmitEvent 30 demo_sess demo_second_root
        (sv_db (fold (server_step demo_cfg demo_px) [AdminGC 20 5 5, StreamDeliver 0] plain_server)) of
        (Inr res, _) \<Rightarrow> su_AcceptedSeq res = 2 | _ \<Rightarrow> False)"
  by code_simp

theorem seq_never_reused_witness:
  "\<exists>e res. e \<in> set (t_events (sv_db plain_server))
     \<and> fst (SubmitEvent 30 demo_sess demo_second_root
           (sv_db (fold (server_step demo_cfg demo_px) [AdminGC 20 5 5, StreamDeliver 0] plain_server))) = Inr res
     \<and> ev_seq e < su_AcceptedSeq res"
proof -
  from plain_facts obtain e where e: "e \<in> set (t_events (sv_db plain_server))"
    by (auto simp: map_eq_Cons_conv)
  from plain_facts obtain res where
    "fst (SubmitEvent 30 demo_sess demo_second_root
        (sv_db (fold (server_step demo_cfg demo_px) [AdminGC 20 5 5, StreamDeliver 0] plain_server))) = Inr res"
    by (auto split: prod.splits sum.splits)
  with seq_never_reused [OF plain_server_ok e this] e show ?thesis by blast
qed

text \<open>C10: Retention is invisible to a client the server still serves: whatever its cursor and page
  size, a fetch after pruning answers as it did before, be it a page or \<open>resync_required\<close>.\<close>

theorem pruning_invisible:
  assumes "server_inv s"
  shows "FetchEvents w afterSeq limit (snd (Prune now er zr s)) = FetchEvents w afterSeq limit s"
  by (rule FetchEvents_Prune [OF assms])

theorem pruning_invisible_witness:
  "FetchEvents demo_ws 2 10 (snd (Prune 1000 10 10 demo_db4)) = Inr ([], 2)"
proof -
  have "FetchEvents demo_ws 2 10 demo_db4 = Inr ([], 2)" by code_simp
  then show ?thesis using pruning_invisible [OF demo_server_inv(4)] by simp
qed

text \<open>Each accepted event adds one reference row per distinct object, but counts every element
  of \<open>ObjectRefs\<close>; so the counter keeps exact only when the list has no duplicates, and otherwise the
  object can never reach zero again.\<close>

theorem event_reference_counts:
  assumes "server_inv s" and "fst (SubmitEvent now sess req s) = Inr res" and "ref_count_of s oid = Some n"
  shows "ref_count_of (snd (SubmitEvent now sess req s)) oid = Some (n + int (count_list (rq_ObjectRefs req) oid))
    \<and> refs_to (snd (SubmitEvent now sess req s)) oid
        = refs_to s oid + (if oid \<in> set (rq_ObjectRefs req) then 1 else 0)"
  using SubmitEvent_counts [OF assms(1,2), of oid] assms(3) by simp

theorem event_reference_counts_witness:
  "ref_count_of (snd (SubmitEvent 14 demo_sess ((demo_file_put 0)\<lparr>rq_ObjectRefs := [''o'', ''o'']\<rparr>) demo_db2)) ''o''
     = Some 2
   \<and> refs_to (snd (SubmitEvent 14 demo_sess ((demo_file_put 0)\<lparr>rq_ObjectRefs := [''o'', ''o'']\<rparr>) demo_db2)) ''o'' = 1"
proof -
  let ?req = "(demo_file_put 0)\<lparr>rq_ObjectRefs := [''o'', ''o'']\<rparr>"
  have f: "(case SubmitEvent 14 demo_sess ?req demo_db2 of (Inr res, _) \<Rightarrow> True | _ \<Rightarrow> False)
      \<and> ref_count_of demo_db2 ''o'' = Some 0 \<and> refs_to demo_db2 ''o'' = 0"
    by code_simp
  then obtain res where "fst (SubmitEvent 14 demo_sess ?req demo_db2) = Inr res"
    by (auto split: prod.splits sum.splits)
  from event_reference_counts [OF demo_server_inv(2) this] f show ?thesis by simp
qed

section \<open>Purging\<close>



definition ws_rows :: "string \<Rightarrow> server_db \<Rightarrow> nat" where
  "ws_rows w s = count_rows (is_ws w) (t_workspaces s) + count_rows (\<lambda>r. dv_ws r = w) (t_devices s)
     + count_rows (\<lambda>r. sn_ws r = w) (t_sessions s) + count_rows (\<lambda>r. cl_ws r = w) (t_challenges s)
     + count_rows (\<lambda>r. rt_ws r = w) (t_roots s) + count_rows (\<lambda>h. ph_ws h = w) (t_path_heads s)
     + count_rows (\<lambda>e. ev_ws e = w) (t_events s) + count_rows (\<lambda>p. sp_ws p = w) (t_snapshots s)
     + count_rows (\<lambda>r. wo_ws r = w) (t_ws_objects s)"

lemma count_delete_same [simp]: "count_rows p (delete_where p t) = 0"
  by (simp add: count_rows_def delete_where_def)

lemma purge_complete_aux:
  assumes "row_exists (is_ws w) (t_workspaces s)"
  shows "ws_rows w (snd (PurgeWorkspace w candidates now s)) = 0
    \<and> refs_exact (snd (PurgeWorkspace w candidates now s))"
proof -
  let ?P = "\<lambda>t. ws_rows w t = 0 \<and> refs_exact t"
  have "?P (snd (fold purge_candidate candidates ([], recount_refs now (purge_rows w s))))"
  proof (rule purge_candidates_rule [where P = ?P])
    show "?P (recount_refs now (purge_rows w s))"
      by (simp add: refs_exact_recount) (simp add: ws_rows_def frame_simps)
    fix t oid assume t: "?P t" "unused_object oid t"
    have "count_rows (\<lambda>r. wo_ws r = w) (t_ws_objects (delete_object oid t)) \<le> count_rows (\<lambda>r. wo_ws r = w) (t_ws_objects t)"
      by (simp add: frame_simps count_rows_le_delete)
    with t(1) have "ws_rows w (delete_object oid t) = 0"
      by (simp add: ws_rows_def frame_simps) (simp add: delete_object_def)
    moreover from t(1) have "refs_exact (delete_object oid t)"
      by (auto simp: refs_exact_def ref_count_of_delete_object)
    ultimately show "?P (delete_object oid t)" by simp
  qed
  with assms show ?thesis by (simp add: PurgeWorkspace_snd)
qed



text \<open>C13: A purge survives a crash at any moment. After any number of its actions, the recovery at
  the next start succeeds, empties the staging directory, leaves the database as before or as after
  the purge, and every object row has its file with the right content.\<close>

theorem purge_crash_recovers:
  assumes "store_inv sha256 (ad_files a, ad_db a)" and "ad_stage a = []"
  shows "fst (RecoverPurgeStaging (run_actions (take n (purge_actions now w a)) a)) = Inr ()
    \<and> ad_stage (snd (RecoverPurgeStaging (run_actions (take n (purge_actions now w a)) a))) = []
    \<and> ad_db (snd (RecoverPurgeStaging (run_actions (take n (purge_actions now w a)) a)))
        \<in> {ad_db a, snd (PurgeWorkspace w (WorkspacePurgeObjects w (ad_db a)) now (ad_db a))}
    \<and> store_inv sha256 (ad_files (snd (RecoverPurgeStaging (run_actions (take n (purge_actions now w a)) a))),
                        ad_db (snd (RecoverPurgeStaging (run_actions (take n (purge_actions now w a)) a))))"
  using Recover_spec [OF purge_crash_stage [OF assms, of n now w]] run_actions_db [OF assms(1), of n now w]
  by metis

theorem purge_crash_recovers_witness:
  "ad_stage (snd (RecoverPurgeStaging (run_actions (take 1 (purge_actions 40 demo_ws (admin_of demo_server)))
     (admin_of demo_server)))) = []"
proof -
  have "store_inv (px_sha256 demo_px) (ad_files (admin_of demo_server), ad_db (admin_of demo_server))"
    using demo_server_ok by (simp add: system_inv_def admin_of_def)
  moreover have "ad_stage (admin_of demo_server) = []" by (simp add: admin_of_def)
  ultimately show ?thesis using purge_crash_recovers [of "px_sha256 demo_px" "admin_of demo_server" 1 40 demo_ws] by blast
qed

section \<open>Starting from a bootstrap\<close>

text \<open>C14: The cursor a bootstrap hands out, computed from one state of the database, is one the server
  serves (never \<open>resync_required\<close>), and it loses nothing: every event of an active root from its
  creation on is either still ahead of the cursor or covered by the root's advertised snapshot.\<close>

theorem bootstrap_cursor_covers:
  assumes "db_inv s" and "List.find (is_ws w) (t_workspaces s) = Some x"
  shows "(\<exists>page. FetchEvents w (bootstrap_after (ws_current_seq x) (ActiveRoots w s)) limit s = Inr page)
    \<and> (\<forall>r \<in> set (ActiveRoots w s). \<forall>e \<in> set (t_events s). rt_created_seq r \<le> ev_seq e \<longrightarrow>
         bootstrap_after (ws_current_seq x) (ActiveRoots w s) < ev_seq e
         \<or> (\<exists>q. rt_snap_seq r = Some q \<and> ev_seq e \<le> q))"
proof
  show "\<exists>page. FetchEvents w (bootstrap_after (ws_current_seq x) (ActiveRoots w s)) limit s = Inr page"
    using bootstrap_after_floor [OF assms] assms(2) by (auto simp: FetchEvents_def)
next
  have "bootstrap_after (ws_current_seq x) (ActiveRoots w s) \<le> root_contrib r" if "r \<in> set (ActiveRoots w s)" for r
    using that by (auto simp: bootstrap_after_Min)
  then show "\<forall>r \<in> set (ActiveRoots w s). \<forall>e \<in> set (t_events s). rt_created_seq r \<le> ev_seq e \<longrightarrow>
         bootstrap_after (ws_current_seq x) (ActiveRoots w s) < ev_seq e
         \<or> (\<exists>q. rt_snap_seq r = Some q \<and> ev_seq e \<le> q)"
    by (fastforce simp: root_contrib_def split: option.splits)
qed

theorem bootstrap_cursor_covers_witness:
  "\<exists>x page. List.find (is_ws demo_ws) (t_workspaces demo_db4) = Some x
     \<and> FetchEvents demo_ws (bootstrap_after (ws_current_seq x) (ActiveRoots demo_ws demo_db4)) 10 demo_db4 = Inr page"
proof -
  have "row_exists (is_ws demo_ws) (t_workspaces demo_db4)" by code_simp
  then obtain x where "List.find (is_ws demo_ws) (t_workspaces demo_db4) = Some x"
    by (metis find_none_iff option.exhaust)
  with bootstrap_cursor_covers [OF demo_inv(4) this, of 10] show ?thesis by blast
qed

section \<open>Logging in\<close>



text \<open>C16: A challenge is good for one login: after a successful finish the same request, with any
  clock and any randomness, is answered \<open>challenge_not_found\<close>.\<close>

theorem challenge_single_use:
  assumes "fst (handleSessionFinish cfg px now tok r (Some req) sv) = (200, body)"
  shows "fst (handleSessionFinish cfg px now' tok' r (Some req)
           (snd (handleSessionFinish cfg px now tok r (Some req) sv))) = writeError 401 ''challenge_not_found'' []"
proof -
  obtain cn name cur where cn: "parseFixedBase64 (sf_ClientNonce req) sessionNonceSize = Some cn"
    and m: "hr_Method r = ''POST''"
    and cs: "fst (CreateSession (px_sha256 px) now tok (sf_WorkspaceID req) (sf_DeviceID req) name (cf_SessionTTL cfg)
          (DeleteChallenge (sf_WorkspaceID req) (sf_DeviceID req) cn (sv_db sv)))
        = Inr (hex_encode tok, now + cf_SessionTTL cfg, cur)"
    and sv': "snd (handleSessionFinish cfg px now tok r (Some req) sv) = sv\<lparr>sv_db := snd (CreateSession (px_sha256 px) now tok
          (sf_WorkspaceID req) (sf_DeviceID req) name (cf_SessionTTL cfg)
          (DeleteChallenge (sf_WorkspaceID req) (sf_DeviceID req) cn (sv_db sv)))\<rparr>"
    by (rule finish_success [OF assms])
  have "sf_WorkspaceID req \<noteq> []" "sf_DeviceID req \<noteq> []"
    using assms m by (auto simp: handleSessionFinish_def writeError_def split: if_splits)
  moreover have "t_challenges (snd (CreateSession h now tok w d n ttl s)) = t_challenges s" for h w d n ttl s
    by (simp add: CreateSession_def Let_def split: sum.split)
  then have "LoadChallenge (sf_WorkspaceID req) (sf_DeviceID req) cn
      (sv_db (snd (handleSessionFinish cfg px now tok r (Some req) sv))) = Inl ErrNoRows"
    using LoadChallenge_deleted [of "sf_WorkspaceID req" "sf_DeviceID req" cn "sv_db sv"]
    by (simp add: sv' LoadChallenge_def)
  ultimately show ?thesis
    using m cn by (simp add: handleSessionFinish_def [where sv = "snd x" for x] finish_verify_def)
qed

theorem challenge_single_use_witness:
  "fst (handleSessionFinish demo_cfg demo_px 31 ''other'' demo_post (Some demo_finish)
     (snd (handleSessionFinish demo_cfg demo_px 30 ''token'' demo_post (Some demo_finish) login_server)))
   = writeError 401 ''challenge_not_found'' []"
  using demo_login_ok challenge_single_use by blast

section \<open>Live events\<close>

text \<open>C17: What a websocket subscriber has received, followed by what is buffered for it, is a prefix
  of what was published to its workspace since it subscribed, in order and without gaps; it is all of
  it as long as the subscriber has not been dropped; and no buffer exceeds its 32 slots.\<close>

theorem subscriber_stream:
  "\<exists>rest. tr_sent (hub_run m ops) x
      = tr_got (hub_run m ops) x @ cn_buf (hb_chan (tr_hub (hub_run m ops)) x) @ rest
    \<and> (x \<in> set (hb_subs (tr_hub (hub_run m ops)) w) \<longrightarrow> rest = [])
    \<and> length (cn_buf (hb_chan (tr_hub (hub_run m ops)) x)) \<le> 32"
  using delivery_run [of m ops] unfolding delivery_inv_def hub_inv_def subscriber_buffer_def by metis

theorem subscriber_stream_witness:
  "tr_got (hub_run 2 [OpSubscribe ''w'', OpPublish ''w'' True, OpPublish ''v'' False, OpReceive 0]) 0 = [True]
   \<and> (\<exists>rest. tr_sent (hub_run 2 [OpSubscribe ''w'', OpPublish ''w'' True, OpPublish ''v'' False, OpReceive 0]) 0
        = [True] @ rest)"
proof -
  let ?ops = "[OpSubscribe ''w'', OpPublish ''w'' True, OpPublish ''v'' False, OpReceive 0]"
  have "tr_got (hub_run 2 ?ops) 0 = [True]" by code_simp
  with subscriber_stream [of 2 ?ops 0 "''w''"] show ?thesis by force
qed

text \<open>C18: The server never holds more workspaces than configured, in any run.\<close>

theorem workspace_limit:
  assumes "0 < cf_MaxWorkspaces cfg"
  shows "int (length (t_workspaces (sv_db (server_run cfg px ops)))) \<le> cf_MaxWorkspaces cfg"
  using wsl.server_run_ok [of cfg px ops] assms by (simp add: within_limit_def)

theorem workspace_limit_witness:
  "int (length (t_workspaces (sv_db (server_run demo_cfg demo_px [AdminGC 1 2 3])))) \<le> 10"
  using workspace_limit [of demo_cfg demo_px "[AdminGC 1 2 3]"] by (simp add: demo_cfg_def)

section \<open>Where the program falls short\<close>




end
