(* ===== verification/ClientState.thy ===== *)
theory ClientState
  imports Protocol "HOL-Library.Product_Lexorder"
begin

text \<open>
  \<^verbatim>\<open>internal/client/state/db.go\<close>: the client's SQLite database.  The tables are
  lists of rows with nullable columns as options; the Go structs the functions
  take and return are records of their own, so the conversions of \<open>nullString\<close>,
  \<open>nullInt64\<close> and \<open>nullTime\<close> are written out.  Times count seconds from Go's zero
  time, which \<open>nullTime\<close> stores as NULL.
\<close>

section \<open>The structs\<close>

record WorkspaceState =
  st_ServerURL :: string
  st_WorkspaceID :: string
  st_SessionToken :: string
  st_SessionExpiresAt :: time
  st_LastServerSeq :: int
  st_ConnectionState :: ConnectionState
  st_LastErrorKind :: "DaemonIssueKind option"
  st_LastError :: string

record Root =
  cr_RootID :: string
  cr_Kind :: RootKind
  cr_HomeRelPath :: string
  cr_TargetAbsPath :: string
  cr_State :: RootState
  cr_LatestSnapshotSeq :: int
  cr_LastScanAt :: "time option"

record Entry =
  en_RootID :: string
  en_RelPath :: string
  en_PathID :: string
  en_Kind :: RootKind
  en_CurrentSeq :: int
  en_ContentSHA256 :: string
  en_SizeBytes :: int
  en_Mode :: int
  en_MTimeNS :: int
  en_Inode :: int
  en_Device :: int
  en_Deleted :: bool

record PendingOp =
  op_OpID :: string
  op_RootID :: string
  op_RelPath :: string
  op_OpType :: string
  op_BaseSeq :: int
  op_PayloadJSON :: string
  op_Status :: string
  op_RetryCount :: int
  op_LastError :: string
  op_NextRetryAt :: time
  op_CreatedAt :: time

record IgnoreRule =
  ig_RootID :: string
  ig_RelPath :: string
  ig_ExpiresAt :: time
  ig_Kind :: RootKind
  ig_ContentSHA256 :: string
  ig_Mode :: int
  ig_MTimeNS :: int
  ig_Deleted :: bool

record Warning =
  wn_Key :: string
  wn_Message :: string
  wn_CreatedAt :: time

section \<open>The tables\<close>

record workspace_state_row =
  sr_server_url :: "string option"
  sr_workspace_id :: "string option"
  sr_session_token :: "string option"
  sr_session_expires_at :: "time option"
  sr_last_server_seq :: int
  sr_connection_state :: ConnectionState
  sr_last_error_kind :: "DaemonIssueKind option"
  sr_last_error :: "string option"

record entry_row =
  er_root :: string
  er_path :: string
  er_path_id :: string
  er_kind :: RootKind
  er_seq :: int
  er_sha :: "string option"
  er_bytes :: "int option"
  er_mode :: int
  er_mtime :: int
  er_inode :: "int option"
  er_device :: "int option"
  er_deleted :: int

record pending_row =
  pr_id :: string
  pr_root :: string
  pr_path :: string
  pr_type :: string
  pr_base :: int
  pr_payload :: string
  pr_status :: string
  pr_retries :: int
  pr_error :: "string option"
  pr_next :: "time option"
  pr_created :: time

record ignore_row =
  ir_root :: string
  ir_path :: string
  ir_expires :: time
  ir_kind :: "RootKind option"
  ir_sha :: "string option"
  ir_mode :: "int option"
  ir_mtime :: "int option"
  ir_deleted :: int

record client_db =
  c_state :: workspace_state_row
  c_roots :: "Root list"
  c_entries :: "entry_row list"
  c_pending :: "pending_row list"
  c_ignores :: "ignore_row list"
  c_warnings :: "Warning list"

definition client_init :: client_db where
  "client_init =
     \<lparr>c_state = \<lparr>sr_server_url = None, sr_workspace_id = None, sr_session_token = None,
        sr_session_expires_at = None, sr_last_server_seq = 0,
        sr_connection_state = ConnectionDisconnected, sr_last_error_kind = None, sr_last_error = None\<rparr>,
      c_roots = [], c_entries = [], c_pending = [], c_ignores = [], c_warnings = []\<rparr>"

section \<open>NULL\<close>

definition null_string :: "string \<Rightarrow> string option" where
  "null_string v = (if v = [] then None else Some v)"

definition nullTime :: "time \<Rightarrow> time option" where
  "nullTime v = (if v = 0 then None else Some v)"

definition nullInt64 :: "int \<Rightarrow> int option" where
  "nullInt64 v = (if v = 0 then None else Some v)"

definition null_kind :: "RootKind \<Rightarrow> RootKind option" where
  "null_kind k = (if root_kind_string k = [] then None else Some k)"

definition boolToInt :: "bool \<Rightarrow> int" where
  "boolToInt v = (if v then 1 else 0)"

definition or_empty :: "'a \<Rightarrow> 'a option \<Rightarrow> 'a" where
  "or_empty zero v = (case v of None \<Rightarrow> zero | Some x \<Rightarrow> x)"

lemma or_empty_null [simp]:
  "or_empty [] (null_string v) = v" "or_empty 0 (nullTime n) = n" "or_empty 0 (nullInt64 n) = n"
  by (simp_all add: or_empty_def null_string_def nullTime_def nullInt64_def)

lemma boolToInt_eq [simp]: "boolToInt b = 1 \<longleftrightarrow> b"
  by (simp add: boolToInt_def)

section \<open>The workspace state\<close>

definition LoadWorkspaceState :: "client_db \<Rightarrow> WorkspaceState" where
  "LoadWorkspaceState s =
     (let r = c_state s in
      \<lparr>st_ServerURL = or_empty [] (sr_server_url r), st_WorkspaceID = or_empty [] (sr_workspace_id r),
       st_SessionToken = or_empty [] (sr_session_token r),
       st_SessionExpiresAt = or_empty 0 (sr_session_expires_at r),
       st_LastServerSeq = sr_last_server_seq r, st_ConnectionState = sr_connection_state r,
       st_LastErrorKind = sr_last_error_kind r, st_LastError = or_empty [] (sr_last_error r)\<rparr>)"

definition SaveWorkspaceState :: "WorkspaceState \<Rightarrow> client_db \<Rightarrow> client_db" where
  "SaveWorkspaceState st s =
     s\<lparr>c_state := \<lparr>sr_server_url = null_string (st_ServerURL st),
        sr_workspace_id = null_string (st_WorkspaceID st),
        sr_session_token = null_string (st_SessionToken st),
        sr_session_expires_at = nullTime (st_SessionExpiresAt st),
        sr_last_server_seq = st_LastServerSeq st, sr_connection_state = st_ConnectionState st,
        sr_last_error_kind = st_LastErrorKind st, sr_last_error = null_string (st_LastError st)\<rparr>\<rparr>"

definition SetConnectionStateWithKind ::
  "ConnectionState \<Rightarrow> DaemonIssueKind option \<Rightarrow> string \<Rightarrow> client_db \<Rightarrow> client_db" where
  "SetConnectionStateWithKind state kind lastError s =
     s\<lparr>c_state := (c_state s)\<lparr>sr_connection_state := state, sr_last_error_kind := kind,
        sr_last_error := null_string lastError\<rparr>\<rparr>"

definition SetConnectionState :: "ConnectionState \<Rightarrow> string \<Rightarrow> client_db \<Rightarrow> client_db" where
  "SetConnectionState state lastError s = SetConnectionStateWithKind state None lastError s"

definition ClearSession :: "client_db \<Rightarrow> client_db" where
  "ClearSession s =
     s\<lparr>c_state := (c_state s)\<lparr>sr_session_token := None, sr_session_expires_at := None\<rparr>\<rparr>"

definition AdvanceLastSeq :: "int \<Rightarrow> client_db \<Rightarrow> client_db" where
  "AdvanceLastSeq seq s =
     s\<lparr>c_state := (c_state s)\<lparr>sr_last_server_seq := max (sr_last_server_seq (c_state s)) seq\<rparr>\<rparr>"

definition ResetLastSeq :: "int \<Rightarrow> client_db \<Rightarrow> client_db" where
  "ResetLastSeq seq s = s\<lparr>c_state := (c_state s)\<lparr>sr_last_server_seq := seq\<rparr>\<rparr>"

definition clearWorkspace ::
  "ConnectionState \<Rightarrow> DaemonIssueKind option \<Rightarrow> string \<Rightarrow> client_db \<Rightarrow> client_db" where
  "clearWorkspace connection issue message s =
     s\<lparr>c_roots := [], c_entries := [], c_pending := [], c_ignores := [], c_warnings := [],
       c_state := (c_state s)\<lparr>sr_server_url := None, sr_workspace_id := None, sr_session_token := None,
         sr_session_expires_at := None, sr_last_server_seq := 0, sr_connection_state := connection,
         sr_last_error_kind := issue, sr_last_error := null_string message\<rparr>\<rparr>"

definition ClearWorkspace :: "client_db \<Rightarrow> client_db" where
  "ClearWorkspace s = clearWorkspace ConnectionDisconnected None [] s"

definition ClearPurgedWorkspace :: "client_db \<Rightarrow> client_db" where
  "ClearPurgedWorkspace s =
     clearWorkspace ConnectionWorkspacePurged (Some IssueWorkspaceGone)
       ''workspace was purged from the server'' s"

section \<open>Roots\<close>

definition is_croot :: "string \<Rightarrow> Root \<Rightarrow> bool" where
  [key_simps]: "is_croot i r \<longleftrightarrow> cr_RootID r = i"

definition UpsertRoot :: "Root \<Rightarrow> client_db \<Rightarrow> client_db" where
  "UpsertRoot root s =
     s\<lparr>c_roots := upsert (is_croot (cr_RootID root)) root (\<lambda>_. root) (c_roots s)\<rparr>"

definition ListRoots :: "client_db \<Rightarrow> Root list" where
  "ListRoots s = sort_key cr_HomeRelPath (c_roots s)"

definition RootByHomeRel :: "string \<Rightarrow> client_db \<Rightarrow> Root option" where
  "RootByHomeRel homeRel s = List.find (\<lambda>r. cr_HomeRelPath r = homeRel) (c_roots s)"

definition RootByID :: "string \<Rightarrow> client_db \<Rightarrow> Root option" where
  "RootByID rootID s = List.find (is_croot rootID) (c_roots s)"

definition SetRootState :: "string \<Rightarrow> RootState \<Rightarrow> client_db \<Rightarrow> client_db" where
  "SetRootState rootID state s =
     s\<lparr>c_roots := update_where (is_croot rootID) (\<lambda>r. r\<lparr>cr_State := state\<rparr>) (c_roots s)\<rparr>"

definition DeleteRootState :: "string \<Rightarrow> client_db \<Rightarrow> client_db" where
  "DeleteRootState rootID s =
     s\<lparr>c_entries := delete_where (\<lambda>r. er_root r = rootID) (c_entries s),
       c_pending := delete_where (\<lambda>r. pr_root r = rootID) (c_pending s),
       c_ignores := delete_where (\<lambda>r. ir_root r = rootID) (c_ignores s)\<rparr>"

section \<open>Entries\<close>

definition is_entry :: "string \<Rightarrow> string \<Rightarrow> entry_row \<Rightarrow> bool" where
  [key_simps]: "is_entry i p r \<longleftrightarrow> er_root r = i \<and> er_path r = p"

definition entry_row_of :: "Entry \<Rightarrow> entry_row" where
  "entry_row_of e =
     \<lparr>er_root = en_RootID e, er_path = en_RelPath e, er_path_id = en_PathID e, er_kind = en_Kind e,
      er_seq = en_CurrentSeq e, er_sha = null_string (en_ContentSHA256 e),
      er_bytes = nullInt64 (en_SizeBytes e), er_mode = en_Mode e, er_mtime = en_MTimeNS e,
      er_inode = nullInt64 (en_Inode e), er_device = nullInt64 (en_Device e),
      er_deleted = boolToInt (en_Deleted e)\<rparr>"

definition entry_of_row :: "entry_row \<Rightarrow> Entry" where
  "entry_of_row r =
     \<lparr>en_RootID = er_root r, en_RelPath = er_path r, en_PathID = er_path_id r, en_Kind = er_kind r,
      en_CurrentSeq = er_seq r, en_ContentSHA256 = or_empty [] (er_sha r),
      en_SizeBytes = or_empty 0 (er_bytes r), en_Mode = er_mode r, en_MTimeNS = er_mtime r,
      en_Inode = or_empty 0 (er_inode r), en_Device = or_empty 0 (er_device r),
      en_Deleted = (er_deleted r = 1)\<rparr>"

definition insertEntry :: "Entry \<Rightarrow> client_db \<Rightarrow> client_db" where
  "insertEntry e s =
     s\<lparr>c_entries := upsert (is_entry (en_RootID e) (en_RelPath e)) (entry_row_of e)
         (\<lambda>_. entry_row_of e) (c_entries s)\<rparr>"

definition UpsertEntry :: "Entry \<Rightarrow> client_db \<Rightarrow> client_db" where
  "UpsertEntry e s = insertEntry e s"

definition MarkEntryDeleted :: "Entry \<Rightarrow> client_db \<Rightarrow> client_db" where
  "MarkEntryDeleted e s =
     insertEntry (e\<lparr>en_Deleted := True, en_ContentSHA256 := [], en_SizeBytes := 0, en_Mode := 0,
                    en_MTimeNS := 0, en_Inode := 0, en_Device := 0\<rparr>) s"

definition ReplaceEntries :: "string \<Rightarrow> Entry list \<Rightarrow> client_db \<Rightarrow> client_db" where
  "ReplaceEntries rootID es s =
     fold insertEntry es (s\<lparr>c_entries := delete_where (\<lambda>r. er_root r = rootID) (c_entries s)\<rparr>)"

definition DeleteEntry :: "string \<Rightarrow> string \<Rightarrow> client_db \<Rightarrow> client_db" where
  "DeleteEntry rootID relPath s = s\<lparr>c_entries := delete_where (is_entry rootID relPath) (c_entries s)\<rparr>"

definition EntriesForRoot :: "string \<Rightarrow> client_db \<Rightarrow> string \<rightharpoonup> Entry" where
  "EntriesForRoot rootID s =
     fold (\<lambda>r out. out(er_path r \<mapsto> entry_of_row r))
       (filter (\<lambda>r. er_root r = rootID) (c_entries s)) Map.empty"

section \<open>Pending operations\<close>

definition is_pending :: "string \<Rightarrow> pending_row \<Rightarrow> bool" where
  [key_simps]: "is_pending i r \<longleftrightarrow> pr_id r = i"

definition pending_of_row :: "pending_row \<Rightarrow> PendingOp" where
  "pending_of_row r =
     \<lparr>op_OpID = pr_id r, op_RootID = pr_root r, op_RelPath = pr_path r, op_OpType = pr_type r,
      op_BaseSeq = pr_base r, op_PayloadJSON = pr_payload r, op_Status = pr_status r,
      op_RetryCount = pr_retries r, op_LastError = or_empty [] (pr_error r),
      op_NextRetryAt = or_empty 0 (pr_next r), op_CreatedAt = pr_created r\<rparr>"

definition CountPendingOps :: "client_db \<Rightarrow> nat" where
  "CountPendingOps s = length (c_pending s)"

definition ListPendingOps :: "client_db \<Rightarrow> PendingOp list" where
  "ListPendingOps s = map pending_of_row (sort_key (\<lambda>r. (pr_created r, pr_id r)) (c_pending s))"

definition pending_ready :: "time \<Rightarrow> pending_row \<Rightarrow> bool" where
  "pending_ready now r \<longleftrightarrow> (case pr_next r of None \<Rightarrow> True | Some n \<Rightarrow> n \<le> now)"

definition ListPendingOpsReady :: "time \<Rightarrow> client_db \<Rightarrow> PendingOp list" where
  "ListPendingOpsReady now s =
     map pending_of_row
       (sort_key (\<lambda>r. (pr_created r, pr_id r)) (filter (pending_ready now) (c_pending s)))"

text \<open>\<open>formatTime\<close> is \<open>Format(time.RFC3339Nano)\<close> of a UTC time.\<close>

definition pendingOpID :: "(time \<Rightarrow> string) \<Rightarrow> string \<Rightarrow> time \<Rightarrow> string" where
  "pendingOpID formatTime rootID createdAt = rootID @ '':'' @ formatTime createdAt"

datatype client_error = NoSuchOp | ConstraintFailed string

definition existing_op :: "string \<Rightarrow> string \<Rightarrow> client_db \<Rightarrow> string option" where
  "existing_op opType rootID s =
     (case sort_key pr_created
             (filter (\<lambda>r. pr_root r = rootID \<and> pr_path r = [] \<and> pr_type r = opType) (c_pending s)) of
        [] \<Rightarrow> None | r # _ \<Rightarrow> Some (pr_id r))"

definition insert_op ::
  "(time \<Rightarrow> string) \<Rightarrow> string \<Rightarrow> int \<Rightarrow> string \<Rightarrow> time \<Rightarrow> client_db \<Rightarrow> (client_error + unit) \<times> client_db" where
  "insert_op formatTime opType baseSeq rootID createdAt s =
     (let i = pendingOpID formatTime rootID createdAt in
      if row_exists (is_pending i) (c_pending s) then (Inl (ConstraintFailed i), s)
      else (Inr (), s\<lparr>c_pending := c_pending s @
        [\<lparr>pr_id = i, pr_root = rootID, pr_path = [], pr_type = opType, pr_base = baseSeq,
          pr_payload = ''{}'', pr_status = ''queued'', pr_retries = 0, pr_error = None,
          pr_next = None, pr_created = createdAt\<rparr>]\<rparr>))"

definition requeue :: "string \<Rightarrow> client_db \<Rightarrow> client_db" where
  "requeue opID s =
     s\<lparr>c_pending := update_where (is_pending opID) (\<lambda>r. r\<lparr>pr_status := ''queued'', pr_next := None\<rparr>)
         (c_pending s)\<rparr>"

definition QueueRootRescan ::
  "(time \<Rightarrow> string) \<Rightarrow> string \<Rightarrow> time \<Rightarrow> client_db \<Rightarrow> (client_error + unit) \<times> client_db" where
  "QueueRootRescan formatTime rootID createdAt s =
     (case existing_op ''rescan_root'' rootID s of
        None \<Rightarrow> insert_op formatTime ''rescan_root'' 0 rootID createdAt s
      | Some existing \<Rightarrow> (Inr (), requeue existing s))"

definition QueueInitialRootRecovery ::
  "(time \<Rightarrow> string) \<Rightarrow> string \<Rightarrow> int \<Rightarrow> time \<Rightarrow> client_db \<Rightarrow> (client_error + unit) \<times> client_db" where
  "QueueInitialRootRecovery formatTime rootID createdSeq createdAt s =
     (case existing_op ''recover_initial_root'' rootID s of
        None \<Rightarrow> insert_op formatTime ''recover_initial_root'' createdSeq rootID createdAt s
      | Some existing \<Rightarrow>
          (Inr (), s\<lparr>c_pending := update_where (is_pending existing)
             (\<lambda>r. r\<lparr>pr_base := createdSeq, pr_status := ''queued'', pr_next := None\<rparr>) (c_pending s)\<rparr>))"

definition QueueRootRemove ::
  "(time \<Rightarrow> string) \<Rightarrow> string \<Rightarrow> time \<Rightarrow> client_db \<Rightarrow> (client_error + unit) \<times> client_db" where
  "QueueRootRemove formatTime rootID createdAt s =
     (case existing_op ''root_remove'' rootID s of
        None \<Rightarrow> insert_op formatTime ''root_remove'' 0 rootID createdAt s
      | Some existing \<Rightarrow> (Inr (), requeue existing s))"

definition DeletePendingOp :: "string \<Rightarrow> client_db \<Rightarrow> client_db" where
  "DeletePendingOp opID s = s\<lparr>c_pending := delete_where (is_pending opID) (c_pending s)\<rparr>"

definition pendingOpBackoff :: "int \<Rightarrow> time" where
  "pendingOpBackoff retryCount =
     (let n = (if retryCount < 0 then 0 else retryCount);
          m = (if n > 6 then 6 else n) in 2 ^ nat m)"

definition BumpPendingOpRetry ::
  "string \<Rightarrow> string \<Rightarrow> time \<Rightarrow> client_db \<Rightarrow> (client_error + unit) \<times> client_db" where
  "BumpPendingOpRetry opID lastError now s =
     (case List.find (is_pending opID) (c_pending s) of
        None \<Rightarrow> (Inl NoSuchOp, s)
      | Some r \<Rightarrow>
          (Inr (), s\<lparr>c_pending := update_where (is_pending opID)
             (\<lambda>x. x\<lparr>pr_status := ''queued'', pr_retries := pr_retries x + 1,
                    pr_error := null_string lastError,
                    pr_next := Some (now + pendingOpBackoff (pr_retries r))\<rparr>) (c_pending s)\<rparr>))"

section \<open>Suppressed watcher events\<close>

definition is_ignore :: "string \<Rightarrow> string \<Rightarrow> ignore_row \<Rightarrow> bool" where
  [key_simps]: "is_ignore i p r \<longleftrightarrow> ir_root r = i \<and> ir_path r = p"

definition SetIgnore :: "string \<Rightarrow> string \<Rightarrow> time \<Rightarrow> Entry \<Rightarrow> client_db \<Rightarrow> client_db" where
  "SetIgnore rootID relPath expiresAt expected s =
     (let row = \<lparr>ir_root = rootID, ir_path = relPath, ir_expires = expiresAt,
                 ir_kind = null_kind (en_Kind expected), ir_sha = null_string (en_ContentSHA256 expected),
                 ir_mode = Some (en_Mode expected), ir_mtime = Some (en_MTimeNS expected),
                 ir_deleted = boolToInt (en_Deleted expected)\<rparr>
      in s\<lparr>c_ignores := upsert (is_ignore rootID relPath) row (\<lambda>_. row) (c_ignores s)\<rparr>)"

text \<open>\<open>Entry{Deleted: true}\<close>; an empty kind is the Go zero value.\<close>

definition deleted_entry :: Entry where
  "deleted_entry =
     \<lparr>en_RootID = [], en_RelPath = [], en_PathID = [], en_Kind = RootKindOther [], en_CurrentSeq = 0,
      en_ContentSHA256 = [], en_SizeBytes = 0, en_Mode = 0, en_MTimeNS = 0, en_Inode = 0,
      en_Device = 0, en_Deleted = True\<rparr>"

definition SetIgnoreDelete :: "string \<Rightarrow> string \<Rightarrow> time \<Rightarrow> client_db \<Rightarrow> client_db" where
  "SetIgnoreDelete rootID relPath expiresAt s = SetIgnore rootID relPath expiresAt deleted_entry s"

definition LookupIgnoreRule :: "string \<Rightarrow> string \<Rightarrow> time \<Rightarrow> client_db \<Rightarrow> (IgnoreRule \<times> bool) option" where
  "LookupIgnoreRule rootID relPath now s =
     (case List.find (is_ignore rootID relPath) (c_ignores s) of
        None \<Rightarrow> None
      | Some r \<Rightarrow>
          Some (\<lparr>ig_RootID = rootID, ig_RelPath = relPath, ig_ExpiresAt = ir_expires r,
                 ig_Kind = or_empty (RootKindOther []) (ir_kind r),
                 ig_ContentSHA256 = or_empty [] (ir_sha r), ig_Mode = or_empty 0 (ir_mode r),
                 ig_MTimeNS = or_empty 0 (ir_mtime r), ig_Deleted = (ir_deleted r = 1)\<rparr>,
                ir_expires r > now))"

definition IsIgnored :: "string \<Rightarrow> string \<Rightarrow> time \<Rightarrow> client_db \<Rightarrow> bool" where
  "IsIgnored rootID relPath now s =
     (case LookupIgnoreRule rootID relPath now s of None \<Rightarrow> False | Some (rule, ignored) \<Rightarrow> ignored)"

section \<open>Warnings\<close>

definition is_warning :: "string \<Rightarrow> Warning \<Rightarrow> bool" where
  [key_simps]: "is_warning k w \<longleftrightarrow> wn_Key w = k"

definition UpsertWarning :: "string \<Rightarrow> string \<Rightarrow> time \<Rightarrow> client_db \<Rightarrow> client_db" where
  "UpsertWarning key message createdAt s =
     s\<lparr>c_warnings := upsert (is_warning key) \<lparr>wn_Key = key, wn_Message = message, wn_CreatedAt = createdAt\<rparr>
         (\<lambda>w. w\<lparr>wn_Message := message, wn_CreatedAt := createdAt\<rparr>) (c_warnings s)\<rparr>"

text \<open>SQLite's \<open>LIKE\<close>: percent and underscore are wildcards, ASCII letters match in
  either case.\<close>

definition fold_case :: "char \<Rightarrow> nat" where
  "fold_case c = (let n = of_char c in if 65 \<le> n \<and> n \<le> 90 then n + 32 else n)"

fun like :: "string \<Rightarrow> string \<Rightarrow> bool" where
  "like [] t = (t = [])"
| "like (p # ps) t =
     (if p = CHR ''%'' then like ps t \<or> (case t of [] \<Rightarrow> False | _ # cs \<Rightarrow> like (p # ps) cs)
      else case t of [] \<Rightarrow> False
           | c # cs \<Rightarrow> (p = CHR ''_'' \<or> fold_case p = fold_case c) \<and> like ps cs)"

definition ClearWarningsWithPrefix :: "string \<Rightarrow> client_db \<Rightarrow> client_db" where
  "ClearWarningsWithPrefix pre s =
     s\<lparr>c_warnings := delete_where (\<lambda>w. like (pre @ ''%'') (wn_Key w)) (c_warnings s)\<rparr>"

definition ListWarnings :: "client_db \<Rightarrow> Warning list" where
  "ListWarnings s = sort_key (\<lambda>w. (wn_CreatedAt w, wn_Key w)) (c_warnings s)"

end
