(* ===== verification/ClientStateCorrect.thy ===== *)
theory ClientStateCorrect
  imports ClientState
begin

text \<open>
  The client database behaves as keyed tables.  \<open>keyed_store\<close> is the interface
  its callers rely on, a lookup by key and an insert that overwrites, and it is
  interpreted on the roots and on the entries; \<open>client_step\<close> is the relation of all
  operations, and \<open>client_inv\<close> the invariant of the states it reaches: primary
  keys, and at most one pending operation per root and type.
\<close>

section \<open>The interface of a keyed table\<close>

locale keyed_store =
  fixes get :: "'k \<Rightarrow> 's \<Rightarrow> 'v option"
    and put :: "'v \<Rightarrow> 's \<Rightarrow> 's"
    and key :: "'v \<Rightarrow> 'k"
    and inv :: "'s \<Rightarrow> bool"
  assumes put_inv: "inv s \<Longrightarrow> inv (put v s)"
    and get_put: "inv s \<Longrightarrow> get k (put v s) = (if k = key v then Some v else get k s)"
begin

lemma fold_put_inv: "inv s \<Longrightarrow> inv (fold put vs s)"
  by (induction vs arbitrary: s) (simp_all add: put_inv)

lemma get_fold_put:
  "inv s \<Longrightarrow> get k (fold put vs s)
    = (case List.find (\<lambda>v. key v = k) (rev vs) of None \<Rightarrow> get k s | Some v \<Rightarrow> Some v)"
proof (induction vs arbitrary: s)
  case (Cons v vs)
  then have "get k (fold put vs (put v s))
      = (case List.find (\<lambda>v. key v = k) (rev vs) of None \<Rightarrow> get k (put v s) | Some v \<Rightarrow> Some v)"
    by (simp add: put_inv)
  with Cons.prems show ?case by (simp add: get_put find_append split: option.split)
qed simp

lemma get_fold_put_distinct:
  assumes "inv s" and "distinct (map key vs)" and "v \<in> set vs"
  shows "get (key v) (fold put vs s) = Some v"
proof -
  have "List.find (\<lambda>v'. key v' = key v) (rev vs) = Some v"
    using assms(2,3) by (intro find_unique [where key = key]) (auto simp: unique_key_def rev_map [symmetric])
  then show ?thesis using assms(1) by (simp add: get_fold_put)
qed

end

section \<open>Rows that overwrite\<close>

lemma unique_key_put:
  assumes "unique_key key t" and "\<And>r. p r = (key r = key new)"
  shows "unique_key key (upsert p new (\<lambda>_. new) t)"
proof (cases "row_exists p t")
  case True
  have "map key (update_where p (\<lambda>_. new) t) = map key t"
    using assms(2) by (simp add: update_where_def)
  with assms(1) True show ?thesis by (simp add: upsert_def unique_key_def)
next
  case False
  with assms show ?thesis by (simp add: upsert_def unique_key_snoc)
qed

lemma find_put_same: "p new \<Longrightarrow> List.find p (upsert p new (\<lambda>_. new) t) = Some new"
proof (cases "row_exists p t")
  case True
  assume "p new"
  with True show ?thesis
    by (simp add: upsert_def) (induction t, auto simp: update_where_def row_exists_def)
next
  case False
  assume "p new"
  moreover have "List.find p t = None" using False by (simp add: find_none_iff)
  ultimately show ?thesis using False by (simp add: upsert_def find_append)
qed

lemma find_put_other:
  "(\<And>r. p r \<Longrightarrow> \<not> q r) \<Longrightarrow> \<not> p new \<Longrightarrow> List.find p (upsert q new (\<lambda>_. new) t) = List.find p t"
  by (rule find_upsert_other) auto

section \<open>The invariant\<close>

definition queue_key :: "pending_row \<Rightarrow> string \<times> string" where
  "queue_key r = (pr_root r, pr_type r)"

definition client_inv :: "client_db \<Rightarrow> bool" where
  "client_inv s \<longleftrightarrow> unique_key cr_RootID (c_roots s)
     \<and> unique_key (\<lambda>r. (er_root r, er_path r)) (c_entries s)
     \<and> unique_key pr_id (c_pending s) \<and> unique_key queue_key (c_pending s)
     \<and> (\<forall>r \<in> set (c_pending s). pr_path r = [] \<and> pr_status r = ''queued'' \<and> 0 \<le> pr_retries r)
     \<and> unique_key (\<lambda>r. (ir_root r, ir_path r)) (c_ignores s)
     \<and> unique_key wn_Key (c_warnings s)"

lemma client_inv_init: "client_inv client_init"
  by (simp add: client_inv_def client_init_def unique_key_def)

lemma client_inv_cong:
  "c_roots s' = c_roots s \<Longrightarrow> c_entries s' = c_entries s \<Longrightarrow> c_pending s' = c_pending s
    \<Longrightarrow> c_ignores s' = c_ignores s \<Longrightarrow> c_warnings s' = c_warnings s \<Longrightarrow> client_inv s' = client_inv s"
  by (simp add: client_inv_def)

lemma client_inv_state [simp]: "client_inv (s\<lparr>c_state := x\<rparr>) = client_inv s"
  by (rule client_inv_cong) simp_all

lemma insertEntry_inv: "client_inv s \<Longrightarrow> client_inv (insertEntry e s)"
  unfolding client_inv_def insertEntry_def
  by (auto simp: entry_row_of_def key_simps intro!: unique_key_put [where key = "\<lambda>r. (er_root r, er_path r)"])

lemma delete_entries_inv: "client_inv s \<Longrightarrow> client_inv (s\<lparr>c_entries := delete_where p (c_entries s)\<rparr>)"
  by (simp add: client_inv_def unique_key_delete_where)

lemma UpsertRoot_inv: "client_inv s \<Longrightarrow> client_inv (UpsertRoot root s)"
  unfolding client_inv_def UpsertRoot_def
  by (auto simp: key_simps intro!: unique_key_put)

section \<open>Roots and entries are keyed tables\<close>

lemma RootByID_UpsertRoot:
  "RootByID k (UpsertRoot root s) = (if k = cr_RootID root then Some root else RootByID k s)"
  by (auto simp: RootByID_def UpsertRoot_def key_simps intro!: find_put_same find_put_other)

interpretation root_table: keyed_store RootByID UpsertRoot cr_RootID client_inv
  by unfold_locales (simp_all add: UpsertRoot_inv RootByID_UpsertRoot)

lemma entry_of_row_of [simp]: "entry_of_row (entry_row_of e) = e"
  by (simp add: entry_of_row_def entry_row_of_def)

lemma fold_map_upd_find:
  "fold (\<lambda>r out. out(f r \<mapsto> g r)) rows m x
    = (case List.find (\<lambda>r. f r = x) (rev rows) of None \<Rightarrow> m x | Some r \<Rightarrow> Some (g r))"
  by (induction rows arbitrary: m) (auto simp: find_append split: option.split)

lemma find_filter: "List.find p (filter q t) = List.find (\<lambda>r. q r \<and> p r) t"
  by (induction t) auto

lemma find_rev_unique:
  assumes "unique_key key t" and "\<And>r. p r = (key r = k)"
  shows "List.find p (rev t) = List.find p t"
proof (cases "List.find p t")
  case None
  then have "\<forall>x \<in> set (rev t). \<not> p x" by (simp add: find_None_iff)
  then have "List.find p (rev t) = None" by (metis find_None_iff)
  with None show ?thesis by simp
next
  case (Some r)
  then have "r \<in> set t" "key r = k" using find_some_mem [OF Some] assms(2) by auto
  moreover have "unique_key key (rev t)" using assms(1) by (simp add: unique_key_def rev_map [symmetric])
  ultimately have "List.find p (rev t) = Some r" using assms(2) by (intro find_unique) auto
  with Some show ?thesis by simp
qed

lemma EntriesForRoot_find:
  assumes "client_inv s"
  shows "EntriesForRoot rootID s p = map_option entry_of_row (List.find (is_entry rootID p) (c_entries s))"
proof -
  have "List.find (\<lambda>r. er_root r = rootID \<and> er_path r = p) (rev (c_entries s))
      = List.find (\<lambda>r. er_root r = rootID \<and> er_path r = p) (c_entries s)"
    using assms
    by (intro find_rev_unique [where key = "\<lambda>r. (er_root r, er_path r)" and k = "(rootID, p)"])
      (simp_all add: client_inv_def)
  then show ?thesis
    by (simp add: EntriesForRoot_def fold_map_upd_find rev_filter find_filter is_entry_def [abs_def]
        split: option.split)
qed

definition entry_at :: "string \<times> string \<Rightarrow> client_db \<Rightarrow> Entry option" where
  "entry_at k s = EntriesForRoot (fst k) s (snd k)"

lemma entry_at_insertEntry:
  assumes "client_inv s"
  shows "entry_at k (insertEntry e s) = (if k = (en_RootID e, en_RelPath e) then Some e else entry_at k s)"
proof -
  have "List.find (is_entry (fst k) (snd k)) (c_entries (insertEntry e s)) =
      (if k = (en_RootID e, en_RelPath e) then Some (entry_row_of e)
       else List.find (is_entry (fst k) (snd k)) (c_entries s))"
    by (auto simp: insertEntry_def key_simps entry_row_of_def prod_eq_iff
        intro!: find_put_same find_put_other)
  then show ?thesis
    using assms by (simp add: entry_at_def EntriesForRoot_find insertEntry_inv)
qed

interpretation entry_table: keyed_store entry_at insertEntry "\<lambda>e. (en_RootID e, en_RelPath e)" client_inv
  by unfold_locales (simp_all add: insertEntry_inv entry_at_insertEntry)

lemma ReplaceEntries_inv: "client_inv s \<Longrightarrow> client_inv (ReplaceEntries rootID es s)"
  unfolding ReplaceEntries_def by (intro entry_table.fold_put_inv delete_entries_inv)

lemma entry_at_ReplaceEntries:
  assumes "client_inv s"
  shows "entry_at k (ReplaceEntries rootID es s)
    = (case List.find (\<lambda>e. (en_RootID e, en_RelPath e) = k) (rev es) of
         Some e \<Rightarrow> Some e | None \<Rightarrow> if fst k = rootID then None else entry_at k s)"
proof -
  let ?s = "s\<lparr>c_entries := delete_where (\<lambda>r. er_root r = rootID) (c_entries s)\<rparr>"
  have i: "client_inv ?s" using assms by (rule delete_entries_inv)
  have "List.find (is_entry (fst k) (snd k)) (c_entries ?s)
      = (if fst k = rootID then None else List.find (is_entry (fst k) (snd k)) (c_entries s))"
    by (auto simp: key_simps intro!: find_delete_where_same find_delete_where_other)
  then have "entry_at k ?s = (if fst k = rootID then None else entry_at k s)"
    using i assms by (simp add: entry_at_def EntriesForRoot_find)
  with entry_table.get_fold_put [OF i, of k es] show ?thesis
    unfolding ReplaceEntries_def by (simp split: option.split)
qed

section \<open>Pending operations\<close>

lemma existing_op_None:
  "existing_op ty rootID s = None
    \<longleftrightarrow> (\<forall>r \<in> set (c_pending s). \<not> (pr_root r = rootID \<and> pr_path r = [] \<and> pr_type r = ty))"
proof -
  have "existing_op ty rootID s = None
      \<longleftrightarrow> sort_key pr_created (filter (\<lambda>r. pr_root r = rootID \<and> pr_path r = [] \<and> pr_type r = ty) (c_pending s)) = []"
    by (simp add: existing_op_def split: list.split)
  also have "\<dots> \<longleftrightarrow> filter (\<lambda>r. pr_root r = rootID \<and> pr_path r = [] \<and> pr_type r = ty) (c_pending s) = []"
    by (simp only: set_empty [symmetric] set_sort)
  finally show ?thesis by (simp add: filter_empty_conv)
qed

lemma existing_op_Some:
  assumes "existing_op ty rootID s = Some i"
  obtains r where "r \<in> set (c_pending s)" "pr_id r = i" "pr_root r = rootID" "pr_path r = []" "pr_type r = ty"
proof -
  obtain r rs where srt: "sort_key pr_created
      (filter (\<lambda>r. pr_root r = rootID \<and> pr_path r = [] \<and> pr_type r = ty) (c_pending s)) = r # rs"
    and i: "i = pr_id r"
    using assms by (auto simp: existing_op_def split: list.splits)
  then have "r \<in> set (sort_key pr_created
      (filter (\<lambda>r. pr_root r = rootID \<and> pr_path r = [] \<and> pr_type r = ty) (c_pending s)))" by simp
  then show ?thesis using i by (intro that [of r]) simp_all
qed

lemma pending_update_inv:
  assumes "client_inv s"
    and "\<And>r. pr_id (f r) = pr_id r \<and> pr_root (f r) = pr_root r \<and> pr_type (f r) = pr_type r
        \<and> pr_path (f r) = pr_path r \<and> pr_status (f r) = ''queued'' \<and> pr_retries r \<le> pr_retries (f r)"
  shows "client_inv (s\<lparr>c_pending := update_where p f (c_pending s)\<rparr>)"
proof -
  have "unique_key pr_id (update_where p f (c_pending s))"
    using assms by (intro unique_key_update_where) (simp_all add: client_inv_def)
  moreover have "unique_key queue_key (update_where p f (c_pending s))"
    using assms by (intro unique_key_update_where) (simp_all add: client_inv_def queue_key_def)
  moreover have "pr_path r = [] \<and> pr_status r = ''queued'' \<and> 0 \<le> pr_retries r"
    if "r \<in> set (update_where p f (c_pending s))" for r
  proof -
    from that obtain x where x: "x \<in> set (c_pending s)" "r = x \<or> r = f x"
      by (auto simp: set_update_where split: if_splits)
    then have "pr_path x = [] \<and> pr_status x = ''queued'' \<and> 0 \<le> pr_retries x"
      using assms(1) by (simp add: client_inv_def)
    with x(2) assms(2) [of x] show ?thesis by auto
  qed
  ultimately show ?thesis using assms(1) by (simp add: client_inv_def)
qed

lemma requeue_inv: "client_inv s \<Longrightarrow> client_inv (requeue i s)"
  unfolding requeue_def by (rule pending_update_inv) simp_all

lemma insert_op_inv:
  assumes "client_inv s" and "existing_op ty rootID s = None"
  shows "client_inv (snd (insert_op formatTime ty q rootID at s))"
proof -
  have "\<not> row_exists (\<lambda>r. queue_key r = (rootID, ty)) (c_pending s)"
    using assms by (auto simp: existing_op_None row_exists_iff queue_key_def client_inv_def)
  then have "unique_key queue_key (c_pending s @ [x])" if "queue_key x = (rootID, ty)" for x
    using assms(1) that by (intro unique_key_snoc [where p = "\<lambda>r. queue_key r = (rootID, ty)"]) (simp_all add: client_inv_def)
  moreover have "unique_key pr_id (c_pending s @ [x])"
    if "\<not> row_exists (is_pending (pr_id x)) (c_pending s)" for x
    using assms(1) that
    by (intro unique_key_snoc [where p = "is_pending (pr_id x)"]) (simp_all add: client_inv_def key_simps)
  ultimately show ?thesis
    using assms(1) by (auto simp: insert_op_def Let_def client_inv_def queue_key_def)
qed

lemma Queue_inv:
  assumes "client_inv s"
  shows "client_inv (snd (QueueRootRescan fmt i at s))"
    and "client_inv (snd (QueueInitialRootRecovery fmt i q at s))"
    and "client_inv (snd (QueueRootRemove fmt i at s))"
  using assms
  by (auto simp: QueueRootRescan_def QueueInitialRootRecovery_def QueueRootRemove_def
      intro!: insert_op_inv requeue_inv pending_update_inv split: option.split)

lemma pendingOpBackoff_bounds: "1 \<le> pendingOpBackoff n \<and> pendingOpBackoff n \<le> 64"
proof -
  have *: "1 \<le> (2::int) ^ k \<and> (2::int) ^ k \<le> 64" if "k \<le> 6" for k :: nat
    using that power_increasing [of k 6 "2::int"] by simp
  show ?thesis unfolding pendingOpBackoff_def Let_def by (rule *) (simp add: nat_le_iff)
qed

lemma pendingOpBackoff_mono: "m \<le> n \<Longrightarrow> pendingOpBackoff m \<le> pendingOpBackoff n"
  unfolding pendingOpBackoff_def Let_def by (intro power_increasing nat_mono) auto

lemma BumpPendingOpRetry_inv: "client_inv s \<Longrightarrow> client_inv (snd (BumpPendingOpRetry i e now s))"
  by (auto simp: BumpPendingOpRetry_def intro!: pending_update_inv split: option.split)

section \<open>What the queue lists\<close>

lemma set_ListPendingOps: "set (ListPendingOps s) = pending_of_row ` set (c_pending s)"
  by (simp add: ListPendingOps_def)

lemma set_ListPendingOpsReady:
  "set (ListPendingOpsReady now s) = pending_of_row ` {r \<in> set (c_pending s). pending_ready now r}"
  by (simp add: ListPendingOpsReady_def)

lemma ready_subset: "set (ListPendingOpsReady now s) \<subseteq> set (ListPendingOps s)"
  by (auto simp: set_ListPendingOps set_ListPendingOpsReady)

lemma pending_of_row_sel [simp]:
  "op_RootID (pending_of_row r) = pr_root r" "op_OpType (pending_of_row r) = pr_type r"
  "op_OpID (pending_of_row r) = pr_id r" "op_RetryCount (pending_of_row r) = pr_retries r"
  by (simp_all add: pending_of_row_def)

text \<open>The rows a type and a root select, when queueing leaves one of them and touches no other.\<close>

lemma queue_view:
  assumes "{r \<in> set (c_pending s'). P (pr_root r) (pr_type r)} = {x}" and "pr_next x = None"
    and "{r \<in> set (c_pending s'). \<not> P (pr_root r) (pr_type r)} = {r \<in> set (c_pending s). \<not> P (pr_root r) (pr_type r)}"
  shows "{op \<in> set (ListPendingOps s'). P (op_RootID op) (op_OpType op)} = {pending_of_row x}
    \<and> (\<forall>now. pending_of_row x \<in> set (ListPendingOpsReady now s'))
    \<and> {op \<in> set (ListPendingOps s'). \<not> P (op_RootID op) (op_OpType op)}
      = {op \<in> set (ListPendingOps s). \<not> P (op_RootID op) (op_OpType op)}"
proof (intro conjI allI)
  have sel: "{op \<in> set (ListPendingOps t). Q (op_RootID op) (op_OpType op)}
      = pending_of_row ` {r \<in> set (c_pending t). Q (pr_root r) (pr_type r)}" for t Q
    by (auto simp: set_ListPendingOps)
  show "{op \<in> set (ListPendingOps s'). P (op_RootID op) (op_OpType op)} = {pending_of_row x}"
    by (simp add: sel assms(1))
  show "{op \<in> set (ListPendingOps s'). \<not> P (op_RootID op) (op_OpType op)}
      = {op \<in> set (ListPendingOps s). \<not> P (op_RootID op) (op_OpType op)}"
    by (simp add: sel [where Q = "\<lambda>a b. \<not> P a b"] assms(3))
  show "pending_of_row x \<in> set (ListPendingOpsReady now s')" for now
    using assms(1,2) by (auto simp: set_ListPendingOpsReady pending_ready_def)
qed

lemma update_one:
  assumes "unique_key key t" and "r \<in> set t" and "\<And>x. p x = (key x = key r)"
  shows "set (update_where p f t) = insert (f r) {x \<in> set t. key x \<noteq> key r}"
proof -
  have "x = r" if "x \<in> set t" "p x" for x
    using unique_key_eq [OF assms(1) that(1) assms(2)] that(2) assms(3) by simp
  then show ?thesis using assms(2,3) by (auto simp: set_update_where)
qed

lemma QueueRootRescan_once:
  assumes inv: "client_inv s" and q: "QueueRootRescan fmt i at s = (Inr (), s')"
  shows "(\<exists>op. {op \<in> set (ListPendingOps s'). op_RootID op = i \<and> op_OpType op = ''rescan_root''} = {op}
        \<and> (\<forall>now. op \<in> set (ListPendingOpsReady now s')))
    \<and> {op \<in> set (ListPendingOps s'). \<not> (op_RootID op = i \<and> op_OpType op = ''rescan_root'')}
      = {op \<in> set (ListPendingOps s). \<not> (op_RootID op = i \<and> op_OpType op = ''rescan_root'')}"
proof -
  let ?P = "\<lambda>a b. a = i \<and> b = ''rescan_root''"
  have "\<exists>x. {r \<in> set (c_pending s'). ?P (pr_root r) (pr_type r)} = {x} \<and> pr_next x = None
      \<and> {r \<in> set (c_pending s'). \<not> ?P (pr_root r) (pr_type r)} = {r \<in> set (c_pending s). \<not> ?P (pr_root r) (pr_type r)}"
  proof (cases "existing_op ''rescan_root'' i s")
    case None
    then have old: "\<forall>r \<in> set (c_pending s). \<not> ?P (pr_root r) (pr_type r)"
      using inv by (auto simp: existing_op_None client_inv_def)
    from q None obtain x where "c_pending s' = c_pending s @ [x]" "?P (pr_root x) (pr_type x)" "pr_next x = None"
      by (auto simp: QueueRootRescan_def insert_op_def Let_def split: if_splits)
    with old show ?thesis by (intro exI [of _ x]) auto
  next
    case (Some e)
    then obtain r where r: "r \<in> set (c_pending s)" "pr_id r = e" "?P (pr_root r) (pr_type r)"
      by (rule existing_op_Some) simp
    let ?f = "\<lambda>r. r\<lparr>pr_status := ''queued'', pr_next := None\<rparr>"
    have s': "c_pending s' = update_where (is_pending e) ?f (c_pending s)"
      using q Some by (auto simp: QueueRootRescan_def requeue_def)
    have uk: "unique_key pr_id (c_pending s)" "unique_key queue_key (c_pending s)"
      using inv by (simp_all add: client_inv_def)
    have rows: "set (c_pending s') = insert (?f r) {x \<in> set (c_pending s). pr_id x \<noteq> pr_id r}"
      unfolding s' using uk(1) r(1) by (rule update_one) (simp add: is_pending_def r(2))
    have uniq: "pr_id x = pr_id r" if "x \<in> set (c_pending s)" "?P (pr_root x) (pr_type x)" for x
      using unique_key_eq [OF uk(2) that(1) r(1)] that(2) r(3) by (simp add: queue_key_def)
    have same: "x = r" if "x \<in> set (c_pending s)" "pr_id x = pr_id r" for x
      using unique_key_eq [OF uk(1) that(1) r(1)] that(2) by simp
    have "{x \<in> set (c_pending s'). ?P (pr_root x) (pr_type x)} = {?f r}"
      unfolding rows using r(3) by (auto dest: uniq)
    moreover have "{x \<in> set (c_pending s'). \<not> ?P (pr_root x) (pr_type x)}
        = {x \<in> set (c_pending s). \<not> ?P (pr_root x) (pr_type x)}"
      unfolding rows using r(3) by (auto dest: same)
    ultimately show ?thesis by (intro exI [of _ "?f r"]) simp
  qed
  then obtain x where "{r \<in> set (c_pending s'). ?P (pr_root r) (pr_type r)} = {x}" "pr_next x = None"
    "{r \<in> set (c_pending s'). \<not> ?P (pr_root r) (pr_type r)} = {r \<in> set (c_pending s). \<not> ?P (pr_root r) (pr_type r)}"
    by blast
  from queue_view [where P = ?P, OF this] show ?thesis by blast
qed

lemma or_empty_null_string [simp]: "or_empty [] (null_string m) = m"
  by (simp add: or_empty_def null_string_def)

lemma BumpPendingOpRetry_once:
  assumes inv: "client_inv s" and op: "op \<in> set (ListPendingOps s)"
  shows "\<exists>s' due. BumpPendingOpRetry (op_OpID op) msg now s = (Inr (), s')
    \<and> now + 1 \<le> due \<and> due \<le> now + 64
    \<and> (\<forall>t op'. op' \<in> set (ListPendingOpsReady t s') \<longleftrightarrow>
         (if op_OpID op' = op_OpID op
          then due \<le> t \<and> op' = op\<lparr>op_Status := ''queued'', op_RetryCount := op_RetryCount op + 1,
              op_LastError := msg, op_NextRetryAt := due\<rparr>
          else op' \<in> set (ListPendingOpsReady t s)))"
proof -
  obtain r where r: "r \<in> set (c_pending s)" "op = pending_of_row r" using op by (auto simp: set_ListPendingOps)
  have uk: "unique_key pr_id (c_pending s)" using inv by (simp add: client_inv_def)
  have find: "List.find (is_pending (pr_id r)) (c_pending s) = Some r"
    using uk r(1) by (intro find_unique [where key = pr_id]) (simp_all add: is_pending_def)
  let ?due = "now + pendingOpBackoff (pr_retries r)"
  let ?f = "\<lambda>x. x\<lparr>pr_status := ''queued'', pr_retries := pr_retries x + 1, pr_error := null_string msg, pr_next := Some ?due\<rparr>"
  let ?s' = "s\<lparr>c_pending := update_where (is_pending (pr_id r)) ?f (c_pending s)\<rparr>"
  have b: "BumpPendingOpRetry (op_OpID op) msg now s = (Inr (), ?s')"
    by (simp add: BumpPendingOpRetry_def r(2) find)
  have rows: "set (c_pending ?s') = insert (?f r) {x \<in> set (c_pending s). pr_id x \<noteq> pr_id r}"
    using update_one [OF uk r(1), of "is_pending (pr_id r)" ?f] by (simp add: is_pending_def)
  have fr: "pending_of_row (?f r) = op\<lparr>op_Status := ''queued'', op_RetryCount := op_RetryCount op + 1,
      op_LastError := msg, op_NextRetryAt := ?due\<rparr>"
    using or_empty_null_string [of msg]
    by (simp add: r(2) pending_of_row_def) (simp add: or_empty_def)
  have view: "op' \<in> set (ListPendingOpsReady t ?s') \<longleftrightarrow>
      (if op_OpID op' = op_OpID op then ?due \<le> t \<and> op' = pending_of_row (?f r)
       else op' \<in> set (ListPendingOpsReady t s))" for t op'
  proof -
    have "op' \<in> set (ListPendingOpsReady t ?s') \<longleftrightarrow> (?due \<le> t \<and> op' = pending_of_row (?f r))
        \<or> (\<exists>x \<in> set (c_pending s). pr_id x \<noteq> pr_id r \<and> pending_ready t x \<and> op' = pending_of_row x)"
      unfolding set_ListPendingOpsReady rows by (auto simp: pending_ready_def)
    then show ?thesis using r(2) by (auto simp: set_ListPendingOpsReady fr)
  qed
  show ?thesis
    using b view pendingOpBackoff_bounds [of "pr_retries r"] unfolding fr
    by (intro exI [of _ ?s'] exI [of _ ?due]) simp
qed

lemma find_entry_map_of:
  assumes "\<forall>e \<in> set es. en_RootID e = i" and "distinct (map en_RelPath es)"
  shows "List.find (\<lambda>e. (en_RootID e, en_RelPath e) = (j, p)) (rev es)
    = (if j = i then map_of (map (\<lambda>e. (en_RelPath e, e)) es) p else None)"
  using assms
proof (induction es)
  case (Cons e es)
  then have "map_of (map (\<lambda>e. (en_RelPath e, e)) es) (en_RelPath e) = None"
    by (simp add: map_of_eq_None_iff image_image)
  with Cons show ?case by (auto simp: find_append split: option.split)
qed simp

section \<open>All operations\<close>

text \<open>One rule per operation of the client database that writes.\<close>

inductive client_step :: "(time \<Rightarrow> string) \<Rightarrow> client_db \<Rightarrow> client_db \<Rightarrow> bool" for fmt where
  save_state: "client_step fmt s (SaveWorkspaceState st s)"
| set_connection: "client_step fmt s (SetConnectionStateWithKind conn kind msg s)"
| clear_session: "client_step fmt s (ClearSession s)"
| advance: "client_step fmt s (AdvanceLastSeq q s)"
| reset: "client_step fmt s (ResetLastSeq q s)"
| clear: "client_step fmt s (clearWorkspace conn kind msg s)"
| upsert_root: "client_step fmt s (UpsertRoot root s)"
| set_root_state: "client_step fmt s (SetRootState i st' s)"
| delete_root_state: "client_step fmt s (DeleteRootState i s)"
| replace_entries: "client_step fmt s (ReplaceEntries i es s)"
| upsert_entry: "client_step fmt s (UpsertEntry e s)"
| mark_deleted: "client_step fmt s (MarkEntryDeleted e s)"
| delete_entry: "client_step fmt s (DeleteEntry i p s)"
| queue_rescan: "client_step fmt s (snd (QueueRootRescan fmt i at s))"
| queue_recovery: "client_step fmt s (snd (QueueInitialRootRecovery fmt i q at s))"
| queue_remove: "client_step fmt s (snd (QueueRootRemove fmt i at s))"
| delete_op: "client_step fmt s (DeletePendingOp opid s)"
| bump: "client_step fmt s (snd (BumpPendingOpRetry opid msg now s))"
| set_ignore: "client_step fmt s (SetIgnore i p expires e s)"
| upsert_warning: "client_step fmt s (UpsertWarning k msg at s)"
| clear_warnings: "client_step fmt s (ClearWarningsWithPrefix pre s)"

definition client_reachable :: "(time \<Rightarrow> string) \<Rightarrow> client_db \<Rightarrow> bool" where
  "client_reachable fmt s \<longleftrightarrow> (client_step fmt)\<^sup>*\<^sup>* client_init s"

lemma client_step_inv: "client_step fmt s s' \<Longrightarrow> client_inv s \<Longrightarrow> client_inv s'"
proof (induction rule: client_step.induct)
  case (set_root_state s i st')
  have "unique_key cr_RootID (update_where (is_croot i) (\<lambda>r. r\<lparr>cr_State := st'\<rparr>) (c_roots s))"
    using set_root_state by (intro unique_key_update_where) (simp_all add: client_inv_def)
  with set_root_state show ?case by (simp add: client_inv_def SetRootState_def)
next
  case (set_ignore s i p expires e)
  then show ?case
    unfolding client_inv_def SetIgnore_def Let_def
    by (auto simp: key_simps intro!: unique_key_put)
next
  case (upsert_warning s k msg at)
  then show ?case
    unfolding client_inv_def UpsertWarning_def by (auto simp: key_simps intro!: unique_key_upsert)
next
  case (clear s conn kind msg)
  then show ?case by (simp add: clearWorkspace_def client_inv_def unique_key_def)
qed (simp_all add: SaveWorkspaceState_def SetConnectionStateWithKind_def ClearSession_def AdvanceLastSeq_def
    ResetLastSeq_def UpsertRoot_inv ReplaceEntries_inv UpsertEntry_def MarkEntryDeleted_def insertEntry_inv
    Queue_inv BumpPendingOpRetry_inv,
   simp_all add: client_inv_def DeleteRootState_def DeleteEntry_def DeletePendingOp_def
    ClearWarningsWithPrefix_def unique_key_delete_where)

lemma client_reachable_inv: "client_reachable fmt s \<Longrightarrow> client_inv s"
  unfolding client_reachable_def
  by (induction rule: rtranclp_induct) (auto intro: client_inv_init client_step_inv)

inductive_cases client_stepE: "client_step fmt s s'"

lemmas client_step_intros = client_step.intros

end
