(* ===== verification/Paths.thy ===== *)
theory Paths
  imports Prelude "HOL-Library.Sublist"
begin

text \<open>
  \<^verbatim>\<open>internal/common/paths/paths.go\<close>: how local and remote paths are cleaned, kept
  apart and kept inside a root, and the directory walks that refuse symbolic
  links.  \<open>Clean\<close>, \<open>Join\<close> and \<open>Rel\<close> are those of Go's \<^verbatim>\<open>path/filepath\<close> on Unix,
  where \<open>FromSlash\<close> and \<open>ToSlash\<close> do nothing.  What the operating system says
  (home, working directory, the file tree) is an argument.
\<close>

datatype path_error = NoHome | NoWorkingDir | OutsideHome string | HomeItself | CannotRel
  | OverlapsRoot string string | ContainsNUL | EmptyPath | NeedsSlash | MustBeRelative
  | TraversesUpward | NotCanonical | MalformedPath | OutsideRoot string
  | IsSymlink string | NotADirectory string | FsFailed string

abbreviation slash :: char where "slash \<equiv> CHR ''/''"

section \<open>\<^verbatim>\<open>path/filepath\<close>\<close>

definition IsAbs :: "string \<Rightarrow> bool" where
  "IsAbs p \<longleftrightarrow> p \<noteq> [] \<and> hd p = slash"

fun clean_step :: "bool \<Rightarrow> string \<Rightarrow> string list \<Rightarrow> string list" where
  "clean_step rooted part stack =
     (if part = [] \<or> part = ''.'' then stack
      else if part = ''..'' then
        (case stack of [] \<Rightarrow> if rooted then [] else [''..'']
         | lastp # rest \<Rightarrow> if lastp = ''..'' then ''..'' # stack else rest)
      else part # stack)"

definition clean_parts :: "bool \<Rightarrow> string \<Rightarrow> string list" where
  "clean_parts rooted p = rev (fold (clean_step rooted) (split_on slash p) [])"

definition Clean :: "string \<Rightarrow> string" where
  "Clean p =
     (if p = [] then ''.''
      else let body = join_on slash (clean_parts (IsAbs p) p)
           in if IsAbs p then slash # body else if body = [] then ''.'' else body)"

definition Join :: "string list \<Rightarrow> string" where
  "Join ps = (case dropWhile (\<lambda>p. p = []) ps of [] \<Rightarrow> [] | qs \<Rightarrow> Clean (join_on slash qs))"

definition comps :: "string \<Rightarrow> string list" where
  "comps p = filter (\<lambda>c. c \<noteq> []) (split_on slash p)"

fun strip_common :: "string list \<Rightarrow> string list \<Rightarrow> string list \<times> string list" where
  "strip_common (b # bs) (t # ts) = (if b = t then strip_common bs ts else (b # bs, t # ts))"
| "strip_common bs ts = (bs, ts)"

definition Rel :: "string \<Rightarrow> string \<Rightarrow> string option" where
  "Rel basepath targpath =
     (let base = Clean basepath; targ = Clean targpath in
      if targ = base then Some ''.''
      else let base' = (if base = ''.'' then [] else base) in
        if IsAbs base' \<noteq> IsAbs targ then None
        else let (b, t) = strip_common (comps base') (comps targ) in
          if b \<noteq> [] \<and> hd b = ''..'' then None
          else Some (join_on slash (replicate (length b) ''..'' @ t)))"

definition Dir :: "string \<Rightarrow> string" where
  "Dir p = Clean (rev (dropWhile (\<lambda>c. c \<noteq> slash) (rev p)))"

definition trim_prefix :: "string \<Rightarrow> string \<Rightarrow> string" where
  "trim_prefix pre s = (if prefix pre s then drop (length pre) s else s)"

definition trim_suffix :: "string \<Rightarrow> string \<Rightarrow> string" where
  "trim_suffix suf s = (if suffix suf s then take (length s - length suf) s else s)"

section \<open>Relative paths\<close>

definition cleanStored :: "string \<Rightarrow> string" where
  "cleanStored p =
     (let q = trim_suffix ''/'' (trim_prefix ''./'' (Clean p)) in if q = ''.'' then [] else q)"

definition overlaps :: "string \<Rightarrow> string \<Rightarrow> bool" where
  "overlaps a b =
     (if a = [] \<or> b = [] then a = b
      else a = b \<or> prefix (b @ ''/'') a \<or> prefix (a @ ''/'') b)"

fun CheckOverlap :: "string \<Rightarrow> string list \<Rightarrow> path_error option" where
  "CheckOverlap candidate [] = None"
| "CheckOverlap candidate (root # existing) =
     (if overlaps (cleanStored candidate) (cleanStored root)
      then Some (OverlapsRoot (cleanStored candidate) (cleanStored root))
      else CheckOverlap candidate existing)"

definition validateSlashRelPath :: "string \<Rightarrow> bool \<Rightarrow> path_error + string" where
  "validateSlashRelPath raw allowEmpty =
     (if nul \<in> set raw then Inl ContainsNUL
      else if raw = [] then (if allowEmpty then Inr [] else Inl EmptyPath)
      else if CHR 0x5C \<in> set raw then Inl NeedsSlash
      else if IsAbs raw then Inl MustBeRelative
      else let clean = Clean raw in
        if clean = ''.'' then Inl EmptyPath
        else if clean = ''..'' \<or> prefix ''../'' clean then Inl TraversesUpward
        else if clean \<noteq> raw then Inl NotCanonical
        else if list_ex (\<lambda>part. part = ''.'' \<or> part = ''..'' \<or> part = []) (split_on slash clean)
          then Inl MalformedPath
        else Inr clean)"

definition ValidateRemoteRelPath :: "string \<Rightarrow> bool \<Rightarrow> path_error + string" where
  "ValidateRemoteRelPath raw allowRoot = validateSlashRelPath raw allowRoot"

definition ValidateHomeRelPath :: "string \<Rightarrow> path_error + string" where
  "ValidateHomeRelPath raw = validateSlashRelPath raw False"

section \<open>Containment\<close>

definition RelWithinRoot :: "string \<Rightarrow> string \<Rightarrow> path_error + string" where
  "RelWithinRoot rootAbs targetAbs =
     (let root = Clean rootAbs; target = Clean targetAbs in
      if target = root then Inr []
      else if \<not> prefix (root @ ''/'') target then Inl (OutsideRoot target)
      else case Rel root target of
        None \<Rightarrow> Inl CannotRel
      | Some rel \<Rightarrow> Inr (if Clean rel = ''.'' then [] else Clean rel))"

definition ensureWithinRoot :: "string \<Rightarrow> string \<Rightarrow> path_error option" where
  "ensureWithinRoot rootAbs targetAbs =
     (case RelWithinRoot rootAbs targetAbs of Inl e \<Rightarrow> Some e | Inr _ \<Rightarrow> None)"

definition ResolveRemoteTarget :: "string \<Rightarrow> string \<Rightarrow> bool \<Rightarrow> path_error + (string \<times> string)" where
  "ResolveRemoteTarget rootAbs raw allowRoot =
     (case ValidateRemoteRelPath raw allowRoot of
        Inl e \<Rightarrow> Inl e
      | Inr rel \<Rightarrow>
          let target = (if rel \<noteq> [] then Join [Clean rootAbs, rel] else Clean rootAbs) in
          (case ensureWithinRoot rootAbs target of
             Some e \<Rightarrow> Inl e | None \<Rightarrow> Inr (rel, target)))"

section \<open>The home directory\<close>

text \<open>\<open>home\<close> is what \<open>os.UserHomeDir\<close> reports, \<open>None\<close> its error.\<close>

definition HomeDir :: "string option \<Rightarrow> path_error + string" where
  "HomeDir home =
     (case home of None \<Rightarrow> Inl NoHome | Some h \<Rightarrow> if h = [] then Inl NoHome else Inr (Clean h))"

definition ExpandHome :: "string option \<Rightarrow> string \<Rightarrow> path_error + string" where
  "ExpandHome home p =
     (if p = ''~'' \<or> prefix ''~/'' p then
        (case HomeDir home of
           Inl e \<Rightarrow> Inl e
         | Inr h \<Rightarrow> if p = ''~'' then Inr h else Inr (Join [h, drop 2 p]))
      else Inr p)"

definition TargetForHomeRel :: "string option \<Rightarrow> string \<Rightarrow> path_error + string" where
  "TargetForHomeRel home homeRel =
     (case HomeDir home of Inl e \<Rightarrow> Inl e | Inr h \<Rightarrow> Inr (Join [h, cleanStored homeRel]))"

definition ResolveHomeRelTarget :: "string option \<Rightarrow> string \<Rightarrow> path_error + (string \<times> string)" where
  "ResolveHomeRelTarget home raw =
     (case ValidateHomeRelPath raw of
        Inl e \<Rightarrow> Inl e
      | Inr homeRel \<Rightarrow>
          (case TargetForHomeRel home homeRel of
             Inl e \<Rightarrow> Inl e
           | Inr target \<Rightarrow>
               (case HomeDir home of
                  Inl e \<Rightarrow> Inl e
                | Inr h \<Rightarrow>
                    (case ensureWithinRoot h target of
                       Some e \<Rightarrow> Inl e | None \<Rightarrow> Inr (homeRel, target)))))"

text \<open>\<open>filepath.Abs\<close> with the working directory \<open>cwd\<close>\<close>

definition Abs :: "string option \<Rightarrow> string \<Rightarrow> path_error + string" where
  "Abs cwd p =
     (if IsAbs p then Inr (Clean p)
      else case cwd of None \<Rightarrow> Inl NoWorkingDir | Some d \<Rightarrow> Inr (Join [d, p]))"

definition home_relative :: "string \<Rightarrow> string \<Rightarrow> path_error + string" where
  "home_relative home absPath =
     (if absPath \<noteq> home \<and> \<not> prefix (home @ ''/'') absPath then Inl (OutsideHome absPath)
      else case Rel home absPath of
        None \<Rightarrow> Inl CannotRel
      | Some rel \<Rightarrow>
          if Clean rel = ''.'' then Inl HomeItself
          else Inr (trim_suffix ''/'' (trim_prefix ''./'' (Clean rel))))"

definition CanonicalizeRootPath ::
  "string option \<Rightarrow> string option \<Rightarrow> string \<Rightarrow> string list \<Rightarrow> path_error + (string \<times> string)" where
  "CanonicalizeRootPath home cwd input existing =
     (case ExpandHome home input of
        Inl e \<Rightarrow> Inl e
      | Inr expanded \<Rightarrow>
          (case Abs cwd expanded of
             Inl e \<Rightarrow> Inl e
           | Inr abs0 \<Rightarrow>
               (case HomeDir home of
                  Inl e \<Rightarrow> Inl e
                | Inr h \<Rightarrow>
                    (case home_relative h (Clean abs0) of
                       Inl e \<Rightarrow> Inl e
                     | Inr rel \<Rightarrow>
                         (case CheckOverlap rel existing of
                            Some e \<Rightarrow> Inl e | None \<Rightarrow> Inr (Clean abs0, rel))))))"

section \<open>Walking directories\<close>

text \<open>
  A file tree maps cleaned paths to what \<open>Lstat\<close> sees; \<open>NodeOther\<close> is a device, a
  socket or a pipe.  Below anything but a directory or a link \<open>Lstat\<close> fails with
  \<open>ENOTDIR\<close>, which is not \<open>ErrNotExist\<close>.  \<open>Mkdir\<close> needs a parent; a parent that is a
  link is taken to lead to a directory.
\<close>

datatype node = NodeFile | NodeDir | NodeSymlink | NodeOther

type_synonym tree = "string \<Rightarrow> node option"

definition ancestors :: "string \<Rightarrow> string list" where
  "ancestors p = map (\<lambda>cs. slash # join_on slash cs) (butlast (prefixes (comps p)))"

definition Lstat :: "tree \<Rightarrow> string \<Rightarrow> path_error + node option" where
  "Lstat t p =
     (case t p of
        Some n \<Rightarrow> Inr (Some n)
      | None \<Rightarrow>
          if list_ex (\<lambda>a. t a = Some NodeFile \<or> t a = Some NodeOther) (ancestors p) then Inl (FsFailed p)
          else Inr None)"

definition Mkdir :: "tree \<Rightarrow> string \<Rightarrow> (path_error option) \<times> tree" where
  "Mkdir t p =
     (if t (Dir p) = Some NodeDir \<or> t (Dir p) = Some NodeSymlink
      then (None, t(p \<mapsto> NodeDir)) else (Some (FsFailed p), t))"

definition rejectSymlink :: "tree \<Rightarrow> string \<Rightarrow> path_error option" where
  "rejectSymlink t p =
     (case Lstat t p of
        Inl e \<Rightarrow> Some e
      | Inr None \<Rightarrow> None
      | Inr (Some n) \<Rightarrow> if n = NodeSymlink then Some (IsSymlink p) else None)"

definition ensureDirComponent :: "string \<Rightarrow> tree \<Rightarrow> path_error option \<times> tree" where
  "ensureDirComponent dir t =
     (case Lstat t dir of
        Inl e \<Rightarrow> (Some e, t)
      | Inr (Some n) \<Rightarrow>
          if n = NodeSymlink then (Some (IsSymlink dir), t)
          else if n \<noteq> NodeDir then (Some (NotADirectory dir), t)
          else (None, t)
      | Inr None \<Rightarrow>
          (case Mkdir t dir of
             (Some e, t') \<Rightarrow> (Some e, t')
           | (None, t') \<Rightarrow> (rejectSymlink t' dir, t')))"

fun ensure_dirs :: "string \<Rightarrow> string list \<Rightarrow> tree \<Rightarrow> path_error option \<times> tree" where
  "ensure_dirs current [] t = (None, t)"
| "ensure_dirs current (part # parts) t =
     (let next = Join [current, part] in
      case ensureDirComponent next t of
        (Some e, t') \<Rightarrow> (Some e, t')
      | (None, t') \<Rightarrow> ensure_dirs next parts t')"

definition EnsureSafeDir :: "string \<Rightarrow> string \<Rightarrow> tree \<Rightarrow> path_error option \<times> tree" where
  "EnsureSafeDir rootAbs dirAbs t =
     (case RelWithinRoot (Clean rootAbs) (Clean dirAbs) of
        Inl e \<Rightarrow> (Some e, t)
      | Inr rel \<Rightarrow>
          if rel = [] then ensureDirComponent (Clean rootAbs) t
          else ensure_dirs (Clean rootAbs) (split_on slash rel) t)"

definition EnsureSafeParents :: "string \<Rightarrow> string \<Rightarrow> tree \<Rightarrow> path_error option \<times> tree" where
  "EnsureSafeParents rootAbs targetAbs t = EnsureSafeDir rootAbs (Dir (Clean targetAbs)) t"

fun reject_links :: "string \<Rightarrow> string list \<Rightarrow> tree \<Rightarrow> path_error option" where
  "reject_links current [] t = None"
| "reject_links current (part # parts) t =
     (let next = Join [current, part] in
      case rejectSymlink t next of Some e \<Rightarrow> Some e | None \<Rightarrow> reject_links next parts t)"

definition RejectSymlinkParents :: "string \<Rightarrow> string \<Rightarrow> tree \<Rightarrow> path_error option" where
  "RejectSymlinkParents rootAbs targetAbs t =
     (case RelWithinRoot (Clean rootAbs) (Clean targetAbs) of
        Inl e \<Rightarrow> Some e
      | Inr _ \<Rightarrow>
          (case Rel (Clean rootAbs) (Clean targetAbs) of
             None \<Rightarrow> Some CannotRel
           | Some rel \<Rightarrow>
               if Clean rel = ''.'' then rejectSymlink t (Clean rootAbs)
               else reject_links (Clean rootAbs) (butlast (split_on slash (Clean rel))) t))"

end
