(* ===== verification/PathsCorrect.thy ===== *)
theory PathsCorrect
  imports Paths
begin

text \<open>
  Facts about the path rules: cleaned paths as lists of proper components, which
  remote paths are accepted, where an accepted one resolves to, when two roots
  overlap, and what the directory walks guarantee.
\<close>

section \<open>Cleaned paths\<close>

definition proper :: "string \<Rightarrow> bool" where
  "proper c \<longleftrightarrow> c \<noteq> [] \<and> c \<noteq> ''.'' \<and> c \<noteq> ''..'' \<and> slash \<notin> set c"

definition good :: "string list \<Rightarrow> bool" where
  "good cs \<longleftrightarrow> (\<forall>c \<in> set cs. proper c)"

lemma good_simps [simp]:
  "good []" "good (c # cs) \<longleftrightarrow> proper c \<and> good cs" "good (cs @ ds) \<longleftrightarrow> good cs \<and> good ds"
  "good (rev cs) \<longleftrightarrow> good cs"
  by (auto simp: good_def)

lemma good_no_slash: "good cs \<Longrightarrow> \<forall>c \<in> set cs. slash \<notin> set c"
  by (simp add: good_def proper_def)

lemma fold_clean_good: "good cs \<Longrightarrow> fold (clean_step r) cs st = rev cs @ st"
  by (induction cs arbitrary: st) (simp_all add: proper_def)

lemma clean_step_good: "good st \<Longrightarrow> slash \<notin> set part \<Longrightarrow> good (clean_step True part st)"
  by (auto simp: proper_def split: list.split)

lemma fold_clean_rooted:
  "good st \<Longrightarrow> \<forall>c \<in> set cs. slash \<notin> set c \<Longrightarrow> good (fold (clean_step True) cs st)"
  by (induction cs arbitrary: st) (simp_all del: clean_step.simps add: clean_step_good)

lemma clean_parts_rooted: "good (clean_parts True p)"
  unfolding clean_parts_def using fold_clean_rooted [of "[]" "split_on slash p"]
  by (simp add: split_on_no_sep)

lemma split_good: "good cs \<Longrightarrow> cs \<noteq> [] \<Longrightarrow> split_on slash (join_on slash cs) = cs"
  by (rule split_join_on) (auto dest: good_no_slash)

lemma clean_parts_slash [simp]: "clean_parts r (slash # p) = clean_parts r p"
  by (simp add: clean_parts_def)

lemma clean_parts_join [simp]: "good cs \<Longrightarrow> clean_parts r (join_on slash cs) = cs"
  by (cases "cs = []") (simp_all add: clean_parts_def split_good fold_clean_good)

lemma good_hd: "good cs \<Longrightarrow> cs \<noteq> [] \<Longrightarrow> join_on slash cs \<noteq> [] \<and> hd (join_on slash cs) \<noteq> slash"
  by (cases cs rule: join_on.cases [of "(slash, cs)" for cs, simplified])
    (auto simp: proper_def hd_append dest: hd_in_set)

lemma not_IsAbs_join [simp]: "good cs \<Longrightarrow> \<not> IsAbs (join_on slash cs)"
  by (cases "cs = []") (simp_all add: IsAbs_def good_hd)

lemma IsAbs_slash [simp]: "IsAbs (slash # p)" "\<not> IsAbs []"
  by (simp_all add: IsAbs_def)

lemma Clean_abs [simp]: "good cs \<Longrightarrow> Clean (slash # join_on slash cs) = slash # join_on slash cs"
  by (simp add: Clean_def)

lemma Clean_rel [simp]: "good cs \<Longrightarrow> cs \<noteq> [] \<Longrightarrow> Clean (join_on slash cs) = join_on slash cs"
  using good_hd [of cs] by (simp add: Clean_def)

lemma Clean_IsAbs:
  assumes "IsAbs p" obtains cs where "good cs" and "Clean p = slash # join_on slash cs"
proof (rule that)
  show "good (clean_parts True p)" by (rule clean_parts_rooted)
  show "Clean p = slash # join_on slash (clean_parts True p)" using assms by (auto simp: Clean_def IsAbs_def)
qed

lemma IsAbs_Clean [simp]: "IsAbs p \<Longrightarrow> IsAbs (Clean p)"
  by (erule Clean_IsAbs) simp

lemma Clean_dot [simp]: "Clean ''.'' = ''.''"
  by code_simp

lemma Clean_idem [simp]: "IsAbs p \<Longrightarrow> Clean (Clean p) = Clean p"
  by (erule Clean_IsAbs) simp

lemma join_good_inj: "good cs \<Longrightarrow> good ds \<Longrightarrow> join_on slash cs = join_on slash ds \<longleftrightarrow> cs = ds"
  by (metis good_hd join_on.simps(1) split_good)

lemma join_good_not_dot: "good cs \<Longrightarrow> join_on slash cs \<noteq> ''.'' \<and> join_on slash cs \<noteq> ''..''"
proof
  assume g: "good cs"
  have *: "join_on slash cs \<noteq> d" if "slash \<notin> set d" "d \<noteq> []" "\<not> proper d" for d
  proof
    assume j: "join_on slash cs = d"
    with that(2) have "cs \<noteq> []" by auto
    with g j that(1) have "cs = [d]" using split_good [of cs] by (simp add: split_on_none)
    with g that(3) show False by simp
  qed
  show "join_on slash cs \<noteq> ''.''" by (rule *) (simp_all add: proper_def)
  show "join_on slash cs \<noteq> ''..''" by (rule *) (simp_all add: proper_def)
qed

lemma comps_join [simp]: "good cs \<Longrightarrow> comps (join_on slash cs) = cs"
proof (cases "cs = []")
  case False
  assume "good cs"
  moreover from this have "filter (\<lambda>c. c \<noteq> []) cs = cs" by (simp add: filter_id_conv good_def proper_def)
  ultimately show ?thesis using False by (simp add: comps_def split_good)
qed (simp add: comps_def)

lemma comps_slash [simp]: "comps (slash # p) = comps p" "comps [] = []"
  by (simp_all add: comps_def)

section \<open>Accepted remote paths\<close>

lemma validate_exact:
  "validateSlashRelPath raw allowEmpty = Inr rel \<longleftrightarrow> rel = raw \<and>
     (raw = [] \<and> allowEmpty \<or>
      raw \<noteq> [] \<and> nul \<notin> set raw \<and> CHR 0x5C \<notin> set raw \<and> good (split_on slash raw))"
proof (cases "raw \<noteq> [] \<and> good (split_on slash raw)")
  case True
  let ?cs = "split_on slash raw"
  have g: "good ?cs" using True by simp
  then have "Clean raw = raw" "\<not> IsAbs raw" "raw \<noteq> ''.''" "raw \<noteq> ''..''"
    using Clean_rel [OF g] not_IsAbs_join [OF g] join_good_not_dot [OF g] by simp_all
  moreover have "\<not> prefix ''../'' raw"
  proof
    assume "prefix ''../'' raw"
    then obtain x where "raw = ''..'' @ slash # x" by (auto simp: prefix_def)
    then have "''..'' \<in> set ?cs" by (simp add: split_on_append)
    with g show False by (auto simp: good_def proper_def)
  qed
  moreover have "\<not> list_ex (\<lambda>part. part = ''.'' \<or> part = ''..'' \<or> part = []) ?cs"
    using g by (auto simp: list_ex_iff good_def proper_def)
  ultimately show ?thesis
    using True by (auto simp: validateSlashRelPath_def Let_def)
next
  case False
  then show ?thesis
    by (auto simp: validateSlashRelPath_def Let_def list_ex_iff good_def proper_def split_on_no_sep split: if_splits)
qed

lemma validate_join:
  assumes "validateSlashRelPath raw allowEmpty = Inr rel" and "raw \<noteq> []"
  obtains cs where "good cs" and "cs \<noteq> []" and "raw = join_on slash cs" and "rel = raw"
  using assms by (intro that [of "split_on slash raw"]) (simp_all add: validate_exact)

section \<open>Containment\<close>

lemma strip_common_append: "strip_common cs (cs @ ds) = ([], ds)"
  by (induction cs) simp_all

lemma join_prefix_iff:
  assumes "good cs" and "good ts"
  shows "prefix (slash # join_on slash cs @ ''/'') (slash # join_on slash ts)
    \<longleftrightarrow> cs \<noteq> [] \<and> strict_prefix cs ts"
proof
  assume "prefix (slash # join_on slash cs @ ''/'') (slash # join_on slash ts)"
  then obtain x where x: "join_on slash ts = join_on slash cs @ slash # x" by (auto simp: prefix_def)
  then have ts: "ts \<noteq> []" by auto
  have cs: "cs \<noteq> []" using x good_hd [OF assms(2) ts] by auto
  from x have "split_on slash (join_on slash ts) = split_on slash (join_on slash cs @ slash # x)" by simp
  then have "ts = cs @ split_on slash x" using assms ts cs by (simp add: split_on_Cons_sep split_good)
  with cs show "cs \<noteq> [] \<and> strict_prefix cs ts" by (simp add: strict_prefix_def)
next
  assume "cs \<noteq> [] \<and> strict_prefix cs ts"
  then obtain ds where "ts = cs @ ds" "ds \<noteq> []" "cs \<noteq> []" by (auto simp: strict_prefix_def prefix_def)
  then show "prefix (slash # join_on slash cs @ ''/'') (slash # join_on slash ts)"
    by (simp add: join_on_append)
qed

lemma Rel_below:
  assumes "good cs" and "good ds" and "ds \<noteq> []"
  shows "Rel (slash # join_on slash cs) (slash # join_on slash (cs @ ds)) = Some (join_on slash ds)"
  using assms by (simp add: Rel_def join_good_inj strip_common_append)

lemma RelWithinRoot_abs:
  assumes "good cs" "good ts" and "Clean r = slash # join_on slash cs" and "Clean t = slash # join_on slash ts"
  shows "RelWithinRoot r t =
    (if ts = cs then Inr []
     else if cs \<noteq> [] \<and> prefix cs ts then Inr (join_on slash (drop (length cs) ts))
     else Inl (OutsideRoot (Clean t)))"
proof (cases "cs \<noteq> [] \<and> strict_prefix cs ts")
  case True
  then obtain ds where ds: "ts = cs @ ds" "ds \<noteq> []" by (auto simp: strict_prefix_def prefix_def)
  have "prefix (Clean r @ ''/'') (Clean t)"
    using join_prefix_iff [OF assms(1,2)] True by (simp add: assms(3,4))
  moreover have "Rel (Clean r) (Clean t) = Some (join_on slash ds)"
    using Rel_below [of cs ds] assms ds by simp
  moreover have "Clean (join_on slash ds) = join_on slash ds" using assms(2) ds by simp
  moreover have "join_on slash ds \<noteq> ''.''" using join_good_not_dot [of ds] assms(2) ds by simp
  moreover have "Clean t \<noteq> Clean r" using assms ds by (simp add: join_good_inj)
  ultimately show ?thesis using ds True by (simp add: RelWithinRoot_def Let_def)
next
  case False
  then have "\<not> prefix (Clean r @ ''/'') (Clean t)"
    using join_prefix_iff [OF assms(1,2)] by (simp add: assms(3,4))
  moreover have "ts = cs \<longleftrightarrow> Clean t = Clean r" using assms by (simp add: join_good_inj)
  ultimately show ?thesis using False by (auto simp: RelWithinRoot_def Let_def strict_prefix_def)
qed

lemma Join_abs:
  assumes "good cs" and "good ds" and "ds \<noteq> []"
  shows "Join [slash # join_on slash cs, join_on slash ds] = slash # join_on slash (cs @ ds)"
proof -
  have "fold (clean_step True) (split_on slash (join_on slash cs)) [] = rev cs"
    using assms(1) by (cases "cs = []") (simp_all add: split_good fold_clean_good)
  then have "clean_parts True (slash # join_on slash cs @ slash # join_on slash ds) = cs @ ds"
    using assms by (simp add: clean_parts_def split_on_Cons_sep split_good fold_clean_good)
  then show ?thesis by (simp add: Join_def Clean_def)
qed

lemma ResolveRemoteTarget_abs:
  assumes "IsAbs root" and "Clean root \<noteq> ''/''"
  shows "ResolveRemoteTarget root raw allowRoot =
    (case ValidateRemoteRelPath raw allowRoot of
       Inl e \<Rightarrow> Inl e
     | Inr rel \<Rightarrow> Inr (rel, if rel = [] then Clean root else Clean root @ slash # rel))"
proof -
  from Clean_IsAbs [OF assms(1)] obtain cs where cs: "good cs" "Clean root = slash # join_on slash cs" .
  have ne: "cs \<noteq> []" using assms(2) cs by auto
  show ?thesis
  proof (cases "ValidateRemoteRelPath raw allowRoot")
    case (Inr rel)
    show ?thesis
    proof (cases "rel = []")
      case True
      then show ?thesis using Inr cs RelWithinRoot_abs [of cs cs root "Clean root"]
        by (simp add: ResolveRemoteTarget_def ensureWithinRoot_def)
    next
      case False
      with Inr obtain ds where ds: "good ds" "ds \<noteq> []" "rel = join_on slash ds"
        by (metis ValidateRemoteRelPath_def validate_exact validate_join)
      have t: "Join [Clean root, rel] = slash # join_on slash (cs @ ds)" using cs ds Join_abs by simp
      have "RelWithinRoot root (Join [Clean root, rel]) = Inr (join_on slash ds)"
        using RelWithinRoot_abs [of cs "cs @ ds" root "slash # join_on slash (cs @ ds)"] cs ds(1,2) ne
        by (subst t) simp
      then show ?thesis using Inr False cs ds ne
        by (simp add: ResolveRemoteTarget_def ensureWithinRoot_def Join_abs join_on_append)
    qed
  qed (simp add: ResolveRemoteTarget_def)
qed

lemma resolved_target:
  assumes "IsAbs root" and "ResolveRemoteTarget root raw allowRoot = Inr (rel, target)"
  shows "rel = raw \<and> comps target = comps (Clean root) @ comps raw \<and> good (comps target)
    \<and> RelWithinRoot root target = Inr raw"
proof -
  from Clean_IsAbs [OF assms(1)] obtain cs where cs: "good cs" "Clean root = slash # join_on slash cs" .
  have v: "ValidateRemoteRelPath raw allowRoot = Inr rel" and w: "ensureWithinRoot root target = None"
    and t: "target = (if rel \<noteq> [] then Join [Clean root, rel] else Clean root)"
    using assms(2) by (auto simp: ResolveRemoteTarget_def Let_def split: sum.splits option.splits)
  have rel: "rel = raw" using v by (simp add: ValidateRemoteRelPath_def validate_exact)
  show ?thesis
  proof (cases "raw = []")
    case True
    then show ?thesis using cs rel t RelWithinRoot_abs [of cs cs root target] by simp
  next
    case False
    with v obtain ds where ds: "good ds" "ds \<noteq> []" "raw = join_on slash ds"
      by (metis ValidateRemoteRelPath_def validate_join)
    have t': "target = slash # join_on slash (cs @ ds)" using t rel False cs ds Join_abs by simp
    have "RelWithinRoot root target = Inr raw"
      using RelWithinRoot_abs [of cs "cs @ ds" root target] cs ds w t'
      by (auto simp: ensureWithinRoot_def split: if_splits)
    with t' cs ds rel show ?thesis by simp
  qed
qed

section \<open>Overlapping roots\<close>

lemma trim_join:
  assumes g: "good cs" and ne: "cs \<noteq> []"
  shows "trim_suffix ''/'' (trim_prefix ''./'' (join_on slash cs)) = join_on slash cs"
proof -
  let ?p = "join_on slash cs"
  have "\<not> prefix ''./'' ?p"
  proof
    assume "prefix ''./'' ?p"
    then obtain x where "?p = ''.'' @ slash # x" by (auto simp: prefix_def)
    then have "split_on slash ?p = ''.'' # split_on slash x" by (simp add: split_on_append)
    then show False using g split_good [OF g ne] by (cases cs) (auto simp: proper_def)
  qed
  moreover have "\<not> suffix ''/'' ?p"
  proof
    assume "suffix ''/'' ?p"
    then obtain x where "?p = x @ slash # []" by (auto simp: suffix_def)
    then have "split_on slash ?p = split_on slash x @ split_on slash []" by (simp only: split_on_Cons_sep)
    then have "[] \<in> set cs" using split_good [OF g ne] by simp
    then show False using g by (auto simp: good_def proper_def)
  qed
  ultimately show ?thesis by (simp add: trim_prefix_def trim_suffix_def)
qed

lemma cleanStored_join [simp]: "good cs \<Longrightarrow> cleanStored (join_on slash cs) = join_on slash cs"
proof (cases "cs = []")
  case True
  then show ?thesis by simp code_simp
next
  case False
  assume g: "good cs"
  then show ?thesis
    using False trim_join [OF g False] join_good_not_dot [OF g] by (simp add: cleanStored_def)
qed

lemma overlaps_join:
  assumes "good cs" "good ds" "cs \<noteq> []" "ds \<noteq> []"
  shows "overlaps (join_on slash cs) (join_on slash ds) \<longleftrightarrow> prefix cs ds \<or> prefix ds cs"
  using join_prefix_iff [OF assms(1,2)] join_prefix_iff [OF assms(2,1)] assms
  by (auto simp: overlaps_def join_good_inj good_hd strict_prefix_def)

lemma CheckOverlap_None:
  "CheckOverlap p existing = None \<longleftrightarrow> (\<forall>q \<in> set existing. \<not> overlaps (cleanStored p) (cleanStored q))"
  by (induction existing) auto

lemma valid_home_path:
  assumes "ValidateHomeRelPath p = Inr p"
  shows "good (split_on slash p)" and "cleanStored p = p" and "p \<noteq> []"
proof -
  from assms show g: "good (split_on slash p)" and "p \<noteq> []"
    by (simp_all add: ValidateHomeRelPath_def validate_exact)
  from cleanStored_join [OF g] show "cleanStored p = p" by simp
qed

lemma CheckOverlap_valid:
  assumes "ValidateHomeRelPath p = Inr p" and "\<forall>q \<in> set existing. ValidateHomeRelPath q = Inr q"
  shows "CheckOverlap p existing = None \<longleftrightarrow>
    (\<forall>q \<in> set existing. \<not> prefix (split_on slash p) (split_on slash q)
        \<and> \<not> prefix (split_on slash q) (split_on slash p))"
proof -
  have "overlaps (cleanStored p) (cleanStored q)
      \<longleftrightarrow> prefix (split_on slash p) (split_on slash q) \<or> prefix (split_on slash q) (split_on slash p)"
    if "q \<in> set existing" for q
  proof -
    have "ValidateHomeRelPath q = Inr q" using assms(2) that by simp
    with valid_home_path [OF this] valid_home_path [OF assms(1)]
      overlaps_join [of "split_on slash p" "split_on slash q"] show ?thesis by simp
  qed
  then show ?thesis by (auto simp: CheckOverlap_None)
qed

section \<open>Local and remote view of a root\<close>

lemma Join_IsAbs: "IsAbs d \<Longrightarrow> IsAbs (Join [d, p])"
proof -
  assume d: "IsAbs d"
  then obtain x where x: "d = slash # x" by (cases d) (auto simp: IsAbs_def)
  have "IsAbs (join_on slash (d # ps))" for ps by (cases ps) (simp_all add: x)
  then show ?thesis by (simp add: Join_def x)
qed

lemma home_relative_abs:
  assumes "good hs" and "good ts" and "home_relative (slash # join_on slash hs) (slash # join_on slash ts) = Inr rel"
  obtains ds where "ts = hs @ ds" and "ds \<noteq> []" and "rel = join_on slash ds"
proof (cases "ts = hs")
  case True
  with assms show ?thesis by (simp add: home_relative_def Rel_def split: if_splits)
next
  case False
  then have "prefix (slash # join_on slash hs @ ''/'') (slash # join_on slash ts)"
    using assms by (auto simp: home_relative_def join_good_inj split: if_splits)
  then obtain ds where ds: "ts = hs @ ds" "ds \<noteq> []"
    using join_prefix_iff [OF assms(1,2)] by (auto simp: strict_prefix_def prefix_def)
  then have g: "good ds" using assms(2) by simp
  have "rel = trim_suffix ''/'' (trim_prefix ''./'' (join_on slash ds))"
    using assms ds g Rel_below [OF assms(1) g ds(2)] join_good_not_dot [OF g]
    by (auto simp: home_relative_def split: if_splits)
  then have "rel = join_on slash ds" using g ds(2) by (simp add: trim_join)
  with ds that show ?thesis by blast
qed

lemma Canonicalize_Resolve:
  assumes c: "CanonicalizeRootPath (Some h) cwd input existing = Inr (target, rel)"
    and h: "IsAbs h" and cwd: "\<And>d. cwd = Some d \<Longrightarrow> IsAbs d"
    and chars: "nul \<notin> set rel" "CHR 0x5C \<notin> set rel"
  shows "ResolveHomeRelTarget (Some h) rel = Inr (rel, target)"
proof -
  have h': "HomeDir (Some h) = Inr (Clean h)" using h by (auto simp: HomeDir_def)
  from Clean_IsAbs [OF h] obtain hs where hs: "good hs" "Clean h = slash # join_on slash hs" .
  obtain expanded abs0 where a: "Abs cwd expanded = Inr abs0"
    and r: "home_relative (Clean h) (Clean abs0) = Inr rel" and t: "target = Clean abs0"
    using c h' by (auto simp: CanonicalizeRootPath_def split: sum.splits option.splits)
  have "IsAbs abs0" using a cwd by (auto simp: Abs_def Join_IsAbs split: if_splits option.splits)
  then obtain ts where ts: "good ts" "Clean abs0 = slash # join_on slash ts" by (rule Clean_IsAbs)
  from r obtain ds where ds: "ts = hs @ ds" "ds \<noteq> []" "rel = join_on slash ds"
    unfolding hs(2) ts(2) by (rule home_relative_abs [OF hs(1) ts(1)])
  have g: "good ds" using ts(1) ds(1) by simp
  have v: "ValidateHomeRelPath rel = Inr rel"
    using chars g ds(2,3) good_hd [OF g ds(2)] by (simp add: ValidateHomeRelPath_def validate_exact split_good)
  have tg: "TargetForHomeRel (Some h) rel = Inr target"
    using g ds hs ts t by (simp add: TargetForHomeRel_def h' Join_abs)
  have hne: "hs \<noteq> []"
    using r ds hs ts join_prefix_iff [OF hs(1) ts(1)] by (auto simp: home_relative_def join_good_inj split: if_splits)
  have "ensureWithinRoot (Clean h) target = None"
    using RelWithinRoot_abs [of hs ts "Clean h" target] hs ts t ds hne by (simp add: ensureWithinRoot_def)
  then show ?thesis by (simp add: ResolveHomeRelTarget_def v tg h')
qed

section \<open>Directory walks\<close>

lemma ensureDirComponent_ok:
  assumes "ensureDirComponent dir t = (r, t')"
  shows "t \<subseteq>\<^sub>m t'" and "\<And>p. p \<noteq> dir \<Longrightarrow> t' p = t p" and "t' dir \<noteq> t dir \<Longrightarrow> t' dir = Some NodeDir"
    and "r = None \<Longrightarrow> t' dir = Some NodeDir"
  using assms
  by (auto simp: ensureDirComponent_def Lstat_def Mkdir_def map_le_def split: option.splits sum.splits if_splits)

lemma ensure_dirs_ok:
  assumes "good cs" and "good ds" and "ensure_dirs (slash # join_on slash cs) ds t = (r, t')"
  shows "t \<subseteq>\<^sub>m t'
    \<and> (\<forall>p. t' p \<noteq> t p \<longrightarrow> t' p = Some NodeDir \<and> (\<exists>es. es \<noteq> [] \<and> prefix es ds \<and> p = slash # join_on slash (cs @ es)))
    \<and> (r = None \<longrightarrow> (\<forall>es. es \<noteq> [] \<longrightarrow> prefix es ds \<longrightarrow> t' (slash # join_on slash (cs @ es)) = Some NodeDir))"
  using assms
proof (induction ds arbitrary: cs t)
  case (Cons d ds)
  let ?p = "slash # join_on slash (cs @ [d])"
  have g: "good (cs @ [d])" "good ds" using Cons.prems by simp_all
  have nxt: "Join [slash # join_on slash cs, d] = ?p"
    using Join_abs [of cs "[d]"] Cons.prems by simp
  obtain r1 t1 where s1: "ensureDirComponent ?p t = (r1, t1)" by fastforce
  note c = ensureDirComponent_ok [OF s1]
  have pre: "prefix es (d # ds) \<Longrightarrow> es \<noteq> [] \<Longrightarrow> es = [d] \<or> (\<exists>fs. es = d # fs \<and> fs \<noteq> [] \<and> prefix fs ds)" for es
    by (cases es) auto
  show ?case
  proof (cases r1)
    case (Some e)
    then have r: "r = Some e" "t' = t1" using Cons.prems(3) by (simp_all add: nxt s1)
    have "t1 p = Some NodeDir \<and> (\<exists>es. es \<noteq> [] \<and> prefix es (d # ds) \<and> p = slash # join_on slash (cs @ es))"
      if "t1 p \<noteq> t p" for p
    proof -
      have "p = ?p" "t1 p = Some NodeDir" using that c(2,3) by metis+
      then show ?thesis by (intro conjI exI [of _ "[d]"]) simp_all
    qed
    with c(1) show ?thesis unfolding r by blast
  next
    case None
    then have rest: "ensure_dirs ?p ds t1 = (r, t')" using Cons.prems(3) by (simp add: nxt s1)
    note ih = Cons.IH [OF g rest]
    have le: "t \<subseteq>\<^sub>m t'" using c(1) ih map_le_trans by blast
    have ch: "t' p = Some NodeDir \<and> (\<exists>es. es \<noteq> [] \<and> prefix es (d # ds) \<and> p = slash # join_on slash (cs @ es))"
      if "t' p \<noteq> t p" for p
    proof (cases "t' p = t1 p")
      case True
      with that c(2,3) have "p = ?p" "t' p = Some NodeDir" by metis+
      then show ?thesis by (intro conjI exI [of _ "[d]"]) simp_all
    next
      case False
      with ih obtain es where "t' p = Some NodeDir" "es \<noteq> []" "prefix es ds" "p = slash # join_on slash ((cs @ [d]) @ es)"
        by blast
      then show ?thesis by (intro conjI exI [of _ "d # es"]) simp_all
    qed
    have "t' ?p = Some NodeDir" using c(4) None ih by (metis domI map_le_def)
    then have "t' (slash # join_on slash (cs @ es)) = Some NodeDir"
      if "r = None" "es \<noteq> []" "prefix es (d # ds)" for es
      using pre [OF that(3,2)] ih that(1) by auto
    with le ch show ?thesis by blast
  qed
qed simp

lemma reject_links_dirs:
  assumes "good cs" and "good ds"
    and "\<And>es. es \<noteq> [] \<Longrightarrow> prefix es ds \<Longrightarrow> t (slash # join_on slash (cs @ es)) = Some NodeDir"
  shows "reject_links (slash # join_on slash cs) ds t = None"
  using assms
proof (induction ds arbitrary: cs)
  case (Cons d ds)
  have nxt: "Join [slash # join_on slash cs, d] = slash # join_on slash (cs @ [d])"
    using Join_abs [of cs "[d]"] Cons.prems by simp
  have "rejectSymlink t (slash # join_on slash (cs @ [d])) = None"
    using Cons.prems(3) [of "[d]"] by (simp add: rejectSymlink_def Lstat_def)
  moreover have "reject_links (slash # join_on slash (cs @ [d])) ds t = None"
    using Cons.prems by (intro Cons.IH) (simp_all add: Cons.prems(3) [of "d # es" for es, simplified])
  ultimately show ?case by (simp add: nxt)
qed simp

text \<open>What \<open>EnsureSafeDir\<close> leaves behind.\<close>

lemma EnsureSafeDir_ok:
  assumes "IsAbs root" and "IsAbs dir" and "EnsureSafeDir root dir t = (None, t')"
    and "Clean dir \<noteq> Clean root"
  obtains ds where "ds \<noteq> []" and "good ds" and "comps (Clean dir) = comps (Clean root) @ ds"
    and "t \<subseteq>\<^sub>m t'"
    and "\<And>es. es \<noteq> [] \<Longrightarrow> prefix es ds \<Longrightarrow> t' (slash # join_on slash (comps (Clean root) @ es)) = Some NodeDir"
    and "\<And>p. t' p \<noteq> t p \<Longrightarrow> \<exists>es. es \<noteq> [] \<and> prefix es ds \<and> p = slash # join_on slash (comps (Clean root) @ es)"
proof -
  from Clean_IsAbs [OF assms(1)] obtain cs where cs: "good cs" "Clean root = slash # join_on slash cs" .
  from Clean_IsAbs [OF assms(2)] obtain ts where ts: "good ts" "Clean dir = slash # join_on slash ts" .
  have rel: "RelWithinRoot (Clean root) (Clean dir) =
      (if ts = cs then Inr []
       else if cs \<noteq> [] \<and> prefix cs ts then Inr (join_on slash (drop (length cs) ts))
       else Inl (OutsideRoot (Clean dir)))"
    using RelWithinRoot_abs [of cs ts "Clean root" "Clean dir"] cs ts by simp
  have "ts \<noteq> cs" using assms(4) cs ts by auto
  with assms(3) rel have p: "cs \<noteq> []" "prefix cs ts" by (auto simp: EnsureSafeDir_def split: if_splits)
  then obtain ds where ds: "ts = cs @ ds" "ds \<noteq> []" using \<open>ts \<noteq> cs\<close> by (auto simp: prefix_def)
  have g: "good ds" using ts ds by simp
  have "ensure_dirs (slash # join_on slash cs) ds t = (None, t')"
    using assms(3) rel p ds g cs good_hd [OF g ds(2)] by (simp add: EnsureSafeDir_def split_good split: if_splits)
  from ensure_dirs_ok [OF cs(1) g this] ds g cs ts show ?thesis
    by (intro that [of ds]) auto
qed

text \<open>A directory below the root, reached through real directories, has no link on its way.\<close>

lemma RejectSymlinkParents_dirs:
  assumes "IsAbs root" and "IsAbs dir" and "Clean dir \<noteq> Clean root"
    and eq: "comps (Clean dir) = comps (Clean root) @ ds" and g: "good ds"
    and dirs: "\<And>es. es \<noteq> [] \<Longrightarrow> prefix es ds \<Longrightarrow> t (slash # join_on slash (comps (Clean root) @ es)) = Some NodeDir"
    and ok: "RelWithinRoot (Clean root) (Clean dir) = Inr rel"
  shows "RejectSymlinkParents root dir t = None"
proof -
  from Clean_IsAbs [OF assms(1)] obtain cs where cs: "good cs" "Clean root = slash # join_on slash cs" .
  from Clean_IsAbs [OF assms(2)] obtain ts where ts: "good ts" "Clean dir = slash # join_on slash ts" .
  have t: "ts = cs @ ds" using eq cs ts by simp
  have ne: "ds \<noteq> []" using assms(3) cs ts t by auto
  have "Rel (Clean root) (Clean dir) = Some (join_on slash ds)"
    using Rel_below [OF cs(1) g ne] cs ts t by simp
  moreover have "Clean (join_on slash ds) = join_on slash ds" "join_on slash ds \<noteq> ''.''"
    using join_good_not_dot [OF g] g ne by simp_all
  moreover have "reject_links (slash # join_on slash cs) (butlast ds) t = None"
  proof (rule reject_links_dirs [OF cs(1)])
    show "good (butlast ds)" using g ne by (metis append_butlast_last_id good_simps(3))
    show "t (slash # join_on slash (cs @ es)) = Some NodeDir" if "es \<noteq> []" "prefix es (butlast ds)" for es
      using dirs [of es] that cs prefix_order.trans [OF that(2), of ds] by (simp add: prefixeq_butlast)
  qed
  ultimately show ?thesis
    using ok cs split_good [OF g ne] by (simp add: RejectSymlinkParents_def)
qed

end
