(* ===== verification/ClientClaims.thy ===== *)
theory ClientClaims
  imports ClientStateCorrect PathsCorrect Crypto
begin

text \<open>
  The properties of what client and server share (paths, recovery keys, encrypted
  blobs) and of the client's database, each with an instance where it has
  hypotheses.
\<close>

section \<open>Paths\<close>

text \<open>C22: Exactly the canonical relative paths are accepted from a peer: the result is the input, which
  is a nonempty list of components, none of them empty, a dot or two dots, without NUL or
  backslash; or the empty path where that is allowed.\<close>

theorem remote_path_exact:
  "ValidateRemoteRelPath raw allowRoot = Inr rel \<longleftrightarrow> rel = raw \<and>
     (raw = [] \<and> allowRoot \<or>
      raw \<noteq> [] \<and> nul \<notin> set raw \<and> CHR 0x5C \<notin> set raw
        \<and> list_all (\<lambda>c. c \<noteq> [] \<and> c \<noteq> ''.'' \<and> c \<noteq> ''..'') (split_on slash raw))"
proof -
  have "good (split_on slash raw) \<longleftrightarrow> list_all (\<lambda>c. c \<noteq> [] \<and> c \<noteq> ''.'' \<and> c \<noteq> ''..'') (split_on slash raw)"
    by (auto simp: good_def proper_def list_all_iff dest: split_on_no_sep)
  then show ?thesis by (simp add: ValidateRemoteRelPath_def validate_exact)
qed

text \<open>C23: A remote path never leaves its root. If a peer's path resolves below an absolute root, the
  target's components are the root's followed by the path's, none of them is two dots, and the
  relative path can be read back from the target.\<close>

theorem remote_target_contained:
  assumes "IsAbs root" and "ResolveRemoteTarget root raw allowRoot = Inr (rel, target)"
  shows "rel = raw \<and> comps target = comps (Clean root) @ comps raw \<and> ''..'' \<notin> set (comps target)
    \<and> RelWithinRoot root target = Inr raw"
proof -
  from resolved_target [OF assms] have t: "rel = raw" "comps target = comps (Clean root) @ comps raw"
    "good (comps target)" "RelWithinRoot root target = Inr raw" by blast+
  from t(3) have "''..'' \<notin> set (comps target)" by (auto simp: good_def proper_def)
  with t show ?thesis by simp
qed

theorem remote_target_contained_witness:
  "comps ''/home/u/docs/a/b.txt'' = [''home'', ''u'', ''docs'', ''a'', ''b.txt'']
   \<and> RelWithinRoot ''/home/u//docs/'' ''/home/u/docs/a/b.txt'' = Inr ''a/b.txt''"
proof -
  have "IsAbs ''/home/u//docs/''" by code_simp
  moreover have "ResolveRemoteTarget ''/home/u//docs/'' ''a/b.txt'' False = Inr (''a/b.txt'', ''/home/u/docs/a/b.txt'')"
    by code_simp
  ultimately have "comps ''/home/u/docs/a/b.txt'' = comps (Clean ''/home/u//docs/'') @ comps ''a/b.txt''
      \<and> RelWithinRoot ''/home/u//docs/'' ''/home/u/docs/a/b.txt'' = Inr ''a/b.txt''"
    using remote_target_contained by blast
  moreover have "comps (Clean ''/home/u//docs/'') @ comps ''a/b.txt'' = [''home'', ''u'', ''docs'', ''a'', ''b.txt'']"
    by code_simp
  ultimately show ?thesis by simp
qed

text \<open>C24: Two roots never overlap. For well-formed home-relative paths, a candidate passes the overlap
  check exactly when no existing root is the same directory, lies inside it or contains it.\<close>

theorem roots_disjoint:
  assumes "ValidateHomeRelPath p = Inr p" and "\<forall>q \<in> set existing. ValidateHomeRelPath q = Inr q"
  shows "CheckOverlap p existing = None \<longleftrightarrow>
    (\<forall>q \<in> set existing. \<not> prefix (split_on slash p) (split_on slash q)
        \<and> \<not> prefix (split_on slash q) (split_on slash p))"
  by (rule CheckOverlap_valid [OF assms])

theorem roots_disjoint_witness: "CheckOverlap ''docs/a'' [''docs/ab'', ''pics''] = None"
proof -
  have "ValidateHomeRelPath ''docs/a'' = Inr ''docs/a''"
    and "\<forall>q \<in> set [''docs/ab'', ''pics'']. ValidateHomeRelPath q = Inr q"
    and "\<forall>q \<in> set [''docs/ab'', ''pics'']. \<not> prefix (split_on slash ''docs/a'') (split_on slash q)
        \<and> \<not> prefix (split_on slash q) (split_on slash ''docs/a'')"
    by code_simp+
  with roots_disjoint show ?thesis by blast
qed




definition demo_tree :: tree where
  "demo_tree = [''/home'' \<mapsto> NodeDir, ''/home/u'' \<mapsto> NodeDir, ''/home/u/docs'' \<mapsto> NodeDir]"


section \<open>Keys and encrypted blobs\<close>

lemma hex_decode_no_dash: "hex_decode cs = Some bs \<Longrightarrow> CHR ''-'' \<notin> set cs"
  by (induction cs arbitrary: bs rule: hex_decode.induct) (auto simp: hex_value_def split: option.splits)

lemma ParseRecoveryKey_shape:
  assumes "ParseRecoveryKey px display = Inr raw"
  obtains "length raw = 32 \<and> (\<exists>digits. display = ''syna1-'' @ digits @ ''-'' @ hex_encode (take 4 (px_sha256 px raw))
     \<and> hex_decode digits = Some raw)"
proof -
  obtain a b where sp: "split_on (CHR ''-'') display = [a, b, hex_encode (take 4 (px_sha256 px raw))]"
    and b: "hex_decode b = Some raw" and l: "length raw = 32" and pre: "take 6 display = recoveryPrefix"
    using assms by (auto simp: ParseRecoveryKey_def split: if_splits list.splits option.splits)
  from sp join_split_on [of "CHR ''-''" display]
  have d: "display = a @ CHR ''-'' # b @ CHR ''-'' # hex_encode (take 4 (px_sha256 px raw))" by simp
  have eq: "display = ''syna1'' @ CHR ''-'' # drop 6 display"
    using pre append_take_drop_id [of 6 display] by (simp add: recoveryPrefix_def)
  have "split_on (CHR ''-'') (''syna1'' @ CHR ''-'' # drop 6 display) = ''syna1'' # split_on (CHR ''-'') (drop 6 display)"
    by (rule split_on_append) simp
  with eq sp have "a = ''syna1''" by simp
  with d b l show ?thesis by (intro that) auto
qed

text \<open>Parts without the separator.\<close>

definition nul_free :: "string \<Rightarrow> bool" where
  "nul_free p \<longleftrightarrow> nul \<notin> set p"

lemma nul_free_parts [simp]:
  "nul_free ''syna-blob-v1''" "nul_free ''syna-event-v1''" "nul_free ''syna-snapshot-v1''"
  "nul_free (FormatInt i)"
  by (code_simp, code_simp, code_simp) (simp add: nul_free_def nul_FormatInt)

lemma joinAAD_eq:
  "ps \<noteq> [] \<Longrightarrow> qs \<noteq> [] \<Longrightarrow> list_all nul_free ps \<Longrightarrow> list_all nul_free qs \<Longrightarrow> joinAAD ps = joinAAD qs \<longleftrightarrow> ps = qs"
  using joinAAD_inj [of ps qs] by (auto simp: list_all_iff nul_free_def)

text \<open>C27: Recovery keys round trip, and only checksummed keys are accepted: \<open>ParseRecoveryKey\<close>
  returns exactly the keys of 32 bytes that hex digits in either case spell between the prefix and the
  first four bytes of their SHA-256; the text displayed for a key is one of them.\<close>

theorem recovery_key_exact:
  "(ParseRecoveryKey px display = Inr raw \<longleftrightarrow> length raw = 32 \<and>
      (\<exists>digits. display = ''syna1-'' @ digits @ ''-'' @ hex_encode (take 4 (px_sha256 px raw))
         \<and> hex_decode digits = Some raw))
   \<and> FormatRecoveryKey px raw = ''syna1-'' @ hex_encode raw @ ''-'' @ hex_encode (take 4 (px_sha256 px raw))"
proof
  let ?sum = "hex_encode (take 4 (px_sha256 px raw))"
  show "FormatRecoveryKey px raw = ''syna1-'' @ hex_encode raw @ ''-'' @ ?sum"
    by (simp add: FormatRecoveryKey_def recoveryPrefix_def)
  show "ParseRecoveryKey px display = Inr raw \<longleftrightarrow> length raw = 32 \<and>
      (\<exists>digits. display = ''syna1-'' @ digits @ ''-'' @ ?sum \<and> hex_decode digits = Some raw)" (is "?l = ?r")
  proof
    assume ?l
    then show ?r by (rule ParseRecoveryKey_shape) blast
  next
    assume ?r
    then obtain digits where d: "display = ''syna1-'' @ digits @ ''-'' @ ?sum"
      and h: "hex_decode digits = Some raw" and l: "length raw = 32" by blast
    have "split_on (CHR ''-'') display = [''syna1'', digits, ?sum]"
      using split_on_append [of "CHR ''-''" "''syna1''" "digits @ CHR ''-'' # ?sum"]
        split_on_append [OF hex_decode_no_dash [OF h], of ?sum] d
      by (simp add: split_on_none dash_hex)
    with h l show ?l by (simp add: ParseRecoveryKey_def recoveryPrefix_def d)
  qed
qed

text \<open>C28: A ciphertext is tied to its place. The additional data of blobs, events and snapshots differ
  from each other, and two of one kind agree only if workspace, root, path, index and size (event
  type, sequence number) agree.\<close>

theorem aad_separated:
  assumes "\<forall>x \<in> {w, r, p, ty, w', r', p', ty'}. nul \<notin> set x"
  shows "(BlobAAD w r p i n = BlobAAD w' r' p' i' n'
        \<longleftrightarrow> w = w' \<and> r = r' \<and> p = p' \<and> i = i' \<and> n = n')
    \<and> (EventAAD w r p ty = EventAAD w' r' p' ty' \<longleftrightarrow> w = w' \<and> r = r' \<and> p = p' \<and> ty = ty')
    \<and> (SnapshotAAD w r q = SnapshotAAD w' r' q' \<longleftrightarrow> w = w' \<and> r = r' \<and> q = q')
    \<and> BlobAAD w r p i n \<noteq> EventAAD w' r' p' ty'
    \<and> BlobAAD w r p i n \<noteq> SnapshotAAD w' r' q'
    \<and> EventAAD w r p ty \<noteq> SnapshotAAD w' r' q'"
proof -
  have "nul_free w" "nul_free r" "nul_free p" "nul_free ty" "nul_free w'" "nul_free r'" "nul_free p'" "nul_free ty'"
    using assms by (simp_all add: nul_free_def)
  then show ?thesis by (simp add: BlobAAD_def EventAAD_def SnapshotAAD_def joinAAD_eq FormatInt_inj)
qed

theorem aad_separated_witness:
  "BlobAAD ''w'' ''r'' ''p'' 0 5 \<noteq> BlobAAD ''w'' ''r'' ''p'' 1 5
   \<and> EventAAD ''w'' ''r'' ''p'' ''delete'' \<noteq> EventAAD ''w'' ''r'' ''q'' ''delete''"
proof -
  have "\<forall>x \<in> {''w'', ''r'', ''p'', ''delete'', ''w'', ''r'', ''p'', ''delete''}. nul \<notin> set x"
    and "\<forall>x \<in> {''w'', ''r'', ''p'', ''delete'', ''w'', ''r'', ''q'', ''delete''}. nul \<notin> set x"
    by code_simp+
  from aad_separated [OF this(1)] aad_separated [OF this(2)] show ?thesis by simp
qed

section \<open>The client database\<close>

text \<open>C29: Whatever sequence of operations the client's database has seen, its keys are unique: one row
  per root, per path of a root, per pending operation, per suppressed path and per warning; and a
  root never has two queued operations of one type.\<close>

theorem client_keys_unique:
  assumes "client_reachable fmt s"
  shows "distinct (map cr_RootID (c_roots s))
    \<and> distinct (map (\<lambda>r. (er_root r, er_path r)) (c_entries s))
    \<and> distinct (map pr_id (c_pending s))
    \<and> distinct (map (\<lambda>r. (pr_root r, pr_type r)) (c_pending s))
    \<and> distinct (map (\<lambda>r. (ir_root r, ir_path r)) (c_ignores s))
    \<and> distinct (map wn_Key (c_warnings s))"
  using client_reachable_inv [OF assms] by (simp add: client_inv_def unique_key_def queue_key_def [abs_def])

definition demo_client :: client_db where
  "demo_client = snd (QueueRootRescan (\<lambda>t. show_nat (nat t)) ''r1'' 7 client_init)"

lemma demo_client_reachable: "client_reachable (\<lambda>t. show_nat (nat t)) demo_client"
  unfolding client_reachable_def demo_client_def
  by (rule r_into_rtranclp) (rule client_step.queue_rescan)

theorem client_keys_unique_witness:
  "c_pending demo_client \<noteq> [] \<and> distinct (map pr_id (c_pending demo_client))"
  using client_keys_unique [OF demo_client_reachable]
  by (simp add: demo_client_def QueueRootRescan_def existing_op_def insert_op_def client_init_def Let_def row_exists_def)

text \<open>Storing a scan of a root replaces what was known of it: afterwards \<open>EntriesForRoot\<close> is exactly
  the map from the stored paths to their entries, and no other root has changed.\<close>

theorem entries_replaced:
  assumes "client_reachable fmt s" and "\<forall>e \<in> set es. en_RootID e = i" and "distinct (map en_RelPath es)"
  shows "EntriesForRoot j (ReplaceEntries i es s) =
    (if j = i then map_of (map (\<lambda>e. (en_RelPath e, e)) es) else EntriesForRoot j s)"
proof
  fix p
  have inv: "client_inv s" using assms(1) by (rule client_reachable_inv)
  have "List.find (\<lambda>e. (en_RootID e, en_RelPath e) = (j, p)) (rev es)
      = (if j = i then map_of (map (\<lambda>e. (en_RelPath e, e)) es) p else None)"
    by (rule find_entry_map_of [OF assms(2,3)])
  with entry_at_ReplaceEntries [OF inv, of "(j, p)" i es]
  show "EntriesForRoot j (ReplaceEntries i es s) p =
      (if j = i then map_of (map (\<lambda>e. (en_RelPath e, e)) es) else EntriesForRoot j s) p"
    by (auto simp: entry_at_def split: option.splits)
qed

definition demo_entry :: "string \<Rightarrow> Entry" where
  "demo_entry p = deleted_entry\<lparr>en_RootID := ''r1'', en_RelPath := p, en_Deleted := False\<rparr>"

theorem entries_replaced_witness:
  "EntriesForRoot ''r1'' (ReplaceEntries ''r1'' [demo_entry ''a'', demo_entry ''b''] demo_client)
     = [''a'' \<mapsto> demo_entry ''a'', ''b'' \<mapsto> demo_entry ''b'']"
proof -
  have "\<forall>e \<in> set [demo_entry ''a'', demo_entry ''b'']. en_RootID e = ''r1''"
    and "distinct (map en_RelPath [demo_entry ''a'', demo_entry ''b''])" by (simp_all add: demo_entry_def)
  note entries_replaced [OF demo_client_reachable this, of "''r1''"]
  then show ?thesis by (simp add: demo_entry_def fun_upd_twist)
qed

text \<open>Queueing a rescan is idempotent: afterwards there is exactly one rescan of the root in the
  queue, it is ready at once, and no other operation has changed.\<close>

theorem rescan_queued_once:
  assumes "client_reachable fmt s" and "QueueRootRescan fmt i at s = (Inr (), s')"
  shows "(\<exists>op. {op \<in> set (ListPendingOps s'). op_RootID op = i \<and> op_OpType op = ''rescan_root''} = {op}
        \<and> (\<forall>now. op \<in> set (ListPendingOpsReady now s')))
    \<and> {op \<in> set (ListPendingOps s'). \<not> (op_RootID op = i \<and> op_OpType op = ''rescan_root'')}
      = {op \<in> set (ListPendingOps s). \<not> (op_RootID op = i \<and> op_OpType op = ''rescan_root'')}"
  using QueueRootRescan_once [OF client_reachable_inv [OF assms(1)] assms(2)] by simp

theorem rescan_queued_once_witness:
  "\<exists>op. {op \<in> set (ListPendingOps (snd (QueueRootRescan (\<lambda>t. show_nat (nat t)) ''r1'' 9 demo_client))).
     op_RootID op = ''r1'' \<and> op_OpType op = ''rescan_root''} = {op}"
proof -
  have "QueueRootRescan (\<lambda>t. show_nat (nat t)) ''r1'' 9 demo_client
      = (Inr (), snd (QueueRootRescan (\<lambda>t. show_nat (nat t)) ''r1'' 9 demo_client))"
    by (simp add: demo_client_def QueueRootRescan_def existing_op_def insert_op_def client_init_def Let_def row_exists_def)
  from rescan_queued_once [OF demo_client_reachable this] show ?thesis by blast
qed

text \<open>A failed operation is retried, not lost: after \<open>BumpPendingOpRetry\<close> it is the same operation with
  its counter raised, hidden until between one and 64 seconds have passed and ready from then on; the
  other operations are untouched.\<close>

theorem retry_after_backoff:
  assumes "client_reachable fmt s" and "op \<in> set (ListPendingOps s)"
  shows "\<exists>s' due. BumpPendingOpRetry (op_OpID op) msg now s = (Inr (), s')
    \<and> now + 1 \<le> due \<and> due \<le> now + 64
    \<and> (\<forall>t op'. op' \<in> set (ListPendingOpsReady t s') \<longleftrightarrow>
         (if op_OpID op' = op_OpID op
          then due \<le> t \<and> op' = op\<lparr>op_Status := ''queued'', op_RetryCount := op_RetryCount op + 1,
              op_LastError := msg, op_NextRetryAt := due\<rparr>
          else op' \<in> set (ListPendingOpsReady t s)))"
  using BumpPendingOpRetry_once [OF client_reachable_inv [OF assms(1)] assms(2)] by blast

theorem retry_after_backoff_witness:
  "\<exists>s'. fst (BumpPendingOpRetry ''r1:7'' ''timeout'' 100 demo_client) = Inr ()
     \<and> snd (BumpPendingOpRetry ''r1:7'' ''timeout'' 100 demo_client) = s'
     \<and> ListPendingOpsReady 100 s' = []"
proof -
  have "map op_OpID (ListPendingOps demo_client) = [''r1:7'']" by code_simp
  then obtain op where op: "ListPendingOps demo_client = [op]" "op_OpID op = ''r1:7''"
    by (cases "ListPendingOps demo_client") auto
  then have mem: "op \<in> set (ListPendingOps demo_client)" by simp
  from retry_after_backoff [OF demo_client_reachable mem, of "''timeout''" 100]
  obtain s' due where b: "BumpPendingOpRetry ''r1:7'' ''timeout'' 100 demo_client = (Inr (), s')"
    and "100 + 1 \<le> due"
    and r: "\<And>t op'. op' \<in> set (ListPendingOpsReady t s') \<longleftrightarrow>
      (if op_OpID op' = ''r1:7''
          then due \<le> t \<and> op' = op\<lparr>op_Status := ''queued'', op_RetryCount := op_RetryCount op + 1,
              op_LastError := ''timeout'', op_NextRetryAt := due\<rparr>
          else op' \<in> set (ListPendingOpsReady t demo_client))"
    unfolding op(2) by blast
  have "set (ListPendingOpsReady 100 demo_client) \<subseteq> {op}" using op ready_subset by fastforce
  then have "x \<notin> set (ListPendingOpsReady 100 s')" for x
    using r [of x 100] \<open>100 + 1 \<le> due\<close> op(2) by (auto split: if_splits)
  then have "ListPendingOpsReady 100 s' = []" by (metis list.set_intros(1) neq_Nil_conv)
  with b show ?thesis by simp
qed

end
