(* ===== verification/Router.thy ===== *)
theory Router
  imports Api
begin

text \<open>
  The routes of \<^verbatim>\<open>internal/server/api/api.go\<close> and the server as its clients see
  it: a function from a request to a response and the next state.  Each request
  takes the time of day and the random bytes it needs from a clock (one reading per request), so a run is
  determined by its requests and the clock.
\<close>

datatype request_body = ReqNone | ReqBadJSON
  | ReqSessionStart SessionStartRequest | ReqSessionFinish SessionFinishRequest
  | ReqEvent EventSubmitRequest | ReqSnapshotSubmit SnapshotSubmitRequest

fun body_start :: "request_body \<Rightarrow> SessionStartRequest option" where
  "body_start (ReqSessionStart r) = Some r"
| "body_start _ = None"

fun body_finish :: "request_body \<Rightarrow> SessionFinishRequest option" where
  "body_finish (ReqSessionFinish r) = Some r"
| "body_finish _ = None"

fun body_event :: "request_body \<Rightarrow> EventSubmitRequest option" where
  "body_event (ReqEvent r) = Some r"
| "body_event _ = None"

fun body_snapshot :: "request_body \<Rightarrow> SnapshotSubmitRequest option" where
  "body_snapshot (ReqSnapshotSubmit r) = Some r"
| "body_snapshot _ = None"

text \<open>
  The landing page is HTML, which the model does not keep; the route also catches
  every path without a handler of its own.  \<open>handleReadyz\<close> asks whether the
  database answers, which the server of the model always does.
\<close>

definition handleRoot :: "request \<Rightarrow> response" where
  "handleRoot r =
     (if hr_Path r \<noteq> ''/'' then (404, BodyNone)
      else if hr_Method r \<noteq> ''GET'' \<and> hr_Method r \<noteq> ''HEAD'' then (405, BodyNone)
      else (200, BodyNone))"

definition handleReadyz :: response where
  "handleReadyz = (200, BodyNone)"

definition Handler ::
  "config \<Rightarrow> primitives \<Rightarrow> time \<Rightarrow> bytes \<Rightarrow> request \<Rightarrow> request_body \<Rightarrow> server \<Rightarrow> response \<times> server" where
  "Handler cfg px now random r b sv =
     (let p = hr_Path r in
      if p = ''/healthz'' then (handleHealthz, sv)
      else if p = ''/readyz'' then (handleReadyz, sv)
      else if p = ''/v1/session/start'' then handleSessionStart cfg now random r (body_start b) sv
      else if p = ''/v1/session/finish'' then handleSessionFinish cfg px now random r (body_finish b) sv
      else if p = ''/v1/bootstrap'' then
        withSession (\<lambda>sess sv. (handleBootstrap r sess (sv_db sv) (sv_db sv), sv)) px now r sv
      else if p = ''/v1/events'' then withSession (handleEvents cfg now r (body_event b)) px now r sv
      else if p = ''/v1/snapshots'' then withSession (handleSnapshotSubmit now r (body_snapshot b)) px now r sv
      else if p = ''/v1/ws'' then handleWS px now r sv
      else if take 12 p = ''/v1/objects/'' then handleObjects cfg px now r sv
      else (handleRoot r, sv))"

section \<open>The server behind the network\<close>

record world =
  wd_server :: server
  wd_clock :: "nat \<Rightarrow> time \<times> bytes"

definition serve :: "config \<Rightarrow> primitives \<Rightarrow> request \<Rightarrow> request_body \<Rightarrow> world \<Rightarrow> response \<times> world" where
  "serve cfg px r b w =
     (let (now, random) = wd_clock w 0;
          (resp, sv) = Handler cfg px now random r b (wd_server w)
      in (resp, \<lparr>wd_server = sv, wd_clock = (\<lambda>n. wd_clock w (Suc n))\<rparr>))"

end
