(* ===== verification/Connector.thy ===== *)
theory Connector
  imports Router Paths
begin

text \<open>
  \<^verbatim>\<open>internal/client/connector/connector.go\<close>: the client's side of the HTTP API.
  \<open>http\<close> is the transport, a function of the request and of a state that may
  change with every call, so that other devices, the network and the handler for
  rejected tokens can act in between; it fails with an error of \<^verbatim>\<open>net/http\<close> or
  answers with a status and a body.  \<open>go_error\<close> is the type of the client's
  errors, one constructor per error type the code tells apart; \<open>Wrapped\<close> is
  \<^verbatim>\<open>fmt.Errorf\<close> with a prefix and \<^verbatim>\<open>%w\<close>.
\<close>

datatype go_error =
    HTTPError int string string
  | ContextCanceled
  | DeadlineExceeded
  | ErrNoRows
  | IntegrityError string
  | PathConflictError int string
  | RootIncarnationConflictError int int
  | LifecycleError DaemonIssueKind go_error
  | Wrapped string go_error
  | PathFailed path_error
  | CryptoFailed crypto_error
  | OsFailed string
  | Failed string

type_synonym 's http = "request \<Rightarrow> request_body \<Rightarrow> 's \<Rightarrow> (go_error + response) \<times> 's"

text \<open>\<open>Error()\<close>; the texts of the standard library and of the operating system are \<open>describe\<close>.\<close>

fun error_text :: "(go_error \<Rightarrow> string) \<Rightarrow> go_error \<Rightarrow> string" where
  "error_text describe (HTTPError status code message) =
     (if message \<noteq> [] then message else if code \<noteq> [] then code else ''http '' @ FormatInt status)"
| "error_text describe (IntegrityError m) = m"
| "error_text describe (PathConflictError q p) = ''path_head_mismatch''"
| "error_text describe (RootIncarnationConflictError e q) = ''root_incarnation_mismatch''"
| "error_text describe (LifecycleError kind e) = error_text describe e"
| "error_text describe (Wrapped context e) = context @ '': '' @ error_text describe e"
| "error_text describe (Failed m) = m"
| "error_text describe e = describe e"

text \<open>The error below all wrappers, which is what \<^verbatim>\<open>errors.Is\<close> and \<^verbatim>\<open>errors.As\<close> find.\<close>

fun unwrapped :: "go_error \<Rightarrow> go_error" where
  "unwrapped (LifecycleError kind e) = unwrapped e"
| "unwrapped (Wrapped context e) = unwrapped e"
| "unwrapped e = e"

definition IsHTTPError :: "go_error \<Rightarrow> int \<Rightarrow> string \<Rightarrow> bool" where
  "IsHTTPError e s c \<longleftrightarrow>
     (case unwrapped e of HTTPError status code message \<Rightarrow> status = s \<and> (c = [] \<or> code = c) | _ \<Rightarrow> False)"

text \<open>\<open>cn_ContentLength\<close> is the length \<^verbatim>\<open>net/http\<close> reads from a response's header, -1 when there is none.\<close>

record 's Client =
  cn_BaseURL :: string
  cn_Token :: string
  cn_HTTPClient :: "'s http"
  cn_ContentLength :: "response \<Rightarrow> int"
  cn_onUnauthorized :: "(string \<Rightarrow> 's \<Rightarrow> 's) option"

definition trim_right :: "char \<Rightarrow> string \<Rightarrow> string" where
  "trim_right c s = rev (dropWhile (\<lambda>x. x = c) (rev s))"

definition New :: "'s http \<Rightarrow> (response \<Rightarrow> int) \<Rightarrow> string \<Rightarrow> 's Client" where
  "New http contentLength baseURL =
     \<lparr>cn_BaseURL = trim_right slash baseURL, cn_Token = [], cn_HTTPClient = http,
      cn_ContentLength = contentLength, cn_onUnauthorized = None\<rparr>"

definition WithToken :: "string \<Rightarrow> 's Client \<Rightarrow> 's Client" where
  "WithToken token c = c\<lparr>cn_Token := token\<rparr>"

definition WithUnauthorizedHandler :: "(string \<Rightarrow> 's \<Rightarrow> 's) \<Rightarrow> 's Client \<Rightarrow> 's Client" where
  "WithUnauthorizedHandler handler c = c\<lparr>cn_onUnauthorized := Some handler\<rparr>"

definition reportUnauthorized :: "'s Client \<Rightarrow> int \<Rightarrow> 's \<Rightarrow> 's" where
  "reportUnauthorized c statusCode s =
     (if statusCode = 401 \<and> cn_Token c \<noteq> [] then
        case cn_onUnauthorized c of None \<Rightarrow> s | Some handler \<Rightarrow> handler (cn_Token c) s
      else s)"

definition http_do :: "'s Client \<Rightarrow> request \<Rightarrow> request_body \<Rightarrow> 's \<Rightarrow> (go_error + response) \<times> 's" where
  "http_do c r b s =
     (case cn_HTTPClient c r b s of
        (Inl e, s') \<Rightarrow> (Inl e, s')
      | (Inr resp, s') \<Rightarrow> (Inr resp, reportUnauthorized c (fst resp) s'))"

definition zero_error :: ErrorResponse where
  "zero_error = \<lparr>eb_Code = [], eb_Message = [], eb_CurrentSeq = 0, eb_RetainedFloorSeq = 0\<rparr>"

definition error_body :: "body \<Rightarrow> ErrorResponse" where
  "error_body b = (case b of BodyError e \<Rightarrow> e | _ \<Rightarrow> zero_error)"

definition auth_header :: "'s Client \<Rightarrow> string" where
  "auth_header c = (if cn_Token c = [] then [] else ''Bearer '' @ cn_Token c)"

definition json_request :: "'s Client \<Rightarrow> string \<Rightarrow> string \<Rightarrow> request" where
  "json_request c method path =
     \<lparr>hr_Method = method, hr_Path = path, hr_Version = ''1'', hr_Authorization = auth_header c,
      hr_AfterSeq = [], hr_Limit = [], hr_ObjectKind = [], hr_PlainSize = [], hr_Body = []\<rparr>"

text \<open>\<open>decode\<close> reads the body of a success; any other body is a decoding error.\<close>

definition doJSONRaw ::
  "'s Client \<Rightarrow> request \<Rightarrow> request_body \<Rightarrow> (body \<Rightarrow> 'r option) \<Rightarrow> 's
    \<Rightarrow> ((go_error \<times> ErrorResponse) + 'r) \<times> 's" where
  "doJSONRaw c r b decode s =
     (case http_do c r b s of
        (Inl e, s') \<Rightarrow> (Inl (e, zero_error), s')
      | (Inr (status, rb), s') \<Rightarrow>
          if status \<ge> 400 then
            (let parsed = error_body rb in
             (Inl (HTTPError status (eb_Code parsed) (eb_Message parsed), parsed), s'))
          else (case decode rb of
                  None \<Rightarrow> (Inl (Failed ''invalid JSON body'', zero_error), s')
                | Some x \<Rightarrow> (Inr x, s')))"

definition doJSON ::
  "'s Client \<Rightarrow> request \<Rightarrow> request_body \<Rightarrow> (body \<Rightarrow> 'r option) \<Rightarrow> 's \<Rightarrow> (go_error + 'r) \<times> 's" where
  "doJSON c r b decode s =
     (case doJSONRaw c r b decode s of
        (Inl (e, parsed), s') \<Rightarrow> (Inl e, s') | (Inr x, s') \<Rightarrow> (Inr x, s'))"

section \<open>Calls\<close>

definition SessionStart ::
  "'s Client \<Rightarrow> SessionStartRequest \<Rightarrow> 's \<Rightarrow> (go_error + SessionStartResponse) \<times> 's" where
  "SessionStart c req =
     doJSON c (json_request c ''POST'' ''/v1/session/start'') (ReqSessionStart req)
       (\<lambda>b. case b of BodyStart x \<Rightarrow> Some x | _ \<Rightarrow> None)"

definition SessionFinish ::
  "'s Client \<Rightarrow> SessionFinishRequest \<Rightarrow> 's \<Rightarrow> (go_error + SessionFinishResponse) \<times> 's" where
  "SessionFinish c req =
     doJSON c (json_request c ''POST'' ''/v1/session/finish'') (ReqSessionFinish req)
       (\<lambda>b. case b of BodyFinish x \<Rightarrow> Some x | _ \<Rightarrow> None)"

definition cn_Bootstrap :: "'s Client \<Rightarrow> 's \<Rightarrow> (go_error + BootstrapResponse) \<times> 's" where
  "cn_Bootstrap c =
     doJSON c (json_request c ''GET'' ''/v1/bootstrap'') ReqNone
       (\<lambda>b. case b of BodyBootstrap x \<Rightarrow> Some x | _ \<Rightarrow> None)"

definition SupportsCapability :: "'s Client \<Rightarrow> string \<Rightarrow> 's \<Rightarrow> (go_error + bool) \<times> 's" where
  "SupportsCapability c capability s =
     (case doJSON c (json_request c ''GET'' ''/healthz'') ReqNone
             (\<lambda>b. case b of BodyHealth caps \<Rightarrow> Some caps | _ \<Rightarrow> None) s of
        (Inl e, s') \<Rightarrow> (Inl e, s')
      | (Inr caps, s') \<Rightarrow> (Inr (list_ex (\<lambda>current. current = capability) caps), s'))"

definition cn_FetchEvents ::
  "'s Client \<Rightarrow> int \<Rightarrow> int \<Rightarrow> 's \<Rightarrow> ((go_error \<times> ErrorResponse) + EventFetchResponse) \<times> 's" where
  "cn_FetchEvents c afterSeq limit =
     doJSONRaw c
       ((json_request c ''GET'' ''/v1/events'')\<lparr>hr_AfterSeq := FormatInt afterSeq, hr_Limit := FormatInt limit\<rparr>)
       ReqNone (\<lambda>b. case b of BodyEvents x \<Rightarrow> Some x | _ \<Rightarrow> None)"

definition cn_SubmitEvent ::
  "'s Client \<Rightarrow> EventSubmitRequest \<Rightarrow> 's \<Rightarrow> ((go_error \<times> ErrorResponse) + EventSubmitResponse) \<times> 's" where
  "cn_SubmitEvent c req =
     doJSONRaw c (json_request c ''POST'' ''/v1/events'') (ReqEvent req)
       (\<lambda>b. case b of BodySubmit x \<Rightarrow> Some x | _ \<Rightarrow> None)"

definition SubmitSnapshot ::
  "'s Client \<Rightarrow> SnapshotSubmitRequest \<Rightarrow> 's \<Rightarrow> (go_error + SnapshotSubmitResponse) \<times> 's" where
  "SubmitSnapshot c req =
     doJSON c (json_request c ''POST'' ''/v1/snapshots'') (ReqSnapshotSubmit req)
       (\<lambda>b. case b of BodySnapshot x \<Rightarrow> Some x | _ \<Rightarrow> None)"

section \<open>Objects\<close>

text \<open>The text of a body that is not an \<open>ErrorResponse\<close> is not kept by the model of responses.\<close>

definition responseError :: "string \<Rightarrow> response \<Rightarrow> go_error" where
  "responseError operation resp =
     (let parsed = error_body (snd resp) in
      if eb_Code parsed \<noteq> [] \<or> eb_Message parsed \<noteq> [] then
        HTTPError (fst resp) (eb_Code parsed)
          (operation @ '': '' @ (if eb_Message parsed = [] then eb_Code parsed else eb_Message parsed))
      else HTTPError (fst resp) [] (operation @ '': http '' @ FormatInt (fst resp)))"

definition object_request :: "'s Client \<Rightarrow> string \<Rightarrow> string \<Rightarrow> request" where
  "object_request c method objectID =
     (json_request c method (''/v1/objects/'' @ objectID))\<lparr>hr_Authorization := ''Bearer '' @ cn_Token c\<rparr>"

definition UploadObject ::
  "'s Client \<Rightarrow> string \<Rightarrow> string \<Rightarrow> int \<Rightarrow> bytes \<Rightarrow> 's \<Rightarrow> go_error option \<times> 's" where
  "UploadObject c objectID kind plainSize blob s =
     (case http_do c
             ((object_request c ''PUT'' objectID)\<lparr>hr_ObjectKind := kind, hr_PlainSize := FormatInt plainSize, hr_Body := blob\<rparr>)
             ReqNone s of
        (Inl e, s') \<Rightarrow> (Some e, s')
      | (Inr resp, s') \<Rightarrow>
          if fst resp \<noteq> 200 \<and> fst resp \<noteq> 201 then (Some (responseError ''upload object'' resp), s')
          else (None, s'))"

definition body_bytes :: "body \<Rightarrow> bytes" where
  "body_bytes b = (case b of BodyBytes x \<Rightarrow> x | _ \<Rightarrow> [])"

text \<open>A destination that takes every byte, as the buffers the client downloads into do.\<close>

definition DownloadObjectTo ::
  "'s Client \<Rightarrow> string \<Rightarrow> int \<Rightarrow> bytes \<Rightarrow> 's \<Rightarrow> ((int \<times> go_error option) \<times> bytes) \<times> 's" where
  "DownloadObjectTo c objectID maxBytes dst s =
     (if maxBytes \<le> 0 then (((0, Some (Failed (''invalid maximum download size '' @ FormatInt maxBytes))), dst), s)
      else case http_do c (object_request c ''GET'' objectID) ReqNone s of
        (Inl e, s') \<Rightarrow> (((0, Some e), dst), s')
      | (Inr resp, s') \<Rightarrow>
          if fst resp \<noteq> 200 then (((0, Some (responseError ''download object'' resp)), dst), s')
          else
            (let content = body_bytes (snd resp);
                 tooLarge = Failed (''object exceeds '' @ FormatInt maxBytes @ '' bytes'') in
             if cn_ContentLength c resp > maxBytes then (((0, Some tooLarge), dst), s')
             else
               (let limited = take (nat (maxBytes + 1)) content; n = int (length limited) in
                if n > maxBytes then (((n, Some tooLarge), dst @ limited), s')
                else (((n, None), dst @ limited), s'))))"

definition DownloadObject ::
  "'s Client \<Rightarrow> string \<Rightarrow> int \<Rightarrow> 's \<Rightarrow> (go_error + bytes) \<times> 's" where
  "DownloadObject c objectID maxBytes s =
     (case DownloadObjectTo c objectID maxBytes [] s of
        (((n, Some e), buf), s') \<Rightarrow> (Inl e, s')
      | (((n, None), buf), s') \<Rightarrow> (Inr buf, s'))"

end
