(* ===== verification/FileSys.thy ===== *)
theory FileSys
  imports Paths
begin

text \<open>
  The part of the operating system's file system the client writes to: kinds of
  nodes (the \<open>tree\<close> of the path rules), contents of regular files, and the mode and
  modification time set last.  Calls that can fail for reasons outside the tree
  (no space, I/O errors) take the answer from \<open>faults\<close>; a call whose error the
  code ignores is taken to succeed.
\<close>

record fsys =
  fs_tree :: tree
  fs_data :: "string \<rightharpoonup> bytes"
  fs_meta :: "string \<rightharpoonup> int \<times> int"

record faults =
  ft_create :: bool
  ft_write :: "nat \<Rightarrow> nat option"
  ft_sync :: bool
  ft_close :: bool
  ft_rename :: bool

definition no_faults :: faults where
  "no_faults = \<lparr>ft_create = False, ft_write = (\<lambda>_. None), ft_sync = False, ft_close = False, ft_rename = False\<rparr>"

text \<open>Files have content, nothing else has, and only what exists has attributes.\<close>

definition fs_ok :: "fsys \<Rightarrow> bool" where
  "fs_ok fs \<longleftrightarrow> (\<forall>p. fs_data fs p \<noteq> None \<longleftrightarrow> fs_tree fs p = Some NodeFile)
     \<and> (\<forall>p. fs_meta fs p \<noteq> None \<longrightarrow> fs_tree fs p \<noteq> None)"

section \<open>Calls\<close>

text \<open>\<open>os.CreateTemp\<close>: the name is the pattern with its star replaced by random digits.\<close>

definition temp_name :: "string \<Rightarrow> string \<Rightarrow> string \<Rightarrow> string" where
  "temp_name dir pattern random = Join [dir, pattern @ random]"

definition CreateTemp :: "faults \<Rightarrow> string \<Rightarrow> string \<Rightarrow> fsys \<Rightarrow> fsys option" where
  "CreateTemp ft dir tmp fs =
     (if ft_create ft \<or> fs_tree fs tmp \<noteq> None
         \<or> \<not> (fs_tree fs dir = Some NodeDir \<or> fs_tree fs dir = Some NodeSymlink) then None
      else Some (fs\<lparr>fs_tree := (fs_tree fs)(tmp \<mapsto> NodeFile), fs_data := (fs_data fs)(tmp \<mapsto> [])\<rparr>))"

definition WriteFile :: "string \<Rightarrow> bytes \<Rightarrow> fsys \<Rightarrow> fsys" where
  "WriteFile p content fs = fs\<lparr>fs_data := (fs_data fs)(p \<mapsto> content)\<rparr>"

definition Remove :: "string \<Rightarrow> fsys \<Rightarrow> fsys" where
  "Remove p fs = fs\<lparr>fs_tree := (fs_tree fs)(p := None), fs_data := (fs_data fs)(p := None),
      fs_meta := (fs_meta fs)(p := None)\<rparr>"

text \<open>\<open>os.Rename\<close> of a regular file: it replaces a file or a link, never a directory.\<close>

definition Rename :: "faults \<Rightarrow> string \<Rightarrow> string \<Rightarrow> fsys \<Rightarrow> fsys option" where
  "Rename ft old new fs =
     (if ft_rename ft \<or> fs_tree fs new = Some NodeDir then None
      else Some (fs\<lparr>fs_tree := (fs_tree fs)(old := None, new \<mapsto> NodeFile),
        fs_data := (fs_data fs)(old := None, new := fs_data fs old),
        fs_meta := (fs_meta fs)(old := None, new := None)\<rparr>))"

text \<open>\<open>Chmod\<close> followed by \<open>Chtimes\<close>, errors ignored.\<close>

definition set_attributes :: "string \<Rightarrow> int \<Rightarrow> int \<Rightarrow> fsys \<Rightarrow> fsys" where
  "set_attributes p mode mtime fs =
     (if fs_tree fs p = None then fs else fs\<lparr>fs_meta := (fs_meta fs)(p \<mapsto> (mode, mtime))\<rparr>)"

definition RemoveAll :: "string \<Rightarrow> fsys \<Rightarrow> fsys" where
  "RemoveAll target fs =
     (let below = (\<lambda>p. p = target \<or> prefix (target @ ''/'') p) in
      \<lparr>fs_tree = (\<lambda>p. if below p then None else fs_tree fs p),
       fs_data = (\<lambda>p. if below p then None else fs_data fs p),
       fs_meta = (\<lambda>p. if below p then None else fs_meta fs p)\<rparr>)"

text \<open>A walk that only creates directories.\<close>

definition on_tree :: "(tree \<Rightarrow> path_error option \<times> tree) \<Rightarrow> fsys \<Rightarrow> path_error option \<times> fsys" where
  "on_tree f fs = (case f (fs_tree fs) of (e, t) \<Rightarrow> (e, fs\<lparr>fs_tree := t\<rparr>))"

section \<open>Facts\<close>

lemma CreateTemp_Some:
  assumes "CreateTemp ft dir tmp fs = Some fs'"
  shows "fs_tree fs tmp = None" and "fs_tree fs' = (fs_tree fs)(tmp \<mapsto> NodeFile)"
    and "fs_data fs' = (fs_data fs)(tmp \<mapsto> [])" and "fs_meta fs' = fs_meta fs"
  using assms by (auto simp: CreateTemp_def split: if_splits)

lemma fs_ok_fresh: "fs_ok fs \<Longrightarrow> fs_tree fs p = None \<Longrightarrow> fs_data fs p = None \<and> fs_meta fs p = None"
  unfolding fs_ok_def by (metis option.distinct(1))

text \<open>Removing a temporary file leaves no trace of it.\<close>

lemma Remove_CreateTemp:
  assumes "fs_ok fs" and "CreateTemp ft dir tmp fs = Some fs'"
  shows "Remove tmp fs' = fs" and "Remove tmp (WriteFile tmp content fs') = fs"
proof -
  note c = CreateTemp_Some [OF assms(2)]
  have "fs_data fs tmp = None" "fs_meta fs tmp = None" using fs_ok_fresh [OF assms(1) c(1)] by simp_all
  with c show "Remove tmp fs' = fs" and "Remove tmp (WriteFile tmp content fs') = fs"
    by (auto simp: Remove_def WriteFile_def fun_upd_idem)
qed

lemma Rename_Some:
  assumes "Rename ft old new fs = Some fs'"
  shows "fs_data fs' new = fs_data fs old" and "fs_tree fs' new = Some NodeFile"
    and "fs_tree fs new \<noteq> Some NodeDir"
    and "\<And>p. p \<noteq> old \<Longrightarrow> p \<noteq> new \<Longrightarrow> fs_tree fs' p = fs_tree fs p \<and> fs_data fs' p = fs_data fs p \<and> fs_meta fs' p = fs_meta fs p"
    and "old \<noteq> new \<Longrightarrow> fs_tree fs' old = None \<and> fs_data fs' old = None \<and> fs_meta fs' old = None"
  using assms by (auto simp: Rename_def split: if_splits)

lemma set_attributes_frame [simp]:
  "fs_tree (set_attributes p mode mtime fs) = fs_tree fs" "fs_data (set_attributes p mode mtime fs) = fs_data fs"
  by (simp_all add: set_attributes_def)

end
