(* ===== verification/Uploader.thy ===== *)
theory Uploader
  imports Connector FileSys
begin

text \<open>
  \<^verbatim>\<open>internal/client/uploader/uploader.go\<close>: a file is cut into chunks, each chunk is
  encrypted under its place in the workspace and uploaded under the hash of the
  ciphertext.  \<open>upload\<close> stands for \<open>conn.UploadObject\<close>; the nonce of each chunk
  is an argument.
\<close>

definition ChunkSize :: nat where
  "ChunkSize = nat MaxFileChunkPlainSize"

lemma ChunkSize_pos [simp]: "0 < ChunkSize"
  by (simp add: ChunkSize_def MaxFileChunkPlainSize_def)

record upload_result =
  ur_Payload :: FilePutPayload
  ur_Refs :: "string list"

type_synonym 's upload = "string \<Rightarrow> string \<Rightarrow> int \<Rightarrow> bytes \<Rightarrow> 's \<Rightarrow> go_error option \<times> 's"

text \<open>The loop: \<open>rest\<close> is what is left to read, \<open>chunks\<close> what was uploaded, latest first.\<close>

function upload_loop ::
  "primitives \<Rightarrow> 's upload \<Rightarrow> (nat \<Rightarrow> bytes) \<Rightarrow> bytes \<Rightarrow> string \<Rightarrow> string \<Rightarrow> string
    \<Rightarrow> nat \<Rightarrow> bytes \<Rightarrow> ChunkRef list \<Rightarrow> 's \<Rightarrow> (go_error + ChunkRef list) \<times> 's" where
  "upload_loop px upload nonces blobKey w rootID pathID offset rest chunks s =
     (if rest = [] then (Inr (rev chunks), s)
      else
        (let buf = take ChunkSize rest; n = int (length buf) in
         case Encrypt px (nonces offset) blobKey buf (BlobAAD w rootID pathID (int offset) n) of
           Inl e \<Rightarrow> (Inl (CryptoFailed e), s)
         | Inr blob \<Rightarrow>
             (let objectID = ObjectID px blob in
              case upload objectID ''file_chunk'' n blob s of
                (Some e, s') \<Rightarrow> (Inl e, s')
              | (None, s') \<Rightarrow>
                  (let chunks' = \<lparr>ch_ObjectID = objectID, ch_PlainSize = n\<rparr> # chunks in
                   if length buf < ChunkSize then (Inr (rev chunks'), s')
                   else upload_loop px upload nonces blobKey w rootID pathID (offset + 1)
                          (drop ChunkSize rest) chunks' s'))))"
  by pat_completeness auto

termination
  by (relation "measure (\<lambda>(px, upload, nonces, blobKey, w, rootID, pathID, offset, rest, chunks, s). length rest)")
    auto

declare upload_loop.simps [simp del]

definition UploadFile ::
  "primitives \<Rightarrow> 's upload \<Rightarrow> (nat \<Rightarrow> bytes) \<Rightarrow> bytes \<Rightarrow> string \<Rightarrow> string \<Rightarrow> string \<Rightarrow> string \<Rightarrow> string
    \<Rightarrow> int \<Rightarrow> int \<Rightarrow> fsys \<Rightarrow> 's \<Rightarrow> (go_error + upload_result) \<times> 's" where
  "UploadFile px upload nonces blobKey w rootID pathID relPath absPath mode mtimeNS fs s =
     (case fs_data fs absPath of
        None \<Rightarrow> (Inl (OsFailed absPath), s)
      | Some content \<Rightarrow>
          (case upload_loop px upload nonces blobKey w rootID pathID 0 content [] s of
             (Inl e, s') \<Rightarrow> (Inl e, s')
           | (Inr chunks, s') \<Rightarrow>
               (Inr \<lparr>ur_Payload = \<lparr>fp_Path = relPath, fp_Mode = mode, fp_MTimeNS = mtimeNS,
                       fp_SizeBytes = int (length content),
                       fp_ContentSHA256 = hex_encode (px_sha256 px content), fp_Chunks = chunks\<rparr>,
                     ur_Refs = map ch_ObjectID chunks\<rparr>, s')))"

end
