(* ===== verification/Applier.thy ===== *)
theory Applier
  imports Uploader ClientState
begin

text \<open>
  \<^verbatim>\<open>internal/client/applier/applier.go\<close>: an event of another device is decrypted,
  its path checked against the path id, and its effect carried out on the file
  system and recorded in the database.  A \<open>machine\<close> is what the client can change:
  its files, its database and, through requests, the world behind the network.
  \<open>applier_env\<close> is what an application reads: keys, codecs of \<^verbatim>\<open>encoding/json\<close>, the
  time, the random part of a temporary name and the faults of the file system.
\<close>

record codec =
  js_RootAdd :: "bytes \<Rightarrow> RootAddPayload option"
  js_DirPut :: "bytes \<Rightarrow> DirPutPayload option"
  js_FilePut :: "bytes \<Rightarrow> FilePutPayload option"
  js_Delete :: "bytes \<Rightarrow> DeletePayload option"
  js_Snapshot :: "bytes \<Rightarrow> SnapshotPayload option"

record applier_env =
  ae_px :: primitives
  ae_keys :: DerivedKeys
  ae_WorkspaceID :: string
  ae_json :: codec
  ae_now :: time
  ae_random :: string
  ae_faults :: faults

record 's machine =
  mc_fs :: fsys
  mc_db :: client_db
  mc_net :: 's

section \<open>Which path an event may touch\<close>

definition resolveContentTarget ::
  "applier_env \<Rightarrow> Root \<Rightarrow> string \<Rightarrow> bool \<Rightarrow> string option \<Rightarrow> go_error + string \<times> string \<times> string" where
  "resolveContentTarget env root rawPath allowRoot eventPathID =
     (if eventPathID = None \<or> eventPathID = Some [] then
        Inl (IntegrityError ''rejected remote event with missing path_id'')
      else
        (case (case cr_Kind root of
                 RootKindDir \<Rightarrow>
                   (case ResolveRemoteTarget (cr_TargetAbsPath root) rawPath allowRoot of
                      Inl e \<Rightarrow> Inl (IntegrityError ''rejected remote event with invalid path'')
                    | Inr (relPath, target) \<Rightarrow> Inr (relPath, target))
               | RootKindFile \<Rightarrow>
                   if rawPath \<noteq> [] \<or> \<not> allowRoot then
                     Inl (IntegrityError ''rejected remote event path outside file root'')
                   else Inr ([], Clean (cr_TargetAbsPath root))
               | RootKindOther k \<Rightarrow> Inl (Failed (''unsupported root kind '' @ k))) of
           Inl e \<Rightarrow> Inl e
         | Inr (relPath, target) \<Rightarrow>
             (let pathID = PathID (ae_px env) (ae_keys env) (cr_RootID root) relPath in
              if Some pathID \<noteq> eventPathID then
                Inl (IntegrityError ''rejected remote event with mismatched path_id'')
              else Inr (relPath, target, pathID))))"

definition validateDirPutTarget ::
  "applier_env \<Rightarrow> Root \<Rightarrow> string \<Rightarrow> string option \<Rightarrow> go_error + string \<times> string \<times> string" where
  "validateDirPutTarget env root rawPath eventPathID =
     (case resolveContentTarget env root rawPath True eventPathID of
        Inl e \<Rightarrow> Inl e
      | Inr (relPath, target, pathID) \<Rightarrow>
          if relPath = [] \<and> cr_Kind root \<noteq> RootKindDir then
            Inl (IntegrityError ''rejected remote dir_put for non-directory root'')
          else Inr (relPath, target, pathID))"

definition validateFilePutTarget ::
  "applier_env \<Rightarrow> Root \<Rightarrow> string \<Rightarrow> string option \<Rightarrow> go_error + string \<times> string \<times> string" where
  "validateFilePutTarget env root rawPath eventPathID =
     (case resolveContentTarget env root rawPath True eventPathID of
        Inl e \<Rightarrow> Inl e
      | Inr (relPath, target, pathID) \<Rightarrow>
          if relPath = [] \<and> cr_Kind root \<noteq> RootKindFile then
            Inl (IntegrityError ''rejected remote file_put for directory root'')
          else Inr (relPath, target, pathID))"

definition resolveDeleteTarget ::
  "applier_env \<Rightarrow> Root \<Rightarrow> string \<Rightarrow> string option \<Rightarrow> go_error + string \<times> string \<times> string" where
  "resolveDeleteTarget env root rawPath eventPathID = resolveContentTarget env root rawPath False eventPathID"

section \<open>Directories on the way\<close>

definition ensureSafeDirTarget :: "Root \<Rightarrow> string \<Rightarrow> fsys \<Rightarrow> go_error option \<times> fsys" where
  "ensureSafeDirTarget root target fs =
     (case cr_Kind root of
        RootKindDir \<Rightarrow>
          (case on_tree (EnsureSafeDir (cr_TargetAbsPath root) target) fs of
             (e, fs') \<Rightarrow> (map_option PathFailed e, fs'))
      | RootKindFile \<Rightarrow> (Some (Failed ''cannot materialize directory entry inside file root''), fs)
      | RootKindOther k \<Rightarrow> (Some (Failed (''unsupported root kind '' @ k)), fs))"

definition ensureSafeParentDirs :: "Root \<Rightarrow> string \<Rightarrow> fsys \<Rightarrow> go_error option \<times> fsys" where
  "ensureSafeParentDirs root target fs =
     (case cr_Kind root of
        RootKindDir \<Rightarrow>
          (case on_tree (EnsureSafeParents (cr_TargetAbsPath root) target) fs of
             (e, fs') \<Rightarrow> (map_option PathFailed e, fs'))
      | RootKindFile \<Rightarrow>
          (case on_tree (EnsureSafeDir (Dir (cr_TargetAbsPath root)) (Dir target)) fs of
             (e, fs') \<Rightarrow> (map_option PathFailed e, fs'))
      | RootKindOther k \<Rightarrow> (Some (Failed (''unsupported root kind '' @ k)), fs))"

definition rejectSymlinkParents :: "Root \<Rightarrow> string \<Rightarrow> fsys \<Rightarrow> go_error option" where
  "rejectSymlinkParents root target fs =
     (case cr_Kind root of
        RootKindDir \<Rightarrow>
          map_option PathFailed (RejectSymlinkParents (cr_TargetAbsPath root) target (fs_tree fs))
      | RootKindFile \<Rightarrow>
          map_option PathFailed (RejectSymlinkParents (Dir (cr_TargetAbsPath root)) target (fs_tree fs))
      | RootKindOther k \<Rightarrow> Some (Failed (''unsupported root kind '' @ k)))"

section \<open>Fetching the content of a file\<close>

definition validateChunkRef :: "ChunkRef \<Rightarrow> go_error option" where
  "validateChunkRef chunk =
     (if ch_PlainSize chunk \<le> 0 \<or> ch_PlainSize chunk > int ChunkSize then
        Some (IntegrityError ''rejected remote file chunk outside allowed size limits'')
      else None)"

definition DownloadAndDecryptObjectTo ::
  "primitives \<Rightarrow> 's Client \<Rightarrow> string \<Rightarrow> int \<Rightarrow> bytes \<Rightarrow> bytes \<Rightarrow> 'w writer \<Rightarrow> 'w \<Rightarrow> 's
    \<Rightarrow> ((int \<times> go_error option) \<times> 'w) \<times> 's" where
  "DownloadAndDecryptObjectTo px c objectID maxBlobSize key aad write dst s =
     (case DownloadObjectTo c objectID maxBlobSize [] s of
        (((n, Some e), encrypted), s') \<Rightarrow> (((0, Some e), dst), s')
      | (((n, None), encrypted), s') \<Rightarrow>
          (case DecryptToWriter px key encrypted aad write dst of
             ((n, e), dst') \<Rightarrow> (((n, map_option CryptoFailed e), dst'), s')))"

text \<open>\<open>io.MultiWriter\<close> of the temporary file and the hash: what each has received.\<close>

definition multi_write :: "nat option \<Rightarrow> (bytes \<times> bytes) writer" where
  "multi_write fault p dst =
     (case fault of
        None \<Rightarrow> ((length p, False), (fst dst @ p, snd dst @ p))
      | Some n \<Rightarrow> ((n, True), (fst dst @ take n p, snd dst)))"

fun copy_chunks ::
  "applier_env \<Rightarrow> 's Client \<Rightarrow> string \<Rightarrow> string \<Rightarrow> nat \<Rightarrow> ChunkRef list \<Rightarrow> int \<Rightarrow> bytes \<times> bytes \<Rightarrow> 's
    \<Rightarrow> ((go_error + int) \<times> (bytes \<times> bytes)) \<times> 's" where
  "copy_chunks env c rootID pathID i [] received dst s = ((Inr received, dst), s)"
| "copy_chunks env c rootID pathID i (chunk # chunks) received dst s =
     (case validateChunkRef chunk of
        Some e \<Rightarrow> ((Inl e, dst), s)
      | None \<Rightarrow>
          (case EncryptedSize (ch_PlainSize chunk) of
             Inl e \<Rightarrow> ((Inl (CryptoFailed e), dst), s)
           | Inr maxBlobSize \<Rightarrow>
               (case DownloadAndDecryptObjectTo (ae_px env) c (ch_ObjectID chunk) maxBlobSize
                       (dk_BlobKey (ae_keys env))
                       (BlobAAD (ae_WorkspaceID env) rootID pathID (int i) (ch_PlainSize chunk))
                       (multi_write (ft_write (ae_faults env) i)) dst s of
                  (((n, Some e), dst'), s') \<Rightarrow> ((Inl e, dst'), s')
                | (((n, None), dst'), s') \<Rightarrow>
                    if n \<noteq> ch_PlainSize chunk then
                      ((Inl (IntegrityError ''rejected remote file_put with inconsistent chunk size''), dst'), s')
                    else copy_chunks env c rootID pathID (Suc i) chunks (wrap64 (received + n)) dst' s')))"

text \<open>
  From \<open>CreateTemp\<close> to the final \<open>Chtimes\<close>: the content is written beside the
  target, checked, and renamed over it.  \<open>pre\<close> starts the temporary name; snapshots use
  another one.
\<close>

definition replace_file ::
  "string \<Rightarrow> applier_env \<Rightarrow> 's Client \<Rightarrow> Root \<Rightarrow> string \<Rightarrow> string \<Rightarrow> FilePutPayload \<Rightarrow> fsys \<Rightarrow> 's
    \<Rightarrow> go_error option \<times> fsys \<times> 's" where
  "replace_file pre env c root pathID target payload fs s =
     (let ft = ae_faults env; tmp = temp_name (Dir target) pre (ae_random env) in
      case CreateTemp ft (Dir target) tmp fs of
        None \<Rightarrow> (Some (OsFailed ''create temporary file''), fs, s)
      | Some fs1 \<Rightarrow>
          (case copy_chunks env c (cr_RootID root) pathID 0 (fp_Chunks payload) 0 ([], []) s of
             ((Inl e, content, hashed), s') \<Rightarrow> (Some e, Remove tmp (WriteFile tmp content fs1), s')
           | ((Inr received, content, hashed), s') \<Rightarrow>
               (let fs2 = WriteFile tmp content fs1 in
                if received \<noteq> fp_SizeBytes payload then
                  (Some (IntegrityError ''rejected remote file_put with inconsistent size metadata''),
                   Remove tmp fs2, s')
                else if hex_encode (px_sha256 (ae_px env) hashed) \<noteq> fp_ContentSHA256 payload then
                  (Some (IntegrityError ''rejected remote file_put with inconsistent content digest''),
                   Remove tmp fs2, s')
                else if ft_sync ft then (Some (OsFailed ''sync''), Remove tmp fs2, s')
                else if ft_close ft then (Some (OsFailed ''close''), Remove tmp fs2, s')
                else (case rejectSymlinkParents root target fs2 of
                        Some e \<Rightarrow> (Some e, Remove tmp fs2, s')
                      | None \<Rightarrow>
                          (case Rename ft tmp target fs2 of
                             None \<Rightarrow> (Some (OsFailed ''rename''), Remove tmp fs2, s')
                           | Some fs3 \<Rightarrow>
                               (None, set_attributes target (fp_Mode payload) (fp_MTimeNS payload) fs3, s'))))))"

section \<open>Applying an event\<close>

definition ignore_ttl :: time where
  "ignore_ttl = 2"

definition zero_entry :: Entry where
  "zero_entry =
     \<lparr>en_RootID = [], en_RelPath = [], en_PathID = [], en_Kind = RootKindOther [], en_CurrentSeq = 0,
      en_ContentSHA256 = [], en_SizeBytes = 0, en_Mode = 0, en_MTimeNS = 0, en_Inode = 0,
      en_Device = 0, en_Deleted = False\<rparr>"

definition apply_dir_put ::
  "applier_env \<Rightarrow> Root \<Rightarrow> EventRecord \<Rightarrow> bool \<Rightarrow> DirPutPayload \<Rightarrow> ('s, 'z) machine_scheme
    \<Rightarrow> go_error option \<times> ('s, 'z) machine_scheme" where
  "apply_dir_put env root event stageOnly payload m =
     (case validateDirPutTarget env root (dp_Path payload) (er_PathID event) of
        Inl e \<Rightarrow> (Some e, m)
      | Inr (relPath, target, pathID) \<Rightarrow>
          (let expected = zero_entry\<lparr>en_RootID := cr_RootID root, en_RelPath := relPath,
                 en_Kind := RootKindDir, en_Mode := dp_Mode payload, en_MTimeNS := dp_MTimeNS payload\<rparr>;
               entry = expected\<lparr>en_PathID := pathID, en_CurrentSeq := er_Seq event\<rparr> in
           if stageOnly then (None, m\<lparr>mc_db := UpsertEntry entry (mc_db m)\<rparr>)
           else
             (case ensureSafeDirTarget root target (mc_fs m) of
                (Some e, fs) \<Rightarrow> (Some e, m\<lparr>mc_fs := fs\<rparr>)
              | (None, fs) \<Rightarrow>
                  (None, m\<lparr>mc_fs := set_attributes target (dp_Mode payload) (dp_MTimeNS payload) fs,
                     mc_db := UpsertEntry entry
                       (SetIgnore (cr_RootID root) relPath (ae_now env + ignore_ttl) expected (mc_db m))\<rparr>))))"

definition apply_file_put ::
  "applier_env \<Rightarrow> 's Client \<Rightarrow> Root \<Rightarrow> EventRecord \<Rightarrow> bool \<Rightarrow> FilePutPayload \<Rightarrow> ('s, 'z) machine_scheme
    \<Rightarrow> go_error option \<times> ('s, 'z) machine_scheme" where
  "apply_file_put env c root event stageOnly payload m =
     (case validateFilePutTarget env root (fp_Path payload) (er_PathID event) of
        Inl e \<Rightarrow> (Some e, m)
      | Inr (relPath, target, pathID) \<Rightarrow>
          (let expected = zero_entry\<lparr>en_RootID := cr_RootID root, en_RelPath := relPath,
                 en_Kind := RootKindFile, en_ContentSHA256 := fp_ContentSHA256 payload,
                 en_Mode := fp_Mode payload, en_MTimeNS := fp_MTimeNS payload\<rparr>;
               entry = expected\<lparr>en_PathID := pathID, en_CurrentSeq := er_Seq event,
                 en_SizeBytes := fp_SizeBytes payload\<rparr> in
           if stageOnly then (None, m\<lparr>mc_db := UpsertEntry entry (mc_db m)\<rparr>)
           else
             (case ensureSafeParentDirs root target (mc_fs m) of
                (Some e, fs) \<Rightarrow> (Some e, m\<lparr>mc_fs := fs\<rparr>)
              | (None, fs) \<Rightarrow>
                  (case replace_file ''.syna-'' env c root pathID target payload fs (mc_net m) of
                     (Some e, fs', s) \<Rightarrow> (Some e, m\<lparr>mc_fs := fs', mc_net := s\<rparr>)
                   | (None, fs', s) \<Rightarrow>
                       (None, m\<lparr>mc_fs := fs', mc_net := s,
                          mc_db := UpsertEntry entry
                            (SetIgnore (cr_RootID root) relPath (ae_now env + ignore_ttl) expected (mc_db m))\<rparr>)))))"

definition apply_delete ::
  "applier_env \<Rightarrow> Root \<Rightarrow> EventRecord \<Rightarrow> bool \<Rightarrow> DeletePayload \<Rightarrow> ('s, 'z) machine_scheme
    \<Rightarrow> go_error option \<times> ('s, 'z) machine_scheme" where
  "apply_delete env root event stageOnly payload m =
     (case resolveDeleteTarget env root (del_Path payload) (er_PathID event) of
        Inl e \<Rightarrow> (Some e, m)
      | Inr (relPath, target, pathID) \<Rightarrow>
          (let entry = zero_entry\<lparr>en_RootID := cr_RootID root, en_RelPath := relPath,
                 en_PathID := pathID, en_CurrentSeq := er_Seq event\<rparr> in
           if stageOnly then (None, m\<lparr>mc_db := MarkEntryDeleted entry (mc_db m)\<rparr>)
           else
             (case rejectSymlinkParents root target (mc_fs m) of
                Some e \<Rightarrow> (Some e, m)
              | None \<Rightarrow>
                  (None, m\<lparr>mc_fs := RemoveAll target (mc_fs m),
                     mc_db := MarkEntryDeleted entry
                       (SetIgnoreDelete (cr_RootID root) relPath (ae_now env + ignore_ttl) (mc_db m))\<rparr>))))"

definition invalid_json :: go_error where
  "invalid_json = Failed ''invalid JSON payload''"

definition ApplyEvent ::
  "applier_env \<Rightarrow> 's Client \<Rightarrow> Root \<Rightarrow> EventRecord \<Rightarrow> bool \<Rightarrow> ('s, 'z) machine_scheme
    \<Rightarrow> go_error option \<times> ('s, 'z) machine_scheme" where
  "ApplyEvent env c root event stageOnly m =
     (let pathID = (case er_PathID event of None \<Rightarrow> [] | Some p \<Rightarrow> p) in
      case b64_decode (er_PayloadBlob event) of
        None \<Rightarrow> (Some (Failed ''illegal base64 data''), m)
      | Some payloadBlob \<Rightarrow>
          (case Decrypt (ae_px env) (dk_EventKey (ae_keys env)) payloadBlob
                  (EventAAD (ae_WorkspaceID env) (er_RootID event) pathID (event_type_string (er_EventType event))) of
             Inl e \<Rightarrow> (Some (CryptoFailed e), m)
           | Inr plaintext \<Rightarrow>
               (case er_EventType event of
                  EventDirPut \<Rightarrow>
                    (case js_DirPut (ae_json env) plaintext of
                       None \<Rightarrow> (Some invalid_json, m)
                     | Some payload \<Rightarrow> apply_dir_put env root event stageOnly payload m)
                | EventFilePut \<Rightarrow>
                    (case js_FilePut (ae_json env) plaintext of
                       None \<Rightarrow> (Some invalid_json, m)
                     | Some payload \<Rightarrow> apply_file_put env c root event stageOnly payload m)
                | EventDelete \<Rightarrow>
                    (case js_Delete (ae_json env) plaintext of
                       None \<Rightarrow> (Some invalid_json, m)
                     | Some payload \<Rightarrow> apply_delete env root event stageOnly payload m)
                | t \<Rightarrow> (Some (Failed (''unsupported event type '' @ event_type_string t)), m))))"

end
