(* ===== verification/Daemon.thy ===== *)
theory Daemon
  imports Applier
begin

text \<open>
  The state of the client daemon (\<^verbatim>\<open>internal/client/daemon/daemon.go\<close>) while it
  synchronises, and the small operations on it.  A \<open>daemon\<close> extends the machine
  the applier works on by the staged roots, the watched directories and the queue
  of changes to rescan.  \<open>daemon_env\<close> is what a connected daemon only reads: its
  keys, its connection and its names; the callers have checked that they are
  there.  Every reading of the clock, every random name and every fault comes
  from the sequence \<open>dm_luck\<close>, one element per use.
\<close>

record luck =
  lu_now :: time
  lu_random :: string
  lu_nonces :: "nat \<Rightarrow> bytes"
  lu_faults :: faults
  lu_watch :: "string option"

record 's daemon = "'s machine" +
  dm_staged :: "string set"
  dm_live :: bool
  dm_changes :: "(string \<times> string) list"
  dm_watched :: "string \<rightharpoonup> string"
  dm_luck :: "nat \<Rightarrow> luck"

text \<open>\<^verbatim>\<open>json.Marshal\<close> of the payloads the daemon sends.\<close>

record encoder =
  je_RootAdd :: "RootAddPayload \<Rightarrow> bytes"
  je_RootRemove :: "RootRemovePayload \<Rightarrow> bytes"
  je_DirPut :: "DirPutPayload \<Rightarrow> bytes"
  je_FilePut :: "FilePutPayload \<Rightarrow> bytes"
  je_Delete :: "DeletePayload \<Rightarrow> bytes"
  je_Snapshot :: "SnapshotPayload \<Rightarrow> bytes"

text \<open>
  \<open>dv_listing\<close> enumerates the paths of a tree, which reading directories needs;
  \<open>dv_link\<close> is the regular file a symbolic link leads to, if any; \<open>dv_stamp\<close>
  formats a time to the second; \<open>dv_describe\<close> gives the texts of foreign errors;
  \<open>dv_fresh\<close> are the mode and time of a node whose attributes were never set,
  \<open>dv_dirsize\<close> is the size a directory reports, and conflicting files are staged
  in \<open>dv_StateDir\<close>; \<open>dv_formatTime\<close> is \<open>Format(time.RFC3339Nano)\<close> and \<open>dv_cwd\<close> the
  working directory.
\<close>

record 's daemon_env =
  dv_px :: primitives
  dv_json :: codec
  dv_home :: "string option"
  dv_keys :: DerivedKeys
  dv_WorkspaceID :: string
  dv_DeviceID :: string
  dv_DeviceName :: string
  dv_conn :: "'s Client"
  dv_describe :: "go_error \<Rightarrow> string"
  dv_listing :: "tree \<Rightarrow> string list"
  dv_link :: "fsys \<Rightarrow> string \<Rightarrow> bytes option"
  dv_stamp :: "time \<Rightarrow> string"
  dv_encode :: encoder
  dv_fresh :: "string \<Rightarrow> int \<times> int"
  dv_dirsize :: "string \<Rightarrow> int"
  dv_StateDir :: string
  dv_formatTime :: "time \<Rightarrow> string"
  dv_cwd :: "string option"

definition draw :: "'s daemon \<Rightarrow> luck \<times> 's daemon" where
  "draw d = (dm_luck d 0, d\<lparr>dm_luck := (\<lambda>n. dm_luck d (Suc n))\<rparr>)"

definition applier_of :: "'s daemon_env \<Rightarrow> luck \<Rightarrow> applier_env" where
  "applier_of dv lu =
     \<lparr>ae_px = dv_px dv, ae_keys = dv_keys dv, ae_WorkspaceID = dv_WorkspaceID dv, ae_json = dv_json dv,
      ae_now = lu_now lu, ae_random = lu_random lu, ae_faults = lu_faults lu\<rparr>"

definition on_db :: "(client_db \<Rightarrow> client_db) \<Rightarrow> 's daemon \<Rightarrow> 's daemon" where
  "on_db f d = d\<lparr>mc_db := f (mc_db d)\<rparr>"

section \<open>Issues\<close>

fun lifecycle_of :: "go_error \<Rightarrow> DaemonIssueKind option" where
  "lifecycle_of (LifecycleError kind e) = Some kind"
| "lifecycle_of (Wrapped context e) = lifecycle_of e"
| "lifecycle_of e = None"

definition markLifecycle :: "DaemonIssueKind \<Rightarrow> go_error option \<Rightarrow> go_error option" where
  "markLifecycle kind err =
     map_option (\<lambda>e. if lifecycle_of e = None then LifecycleError kind e else e) err"

definition lifecycleKind :: "go_error \<Rightarrow> DaemonIssueKind \<Rightarrow> DaemonIssueKind" where
  "lifecycleKind e fallback = (case lifecycle_of e of Some kind \<Rightarrow> kind | None \<Rightarrow> fallback)"

definition warningIssueKind :: "string \<Rightarrow> DaemonIssueKind option" where
  "warningIssueKind key =
     (if prefix ''service:install'' key then Some IssueServiceInstall
      else if prefix ''service:disable'' key then Some IssueServiceDisable
      else if prefix ''watcher:'' key then Some IssueWatcher
      else if prefix ''scanner:'' key then Some IssueScanner
      else None)"

section \<open>Staged roots, watched roots and rescans\<close>

definition changeCh_capacity :: nat where
  "changeCh_capacity = 128"

definition watcher_RemoveRoot :: "string \<Rightarrow> 's daemon \<Rightarrow> 's daemon" where
  "watcher_RemoveRoot rootID d = d\<lparr>dm_watched := (dm_watched d)(rootID := None)\<rparr>"

definition markStagedRoot :: "string \<Rightarrow> 's daemon \<Rightarrow> 's daemon" where
  "markStagedRoot rootID d =
     (watcher_RemoveRoot rootID d)\<lparr>dm_staged := insert rootID (dm_staged d)\<rparr>"

definition clearStagedRoot :: "string \<Rightarrow> 's daemon \<Rightarrow> 's daemon" where
  "clearStagedRoot rootID d = d\<lparr>dm_staged := dm_staged d - {rootID}\<rparr>"

definition isRootStaged :: "string \<Rightarrow> 's daemon \<Rightarrow> bool" where
  "isRootStaged rootID d \<longleftrightarrow> rootID \<in> dm_staged d"

definition setStreamingLive :: "bool \<Rightarrow> 's daemon \<Rightarrow> 's daemon" where
  "setStreamingLive v d = d\<lparr>dm_live := v\<rparr>"

definition isStreamingLive :: "'s daemon \<Rightarrow> bool" where
  "isStreamingLive d = dm_live d"

definition enqueueRootRescan :: "string \<Rightarrow> 's daemon \<Rightarrow> 's daemon" where
  "enqueueRootRescan rootID d =
     (if length (dm_changes d) < changeCh_capacity then d\<lparr>dm_changes := dm_changes d @ [(rootID, [])]\<rparr> else d)"

definition watcher_key :: "string \<Rightarrow> string" where
  "watcher_key rootID = ''watcher:'' @ rootID"

definition scanner_key :: "string \<Rightarrow> string" where
  "scanner_key rootID = ''scanner:'' @ rootID @ '':''"

text \<open>\<open>watcher.AddRoot\<close> fails with the text \<open>lu_watch\<close>, if any; the clock is read only then.\<close>

definition addWatcherRoot :: "string \<Rightarrow> string \<Rightarrow> 's daemon \<Rightarrow> bool \<times> 's daemon" where
  "addWatcherRoot rootID target d =
     (let (lu, d1) = draw d in
      case lu_watch lu of
        Some err \<Rightarrow>
          (False, on_db (UpsertWarning (watcher_key rootID)
             (''watcher could not monitor '' @ target @ '': '' @ err) (lu_now lu)) d1)
      | None \<Rightarrow>
          (True, on_db (ClearWarningsWithPrefix (watcher_key rootID))
             (d1\<lparr>dm_watched := (dm_watched d1)(rootID \<mapsto> target)\<rparr>)))"

definition markRootRemoved :: "Root \<Rightarrow> 's daemon \<Rightarrow> 's daemon" where
  "markRootRemoved root d =
     on_db (\<lambda>s. DeleteRootState (cr_RootID root)
        (SetRootState (cr_RootID root) RootStateRemoved
          (ClearWarningsWithPrefix (scanner_key (cr_RootID root))
            (ClearWarningsWithPrefix (watcher_key (cr_RootID root)) s))))
       (clearStagedRoot (cr_RootID root) (watcher_RemoveRoot (cr_RootID root) d))"

definition queuePendingRootRescan ::
  "(time \<Rightarrow> string) \<Rightarrow> (go_error \<Rightarrow> string) \<Rightarrow> string \<Rightarrow> go_error option \<Rightarrow> 's daemon \<Rightarrow> go_error option \<times> 's daemon" where
  "queuePendingRootRescan formatTime describe rootID cause d =
     (let (lu, d1) = draw d in
      case QueueRootRescan formatTime rootID (lu_now lu) (mc_db d1) of
        (Inl e, s) \<Rightarrow> (Some (OsFailed ''database''), d1\<lparr>mc_db := s\<rparr>)
      | (Inr _, s) \<Rightarrow>
          (None, (case cause of
             None \<Rightarrow> d1\<lparr>mc_db := s\<rparr>
           | Some e \<Rightarrow> on_db (SetConnectionStateWithKind ConnectionDegraded
               (Some (lifecycleKind e IssueTransport)) (error_text describe e)) (d1\<lparr>mc_db := s\<rparr>))))"

end
