(* ===== verification/RemoteApply.thy ===== *)
theory RemoteApply
  imports Daemon
begin

text \<open>
  How the daemon consumes one event of the log
  (\<^verbatim>\<open>internal/client/daemon/daemon.go\<close>): a root the event announces is checked
  and brought into being, the end of a root is recorded, and everything else goes
  to the applier.  Afterwards the cursor moves to the event.
\<close>

section \<open>Roots announced by the server\<close>

definition decode_root_add :: "'s daemon_env \<Rightarrow> string \<Rightarrow> bytes \<Rightarrow> go_error + RootAddPayload" where
  "decode_root_add dv rootID blob64 =
     (case b64_decode blob64 of
        None \<Rightarrow> Inl (Failed ''illegal base64 data'')
      | Some blob \<Rightarrow>
          (case Decrypt (dv_px dv) (dk_EventKey (dv_keys dv)) blob
                  (EventAAD (dv_WorkspaceID dv) rootID [] (event_type_string EventRootAdd)) of
             Inl e \<Rightarrow> Inl (CryptoFailed e)
           | Inr plain \<Rightarrow>
               (case js_RootAdd (dv_json dv) plain of None \<Rightarrow> Inl invalid_json | Some payload \<Rightarrow> Inr payload)))"

definition check_descriptor ::
  "'s daemon_env \<Rightarrow> BootstrapRoot \<Rightarrow> RootAddPayload \<Rightarrow> go_error + string \<times> string" where
  "check_descriptor dv root payload =
     (case ResolveHomeRelTarget (dv_home dv) (ra_HomeRelPath payload) of
        Inl e \<Rightarrow> Inl (IntegrityError ''rejected remote root_add with invalid home_rel_path'')
      | Inr (homeRel, target) \<Rightarrow>
          if ra_RootID payload \<noteq> br_RootID root then
            Inl (IntegrityError ''rejected remote root_add with mismatched root_id'')
          else if RootID (dv_px dv) (dv_keys dv) homeRel \<noteq> br_RootID root then
            Inl (IntegrityError ''rejected remote root_add with invalid root_id binding'')
          else if ra_Kind payload \<noteq> br_Kind root then
            Inl (IntegrityError ''rejected remote root_add with mismatched root kind'')
          else Inr (homeRel, target))"

definition local_root :: "BootstrapRoot \<Rightarrow> RootAddPayload \<Rightarrow> string \<Rightarrow> string \<Rightarrow> RootState \<Rightarrow> Root" where
  "local_root root payload homeRel target state =
     \<lparr>cr_RootID = ra_RootID payload, cr_Kind = ra_Kind payload, cr_HomeRelPath = homeRel,
      cr_TargetAbsPath = target, cr_State = state, cr_LatestSnapshotSeq = br_LatestSnapshotSeq root,
      cr_LastScanAt = None\<rparr>"

text \<open>\<open>os.ReadDir\<close> of a directory: its children among the paths of the tree.\<close>

definition ReadDir :: "(tree \<Rightarrow> string list) \<Rightarrow> tree \<Rightarrow> string \<Rightarrow> string list" where
  "ReadDir listing t dir = filter (\<lambda>p. Dir p = dir \<and> p \<noteq> dir) (listing t)"

text \<open>Whether what lies at the target keeps the root from being taken over.\<close>

definition blocks_dir_root :: "(tree \<Rightarrow> string list) \<Rightarrow> bool \<Rightarrow> string \<Rightarrow> tree \<Rightarrow> bool" where
  "blocks_dir_root listing reactivation target t =
     (case Lstat t target of
        Inr (Some n) \<Rightarrow> n \<noteq> NodeDir \<or> (\<not> reactivation \<and> ReadDir listing t target \<noteq> [])
      | _ \<Rightarrow> False)"

definition blocks_file_root :: "bool \<Rightarrow> string \<Rightarrow> tree \<Rightarrow> bool" where
  "blocks_file_root reactivation target t =
     (case Lstat t target of Inr (Some n) \<Rightarrow> \<not> reactivation | _ \<Rightarrow> False)"

definition ensure_home_dir :: "'s daemon_env \<Rightarrow> string \<Rightarrow> 's daemon \<Rightarrow> go_error option \<times> 's daemon" where
  "ensure_home_dir dv dir d =
     (case HomeDir (dv_home dv) of
        Inl e \<Rightarrow> (Some (PathFailed e), d)
      | Inr home \<Rightarrow>
          (case on_tree (EnsureSafeDir home dir) (mc_fs d) of
             (e, fs) \<Rightarrow> (map_option PathFailed e, d\<lparr>mc_fs := fs\<rparr>)))"

definition ensureRootFromDescriptor ::
  "'s daemon_env \<Rightarrow> BootstrapRoot \<Rightarrow> 's daemon \<Rightarrow> (go_error + bool) \<times> 's daemon" where
  "ensureRootFromDescriptor dv root d =
     (case decode_root_add dv (br_RootID root) (br_DescriptorBlob root) of
        Inl e \<Rightarrow> (Inl e, d)
      | Inr payload \<Rightarrow>
     (case check_descriptor dv root payload of
        Inl e \<Rightarrow> (Inl e, d)
      | Inr (homeRel, target) \<Rightarrow>
          (let rootID = ra_RootID payload;
               existing = RootByID rootID (mc_db d);
               as = local_root root payload homeRel target;
               unchanged = (case existing of None \<Rightarrow> False | Some x \<Rightarrow>
                 cr_State x = RootStateActive \<and> cr_Kind x = ra_Kind payload \<and> cr_HomeRelPath x = homeRel
                 \<and> Clean (cr_TargetAbsPath x) = Clean target);
               reactivation = (case existing of None \<Rightarrow> False | Some x \<Rightarrow>
                 cr_State x = RootStateRemoved \<and> cr_TargetAbsPath x = target);
               blocked = (Inr False, on_db (UpsertRoot (as RootStateBlockedNonEmpty)) (clearStagedRoot rootID d)) in
           if unchanged then (Inr False, on_db (UpsertRoot (as RootStateActive)) d)
           else if ra_Kind payload = RootKindDir \<and> blocks_dir_root (dv_listing dv) reactivation target (fs_tree (mc_fs d))
             then blocked
           else if ra_Kind payload \<noteq> RootKindDir \<and> blocks_file_root reactivation target (fs_tree (mc_fs d))
             then blocked
           else if ra_Kind payload \<noteq> RootKindDir \<and> fs_tree (mc_fs d) target = Some NodeSymlink
             then (Inl (IntegrityError ''rejected remote root_add targeting a symlink''), d)
           else
             (case ensure_home_dir dv (if ra_Kind payload = RootKindDir then target else Dir target) d of
                (Some e, d1) \<Rightarrow> (Inl e, d1)
              | (None, d1) \<Rightarrow>
                  (let d2 = on_db (UpsertRoot (as RootStateActive)) d1 in
                   (Inr reactivation,
                    if reactivation then markStagedRoot rootID d2 else clearStagedRoot rootID d2))))))"

section \<open>One event\<close>

definition is_integrity :: "go_error \<Rightarrow> bool" where
  "is_integrity e = (case unwrapped e of IntegrityError m \<Rightarrow> True | _ \<Rightarrow> False)"

definition descriptor_of :: "EventRecord \<Rightarrow> RootAddPayload \<Rightarrow> BootstrapRoot" where
  "descriptor_of event payload =
     \<lparr>br_RootID = ra_RootID payload, br_Kind = ra_Kind payload, br_DescriptorBlob = er_PayloadBlob event,
      br_CreatedSeq = 0, br_RemovedSeq = None, br_LatestSnapshotObjectID = [], br_LatestSnapshotSeq = 0\<rparr>"

definition apply_root_add :: "'s daemon_env \<Rightarrow> EventRecord \<Rightarrow> 's daemon \<Rightarrow> go_error option \<times> 's daemon" where
  "apply_root_add dv event d =
     (case decode_root_add dv (er_RootID event) (er_PayloadBlob event) of
        Inl e \<Rightarrow> (Some e, d)
      | Inr payload \<Rightarrow>
          (case ensureRootFromDescriptor dv (descriptor_of event payload) d of
             (Inl e, d1) \<Rightarrow> if is_integrity e then (None, d1) else (Some e, d1)
           | (Inr staged, d1) \<Rightarrow>
               (case RootByID (er_RootID event) (mc_db d1) of
                  None \<Rightarrow> (Some ErrNoRows, d1)
                | Some root \<Rightarrow>
                    (let d2 = (if cr_State root = RootStateActive \<and> \<not> staged
                               then snd (addWatcherRoot (ra_RootID payload) (cr_TargetAbsPath root) d1) else d1) in
                     (None, if staged \<and> isStreamingLive d2 then enqueueRootRescan (er_RootID event) d2 else d2)))))"

definition apply_content :: "'s daemon_env \<Rightarrow> Root \<Rightarrow> EventRecord \<Rightarrow> 's daemon \<Rightarrow> go_error option \<times> 's daemon" where
  "apply_content dv root event d =
     (let staged = isRootStaged (cr_RootID root) d; (lu, d1) = draw d in
      case ApplyEvent (applier_of dv lu) (dv_conn dv) root event staged d1 of
        (Some e, d2) \<Rightarrow> if is_integrity e then (None, d2) else (Some e, d2)
      | (None, d2) \<Rightarrow>
          (None, if staged \<and> isStreamingLive d2 then enqueueRootRescan (cr_RootID root) d2 else d2))"

definition applyRemoteEvent :: "'s daemon_env \<Rightarrow> EventRecord \<Rightarrow> 's daemon \<Rightarrow> go_error option \<times> 's daemon" where
  "applyRemoteEvent dv event d =
     (case er_EventType event of
        EventRootAdd \<Rightarrow> apply_root_add dv event d
      | EventRootRemove \<Rightarrow>
          (case RootByID (er_RootID event) (mc_db d) of
             None \<Rightarrow> (None, d) | Some root \<Rightarrow> (None, markRootRemoved root d))
      | _ \<Rightarrow>
          (case RootByID (er_RootID event) (mc_db d) of
             None \<Rightarrow> (None, d)
           | Some root \<Rightarrow>
               if cr_State root \<noteq> RootStateActive then (None, d) else apply_content dv root event d))"

text \<open>The rows of the root are searched, which visits the same entries as its map.\<close>

definition eventMaterializedLocally :: "EventRecord \<Rightarrow> client_db \<Rightarrow> bool" where
  "eventMaterializedLocally event s =
     (let root = RootByID (er_RootID event) s;
          active = (case root of None \<Rightarrow> False | Some r \<Rightarrow> cr_State r = RootStateActive) in
      case er_EventType event of
        EventRootAdd \<Rightarrow> active
      | EventRootRemove \<Rightarrow> (case root of None \<Rightarrow> True | Some r \<Rightarrow> cr_State r = RootStateRemoved)
      | _ \<Rightarrow>
          if \<not> active then True
          else if (case root of None \<Rightarrow> False | Some r \<Rightarrow> cr_LatestSnapshotSeq r \<ge> er_Seq event) then True
          else (case er_PathID event of
                  None \<Rightarrow> False
                | Some pathID \<Rightarrow>
                    list_ex (\<lambda>p. case EntriesForRoot (er_RootID event) s p of
                        None \<Rightarrow> False
                      | Some e \<Rightarrow> en_PathID e = pathID \<and> en_CurrentSeq e \<ge> er_Seq event)
                      (map er_path (filter (\<lambda>r. er_root r = er_RootID event) (c_entries s)))))"

definition consumeRemoteEvent :: "'s daemon_env \<Rightarrow> EventRecord \<Rightarrow> 's daemon \<Rightarrow> go_error option \<times> 's daemon" where
  "consumeRemoteEvent dv event d =
     (if er_AuthorDeviceID event = dv_DeviceID dv \<and> eventMaterializedLocally event (mc_db d) then
        (None, on_db (AdvanceLastSeq (er_Seq event)) d)
      else (case applyRemoteEvent dv event d of
              (Some e, d1) \<Rightarrow> (Some e, d1)
            | (None, d1) \<Rightarrow> (None, on_db (AdvanceLastSeq (er_Seq event)) d1)))"

end
