(* ===== verification/ConflictCopy.thy ===== *)
theory ConflictCopy
  imports Daemon
begin

text \<open>
  Conflict copies: how they are named (\<^verbatim>\<open>internal/client/daemon/conflict.go\<close>), and
  how a local file that a snapshot is about to replace is kept beside it
  (\<^verbatim>\<open>internal/client/daemon/snapshot_apply.go\<close>).  Device names are treated byte by
  byte, so only ASCII letters change case.
\<close>

section \<open>\<^verbatim>\<open>path/filepath\<close>: the last element and its extension\<close>

definition Base :: "string \<Rightarrow> string" where
  "Base p =
     (if p = [] then ''.''
      else let b = rev (takeWhile (\<lambda>c. c \<noteq> slash) (dropWhile (\<lambda>c. c = slash) (rev p)))
           in if b = [] then ''/'' else b)"

definition Ext :: "string \<Rightarrow> string" where
  "Ext p =
     (let r = takeWhile (\<lambda>c. c \<noteq> slash) (rev p) in
      if CHR ''.'' \<in> set r then CHR ''.'' # rev (takeWhile (\<lambda>c. c \<noteq> CHR ''.'') r) else [])"

section \<open>Names\<close>

definition lower_char :: "char \<Rightarrow> char" where
  "lower_char c =
     (let n = of_char c :: nat in if 65 \<le> n \<and> n \<le> 90 then char_of (n + 32) else c)"

definition slug_char :: "char \<Rightarrow> bool" where
  "slug_char c \<longleftrightarrow> (let n = of_char c :: nat in (97 \<le> n \<and> n \<le> 122) \<or> (48 \<le> n \<and> n \<le> 57))"

fun dash_runs :: "bool \<Rightarrow> string \<Rightarrow> string" where
  "dash_runs inside [] = []"
| "dash_runs inside (c # cs) =
     (if slug_char c then c # dash_runs False cs
      else if inside then dash_runs True cs
      else CHR ''-'' # dash_runs True cs)"

definition deviceShort :: "string \<Rightarrow> string" where
  "deviceShort deviceName =
     (let dashed = dash_runs False (map lower_char deviceName);
          trimmed = trim_right (CHR ''-'') (dropWhile (\<lambda>c. c = CHR ''-'') dashed);
          slug = (if trimmed = [] then ''device'' else trimmed)
      in if length slug > 16 then take 16 slug else slug)"

definition conflictRelPath :: "(time \<Rightarrow> string) \<Rightarrow> string \<Rightarrow> string \<Rightarrow> string \<Rightarrow> time \<Rightarrow> string" where
  "conflictRelPath stamp relPath rootTargetAbsPath deviceName now =
     (let basePath = (if relPath = [] then Base rootTargetAbsPath else relPath);
          dir = Dir basePath; name = Base basePath; ext = Ext name; stem = trim_suffix ext name;
          conflictName = stem @ ''.syna-conflict-'' @ deviceShort deviceName @ ''-'' @ stamp now @ ext
      in if dir = ''.'' \<or> dir = [] then conflictName else Join [dir, conflictName])"

section \<open>Copying a file\<close>

text \<open>What \<open>os.Open\<close> and reading to the end give: links are followed, directories have no content.\<close>

definition read_file :: "(fsys \<Rightarrow> string \<Rightarrow> bytes option) \<Rightarrow> string \<Rightarrow> fsys \<Rightarrow> bytes option" where
  "read_file link p fs =
     (case fs_tree fs p of
        Some NodeFile \<Rightarrow> fs_data fs p | Some NodeSymlink \<Rightarrow> link fs p | _ \<Rightarrow> None)"

text \<open>\<open>CreateTemp\<close>, \<open>io.Copy\<close>, \<open>Sync\<close> and \<open>Close\<close>, with the temporary file removed after a failure.\<close>

definition copy_temp :: "faults \<Rightarrow> string \<Rightarrow> string \<Rightarrow> bytes option \<Rightarrow> fsys \<Rightarrow> go_error option \<times> fsys" where
  "copy_temp ft dir tmp content fs =
     (case content of
        None \<Rightarrow> (Some (OsFailed ''read file''), fs)
      | Some b \<Rightarrow>
          (case CreateTemp ft dir tmp fs of
             None \<Rightarrow> (Some (OsFailed ''create temporary file''), fs)
           | Some fs1 \<Rightarrow>
               (case ft_write ft 0 of
                  Some n \<Rightarrow> (Some (OsFailed ''write''), Remove tmp (WriteFile tmp (take n b) fs1))
                | None \<Rightarrow>
                    (let fs2 = WriteFile tmp b fs1 in
                     if ft_sync ft then (Some (OsFailed ''sync''), Remove tmp fs2)
                     else if ft_close ft then (Some (OsFailed ''close''), Remove tmp fs2)
                     else (None, fs2)))))"

definition rename_temp :: "faults \<Rightarrow> string \<Rightarrow> string \<Rightarrow> fsys \<Rightarrow> go_error option \<times> fsys" where
  "rename_temp ft tmp dst fs =
     (case Rename ft tmp dst fs of
        None \<Rightarrow> (Some (OsFailed ''rename''), Remove tmp fs) | Some fs' \<Rightarrow> (None, fs'))"

definition conflict_target :: "'s daemon_env \<Rightarrow> Root \<Rightarrow> string \<Rightarrow> string \<Rightarrow> time \<Rightarrow> string" where
  "conflict_target dv root relPath target now =
     Join [Dir target, Base (conflictRelPath (dv_stamp dv) relPath (cr_TargetAbsPath root) (dv_DeviceName dv) now)]"

definition preserveLocalConflictCopy ::
  "'s daemon_env \<Rightarrow> Root \<Rightarrow> string \<Rightarrow> string \<Rightarrow> 's daemon \<Rightarrow> (go_error + string) \<times> 's daemon" where
  "preserveLocalConflictCopy dv root relPath target d =
     (let (lu, d1) = draw d; dir = Dir target; dst = conflict_target dv root relPath target (lu_now lu);
          tmp = temp_name dir ''.syna-conflict-'' (lu_random lu) in
      case copy_temp (lu_faults lu) dir tmp (read_file (dv_link dv) target (mc_fs d1)) (mc_fs d1) of
        (Some e, fs) \<Rightarrow> (Inl e, d1\<lparr>mc_fs := fs\<rparr>)
      | (None, fs) \<Rightarrow>
          (case rename_temp (lu_faults lu) tmp dst fs of
             (Some e, fs') \<Rightarrow> (Inl e, d1\<lparr>mc_fs := fs'\<rparr>)
           | (None, fs') \<Rightarrow> (Inr dst, d1\<lparr>mc_fs := fs'\<rparr>)))"

section \<open>Facts\<close>

lemma copy_temp_cases:
  assumes "fs_ok fs" and "copy_temp ft dir tmp content fs = (r, fs')"
  shows "r \<noteq> None \<Longrightarrow> fs' = fs"
    and "r = None \<Longrightarrow> \<exists>b fs1. content = Some b \<and> CreateTemp ft dir tmp fs = Some fs1 \<and> fs' = WriteFile tmp b fs1"
  using assms Remove_CreateTemp [OF assms(1)]
  by (auto simp: copy_temp_def Let_def split: option.splits if_splits)

end
