(* ===== verification/SnapshotApply.thy ===== *)
theory SnapshotApply
  imports RemoteApply ConflictCopy
begin

text \<open>
  \<^verbatim>\<open>internal/client/daemon/snapshot_apply.go\<close>: a snapshot of a root is downloaded,
  checked against what the server said about it, and laid over the local tree.
  What a local file held is compared with the snapshot and with the hash recorded
  at the last synchronisation, and a local edit is kept or copied away before its
  file is replaced.
\<close>

section \<open>Checks\<close>

definition validate_snapshot :: "'s daemon_env \<Rightarrow> Root \<Rightarrow> int \<Rightarrow> SnapshotPayload \<Rightarrow> go_error option" where
  "validate_snapshot dv root baseSeq snapshot =
     (if snp_RootID snapshot \<noteq> cr_RootID root then
        Some (IntegrityError ''rejected snapshot with mismatched root_id'')
      else if snp_BaseSeq snapshot \<noteq> baseSeq then
        Some (IntegrityError ''rejected snapshot with mismatched base_seq'')
      else if snp_Kind snapshot \<noteq> cr_Kind root then
        Some (IntegrityError ''rejected snapshot with mismatched root kind'')
      else (case ResolveHomeRelTarget (dv_home dv) (snp_HomeRelPath snapshot) of
              Inl e \<Rightarrow> Some (IntegrityError ''rejected snapshot with invalid home_rel_path'')
            | Inr (homeRel, _) \<Rightarrow>
                if homeRel \<noteq> cr_HomeRelPath root
                   \<or> RootID (dv_px dv) (dv_keys dv) homeRel \<noteq> cr_RootID root
                then Some (IntegrityError ''rejected snapshot with invalid root binding'')
                else None))"

definition resolveSnapshotTarget ::
  "'s daemon_env \<Rightarrow> Root \<Rightarrow> string \<Rightarrow> RootKind \<Rightarrow> go_error + string \<times> string \<times> string" where
  "resolveSnapshotTarget dv root rawPath kind =
     (case cr_Kind root of
        RootKindDir \<Rightarrow>
          (case ResolveRemoteTarget (cr_TargetAbsPath root) rawPath True of
             Inl e \<Rightarrow> Inl (IntegrityError ''rejected snapshot entry with invalid path'')
           | Inr (relPath, target) \<Rightarrow>
               if relPath = [] \<and> kind \<noteq> RootKindDir then
                 Inl (IntegrityError ''rejected snapshot root entry with invalid kind'')
               else Inr (relPath, target, PathID (dv_px dv) (dv_keys dv) (cr_RootID root) relPath))
      | RootKindFile \<Rightarrow>
          if rawPath \<noteq> [] \<or> kind \<noteq> RootKindFile then
            Inl (IntegrityError ''rejected snapshot entry outside file root'')
          else Inr ([], Clean (cr_TargetAbsPath root), PathID (dv_px dv) (dv_keys dv) (cr_RootID root) [])
      | RootKindOther k \<Rightarrow> Inl (Failed (''unsupported root kind '' @ k)))"

definition fileSHA256Hex ::
  "primitives \<Rightarrow> (fsys \<Rightarrow> string \<Rightarrow> bytes option) \<Rightarrow> string \<Rightarrow> fsys \<Rightarrow> go_error + string option" where
  "fileSHA256Hex px link path fs =
     (case Lstat (fs_tree fs) path of
        Inl e \<Rightarrow> Inl (PathFailed e)
      | Inr _ \<Rightarrow> Inr (map_option (\<lambda>b. hex_encode (px_sha256 px b)) (read_file link path fs)))"

section \<open>One entry\<close>

datatype decision = Keep | Replace | PreserveAndReplace

definition snapshot_decision :: "string option \<Rightarrow> Entry option \<Rightarrow> SnapshotEntry \<Rightarrow> decision" where
  "snapshot_decision localHash prior entry =
     (case localHash of
        None \<Rightarrow> Replace
      | Some h \<Rightarrow>
          let base = (case prior of None \<Rightarrow> None
                | Some p \<Rightarrow> if en_Deleted p then None else Some (en_ContentSHA256 p)) in
          if h = sne_ContentSHA256 entry then Keep
          else if base = Some h then Replace
          else if base = Some (sne_ContentSHA256 entry) then Keep
          else PreserveAndReplace)"

definition payload_of_entry :: "SnapshotEntry \<Rightarrow> FilePutPayload" where
  "payload_of_entry entry =
     \<lparr>fp_Path = sne_Path entry, fp_Mode = sne_Mode entry, fp_MTimeNS = sne_MTimeNS entry,
      fp_SizeBytes = sne_SizeBytes entry, fp_ContentSHA256 = sne_ContentSHA256 entry,
      fp_Chunks = sne_Chunks entry\<rparr>"

text \<open>
  The loop over the chunks repeats the applier's with messages of its own.
\<close>

definition snapshot_error :: "go_error \<Rightarrow> go_error" where
  "snapshot_error e =
     (case e of
        IntegrityError m \<Rightarrow> IntegrityError
          (if m = ''rejected remote file chunk outside allowed size limits''
             then ''rejected remote chunk outside allowed size limits''
           else if m = ''rejected remote file_put with inconsistent chunk size''
             then ''rejected snapshot with inconsistent chunk size''
           else if m = ''rejected remote file_put with inconsistent size metadata''
             then ''rejected snapshot with inconsistent size metadata''
           else if m = ''rejected remote file_put with inconsistent content digest''
             then ''rejected snapshot with inconsistent content digest''
           else m)
      | _ \<Rightarrow> e)"

definition materialize_file ::
  "'s daemon_env \<Rightarrow> Root \<Rightarrow> string \<Rightarrow> string \<Rightarrow> SnapshotEntry \<Rightarrow> 's daemon \<Rightarrow> go_error option \<times> 's daemon" where
  "materialize_file dv root pathID target entry d =
     (case ensureSafeParentDirs root target (mc_fs d) of
        (Some e, fs) \<Rightarrow> (Some e, d\<lparr>mc_fs := fs\<rparr>)
      | (None, fs) \<Rightarrow>
          (let (lu, d1) = draw d in
           case replace_file ''.syna-bootstrap-'' (applier_of dv lu) (dv_conn dv) root pathID target
                  (payload_of_entry entry) fs (mc_net d1) of
             (e, fs', s) \<Rightarrow> (map_option snapshot_error e, d1\<lparr>mc_fs := fs', mc_net := s\<rparr>)))"

definition place_file ::
  "'s daemon_env \<Rightarrow> Root \<Rightarrow> string \<Rightarrow> string \<Rightarrow> string \<Rightarrow> Entry option \<Rightarrow> SnapshotEntry \<Rightarrow> 's daemon
    \<Rightarrow> go_error option \<times> 's daemon" where
  "place_file dv root relPath pathID target prior entry d =
     (case fileSHA256Hex (dv_px dv) (dv_link dv) target (mc_fs d) of
        Inl e \<Rightarrow> (Some e, d)
      | Inr localHash \<Rightarrow>
          (case snapshot_decision localHash prior entry of
             Keep \<Rightarrow> (None, d)
           | Replace \<Rightarrow> materialize_file dv root pathID target entry d
           | PreserveAndReplace \<Rightarrow>
               (case preserveLocalConflictCopy dv root relPath target d of
                  (Inl e, d1) \<Rightarrow> (Some e, d1)
                | (Inr conflictPath, d1) \<Rightarrow> materialize_file dv root pathID target entry d1)))"

definition place_dir ::
  "Root \<Rightarrow> string \<Rightarrow> SnapshotEntry \<Rightarrow> 's daemon \<Rightarrow> go_error option \<times> 's daemon" where
  "place_dir root target entry d =
     (case ensureSafeDirTarget root target (mc_fs d) of
        (Some e, fs) \<Rightarrow> (Some e, d\<lparr>mc_fs := fs\<rparr>)
      | (None, fs) \<Rightarrow> (None, d\<lparr>mc_fs := set_attributes target (sne_Mode entry) (sne_MTimeNS entry) fs\<rparr>))"

definition dir_row :: "Root \<Rightarrow> int \<Rightarrow> string \<Rightarrow> string \<Rightarrow> Entry option \<Rightarrow> SnapshotEntry \<Rightarrow> Entry" where
  "dir_row root baseSeq relPath pathID prior entry =
     zero_entry\<lparr>en_RootID := cr_RootID root, en_RelPath := relPath, en_PathID := pathID,
       en_Kind := RootKindDir,
       en_CurrentSeq := (case prior of
          Some p \<Rightarrow> if \<not> en_Deleted p \<and> en_Kind p = RootKindDir \<and> en_Mode p = sne_Mode entry
                      \<and> en_MTimeNS p = sne_MTimeNS entry then en_CurrentSeq p else baseSeq
        | None \<Rightarrow> baseSeq),
       en_Mode := sne_Mode entry, en_MTimeNS := sne_MTimeNS entry\<rparr>"

definition file_row :: "Root \<Rightarrow> int \<Rightarrow> string \<Rightarrow> string \<Rightarrow> Entry option \<Rightarrow> SnapshotEntry \<Rightarrow> Entry" where
  "file_row root baseSeq relPath pathID prior entry =
     zero_entry\<lparr>en_RootID := cr_RootID root, en_RelPath := relPath, en_PathID := pathID,
       en_Kind := RootKindFile,
       en_CurrentSeq := (case prior of
          Some p \<Rightarrow> if \<not> en_Deleted p \<and> en_Kind p = RootKindFile
                      \<and> en_ContentSHA256 p = sne_ContentSHA256 entry then en_CurrentSeq p else baseSeq
        | None \<Rightarrow> baseSeq),
       en_ContentSHA256 := sne_ContentSHA256 entry, en_SizeBytes := sne_SizeBytes entry,
       en_Mode := sne_Mode entry, en_MTimeNS := sne_MTimeNS entry\<rparr>"

definition snapshot_entry ::
  "'s daemon_env \<Rightarrow> Root \<Rightarrow> int \<Rightarrow> bool \<Rightarrow> (string \<rightharpoonup> Entry) \<Rightarrow> SnapshotEntry \<Rightarrow> 's daemon
    \<Rightarrow> (go_error + Entry list) \<times> 's daemon" where
  "snapshot_entry dv root baseSeq stageOnly priors entry d =
     (case resolveSnapshotTarget dv root (sne_Path entry) (sne_Kind entry) of
        Inl e \<Rightarrow> (Inl e, d)
      | Inr (relPath, target, pathID) \<Rightarrow>
          (case sne_Kind entry of
             RootKindDir \<Rightarrow>
               (case (if stageOnly then (None, d) else place_dir root target entry d) of
                  (Some e, d1) \<Rightarrow> (Inl e, d1)
                | (None, d1) \<Rightarrow> (Inr [dir_row root baseSeq relPath pathID (priors relPath) entry], d1))
           | RootKindFile \<Rightarrow>
               (case (if stageOnly then (None, d)
                      else place_file dv root relPath pathID target (priors relPath) entry d) of
                  (Some e, d1) \<Rightarrow> (Inl e, d1)
                | (None, d1) \<Rightarrow> (Inr [file_row root baseSeq relPath pathID (priors relPath) entry], d1))
           | RootKindOther k \<Rightarrow> (Inr [], d)))"

section \<open>The snapshot\<close>

fun snapshot_entries ::
  "'s daemon_env \<Rightarrow> Root \<Rightarrow> int \<Rightarrow> bool \<Rightarrow> (string \<rightharpoonup> Entry) \<Rightarrow> SnapshotEntry list \<Rightarrow> Entry list \<Rightarrow> 's daemon
    \<Rightarrow> (go_error + Entry list) \<times> 's daemon" where
  "snapshot_entries dv root baseSeq stageOnly priors [] acc d = (Inr acc, d)"
| "snapshot_entries dv root baseSeq stageOnly priors (entry # rest) acc d =
     (case snapshot_entry dv root baseSeq stageOnly priors entry d of
        (Inl e, d1) \<Rightarrow> (Inl e, d1)
      | (Inr rows, d1) \<Rightarrow> snapshot_entries dv root baseSeq stageOnly priors rest (acc @ rows) d1)"

definition fetch_snapshot ::
  "'s daemon_env \<Rightarrow> Root \<Rightarrow> string \<Rightarrow> int \<Rightarrow> 's daemon \<Rightarrow> (go_error + SnapshotPayload) \<times> 's daemon" where
  "fetch_snapshot dv root objectID baseSeq d =
     (case EncryptedSize MaxSnapshotPlainSize of
        Inl e \<Rightarrow> (Inl (CryptoFailed e), d)
      | Inr maxSnapshotBlobSize \<Rightarrow>
          (case DownloadObjectTo (dv_conn dv) objectID maxSnapshotBlobSize [] (mc_net d) of
             (((n, Some e), buf), s) \<Rightarrow> (Inl e, d\<lparr>mc_net := s\<rparr>)
           | (((n, None), buf), s) \<Rightarrow>
               (let d1 = d\<lparr>mc_net := s\<rparr> in
                case DecryptInPlace (dv_px dv) (dk_SnapshotKey (dv_keys dv)) buf
                       (SnapshotAAD (dv_WorkspaceID dv) (cr_RootID root) baseSeq) of
                  Inl e \<Rightarrow> (Inl (CryptoFailed e), d1)
                | Inr plain \<Rightarrow>
                    (case js_Snapshot (dv_json dv) plain of
                       None \<Rightarrow> (Inl invalid_json, d1) | Some snapshot \<Rightarrow> (Inr snapshot, d1)))))"

definition applySnapshot ::
  "'s daemon_env \<Rightarrow> Root \<Rightarrow> string \<Rightarrow> int \<Rightarrow> bool \<Rightarrow> 's daemon \<Rightarrow> go_error option \<times> 's daemon" where
  "applySnapshot dv root objectID baseSeq stageOnly d =
     (case fetch_snapshot dv root objectID baseSeq d of
        (Inl e, d1) \<Rightarrow> (Some e, d1)
      | (Inr snapshot, d1) \<Rightarrow>
          (case validate_snapshot dv root baseSeq snapshot of
             Some e \<Rightarrow> (Some e, d1)
           | None \<Rightarrow>
               (let priors = (if stageOnly then Map.empty else EntriesForRoot (cr_RootID root) (mc_db d1)) in
                case snapshot_entries dv root baseSeq stageOnly priors (snp_Entries snapshot) [] d1 of
                  (Inl e, d2) \<Rightarrow> (Some e, d2)
                | (Inr rows, d2) \<Rightarrow> (None, on_db (ReplaceEntries (cr_RootID root) rows) d2))))"

end
