(* ===== verification/CatchUp.thy ===== *)
theory CatchUp
  imports SnapshotApply
begin

text \<open>
  How the daemon follows the log of its workspace
  (\<^verbatim>\<open>internal/client/daemon/daemon.go\<close>): page by page from its cursor, or, when the
  server no longer holds the events after the cursor, from a bootstrap of roots
  and snapshots.  The two call each other, so the loop takes fuel and \<open>None\<close> is a
  run that has not ended.
\<close>

section \<open>Pages\<close>

fun consume_events ::
  "'s daemon_env \<Rightarrow> EventRecord list \<Rightarrow> 's daemon \<Rightarrow> go_error option \<times> 's daemon" where
  "consume_events dv [] d = (None, d)"
| "consume_events dv (event # events) d =
     (case consumeRemoteEvent dv event d of
        (Some e, d1) \<Rightarrow> (Some e, d1) | (None, d1) \<Rightarrow> consume_events dv events d1)"

definition page_size :: int where
  "page_size = 1000"

section \<open>Bootstrap\<close>

definition bootstrap_one :: "'s daemon_env \<Rightarrow> BootstrapRoot \<Rightarrow> 's daemon \<Rightarrow> go_error option \<times> 's daemon" where
  "bootstrap_one dv root d =
     (case ensureRootFromDescriptor dv root d of
        (Inl e, d1) \<Rightarrow> if is_integrity e then (None, d1) else (Some e, d1)
      | (Inr _, d1) \<Rightarrow>
          if br_LatestSnapshotObjectID root \<noteq> [] \<and> br_LatestSnapshotSeq root > 0 then
            (case RootByID (br_RootID root) (mc_db d1) of
               None \<Rightarrow> (Some ErrNoRows, d1)
             | Some localRoot \<Rightarrow>
                 if cr_State localRoot = RootStateActive then
                   (case applySnapshot dv localRoot (br_LatestSnapshotObjectID root) (br_LatestSnapshotSeq root)
                           (isRootStaged (br_RootID root) d1) d1 of
                      (Some e, d2) \<Rightarrow> if is_integrity e then (None, d2) else (Some e, d2)
                    | (None, d2) \<Rightarrow> (None, d2))
                 else (None, d1))
          else (None, d1))"

fun bootstrap_roots ::
  "'s daemon_env \<Rightarrow> BootstrapRoot list \<Rightarrow> 's daemon \<Rightarrow> go_error option \<times> 's daemon" where
  "bootstrap_roots dv [] d = (None, d)"
| "bootstrap_roots dv (root # roots) d =
     (case bootstrap_one dv root d of
        (Some e, d1) \<Rightarrow> (Some e, d1) | (None, d1) \<Rightarrow> bootstrap_roots dv roots d1)"

text \<open>Local roots the server no longer lists.\<close>

definition drop_missing_roots :: "BootstrapRoot list \<Rightarrow> 's daemon \<Rightarrow> 's daemon" where
  "drop_missing_roots remote d =
     fold (\<lambda>root d. if cr_State root = RootStateRemoved \<or> list_ex (\<lambda>r. br_RootID r = cr_RootID root) remote
             then d else markRootRemoved root d)
       (ListRoots (mc_db d)) d"

definition watch_active_roots :: "'s daemon \<Rightarrow> 's daemon" where
  "watch_active_roots d =
     fold (\<lambda>root d. if cr_State root = RootStateActive \<and> \<not> isRootStaged (cr_RootID root) d
             then snd (addWatcherRoot (cr_RootID root) (cr_TargetAbsPath root) d) else d)
       (ListRoots (mc_db d)) d"

text \<open>\<open>catchUp\<close> is the catch-up that follows the reset of the cursor.\<close>

definition bootstrap ::
  "('s daemon \<Rightarrow> (go_error option \<times> 's daemon) option) \<Rightarrow> 's daemon_env \<Rightarrow> 's daemon
    \<Rightarrow> (go_error option \<times> 's daemon) option" where
  "bootstrap catchUp dv d =
     (case cn_Bootstrap (dv_conn dv) (mc_net d) of
        (Inl e, s) \<Rightarrow> Some (Some e, d\<lparr>mc_net := s\<rparr>)
      | (Inr resp, s) \<Rightarrow>
          (case bootstrap_roots dv (bs_Roots resp) (d\<lparr>mc_net := s\<rparr>) of
             (Some e, d1) \<Rightarrow> Some (Some e, d1)
           | (None, d1) \<Rightarrow>
               (case catchUp (on_db (ResetLastSeq (bs_BootstrapAfterSeq resp)) (drop_missing_roots (bs_Roots resp) d1)) of
                  None \<Rightarrow> None
                | Some (Some e, d2) \<Rightarrow> Some (Some e, d2)
                | Some (None, d2) \<Rightarrow> Some (None, watch_active_roots d2))))"

section \<open>Catching up\<close>

definition cursor :: "'s daemon \<Rightarrow> int" where
  "cursor d = st_LastServerSeq (LoadWorkspaceState (mc_db d))"

definition no_progress :: go_error where
  "no_progress = Failed ''event catch-up made no progress''"

primrec bootstrapOrCatchUp ::
  "nat \<Rightarrow> 's daemon_env \<Rightarrow> 's daemon \<Rightarrow> (go_error option \<times> 's daemon) option" where
  "bootstrapOrCatchUp 0 = (\<lambda>dv d. None)"
| "bootstrapOrCatchUp (Suc fuel) = (\<lambda>dv d.
     case cn_FetchEvents (dv_conn dv) (cursor d) page_size (mc_net d) of
       (Inl (e, apiErr), s) \<Rightarrow>
         if eb_Code apiErr = ''resync_required'' then bootstrap (bootstrapOrCatchUp fuel dv) dv (d\<lparr>mc_net := s\<rparr>)
         else Some (Some e, d\<lparr>mc_net := s\<rparr>)
     | (Inr resp, s) \<Rightarrow>
         (case consume_events dv (fr_Events resp) (d\<lparr>mc_net := s\<rparr>) of
            (Some e, d1) \<Rightarrow> Some (Some e, d1)
          | (None, d1) \<Rightarrow>
              if fr_Events resp = [] then
                Some (if cursor d < fr_CurrentSeq resp then Some no_progress else None, d1)
              else if er_Seq (last (fr_Events resp)) \<ge> fr_CurrentSeq resp then Some (None, d1)
              else bootstrapOrCatchUp fuel dv d1))"

section \<open>Single events and single roots\<close>

definition head_event :: "int \<Rightarrow> EventFetchResponse \<Rightarrow> EventRecord option" where
  "head_event seq resp = List.find (\<lambda>event. er_Seq event = seq) (fr_Events resp)"

definition applyCurrentRemoteHead ::
  "nat \<Rightarrow> 's daemon_env \<Rightarrow> int \<Rightarrow> 's daemon \<Rightarrow> (go_error option \<times> 's daemon) option" where
  "applyCurrentRemoteHead fuel dv seq d =
     (if seq \<le> 0 then Some (None, d)
      else case cn_FetchEvents (dv_conn dv) (seq - 1) 8 (mc_net d) of
        (Inl (e, apiErr), s) \<Rightarrow>
          if eb_Code apiErr = ''resync_required'' then bootstrap (bootstrapOrCatchUp fuel dv) dv (d\<lparr>mc_net := s\<rparr>)
          else Some (Some e, d\<lparr>mc_net := s\<rparr>)
      | (Inr resp, s) \<Rightarrow>
          (case head_event seq resp of
             Some event \<Rightarrow> Some (applyRemoteEvent dv event (d\<lparr>mc_net := s\<rparr>))
           | None \<Rightarrow> Some (Some (Failed ''remote head not found''), d\<lparr>mc_net := s\<rparr>)))"

definition fetchCurrentRemoteHead ::
  "'s daemon_env \<Rightarrow> int \<Rightarrow> 's daemon \<Rightarrow> (go_error + EventRecord) \<times> 's daemon" where
  "fetchCurrentRemoteHead dv seq d =
     (if seq \<le> 0 then (Inl (Failed ''invalid remote head''), d)
      else case cn_FetchEvents (dv_conn dv) (seq - 1) 8 (mc_net d) of
        (Inl (e, apiErr), s) \<Rightarrow>
          (Inl (if eb_Code apiErr = ''resync_required'' then Failed ''remote head requires a full bootstrap'' else e),
           d\<lparr>mc_net := s\<rparr>)
      | (Inr resp, s) \<Rightarrow>
          (case head_event seq resp of
             Some event \<Rightarrow> (Inr event, d\<lparr>mc_net := s\<rparr>)
           | None \<Rightarrow> (Inl (Failed ''remote head not found''), d\<lparr>mc_net := s\<rparr>)))"

fun apply_root_events ::
  "'s daemon_env \<Rightarrow> string \<Rightarrow> int \<Rightarrow> EventRecord list \<Rightarrow> int \<Rightarrow> 's daemon \<Rightarrow> (go_error + int) \<times> 's daemon" where
  "apply_root_events dv rootID afterSeq [] cur d = (Inr cur, d)"
| "apply_root_events dv rootID afterSeq (event # events) cur d =
     (case (if er_RootID event = rootID \<and> er_Seq event > afterSeq then applyRemoteEvent dv event d else (None, d)) of
        (Some e, d1) \<Rightarrow> (Inl e, d1)
      | (None, d1) \<Rightarrow> apply_root_events dv rootID afterSeq events (max cur (er_Seq event)) d1)"

primrec catchUpRootFrom_loop ::
  "nat \<Rightarrow> 's daemon_env \<Rightarrow> string \<Rightarrow> int \<Rightarrow> int \<Rightarrow> 's daemon \<Rightarrow> (go_error option \<times> 's daemon) option" where
  "catchUpRootFrom_loop 0 = (\<lambda>dv rootID afterSeq cur d. None)"
| "catchUpRootFrom_loop (Suc fuel) = (\<lambda>dv rootID afterSeq cur d.
     case cn_FetchEvents (dv_conn dv) cur page_size (mc_net d) of
       (Inl (e, apiErr), s) \<Rightarrow> Some (Some e, d\<lparr>mc_net := s\<rparr>)
     | (Inr resp, s) \<Rightarrow>
         if fr_Events resp = [] then Some (None, d\<lparr>mc_net := s\<rparr>)
         else (case apply_root_events dv rootID afterSeq (fr_Events resp) cur (d\<lparr>mc_net := s\<rparr>) of
                 (Inl e, d1) \<Rightarrow> Some (Some e, d1)
               | (Inr cur', d1) \<Rightarrow>
                   if cur' \<ge> fr_CurrentSeq resp then Some (None, d1)
                   else catchUpRootFrom_loop fuel dv rootID afterSeq cur' d1))"

definition catchUpRootFrom ::
  "nat \<Rightarrow> 's daemon_env \<Rightarrow> string \<Rightarrow> int \<Rightarrow> 's daemon \<Rightarrow> (go_error option \<times> 's daemon) option" where
  "catchUpRootFrom fuel dv rootID afterSeq d = catchUpRootFrom_loop fuel dv rootID afterSeq afterSeq d"

text \<open>A root whose target was occupied is tried again with what the server lists now.\<close>

definition unblock_root ::
  "nat \<Rightarrow> 's daemon_env \<Rightarrow> BootstrapRoot \<Rightarrow> 's daemon \<Rightarrow> (go_error option \<times> 's daemon) option" where
  "unblock_root fuel dv remote d =
     (case ensureRootFromDescriptor dv remote d of
        (Inl e, d1) \<Rightarrow> Some (if is_integrity e then None else Some e, d1)
      | (Inr _, d1) \<Rightarrow>
     (case RootByID (br_RootID remote) (mc_db d1) of
        None \<Rightarrow> Some (Some ErrNoRows, d1)
      | Some updated \<Rightarrow>
          if cr_State updated \<noteq> RootStateActive then Some (None, d1)
          else
            (case (if br_LatestSnapshotObjectID remote \<noteq> [] \<and> br_LatestSnapshotSeq remote > 0 then
                     applySnapshot dv updated (br_LatestSnapshotObjectID remote) (br_LatestSnapshotSeq remote)
                       (isRootStaged (cr_RootID updated) d1) d1
                   else (None, d1)) of
               (Some e, d2) \<Rightarrow> Some (if is_integrity e then None else Some e, d2)
             | (None, d2) \<Rightarrow>
                 (case catchUpRootFrom fuel dv (cr_RootID updated) (br_LatestSnapshotSeq remote) d2 of
                    None \<Rightarrow> None
                  | Some (Some e, d3) \<Rightarrow> Some (Some e, d3)
                  | Some (None, d3) \<Rightarrow>
                      Some (None, if isRootStaged (cr_RootID updated) d3 then d3
                        else snd (addWatcherRoot (cr_RootID updated) (cr_TargetAbsPath updated) d3))))))"

fun unblock_roots ::
  "nat \<Rightarrow> 's daemon_env \<Rightarrow> BootstrapRoot list \<Rightarrow> Root list \<Rightarrow> 's daemon \<Rightarrow> (go_error option \<times> 's daemon) option" where
  "unblock_roots fuel dv remote [] d = Some (None, d)"
| "unblock_roots fuel dv remote (root # roots) d =
     (case List.find (\<lambda>r. br_RootID r = cr_RootID root) (rev remote) of
        None \<Rightarrow> unblock_roots fuel dv remote roots d
      | Some r \<Rightarrow>
          (case unblock_root fuel dv r d of
             None \<Rightarrow> None
           | Some (Some e, d1) \<Rightarrow> Some (Some e, d1)
           | Some (None, d1) \<Rightarrow> unblock_roots fuel dv remote roots d1))"

definition retryBlockedRoots :: "nat \<Rightarrow> 's daemon_env \<Rightarrow> 's daemon \<Rightarrow> (go_error option \<times> 's daemon) option" where
  "retryBlockedRoots fuel dv d =
     (let blocked = filter (\<lambda>r. cr_State r = RootStateBlockedNonEmpty) (ListRoots (mc_db d)) in
      if blocked = [] then Some (None, d)
      else case cn_Bootstrap (dv_conn dv) (mc_net d) of
        (Inl e, s) \<Rightarrow> Some (Some e, d\<lparr>mc_net := s\<rparr>)
      | (Inr resp, s) \<Rightarrow> unblock_roots fuel dv (bs_Roots resp) blocked (d\<lparr>mc_net := s\<rparr>))"

end
