(* ===== verification/CatchUpCorrect.thy ===== *)
theory CatchUpCorrect
  imports CatchUp ClientStateCorrect
begin

text \<open>
  Following the log.  What a catch-up does to files and entries is left open here;
  what matters is the cursor and the network.  \<open>steady I\<close> relates two states of the
  daemon with the same cursor between which an invariant \<open>I\<close> of the network was
  kept, and the locale \<open>event_feed\<close> says what the daemon relies on in a server that
  stands still.
\<close>

definition steady :: "('s \<Rightarrow> bool) \<Rightarrow> 's daemon \<Rightarrow> 's daemon \<Rightarrow> bool" where
  "steady I d d' \<longleftrightarrow> c_state (mc_db d') = c_state (mc_db d) \<and> (I (mc_net d) \<longrightarrow> I (mc_net d'))"

lemma steady_refl [simp]: "steady I d d"
  by (simp add: steady_def)

lemma steady_trans: "steady I d1 d2 \<Longrightarrow> steady I d2 d3 \<Longrightarrow> steady I d1 d3"
  by (auto simp: steady_def)

lemma cursor_eq: "cursor d = sr_last_server_seq (c_state (mc_db d))"
  by (simp add: cursor_def LoadWorkspaceState_def Let_def)

lemma steady_cursor: "steady I d d' \<Longrightarrow> cursor d' = cursor d"
  by (simp add: steady_def cursor_eq)

section \<open>What leaves the workspace row alone\<close>

lemma c_state_frame [simp]:
  "c_state (UpsertRoot root s) = c_state s" "c_state (SetRootState i st s) = c_state s"
  "c_state (DeleteRootState i s) = c_state s" "c_state (insertEntry e s) = c_state s"
  "c_state (UpsertEntry e s) = c_state s" "c_state (MarkEntryDeleted e s) = c_state s"
  "c_state (ReplaceEntries i es s) = c_state s" "c_state (SetIgnore i p t e s) = c_state s"
  "c_state (SetIgnoreDelete i p t s) = c_state s" "c_state (UpsertWarning k m t s) = c_state s"
  "c_state (ClearWarningsWithPrefix k s) = c_state s"
  by (simp_all add: UpsertRoot_def SetRootState_def DeleteRootState_def insertEntry_def UpsertEntry_def
      MarkEntryDeleted_def ReplaceEntries_def SetIgnore_def SetIgnoreDelete_def UpsertWarning_def
      ClearWarningsWithPrefix_def fold_frame Let_def)

lemma steady_small [simp]:
  "steady I d (watcher_RemoveRoot i d)" "steady I d (clearStagedRoot i d)" "steady I d (markStagedRoot i d)"
  "steady I d (enqueueRootRescan i d)" "steady I d (snd (draw d))" "steady I d (markRootRemoved root d)"
  by (simp_all add: steady_def watcher_RemoveRoot_def clearStagedRoot_def markStagedRoot_def
      enqueueRootRescan_def draw_def markRootRemoved_def on_db_def)

lemma steady_on_db: "steady I d d' \<Longrightarrow> (\<And>s. c_state (f s) = c_state s) \<Longrightarrow> steady I d (on_db f d')"
  by (simp add: steady_def on_db_def)

lemma steady_watch [simp]: "steady I d (snd (addWatcherRoot i t d))"
  by (simp add: steady_def addWatcherRoot_def draw_def on_db_def split: option.split)

lemma steady_fs: "steady I d (d\<lparr>mc_fs := fs\<rparr>)"
  by (simp add: steady_def)

lemma steady_fold: "(\<And>x d. steady I d (f x d)) \<Longrightarrow> steady I d (fold f xs d)"
  by (induction xs arbitrary: d) (auto intro: steady_trans)

lemma steady_drop_missing: "steady I d (drop_missing_roots remote d)"
  unfolding drop_missing_roots_def by (rule steady_fold) simp

lemma steady_watch_active: "steady I d (watch_active_roots d)"
  unfolding watch_active_roots_def by (rule steady_fold) simp

lemma steady_ensureRoot: "steady I d (snd (ensureRootFromDescriptor dv root d))"
  by (auto simp: ensureRootFromDescriptor_def Let_def ensure_home_dir_def steady_def on_db_def clearStagedRoot_def
      markStagedRoot_def watcher_RemoveRoot_def split: sum.split prod.split option.split)

text \<open>Events are applied with downloads alone.\<close>

definition downloads_keep :: "('s \<Rightarrow> bool) \<Rightarrow> 's Client \<Rightarrow> bool" where
  "downloads_keep I c \<longleftrightarrow> (\<forall>s oid n dst. I s \<longrightarrow> I (snd (DownloadObjectTo c oid n dst s)))"

lemma copy_chunks_keep:
  "downloads_keep I c \<Longrightarrow> I s \<Longrightarrow> copy_chunks env c rootID pathID i chunks received dst s = (res, s') \<Longrightarrow> I s'"
proof (induction chunks arbitrary: i received dst s)
  case (Cons chunk chunks)
  show ?case
  proof (cases "validateChunkRef chunk")
    case None
    show ?thesis
    proof (cases "EncryptedSize (ch_PlainSize chunk)")
      case (Inr maxBlobSize)
      obtain n e dst' s1 where d: "DownloadAndDecryptObjectTo (ae_px env) c (ch_ObjectID chunk) maxBlobSize
          (dk_BlobKey (ae_keys env)) (BlobAAD (ae_WorkspaceID env) rootID pathID (int i) (ch_PlainSize chunk))
          (multi_write (ft_write (ae_faults env) i)) dst s = (((n, e), dst'), s1)"
        by (metis prod.collapse)
      have "s1 = snd (DownloadObjectTo c (ch_ObjectID chunk) maxBlobSize [] s)"
        using d by (auto simp: DownloadAndDecryptObjectTo_def split: prod.splits option.splits)
      then have "I s1" using Cons.prems(1,2) by (simp add: downloads_keep_def)
      then show ?thesis
        using Cons.prems(3) None Inr d Cons.IH [OF Cons.prems(1)] by (auto split: option.splits if_splits)
    qed (use Cons.prems None in simp)
  qed (use Cons.prems in simp)
qed simp

lemma replace_file_keep:
  "downloads_keep I c \<Longrightarrow> I s \<Longrightarrow> replace_file pre env c root pathID target payload fs s = (r, fs', s') \<Longrightarrow> I s'"
  by (auto simp: replace_file_def Let_def split: option.splits sum.splits prod.splits if_splits
      dest: copy_chunks_keep)

lemma steady_apply_file_put:
  "downloads_keep I c \<Longrightarrow> steady I d (snd (apply_file_put env c root event stage payload d))"
  by (auto simp: apply_file_put_def Let_def steady_def split: option.split sum.split prod.split dest: replace_file_keep)

lemma steady_ApplyEvent: "downloads_keep I c \<Longrightarrow> steady I d (snd (ApplyEvent env c root event stage d))"
proof -
  assume k: "downloads_keep I c"
  have d: "steady I d (snd (apply_dir_put env root event stage payload d))" for payload
    by (auto simp: apply_dir_put_def Let_def steady_def split: option.split sum.split prod.split)
  have x: "steady I d (snd (apply_delete env root event stage payload d))" for payload
    by (auto simp: apply_delete_def Let_def steady_def split: option.split sum.split prod.split)
  show ?thesis
    by (auto simp: ApplyEvent_def Let_def d x steady_apply_file_put [OF k]
        split: option.split sum.split EventType.split)
qed


lemma steady_apply_content: "downloads_keep I (dv_conn dv) \<Longrightarrow> steady I d (snd (apply_content dv root event d))"
proof -
  assume k: "downloads_keep I (dv_conn dv)"
  obtain lu d1 where dr: "draw d = (lu, d1)" by fastforce
  then have d1: "steady I d d1" using steady_small(5) [of I d] by simp
  obtain r d2 where ap: "ApplyEvent (applier_of dv lu) (dv_conn dv) root event (isRootStaged (cr_RootID root) d) d1 = (r, d2)"
    by fastforce
  then have "steady I d1 d2"
    using steady_ApplyEvent [OF k, of d1 "applier_of dv lu" root event "isRootStaged (cr_RootID root) d"] by simp
  with d1 have "steady I d d2" by (rule steady_trans)
  then show ?thesis
    by (auto simp: apply_content_def dr ap split: option.split intro: steady_trans)
qed

lemma steady_apply_root_add: "steady I d (snd (apply_root_add dv event d))"
proof (cases "decode_root_add dv (er_RootID event) (er_PayloadBlob event)")
  case (Inr payload)
  obtain r d1 where en: "ensureRootFromDescriptor dv (descriptor_of event payload) d = (r, d1)" by fastforce
  then have "steady I d d1" using steady_ensureRoot [of I d dv "descriptor_of event payload"] by simp
  then show ?thesis
    by (auto simp: apply_root_add_def Inr en Let_def split: sum.split option.split intro: steady_trans)
qed (simp add: apply_root_add_def)

lemma steady_applyRemoteEvent: "downloads_keep I (dv_conn dv) \<Longrightarrow> steady I d (snd (applyRemoteEvent dv event d))"
  by (auto simp: applyRemoteEvent_def steady_apply_content steady_apply_root_add split: EventType.split option.split)

lemma consumeRemoteEvent_steady:
  assumes "downloads_keep I (dv_conn dv)" and "consumeRemoteEvent dv event d = (r, d')"
  shows "I (mc_net d) \<Longrightarrow> I (mc_net d')"
    and "r = None \<Longrightarrow> cursor d' = max (cursor d) (er_Seq event)"
    and "r \<noteq> None \<Longrightarrow> cursor d' = cursor d"
proof -
  have "(r = None \<longrightarrow> (\<exists>d1. steady I d d1 \<and> d' = on_db (AdvanceLastSeq (er_Seq event)) d1)) \<and> (r \<noteq> None \<longrightarrow> steady I d d')"
  proof (cases "er_AuthorDeviceID event = dv_DeviceID dv \<and> eventMaterializedLocally event (mc_db d)")
    case True
    then show ?thesis using assms(2) by (auto simp: consumeRemoteEvent_def intro!: exI [of _ d])
  next
    case False
    obtain r1 d1 where ap: "applyRemoteEvent dv event d = (r1, d1)" by fastforce
    then have "steady I d d1" using steady_applyRemoteEvent [OF assms(1), of d event] by simp
    with False assms(2) ap show ?thesis by (auto simp: consumeRemoteEvent_def split: option.splits)
  qed
  then show "I (mc_net d) \<Longrightarrow> I (mc_net d')" and "r = None \<Longrightarrow> cursor d' = max (cursor d) (er_Seq event)"
    and "r \<noteq> None \<Longrightarrow> cursor d' = cursor d"
    by (auto simp: steady_def cursor_eq on_db_def AdvanceLastSeq_def)
qed

text \<open>Snapshots too.\<close>

lemma steady_preserve: "steady I d (snd (preserveLocalConflictCopy dv root relPath target d))"
  by (auto simp: preserveLocalConflictCopy_def draw_def Let_def steady_def split: option.split prod.split)

lemma steady_materialize: "downloads_keep I (dv_conn dv) \<Longrightarrow> steady I d (snd (materialize_file dv root pathID target entry d))"
  by (auto simp: materialize_file_def draw_def Let_def steady_def split: option.split prod.split dest: replace_file_keep)

lemma steady_place_file:
  assumes "downloads_keep I (dv_conn dv)"
  shows "steady I d (snd (place_file dv root relPath pathID target prior entry d))"
proof -
  obtain r d1 where p: "preserveLocalConflictCopy dv root relPath target d = (r, d1)" by fastforce
  then have "steady I d d1" using steady_preserve [of I d dv root relPath target] by simp
  then show ?thesis
    using steady_materialize [OF assms]
    by (auto simp: place_file_def p split: sum.split decision.split intro: steady_trans)
qed

lemma steady_snapshot_entry:
  assumes "downloads_keep I (dv_conn dv)"
  shows "steady I d (snd (snapshot_entry dv root baseSeq stage priors entry d))"
proof -
  have "steady I d (snd (place_dir root target entry d))" for target
    by (auto simp: place_dir_def steady_def split: option.split prod.split)
  moreover note steady_place_file [OF assms, of d root]
  ultimately show ?thesis
    by (auto simp: snapshot_entry_def split: sum.split RootKind.split option.split prod.split) (metis snd_conv)+
qed

lemma steady_snapshot_entries:
  assumes k: "downloads_keep I (dv_conn dv)"
  shows "steady I d (snd (snapshot_entries dv root baseSeq stage priors entries acc d))"
proof (induction entries arbitrary: acc d)
  case (Cons entry rest)
  obtain r d1 where e: "snapshot_entry dv root baseSeq stage priors entry d = (r, d1)" by fastforce
  then have "steady I d d1" using steady_snapshot_entry [OF k, of d root baseSeq stage priors entry] by simp
  with Cons.IH [where d = d1] e show ?case by (auto split: sum.split intro: steady_trans)
qed simp

lemma steady_applySnapshot:
  assumes k: "downloads_keep I (dv_conn dv)"
  shows "steady I d (snd (applySnapshot dv root objectID baseSeq stage d))"
proof -
  obtain r d1 where f: "fetch_snapshot dv root objectID baseSeq d = (r, d1)" by fastforce
  have "I (mc_net d) \<longrightarrow> I (snd (DownloadObjectTo (dv_conn dv) oid n dst (mc_net d)))" for oid n dst
    using k by (simp add: downloads_keep_def)
  then have d1: "steady I d d1"
    using f by (auto simp: fetch_snapshot_def Let_def steady_def split: sum.splits prod.splits option.splits) (metis snd_conv)+
  show ?thesis
  proof (cases r)
    case (Inr snapshot)
    define priors where "priors = (if stage then Map.empty else EntriesForRoot (cr_RootID root) (mc_db d1))"
    obtain r2 d2 where s: "snapshot_entries dv root baseSeq stage priors (snp_Entries snapshot) [] d1 = (r2, d2)" by fastforce
    then have "steady I d1 d2"
      using steady_snapshot_entries [OF k, of d1 root baseSeq stage priors "snp_Entries snapshot" "[]"] by simp
    with d1 have "steady I d d2" by (rule steady_trans)
    moreover have "applySnapshot dv root objectID baseSeq stage d = (case validate_snapshot dv root baseSeq snapshot of
        Some e \<Rightarrow> (Some e, d1)
      | None \<Rightarrow> (case r2 of Inl e \<Rightarrow> (Some e, d2) | Inr rows \<Rightarrow> (None, on_db (ReplaceEntries (cr_RootID root) rows) d2)))"
      using s by (cases stage) (simp_all add: applySnapshot_def f Inr priors_def Let_def split: option.split)
    ultimately show ?thesis using d1 by (auto split: option.split sum.split intro: steady_on_db)
  qed (simp add: applySnapshot_def f d1)
qed

lemma steady_bootstrap_one:
  assumes k: "downloads_keep I (dv_conn dv)"
  shows "steady I d (snd (bootstrap_one dv root d))"
proof -
  obtain r d1 where en: "ensureRootFromDescriptor dv root d = (r, d1)" by fastforce
  then have d1: "steady I d d1" using steady_ensureRoot [of I d dv root] by simp
  have "steady I d d2" if "applySnapshot dv localRoot oid q st d1 = (x, d2)" for localRoot oid q st x d2
    using steady_trans [OF d1 steady_applySnapshot [OF k, of d1 localRoot oid q st]] that by simp
  then show ?thesis using d1 by (auto simp: bootstrap_one_def en split: sum.split option.split prod.split)
qed

lemma steady_bootstrap_roots:
  "downloads_keep I (dv_conn dv) \<Longrightarrow> steady I d (snd (bootstrap_roots dv roots d))"
proof (induction roots arbitrary: d)
  case (Cons root roots)
  obtain r d1 where b: "bootstrap_one dv root d = (r, d1)" by fastforce
  then have "steady I d d1" using steady_bootstrap_one [OF Cons.prems, of d root] by simp
  with Cons.IH [OF Cons.prems, of d1] b show ?case by (auto split: option.split intro: steady_trans)
qed simp

end
