(* ===== verification/EventFeed.thy ===== *)
theory EventFeed
  imports CatchUpCorrect
begin

text \<open>
  The contract between the daemon and the log it follows.  \<open>event_feed\<close> is what the
  daemon relies on while nothing but its own reading requests reaches the server:
  pages of a fixed log, \<open>resync_required\<close> only below the cursors the server
  \<open>served\<close>, and bootstraps that hand out such a cursor.  The lemmas say that a
  catch-up ends and that it consumes the log event by event.
\<close>

text \<open>The events after a cursor.\<close>

definition events_after :: "int \<Rightarrow> EventRecord list \<Rightarrow> EventRecord list" where
  "events_after q log = filter (\<lambda>e. q < er_Seq e) log"

text \<open>
  \<open>follows dv evs d d'\<close>: the daemon got from \<open>d\<close> to \<open>d'\<close> by consuming exactly \<open>evs\<close>, in this
  order, with nothing but requests in between.
\<close>

inductive follows :: "'s daemon_env \<Rightarrow> EventRecord list \<Rightarrow> 's daemon \<Rightarrow> 's daemon \<Rightarrow> bool" for dv where
  follows_none: "follows dv [] d d"
| follows_request: "follows dv evs (d\<lparr>mc_net := s\<rparr>) d' \<Longrightarrow> follows dv evs d d'"
| follows_event: "consumeRemoteEvent dv event d = (None, d1) \<Longrightarrow> follows dv evs d1 d' \<Longrightarrow> follows dv (event # evs) d d'"

lemma follows_append: "follows dv evs d d1 \<Longrightarrow> follows dv evs' d1 d' \<Longrightarrow> follows dv (evs @ evs') d d'"
  by (induction rule: follows.induct) (auto intro: follows.intros)

text \<open>Where the daemon stopped: after \<open>evs\<close>, or in the middle of the event after them.\<close>

definition stops_at :: "'s daemon_env \<Rightarrow> EventRecord list \<Rightarrow> go_error option \<Rightarrow> 's daemon \<Rightarrow> 's daemon \<Rightarrow> bool" where
  "stops_at dv rest r d d' \<longleftrightarrow>
     d' = d \<or> (\<exists>e. r = Some e \<and> rest \<noteq> [] \<and> consumeRemoteEvent dv (hd rest) d = (r, d'))"

section \<open>The interface\<close>

locale event_feed =
  fixes c :: "'s Client" and I :: "'s \<Rightarrow> bool" and log :: "EventRecord list" and head :: int
    and served :: "int \<Rightarrow> bool"
  assumes page: "\<And>s q n resp s'. I s \<Longrightarrow> 0 < n \<Longrightarrow> cn_FetchEvents c q n s = (Inr resp, s') \<Longrightarrow>
      fr_CurrentSeq resp = head \<and> (\<exists>k>0. fr_Events resp = take k (events_after q log))"
    and fetch_keeps: "\<And>s q n. I s \<Longrightarrow> I (snd (cn_FetchEvents c q n s))"
    and no_resync: "\<And>s q n e api s'. I s \<Longrightarrow> served q \<Longrightarrow> 0 < n \<Longrightarrow> cn_FetchEvents c q n s = (Inl (e, api), s') \<Longrightarrow>
      eb_Code api \<noteq> ''resync_required''"
    and served_mono: "\<And>q q'. served q \<Longrightarrow> q \<le> q' \<Longrightarrow> served q'"
    and boot_keeps: "\<And>s. I s \<Longrightarrow> I (snd (cn_Bootstrap c s))"
    and boot_served: "\<And>s resp s'. I s \<Longrightarrow> cn_Bootstrap c s = (Inr resp, s') \<Longrightarrow> served (bs_BootstrapAfterSeq resp)"
    and keeps: "downloads_keep I c"
    and ascending: "\<And>s. I s \<Longrightarrow> sorted_wrt (<) (map er_Seq log)"
    and up_to_head: "\<And>s e. I s \<Longrightarrow> e \<in> set log \<Longrightarrow> er_Seq e \<le> head"
begin

lemma page_progress:
  assumes "I s" and split: "events_after q log = evs @ e # rest"
  shows "events_after (er_Seq e) log = rest" and "q < er_Seq e"
proof -
  have "e \<in> set (events_after q log)" using split by simp
  then show q: "q < er_Seq e" by (simp add: events_after_def)
  have "sorted_wrt (<) (map er_Seq (events_after q log))"
    unfolding events_after_def using ascending [OF assms(1)] by (induction log) auto
  then have s: "\<forall>x \<in> set evs. er_Seq x < er_Seq e" "\<forall>x \<in> set rest. er_Seq e < er_Seq x"
    by (auto simp: split sorted_wrt_append)
  have "filter (\<lambda>x. er_Seq e < er_Seq x) (events_after q log) = events_after (er_Seq e) log"
    unfolding events_after_def using q by (auto intro: filter_cong)
  moreover have "filter (\<lambda>x. er_Seq e < er_Seq x) evs = []" "filter (\<lambda>x. er_Seq e < er_Seq x) rest = rest"
    using s by (auto simp: filter_empty_conv filter_id_conv)
  ultimately show "events_after (er_Seq e) log = rest" by (simp add: split)
qed

text \<open>One page.\<close>

lemma consume_page:
  assumes "I (mc_net d)" and "dv_conn dv = c" and "events_after (cursor d) log = evs @ later"
    and "consume_events dv evs d = (r, d')"
  shows "I (mc_net d') \<and> (\<exists>seen rest dm. evs = seen @ rest \<and> (r = None \<longrightarrow> rest = []) \<and> follows dv seen d dm
      \<and> stops_at dv (rest @ later) r dm d' \<and> cursor d' = cursor dm \<and> events_after (cursor d') log = rest @ later \<and> cursor d \<le> cursor d')"
  using assms
proof (induction evs arbitrary: d)
  case Nil
  then show ?case by (auto simp: stops_at_def intro!: exI [of _ d] follows_none)
next
  case (Cons e evs)
  obtain r1 d1 where ce: "consumeRemoteEvent dv e d = (r1, d1)" by fastforce
  note st = consumeRemoteEvent_steady [of I, OF keeps [folded Cons.prems(2)] ce]
  note pp = page_progress [OF Cons.prems(1), of "cursor d" "[]" e "evs @ later"]
  show ?case
  proof (cases r1)
    case None
    have cur: "cursor d1 = er_Seq e" using st(2) None pp(2) Cons.prems(3) by simp
    have "events_after (cursor d1) log = evs @ later" using pp(1) Cons.prems(3) by (simp add: cur)
    moreover have "consume_events dv evs d1 = (r, d')" using Cons.prems(4) ce None by simp
    ultimately obtain seen rest dm where ih: "I (mc_net d')" "evs = seen @ rest" "r = None \<longrightarrow> rest = []"
        "follows dv seen d1 dm" "stops_at dv (rest @ later) r dm d'" "cursor d' = cursor dm"
        "events_after (cursor d') log = rest @ later" "cursor d1 \<le> cursor d'"
      using Cons.IH [OF st(1) [OF Cons.prems(1)] Cons.prems(2)] by blast
    have "follows dv (e # seen) d dm" using ce None ih(4) by (simp add: follows_event)
    moreover have "cursor d \<le> cursor d'" using ih(8) cur pp(2) Cons.prems(3) by simp
    ultimately show ?thesis using ih by (metis append_Cons)
  next
    case (Some err)
    then have r: "r = Some err" "d' = d1" using Cons.prems(4) ce by auto
    have "cursor d1 = cursor d" using st(3) Some by simp
    moreover have "stops_at dv ((e # evs) @ later) r d d'" using r ce Some by (simp add: stops_at_def)
    moreover have "follows dv [] d d" by (rule follows_none)
    ultimately show ?thesis using r st(1) [OF Cons.prems(1)] Cons.prems(3)
      by (metis append_Nil option.distinct(1) order_refl)
  qed
qed

text \<open>A catch-up from a cursor the server serves.\<close>

lemma catch_up_served:
  assumes "I (mc_net d)" and "dv_conn dv = c" and "served (cursor d)"
    and "length (events_after (cursor d) log) < fuel"
  obtains r d' seen rest dm where "bootstrapOrCatchUp fuel dv d = Some (r, d')" and "I (mc_net d')"
    and "events_after (cursor d) log = seen @ rest" and "r = None \<longrightarrow> rest = []" and "follows dv seen d dm"
    and "stops_at dv rest r dm d'" and "events_after (cursor d') log = rest" and "cursor d' = cursor dm"
proof -
  have "\<exists>r d' seen rest dm. bootstrapOrCatchUp fuel dv d = Some (r, d') \<and> I (mc_net d')
    \<and> events_after (cursor d) log = seen @ rest \<and> (r = None \<longrightarrow> rest = []) \<and> follows dv seen d dm
    \<and> stops_at dv rest r dm d' \<and> events_after (cursor d') log = rest \<and> cursor d' = cursor dm"
    using assms
  proof (induction fuel arbitrary: d)
    case (Suc fuel)
    let ?evs = "events_after (cursor d) log"
    obtain a s where f: "cn_FetchEvents c (cursor d) page_size (mc_net d) = (a, s)" by fastforce
    let ?d = "d\<lparr>mc_net := s\<rparr>"
    have s: "I s" using fetch_keeps [OF Suc.prems(1), of "cursor d" page_size] f by simp
    have fd: "follows dv [] d ?d" by (rule follows_request) (rule follows_none)
    have pos: "0 < page_size" by (simp add: page_size_def)
    have cur: "cursor ?d = cursor d" by (simp add: cursor_eq)
    show ?case
    proof (cases a)
      case (Inl err)
      obtain e api where err: "err = (e, api)" by fastforce
      have "eb_Code api \<noteq> ''resync_required''" using no_resync [OF Suc.prems(1,3) pos] f Inl err by blast
      then have "bootstrapOrCatchUp (Suc fuel) dv d = Some (Some e, ?d)" using f Inl err Suc.prems(2) by simp
      moreover have "stops_at dv ?evs (Some e) ?d ?d" by (simp add: stops_at_def)
      ultimately show ?thesis using s fd cur by (intro exI [of _ "Some e"] exI [of _ ?d] exI [of _ "[]"] exI [of _ ?evs]) simp
    next
      case (Inr resp)
      obtain k where pg: "fr_CurrentSeq resp = head" "0 < k" "fr_Events resp = take k ?evs"
        using page [OF Suc.prems(1) pos] f Inr by blast
      obtain r1 d1 where ce: "consume_events dv (fr_Events resp) ?d = (r1, d1)" by fastforce
      have id: "I (mc_net ?d)" using s by simp
      have split: "events_after (cursor ?d) log = fr_Events resp @ drop k ?evs" using pg(3) cur by simp
      obtain seen rest dm where c1: "I (mc_net d1)" "fr_Events resp = seen @ rest" "r1 = None \<longrightarrow> rest = []"
          "follows dv seen ?d dm" "stops_at dv (rest @ drop k ?evs) r1 dm d1" "cursor d1 = cursor dm"
          "events_after (cursor d1) log = rest @ drop k ?evs" "cursor ?d \<le> cursor d1"
        using consume_page [OF id Suc.prems(2) split ce] by blast
      have fl: "follows dv seen d dm" using follows_append [OF fd c1(4)] by simp
      have all: "?evs = seen @ rest @ drop k ?evs" using split cur c1(2) by simp
      show ?thesis
      proof (cases r1)
        case (Some e)
        then have "bootstrapOrCatchUp (Suc fuel) dv d = Some (Some e, d1)" using f Inr ce Suc.prems(2) by simp
        then show ?thesis using c1 all fl Some by blast
      next
        case None
        show ?thesis
        proof (cases "fr_Events resp = []")
          case True
          then have nil: "?evs = []" using pg(2,3) by simp
          have "seen = []" "rest = []" using c1(2) True by simp_all
          moreover obtain r2 where "bootstrapOrCatchUp (Suc fuel) dv d = Some (r2, d1)"
            using f Inr ce None True Suc.prems(2) by auto
          moreover have "stops_at dv [] r2 dm d1" using c1(5) None by (simp add: stops_at_def)
          ultimately show ?thesis using c1(1,6,7) fl nil by (intro exI [of _ r2] exI [of _ d1] exI [of _ "[]"] exI [of _ dm]) simp
        next
          case some: False
          have rest: "rest = []" and seen: "seen = fr_Events resp" using c1(2,3) None by simp_all
          have dd: "dm = d1" using c1(5) None by (simp add: stops_at_def)
          obtain evs' lst where lst: "fr_Events resp = evs' @ [lst]" using some by (metis rev_exhaust)
          then have ev': "?evs = evs' @ lst # drop k ?evs" using split cur by simp
          note pp = page_progress [OF s ev']
          show ?thesis
          proof (cases "er_Seq (last (fr_Events resp)) \<ge> fr_CurrentSeq resp")
            case True
            have "drop k ?evs = []"
            proof (rule ccontr)
              assume "drop k ?evs \<noteq> []"
              then obtain x where x: "x \<in> set (events_after (er_Seq lst) log)" using pp(1) by (metis last_in_set)
              then have "er_Seq lst < er_Seq x" "x \<in> set log" by (auto simp: events_after_def)
              then show False using up_to_head [OF s, of x] True pg(1) lst by simp
            qed
            moreover have "bootstrapOrCatchUp (Suc fuel) dv d = Some (None, d1)"
              using f Inr ce None some True Suc.prems(2) by simp
            ultimately show ?thesis using c1 all fl rest dd
              by (intro exI [of _ None] exI [of _ d1] exI [of _ seen] exI [of _ "[]"] exI [of _ d1]) (simp add: stops_at_def)
          next
            case False
            have step: "bootstrapOrCatchUp (Suc fuel) dv d = bootstrapOrCatchUp fuel dv d1"
              using f Inr ce None some False Suc.prems(2) by simp
            have rem: "events_after (cursor d1) log = drop k ?evs" using c1(7) rest by simp
            have "served (cursor d1)" using served_mono [OF Suc.prems(3)] c1(8) cur by simp
            moreover have "?evs \<noteq> []" using some pg(3) by auto
            then have "length (events_after (cursor d1) log) < fuel" using rem pg(2) Suc.prems(4) by (cases ?evs) auto
            ultimately obtain r' d' seen' rest' dm' where ih: "bootstrapOrCatchUp fuel dv d1 = Some (r', d')" "I (mc_net d')"
                "drop k ?evs = seen' @ rest'" "r' = None \<longrightarrow> rest' = []" "follows dv seen' d1 dm'"
                "stops_at dv rest' r' dm' d'" "events_after (cursor d') log = rest'" "cursor d' = cursor dm'"
              using Suc.IH [OF c1(1) Suc.prems(2)] rem by metis
            have "follows dv (seen @ seen') d dm'" using follows_append [OF fl [unfolded dd] ih(5)] .
            moreover have "?evs = (seen @ seen') @ rest'" using all rest ih(3) by simp
            ultimately show ?thesis using step ih by metis
          qed
        qed
      qed
    qed
  qed simp
  then show ?thesis using that by blast
qed

text \<open>From any other cursor the daemon may first be sent to a bootstrap.\<close>

lemma bootstrap_ends:
  assumes "I (mc_net d)" and "dv_conn dv = c" and "length log < fuel"
  shows "\<exists>r d'. bootstrap (bootstrapOrCatchUp fuel dv) dv d = Some (r, d') \<and> I (mc_net d')"
proof -
  obtain a s where b: "cn_Bootstrap c (mc_net d) = (a, s)" by fastforce
  have s: "I s" using boot_keeps [OF assms(1)] b by simp
  show ?thesis
  proof (cases a)
    case (Inl e)
    then show ?thesis using b s assms(2) by (simp add: bootstrap_def)
  next
    case (Inr resp)
    obtain r1 d1 where br: "bootstrap_roots dv (bs_Roots resp) (d\<lparr>mc_net := s\<rparr>) = (r1, d1)" by fastforce
    have st: "steady I (d\<lparr>mc_net := s\<rparr>) d1"
      using steady_bootstrap_roots [of I dv, OF keeps [folded assms(2)], of "d\<lparr>mc_net := s\<rparr>" "bs_Roots resp"] br by simp
    then have i1: "I (mc_net d1)" using s by (simp add: steady_def)
    show ?thesis
    proof (cases r1)
      case (Some e)
      then show ?thesis using b Inr br assms(2) i1 by (simp add: bootstrap_def)
    next
      case None
      let ?d2 = "on_db (ResetLastSeq (bs_BootstrapAfterSeq resp)) (drop_missing_roots (bs_Roots resp) d1)"
      have i2: "I (mc_net ?d2)"
        using i1 steady_drop_missing [of I d1 "bs_Roots resp"] by (simp add: steady_def on_db_def)
      have "cursor ?d2 = bs_BootstrapAfterSeq resp" by (simp add: cursor_eq on_db_def ResetLastSeq_def)
      then have sv: "served (cursor ?d2)" using boot_served [OF assms(1)] b Inr by simp
      have "length (events_after (cursor ?d2) log) < fuel"
        unfolding events_after_def by (rule le_less_trans [OF length_filter_le assms(3)])
      then obtain r d3 where "bootstrapOrCatchUp fuel dv ?d2 = Some (r, d3)" "I (mc_net d3)"
        using catch_up_served [OF i2 assms(2) sv] by metis
      moreover have "I (mc_net (watch_active_roots d3))" if "I (mc_net d3)" for d3
        using steady_watch_active [of I d3] that by (simp add: steady_def)
      ultimately show ?thesis using b Inr br None assms(2) by (cases r) (simp_all add: bootstrap_def)
    qed
  qed
qed

lemma catch_up_ends:
  assumes "I (mc_net d)" and "dv_conn dv = c" and "length (events_after (cursor d) log) + length log + 1 < fuel"
  shows "\<exists>r d'. bootstrapOrCatchUp fuel dv d = Some (r, d') \<and> I (mc_net d')"
  using assms
proof (induction fuel arbitrary: d)
  case (Suc fuel)
  let ?evs = "events_after (cursor d) log"
  obtain a s where f: "cn_FetchEvents c (cursor d) page_size (mc_net d) = (a, s)" by fastforce
  let ?d = "d\<lparr>mc_net := s\<rparr>"
  have "I s" using fetch_keeps [OF Suc.prems(1), of "cursor d" page_size] f by simp
  then have id: "I (mc_net ?d)" by simp
  show ?case
  proof (cases a)
    case (Inl err)
    have "\<exists>r d'. bootstrap (bootstrapOrCatchUp fuel dv) dv ?d = Some (r, d') \<and> I (mc_net d')"
      by (rule bootstrap_ends [OF id Suc.prems(2)]) (use Suc.prems(3) in simp)
    then show ?thesis using f Inl id Suc.prems(2) by (cases err) auto
  next
    case (Inr resp)
    have pos: "0 < page_size" by (simp add: page_size_def)
    obtain k where pg: "0 < k" "fr_Events resp = take k ?evs"
      using page [OF Suc.prems(1) pos] f Inr by blast
    obtain r1 d1 where ce: "consume_events dv (fr_Events resp) ?d = (r1, d1)" by fastforce
    have split: "events_after (cursor ?d) log = fr_Events resp @ drop k ?evs" using pg(2) by (simp add: cursor_eq)
    from consume_page [OF id Suc.prems(2) split ce] obtain rest where c1: "I (mc_net d1)"
      "r1 = None \<longrightarrow> rest = []" "events_after (cursor d1) log = rest @ drop k ?evs" by blast
    have "\<exists>r d'. bootstrapOrCatchUp fuel dv d1 = Some (r, d') \<and> I (mc_net d')" if "r1 = None" "fr_Events resp \<noteq> []"
    proof (rule Suc.IH [OF c1(1) Suc.prems(2)])
      have "?evs \<noteq> []" using that(2) pg(2) by auto
      then show "length (events_after (cursor d1) log) + length log + 1 < fuel"
        using c1(2,3) that(1) pg(1) Suc.prems(3) by (cases ?evs) auto
    qed
    then show ?thesis using f Inr ce c1(1) Suc.prems(2) by (cases r1) auto
  qed
qed simp

end

end
