(* ===== verification/ApplierCorrect.thy ===== *)
theory ApplierCorrect
  imports Applier PathsCorrect ClientStateCorrect
begin

text \<open>
  What an applied event can do to the file system: everything it changes lies
  below its root, a file is replaced as a whole with checked content or not at all.
\<close>

section \<open>Staying below a directory\<close>

definition below :: "string \<Rightarrow> string \<Rightarrow> bool" where
  "below root p \<longleftrightarrow> p = root \<or> prefix (root @ ''/'') p"

definition fs_at :: "fsys \<Rightarrow> string \<Rightarrow> node option \<times> bytes option \<times> (int \<times> int) option" where
  "fs_at fs p = (fs_tree fs p, fs_data fs p, fs_meta fs p)"

lemma below_self [simp]: "below root root"
  by (simp add: below_def)

lemma below_trans: "below root p \<Longrightarrow> below p q \<Longrightarrow> below root q"
  by (auto simp: below_def prefix_def)

lemma below_join: "cs \<noteq> [] \<Longrightarrow> below (slash # join_on slash cs) (slash # join_on slash (cs @ es))"
  by (cases "es = []") (simp_all add: below_def join_on_append)

lemma Dir_abs:
  assumes "IsAbs p"
  shows "IsAbs (Dir p) \<and> Clean (Dir p) = Dir p"
proof -
  obtain q where p: "p = slash # q" using assms by (cases p) (auto simp: IsAbs_def)
  have "dropWhile (\<lambda>c. c \<noteq> slash) (rev p) = dropWhile (\<lambda>c. c \<noteq> slash) (rev q) @ [slash]
      \<or> dropWhile (\<lambda>c. c \<noteq> slash) (rev p) = [slash]"
    by (simp add: p dropWhile_append)
  then have "IsAbs (rev (dropWhile (\<lambda>c. c \<noteq> slash) (rev p)))" by (auto simp: IsAbs_def p)
  then show ?thesis by (simp add: Dir_def)
qed

lemma Join_abs_clean:
  assumes "IsAbs d"
  shows "IsAbs (Join [d, p]) \<and> Clean (Join [d, p]) = Join [d, p]"
proof -
  have "d \<noteq> []" using assms by (simp add: IsAbs_def)
  then obtain q where "Join [d, p] = Clean (d @ q)"
    by (cases "p = []") (auto simp: Join_def)
  moreover have "IsAbs (d @ q)" using assms by (simp add: IsAbs_def)
  ultimately show ?thesis by simp
qed

lemma EnsureSafeDir_frame:
  assumes "IsAbs root" and "IsAbs dir" and "EnsureSafeDir root dir t = (e, t')"
  shows "t \<subseteq>\<^sub>m t'" and "t' p \<noteq> t p \<Longrightarrow> t' p = Some NodeDir \<and> below (Clean root) p"
proof -
  from Clean_IsAbs [OF assms(1)] obtain cs where cs: "good cs" "Clean root = slash # join_on slash cs" .
  from Clean_IsAbs [OF assms(2)] obtain ts where ts: "good ts" "Clean dir = slash # join_on slash ts" .
  have rel: "RelWithinRoot (Clean root) (Clean dir) =
      (if ts = cs then Inr []
       else if cs \<noteq> [] \<and> prefix cs ts then Inr (join_on slash (drop (length cs) ts))
       else Inl (OutsideRoot (Clean dir)))"
    using RelWithinRoot_abs [of cs ts "Clean root" "Clean dir"] cs ts by simp
  have "t \<subseteq>\<^sub>m t' \<and> (\<forall>p. t' p \<noteq> t p \<longrightarrow> t' p = Some NodeDir \<and> below (Clean root) p)"
  proof (cases "ts = cs")
    case True
    then have "ensureDirComponent (Clean root) t = (e, t')"
      using assms(3) rel cs ts by (simp add: EnsureSafeDir_def)
    note c = ensureDirComponent_ok [OF this]
    then show ?thesis by (metis below_self)
  next
    case False
    show ?thesis
    proof (cases "cs \<noteq> [] \<and> prefix cs ts")
      case True
      then obtain ds where ds: "ts = cs @ ds" "ds \<noteq> []" using False by (auto simp: prefix_def)
      have g: "good ds" using ts ds by simp
      have "ensure_dirs (slash # join_on slash cs) ds t = (e, t')"
        using assms(3) rel True False ds g cs ts good_hd [OF g ds(2)]
        by (simp add: EnsureSafeDir_def split_good split: if_splits)
      from ensure_dirs_ok [OF cs(1) g this] True show ?thesis by (auto simp: cs(2) below_join)
    next
      case no: False
      with False rel assms(3) show ?thesis by (auto simp: EnsureSafeDir_def)
    qed
  qed
  then show "t \<subseteq>\<^sub>m t'" and "t' p \<noteq> t p \<Longrightarrow> t' p = Some NodeDir \<and> below (Clean root) p" by auto
qed

lemma on_tree_frame:
  assumes "IsAbs root" and "IsAbs dir" and "on_tree (EnsureSafeDir root dir) fs = (e, fs')"
  shows "fs_ok fs \<Longrightarrow> fs_ok fs'"
    and "fs_at fs' p \<noteq> fs_at fs p \<Longrightarrow> fs_tree fs p = None \<and> fs_tree fs' p = Some NodeDir \<and> below (Clean root) p"
    and "fs_data fs' = fs_data fs" and "fs_meta fs' = fs_meta fs"
proof -
  obtain t' where t: "EnsureSafeDir root dir (fs_tree fs) = (e, t')" and fs': "fs' = fs\<lparr>fs_tree := t'\<rparr>"
    using assms(3) by (auto simp: on_tree_def split: prod.splits)
  note f = EnsureSafeDir_frame [OF assms(1,2) t]
  have old: "fs_tree fs q \<noteq> None \<Longrightarrow> t' q = fs_tree fs q" for q
    using f(1) by (metis domIff map_le_def)
  show "fs_data fs' = fs_data fs" and "fs_meta fs' = fs_meta fs" by (simp_all add: fs')
  show "fs_at fs' p \<noteq> fs_at fs p \<Longrightarrow> fs_tree fs p = None \<and> fs_tree fs' p = Some NodeDir \<and> below (Clean root) p"
    using f(2) [of p] old [of p] by (cases "fs_tree fs p") (auto simp: fs_at_def fs')
  assume ok: "fs_ok fs"
  have "fs_data fs q \<noteq> None \<longleftrightarrow> t' q = Some NodeFile" for q
    using ok f(2) [of q] old [of q] unfolding fs_ok_def by (metis node.distinct(1) option.distinct(1) option.inject)
  moreover have "fs_meta fs q \<noteq> None \<longrightarrow> t' q \<noteq> None" for q
    using ok old [of q] unfolding fs_ok_def by metis
  ultimately show "fs_ok fs'" by (simp add: fs_ok_def fs')
qed

section \<open>Fetched content\<close>

lemma DecryptToWriter_ok:
  assumes "DecryptToWriter px key blob aad (multi_write fault) dst = ((n, None), dst')"
  shows "\<exists>p. fault = None \<and> Decrypt px key blob aad = Inr p \<and> n = int (length p) \<and> dst' = (fst dst @ p, snd dst @ p)"
  using assms by (cases fault)
    (auto simp: DecryptToWriter_def DecryptInPlace_eq multi_write_def split: sum.splits if_splits)

lemma wrap64_add: "wrap64 (wrap64 a + b) = wrap64 (a + b)"
proof -
  have "(a + 2 ^ 63) mod 2 ^ 64 - 2 ^ 63 + b + 2 ^ 63 = (a + 2 ^ 63) mod 2 ^ 64 + b" by simp
  moreover have "((a + 2 ^ 63) mod 2 ^ 64 + b) mod 2 ^ 64 = (a + 2 ^ 63 + b) mod (2 ^ 64 :: int)"
    by (rule mod_add_left_eq)
  ultimately show ?thesis by (simp add: wrap64_def ac_simps)
qed

lemma copy_chunks_content:
  assumes "copy_chunks env c rootID pathID i chunks (wrap64 (int (length a))) (a, a) s = ((Inr n, x, y), s')"
  shows "x = y \<and> n = wrap64 (int (length x))"
  using assms
proof (induction chunks arbitrary: i a s)
  case (Cons chunk chunks)
  let ?aad = "BlobAAD (ae_WorkspaceID env) rootID pathID (int i) (ch_PlainSize chunk)"
  let ?r = "wrap64 (int (length a))"
  obtain maxBlobSize where es: "EncryptedSize (ch_PlainSize chunk) = Inr maxBlobSize"
    and v: "validateChunkRef chunk = None"
    using Cons.prems by (auto split: option.splits sum.splits)
  obtain k e dst' s1 where d: "DownloadAndDecryptObjectTo (ae_px env) c (ch_ObjectID chunk) maxBlobSize
      (dk_BlobKey (ae_keys env)) ?aad (multi_write (ft_write (ae_faults env) i)) (a, a) s = (((k, e), dst'), s1)"
    by (metis prod.collapse)
  have e: "e = None" and k: "k = ch_PlainSize chunk"
    and rest: "copy_chunks env c rootID pathID (Suc i) chunks (wrap64 (?r + k)) dst' s1 = ((Inr n, x, y), s')"
    using Cons.prems by (auto simp: es v d split: option.splits if_splits)
  obtain enc where "DecryptToWriter (ae_px env) (dk_BlobKey (ae_keys env)) enc ?aad
      (multi_write (ft_write (ae_faults env) i)) (a, a) = ((k, None), dst')"
    using d e by (auto simp: DownloadAndDecryptObjectTo_def split: prod.splits option.splits)
  then obtain p where p: "k = int (length p)" "dst' = (a @ p, a @ p)" using DecryptToWriter_ok by fastforce
  have "wrap64 (?r + k) = wrap64 (int (length (a @ p)))" by (simp add: p wrap64_add)
  with rest p Cons.IH [of "Suc i" "a @ p" s1] show ?case by simp
qed simp

section \<open>Replacing a file\<close>

text \<open>All or nothing: a failure leaves the file system as it was, a success changes the target alone.\<close>

lemma replace_file_atomic:
  assumes ok: "fs_ok fs"
    and run: "replace_file pre env c root pathID target payload fs s = (r, fs', s')"
  shows "r \<noteq> None \<Longrightarrow> fs' = fs"
    and "r = None \<Longrightarrow> (\<exists>content. fs_at fs' target = (Some NodeFile, Some content, Some (fp_Mode payload, fp_MTimeNS payload))
        \<and> wrap64 (int (length content)) = fp_SizeBytes payload
        \<and> hex_encode (px_sha256 (ae_px env) content) = fp_ContentSHA256 payload)
      \<and> fs_tree fs target \<noteq> Some NodeDir \<and> (\<forall>p. p \<noteq> target \<longrightarrow> fs_at fs' p = fs_at fs p)"
proof -
  define tmp where "tmp = temp_name (Dir target) pre (ae_random env)"
  have "(r \<noteq> None \<longrightarrow> fs' = fs) \<and> (r = None \<longrightarrow>
      (\<exists>content. fs_at fs' target = (Some NodeFile, Some content, Some (fp_Mode payload, fp_MTimeNS payload))
        \<and> wrap64 (int (length content)) = fp_SizeBytes payload
        \<and> hex_encode (px_sha256 (ae_px env) content) = fp_ContentSHA256 payload)
      \<and> fs_tree fs target \<noteq> Some NodeDir \<and> (\<forall>p. p \<noteq> target \<longrightarrow> fs_at fs' p = fs_at fs p))"
  proof (cases "CreateTemp (ae_faults env) (Dir target) tmp fs")
    case None
    then show ?thesis using run by (auto simp: replace_file_def tmp_def [symmetric])
  next
    case (Some fs1)
    note clean = Remove_CreateTemp [OF ok Some]
    obtain res content hashed s1 where
      cp: "copy_chunks env c (cr_RootID root) pathID 0 (fp_Chunks payload) 0 ([], []) s = ((res, content, hashed), s1)"
      by (metis prod.collapse)
    let ?fs2 = "WriteFile tmp content fs1"
    show ?thesis
    proof (cases r)
      case e: (Some e)
      have "fs' = Remove tmp ?fs2"
        using run e Some cp
        by (auto simp: replace_file_def tmp_def [symmetric] Let_def split: sum.splits if_splits option.splits)
      then show ?thesis using clean e by simp
    next
      case none: None
      obtain n fs3 where n: "res = Inr n" "n = fp_SizeBytes payload"
        and h: "hex_encode (px_sha256 (ae_px env) hashed) = fp_ContentSHA256 payload"
        and rn: "Rename (ae_faults env) tmp target ?fs2 = Some fs3"
        and fs': "fs' = set_attributes target (fp_Mode payload) (fp_MTimeNS payload) fs3"
        using run none Some cp
        by (auto simp: replace_file_def tmp_def [symmetric] Let_def split: sum.splits if_splits option.splits)
      have eq: "hashed = content" "n = wrap64 (int (length content))"
        using copy_chunks_content [of env c "cr_RootID root" pathID 0 "fp_Chunks payload" "[]" s n content hashed s1]
          cp n(1) by (simp_all add: wrap64_def)
      note c1 = CreateTemp_Some [OF Some]
      note r3 = Rename_Some [OF rn]
      have "fs_at fs' target = (Some NodeFile, Some content, Some (fp_Mode payload, fp_MTimeNS payload))"
        using r3(1,2) c1(3) by (simp add: fs' fs_at_def set_attributes_def WriteFile_def)
      moreover have "fs_tree fs target \<noteq> Some NodeDir"
        using r3(3) c1(1,2) by (cases "target = tmp") (simp_all add: WriteFile_def)
      moreover have "fs_at fs' p = fs_at fs p" if "p \<noteq> target" for p
      proof (cases "p = tmp")
        case True
        have "fs_at fs tmp = (None, None, None)" using c1(1) fs_ok_fresh [OF ok c1(1)] by (simp add: fs_at_def)
        moreover have "fs_at fs3 tmp = (None, None, None)" using r3(5) that True by (simp add: fs_at_def)
        ultimately show ?thesis using True that by (simp add: fs' fs_at_def set_attributes_def)
      next
        case False
        then show ?thesis using r3(4) [OF False that] c1 that
          by (simp add: fs' fs_at_def set_attributes_def WriteFile_def)
      qed
      ultimately show ?thesis using eq n h none by auto
    qed
  qed
  then show "r \<noteq> None \<Longrightarrow> fs' = fs"
    and "r = None \<Longrightarrow> (\<exists>content. fs_at fs' target = (Some NodeFile, Some content, Some (fp_Mode payload, fp_MTimeNS payload))
        \<and> wrap64 (int (length content)) = fp_SizeBytes payload
        \<and> hex_encode (px_sha256 (ae_px env) content) = fp_ContentSHA256 payload)
      \<and> fs_tree fs target \<noteq> Some NodeDir \<and> (\<forall>p. p \<noteq> target \<longrightarrow> fs_at fs' p = fs_at fs p)"
    by simp_all
qed

section \<open>Where an event acts\<close>

lemma RelWithinRoot_below: "RelWithinRoot root target = Inr rel \<Longrightarrow> below (Clean root) (Clean target)"
  by (auto simp: RelWithinRoot_def below_def Let_def split: if_splits)

lemma resolveContentTarget_ok:
  assumes "IsAbs (cr_TargetAbsPath root)"
    and "resolveContentTarget env root raw allowRoot pid = Inr (rel, target, pathID)"
  shows "IsAbs target" and "below (Clean (cr_TargetAbsPath root)) target" and "rel = raw"
    and "cr_Kind root = RootKindFile \<Longrightarrow> rel = [] \<and> target = Clean (cr_TargetAbsPath root)"
    and "cr_Kind root = RootKindDir \<Longrightarrow> ResolveRemoteTarget (cr_TargetAbsPath root) raw allowRoot = Inr (rel, target)"
    and "pathID = PathID (ae_px env) (ae_keys env) (cr_RootID root) rel" and "pid = Some pathID"
    and "cr_Kind root = RootKindDir \<or> cr_Kind root = RootKindFile"
proof -
  let ?root = "cr_TargetAbsPath root"
  have cases: "cr_Kind root = RootKindDir \<and> ResolveRemoteTarget ?root raw allowRoot = Inr (rel, target)
      \<or> cr_Kind root = RootKindFile \<and> rel = [] \<and> raw = [] \<and> target = Clean ?root"
    and pid: "pathID = PathID (ae_px env) (ae_keys env) (cr_RootID root) rel" "pid = Some pathID"
    using assms(2) by (auto simp: resolveContentTarget_def Let_def split: if_splits RootKind.splits sum.splits)
  have t: "IsAbs target \<and> below (Clean ?root) target \<and> rel = raw"
    if r: "ResolveRemoteTarget ?root raw allowRoot = Inr (rel, target)"
  proof -
    have "target = (if rel \<noteq> [] then Join [Clean ?root, rel] else Clean ?root)"
      using r by (auto simp: ResolveRemoteTarget_def Let_def split: sum.splits option.splits)
    then have "IsAbs target \<and> Clean target = target"
      using Join_abs_clean [of "Clean ?root" rel] assms(1) by simp
    moreover have "below (Clean ?root) (Clean target)" and "rel = raw"
      using resolved_target [OF assms(1) r] RelWithinRoot_below by blast+
    ultimately show ?thesis by simp
  qed
  from cases t assms(1) show "IsAbs target" "below (Clean ?root) target" "rel = raw" by auto
  from cases show "cr_Kind root = RootKindFile \<Longrightarrow> rel = [] \<and> target = Clean ?root"
    and "cr_Kind root = RootKindDir \<Longrightarrow> ResolveRemoteTarget ?root raw allowRoot = Inr (rel, target)"
    and "cr_Kind root = RootKindDir \<or> cr_Kind root = RootKindFile" by auto
  from pid show "pathID = PathID (ae_px env) (ae_keys env) (cr_RootID root) rel" "pid = Some pathID" .
qed

text \<open>Where a root of each kind may be written: a directory root below itself, a file root at its
  path and, if it is missing, at the directory that holds it.\<close>

definition root_area :: "Root \<Rightarrow> string \<Rightarrow> bool" where
  "root_area root p \<longleftrightarrow>
     (if cr_Kind root = RootKindFile then p = cr_TargetAbsPath root \<or> p = Dir (cr_TargetAbsPath root)
      else below (cr_TargetAbsPath root) p)"

definition dirs_added :: "Root \<Rightarrow> fsys \<Rightarrow> fsys \<Rightarrow> bool" where
  "dirs_added root fs fs' \<longleftrightarrow> (\<forall>p. fs_at fs' p \<noteq> fs_at fs p \<longrightarrow>
     fs_tree fs p = None \<and> fs_tree fs' p = Some NodeDir \<and> root_area root p)"

definition clean_root :: "Root \<Rightarrow> bool" where
  "clean_root root \<longleftrightarrow> IsAbs (cr_TargetAbsPath root) \<and> Clean (cr_TargetAbsPath root) = cr_TargetAbsPath root"

lemma dirs_added_refl [simp]: "dirs_added root fs fs"
  by (simp add: dirs_added_def)

lemma ensureSafeDirTarget_frame:
  assumes "clean_root root" and "IsAbs target" and "ensureSafeDirTarget root target fs = (e, fs')" and "fs_ok fs"
  shows "dirs_added root fs fs' \<and> fs_ok fs'"
proof (cases "cr_Kind root")
  case RootKindDir
  then obtain e' where "on_tree (EnsureSafeDir (cr_TargetAbsPath root) target) fs = (e', fs')"
    using assms(3) by (auto simp: ensureSafeDirTarget_def split: prod.splits)
  from on_tree_frame(1,2) [OF _ assms(2) this] assms(1,4) RootKindDir show ?thesis
    by (auto simp: clean_root_def dirs_added_def root_area_def)
qed (use assms in \<open>auto simp: ensureSafeDirTarget_def\<close>)

lemma ensureSafeParentDirs_frame:
  assumes "clean_root root" and "IsAbs target" and "ensureSafeParentDirs root target fs = (e, fs')" and "fs_ok fs"
    and "cr_Kind root = RootKindFile \<Longrightarrow> target = cr_TargetAbsPath root"
  shows "dirs_added root fs fs' \<and> fs_ok fs'"
proof (cases "cr_Kind root")
  case RootKindDir
  then obtain e' where "on_tree (EnsureSafeDir (cr_TargetAbsPath root) (Dir (Clean target))) fs = (e', fs')"
    using assms(3) by (auto simp: ensureSafeParentDirs_def EnsureSafeParents_def [abs_def] split: prod.splits)
  from on_tree_frame(1,2) [OF _ _ this] Dir_abs [of "Clean target"] assms(1,2,4) RootKindDir show ?thesis
    by (auto simp: clean_root_def dirs_added_def root_area_def)
next
  case RootKindFile
  let ?d = "Dir (cr_TargetAbsPath root)"
  obtain e' where o: "on_tree (EnsureSafeDir ?d ?d) fs = (e', fs')"
    using assms(3,5) RootKindFile by (auto simp: ensureSafeParentDirs_def split: prod.splits)
  have d: "IsAbs ?d \<and> Clean ?d = ?d" using assms(1) Dir_abs by (simp add: clean_root_def)
  have "RelWithinRoot ?d ?d = Inr []" by (simp add: RelWithinRoot_def)
  then have comp: "EnsureSafeDir ?d ?d = ensureDirComponent ?d" using d by (simp add: EnsureSafeDir_def fun_eq_iff)
  have "p = ?d" if "fs_at fs' p \<noteq> fs_at fs p" for p
    using o that ensureDirComponent_ok(2) [of ?d "fs_tree fs"]
    by (auto simp: comp on_tree_def fs_at_def split: prod.splits) metis
  with on_tree_frame(1,2) [OF _ _ o] d assms(4) RootKindFile show ?thesis
    by (auto simp: dirs_added_def root_area_def)
qed (use assms in \<open>auto simp: ensureSafeParentDirs_def\<close>)

section \<open>A whole event\<close>

lemma set_attributes_at:
  "fs_at (set_attributes target a b fs) p =
    (if p = target \<and> fs_tree fs p \<noteq> None then (fs_tree fs p, fs_data fs p, Some (a, b)) else fs_at fs p)"
  by (auto simp: fs_at_def set_attributes_def)

lemma set_attributes_ok [simp]: "fs_ok fs \<Longrightarrow> fs_ok (set_attributes p a b fs)"
  by (auto simp: fs_ok_def set_attributes_def)

lemma RemoveAll_at: "fs_at (RemoveAll target fs) p = (if below target p then (None, None, None) else fs_at fs p)"
  by (simp add: fs_at_def RemoveAll_def below_def Let_def)

lemma RemoveAll_ok [simp]: "fs_ok fs \<Longrightarrow> fs_ok (RemoveAll target fs)"
  by (auto simp: fs_ok_def RemoveAll_def Let_def)

lemma fs_ok_at:
  "fs_ok fs \<longleftrightarrow> (\<forall>p. case fs_at fs p of (n, d, a) \<Rightarrow> (d \<noteq> None \<longleftrightarrow> n = Some NodeFile) \<and> (a \<noteq> None \<longrightarrow> n \<noteq> None))"
  by (auto simp: fs_ok_def fs_at_def)

lemma replace_file_ok:
  assumes "fs_ok fs" and "replace_file pre env c root pathID target payload fs s = (r, fs', s')"
  shows "fs_ok fs' \<and> (\<forall>p. fs_at fs' p \<noteq> fs_at fs p \<longrightarrow> p = target)"
proof (cases r)
  case None
  from replace_file_atomic(2) [OF assms None] obtain content
    where t: "fs_at fs' target = (Some NodeFile, Some content, Some (fp_Mode payload, fp_MTimeNS payload))"
    and o: "\<forall>p. p \<noteq> target \<longrightarrow> fs_at fs' p = fs_at fs p" by blast
  have "case fs_at fs' p of (n, d, a) \<Rightarrow> (d \<noteq> None \<longleftrightarrow> n = Some NodeFile) \<and> (a \<noteq> None \<longrightarrow> n \<noteq> None)" for p
    using t o assms(1) unfolding fs_ok_at by (cases "p = target") auto
  with o show ?thesis unfolding fs_ok_at by blast
qed (use replace_file_atomic(1) [OF assms] assms(1) in auto)

text \<open>The cases of an applied event.\<close>

lemma ApplyEvent_cases:
  assumes "ApplyEvent env c root event stageOnly m = (r, m')"
  obtains "m' = m"
  | payload where "apply_dir_put env root event stageOnly payload m = (r, m')"
  | payload where "apply_file_put env c root event stageOnly payload m = (r, m')"
  | payload where "apply_delete env root event stageOnly payload m = (r, m')"
  using assms by (auto simp: ApplyEvent_def Let_def split: option.splits sum.splits EventType.splits)

lemma apply_dir_put_area:
  assumes c: "clean_root root" and ok: "fs_ok (mc_fs m)" and run: "apply_dir_put env root event st payload m = (r, m')"
  shows "fs_ok (mc_fs m') \<and> (\<forall>p. fs_at (mc_fs m') p \<noteq> fs_at (mc_fs m) p \<longrightarrow> root_area root p)"
proof (cases "validateDirPutTarget env root (dp_Path payload) (er_PathID event)")
  case (Inr x)
  obtain rel target pid where x: "x = (rel, target, pid)" by (metis prod.collapse)
  have res: "resolveContentTarget env root (dp_Path payload) True (er_PathID event) = Inr (rel, target, pid)"
    using Inr x by (auto simp: validateDirPutTarget_def split: sum.splits if_splits)
  have "IsAbs (cr_TargetAbsPath root)" using c by (simp add: clean_root_def)
  note t = resolveContentTarget_ok [OF this res]
  have area: "root_area root target"
    using t(2,4,8) c by (auto simp: root_area_def clean_root_def)
  obtain e fs where e: "ensureSafeDirTarget root target (mc_fs m) = (e, fs)" by fastforce
  note f = ensureSafeDirTarget_frame [OF c t(1) e ok]
  have "mc_fs m' = mc_fs m \<or> mc_fs m' = fs
      \<or> mc_fs m' = set_attributes target (dp_Mode payload) (dp_MTimeNS payload) fs"
    using run Inr x e by (auto simp: apply_dir_put_def Let_def split: if_splits option.splits)
  then show ?thesis using f ok area by (auto simp: dirs_added_def set_attributes_at split: if_splits)
qed (use run ok in \<open>auto simp: apply_dir_put_def\<close>)

lemma apply_file_put_area:
  assumes c: "clean_root root" and ok: "fs_ok (mc_fs m)" and run: "apply_file_put env cl root event st payload m = (r, m')"
  shows "fs_ok (mc_fs m') \<and> (\<forall>p. fs_at (mc_fs m') p \<noteq> fs_at (mc_fs m) p \<longrightarrow> root_area root p)"
proof (cases "validateFilePutTarget env root (fp_Path payload) (er_PathID event)")
  case (Inr x)
  obtain rel target pid where x: "x = (rel, target, pid)" by (metis prod.collapse)
  have res: "resolveContentTarget env root (fp_Path payload) True (er_PathID event) = Inr (rel, target, pid)"
    using Inr x by (auto simp: validateFilePutTarget_def split: sum.splits if_splits)
  have "IsAbs (cr_TargetAbsPath root)" using c by (simp add: clean_root_def)
  note t = resolveContentTarget_ok [OF this res]
  have area: "root_area root target"
    using t(2,4,8) c by (auto simp: root_area_def clean_root_def)
  obtain e fs where e: "ensureSafeParentDirs root target (mc_fs m) = (e, fs)" by fastforce
  have "cr_Kind root = RootKindFile \<Longrightarrow> target = cr_TargetAbsPath root" using t(4) c by (simp add: clean_root_def)
  note f = ensureSafeParentDirs_frame [OF c t(1) e ok this]
  obtain r2 fs2 s2 where rf: "replace_file ''.syna-'' env cl root pid target payload fs (mc_net m) = (r2, fs2, s2)"
    by (metis prod.collapse)
  have r: "fs_ok fs2" "\<And>p. fs_at fs2 p \<noteq> fs_at fs p \<Longrightarrow> p = target"
    using replace_file_ok [OF _ rf] f by simp_all
  have "mc_fs m' = mc_fs m \<or> mc_fs m' = fs \<or> mc_fs m' = fs2"
    using run Inr x e rf by (auto simp: apply_file_put_def Let_def split: if_splits option.splits)
  moreover have "root_area root p" if "fs_at fs2 p \<noteq> fs_at (mc_fs m) p" for p
    using that r(2) [of p] f area unfolding dirs_added_def by metis
  ultimately show ?thesis using f ok r(1) by (auto simp: dirs_added_def)
qed (use run ok in \<open>auto simp: apply_file_put_def\<close>)

lemma apply_delete_area:
  assumes c: "clean_root root" and ok: "fs_ok (mc_fs m)" and run: "apply_delete env root event st payload m = (r, m')"
  shows "fs_ok (mc_fs m') \<and> (\<forall>p. fs_at (mc_fs m') p \<noteq> fs_at (mc_fs m) p \<longrightarrow> root_area root p)"
proof (cases "resolveDeleteTarget env root (del_Path payload) (er_PathID event)")
  case (Inr x)
  obtain rel target pid where x: "x = (rel, target, pid)" by (metis prod.collapse)
  have res: "resolveContentTarget env root (del_Path payload) False (er_PathID event) = Inr (rel, target, pid)"
    using Inr x by (simp add: resolveDeleteTarget_def)
  have "IsAbs (cr_TargetAbsPath root)" using c by (simp add: clean_root_def)
  note t = resolveContentTarget_ok [OF this res]
  have "cr_Kind root = RootKindDir"
    using res t(8) by (auto simp: resolveContentTarget_def split: if_splits)
  then have area: "root_area root p" if "below target p" for p
    using t(2) c that below_trans by (auto simp: root_area_def clean_root_def)
  have "mc_fs m' = mc_fs m \<or> mc_fs m' = RemoveAll target (mc_fs m)"
    using run Inr x by (auto simp: apply_delete_def Let_def split: if_splits option.splits)
  then show ?thesis using ok area by (auto simp: RemoveAll_at split: if_splits)
qed (use run ok in \<open>auto simp: apply_delete_def\<close>)

lemma ApplyEvent_area:
  assumes c: "clean_root root" and ok: "fs_ok (mc_fs m)" and run: "ApplyEvent env cl root event st m = (r, m')"
  shows "fs_ok (mc_fs m') \<and> (\<forall>p. fs_at (mc_fs m') p \<noteq> fs_at (mc_fs m) p \<longrightarrow> root_area root p)"
  using run
  by (rule ApplyEvent_cases)
    (use ok apply_dir_put_area [OF c ok] apply_file_put_area [OF c ok] apply_delete_area [OF c ok] in blast)+

section \<open>The outcome of a file put\<close>

lemma SetIgnore_entries [simp]: "c_entries (SetIgnore i p x e s) = c_entries s"
  by (simp add: SetIgnore_def Let_def)

lemma client_inv_SetIgnore: "client_inv s \<Longrightarrow> client_inv (SetIgnore i p x e s)"
  by (rule client_step_inv [OF client_step.set_ignore])

lemma apply_file_put_outcome:
  assumes c: "clean_root root" and ok: "fs_ok (mc_fs m)" and db: "client_inv (mc_db m)"
    and v: "validateFilePutTarget env root (fp_Path payload) (er_PathID event) = Inr (rel, target, pathID)"
    and run: "apply_file_put env cl root event False payload m = (r, m')"
  shows "(\<forall>p. fs_at (mc_fs m') p \<noteq> fs_at (mc_fs m) p \<and> (r = None \<longrightarrow> p \<noteq> target) \<longrightarrow>
        fs_tree (mc_fs m) p = None \<and> fs_tree (mc_fs m') p = Some NodeDir)
    \<and> (r \<noteq> None \<longrightarrow> mc_db m' = mc_db m)
    \<and> (r = None \<longrightarrow>
        (\<exists>content. fs_at (mc_fs m') target = (Some NodeFile, Some content, Some (fp_Mode payload, fp_MTimeNS payload))
          \<and> wrap64 (int (length content)) = fp_SizeBytes payload
          \<and> hex_encode (px_sha256 (ae_px env) content) = fp_ContentSHA256 payload)
        \<and> (\<exists>e. EntriesForRoot (cr_RootID root) (mc_db m') rel = Some e \<and> en_CurrentSeq e = er_Seq event
          \<and> en_PathID e = pathID \<and> en_ContentSHA256 e = fp_ContentSHA256 payload \<and> \<not> en_Deleted e))"
proof -
  have res: "resolveContentTarget env root (fp_Path payload) True (er_PathID event) = Inr (rel, target, pathID)"
    using v by (auto simp: validateFilePutTarget_def split: sum.splits if_splits)
  have "IsAbs (cr_TargetAbsPath root)" using c by (simp add: clean_root_def)
  note t = resolveContentTarget_ok [OF this res]
  obtain e fs where e: "ensureSafeParentDirs root target (mc_fs m) = (e, fs)" by fastforce
  have "cr_Kind root = RootKindFile \<Longrightarrow> target = cr_TargetAbsPath root" using t(4) c by (simp add: clean_root_def)
  from ensureSafeParentDirs_frame [OF c t(1) e ok this] have d: "fs_ok fs"
    and dirs: "\<And>p. fs_at fs p \<noteq> fs_at (mc_fs m) p \<Longrightarrow> fs_tree (mc_fs m) p = None \<and> fs_tree fs p = Some NodeDir"
    by (simp_all add: dirs_added_def)
  obtain r2 fs2 s2 where rf: "replace_file ''.syna-'' env cl root pathID target payload fs (mc_net m) = (r2, fs2, s2)"
    by (metis prod.collapse)
  note atomic = replace_file_atomic [OF d rf]
  show ?thesis
  proof (cases "e = None \<and> r2 = None")
    case False
    then have "mc_db m' = mc_db m" "mc_fs m' = fs" "r \<noteq> None"
      using run v e rf atomic(1) by (auto simp: apply_file_put_def Let_def split: option.splits)
    with dirs show ?thesis by (cases r) simp_all
  next
    case True
    let ?expected = "zero_entry\<lparr>en_RootID := cr_RootID root, en_RelPath := rel, en_Kind := RootKindFile,
      en_ContentSHA256 := fp_ContentSHA256 payload, en_Mode := fp_Mode payload, en_MTimeNS := fp_MTimeNS payload\<rparr>"
    let ?entry = "?expected\<lparr>en_PathID := pathID, en_CurrentSeq := er_Seq event, en_SizeBytes := fp_SizeBytes payload\<rparr>"
    let ?db = "SetIgnore (cr_RootID root) rel (ae_now env + ignore_ttl) ?expected (mc_db m)"
    have m': "mc_fs m' = fs2" "r = None" "mc_db m' = UpsertEntry ?entry ?db"
      using run v e rf True by (auto simp: apply_file_put_def Let_def)
    from atomic(2) True have con: "\<exists>content. fs_at fs2 target = (Some NodeFile, Some content, Some (fp_Mode payload, fp_MTimeNS payload))
        \<and> wrap64 (int (length content)) = fp_SizeBytes payload
        \<and> hex_encode (px_sha256 (ae_px env) content) = fp_ContentSHA256 payload"
      and frame: "\<And>p. p \<noteq> target \<Longrightarrow> fs_at fs2 p = fs_at fs p" by blast+
    have "fs_tree (mc_fs m) p = None \<and> fs_tree fs2 p = Some NodeDir"
      if "fs_at fs2 p \<noteq> fs_at (mc_fs m) p" "p \<noteq> target" for p
      using dirs [of p] frame [OF that(2)] that(1) by (simp add: fs_at_def)
    moreover have "entry_at (cr_RootID root, rel) (UpsertEntry ?entry ?db) = Some ?entry"
      using entry_at_insertEntry [OF client_inv_SetIgnore [OF db]] by (simp add: UpsertEntry_def)
    then have "EntriesForRoot (cr_RootID root) (mc_db m') rel = Some ?entry" by (simp add: entry_at_def m'(3))
    ultimately show ?thesis using con m'(1,2) by (simp add: zero_entry_def)
  qed
qed

end
