(* ===== verification/FileTransfer.thy ===== *)
theory FileTransfer
  imports ApplierCorrect ServerSystem
begin

text \<open>
  Uploading and downloading fit together.  \<open>blob_store\<close> is what the client's
  transfers rely on: an accepted upload can be downloaded, nothing accepted is
  lost, and what is downloaded has the hash it is named by.  Its lemmas follow the
  uploader's loop and the applier's loop; it is interpreted on the connector
  talking to the server's own handlers.
\<close>

section \<open>Chunks\<close>

text \<open>How a content is cut: the references an upload makes, with their ciphertexts.\<close>

inductive cut ::
  "primitives \<Rightarrow> (nat \<Rightarrow> bytes) \<Rightarrow> bytes \<Rightarrow> string \<Rightarrow> string \<Rightarrow> string \<Rightarrow> nat \<Rightarrow> bytes \<Rightarrow> (ChunkRef \<times> bytes) list \<Rightarrow> bool"
  for px nonces key w rootID pathID where
  cut_end: "cut px nonces key w rootID pathID i [] []"
| cut_chunk: "rest \<noteq> [] \<Longrightarrow> n = int (length (take ChunkSize rest))
    \<Longrightarrow> Encrypt px (nonces i) key (take ChunkSize rest) (BlobAAD w rootID pathID (int i) n) = Inr blob
    \<Longrightarrow> cut px nonces key w rootID pathID (Suc i) (drop ChunkSize rest) cs
    \<Longrightarrow> cut px nonces key w rootID pathID i rest ((\<lparr>ch_ObjectID = ObjectID px blob, ch_PlainSize = n\<rparr>, blob) # cs)"

inductive_cases cut_nilE: "cut px nonces key w rootID pathID i [] cs"
inductive_cases cut_consE: "cut px nonces key w rootID pathID i (b # rest) cs"

text \<open>The ciphertexts of an upload of \<open>content\<close>.\<close>

definition chunk_blobs ::
  "primitives \<Rightarrow> (nat \<Rightarrow> bytes) \<Rightarrow> bytes \<Rightarrow> string \<Rightarrow> string \<Rightarrow> string \<Rightarrow> bytes \<Rightarrow> bytes set" where
  "chunk_blobs px nonces key w rootID pathID content =
     {blob. \<exists>cs ref. cut px nonces key w rootID pathID 0 content cs \<and> (ref, blob) \<in> set cs}"

text \<open>What the code relies on of XChaCha20-Poly1305.\<close>

definition aead_ok :: "primitives \<Rightarrow> bool" where
  "aead_ok px \<longleftrightarrow> (\<forall>key nonce plain aad. length key = 32 \<longrightarrow> length nonce = NonceSizeX \<longrightarrow>
     px_open px key nonce (px_seal px key nonce plain aad) aad = Some plain
     \<and> length (px_seal px key nonce plain aad) = length plain + aeadOverhead)"

section \<open>The interface\<close>

locale blob_store =
  fixes px :: primitives
    and upload :: "'s upload"
    and c :: "'s Client"
    and stored :: "'s \<Rightarrow> string \<Rightarrow> bytes option"
    and inv :: "'s \<Rightarrow> bool"
  assumes upload_ok: "inv s \<Longrightarrow> upload (ObjectID px blob) kind n blob s = (None, s')
      \<Longrightarrow> inv s' \<and> stored s \<subseteq>\<^sub>m stored s' \<and> stored s' (ObjectID px blob) \<noteq> None"
    and download_ok: "inv s \<Longrightarrow> stored s oid = Some blob \<Longrightarrow> 0 < maxBytes \<Longrightarrow> int (length blob) \<le> maxBytes
      \<Longrightarrow> \<exists>s'. DownloadObjectTo c oid maxBytes [] s = (((int (length blob), None), blob), s')
            \<and> inv s' \<and> stored s' = stored s"
    and stored_hash: "inv s \<Longrightarrow> stored s oid = Some blob \<Longrightarrow> ObjectID px blob = oid"
begin

lemma upload_loop_cut:
  assumes "inv s" and "upload_loop px upload nonces key w rootID pathID i rest acc s = (Inr chunks, s')"
  shows "\<exists>cs. cut px nonces key w rootID pathID i rest cs \<and> chunks = rev acc @ map fst cs
    \<and> inv s' \<and> stored s \<subseteq>\<^sub>m stored s' \<and> (\<forall>(ref, blob) \<in> set cs. stored s' (ObjectID px blob) \<noteq> None)"
  using assms
proof (induction "length rest" arbitrary: i rest acc s rule: less_induct)
  case less
  show ?case
  proof (cases "rest = []")
    case True
    then have "chunks = rev acc" "s' = s" using less.prems(2) by (simp_all add: upload_loop.simps)
    then show ?thesis using True less.prems(1) cut_end by (intro exI [of _ "[]"]) auto
  next
    case False
    let ?buf = "take ChunkSize rest" and ?n = "int (length (take ChunkSize rest))"
    obtain blob where enc: "Encrypt px (nonces i) key ?buf (BlobAAD w rootID pathID (int i) ?n) = Inr blob"
      using less.prems(2) False by (subst (asm) upload_loop.simps) (auto simp: Let_def split: sum.splits)
    let ?ref = "\<lparr>ch_ObjectID = ObjectID px blob, ch_PlainSize = ?n\<rparr>"
    obtain s1 where up: "upload (ObjectID px blob) ''file_chunk'' ?n blob s = (None, s1)"
      using less.prems(2) False enc
      by (subst (asm) upload_loop.simps) (auto simp: Let_def split: prod.splits option.splits)
    note u = upload_ok [OF less.prems(1) up]
    have "\<exists>cs. cut px nonces key w rootID pathID (Suc i) (drop ChunkSize rest) cs
        \<and> chunks = rev (?ref # acc) @ map fst cs \<and> inv s' \<and> stored s1 \<subseteq>\<^sub>m stored s'
        \<and> (\<forall>(ref, blob) \<in> set cs. stored s' (ObjectID px blob) \<noteq> None)"
    proof (cases "length ?buf < ChunkSize")
      case True
      then have "drop ChunkSize rest = []" by simp
      moreover have "chunks = rev (?ref # acc)" "s' = s1"
        using less.prems(2) False enc up True by (subst (asm) upload_loop.simps, simp add: Let_def min_def split: if_splits)+
      ultimately show ?thesis using u cut_end by (intro exI [of _ "[]"]) auto
    next
      case False': False
      have "upload_loop px upload nonces key w rootID pathID (Suc i) (drop ChunkSize rest) (?ref # acc) s1 = (Inr chunks, s')"
        using less.prems(2) False enc up False' by (subst (asm) upload_loop.simps) (simp add: Let_def)
      moreover have "length (drop ChunkSize rest) < length rest" using False by simp
      ultimately show ?thesis using less.hyps u by blast
    qed
    then obtain cs where cs: "cut px nonces key w rootID pathID (Suc i) (drop ChunkSize rest) cs"
      "chunks = rev (?ref # acc) @ map fst cs" "inv s'" "stored s1 \<subseteq>\<^sub>m stored s'"
      "\<forall>(ref, blob) \<in> set cs. stored s' (ObjectID px blob) \<noteq> None" by blast
    have "stored s' (ObjectID px blob) \<noteq> None"
      using u cs(4) by (metis (no_types, lifting) domIff map_le_def)
    moreover have "stored s \<subseteq>\<^sub>m stored s'" using u cs(4) map_le_trans by blast
    ultimately show ?thesis
      using cut_chunk [OF False refl enc cs(1)] cs(2,3,5) by (intro exI [of _ "(?ref, blob) # cs"]) auto
  qed
qed

text \<open>Fetching what was cut yields the content again.\<close>

lemma copy_cut:
  assumes "cut px nonces key w rootID pathID i rest cs"
    and "aead_ok px" and "\<And>i. length (nonces i) = NonceSizeX"
    and env: "ae_px env = px" "dk_BlobKey (ae_keys env) = key" "ae_WorkspaceID env = w" "ft_write (ae_faults env) = (\<lambda>_. None)"
    and "inv s" and "\<forall>(ref, blob) \<in> set cs. stored s (ObjectID px blob) = Some blob"
  shows "\<exists>n s'. copy_chunks env c rootID pathID i (map fst cs) received (a, a) s = ((Inr n, a @ rest, a @ rest), s')
    \<and> inv s' \<and> stored s' = stored s"
  using assms(1,8,9)
proof (induction arbitrary: received a s rule: cut.induct)
  case (cut_chunk rest n i blob cs)
  let ?buf = "take ChunkSize rest"
  have key: "length key = 32" and blob: "blob = char_of blobFormatVersion # nonces i @ px_seal px key (nonces i) ?buf (BlobAAD w rootID pathID (int i) n)"
    using cut_chunk.hyps(3) by (auto simp: Encrypt_def split: if_splits)
  have op: "px_open px key (nonces i) (px_seal px key (nonces i) ?buf aad) aad = Some ?buf"
    and len: "length (px_seal px key (nonces i) ?buf aad) = length ?buf + aeadOverhead" for aad
    using assms(2,3) key by (simp_all add: aead_ok_def)
  have dec: "Decrypt px key blob (BlobAAD w rootID pathID (int i) n) = Inr ?buf"
    by (rule Decrypt_Encrypt [OF key assms(3) op cut_chunk.hyps(3)])
  have n: "0 < n" "n \<le> int ChunkSize" using cut_chunk.hyps(1,2) by (simp_all add: min_def)
  have small: "int ChunkSize \<le> max_int64 - 41" by (simp add: ChunkSize_def MaxFileChunkPlainSize_def max_int64_def)
  have es: "EncryptedSize n = Inr (int (length blob))"
    unfolding cut_chunk.hyps(2)
    by (rule length_Encrypt [OF cut_chunk.hyps(3) assms(3) len]) (use n small cut_chunk.hyps(2) in simp)
  have v: "validateChunkRef \<lparr>ch_ObjectID = ObjectID px blob, ch_PlainSize = n\<rparr> = None"
    using n by (simp add: validateChunkRef_def)
  have pos: "0 < int (length blob)" by (simp add: blob)
  obtain s1 where d: "DownloadObjectTo c (ObjectID px blob) (int (length blob)) [] s = (((int (length blob), None), blob), s1)"
    and s1: "inv s1" "stored s1 = stored s"
    using download_ok [OF cut_chunk.prems(1) _ pos order_refl, of "ObjectID px blob"] cut_chunk.prems(2) by auto
  have "copy_chunks env c rootID pathID i (map fst ((\<lparr>ch_ObjectID = ObjectID px blob, ch_PlainSize = n\<rparr>, blob) # cs)) received (a, a) s
      = copy_chunks env c rootID pathID (Suc i) (map fst cs) (wrap64 (received + n)) (a @ ?buf, a @ ?buf) s1"
    using cut_chunk.hyps(2) [symmetric] by (simp add: v es env DownloadAndDecryptObjectTo_def d DecryptToWriter_def DecryptInPlace_eq dec multi_write_def)
  moreover have "\<forall>(ref, blob) \<in> set cs. stored s1 (ObjectID px blob) = Some blob" using cut_chunk.prems(2) s1(2) by simp
  from cut_chunk.IH [OF s1(1) this, of "wrap64 (received + n)" "a @ ?buf"]
  obtain k s' where "copy_chunks env c rootID pathID (Suc i) (map fst cs) (wrap64 (received + n)) (a @ ?buf, a @ ?buf) s1
      = ((Inr k, (a @ ?buf) @ drop ChunkSize rest, (a @ ?buf) @ drop ChunkSize rest), s')" "inv s'" "stored s' = stored s1"
    by blast
  ultimately show ?case using s1(2) by (intro exI [of _ k] exI [of _ s']) simp
qed auto

text \<open>So an uploaded file is what another device fetches, at once or later.\<close>

lemma upload_then_fetch:
  assumes "inv s" and up: "UploadFile px upload nonces key w rootID pathID rel absPath mode mtime fs s = (Inr res, s')"
    and "aead_ok px" and "\<And>i. length (nonces i) = NonceSizeX"
    and env: "ae_px env = px" "dk_BlobKey (ae_keys env) = key" "ae_WorkspaceID env = w" "ft_write (ae_faults env) = (\<lambda>_. None)"
    and content: "fs_data fs absPath = Some content"
    and inj: "inj_on (ObjectID px) (ran (stored s') \<union> chunk_blobs px nonces key w rootID pathID content)"
    and later: "inv s2" "stored s' \<subseteq>\<^sub>m stored s2"
  shows "(\<exists>s3. copy_chunks env c rootID pathID 0 (fp_Chunks (ur_Payload res)) 0 ([], []) s2
      = ((Inr (wrap64 (int (length content))), content, content), s3))
    \<and> ur_Payload res = \<lparr>fp_Path = rel, fp_Mode = mode, fp_MTimeNS = mtime, fp_SizeBytes = int (length content),
        fp_ContentSHA256 = hex_encode (px_sha256 px content), fp_Chunks = fp_Chunks (ur_Payload res)\<rparr>"
proof -
  obtain chunks where lp: "upload_loop px upload nonces key w rootID pathID 0 content [] s = (Inr chunks, s')"
    and res: "ur_Payload res = \<lparr>fp_Path = rel, fp_Mode = mode, fp_MTimeNS = mtime, fp_SizeBytes = int (length content),
        fp_ContentSHA256 = hex_encode (px_sha256 px content), fp_Chunks = chunks\<rparr>"
    using up content by (auto simp: UploadFile_def split: prod.splits sum.splits)
  from upload_loop_cut [OF assms(1) lp] obtain cs where cs: "cut px nonces key w rootID pathID 0 content cs"
    "chunks = map fst cs" "inv s'" and st: "\<forall>(ref, blob) \<in> set cs. stored s' (ObjectID px blob) \<noteq> None" by auto
  have "stored s' (ObjectID px blob) = Some blob" if "(ref, blob) \<in> set cs" for ref blob
  proof -
    have "stored s' (ObjectID px blob) \<noteq> None" using bspec [OF st that] by simp
    then obtain b where b: "stored s' (ObjectID px blob) = Some b" by blast
    then have "ObjectID px b = ObjectID px blob" by (rule stored_hash [OF cs(3)])
    moreover have "b \<in> ran (stored s')" "blob \<in> chunk_blobs px nonces key w rootID pathID content"
      using b cs(1) that by (auto simp: ran_def chunk_blobs_def)
    ultimately show ?thesis using b inj by (auto dest: inj_onD)
  qed
  then have "\<forall>(ref, blob) \<in> set cs. stored s2 (ObjectID px blob) = Some blob"
    using later(2) by (fastforce simp: map_le_def dom_def)
  from copy_cut [OF cs(1) assms(3,4) env later(1) this, of 0 "[]"]
  obtain n s3 where f: "copy_chunks env c rootID pathID 0 chunks 0 ([], []) s2 = ((Inr n, content, content), s3)"
    by (auto simp: cs(2))
  then have "n = wrap64 (int (length content))"
    using copy_chunks_content [of env c rootID pathID 0 chunks "[]" s2 n content content s3] by (simp add: wrap64_def)
  with f show ?thesis by (simp add: res)
qed

end

section \<open>The server as a blob store\<close>

definition server_http :: "config \<Rightarrow> primitives \<Rightarrow> world http" where
  "server_http cfg px r b w = (case serve cfg px r b w of (resp, w') \<Rightarrow> (Inr resp, w'))"

text \<open>The connector of a client that holds a session token.\<close>

definition server_client :: "config \<Rightarrow> primitives \<Rightarrow> string \<Rightarrow> string \<Rightarrow> world Client" where
  "server_client cfg px baseURL token =
     WithToken token (New (server_http cfg px) (\<lambda>resp. int (length (body_bytes (snd resp)))) baseURL)"

definition token_ok :: "primitives \<Rightarrow> string \<Rightarrow> string \<Rightarrow> time \<Rightarrow> server_db \<Rightarrow> bool" where
  "token_ok px token w t s \<longleftrightarrow>
     (\<exists>r. List.find (is_token (px_sha256 px token)) (t_sessions s) = Some r \<and> sn_ws r = w \<and> t \<le> sn_expires_at r)"

definition hash_ok :: "primitives \<Rightarrow> bool" where
  "hash_ok px \<longleftrightarrow> (\<forall>b. length (px_sha256 px b) = 32)"

text \<open>A well-formed server on which the tokens are valid whenever the clock is read.\<close>

definition online :: "primitives \<Rightarrow> string set \<Rightarrow> string \<Rightarrow> world \<Rightarrow> bool" where
  "online px tokens w wd \<longleftrightarrow> system_inv px (wd_server wd) \<and> hash_ok px
     \<and> (\<forall>token \<in> tokens. \<forall>(t, random) \<in> range (wd_clock wd). token_ok px token w t (sv_db (wd_server wd)))"

definition stored_objects :: "string \<Rightarrow> world \<Rightarrow> string \<Rightarrow> bytes option" where
  "stored_objects w wd oid =
     (if ValidObjectID oid \<and> objectVisibleToWorkspace w oid (sv_db (wd_server wd))
      then sv_files (wd_server wd) (relStorePath oid) else None)"

lemma ValidObjectID_no_slash: "ValidObjectID oid \<Longrightarrow> oid \<noteq> [] \<and> CHR ''/'' \<notin> set oid"
  by (auto simp: ValidObjectID_def objectIDLength_def list_all_iff is_hex_char_def Let_def dest: bspec)

lemma path_base_object:
  assumes "ValidObjectID oid"
  shows "path_base (''/v1/objects/'' @ oid) = oid"
proof -
  note v = ValidObjectID_no_slash [OF assms]
  have "hd (rev oid) \<noteq> CHR ''/''" using v by (metis hd_in_set rev_is_Nil_conv set_rev)
  then have d: "dropWhile (\<lambda>c. c = CHR ''/'') (rev oid @ x) = rev oid @ x" for x
    using v by (cases "rev oid") simp_all
  have "takeWhile (\<lambda>c. c \<noteq> CHR ''/'') (rev oid @ CHR ''/'' # x) = rev oid" for x
    by (subst takeWhile_append2) (use v in auto)
  then show ?thesis using d v by (simp add: path_base_def Let_def)
qed

lemma Handler_objects:
  "hr_Path r = ''/v1/objects/'' @ oid \<Longrightarrow> Handler cfg px now random r b sv = handleObjects cfg px now r sv"
  by (simp add: Handler_def)

text \<open>A request with the token runs its handler on a server that differs in the session's last use.\<close>

lemma withSession_token:
  assumes "token_ok px token w now (sv_db sv)" and "hr_Version r = ''1''" and "hr_Authorization r = ''Bearer '' @ token"
  obtains sess sv1 where "withSession handler px now r sv = handler sess sv1" and "se_WorkspaceID sess = w"
    and "same_log (sv_db sv) (sv_db sv1)" and "sv_files sv1 = sv_files sv" and "sv_hub sv1 = sv_hub sv"
    and "\<And>other t. token_ok px other w t (sv_db sv) \<Longrightarrow> token_ok px other w t (sv_db sv1)"
proof -
  let ?p = "is_token (px_sha256 px token)"
  obtain row where row: "List.find ?p (t_sessions (sv_db sv)) = Some row" "sn_ws row = w" "now \<le> sn_expires_at row"
    using assms(1) by (auto simp: token_ok_def)
  let ?s = "(sv_db sv)\<lparr>t_sessions := update_where ?p (\<lambda>r. r\<lparr>sn_last_used := now\<rparr>) (t_sessions (sv_db sv))\<rparr>"
  let ?sess = "\<lparr>se_WorkspaceID = sn_ws row, se_DeviceID = sn_device row, se_ExpiresAt = sn_expires_at row\<rparr>"
  have "sessionFromRequest px now r (sv_db sv) = (Some ?sess, ?s)"
    using row assms(2,3) by (simp add: sessionFromRequest_def Authenticate_def)
  then have "withSession handler px now r sv = handler ?sess (sv\<lparr>sv_db := ?s\<rparr>)"
    by (simp add: withSession_def)
  moreover have "same_log (sv_db sv) ?s" by (simp add: same_log_def)
  moreover have "token_ok px other w t ?s" if old: "token_ok px other w t (sv_db sv)" for other t
  proof -
    obtain x where x: "List.find (is_token (px_sha256 px other)) (t_sessions (sv_db sv)) = Some x" "sn_ws x = w" "t \<le> sn_expires_at x"
      using old by (auto simp: token_ok_def)
    let ?y = "if ?p x then x\<lparr>sn_last_used := now\<rparr> else x"
    have "List.find (is_token (px_sha256 px other)) (t_sessions ?s) = Some ?y"
      using x(1) by (simp add: find_update_where is_token_def)
    moreover have "sn_ws ?y = w" "t \<le> sn_expires_at ?y" using x(2,3) by simp_all
    ultimately show ?thesis unfolding token_ok_def by blast
  qed
  ultimately show ?thesis using row(2) by (intro that [of ?sess "sv\<lparr>sv_db := ?s\<rparr>"]) simp_all
qed

text \<open>One request of such a client.\<close>

lemma server_request:
  assumes on: "online px tokens w wd" and tk: "token \<in> tokens" and r: "hr_Version r = ''1''" "hr_Authorization r = ''Bearer '' @ token"
    and h: "\<And>now random. Handler cfg px now random r b (wd_server wd) = withSession (handler now) px now r (wd_server wd)"
    and inv: "\<And>now. system_inv px (snd (withSession (handler now) px now r (wd_server wd)))"
    and keep: "\<And>now sess sv. t_sessions (sv_db (snd (handler now sess sv))) = t_sessions (sv_db sv)"
  obtains now sess sv1 where "serve cfg px r b wd = (fst (handler now sess sv1),
      \<lparr>wd_server = snd (handler now sess sv1), wd_clock = (\<lambda>n. wd_clock wd (Suc n))\<rparr>)"
    and "se_WorkspaceID sess = w" and "same_log (sv_db (wd_server wd)) (sv_db sv1)"
    and "sv_files sv1 = sv_files (wd_server wd)"
    and "online px tokens w (snd (serve cfg px r b wd))"
proof -
  obtain now random where clk: "wd_clock wd 0 = (now, random)" by fastforce
  then have "(now, random) \<in> range (wd_clock wd)" by (metis rangeI)
  then have tok: "token_ok px token w now (sv_db (wd_server wd))" using on tk unfolding online_def by blast
  obtain sess sv1 where ws: "withSession (handler now) px now r (wd_server wd) = handler now sess sv1"
    and sess: "se_WorkspaceID sess = w" "same_log (sv_db (wd_server wd)) (sv_db sv1)" "sv_files sv1 = sv_files (wd_server wd)"
    and t1: "\<And>other t. token_ok px other w t (sv_db (wd_server wd)) \<Longrightarrow> token_ok px other w t (sv_db sv1)"
    by (rule withSession_token [where handler = "handler now", OF tok r]) blast
  have sv: "serve cfg px r b wd = (fst (handler now sess sv1),
      \<lparr>wd_server = snd (handler now sess sv1), wd_clock = (\<lambda>n. wd_clock wd (Suc n))\<rparr>)"
    by (simp add: serve_def clk h ws case_prod_unfold Let_def)
  have "token_ok px other w t (sv_db (snd (handler now sess sv1)))"
    if "other \<in> tokens" "(t, x) \<in> range (\<lambda>n. wd_clock wd (Suc n))" for other t x
  proof -
    have "(t, x) \<in> range (wd_clock wd)" using that(2) by blast
    then have "token_ok px other w t (sv_db (wd_server wd))" using on that(1) unfolding online_def by blast
    then have "token_ok px other w t (sv_db sv1)" by (rule t1)
    then show ?thesis by (simp add: token_ok_def keep)
  qed
  then have "\<forall>other \<in> tokens. \<forall>(t, x) \<in> range (\<lambda>n. wd_clock wd (Suc n)).
      token_ok px other w t (sv_db (snd (handler now sess sv1)))" by blast
  moreover have "system_inv px (snd (handler now sess sv1))" using inv [of now] by (simp only: ws)
  moreover have "hash_ok px" using on by (simp add: online_def)
  ultimately have "online px tokens w (snd (serve cfg px r b wd))" by (simp add: online_def sv)
  with sv sess show ?thesis by (rule that)
qed

lemma server_client_sel [simp]:
  "cn_Token (server_client cfg px u token) = token" "cn_HTTPClient (server_client cfg px u token) = server_http cfg px"
  "cn_onUnauthorized (server_client cfg px u token) = None"
  "cn_ContentLength (server_client cfg px u token) = (\<lambda>resp. int (length (body_bytes (snd resp))))"
  by (simp_all add: server_client_def WithToken_def New_def)

lemma http_do_server:
  "http_do (server_client cfg px u token) r b wd
    = (case serve cfg px r b wd of (resp, wd') \<Rightarrow> (Inr resp, wd'))"
  by (simp add: http_do_def server_http_def reportUnauthorized_def case_prod_unfold)

lemma object_request_sel [simp]:
  "hr_Method (object_request c m oid) = m"
  "hr_Version (object_request c m oid) = ''1''" "hr_Authorization (object_request c m oid) = ''Bearer '' @ cn_Token c"
  by (simp_all add: object_request_def json_request_def)

lemma object_request_path: "hr_Path (object_request c m oid) = ''/v1/objects/'' @ oid"
  by (simp add: object_request_def json_request_def)

lemma path_base_request [simp]: "ValidObjectID oid \<Longrightarrow> path_base (hr_Path (object_request c m oid)) = oid"
  unfolding object_request_path by (rule path_base_object)

lemma same_log_visible: "same_log s s' \<Longrightarrow> objectVisibleToWorkspace w oid s' = objectVisibleToWorkspace w oid s"
  by (simp add: same_log_def objectVisibleToWorkspace_def)

lemma object_put_accepted:
  assumes "object_put cfg px now r sess sv = (resp, sv')" and "fst resp = 200 \<or> fst resp = 201"
  shows "sv_files sv \<subseteq>\<^sub>m sv_files sv' \<and> sv_files sv' (relStorePath (path_base (hr_Path r))) \<noteq> None
    \<and> objectVisibleToWorkspace (se_WorkspaceID sess) (path_base (hr_Path r)) (sv_db sv')
    \<and> (\<forall>v oid. objectVisibleToWorkspace v oid (sv_db sv) \<longrightarrow> objectVisibleToWorkspace v oid (sv_db sv'))"
  using assms
  by (auto simp: object_put_def Let_def upload_failed_def writeError_def Put_def upsert_object_def
      associateObjectWithWorkspace_def objectVisibleToWorkspace_def map_le_def row_exists_def is_ws_obj_def
      split: option.splits sum.splits prod.splits if_splits)

lemma object_put_sessions: "t_sessions (sv_db (snd (object_put cfg px now r sess sv))) = t_sessions (sv_db sv)"
  by (auto simp: object_put_def Let_def Put_def upsert_object_def associateObjectWithWorkspace_def
      split: option.splits sum.splits prod.splits if_splits)

lemma object_get_sessions: "t_sessions (sv_db (snd (object_get now r sess sv))) = t_sessions (sv_db sv)"
  by (auto simp: object_get_def Let_def Get_def AddTransferredBytes_def split: option.splits sum.splits prod.splits if_splits)

lemma ObjectID_valid: "hash_ok px \<Longrightarrow> ValidObjectID (ObjectID px blob)"
  unfolding ObjectID_def by (rule ValidObjectID_hash) (simp add: hash_ok_def)

lemma server_upload:
  assumes on: "online px tokens w wd" and tk: "token \<in> tokens"
    and up: "UploadObject (server_client cfg px u token) (ObjectID px blob) kind n blob wd = (None, wd')"
  shows "online px tokens w wd' \<and> stored_objects w wd \<subseteq>\<^sub>m stored_objects w wd'
    \<and> stored_objects w wd' (ObjectID px blob) \<noteq> None"
proof -
  let ?oid = "ObjectID px blob"
  let ?r = "(object_request (server_client cfg px u token) ''PUT'' ?oid)
      \<lparr>hr_ObjectKind := kind, hr_PlainSize := FormatInt n, hr_Body := blob\<rparr>"
  have valid: "ValidObjectID ?oid" using on by (auto simp: online_def intro: ObjectID_valid)
  have hd: "Handler cfg px now random ?r ReqNone sv = withSession (object_put cfg px now ?r) px now ?r sv" for now random sv
    using Handler_objects [of ?r ?oid] by (simp add: handleObjects_def object_request_path)
  have inv: "system_inv px (snd (withSession (object_put cfg px now ?r) px now ?r (wd_server wd)))" for now
    using on by (intro withSession_inv object_put_inv) (auto simp: online_def)
  obtain now sess sv1 where sv: "serve cfg px ?r ReqNone wd = (fst (object_put cfg px now ?r sess sv1),
      \<lparr>wd_server = snd (object_put cfg px now ?r sess sv1), wd_clock = (\<lambda>n. wd_clock wd (Suc n))\<rparr>)"
    and sess: "se_WorkspaceID sess = w" "same_log (sv_db (wd_server wd)) (sv_db sv1)" "sv_files sv1 = sv_files (wd_server wd)"
    and on': "online px tokens w (snd (serve cfg px ?r ReqNone wd))"
    by (rule server_request [where handler = "\<lambda>now. object_put cfg px now ?r" and b = ReqNone, OF on tk _ _ hd inv object_put_sessions])
      simp_all
  obtain resp sv2 where put: "object_put cfg px now ?r sess sv1 = (resp, sv2)" by fastforce
  have wd': "wd' = snd (serve cfg px ?r ReqNone wd)" and ok: "fst resp = 200 \<or> fst resp = 201"
    using up by (auto simp: UploadObject_def http_do_server sv put split: if_splits)
  have pb: "path_base (hr_Path ?r) = ?oid" using valid by simp
  note acc = object_put_accepted [OF put ok, unfolded pb sess(1)]
  have sv2: "wd_server wd' = sv2" by (simp add: wd' sv put)
  have "stored_objects w wd' oid = Some b" if "stored_objects w wd oid = Some b" for oid b
  proof -
    have "ValidObjectID oid" "objectVisibleToWorkspace w oid (sv_db sv1)" "sv_files sv1 (relStorePath oid) = Some b"
      using that sess(2,3) by (auto simp: stored_objects_def same_log_visible split: if_splits)
    then show ?thesis using acc by (auto simp: stored_objects_def sv2 map_le_def dom_def)
  qed
  then have "stored_objects w wd \<subseteq>\<^sub>m stored_objects w wd'" by (auto simp: map_le_def)
  moreover have "stored_objects w wd' ?oid \<noteq> None" using acc valid by (simp add: stored_objects_def sv2)
  ultimately show ?thesis using on' wd' by simp
qed

lemma server_download:
  assumes on: "online px tokens w wd" and tk: "token \<in> tokens" and st: "stored_objects w wd oid = Some blob"
    and max: "0 < maxBytes" "int (length blob) \<le> maxBytes"
  shows "\<exists>wd'. DownloadObjectTo (server_client cfg px u token) oid maxBytes [] wd = (((int (length blob), None), blob), wd')
    \<and> online px tokens w wd' \<and> stored_objects w wd' = stored_objects w wd"
proof -
  let ?r = "object_request (server_client cfg px u token) ''GET'' oid"
  have valid: "ValidObjectID oid" and vis: "objectVisibleToWorkspace w oid (sv_db (wd_server wd))"
    and body: "sv_files (wd_server wd) (relStorePath oid) = Some blob"
    using st by (auto simp: stored_objects_def split: if_splits)
  have hd: "Handler cfg px now random ?r ReqNone sv = withSession (object_get now ?r) px now ?r sv" for now random sv
    using Handler_objects [of ?r oid] by (simp add: handleObjects_def object_request_path)
  have inv: "system_inv px (snd (withSession (object_get now ?r) px now ?r (wd_server wd)))" for now
    using on by (intro withSession_inv object_get_inv) (auto simp: online_def)
  obtain now sess sv1 where sv: "serve cfg px ?r ReqNone wd = (fst (object_get now ?r sess sv1),
      \<lparr>wd_server = snd (object_get now ?r sess sv1), wd_clock = (\<lambda>n. wd_clock wd (Suc n))\<rparr>)"
    and sess: "se_WorkspaceID sess = w" "same_log (sv_db (wd_server wd)) (sv_db sv1)" "sv_files sv1 = sv_files (wd_server wd)"
    and on': "online px tokens w (snd (serve cfg px ?r ReqNone wd))"
    by (rule server_request [where handler = "\<lambda>now. object_get now ?r" and b = ReqNone, OF on tk _ _ hd inv object_get_sessions])
      simp_all
  have pb: "path_base (hr_Path ?r) = oid" using valid by simp
  have get: "fst (object_get now ?r sess sv1) = (200, BodyBytes blob)"
    and same: "sv_files (snd (object_get now ?r sess sv1)) = sv_files sv1"
      "objectVisibleToWorkspace v x (sv_db (snd (object_get now ?r sess sv1))) = objectVisibleToWorkspace v x (sv_db sv1)" for v x
    using valid vis body sess
    by (simp_all add: object_get_def pb Let_def Get_def same_log_visible AddTransferredBytes_def objectVisibleToWorkspace_def same_log_def)
  let ?wd' = "snd (serve cfg px ?r ReqNone wd)"
  have "stored_objects w ?wd' = stored_objects w wd"
    using sess by (intro ext) (simp add: stored_objects_def sv same same_log_visible)
  moreover have "DownloadObjectTo (server_client cfg px u token) oid maxBytes [] wd = (((int (length blob), None), blob), ?wd')"
    using max by (simp add: DownloadObjectTo_def http_do_server sv get body_bytes_def Let_def)
  ultimately show ?thesis using on' by blast
qed

text \<open>One device uploads with one token, another downloads with its own.\<close>

interpretation server_blobs: blob_store px "UploadObject (server_client cfg px u token)" "server_client cfg px u' token'"
    "stored_objects w" "\<lambda>wd. online px {token, token'} w wd" for px cfg u u' token token' w
proof
  show "online px {token, token'} w s' \<and> stored_objects w s \<subseteq>\<^sub>m stored_objects w s' \<and> stored_objects w s' (ObjectID px blob) \<noteq> None"
    if "online px {token, token'} w s" "UploadObject (server_client cfg px u token) (ObjectID px blob) kind n blob s = (None, s')"
    for s kind n blob s' using server_upload [OF that(1) _ that(2)] by simp
  show "\<exists>s'. DownloadObjectTo (server_client cfg px u' token') oid maxBytes [] s = (((int (length blob), None), blob), s')
      \<and> online px {token, token'} w s' \<and> stored_objects w s' = stored_objects w s"
    if "online px {token, token'} w s" "stored_objects w s oid = Some blob" "0 < maxBytes" "int (length blob) \<le> maxBytes"
    for s oid blob maxBytes using server_download [OF that(1) _ that(2-4)] by simp
  show "ObjectID px blob = oid" if "online px {token, token'} w s" "stored_objects w s oid = Some blob" for s oid blob
    using that
    by (auto simp: online_def system_inv_def store_inv_def content_ok_def stored_objects_def ObjectID_def split: if_splits)
qed

section \<open>A file put that finds its content\<close>

lemma replace_file_fetched:
  assumes "copy_chunks env c (cr_RootID root) pathID 0 (fp_Chunks payload) 0 ([], []) s
      = ((Inr (fp_SizeBytes payload), content, content), s2)"
    and "hex_encode (px_sha256 (ae_px env) content) = fp_ContentSHA256 payload"
    and "cr_Kind root = RootKindDir \<or> cr_Kind root = RootKindFile"
    and "replace_file pre env c root pathID target payload fs s = (r, fs', s')"
  shows "r = None \<and> fs_data fs' target = Some content \<or> (\<exists>e. r = Some (PathFailed e)) \<or> (\<exists>e. r = Some (OsFailed e))"
proof (cases r)
  case None
  let ?tmp = "temp_name (Dir target) pre (ae_random env)"
  obtain fs1 fs3 where "Rename (ae_faults env) ?tmp target (WriteFile ?tmp content fs1) = Some fs3"
    "fs' = set_attributes target (fp_Mode payload) (fp_MTimeNS payload) fs3"
    using assms(1,2,4) None
    by (auto simp: replace_file_def Let_def split: option.splits if_splits)
  with Rename_Some(1) have "fs_data fs' target = Some content" by (fastforce simp: WriteFile_def)
  then show ?thesis using None by simp
next
  case (Some e)
  have rej: "rejectSymlinkParents root target x = Some y \<Longrightarrow> \<exists>z. y = PathFailed z" for x y
    using assms(3) by (auto simp: rejectSymlinkParents_def)
  show ?thesis
    using assms(1,2,4) Some rej
    by (auto simp: replace_file_def Let_def split: option.splits if_splits)
qed

end
