(* ===== verification/FeedServer.thy ===== *)
theory FeedServer
  imports EventFeed FileTransfer ServerGuarantees
begin

text \<open>
  The server as an event feed: while it stands still, what the handlers of
  \<^verbatim>\<open>internal/server/api\<close> answer to a client's reading requests are pages of one log.
\<close>

definition same_feed :: "server_db \<Rightarrow> server_db \<Rightarrow> bool" where
  "same_feed s s' \<longleftrightarrow> t_workspaces s' = t_workspaces s \<and> t_events s' = t_events s
     \<and> t_event_refs s' = t_event_refs s \<and> t_roots s' = t_roots s"

text \<open>The log of a workspace as a client sees it.\<close>

definition server_log :: "string \<Rightarrow> server_db \<Rightarrow> EventRecord list" where
  "server_log w s = map (record_of_row s) (filter (\<lambda>e. ev_ws e = w \<and> ev_seq e \<le> cur_seq s w) (t_events s))"

text \<open>A server that shows the tables of \<open>s0\<close> to the holder of a token, if it knows the token at all.\<close>

definition standing :: "primitives \<Rightarrow> string \<Rightarrow> string \<Rightarrow> server_db \<Rightarrow> world \<Rightarrow> bool" where
  "standing px token w s0 wd \<longleftrightarrow> db_inv s0 \<and> same_feed s0 (sv_db (wd_server wd))
     \<and> (\<forall>r. List.find (is_token (px_sha256 px token)) (t_sessions (sv_db (wd_server wd))) = Some r \<longrightarrow> sn_ws r = w)"

lemma same_feed_simps:
  assumes "same_feed s s'"
  shows "FetchEvents w a l s' = FetchEvents w a l s" and "ActiveRoots w s' = ActiveRoots w s"
    and "CurrentSeq w s' = CurrentSeq w s"
  using assms FetchEvents_same_tables [of s' s w a l]
  by (simp_all add: same_feed_def ActiveRoots_def CurrentSeq_def)

lemma same_feed_trans: "same_feed s1 s2 \<Longrightarrow> same_feed s2 s3 \<Longrightarrow> same_feed s1 s3"
  by (simp add: same_feed_def)

text \<open>Authentication changes the last use of a session and nothing else.\<close>

lemma session_standing:
  assumes "standing px token w s0 wd" and "hr_Authorization r = [] \<or> hr_Authorization r = ''Bearer '' @ token"
    and "sessionFromRequest px now r (sv_db (wd_server wd)) = (sess, s)"
  shows "same_feed s0 s" and "\<And>x. sess = Some x \<Longrightarrow> se_WorkspaceID x = w"
    and "\<forall>x. List.find (is_token (px_sha256 px token)) (t_sessions s) = Some x \<longrightarrow> sn_ws x = w"
proof -
  let ?s = "sv_db (wd_server wd)" and ?p = "is_token (px_sha256 px token)"
  have known: "\<forall>x. List.find ?p (t_sessions ?s) = Some x \<longrightarrow> sn_ws x = w" and sf: "same_feed s0 ?s"
    using assms(1) by (simp_all add: standing_def)
  have "same_feed s0 s \<and> (\<forall>x. sess = Some x \<longrightarrow> se_WorkspaceID x = w) \<and> (\<forall>x. List.find ?p (t_sessions s) = Some x \<longrightarrow> sn_ws x = w)"
  proof (cases "s = ?s")
    case True
    then show ?thesis
      using assms(2,3) known sf
      by (auto simp: sessionFromRequest_def Authenticate_def Let_def split: if_splits option.splits sum.splits prod.splits)
  next
    case False
    then obtain row where row: "List.find ?p (t_sessions ?s) = Some row"
      and s: "s = ?s\<lparr>t_sessions := update_where ?p (\<lambda>r. r\<lparr>sn_last_used := now\<rparr>) (t_sessions ?s)\<rparr>"
      and se: "sess = Some \<lparr>se_WorkspaceID = sn_ws row, se_DeviceID = sn_device row, se_ExpiresAt = sn_expires_at row\<rparr>"
      using assms(2,3)
      by (auto simp: sessionFromRequest_def Authenticate_def Let_def split: if_splits option.splits sum.splits prod.splits)
    have "List.find ?p (t_sessions s) = Some (if ?p row then row\<lparr>sn_last_used := now\<rparr> else row)"
      using row by (simp add: s find_update_where is_token_def)
    moreover have "same_feed ?s s" by (simp add: same_feed_def s)
    ultimately show ?thesis using known row se sf by (auto intro: same_feed_trans)
  qed
  then show "same_feed s0 s" and "\<And>x. sess = Some x \<Longrightarrow> se_WorkspaceID x = w"
    and "\<forall>x. List.find ?p (t_sessions s) = Some x \<longrightarrow> sn_ws x = w" by auto
qed

text \<open>One reading request.\<close>

lemma serve_standing:
  assumes st: "standing px token w s0 wd" and au: "hr_Authorization r = [] \<or> hr_Authorization r = ''Bearer '' @ token"
    and h: "\<And>now random sv. Handler cfg px now random r b sv = withSession (handler now) px now r sv"
    and reads: "\<And>now sess sv. same_feed (sv_db sv) (sv_db (snd (handler now sess sv)))
      \<and> t_sessions (sv_db (snd (handler now sess sv))) = t_sessions (sv_db sv)"
  shows "standing px token w s0 (snd (serve cfg px r b wd))"
    and "fst (serve cfg px r b wd) = unauthorized \<or>
      (\<exists>now sess sv. se_WorkspaceID sess = w \<and> same_feed s0 (sv_db sv) \<and> fst (serve cfg px r b wd) = fst (handler now sess sv))"
proof -
  obtain now random where clk: "wd_clock wd 0 = (now, random)" by fastforce
  obtain sess s where se: "sessionFromRequest px now r (sv_db (wd_server wd)) = (sess, s)" by fastforce
  note ss = session_standing [OF st au se]
  have run: "serve cfg px r b wd = (let (resp, sv) = (case sess of None \<Rightarrow> (unauthorized, (wd_server wd)\<lparr>sv_db := s\<rparr>)
      | Some x \<Rightarrow> handler now x ((wd_server wd)\<lparr>sv_db := s\<rparr>))
      in (resp, \<lparr>wd_server = sv, wd_clock = (\<lambda>n. wd_clock wd (Suc n))\<rparr>))"
    by (simp add: serve_def clk h withSession_def se Let_def)
  have db: "db_inv s0" using st by (simp add: standing_def)
  show "standing px token w s0 (snd (serve cfg px r b wd))"
  proof (cases sess)
    case (Some x)
    then show ?thesis
      using reads [of "(wd_server wd)\<lparr>sv_db := s\<rparr>" now x] ss(1,3) db
      by (auto simp: run standing_def Let_def case_prod_unfold intro: same_feed_trans)
  qed (use ss db in \<open>simp add: run standing_def\<close>)
  show "fst (serve cfg px r b wd) = unauthorized \<or>
      (\<exists>now sess sv. se_WorkspaceID sess = w \<and> same_feed s0 (sv_db sv) \<and> fst (serve cfg px r b wd) = fst (handler now sess sv))"
  proof (cases sess)
    case (Some x)
    then have "fst (serve cfg px r b wd) = fst (handler now x ((wd_server wd)\<lparr>sv_db := s\<rparr>))"
      by (simp add: run Let_def case_prod_unfold)
    moreover have "same_feed s0 (sv_db ((wd_server wd)\<lparr>sv_db := s\<rparr>))" using ss(1) by simp
    ultimately show ?thesis using ss(2) [OF Some] by blast
  qed (simp add: run)
qed


section \<open>The three reading requests\<close>

lemma json_request_sel [simp]:
  "hr_Method (json_request c m p) = m" "hr_Path (json_request c m p) = p"
  "hr_Authorization (json_request c m p) = auth_header c" "hr_AfterSeq (json_request c m p) = []"
  by (simp_all add: json_request_def)

lemma auth_header_server: "auth_header (server_client cfg px u token) = [] \<or> auth_header (server_client cfg px u token) = ''Bearer '' @ token"
  by (simp add: auth_header_def)

lemma doJSONRaw_server:
  "doJSONRaw (server_client cfg px u token) r b decode wd
    = (let resp = fst (serve cfg px r b wd) in
       (if fst resp \<ge> 400 then Inl (HTTPError (fst resp) (eb_Code (error_body (snd resp))) (eb_Message (error_body (snd resp))), error_body (snd resp))
        else case decode (snd resp) of None \<Rightarrow> Inl (Failed ''invalid JSON body'', zero_error) | Some x \<Rightarrow> Inr x,
        snd (serve cfg px r b wd)))"
  by (simp add: doJSONRaw_def http_do_server case_prod_unfold Let_def split: option.split)

lemma doJSON_server:
  "doJSON (server_client cfg px u token) r b decode wd
    = (let resp = fst (serve cfg px r b wd) in
       (if fst resp \<ge> 400 then Inl (HTTPError (fst resp) (eb_Code (error_body (snd resp))) (eb_Message (error_body (snd resp))))
        else case decode (snd resp) of None \<Rightarrow> Inl (Failed ''invalid JSON body'') | Some x \<Rightarrow> Inr x,
        snd (serve cfg px r b wd)))"
  by (simp add: doJSON_def doJSONRaw_server Let_def split: option.split)

lemma unauthorized_sel [simp]: "fst unauthorized = 401" "error_body (snd unauthorized) = zero_error\<lparr>eb_Code := ''unauthorized''\<rparr>"
  by (simp_all add: unauthorized_def writeError_def error_body_def zero_error_def)

lemma fetch_standing:
  fixes cfg px u token q n
  defines "req \<equiv> (json_request (server_client cfg px u token) ''GET'' ''/v1/events'')
      \<lparr>hr_AfterSeq := FormatInt q, hr_Limit := FormatInt n\<rparr>"
  assumes st: "standing px token w s0 wd"
    and run: "cn_FetchEvents (server_client cfg px u token) q n wd = (a, wd')"
  shows "standing px token w s0 wd'"
    and "\<exists>resp. (resp = unauthorized \<or> (\<exists>sess. se_WorkspaceID sess = w \<and> resp = handleEventFetch cfg req sess s0))
      \<and> a = (if fst resp \<ge> 400 then Inl (HTTPError (fst resp) (eb_Code (error_body (snd resp))) (eb_Message (error_body (snd resp))), error_body (snd resp))
        else case snd resp of BodyEvents x \<Rightarrow> Inr x | _ \<Rightarrow> Inl (Failed ''invalid JSON body'', zero_error))"
proof -
  let ?h = "\<lambda>now. handleEvents cfg now req None"
  have h: "Handler cfg px now random req ReqNone sv = withSession (?h now) px now req sv" for now random sv
    by (simp add: Handler_def req_def Let_def)
  have m: "handleEvents cfg now req None sess sv = (handleEventFetch cfg req sess (sv_db sv), sv)" for now sess sv
    by (simp add: handleEvents_def req_def)
  have au: "hr_Authorization req = [] \<or> hr_Authorization req = ''Bearer '' @ token"
    using auth_header_server [of cfg px u token] by (simp add: req_def)
  note s = serve_standing [OF st au h, unfolded m, simplified fst_conv snd_conv]
  have wd': "wd' = snd (serve cfg px req ReqNone wd)"
    using run by (simp add: cn_FetchEvents_def doJSONRaw_server Let_def req_def)
  show "standing px token w s0 wd'" unfolding wd' by (rule s(1)) (simp add: same_feed_def)
  have "fst (serve cfg px req ReqNone wd) = unauthorized
      \<or> (\<exists>sess. se_WorkspaceID sess = w \<and> fst (serve cfg px req ReqNone wd) = handleEventFetch cfg req sess s0)"
  proof -
    have "handleEventFetch cfg req sess s' = handleEventFetch cfg req sess s0" if "same_feed s0 s'" for sess s'
      using same_feed_simps(1) [OF that] by (simp add: handleEventFetch_def split: option.split)
    moreover have "same_feed s s" for s by (simp add: same_feed_def)
    ultimately show ?thesis using s(2) by metis
  qed
  moreover have "a = (let resp = fst (serve cfg px req ReqNone wd) in
      if fst resp \<ge> 400 then Inl (HTTPError (fst resp) (eb_Code (error_body (snd resp))) (eb_Message (error_body (snd resp))), error_body (snd resp))
      else case snd resp of BodyEvents x \<Rightarrow> Inr x | _ \<Rightarrow> Inl (Failed ''invalid JSON body'', zero_error))"
    using run by (auto simp: cn_FetchEvents_def doJSONRaw_server Let_def req_def split: body.splits)
  ultimately show "\<exists>resp. (resp = unauthorized \<or> (\<exists>sess. se_WorkspaceID sess = w \<and> resp = handleEventFetch cfg req sess s0))
      \<and> a = (if fst resp \<ge> 400 then Inl (HTTPError (fst resp) (eb_Code (error_body (snd resp))) (eb_Message (error_body (snd resp))), error_body (snd resp))
        else case snd resp of BodyEvents x \<Rightarrow> Inr x | _ \<Rightarrow> Inl (Failed ''invalid JSON body'', zero_error))"
    unfolding Let_def by blast
qed

lemma ParseInt64_FormatInt_D: "ParseInt64 (FormatInt i) = Some j \<Longrightarrow> j = i"
proof (cases "i < 0")
  case True
  then show "ParseInt64 (FormatInt i) = Some j \<Longrightarrow> j = i"
    by (simp add: ParseInt64_def FormatInt_def digits_value_show Let_def split: if_splits)
next
  case False
  obtain c cs where c: "show_nat (nat i) = c # cs" by (cases "show_nat (nat i)") simp_all
  with show_nat_hd [of "nat i"] have "c \<noteq> CHR ''-''" "c \<noteq> CHR ''+''" by simp_all
  with False c digits_value_show [of "nat i"] show "ParseInt64 (FormatInt i) = Some j \<Longrightarrow> j = i"
    by (simp add: ParseInt64_def FormatInt_def Let_def split: if_splits)
qed

lemma FormatInt_nonempty [simp]: "FormatInt i \<noteq> []"
  by (cases "show_nat (nat i)") (simp_all add: FormatInt_def)

lemma parse_page_query:
  assumes "parseEventFetchQuery cfg (r\<lparr>hr_AfterSeq := FormatInt q, hr_Limit := FormatInt n\<rparr>) = Some (a, l)"
  shows "a = q" and "0 < l"
  using assms
  by (auto simp: parseEventFetchQuery_def dest!: ParseInt64_FormatInt_D split: option.splits if_splits)

lemma handleEventFetch_page:
  assumes "snd (handleEventFetch cfg r sess s) = BodyEvents resp"
  obtains a l where "parseEventFetchQuery cfg r = Some (a, l)"
    and "FetchEvents (se_WorkspaceID sess) a (nat l) s = Inr (fr_Events resp, fr_CurrentSeq resp)"
  using assms
  by (auto simp: handleEventFetch_def writeError_def split: option.splits sum.splits prod.splits db_error.splits)

lemma handleEventFetch_resync:
  assumes "eb_Code (error_body (snd (handleEventFetch cfg r sess s))) = ''resync_required''"
  obtains a l f where "parseEventFetchQuery cfg r = Some (a, l)"
    and "FetchEvents (se_WorkspaceID sess) a (nat l) s = Inl (ResyncRequired f)"
  using assms
  by (auto simp: handleEventFetch_def writeError_def error_body_def zero_error_def
      split: option.splits sum.splits prod.splits db_error.splits)

lemma page_of_log:
  assumes "db_inv s" and "FetchEvents w q l s = Inr (evs, cur)"
  shows "cur = cur_seq s w \<and> evs = take l (events_after q (server_log w s))"
proof -
  obtain x where x: "List.find (is_ws w) (t_workspaces s) = Some x"
    and f: "cur = ws_current_seq x" "evs = map (record_of_row s) (select_events w q cur l s)"
    using assms(2) by (auto simp: FetchEvents_def split: option.splits if_splits)
  have cur: "cur = cur_seq s w" using x f(1) by (simp add: cur_seq_def)
  let ?P = "\<lambda>e. ev_ws e = w \<and> ev_seq e > q \<and> ev_seq e \<le> cur"
  have "sorted (map ev_seq (t_events s))"
    using assms(1) by (simp add: db_inv_def server_inv_def log_inv_def strict_sorted_iff)
  then have "sorted (map ev_seq (filter ?P (t_events s)))" by (rule sorted_key_filter)
  then have "sort_key ev_seq (filter ?P (t_events s)) = filter ?P (t_events s)" by (rule sort_key_id_if_sorted)
  moreover have "events_after q (server_log w s) = map (record_of_row s) (filter ?P (t_events s))"
    by (simp add: events_after_def server_log_def filter_map comp_def record_of_row_def cur conj_commute conj_left_commute)
  ultimately show ?thesis using cur f(2) by (simp add: select_events_def take_map)
qed

lemma server_log_ascending:
  assumes "db_inv s"
  shows "sorted_wrt (<) (map er_Seq (server_log w s))" and "e \<in> set (server_log w s) \<Longrightarrow> er_Seq e \<le> cur_seq s w"
proof -
  have "sorted_wrt (<) (map ev_seq (t_events s))"
    using assms by (simp add: db_inv_def server_inv_def log_inv_def)
  then have "sorted_wrt (<) (map ev_seq (filter P (t_events s)))" for P
    by (simp add: sorted_wrt_map sorted_wrt_filter)
  then show "sorted_wrt (<) (map er_Seq (server_log w s))"
    by (simp add: server_log_def comp_def record_of_row_def)
  show "e \<in> set (server_log w s) \<Longrightarrow> er_Seq e \<le> cur_seq s w"
    by (auto simp: server_log_def record_of_row_def)
qed

lemma server_log_length:
  "length (events_after q (server_log w s)) \<le> length (server_log w s)"
  "length (server_log w s) \<le> length (t_events s)"
  unfolding events_after_def by (rule length_filter_le) (simp add: server_log_def)

lemma bootstrap_standing:
  assumes st: "standing px token w s0 wd" and run: "cn_Bootstrap (server_client cfg px u token) wd = (a, wd')"
  shows "standing px token w s0 wd'"
    and "a = Inr resp \<Longrightarrow> \<exists>x. List.find (is_ws w) (t_workspaces s0) = Some x
      \<and> bs_BootstrapAfterSeq resp = bootstrap_after (ws_current_seq x) (ActiveRoots w s0)"
proof -
  let ?req = "json_request (server_client cfg px u token) ''GET'' ''/v1/bootstrap''"
  let ?h = "\<lambda>now sess sv. (handleBootstrap ?req sess (sv_db sv) (sv_db sv), sv)"
  have h: "Handler cfg px now random ?req ReqNone sv = withSession (?h now) px now ?req sv" for now random sv
    by (simp add: Handler_def Let_def)
  have au: "hr_Authorization ?req = [] \<or> hr_Authorization ?req = ''Bearer '' @ token"
    using auth_header_server [of cfg px u token] by simp
  have refl: "same_feed s s" for s by (simp add: same_feed_def)
  note s = serve_standing [OF st au h, simplified snd_conv fst_conv]
  obtain resp0 wd0 where sv: "serve cfg px ?req ReqNone wd = (resp0, wd0)" by fastforce
  have a: "a = (if fst resp0 \<ge> 400 then Inl (HTTPError (fst resp0) (eb_Code (error_body (snd resp0))) (eb_Message (error_body (snd resp0))))
      else case (case snd resp0 of BodyBootstrap x \<Rightarrow> Some x | _ \<Rightarrow> None) of None \<Rightarrow> Inl (Failed ''invalid JSON body'') | Some x \<Rightarrow> Inr x)"
    and wd': "wd' = wd0"
    using run by (simp_all add: cn_Bootstrap_def doJSON_server sv Let_def)
  show "standing px token w s0 wd'" using s(1) refl by (simp add: wd' sv)
  assume ok: "a = Inr resp"
  then have r0: "\<not> 400 \<le> fst resp0" "snd resp0 = BodyBootstrap resp"
    using a by (auto split: if_splits option.splits body.splits)
  then have "resp0 \<noteq> unauthorized" by auto
  then obtain sess and sv :: server where r: "se_WorkspaceID sess = w" "same_feed s0 (sv_db sv)"
      "resp0 = handleBootstrap ?req sess (sv_db sv) (sv_db sv)"
    using s(2) refl by (simp add: sv) blast
  then show "\<exists>x. List.find (is_ws w) (t_workspaces s0) = Some x
      \<and> bs_BootstrapAfterSeq resp = bootstrap_after (ws_current_seq x) (ActiveRoots w s0)"
    using r0(2) same_feed_simps(2,3) [OF r(2)]
    by (auto simp: handleBootstrap_def CurrentSeq_def bootstrap_response_def writeError_def split: option.splits)
qed

lemma download_standing:
  assumes st: "standing px token w s0 wd"
  shows "standing px token w s0 (snd (DownloadObjectTo (server_client cfg px u token) oid n dst wd))"
proof (cases "n \<le> 0")
  case True
  then show ?thesis using st by (simp add: DownloadObjectTo_def)
next
  case False
  let ?req = "object_request (server_client cfg px u token) ''GET'' oid"
  have h: "Handler cfg px now random ?req ReqNone sv = withSession (object_get now ?req) px now ?req sv" for now random sv
    using Handler_objects [of ?req oid] by (simp add: handleObjects_def object_request_path)
  have reads: "same_feed (sv_db sv) (sv_db (snd (object_get now ?req sess sv)))
      \<and> t_sessions (sv_db (snd (object_get now ?req sess sv))) = t_sessions (sv_db sv)" for now sess sv
    by (auto simp: same_feed_def object_get_def Let_def Get_def AddTransferredBytes_def
        split: option.split sum.split prod.split)
  have "standing px token w s0 (snd (serve cfg px ?req ReqNone wd))"
    by (rule serve_standing(1) [OF st _ h reads]) simp
  moreover have "snd (DownloadObjectTo (server_client cfg px u token) oid n dst wd) = snd (serve cfg px ?req ReqNone wd)"
    using False by (simp add: DownloadObjectTo_def http_do_server case_prod_unfold Let_def)
  ultimately show ?thesis by simp
qed

section \<open>The server keeps the contract\<close>

interpretation server_feed: event_feed "server_client cfg px u token" "standing px token w s0" "server_log w s0"
    "cur_seq s0 w" "\<lambda>q. floor_seq s0 w \<le> q" for cfg px u token w s0
proof
  let ?c = "server_client cfg px u token" and ?I = "standing px token w s0"
  have db: "db_inv s0" if "?I s" for s using that by (simp add: standing_def)
  show "?I (snd (cn_FetchEvents ?c q n s))" if "?I s" for s q n
    using fetch_standing(1) [OF that] by (metis prod.collapse)
  show "?I (snd (cn_Bootstrap ?c s))" if "?I s" for s
    using bootstrap_standing(1) [OF that] by (metis prod.collapse)
  show "downloads_keep ?I ?c" using download_standing by (simp add: downloads_keep_def)
  show "sorted_wrt (<) (map er_Seq (server_log w s0))" if "?I s" for s
    by (rule server_log_ascending(1) [OF db [OF that]])
  show "er_Seq e \<le> cur_seq s0 w" if "?I s" "e \<in> set (server_log w s0)" for s e
    by (rule server_log_ascending(2) [OF db [OF that(1)] that(2)])
  show "floor_seq s0 w \<le> q'" if "floor_seq s0 w \<le> q" "q \<le> q'" for q q' using that by simp
  show "floor_seq s0 w \<le> bs_BootstrapAfterSeq resp" if pre: "?I s" "cn_Bootstrap ?c s = (Inr resp, s')" for s resp s'
  proof -
    obtain x where "List.find (is_ws w) (t_workspaces s0) = Some x"
      "bs_BootstrapAfterSeq resp = bootstrap_after (ws_current_seq x) (ActiveRoots w s0)"
      using bootstrap_standing(2) [OF pre refl] by blast
    with bootstrap_after_floor [OF db [OF pre(1)] this(1)] show ?thesis by (simp add: floor_seq_def)
  qed
  show "fr_CurrentSeq resp = cur_seq s0 w \<and> (\<exists>k>0. fr_Events resp = take k (events_after q (server_log w s0)))"
    if pre: "?I s" "cn_FetchEvents ?c q n s = (Inr resp, s')" for s q n resp s'
  proof -
    obtain r where r: "r = unauthorized \<or> (\<exists>sess. se_WorkspaceID sess = w
          \<and> r = handleEventFetch cfg ((json_request ?c ''GET'' ''/v1/events'')\<lparr>hr_AfterSeq := FormatInt q, hr_Limit := FormatInt n\<rparr>) sess s0)"
      and eq: "Inr resp = (if fst r \<ge> 400 then Inl (HTTPError (fst r) (eb_Code (error_body (snd r))) (eb_Message (error_body (snd r))), error_body (snd r))
          else case snd r of BodyEvents x \<Rightarrow> Inr x | _ \<Rightarrow> Inl (Failed ''invalid JSON body'', zero_error))"
      using fetch_standing(2) [OF pre] by blast
    have a: "\<not> 400 \<le> fst r" "snd r = BodyEvents resp" using eq by (auto split: if_splits body.splits)
    from r a obtain sess where w: "se_WorkspaceID sess = w"
      and body: "snd (handleEventFetch cfg ((json_request ?c ''GET'' ''/v1/events'')\<lparr>hr_AfterSeq := FormatInt q, hr_Limit := FormatInt n\<rparr>) sess s0) = BodyEvents resp"
      by auto
    from body obtain k l where kl: "parseEventFetchQuery cfg ((json_request ?c ''GET'' ''/v1/events'')\<lparr>hr_AfterSeq := FormatInt q, hr_Limit := FormatInt n\<rparr>) = Some (k, l)"
      "FetchEvents w k (nat l) s0 = Inr (fr_Events resp, fr_CurrentSeq resp)"
      unfolding w [symmetric] by (rule handleEventFetch_page)
    note kl(2) [unfolded parse_page_query(1) [OF kl(1)]]
    from page_of_log [OF db [OF pre(1)] this] parse_page_query(2) [OF kl(1)] show ?thesis
      by (intro conjI exI [of _ "nat l"]) simp_all
  qed
  show "eb_Code api \<noteq> ''resync_required''"
    if pre: "?I s" "floor_seq s0 w \<le> q" "cn_FetchEvents ?c q n s = (Inl (e, api), s')" for s q n e api s'
  proof
    assume code: "eb_Code api = ''resync_required''"
    let ?req = "(json_request ?c ''GET'' ''/v1/events'')\<lparr>hr_AfterSeq := FormatInt q, hr_Limit := FormatInt n\<rparr>"
    obtain r where r: "r = unauthorized \<or> (\<exists>sess. se_WorkspaceID sess = w \<and> r = handleEventFetch cfg ?req sess s0)"
      and eq: "Inl (e, api) = (if fst r \<ge> 400 then Inl (HTTPError (fst r) (eb_Code (error_body (snd r))) (eb_Message (error_body (snd r))), error_body (snd r))
          else case snd r of BodyEvents x \<Rightarrow> Inr x | _ \<Rightarrow> Inl (Failed ''invalid JSON body'', zero_error))"
      using fetch_standing(2) [OF pre(1,3)] by blast
    have api: "api = error_body (snd r) \<or> api = zero_error" using eq by (auto split: if_splits body.splits)
    have "api = error_body (snd r)" using api code by (auto simp: zero_error_def)
    with r code obtain sess where w: "se_WorkspaceID sess = w"
      and body: "eb_Code (error_body (snd (handleEventFetch cfg ?req sess s0))) = ''resync_required''"
      by (auto simp: zero_error_def)
    from body obtain k l f where kl: "parseEventFetchQuery cfg ?req = Some (k, l)"
      "FetchEvents w k (nat l) s0 = Inl (ResyncRequired f)"
      unfolding w [symmetric] by (rule handleEventFetch_resync)
    show False
      using pre(2) kl(2) [unfolded parse_page_query(1) [OF kl(1)]]
      by (auto simp: FetchEvents_def floor_seq_def split: option.splits if_splits)
  qed
qed

end
