(* ===== verification/SnapshotCorrect.thy ===== *)
theory SnapshotCorrect
  imports CatchUp ApplierCorrect
begin

text \<open>
  What laying a snapshot over a root does to the files below it: content the
  snapshot replaces was either recorded as synchronised or is copied away first.
\<close>

lemma draw_sel [simp]:
  "fst (draw d) = dm_luck d 0" "mc_fs (snd (draw d)) = mc_fs d" "mc_db (snd (draw d)) = mc_db d" "mc_net (snd (draw d)) = mc_net d"
  by (simp_all add: draw_def)

lemma resolveSnapshotTarget_ok:
  assumes "clean_root root" and "resolveSnapshotTarget dv root raw kind = Inr (relPath, target, pathID)"
  shows "IsAbs target" and "cr_Kind root = RootKindFile \<Longrightarrow> target = cr_TargetAbsPath root"
proof -
  let ?root = "cr_TargetAbsPath root"
  have root: "IsAbs ?root" "Clean ?root = ?root" using assms(1) by (simp_all add: clean_root_def)
  show "cr_Kind root = RootKindFile \<Longrightarrow> target = ?root"
    using assms(2) root(2) by (auto simp: resolveSnapshotTarget_def split: if_splits)
  show "IsAbs target"
  proof (cases "cr_Kind root")
    case RootKindDir
    then have "ResolveRemoteTarget ?root raw True = Inr (relPath, target)"
      using assms(2) by (auto simp: resolveSnapshotTarget_def split: sum.splits if_splits)
    then have "target = (if relPath \<noteq> [] then Join [Clean ?root, relPath] else Clean ?root)"
      by (auto simp: ResolveRemoteTarget_def Let_def split: sum.splits option.splits)
    then show ?thesis using Join_abs_clean [of ?root relPath] root by simp
  qed (use assms(2) root in \<open>auto simp: resolveSnapshotTarget_def split: if_splits\<close>)
qed

section \<open>The copy\<close>

definition conflict_copy :: "'s daemon_env \<Rightarrow> Root \<Rightarrow> string \<Rightarrow> string \<Rightarrow> 's daemon \<Rightarrow> string" where
  "conflict_copy dv root relPath target d = conflict_target dv root relPath target (lu_now (dm_luck d 0))"

lemma preserve_outcome:
  assumes ok: "fs_ok (mc_fs d)" and content: "read_file (dv_link dv) target (mc_fs d) = Some content"
    and free: "fs_tree (mc_fs d) (conflict_copy dv root relPath target d) = None" and run: "preserveLocalConflictCopy dv root relPath target d = (r, d')"
  shows "(\<exists>e. r = Inl e \<and> mc_fs d' = mc_fs d)
    \<or> r = Inr (conflict_copy dv root relPath target d) \<and> fs_ok (mc_fs d')
      \<and> fs_tree (mc_fs d') (conflict_copy dv root relPath target d) = Some NodeFile
      \<and> fs_data (mc_fs d') (conflict_copy dv root relPath target d) = Some content
      \<and> (\<forall>p. p \<noteq> conflict_copy dv root relPath target d \<longrightarrow> fs_at (mc_fs d') p = fs_at (mc_fs d) p)"
proof -
  define dst where "dst = conflict_copy dv root relPath target d"
  obtain lu d1 where dr: "draw d = (lu, d1)" by fastforce
  then have lu: "lu = dm_luck d 0" "mc_fs d1 = mc_fs d" by (auto simp: draw_def)
  then have dst: "conflict_target dv root relPath target (lu_now lu) = dst" by (simp add: dst_def conflict_copy_def)
  let ?fs = "mc_fs d" and ?tmp = "temp_name (Dir target) ''.syna-conflict-'' (lu_random lu)"
  obtain r1 fs1 where cp: "copy_temp (lu_faults lu) (Dir target) ?tmp (Some content) ?fs = (r1, fs1)" by fastforce
  note cc = copy_temp_cases [OF ok cp]
  show ?thesis
  proof (cases r1)
    case (Some e)
    then have "fs1 = ?fs" using cc(1) by simp
    then show ?thesis using run Some cp content lu(2)
      by (auto simp: preserveLocalConflictCopy_def dr dst Let_def)
  next
    case None
    obtain fs0 where fs0: "CreateTemp (lu_faults lu) (Dir target) ?tmp ?fs = Some fs0" "fs1 = WriteFile ?tmp content fs0"
      using cc(2) None by auto
    note c0 = CreateTemp_Some [OF fs0(1)]
    show ?thesis
    proof (cases "Rename (lu_faults lu) ?tmp dst fs1")
      case None': None
      have "Remove ?tmp fs1 = ?fs" using Remove_CreateTemp(2) [OF ok fs0(1)] fs0(2) by simp
      then show ?thesis using run None None' cp content lu(2)
        by (auto simp: preserveLocalConflictCopy_def dr dst Let_def rename_temp_def)
    next
      case (Some fs2)
      note r2 = Rename_Some [OF Some]
      have d': "r = Inr dst" "mc_fs d' = fs2" using run None Some cp content lu(2)
        by (auto simp: preserveLocalConflictCopy_def dr dst Let_def rename_temp_def)
      have at: "fs_at fs2 dst = (Some NodeFile, Some content, None)"
        using r2(1,2) Some by (auto simp: fs_at_def fs0(2) WriteFile_def Rename_def split: if_splits)
      have tmp: "fs_at ?fs ?tmp = (None, None, None)" using c0(1) fs_ok_fresh [OF ok c0(1)] by (simp add: fs_at_def)
      have other: "fs_at fs2 p = fs_at ?fs p" if "p \<noteq> dst" for p
        using r2(4) [of p] r2(5) c0 that tmp
        by (cases "p = ?tmp") (auto simp: fs_at_def fs0(2) WriteFile_def)
      have "case fs_at fs2 p of (n, x, a) \<Rightarrow> (x \<noteq> None \<longleftrightarrow> n = Some NodeFile) \<and> (a \<noteq> None \<longrightarrow> n \<noteq> None)" for p
        using at other [of p] ok unfolding fs_ok_at by (cases "p = dst") auto
      then have "fs_ok fs2" unfolding fs_ok_at by blast
      with at other d' show ?thesis by (simp add: fs_at_def dst_def [symmetric])
    qed
  qed
qed

section \<open>Replacing a file\<close>

lemma materialize_outcome:
  assumes c: "clean_root root" and target: "IsAbs target" "cr_Kind root = RootKindFile \<Longrightarrow> target = cr_TargetAbsPath root"
    and ok: "fs_ok (mc_fs d)" and run: "materialize_file dv root pathID target entry d = (r, d')"
  shows "fs_ok (mc_fs d') \<and> (\<forall>p. p \<noteq> target \<and> fs_at (mc_fs d') p \<noteq> fs_at (mc_fs d) p \<longrightarrow>
      fs_tree (mc_fs d) p = None \<and> fs_tree (mc_fs d') p = Some NodeDir)"
proof -
  obtain e fs where e: "ensureSafeParentDirs root target (mc_fs d) = (e, fs)" by fastforce
  from ensureSafeParentDirs_frame [OF c target(1) e ok target(2)] have d: "fs_ok fs"
    and dirs: "\<And>p. fs_at fs p \<noteq> fs_at (mc_fs d) p \<Longrightarrow> fs_tree (mc_fs d) p = None \<and> fs_tree fs p = Some NodeDir"
    by (simp_all add: dirs_added_def)
  obtain lu d1 where dr: "draw d = (lu, d1)" by fastforce
  obtain r2 fs2 s2 where rf: "replace_file ''.syna-bootstrap-'' (applier_of dv lu) (dv_conn dv) root pathID target
      (payload_of_entry entry) fs (mc_net d1) = (r2, fs2, s2)" by (metis prod.collapse)
  note a = replace_file_ok [OF d rf]
  have "mc_fs d' = fs \<or> mc_fs d' = fs2"
    using run e dr rf by (auto simp: materialize_file_def split: option.splits)
  then show ?thesis
  proof
    assume "mc_fs d' = fs"
    with d dirs show ?thesis by simp
  next
    assume m: "mc_fs d' = fs2"
    have "fs_tree (mc_fs d) p = None \<and> fs_tree fs2 p = Some NodeDir"
      if "p \<noteq> target" "fs_at fs2 p \<noteq> fs_at (mc_fs d) p" for p
    proof -
      have "fs_at fs2 p = fs_at fs p" using a that(1) by blast
      with that(2) have "fs_at fs p \<noteq> fs_at (mc_fs d) p" "fs_tree fs2 p = fs_tree fs p" by (simp_all add: fs_at_def)
      with dirs [of p] show ?thesis by simp
    qed
    with a m show ?thesis by simp
  qed
qed

text \<open>
  A local edit is content whose hash is not the one recorded at the last
  synchronisation.
\<close>

definition edited :: "primitives \<Rightarrow> Entry option \<Rightarrow> bytes \<Rightarrow> bool" where
  "edited px prior content \<longleftrightarrow>
     (case prior of None \<Rightarrow> True
      | Some p \<Rightarrow> en_Deleted p \<or> en_ContentSHA256 p \<noteq> hex_encode (px_sha256 px content))"

lemma place_file_keeps:
  assumes c: "clean_root root" and target: "IsAbs target" "cr_Kind root = RootKindFile \<Longrightarrow> target = cr_TargetAbsPath root"
    and ok: "fs_ok (mc_fs d)" and content: "fs_data (mc_fs d) target = Some content"
    and ed: "edited (dv_px dv) prior content" and free: "fs_tree (mc_fs d) (conflict_copy dv root relPath target d) = None"
    and run: "place_file dv root relPath pathID target prior entry d = (r, d')"
  shows "(fs_data (mc_fs d') target = Some content \<or> fs_data (mc_fs d') (conflict_copy dv root relPath target d) = Some content)
    \<and> (\<forall>p. p \<noteq> target \<and> p \<noteq> conflict_copy dv root relPath target d \<and> fs_at (mc_fs d') p \<noteq> fs_at (mc_fs d) p \<longrightarrow>
        fs_tree (mc_fs d) p = None \<and> fs_tree (mc_fs d') p = Some NodeDir)"
proof -
  let ?h = "hex_encode (px_sha256 (dv_px dv) content)" and ?dst = "conflict_copy dv root relPath target d"
  have tree: "fs_tree (mc_fs d) target = Some NodeFile" using ok content by (auto simp: fs_ok_def)
  then have read: "read_file (dv_link dv) target (mc_fs d) = Some content"
    using content by (simp add: read_file_def)
  have hash: "fileSHA256Hex (dv_px dv) (dv_link dv) target (mc_fs d) = Inr (Some ?h)"
    by (simp add: fileSHA256Hex_def Lstat_def tree read)
  have "snapshot_decision (Some ?h) prior entry \<noteq> Replace"
    using ed by (auto simp: snapshot_decision_def edited_def Let_def split: option.splits)
  then consider "snapshot_decision (Some ?h) prior entry = Keep"
    | "snapshot_decision (Some ?h) prior entry = PreserveAndReplace"
    by (cases "snapshot_decision (Some ?h) prior entry") simp_all
  then show ?thesis
  proof cases
    case 1
    then show ?thesis using run content by (simp add: place_file_def hash)
  next
    case 2
    obtain r1 d1 where p: "preserveLocalConflictCopy dv root relPath target d = (r1, d1)" by fastforce
    from preserve_outcome [OF ok read free  p]
    consider e where "r1 = Inl e" "mc_fs d1 = mc_fs d"
      | "r1 = Inr ?dst" "fs_ok (mc_fs d1)" "fs_tree (mc_fs d1) ?dst = Some NodeFile" "fs_data (mc_fs d1) ?dst = Some content"
        "\<forall>p. p \<noteq> ?dst \<longrightarrow> fs_at (mc_fs d1) p = fs_at (mc_fs d) p"
      by blast
    then show ?thesis
    proof cases
      case 1
      with 2 show ?thesis using run p content by (simp add: place_file_def hash)
    next
      case d1: 2
      have m: "materialize_file dv root pathID target entry d1 = (r, d')"
        using run 2 p d1(1) by (simp add: place_file_def hash)
      note out = materialize_outcome [OF c target d1(2) m]
      have "?dst \<noteq> target" using free tree by auto
      then have "fs_at (mc_fs d') ?dst = fs_at (mc_fs d1) ?dst" using out d1(3) by (metis option.distinct(1))
      then have data: "fs_data (mc_fs d') ?dst = Some content" using d1(4) by (simp add: fs_at_def)
      have "fs_tree (mc_fs d) q = None \<and> fs_tree (mc_fs d') q = Some NodeDir"
        if q: "q \<noteq> target" "q \<noteq> ?dst" "fs_at (mc_fs d') q \<noteq> fs_at (mc_fs d) q" for q
      proof -
        have same: "fs_at (mc_fs d1) q = fs_at (mc_fs d) q" using d1(5) q(2) by blast
        then have "fs_tree (mc_fs d1) q = None \<and> fs_tree (mc_fs d') q = Some NodeDir"
          using out q(1,3) by simp
        with same show ?thesis by (simp add: fs_at_def)
      qed
      with data show ?thesis by blast
    qed
  qed
qed

end
