(* ===== verification/SyncClaims.thy ===== *)
theory SyncClaims
  imports FileTransfer Scenario
begin

text \<open>
  The properties of applied events and of file transfers, with their instances.
\<close>

section \<open>A device\<close>

definition demo_keys :: DerivedKeys where
  "demo_keys = \<lparr>dk_WorkspaceIDKey = [], dk_PathIDKey = [], dk_BlobKey = replicate 32 (CHR ''b''),
     dk_EventKey = replicate 32 (CHR ''e''), dk_SnapshotKey = replicate 32 (CHR ''s''), dk_AuthSeed = []\<rparr>"

definition demo_dir_put :: DirPutPayload where
  "demo_dir_put = \<lparr>dp_Path = ''a'', dp_Mode = 493, dp_MTimeNS = 7\<rparr>"

definition demo_codec :: codec where
  "demo_codec = \<lparr>js_RootAdd = (\<lambda>_. None), js_DirPut = (\<lambda>b. if b = ''D'' then Some demo_dir_put else None),
     js_FilePut = (\<lambda>_. None), js_Delete = (\<lambda>_. None), js_Snapshot = (\<lambda>_. None)\<rparr>"

definition demo_env :: applier_env where
  "demo_env = \<lparr>ae_px = demo_px, ae_keys = demo_keys, ae_WorkspaceID = demo_ws, ae_json = demo_codec,
     ae_now = 50, ae_random = ''1'', ae_faults = no_faults\<rparr>"

definition demo_root :: Root where
  "demo_root = \<lparr>cr_RootID = ''r1'', cr_Kind = RootKindDir, cr_HomeRelPath = ''docs'', cr_TargetAbsPath = ''/h/docs'',
     cr_State = RootStateActive, cr_LatestSnapshotSeq = 0, cr_LastScanAt = None\<rparr>"

definition demo_fs :: fsys where
  "demo_fs = \<lparr>fs_tree = [''/h'' \<mapsto> NodeDir, ''/h/docs'' \<mapsto> NodeDir], fs_data = Map.empty, fs_meta = Map.empty\<rparr>"

definition demo_machine :: "unit machine" where
  "demo_machine = \<lparr>mc_fs = demo_fs, mc_db = client_init, mc_net = ()\<rparr>"

definition demo_path_id :: string where
  "demo_path_id = PathID demo_px demo_keys ''r1'' ''a''"

definition demo_blob :: bytes where
  "demo_blob = char_of (1::nat) # replicate 24 (CHR ''n'') @ ''D'' @ replicate 16 (CHR ''t'')"

definition demo_event :: EventRecord where
  "demo_event = \<lparr>er_Seq = 5, er_RootID = ''r1'', er_PathID = Some demo_path_id, er_EventType = EventDirPut,
     er_BaseSeq = Some 0, er_AuthorDeviceID = ''other'', er_PayloadBlob = b64_encode demo_blob,
     er_ObjectRefs = [], er_CreatedAt = 40\<rparr>"

definition dead_client :: "unit Client" where
  "dead_client = New (\<lambda>r b s. (Inl (Failed ''offline''), s)) (\<lambda>_. -1) ''https://syna''"

definition demo_session_row :: "string \<Rightarrow> string \<Rightarrow> session_row" where
  "demo_session_row token device =
     \<lparr>sn_token_hash = px_sha256 demo_px token, sn_ws = demo_ws, sn_device = device,
      sn_issued_at = 20, sn_expires_at = 1000, sn_last_used = 20\<rparr>"

lemma demo_fs_ok: "fs_ok demo_fs" "clean_root demo_root"
  by (simp add: fs_ok_def demo_fs_def) (simp add: clean_root_def demo_root_def, code_simp)

section \<open>Applied events\<close>




definition demo_empty_file :: FilePutPayload where
  "demo_empty_file = \<lparr>fp_Path = ''a'', fp_Mode = 420, fp_MTimeNS = 9, fp_SizeBytes = 0,
     fp_ContentSHA256 = hex_encode (px_sha256 demo_px []), fp_Chunks = []\<rparr>"


section \<open>A file sent from one device to another\<close>

text \<open>
  If an upload through the server succeeds, then on any device of the workspace, at any later moment
  at which the sessions last and the objects are there, applying the resulting file put through the
  server writes exactly the uploaded content, or fails for a reason of that device's file system; it
  is never refused for its content.
\<close>

lemma uploaded_file_arrives:
  assumes "online px {token, token'} w wd"
    and "UploadFile px (UploadObject (server_client cfg px u token)) nonces (dk_BlobKey (ae_keys env)) w
           (cr_RootID root) pathID rel absPath mode mtime fs wd = (Inr res, wd')"
    and "fs_data fs absPath = Some content" and "int (length content) \<le> max_int64"
    and "aead_ok px" and "\<And>i. length (nonces i) = NonceSizeX"
    and "inj_on (ObjectID px) (ran (stored_objects w wd')
           \<union> chunk_blobs px nonces (dk_BlobKey (ae_keys env)) w (cr_RootID root) pathID content)"
    and "ae_px env = px" and "ae_WorkspaceID env = w" and "ft_write (ae_faults env) = (\<lambda>_. None)"
    and "validateFilePutTarget env root rel (er_PathID event) = Inr (rel, target, pathID)"
    and "online px {token, token'} w (mc_net m)" and "stored_objects w wd' \<subseteq>\<^sub>m stored_objects w (mc_net m)"
    and "apply_file_put env (server_client cfg px u' token') root event False (ur_Payload res) m = (r, m')"
  shows "r = None \<and> fs_data (mc_fs m') target = Some content
    \<or> (\<exists>e. r = Some (PathFailed e)) \<or> (\<exists>e. r = Some (OsFailed e))"
proof -
  note up = server_blobs.upload_then_fetch [OF assms(1,2,5,6,8) refl assms(9,10,3,7,12,13)]
  have size: "fp_SizeBytes (ur_Payload res) = int (length content)" "fp_Path (ur_Payload res) = rel"
    "fp_ContentSHA256 (ur_Payload res) = hex_encode (px_sha256 px content)"
    using up by (metis FilePutPayload.select_convs)+
  have w64: "wrap64 (int (length content)) = fp_SizeBytes (ur_Payload res)"
    unfolding size using assms(4) by (simp add: wrap64_id max_int64_def)
  from up obtain s2 where cp: "copy_chunks env (server_client cfg px u' token') (cr_RootID root) pathID 0
      (fp_Chunks (ur_Payload res)) 0 ([], []) (mc_net m) = ((Inr (fp_SizeBytes (ur_Payload res)), content, content), s2)"
    unfolding w64 by blast
  have kind: "cr_Kind root = RootKindDir \<or> cr_Kind root = RootKindFile"
    using assms(11) by (auto simp: validateFilePutTarget_def resolveContentTarget_def split: sum.splits if_splits RootKind.splits)
  obtain e fs1 where e: "ensureSafeParentDirs root target (mc_fs m) = (e, fs1)" by fastforce
  obtain r2 fs2 s3 where rf: "replace_file ''.syna-'' env (server_client cfg px u' token') root pathID target (ur_Payload res) fs1 (mc_net m) = (r2, fs2, s3)"
    by (metis prod.collapse)
  have "r2 = None \<and> fs_data fs2 target = Some content \<or> (\<exists>e. r2 = Some (PathFailed e)) \<or> (\<exists>e. r2 = Some (OsFailed e))"
    by (rule replace_file_fetched [OF cp _ kind rf]) (simp add: size assms(8))
  moreover have "e = None \<or> (\<exists>x. e = Some (PathFailed x))"
    using e kind by (auto simp: ensureSafeParentDirs_def split: prod.splits)
  ultimately show ?thesis
    using assms(11,14) e rf by (auto simp: apply_file_put_def size Let_def split: option.splits)
qed

end
