(* ===== verification/DaemonClaims.thy ===== *)
theory DaemonClaims
  imports FeedServer SnapshotCorrect SyncClaims
begin

text \<open>
  The properties of the daemon, with their instances: it follows the log to its
  end, event by event, and it keeps what the user wrote.
\<close>

section \<open>A daemon\<close>

definition demo_feed :: world where
  "demo_feed = \<lparr>wd_server = restart demo_cfg (\<lambda>_. None) (plain_db\<lparr>t_sessions := [demo_session_row ''aa'' ''d'']\<rparr>),
     wd_clock = (\<lambda>_. (60, []))\<rparr>"

definition demo_encoder :: encoder where
  "demo_encoder = \<lparr>je_RootAdd = (\<lambda>_. []), je_RootRemove = (\<lambda>_. []), je_DirPut = (\<lambda>_. []),
     je_FilePut = (\<lambda>_. []), je_Delete = (\<lambda>_. []), je_Snapshot = (\<lambda>_. [])\<rparr>"

definition demo_dv :: "world daemon_env" where
  "demo_dv = \<lparr>dv_px = demo_px, dv_json = demo_codec, dv_home = Some ''/h'', dv_keys = demo_keys,
     dv_WorkspaceID = demo_ws, dv_DeviceID = ''d'', dv_DeviceName = ''My Laptop'',
     dv_conn = server_client demo_cfg demo_px ''https://syna'' ''aa'', dv_describe = (\<lambda>_. []),
     dv_listing = (\<lambda>_. []), dv_link = (\<lambda>_ _. None), dv_stamp = (\<lambda>_. ''20260101T000000Z''),
     dv_encode = demo_encoder, dv_fresh = (\<lambda>_. (420, 0)), dv_dirsize = (\<lambda>_. 0), dv_StateDir = ''/state'',
     dv_formatTime = (\<lambda>_. ''2026-01-01T00:00:00Z''), dv_cwd = Some ''/h''\<rparr>"

definition demo_daemon :: "world daemon" where
  "demo_daemon = \<lparr>mc_fs = demo_fs, mc_db = UpsertRoot (demo_root\<lparr>cr_RootID := ''r''\<rparr>) client_init, mc_net = demo_feed,
     dm_staged = {}, dm_live = False, dm_changes = [], dm_watched = Map.empty,
     dm_luck = (\<lambda>_. \<lparr>lu_now = 50, lu_random = ''1'', lu_nonces = (\<lambda>_. []),
       lu_faults = no_faults, lu_watch = None\<rparr>)\<rparr>"

lemma demo_feed_ok: "db_inv (sv_db (wd_server demo_feed))"
proof -
  have "db_inv plain_db" using plain_server_ok by (simp add: system_inv_def plain_server_def restart_def)
  then show ?thesis by (rule db_inv_same_log [rotated]) (simp add: demo_feed_def restart_def same_log_def)
qed

lemma demo_feed_events: "length (t_events (sv_db (wd_server demo_feed))) = 1"
  by code_simp

section \<open>Following the log\<close>

text \<open>C34: Catching up ends. Against a server that nobody else writes to, a catch-up returns, whatever
  the events, descriptors, snapshots and objects contain and wherever the cursor is; the number of
  requests for pages is at most twice the length of the log, and two.\<close>

theorem catch_up_terminates:
  assumes "dv_conn dv = server_client cfg px u token" and "db_inv (sv_db (wd_server (mc_net d)))"
    and "2 * length (t_events (sv_db (wd_server (mc_net d)))) + 2 \<le> fuel"
  shows "\<exists>r d'. bootstrapOrCatchUp fuel dv d = Some (r, d')"
proof -
  let ?s = "sv_db (wd_server (mc_net d))"
  obtain w where "\<forall>r. List.find (is_token (px_sha256 px token)) (t_sessions ?s) = Some r \<longrightarrow> sn_ws r = w"
    by (cases "List.find (is_token (px_sha256 px token)) (t_sessions ?s)") auto
  then have st: "standing px token w ?s (mc_net d)" using assms(2) by (simp add: standing_def same_feed_def)
  from server_log_length(1) [of "cursor d" w ?s] server_log_length(2) [of w ?s] assms(3) have "length (events_after (cursor d) (server_log w ?s)) + length (server_log w ?s) + 1 < fuel" by linarith
  from server_feed.catch_up_ends [OF st assms(1) this] show ?thesis by blast
qed

theorem catch_up_terminates_witness: "\<exists>r d'. bootstrapOrCatchUp 4 demo_dv demo_daemon = Some (r, d')"
proof -
  have "dv_conn demo_dv = server_client demo_cfg demo_px ''https://syna'' ''aa''" by (simp add: demo_dv_def)
  moreover have net: "mc_net demo_daemon = demo_feed" by (simp add: demo_daemon_def)
  ultimately show ?thesis
    using demo_feed_ok demo_feed_events by (intro catch_up_terminates) (simp_all add: net)
qed

text \<open>C35: A catch-up consumes the log without gaps. From a cursor the server serves, what happens is
  exactly the consumption of the events after the cursor, one by one in the order of the log, with only
  requests in between; all of them if it succeeds, otherwise those before the event that failed, and
  the cursor then stands right before that event. Page boundaries make no difference.\<close>

theorem catch_up_without_gaps:
  assumes "dv_conn dv = server_client cfg px u token" and "db_inv (sv_db (wd_server (mc_net d)))"
    and "token_ok px token w now (sv_db (wd_server (mc_net d)))"
    and "floor_seq (sv_db (wd_server (mc_net d))) w \<le> cursor d"
    and "length (t_events (sv_db (wd_server (mc_net d)))) < fuel"
  shows "\<exists>r d' seen rest dm. bootstrapOrCatchUp fuel dv d = Some (r, d')
    \<and> events_after (cursor d) (server_log w (sv_db (wd_server (mc_net d)))) = seen @ rest
    \<and> (r = None \<longrightarrow> rest = []) \<and> follows dv seen d dm \<and> stops_at dv rest r dm d'
    \<and> events_after (cursor d') (server_log w (sv_db (wd_server (mc_net d)))) = rest"
proof -
  let ?s = "sv_db (wd_server (mc_net d))"
  have st: "standing px token w ?s (mc_net d)" using assms(2,3) by (auto simp: standing_def same_feed_def token_ok_def)
  from server_log_length(1) [of "cursor d" w ?s] server_log_length(2) [of w ?s] assms(5) have "length (events_after (cursor d) (server_log w ?s)) < fuel" by linarith
  from server_feed.catch_up_served [OF st assms(1,4) this] show ?thesis by metis
qed

lemma demo_token: "token_ok demo_px ''aa'' demo_ws 60 (sv_db (wd_server demo_feed))"
  by (simp add: token_ok_def demo_feed_def restart_def demo_session_row_def key_simps demo_px_def)

theorem catch_up_without_gaps_witness:
  "\<exists>r d' seen rest dm. bootstrapOrCatchUp 2 demo_dv demo_daemon = Some (r, d')
    \<and> map er_Seq (seen @ rest) = [1] \<and> follows demo_dv seen demo_daemon dm \<and> stops_at demo_dv rest r dm d'"
proof -
  have c: "dv_conn demo_dv = server_client demo_cfg demo_px ''https://syna'' ''aa''" by (simp add: demo_dv_def)
  have net: "mc_net demo_daemon = demo_feed" by (simp add: demo_daemon_def)
  have "floor_seq (sv_db (wd_server demo_feed)) demo_ws \<le> cursor demo_daemon" by code_simp
  moreover have "map er_Seq (events_after (cursor demo_daemon) (server_log demo_ws (sv_db (wd_server demo_feed)))) = [1]"
    by code_simp
  moreover have "length (t_events (sv_db (wd_server demo_feed))) < 2" using demo_feed_events by simp
  ultimately show ?thesis
    using catch_up_without_gaps [OF c, of demo_daemon demo_ws 60 2] demo_feed_ok demo_token unfolding net by metis
qed

section \<open>Local edits\<close>

text \<open>C36: A snapshot never destroys a local edit. Whatever the snapshot says and whether or not its entry
  can be carried out, a file whose content is not what was recorded at the last synchronisation keeps
  it in place, or has it in a conflict copy beside it (if that name was free); no third path changes,
  except that missing directories may appear.\<close>

theorem snapshot_keeps_local_edits:
  assumes "clean_root root" and "fs_ok (mc_fs d)"
    and "resolveSnapshotTarget dv root (sne_Path entry) (sne_Kind entry) = Inr (relPath, target, pathID)"
    and "sne_Kind entry = RootKindFile"
    and "fs_data (mc_fs d) target = Some content" and "edited (dv_px dv) (priors relPath) content"
    and "fs_tree (mc_fs d) (conflict_copy dv root relPath target d) = None"
    and "snapshot_entry dv root baseSeq stageOnly priors entry d = (r, d')"
  shows "(fs_data (mc_fs d') target = Some content \<or> fs_data (mc_fs d') (conflict_copy dv root relPath target d) = Some content)
    \<and> (\<forall>p. p \<noteq> target \<and> p \<noteq> conflict_copy dv root relPath target d \<and> fs_at (mc_fs d') p \<noteq> fs_at (mc_fs d) p \<longrightarrow>
        fs_tree (mc_fs d) p = None \<and> fs_tree (mc_fs d') p = Some NodeDir)"
proof (cases stageOnly)
  case True
  then have "d' = d" using assms(3,4,8) by (simp add: snapshot_entry_def)
  with assms(5) show ?thesis by simp
next
  case False
  obtain r1 d1 where p: "place_file dv root relPath pathID target (priors relPath) entry d = (r1, d1)" by fastforce
  then have "mc_fs d' = mc_fs d1"
    using assms(3,4,8) False by (auto simp: snapshot_entry_def split: option.splits)
  with place_file_keeps [OF assms(1) resolveSnapshotTarget_ok [OF assms(1,3)] assms(2,5,6,7) p] show ?thesis by simp
qed

definition demo_edited :: "world daemon" where
  "demo_edited = demo_daemon\<lparr>mc_fs := \<lparr>fs_tree = [''/h'' \<mapsto> NodeDir, ''/h/docs'' \<mapsto> NodeDir, ''/h/docs/a.txt'' \<mapsto> NodeFile],
     fs_data = [''/h/docs/a.txt'' \<mapsto> ''mine''], fs_meta = Map.empty\<rparr>\<rparr>"

definition demo_incoming :: SnapshotEntry where
  "demo_incoming = \<lparr>sne_Path = ''a.txt'', sne_Kind = RootKindFile, sne_Mode = 420, sne_MTimeNS = 9, sne_SizeBytes = 0,
     sne_ContentSHA256 = hex_encode (px_sha256 demo_px []), sne_Chunks = []\<rparr>"

theorem snapshot_keeps_local_edits_witness:
  "let d' = snd (snapshot_entry demo_dv demo_root 3 False Map.empty demo_incoming demo_edited) in
   fs_data (mc_fs d') ''/h/docs/a.txt'' = Some []
   \<and> fs_data (mc_fs d') ''/h/docs/a.syna-conflict-my-laptop-20260101T000000Z.txt'' = Some ''mine''"
proof -
  let ?d = "snd (snapshot_entry demo_dv demo_root 3 False Map.empty demo_incoming demo_edited)"
  have ok: "fs_ok (mc_fs demo_edited)" by (simp add: fs_ok_def demo_edited_def)
  have res: "resolveSnapshotTarget demo_dv demo_root (sne_Path demo_incoming) (sne_Kind demo_incoming)
      = Inr (''a.txt'', ''/h/docs/a.txt'', PathID demo_px demo_keys ''r1'' ''a.txt'')" by code_simp
  have "conflict_copy demo_dv demo_root ''a.txt'' ''/h/docs/a.txt'' demo_edited
      = ''/h/docs/a.syna-conflict-my-laptop-20260101T000000Z.txt''" by code_simp
  moreover have "fs_tree (mc_fs demo_edited) ''/h/docs/a.syna-conflict-my-laptop-20260101T000000Z.txt'' = None"
    by (simp add: demo_edited_def)
  moreover have "fs_data (mc_fs ?d) ''/h/docs/a.txt'' = Some []" by code_simp
  moreover have "sne_Kind demo_incoming = RootKindFile" by (simp add: demo_incoming_def)
  moreover have "fs_data (mc_fs demo_edited) ''/h/docs/a.txt'' = Some ''mine''" by (simp add: demo_edited_def)
  moreover have "edited (dv_px demo_dv) (Map.empty ''a.txt'') ''mine''" by (simp add: edited_def)
  ultimately show ?thesis
    using snapshot_keeps_local_edits [OF demo_fs_ok(2) ok res, of "''mine''" Map.empty 3 False "fst (snapshot_entry demo_dv demo_root 3 False Map.empty demo_incoming demo_edited)" ?d]
    by (simp add: Let_def)
qed

end
