(* ===== verification/Scanner.thy ===== *)
theory Scanner
  imports ConflictCopy "HOL-Library.Product_Lexorder"
begin

text \<open>
  \<^verbatim>\<open>internal/client/scanner/scanner.go\<close>: what a root holds on disk, as the list of
  entries the daemon compares with its table.  The walk of \<^verbatim>\<open>filepath.WalkDir\<close> is
  the paths of the tree in its order (elements compared as strings, parents before
  children); reading a directory never fails in the model, so the callback's error
  argument is nil.
\<close>

record ScanEntry =
  sc_RelPath :: string
  sc_AbsPath :: string
  sc_Kind :: RootKind
  sc_Mode :: int
  sc_MTimeNS :: int
  sc_SizeBytes :: int
  sc_ContentSHA256 :: string

record ScanResult =
  sl_Entries :: "ScanEntry list"
  sl_Warnings :: "string list"
  sl_RootKind :: RootKind

text \<open>
  What scanning asks of the system: the paths of a tree, the file behind a link,
  the mode and time of a node whose attributes were never set, and the size a
  directory reports.
\<close>

record scan_env =
  sx_sha256 :: "bytes \<Rightarrow> bytes"
  sx_listing :: "tree \<Rightarrow> string list"
  sx_link :: "fsys \<Rightarrow> string \<Rightarrow> bytes option"
  sx_fresh :: "string \<Rightarrow> int \<times> int"
  sx_dirsize :: "string \<Rightarrow> int"

datatype scan_error = ScanNotExist string | ScanInvalid | ScanFailed string

text \<open>\<open>os.Lstat\<close>; below a regular file the error is \<open>ENOTDIR\<close>, not \<open>ErrNotExist\<close>.\<close>

definition scan_lstat :: "fsys \<Rightarrow> string \<Rightarrow> scan_error + node" where
  "scan_lstat fs p =
     (case Lstat (fs_tree fs) p of
        Inl e \<Rightarrow> Inl (ScanFailed p)
      | Inr None \<Rightarrow> Inl (ScanNotExist p)
      | Inr (Some n) \<Rightarrow> Inr n)"

section \<open>Files of the applier\<close>

definition staging_prefix :: string where
  "staging_prefix = ''.syna-''"

definition isInternalStagingPath :: "string \<Rightarrow> bool" where
  "isInternalStagingPath path \<longleftrightarrow> prefix staging_prefix (Base path)"

definition path_fields :: "string \<Rightarrow> string list" where
  "path_fields p = filter (\<lambda>c. c \<noteq> []) (split_on slash (map (\<lambda>c. if c = CHR 0x5C then slash else c) p))"

definition containsInternalStagingComponent :: "string \<Rightarrow> bool" where
  "containsInternalStagingComponent path \<longleftrightarrow> list_ex (prefix staging_prefix) (path_fields (Clean path))"

section \<open>One entry\<close>

definition toRelPath :: "string \<Rightarrow> string" where
  "toRelPath path = (if path = [] \<or> path = ''.'' then [] else path)"

definition node_attributes :: "scan_env \<Rightarrow> fsys \<Rightarrow> string \<Rightarrow> int \<times> int" where
  "node_attributes sx fs p = (case fs_meta fs p of Some a \<Rightarrow> a | None \<Rightarrow> sx_fresh sx p)"

definition statEntry :: "scan_env \<Rightarrow> fsys \<Rightarrow> string \<Rightarrow> string \<Rightarrow> RootKind \<Rightarrow> string \<Rightarrow> ScanEntry" where
  "statEntry sx fs relPath absPath kind sha =
     \<lparr>sc_RelPath = relPath, sc_AbsPath = absPath, sc_Kind = kind,
      sc_Mode = fst (node_attributes sx fs absPath), sc_MTimeNS = snd (node_attributes sx fs absPath),
      sc_SizeBytes = (case fs_data fs absPath of Some b \<Rightarrow> int (length b) | None \<Rightarrow> sx_dirsize sx absPath),
      sc_ContentSHA256 = sha\<rparr>"

definition hashFile :: "scan_env \<Rightarrow> fsys \<Rightarrow> string \<Rightarrow> scan_error + string" where
  "hashFile sx fs path =
     (case read_file (sx_link sx) path fs of
        None \<Rightarrow> Inl (ScanFailed path) | Some b \<Rightarrow> Inr (hex_encode (sx_sha256 sx b)))"

definition file_entry :: "scan_env \<Rightarrow> fsys \<Rightarrow> string \<Rightarrow> string \<Rightarrow> scan_error + ScanEntry" where
  "file_entry sx fs rel path =
     (case hashFile sx fs path of
        Inl e \<Rightarrow> Inl e | Inr h \<Rightarrow> Inr (statEntry sx fs rel path RootKindFile h))"

section \<open>The walk\<close>

text \<open>
  \<open>SkipDir\<close> at a staging directory leaves out everything below it: a path is
  visited when no element above it, below the start, is a staging name.
\<close>

definition walk_paths :: "scan_env \<Rightarrow> fsys \<Rightarrow> string \<Rightarrow> string list" where
  "walk_paths sx fs scanRoot =
     (let below = (\<lambda>p. length (comps scanRoot) < length (comps p) \<and> prefix (comps scanRoot) (comps p));
          skipped = (\<lambda>p. list_ex (prefix staging_prefix) (butlast (drop (length (comps scanRoot)) (comps p))))
      in sort_key comps (filter (\<lambda>p. below p \<and> \<not> skipped p \<and> fs_tree fs p \<noteq> None) (sx_listing sx (fs_tree fs))))"

definition visit ::
  "scan_env \<Rightarrow> fsys \<Rightarrow> string \<Rightarrow> string \<Rightarrow> ScanEntry list \<times> string list
    \<Rightarrow> scan_error + ScanEntry list \<times> string list" where
  "visit sx fs rootPath path acc =
     (if isInternalStagingPath path then Inr acc
      else case Rel rootPath path of
        None \<Rightarrow> Inl (ScanFailed path)
      | Some rel \<Rightarrow>
          (case fs_tree fs path of
             Some NodeSymlink \<Rightarrow> Inr (fst acc, snd acc @ [''ignored symlink: '' @ rel])
           | Some NodeDir \<Rightarrow> Inr (fst acc @ [statEntry sx fs rel path RootKindDir []], snd acc)
           | Some NodeFile \<Rightarrow>
               (case file_entry sx fs rel path of
                  Inl e \<Rightarrow> Inl e | Inr e \<Rightarrow> Inr (fst acc @ [e], snd acc))
           | Some NodeOther \<Rightarrow> Inr (fst acc, snd acc @ [''ignored unsupported file: '' @ rel])
           | None \<Rightarrow> Inl (ScanNotExist path)))"

fun visit_all ::
  "scan_env \<Rightarrow> fsys \<Rightarrow> string \<Rightarrow> string list \<Rightarrow> ScanEntry list \<times> string list
    \<Rightarrow> scan_error + ScanEntry list \<times> string list" where
  "visit_all sx fs rootPath [] acc = Inr acc"
| "visit_all sx fs rootPath (p # ps) acc =
     (case visit sx fs rootPath p acc of
        Inl e \<Rightarrow> Inl e | Inr acc' \<Rightarrow> visit_all sx fs rootPath ps acc')"

text \<open>The root first, then directories, then files, each by path.\<close>

definition scan_order :: "ScanEntry list \<Rightarrow> ScanEntry list" where
  "scan_order = sort_key (\<lambda>e. (sc_RelPath e \<noteq> [], sc_Kind e \<noteq> RootKindDir, sc_RelPath e))"

section \<open>Scans\<close>

definition scan :: "scan_env \<Rightarrow> fsys \<Rightarrow> string \<Rightarrow> string \<Rightarrow> scan_error + ScanResult" where
  "scan sx fs rootPath subtree =
     (case scan_lstat fs rootPath of
        Inl e \<Rightarrow> Inl e
      | Inr NodeSymlink \<Rightarrow> Inl ScanInvalid
      | Inr NodeDir \<Rightarrow>
          (let whole = (subtree = [] \<or> subtree = ''.'');
               scanRoot = (if whole then rootPath else Join [rootPath, subtree]);
               result = (\<lambda>es ws. \<lparr>sl_Entries = es, sl_Warnings = ws, sl_RootKind = RootKindDir\<rparr>) in
           if \<not> whole \<and> containsInternalStagingComponent subtree then Inr (result [] [])
           else (case (if whole then Inr NodeDir else scan_lstat fs scanRoot) of
             Inl e \<Rightarrow> Inl e
           | Inr NodeSymlink \<Rightarrow> Inl ScanInvalid
           | Inr NodeDir \<Rightarrow>
               (case visit_all sx fs rootPath (walk_paths sx fs scanRoot)
                       ([statEntry sx fs (toRelPath subtree) scanRoot RootKindDir []], []) of
                  Inl e \<Rightarrow> Inl e
                | Inr (es, ws) \<Rightarrow> Inr (result (scan_order es) ws))
           | Inr _ \<Rightarrow>
               (case file_entry sx fs (toRelPath subtree) scanRoot of
                  Inl e \<Rightarrow> Inl e | Inr e \<Rightarrow> Inr (result [e] []))))
      | Inr _ \<Rightarrow>
          (case file_entry sx fs [] rootPath of
             Inl e \<Rightarrow> Inl e
           | Inr e \<Rightarrow> Inr \<lparr>sl_Entries = [e], sl_Warnings = [], sl_RootKind = RootKindFile\<rparr>))"

definition ScanRoot :: "scan_env \<Rightarrow> fsys \<Rightarrow> string \<Rightarrow> scan_error + ScanResult" where
  "ScanRoot sx fs rootPath = scan sx fs rootPath []"

definition ScanSubtree :: "scan_env \<Rightarrow> fsys \<Rightarrow> string \<Rightarrow> string \<Rightarrow> scan_error + ScanResult" where
  "ScanSubtree sx fs rootPath relPath = scan sx fs rootPath (Clean relPath)"

end
