(* ===== verification/SyncHelpers.thy ===== *)
theory SyncHelpers
  imports Scanner SnapshotApply
begin

text \<open>
  The small decisions of \<^verbatim>\<open>internal/client/daemon/daemon.go\<close>: which root a path
  names, which part of a root a change may have touched, which entries a scan has
  to ignore, which errors are worth another attempt, and what the daemon reports
  about itself.  Arguments of error texts are left out.
\<close>

section \<open>Naming a tracked root\<close>

definition trim_char :: "char \<Rightarrow> string \<Rightarrow> string" where
  "trim_char c s = trim_right c (dropWhile (\<lambda>x. x = c) s)"

definition cleanStoredRootPath :: "string \<Rightarrow> string" where
  "cleanStoredRootPath path = trim_char slash (Clean path)"

definition pathWithinRoot :: "string \<Rightarrow> string \<Rightarrow> bool" where
  "pathWithinRoot rootAbs absPath \<longleftrightarrow>
     (let root = Clean rootAbs; path = Clean absPath in path = root \<or> prefix (root @ ''/'') path)"

definition maxTargets :: nat where
  "maxTargets = 5"

definition activeRootTargets :: "Root list \<Rightarrow> string list" where
  "activeRootTargets roots =
     (let targets = sort (map (\<lambda>r. Clean (cr_TargetAbsPath r))
            (filter (\<lambda>r. cr_State r \<noteq> RootStateRemoved) roots)) in
      if length targets > maxTargets
      then take maxTargets targets @ [''and '' @ show_nat (length targets - maxTargets) @ '' more'']
      else targets)"

datatype remove_error = AlreadyRemoved | InsideTrackedRoot string | NotTracked "string list"

definition rootForRemove :: "Root list \<Rightarrow> string \<Rightarrow> string \<Rightarrow> remove_error + Root" where
  "rootForRemove roots absPath homeRelPath =
     (let cleanAbs = Clean absPath in
      case List.find (\<lambda>r. cleanStoredRootPath (cr_HomeRelPath r) = cleanStoredRootPath homeRelPath
             \<or> Clean (cr_TargetAbsPath r) = cleanAbs) roots of
        Some root \<Rightarrow> if cr_State root = RootStateRemoved then Inl AlreadyRemoved else Inr root
      | None \<Rightarrow>
          (case List.find (\<lambda>r. cr_State r \<noteq> RootStateRemoved \<and> cr_Kind r = RootKindDir
                 \<and> pathWithinRoot (cr_TargetAbsPath r) cleanAbs) roots of
             Some root \<Rightarrow> Inl (InsideTrackedRoot (Clean (cr_TargetAbsPath root)))
           | None \<Rightarrow> Inl (NotTracked (activeRootTargets roots))))"

section \<open>Hints: the part of a root that may have changed\<close>

definition normalizeRescanHint :: "string \<Rightarrow> string" where
  "normalizeRescanHint relPath =
     (let p = Clean relPath in if p = ''.'' \<or> p = ''/'' then [] else trim_prefix ''./'' p)"

fun shared_parts :: "string list \<Rightarrow> string list \<Rightarrow> string list" where
  "shared_parts (a # as) (b # bs) = (if a \<noteq> b then [] else a # shared_parts as bs)"
| "shared_parts as bs = []"

definition mergeRescanHints :: "string \<Rightarrow> string \<Rightarrow> string" where
  "mergeRescanHints current next =
     (let c = normalizeRescanHint current; n = normalizeRescanHint next in
      if c = [] \<or> n = [] then []
      else join_on slash (shared_parts (split_on slash c) (split_on slash n)))"

definition entryInHint :: "string \<Rightarrow> string \<Rightarrow> bool" where
  "entryInHint relPath relPathHint \<longleftrightarrow>
     (let p = normalizeRescanHint relPath; h = normalizeRescanHint relPathHint in
      h = [] \<or> p = h \<or> prefix (h @ ''/'') p)"

definition filterEntriesByHint :: "(string \<rightharpoonup> Entry) \<Rightarrow> string \<Rightarrow> (string \<rightharpoonup> Entry)" where
  "filterEntriesByHint entries relPathHint =
     (let h = normalizeRescanHint relPathHint in
      if h = [] then entries
      else (\<lambda>p. if entryInHint p h then entries p else None))"

section \<open>What a scan has to ignore\<close>

text \<open>The daemon's own writes leave a rule; a scan that sees exactly what the rule says is not a local edit.\<close>

definition shouldSuppressIgnoredDelete :: "string \<Rightarrow> string \<Rightarrow> time \<Rightarrow> client_db \<Rightarrow> bool" where
  "shouldSuppressIgnoredDelete rootID relPath now s =
     (case LookupIgnoreRule rootID relPath now s of
        Some (rule, True) \<Rightarrow> ig_Deleted rule | _ \<Rightarrow> False)"

definition shouldSuppressIgnoredEntry :: "string \<Rightarrow> ScanEntry \<Rightarrow> time \<Rightarrow> client_db \<Rightarrow> bool" where
  "shouldSuppressIgnoredEntry rootID item now s =
     (case LookupIgnoreRule rootID (sc_RelPath item) now s of
        Some (rule, True) \<Rightarrow>
          \<not> (ig_Deleted rule \<or> ig_Kind rule \<noteq> sc_Kind item \<or> ig_Mode rule \<noteq> sc_Mode item
             \<or> ig_MTimeNS rule \<noteq> sc_MTimeNS item)
          \<and> \<not> (sc_Kind item = RootKindFile \<and> ig_ContentSHA256 rule \<noteq> sc_ContentSHA256 item)
      | _ \<Rightarrow> False)"

definition recordScanWarnings :: "Root \<Rightarrow> string list \<Rightarrow> 's daemon \<Rightarrow> 's daemon" where
  "recordScanWarnings root warnings d =
     fold (\<lambda>(i, warning) d. case draw d of (lu, d1) \<Rightarrow>
            on_db (UpsertWarning (scanner_key (cr_RootID root) @ show_nat i)
              (cr_HomeRelPath root @ '': '' @ warning) (lu_now lu)) d1)
       (enumerate 0 warnings) (on_db (ClearWarningsWithPrefix (scanner_key (cr_RootID root))) d)"

text \<open>Files first, each kind by path; a scan yields files and directories only.\<close>

definition syncOrder :: "ScanEntry list \<Rightarrow> ScanEntry list" where
  "syncOrder = sort_key (\<lambda>e. (sc_Kind e \<noteq> RootKindFile, sc_RelPath e))"

definition dedupe :: "string list \<Rightarrow> string list" where
  "dedupe xs = fold (\<lambda>v out. if v \<in> set out then out else out @ [v]) xs []"

section \<open>Errors worth another attempt\<close>

definition contains_text :: "string \<Rightarrow> string \<Rightarrow> bool" where
  "contains_text token message = list_ex (prefix token) (suffixes message)"

definition retry_tokens :: "string list" where
  "retry_tokens =
     [''connection refused'', ''connection reset'', ''connection closed'', ''no such host'', ''timeout'',
      ''temporary failure'', ''unexpected eof'', ''eof'', ''use of closed network connection'', ''broken pipe'',
      ''no route to host'', ''network is unreachable'', ''session expired'', ''unauthorized'']"

definition isRetryableSyncError :: "(go_error \<Rightarrow> string) \<Rightarrow> go_error \<Rightarrow> bool" where
  "isRetryableSyncError describe e \<longleftrightarrow>
     unwrapped e = ContextCanceled \<or> unwrapped e = DeadlineExceeded
     \<or> (case unwrapped e of HTTPError status code message \<Rightarrow> status = 408 \<or> status = 429 \<or> status \<ge> 500 | _ \<Rightarrow> False)
     \<or> list_ex (\<lambda>token. contains_text token (map lower_char (error_text describe e))) retry_tokens"

definition isBenignRootRemoveError :: "(go_error \<Rightarrow> string) \<Rightarrow> go_error \<Rightarrow> bool" where
  "isBenignRootRemoveError describe e \<longleftrightarrow>
     (let message = map lower_char (error_text describe e) in
      contains_text ''root already removed'' message \<or> contains_text ''unknown root'' message)"

section \<open>Pauses\<close>

text \<open>Durations are in milliseconds; \<open>random\<close> is the 32-bit number of a fresh UUID.\<close>

definition jitter :: "int \<Rightarrow> int \<Rightarrow> int" where
  "jitter base random =
     (if base \<le> 0 then 1000
      else let r = random mod ((base + 1) mod 2 ^ 32) in if r \<le> 0 then 1 else r)"

definition next_backoff :: "int \<Rightarrow> int" where
  "next_backoff backoff = (if backoff < 60000 then backoff * 2 else backoff)"

end
