(* ===== verification/Submit.thy ===== *)
theory Submit
  imports SyncHelpers CatchUp
begin

text \<open>
  How the daemon tells the server what it did
  (\<^verbatim>\<open>internal/client/daemon/daemon.go\<close>): the payload of an event is encrypted and
  submitted, and the server's refusals become the errors the rest of the daemon
  tells apart.  The nonce of every encryption comes from the sequence of luck.
\<close>

section \<open>Submitting an event\<close>

text \<open>\<open>PathConflictError\<close> and \<open>RootIncarnationConflictError\<close> through \<^verbatim>\<open>errors.As\<close>.\<close>

definition path_conflict :: "go_error \<Rightarrow> (int \<times> string) option" where
  "path_conflict e = (case unwrapped e of PathConflictError q p \<Rightarrow> Some (q, p) | _ \<Rightarrow> None)"

definition submit_error :: "(go_error \<Rightarrow> string) \<Rightarrow> string \<Rightarrow> int \<Rightarrow> go_error \<Rightarrow> ErrorResponse \<Rightarrow> go_error" where
  "submit_error describe pathID rootCreatedSeq e apiErr =
     (if eb_Code apiErr = ''root_incarnation_mismatch'' then RootIncarnationConflictError rootCreatedSeq (eb_CurrentSeq apiErr)
      else if eb_Code apiErr = ''path_head_mismatch'' then PathConflictError (eb_CurrentSeq apiErr) pathID
      else if error_text describe e = ''path_head_mismatch'' then PathConflictError 0 pathID
      else if eb_Code apiErr \<noteq> [] then Wrapped (eb_Code apiErr) e
      else e)"

definition event_request ::
  "string \<Rightarrow> string \<Rightarrow> RootKind \<Rightarrow> EventType \<Rightarrow> int option \<Rightarrow> int \<Rightarrow> bytes \<Rightarrow> string list \<Rightarrow> EventSubmitRequest" where
  "event_request rootID pathID rootKind eventType baseSeq rootCreatedSeq blob objectRefs =
     \<lparr>rq_RootID = rootID, rq_PathID = pathID, rq_RootKind = rootKind, rq_EventType = eventType,
      rq_BaseSeq = baseSeq, rq_RootCreatedSeq = (if rootCreatedSeq > 0 then Some rootCreatedSeq else None),
      rq_PayloadBlob = b64_encode blob, rq_ObjectRefs = objectRefs\<rparr>"

definition submitEventForIncarnation ::
  "'s daemon_env \<Rightarrow> string \<Rightarrow> string \<Rightarrow> RootKind \<Rightarrow> EventType \<Rightarrow> int option \<Rightarrow> int \<Rightarrow> bytes \<Rightarrow> string list
    \<Rightarrow> 's daemon \<Rightarrow> (go_error + EventSubmitResponse) \<times> 's daemon" where
  "submitEventForIncarnation dv rootID pathID rootKind eventType baseSeq rootCreatedSeq plain objectRefs d =
     (let (lu, d1) = draw d in
      case Encrypt (dv_px dv) (lu_nonces lu 0) (dk_EventKey (dv_keys dv)) plain
             (EventAAD (dv_WorkspaceID dv) rootID pathID (event_type_string eventType)) of
        Inl e \<Rightarrow> (Inl (CryptoFailed e), d1)
      | Inr blob \<Rightarrow>
          (case cn_SubmitEvent (dv_conn dv)
                  (event_request rootID pathID rootKind eventType baseSeq rootCreatedSeq blob objectRefs) (mc_net d1) of
             (Inl (e, apiErr), s) \<Rightarrow>
               (Inl (submit_error (dv_describe dv) pathID rootCreatedSeq e apiErr), d1\<lparr>mc_net := s\<rparr>)
           | (Inr resp, s) \<Rightarrow> (Inr resp, d1\<lparr>mc_net := s\<rparr>)))"

definition submitEvent ::
  "'s daemon_env \<Rightarrow> string \<Rightarrow> string \<Rightarrow> RootKind \<Rightarrow> EventType \<Rightarrow> int option \<Rightarrow> bytes \<Rightarrow> string list
    \<Rightarrow> 's daemon \<Rightarrow> (go_error + EventSubmitResponse) \<times> 's daemon" where
  "submitEvent dv rootID pathID rootKind eventType baseSeq plain objectRefs =
     submitEventForIncarnation dv rootID pathID rootKind eventType baseSeq 0 plain objectRefs"

text \<open>Content events carry no kind of root.\<close>

definition no_kind :: RootKind where
  "no_kind = RootKindOther []"

definition submit_root_remove :: "'s daemon_env \<Rightarrow> string \<Rightarrow> int \<Rightarrow> 's daemon \<Rightarrow> go_error option \<times> 's daemon" where
  "submit_root_remove dv rootID rootCreatedSeq d =
     (case submitEventForIncarnation dv rootID [] no_kind EventRootRemove None rootCreatedSeq
             (je_RootRemove (dv_encode dv) \<lparr>rr_RootID = rootID\<rparr>) [] d of
        (Inl e, d1) \<Rightarrow> (Some e, d1) | (Inr resp, d1) \<Rightarrow> (None, d1))"

definition submit_delete ::
  "'s daemon_env \<Rightarrow> string \<Rightarrow> string \<Rightarrow> string \<Rightarrow> int \<Rightarrow> int \<Rightarrow> 's daemon \<Rightarrow> (go_error + EventSubmitResponse) \<times> 's daemon" where
  "submit_delete dv rootID pathID relPath baseSeq rootCreatedSeq =
     submitEventForIncarnation dv rootID pathID no_kind EventDelete (Some baseSeq) rootCreatedSeq
       (je_Delete (dv_encode dv) \<lparr>del_Path = relPath\<rparr>) []"

definition submit_dir ::
  "'s daemon_env \<Rightarrow> string \<Rightarrow> string \<Rightarrow> ScanEntry \<Rightarrow> int \<Rightarrow> int \<Rightarrow> 's daemon \<Rightarrow> (go_error + EventSubmitResponse) \<times> 's daemon" where
  "submit_dir dv rootID pathID item baseSeq rootCreatedSeq =
     submitEventForIncarnation dv rootID pathID no_kind EventDirPut (Some baseSeq) rootCreatedSeq
       (je_DirPut (dv_encode dv) \<lparr>dp_Path = sc_RelPath item, dp_Mode = sc_Mode item, dp_MTimeNS = sc_MTimeNS item\<rparr>) []"

definition submit_file ::
  "'s daemon_env \<Rightarrow> string \<Rightarrow> string \<Rightarrow> upload_result \<Rightarrow> int \<Rightarrow> int \<Rightarrow> 's daemon \<Rightarrow> (go_error + EventSubmitResponse) \<times> 's daemon" where
  "submit_file dv rootID pathID up baseSeq rootCreatedSeq =
     submitEventForIncarnation dv rootID pathID no_kind EventFilePut (Some baseSeq) rootCreatedSeq
       (je_FilePut (dv_encode dv) (ur_Payload up)) (ur_Refs up)"

section \<open>Uploading a file of a root\<close>

definition upload_file ::
  "'s daemon_env \<Rightarrow> string \<Rightarrow> string \<Rightarrow> string \<Rightarrow> string \<Rightarrow> int \<Rightarrow> int \<Rightarrow> 's daemon
    \<Rightarrow> (go_error + upload_result) \<times> 's daemon" where
  "upload_file dv rootID pathID relPath absPath mode mtimeNS d =
     (let (lu, d1) = draw d in
      case UploadFile (dv_px dv) (UploadObject (dv_conn dv)) (lu_nonces lu) (dk_BlobKey (dv_keys dv))
             (dv_WorkspaceID dv) rootID pathID relPath absPath mode mtimeNS (mc_fs d1) (mc_net d1) of
        (r, s) \<Rightarrow> (r, d1\<lparr>mc_net := s\<rparr>))"

section \<open>The rows a submission leaves\<close>

definition submitted_dir :: "string \<Rightarrow> string \<Rightarrow> ScanEntry \<Rightarrow> int \<Rightarrow> Entry" where
  "submitted_dir rootID pathID item seq =
     zero_entry\<lparr>en_RootID := rootID, en_RelPath := sc_RelPath item, en_PathID := pathID, en_Kind := RootKindDir,
       en_CurrentSeq := seq, en_Mode := sc_Mode item, en_MTimeNS := sc_MTimeNS item\<rparr>"

definition submitted_file :: "string \<Rightarrow> string \<Rightarrow> string \<Rightarrow> FilePutPayload \<Rightarrow> int \<Rightarrow> Entry" where
  "submitted_file rootID relPath pathID payload seq =
     zero_entry\<lparr>en_RootID := rootID, en_RelPath := relPath, en_PathID := pathID, en_Kind := RootKindFile,
       en_CurrentSeq := seq, en_ContentSHA256 := fp_ContentSHA256 payload, en_SizeBytes := fp_SizeBytes payload,
       en_Mode := fp_Mode payload, en_MTimeNS := fp_MTimeNS payload\<rparr>"

definition submitted_delete :: "Entry \<Rightarrow> string \<Rightarrow> string \<Rightarrow> int \<Rightarrow> Entry" where
  "submitted_delete old rootID relPath seq =
     zero_entry\<lparr>en_RootID := rootID, en_RelPath := relPath, en_PathID := en_PathID old, en_Kind := en_Kind old,
       en_CurrentSeq := seq\<rparr>"

section \<open>What the server knows of a root\<close>

text \<open>\<open>None\<close> is a root the server does not list as active.\<close>

definition remoteRootIncarnation ::
  "'s daemon_env \<Rightarrow> string \<Rightarrow> 's daemon \<Rightarrow> (go_error + int option) \<times> 's daemon" where
  "remoteRootIncarnation dv rootID d =
     (case cn_Bootstrap (dv_conn dv) (mc_net d) of
        (Inl e, s) \<Rightarrow> (Inl e, d\<lparr>mc_net := s\<rparr>)
      | (Inr resp, s) \<Rightarrow>
          (Inr (map_option br_CreatedSeq (List.find (\<lambda>r. br_RootID r = rootID) (bs_Roots resp))), d\<lparr>mc_net := s\<rparr>))"

text \<open>The pair is (matched, active).\<close>

definition verifyRootIncarnation ::
  "'s daemon_env \<Rightarrow> string \<Rightarrow> int \<Rightarrow> 's daemon \<Rightarrow> (go_error + bool \<times> bool) \<times> 's daemon" where
  "verifyRootIncarnation dv rootID createdSeq d =
     (case remoteRootIncarnation dv rootID d of
        (Inl e, d1) \<Rightarrow> (Inl e, d1)
      | (Inr None, d1) \<Rightarrow> (Inr (False, False), d1)
      | (Inr (Some q), d1) \<Rightarrow> (Inr (q = createdSeq, True), d1))"

definition requireRootIncarnationBinding :: "'s daemon_env \<Rightarrow> 's daemon \<Rightarrow> go_error option \<times> 's daemon" where
  "requireRootIncarnationBinding dv d =
     (case SupportsCapability (dv_conn dv) CapabilityRootIncarnationBinding (mc_net d) of
        (Inl e, s) \<Rightarrow> (Some (Wrapped ''check server sync capabilities'' e), d\<lparr>mc_net := s\<rparr>)
      | (Inr supported, s) \<Rightarrow>
          (if supported then None
           else Some (Failed ''server upgrade required: initial root sync needs root-incarnation binding support''),
           d\<lparr>mc_net := s\<rparr>))"

end
