(* ===== verification/Conflict.thy ===== *)
theory Conflict
  imports Submit
begin

text \<open>
  \<^verbatim>\<open>internal/client/daemon/conflict.go\<close>: what happens to a local file whose
  submission the server refused because another device wrote the path first.  The
  file is staged outside the root, the remote head is applied over it, and then the
  staged bytes go back to the path (when nothing of value is there, or when only
  this side had changed) or become a conflict copy of their own.  The deferred
  restoration and clean-up are the last step of \<open>resolveFileConflictForIncarnation\<close>.
\<close>

section \<open>Staged copies\<close>

definition stageLocalFileCopy :: "'s daemon_env \<Rightarrow> string \<Rightarrow> 's daemon \<Rightarrow> (go_error + string) \<times> 's daemon" where
  "stageLocalFileCopy dv sourcePath d =
     (let (lu, d1) = draw d; tmp = temp_name (dv_StateDir dv) ''syna-conflict-'' (lu_random lu) in
      case copy_temp (lu_faults lu) (dv_StateDir dv) tmp (read_file (dv_link dv) sourcePath (mc_fs d1)) (mc_fs d1) of
        (Some e, fs) \<Rightarrow> (Inl e, d1\<lparr>mc_fs := fs\<rparr>)
      | (None, fs) \<Rightarrow> (Inr tmp, d1\<lparr>mc_fs := fs\<rparr>))"

definition cleanup :: "string \<Rightarrow> 's daemon \<Rightarrow> 's daemon" where
  "cleanup stagedPath d = d\<lparr>mc_fs := Remove stagedPath (mc_fs d)\<rparr>"

definition restoreStagedFile :: "'s daemon_env \<Rightarrow> ScanEntry \<Rightarrow> string \<Rightarrow> 's daemon \<Rightarrow> go_error option \<times> 's daemon" where
  "restoreStagedFile dv item stagedPath d =
     (let (lu, d1) = draw d; dir = Dir (sc_AbsPath item); tmp = temp_name dir ''.syna-restore-'' (lu_random lu) in
      case copy_temp (lu_faults lu) dir tmp (read_file (dv_link dv) stagedPath (mc_fs d1)) (mc_fs d1) of
        (Some e, fs) \<Rightarrow> (Some e, d1\<lparr>mc_fs := fs\<rparr>)
      | (None, fs) \<Rightarrow>
          (case rename_temp (lu_faults lu) tmp (sc_AbsPath item) fs of
             (Some e, fs') \<Rightarrow> (Some e, d1\<lparr>mc_fs := fs'\<rparr>)
           | (None, fs') \<Rightarrow>
               (None, d1\<lparr>mc_fs := set_attributes (sc_AbsPath item) (sc_Mode item) (sc_MTimeNS item) fs'\<rparr>)))"

definition containment_root :: "Root \<Rightarrow> string" where
  "containment_root root =
     (if cr_Kind root = RootKindFile then Dir (cr_TargetAbsPath root) else cr_TargetAbsPath root)"

definition restoreStagedFileReplacingTarget ::
  "'s daemon_env \<Rightarrow> Root \<Rightarrow> ScanEntry \<Rightarrow> string \<Rightarrow> 's daemon \<Rightarrow> go_error option \<times> 's daemon" where
  "restoreStagedFileReplacingTarget dv root item stagedPath d =
     (case RejectSymlinkParents (containment_root root) (sc_AbsPath item) (fs_tree (mc_fs d)) of
        Some e \<Rightarrow> (Some (PathFailed e), d)
      | None \<Rightarrow>
          (case Lstat (fs_tree (mc_fs d)) (sc_AbsPath item) of
             Inl e \<Rightarrow> (Some (PathFailed e), d)
           | Inr n \<Rightarrow>
               restoreStagedFile dv item stagedPath
                 (if n = Some NodeDir then d\<lparr>mc_fs := RemoveAll (sc_AbsPath item) (mc_fs d)\<rparr> else d)))"

section \<open>What the remote head left at the path\<close>

text \<open>The pair is (retry, matches).\<close>

definition remoteHeadAllowsRetry :: "string \<Rightarrow> ScanEntry \<Rightarrow> client_db \<Rightarrow> bool \<times> bool" where
  "remoteHeadAllowsRetry rootID item s =
     (case EntriesForRoot rootID s (sc_RelPath item) of
        None \<Rightarrow> (True, False)
      | Some current \<Rightarrow>
          if en_Deleted current then (True, False)
          else if en_Kind current \<noteq> RootKindFile then (False, False)
          else (False, en_ContentSHA256 current = sc_ContentSHA256 item))"

definition baseline_hash :: "string \<Rightarrow> string \<Rightarrow> client_db \<Rightarrow> string" where
  "baseline_hash rootID relPath s =
     (case EntriesForRoot rootID s relPath of
        None \<Rightarrow> []
      | Some prior \<Rightarrow> if \<not> en_Deleted prior \<and> en_Kind prior = RootKindFile then en_ContentSHA256 prior else [])"

text \<open>Only this side had changed: the edit goes back to its path and is submitted over the new head.\<close>

definition restoreNewerLocalEdit ::
  "'s daemon_env \<Rightarrow> Root \<Rightarrow> ScanEntry \<Rightarrow> string \<Rightarrow> string \<Rightarrow> int \<Rightarrow> 's daemon \<Rightarrow> (go_error + bool) \<times> 's daemon" where
  "restoreNewerLocalEdit dv root item stagedPath baselineHash rootCreatedSeq d =
     (if baselineHash = [] \<or> baselineHash = sc_ContentSHA256 item then (Inr False, d)
      else case EntriesForRoot (cr_RootID root) (mc_db d) (sc_RelPath item) of
        None \<Rightarrow> (Inr False, d)
      | Some current \<Rightarrow>
          if en_Deleted current \<or> en_Kind current \<noteq> RootKindFile \<or> en_ContentSHA256 current \<noteq> baselineHash
          then (Inr False, d)
          else (case restoreStagedFile dv item stagedPath d of
             (Some e, d1) \<Rightarrow> (Inl e, d1)
           | (None, d1) \<Rightarrow>
               (let rootID = cr_RootID root; pathID = PathID (dv_px dv) (dv_keys dv) rootID (sc_RelPath item) in
                case upload_file dv rootID pathID (sc_RelPath item) (sc_AbsPath item) (sc_Mode item) (sc_MTimeNS item) d1 of
                  (Inl e, d2) \<Rightarrow> (Inl e, d2)
                | (Inr up, d2) \<Rightarrow>
                    (case submit_file dv rootID pathID up (en_CurrentSeq current) rootCreatedSeq d2 of
                       (Inl e, d3) \<Rightarrow> ((if path_conflict e = None then Inl e else Inr False), d3)
                     | (Inr resp, d3) \<Rightarrow>
                         (Inr True, on_db (UpsertEntry (submitted_file rootID (sc_RelPath item) pathID
                            (ur_Payload up) (es_AcceptedSeq resp))) d3)))))"

section \<open>Conflict copies\<close>

text \<open>The directory of the copy: below the root, or beside a file root.\<close>

definition copy_directory :: "Root \<Rightarrow> string \<Rightarrow> go_error + string" where
  "copy_directory root relPath =
     (if cr_Kind root = RootKindDir then
        (case ResolveRemoteTarget (cr_TargetAbsPath root) (if Dir relPath = ''.'' then [] else Dir relPath) True of
           Inl e \<Rightarrow> Inl (PathFailed e) | Inr (_, targetDir) \<Rightarrow> Inr targetDir)
      else Inr (Dir (cr_TargetAbsPath root)))"

text \<open>
  The result is the relative path, the absolute path, and whether the copy is part
  of the root.  The two last checks of the parents see the tree of the check after
  the renaming, so they are one.
\<close>

definition writeConflictCopy ::
  "'s daemon_env \<Rightarrow> Root \<Rightarrow> ScanEntry \<Rightarrow> string \<Rightarrow> time \<Rightarrow> 's daemon
    \<Rightarrow> (go_error + string \<times> string \<times> bool) \<times> 's daemon" where
  "writeConflictCopy dv root item stagedPath now d =
     (let relPath0 = conflictRelPath (dv_stamp dv) (sc_RelPath item) (cr_TargetAbsPath root) (dv_DeviceName dv) now;
          syncable = (cr_Kind root = RootKindDir);
          relPath = (if syncable then relPath0 else Base relPath0) in
      case copy_directory root relPath of
        Inl e \<Rightarrow> (Inl e, d)
      | Inr targetDir \<Rightarrow>
          (let inside = (if syncable then cr_TargetAbsPath root else targetDir) in
           case on_tree (EnsureSafeDir inside targetDir) (mc_fs d) of
             (Some e, fs) \<Rightarrow> (Inl (PathFailed e), d\<lparr>mc_fs := fs\<rparr>)
           | (None, fs) \<Rightarrow>
               (let (lu, d1) = draw (d\<lparr>mc_fs := fs\<rparr>); finalPath = Join [targetDir, Base relPath];
                    tmp = temp_name targetDir ''.syna-conflict-'' (lu_random lu) in
                case copy_temp (lu_faults lu) targetDir tmp (read_file (dv_link dv) stagedPath (mc_fs d1)) (mc_fs d1) of
                  (Some e, fs1) \<Rightarrow> (Inl e, d1\<lparr>mc_fs := fs1\<rparr>)
                | (None, fs1) \<Rightarrow>
                    (case RejectSymlinkParents inside finalPath (fs_tree fs1) of
                       Some e \<Rightarrow> (Inl (PathFailed e), d1\<lparr>mc_fs := Remove tmp fs1\<rparr>)
                     | None \<Rightarrow>
                         (case rename_temp (lu_faults lu) tmp finalPath fs1 of
                            (Some e, fs2) \<Rightarrow> (Inl e, d1\<lparr>mc_fs := fs2\<rparr>)
                          | (None, fs2) \<Rightarrow>
                              (case RejectSymlinkParents inside finalPath (fs_tree fs2) of
                                 Some e \<Rightarrow> (Inl (PathFailed e), d1\<lparr>mc_fs := fs2\<rparr>)
                               | None \<Rightarrow>
                                   (let d2 = d1\<lparr>mc_fs := set_attributes finalPath (sc_Mode item) (sc_MTimeNS item) fs2\<rparr>;
                                        (lu2, d3) = draw d2;
                                        expected = zero_entry\<lparr>en_RootID := cr_RootID root, en_RelPath := relPath,
                                          en_Kind := RootKindFile, en_ContentSHA256 := sc_ContentSHA256 item,
                                          en_Mode := sc_Mode item, en_MTimeNS := sc_MTimeNS item\<rparr> in
                                    (Inr (relPath, finalPath, syncable),
                                     if syncable
                                     then on_db (SetIgnore (cr_RootID root) relPath (lu_now lu2 + ignore_ttl) expected) d3
                                     else d2))))))))"

section \<open>Attempts to publish the copy\<close>

definition copy_attempts :: nat where
  "copy_attempts = 5"

text \<open>
  One outcome of the resolution: the error, whether the local bytes are known to be
  kept, and the daemon.  \<open>None\<close> is a catch-up that has not ended within its fuel.
\<close>

type_synonym 's outcome = "(go_error option \<times> bool \<times> 's daemon) option"

definition publish_copy ::
  "nat \<Rightarrow> 's daemon_env \<Rightarrow> Root \<Rightarrow> ScanEntry \<Rightarrow> int \<Rightarrow> string \<Rightarrow> string
    \<Rightarrow> ('s daemon \<Rightarrow> 's outcome) \<Rightarrow> 's daemon \<Rightarrow> 's outcome" where
  "publish_copy fuel dv root item rootCreatedSeq relPath absPath again d =
     (let rootID = cr_RootID root; pathID = PathID (dv_px dv) (dv_keys dv) rootID relPath;
          baseSeq = (case EntriesForRoot rootID (mc_db d) relPath of None \<Rightarrow> 0 | Some e \<Rightarrow> en_CurrentSeq e) in
      case upload_file dv rootID pathID relPath absPath (sc_Mode item) (sc_MTimeNS item) d of
        (Inl e, d1) \<Rightarrow> Some (Some e, False, d1)
      | (Inr up, d1) \<Rightarrow>
          (case submit_file dv rootID pathID up baseSeq rootCreatedSeq d1 of
             (Inr resp, d2) \<Rightarrow>
               Some (None, True, on_db (UpsertEntry (submitted_file rootID relPath pathID (ur_Payload up)
                 (es_AcceptedSeq resp))) d2)
           | (Inl e, d2) \<Rightarrow>
               (case path_conflict e of
                  None \<Rightarrow> Some (Some e, False, d2)
                | Some (currentSeq, _) \<Rightarrow>
                    (case applyCurrentRemoteHead fuel dv currentSeq (d2\<lparr>mc_fs := Remove absPath (mc_fs d2)\<rparr>) of
                       None \<Rightarrow> None
                     | Some (Some e, d3) \<Rightarrow> Some (Some e, False, d3)
                     | Some (None, d3) \<Rightarrow> again d3))))"

primrec copy_loop ::
  "nat \<Rightarrow> nat \<Rightarrow> 's daemon_env \<Rightarrow> Root \<Rightarrow> ScanEntry \<Rightarrow> string \<Rightarrow> int \<Rightarrow> 's daemon \<Rightarrow> 's outcome" where
  "copy_loop 0 = (\<lambda>fuel dv root item stagedPath rootCreatedSeq d.
     Some (Some (Failed ''conflict copy upload retries exhausted''), False, d))"
| "copy_loop (Suc left) = (\<lambda>fuel dv root item stagedPath rootCreatedSeq d.
     let (lu, d1) = draw d in
     case writeConflictCopy dv root item stagedPath (lu_now lu + int (copy_attempts - Suc left)) d1 of
       (Inl e, d2) \<Rightarrow> Some (Some e, False, d2)
     | (Inr (relPath, absPath, syncable), d2) \<Rightarrow>
         if \<not> syncable then Some (None, True, d2)
         else publish_copy fuel dv root item rootCreatedSeq relPath absPath
                (copy_loop left fuel dv root item stagedPath rootCreatedSeq) d2)"

section \<open>Resolution\<close>

text \<open>A remote directory at the path of a local file: the file makes room.\<close>

definition make_room :: "EventRecord \<Rightarrow> ScanEntry \<Rightarrow> 's daemon \<Rightarrow> go_error option \<times> 's daemon" where
  "make_room event item d =
     (if er_EventType event \<noteq> EventDirPut then (None, d)
      else case Lstat (fs_tree (mc_fs d)) (sc_AbsPath item) of
        Inl e \<Rightarrow> (Some (PathFailed e), d)
      | Inr None \<Rightarrow> (Some (OsFailed ''lstat''), d)
      | Inr (Some n) \<Rightarrow>
          if n \<noteq> NodeFile then (Some (Failed ''local conflict path is no longer a regular file''), d)
          else (None, d\<lparr>mc_fs := Remove (sc_AbsPath item) (mc_fs d)\<rparr>))"

definition settle_conflict ::
  "nat \<Rightarrow> 's daemon_env \<Rightarrow> Root \<Rightarrow> ScanEntry \<Rightarrow> string \<Rightarrow> string \<Rightarrow> int \<Rightarrow> 's daemon \<Rightarrow> 's outcome" where
  "settle_conflict fuel dv root item stagedPath baselineHash rootCreatedSeq d =
     (case remoteHeadAllowsRetry (cr_RootID root) item (mc_db d) of
        (True, _) \<Rightarrow>
          (case restoreStagedFileReplacingTarget dv root item stagedPath d of
             (Some e, d1) \<Rightarrow> Some (Some e, False, d1) | (None, d1) \<Rightarrow> Some (None, True, d1))
      | (False, True) \<Rightarrow> Some (None, True, d)
      | (False, False) \<Rightarrow>
          (case restoreNewerLocalEdit dv root item stagedPath baselineHash rootCreatedSeq d of
             (Inl e, d1) \<Rightarrow> Some (Some e, False, d1)
           | (Inr True, d1) \<Rightarrow> Some (None, True, d1)
           | (Inr False, d1) \<Rightarrow> copy_loop copy_attempts fuel dv root item stagedPath rootCreatedSeq d1))"

definition resolve_staged ::
  "nat \<Rightarrow> 's daemon_env \<Rightarrow> Root \<Rightarrow> ScanEntry \<Rightarrow> int \<Rightarrow> string \<Rightarrow> int \<Rightarrow> 's daemon \<Rightarrow> 's outcome" where
  "resolve_staged fuel dv root item currentSeq stagedPath rootCreatedSeq d =
     (let baselineHash = baseline_hash (cr_RootID root) (sc_RelPath item) (mc_db d) in
      case fetchCurrentRemoteHead dv currentSeq d of
        (Inl e, d1) \<Rightarrow> Some (Some e, False, d1)
      | (Inr event, d1) \<Rightarrow>
          (case make_room event item d1 of
             (Some e, d2) \<Rightarrow> Some (Some e, False, d2)
           | (None, d2) \<Rightarrow>
               (case applyRemoteEvent dv event d2 of
                  (Some e, d3) \<Rightarrow> Some (Some e, False, d3)
                | (None, d3) \<Rightarrow> settle_conflict fuel dv root item stagedPath baselineHash rootCreatedSeq d3)))"

text \<open>The two deferred functions.\<close>

definition resolve_finish ::
  "'s daemon_env \<Rightarrow> Root \<Rightarrow> ScanEntry \<Rightarrow> string \<Rightarrow> go_error option \<Rightarrow> bool \<Rightarrow> 's daemon
    \<Rightarrow> go_error option \<times> 's daemon" where
  "resolve_finish dv root item stagedPath returnErr localPreserved d =
     (case returnErr of
        None \<Rightarrow> (None, cleanup stagedPath d)
      | Some e \<Rightarrow>
          if localPreserved then (Some e, cleanup stagedPath d)
          else (case restoreStagedFileReplacingTarget dv root item stagedPath d of
                  (None, d1) \<Rightarrow> (Some e, cleanup stagedPath d1)
                | (Some restoreErr, d1) \<Rightarrow>
                    (Some (Wrapped (error_text (dv_describe dv) e @ ''; restore staged local file'') restoreErr), d1)))"

definition resolveFileConflictForIncarnation ::
  "nat \<Rightarrow> 's daemon_env \<Rightarrow> Root \<Rightarrow> ScanEntry \<Rightarrow> int \<Rightarrow> int \<Rightarrow> 's daemon \<Rightarrow> (go_error option \<times> 's daemon) option" where
  "resolveFileConflictForIncarnation fuel dv root item currentSeq rootCreatedSeq d =
     (case stageLocalFileCopy dv (sc_AbsPath item) d of
        (Inl e, d1) \<Rightarrow> Some (Some e, d1)
      | (Inr stagedPath, d1) \<Rightarrow>
          (case resolve_staged fuel dv root item currentSeq stagedPath rootCreatedSeq d1 of
             None \<Rightarrow> None
           | Some (returnErr, localPreserved, d2) \<Rightarrow>
               Some (resolve_finish dv root item stagedPath returnErr localPreserved d2)))"

end
