(* ===== verification/Rescan.thy ===== *)
theory Rescan
  imports Conflict
begin

text \<open>
  How local changes reach the server (\<^verbatim>\<open>internal/client/daemon/daemon.go\<close>,
  \<open>rescanRootHintWithRetry\<close>): a root, or the part a hint names, is scanned and
  compared with the entries the daemon last agreed on with the server; what is gone
  is submitted as a deletion, what is new or different as a directory or a file.
  A refused submission resolves the conflict first and, once, starts over.
  The Go map of known entries is visited in the order of its rows.
\<close>

section \<open>Moving a directory\<close>

definition path_below :: "string \<Rightarrow> string \<Rightarrow> bool" where
  "path_below dir p \<longleftrightarrow> p = dir \<or> prefix (dir @ ''/'') p"

text \<open>\<open>os.Rename\<close>: an empty directory may be replaced, by a directory.\<close>

definition rename_refused :: "(tree \<Rightarrow> string list) \<Rightarrow> string \<Rightarrow> string \<Rightarrow> fsys \<Rightarrow> bool" where
  "rename_refused listing old new fs \<longleftrightarrow>
     fs_tree fs old = None \<or> path_below old new
     \<or> \<not> (fs_tree fs (Dir new) = Some NodeDir \<or> fs_tree fs (Dir new) = Some NodeSymlink)
     \<or> (if fs_tree fs old = Some NodeDir
        then fs_tree fs new \<noteq> None \<and> (fs_tree fs new \<noteq> Some NodeDir \<or> ReadDir listing (fs_tree fs) new \<noteq> [])
        else fs_tree fs new = Some NodeDir)"

definition move_map :: "string \<Rightarrow> string \<Rightarrow> (string \<rightharpoonup> 'a) \<Rightarrow> (string \<rightharpoonup> 'a)" where
  "move_map old new f =
     (\<lambda>p. if path_below new p then f (old @ drop (length new) p) else if path_below old p then None else f p)"

definition rename_tree :: "'s daemon_env \<Rightarrow> string \<Rightarrow> string \<Rightarrow> 's daemon \<Rightarrow> bool \<times> 's daemon" where
  "rename_tree dv old new d =
     (let (lu, d1) = draw d; fs = mc_fs d1 in
      if ft_rename (lu_faults lu) \<or> rename_refused (dv_listing dv) old new fs then (False, d1)
      else (True, d1\<lparr>mc_fs := \<lparr>fs_tree = move_map old new (fs_tree fs), fs_data = move_map old new (fs_data fs),
                             fs_meta = move_map old new (fs_meta fs)\<rparr>\<rparr>))"

section \<open>A directory the server has something else for\<close>

primrec free_conflict_path ::
  "nat \<Rightarrow> 's daemon_env \<Rightarrow> Root \<Rightarrow> ScanEntry \<Rightarrow> 's daemon \<Rightarrow> (go_error + string) \<times> 's daemon" where
  "free_conflict_path 0 = (\<lambda>dv root item d. (Inl (Failed ''could not allocate a directory conflict-copy path''), d))"
| "free_conflict_path (Suc left) = (\<lambda>dv root item d.
     let (lu, d1) = draw d;
         candidate = conflictRelPath (dv_stamp dv) (sc_RelPath item) (cr_TargetAbsPath root) (dv_DeviceName dv)
           (lu_now lu + int (copy_attempts - Suc left)) in
     case Lstat (fs_tree (mc_fs d1)) (Join [cr_TargetAbsPath root, candidate]) of
       Inl e \<Rightarrow> (Inl (PathFailed e), d1)
     | Inr None \<Rightarrow> (Inr candidate, d1)
     | Inr (Some _) \<Rightarrow> free_conflict_path left dv root item d1)"

definition head_materialized :: "EventRecord \<Rightarrow> Entry option \<Rightarrow> bool" where
  "head_materialized event remote \<longleftrightarrow>
     (case remote of None \<Rightarrow> False
      | Some r \<Rightarrow> en_CurrentSeq r = er_Seq event
          \<and> (if er_EventType event = EventDelete then en_Deleted r else \<not> en_Deleted r \<and> en_Kind r = RootKindFile))"

definition preserveInitialDirectoryTypeConflict ::
  "'s daemon_env \<Rightarrow> Root \<Rightarrow> ScanEntry \<Rightarrow> EventRecord \<Rightarrow> 's daemon \<Rightarrow> go_error option \<times> 's daemon" where
  "preserveInitialDirectoryTypeConflict dv root item event d =
     (if sc_RelPath item = [] then (Some (Failed ''cannot preserve a type conflict at the directory root''), d)
      else case free_conflict_path copy_attempts dv root item d of
        (Inl e, d1) \<Rightarrow> (Some e, d1)
      | (Inr relPath, d1) \<Rightarrow>
          (let here = sc_AbsPath item; aside = Join [cr_TargetAbsPath root, relPath] in
           case RejectSymlinkParents (cr_TargetAbsPath root) here (fs_tree (mc_fs d1)) of
             Some e \<Rightarrow> (Some (PathFailed e), d1)
           | None \<Rightarrow>
          (case RejectSymlinkParents (cr_TargetAbsPath root) aside (fs_tree (mc_fs d1)) of
             Some e \<Rightarrow> (Some (PathFailed e), d1)
           | None \<Rightarrow>
          (case rename_tree dv here aside d1 of
             (False, d2) \<Rightarrow> (Some (OsFailed ''rename''), d2)
           | (True, d2) \<Rightarrow>
          (case applyRemoteEvent dv event d2 of
             (Some e, d3) \<Rightarrow> (Some e, snd (rename_tree dv aside here d3))
           | (None, d3) \<Rightarrow>
               if head_materialized event (EntriesForRoot (cr_RootID root) (mc_db d3) (sc_RelPath item)) then (None, d3)
               else (case rename_tree dv aside here (d3\<lparr>mc_fs := RemoveAll here (mc_fs d3)\<rparr>) of
                       (False, d4) \<Rightarrow>
                         (Some (Wrapped ''remote type head was rejected and local directory restoration failed''
                            (OsFailed ''rename'')), d4)
                     | (True, d4) \<Rightarrow> (Some (Failed ''remote type head was not materialized''), d4)))))))"

definition resolveDirectoryConflict ::
  "'s daemon_env \<Rightarrow> Root \<Rightarrow> ScanEntry \<Rightarrow> int \<Rightarrow> 's daemon \<Rightarrow> go_error option \<times> 's daemon" where
  "resolveDirectoryConflict dv root item currentSeq d =
     (case fetchCurrentRemoteHead dv currentSeq d of
        (Inl e, d1) \<Rightarrow> (Some e, d1)
      | (Inr event, d1) \<Rightarrow>
          if er_EventType event \<noteq> EventDirPut then preserveInitialDirectoryTypeConflict dv root item event d1
          else (case applyRemoteEvent dv event d1 of
             (Some e, d2) \<Rightarrow> (Some e, d2)
           | (None, d2) \<Rightarrow>
               (case EntriesForRoot (cr_RootID root) (mc_db d2) (sc_RelPath item) of
                  None \<Rightarrow> (Some (Failed ''remote head does not represent the expected directory''), d2)
                | Some remote \<Rightarrow>
                    (if en_Deleted remote \<or> en_Kind remote \<noteq> RootKindDir
                     then Some (Failed ''remote head does not represent the expected directory'') else None, d2))))"

section \<open>One entry of a rescan\<close>

record rescan_opts =
  ro_hint :: string
  ro_allowRetry :: bool
  ro_queueRetryable :: bool
  ro_forceEntries :: bool
  ro_expectedRootSeq :: int

text \<open>
  How an iteration goes on: with the next entry, by returning, or by starting over
  without another retry, entries forced or not.
\<close>

datatype 's flow = Next "'s daemon" | Stop "(go_error option \<times> 's daemon) option" | Again bool "'s daemon"

fun run_entries :: "('a \<Rightarrow> 's daemon \<Rightarrow> 's flow) \<Rightarrow> 'a list \<Rightarrow> 's daemon \<Rightarrow> 's flow" where
  "run_entries f [] d = Next d"
| "run_entries f (x # xs) d = (case f x d of Next d' \<Rightarrow> run_entries f xs d' | other \<Rightarrow> other)"

definition stop_or_queue :: "'s daemon_env \<Rightarrow> string \<Rightarrow> rescan_opts \<Rightarrow> go_error \<Rightarrow> 's daemon \<Rightarrow> 's flow" where
  "stop_or_queue dv rootID ro e d =
     Stop (Some (if ro_queueRetryable ro \<and> isRetryableSyncError (dv_describe dv) e
       then queuePendingRootRescan (dv_formatTime dv) (dv_describe dv) rootID (Some e) d else (Some e, d)))"

definition retry_initial :: go_error where
  "retry_initial = Failed ''retry initial reconciliation after applying a conflicting head''"

text \<open>After a conflict of an entry was resolved.\<close>

definition after_conflict :: "rescan_opts \<Rightarrow> 's daemon \<Rightarrow> 's flow" where
  "after_conflict ro d =
     (if ro_forceEntries ro then Stop (Some (Some retry_initial, d))
      else if ro_allowRetry ro then Again False d else Next d)"

definition rescan_delete ::
  "nat \<Rightarrow> 's daemon_env \<Rightarrow> Root \<Rightarrow> rescan_opts \<Rightarrow> ScanEntry list \<Rightarrow> string \<times> Entry \<Rightarrow> 's daemon \<Rightarrow> 's flow" where
  "rescan_delete fuel dv root ro scanned known d =
     (let (relPath, old) = known; rootID = cr_RootID root in
      if list_ex (\<lambda>item. sc_RelPath item = relPath) scanned \<or> en_Deleted old then Next d
      else let (lu, d1) = draw d in
      if shouldSuppressIgnoredDelete rootID relPath (lu_now lu) (mc_db d1) then Next d1
      else (case submit_delete dv rootID (en_PathID old) relPath (en_CurrentSeq old) (ro_expectedRootSeq ro) d1 of
         (Inr resp, d2) \<Rightarrow>
           Next (on_db (MarkEntryDeleted (submitted_delete old rootID relPath (es_AcceptedSeq resp))) d2)
       | (Inl e, d2) \<Rightarrow>
           (case (if ro_allowRetry ro then path_conflict e else None) of
              Some (currentSeq, _) \<Rightarrow>
                (case applyCurrentRemoteHead fuel dv currentSeq d2 of
                   Some (None, d3) \<Rightarrow> Again (ro_forceEntries ro) d3
                 | result \<Rightarrow> Stop result)
            | None \<Rightarrow> stop_or_queue dv rootID ro e d2)))"

definition rescan_dir ::
  "'s daemon_env \<Rightarrow> Root \<Rightarrow> rescan_opts \<Rightarrow> Entry option \<Rightarrow> ScanEntry \<Rightarrow> 's daemon \<Rightarrow> 's flow" where
  "rescan_dir dv root ro known item d =
     (let rootID = cr_RootID root; pathID = PathID (dv_px dv) (dv_keys dv) rootID (sc_RelPath item);
          baseSeq = (case known of None \<Rightarrow> 0 | Some old \<Rightarrow> en_CurrentSeq old);
          same = (case known of None \<Rightarrow> False | Some old \<Rightarrow>
            \<not> en_Deleted old \<and> en_Kind old = RootKindDir \<and> en_Mode old = sc_Mode item) in
      if \<not> ro_forceEntries ro \<and> same then
        Next (if en_MTimeNS (the known) \<noteq> sc_MTimeNS item
              then on_db (UpsertEntry ((the known)\<lparr>en_MTimeNS := sc_MTimeNS item\<rparr>)) d else d)
      else (case submit_dir dv rootID pathID item baseSeq (ro_expectedRootSeq ro) d of
         (Inr resp, d1) \<Rightarrow> Next (on_db (UpsertEntry (submitted_dir rootID pathID item (es_AcceptedSeq resp))) d1)
       | (Inl e, d1) \<Rightarrow>
           (case path_conflict e of
              None \<Rightarrow> stop_or_queue dv rootID ro e d1
            | Some (currentSeq, _) \<Rightarrow>
                (case resolveDirectoryConflict dv root item currentSeq d1 of
                   (Some e', d2) \<Rightarrow> Stop (Some (Some e', d2)) | (None, d2) \<Rightarrow> after_conflict ro d2))))"

definition rescan_file ::
  "nat \<Rightarrow> 's daemon_env \<Rightarrow> Root \<Rightarrow> rescan_opts \<Rightarrow> Entry option \<Rightarrow> ScanEntry \<Rightarrow> 's daemon \<Rightarrow> 's flow" where
  "rescan_file fuel dv root ro known item d =
     (let rootID = cr_RootID root; pathID = PathID (dv_px dv) (dv_keys dv) rootID (sc_RelPath item);
          baseSeq = (case known of None \<Rightarrow> 0 | Some old \<Rightarrow> en_CurrentSeq old);
          same = (case known of None \<Rightarrow> False | Some old \<Rightarrow>
            \<not> en_Deleted old \<and> en_Kind old = RootKindFile \<and> en_ContentSHA256 old = sc_ContentSHA256 item
            \<and> en_Mode old = sc_Mode item \<and> en_MTimeNS old = sc_MTimeNS item) in
      if \<not> ro_forceEntries ro \<and> same then Next d
      else let (lu, d1) = draw d in
      if shouldSuppressIgnoredEntry rootID item (lu_now lu) (mc_db d1) then Next d1
      else (case upload_file dv rootID pathID (sc_RelPath item) (sc_AbsPath item) (sc_Mode item) (sc_MTimeNS item) d1 of
         (Inl e, d2) \<Rightarrow> stop_or_queue dv rootID ro e d2
       | (Inr up, d2) \<Rightarrow>
           (case submit_file dv rootID pathID up baseSeq (ro_expectedRootSeq ro) d2 of
              (Inr resp, d3) \<Rightarrow>
                Next (on_db (UpsertEntry (submitted_file rootID (sc_RelPath item) pathID (ur_Payload up)
                  (es_AcceptedSeq resp))) d3)
            | (Inl e, d3) \<Rightarrow>
                (case path_conflict e of
                   None \<Rightarrow> stop_or_queue dv rootID ro e d3
                 | Some (currentSeq, _) \<Rightarrow>
                     (case resolveFileConflictForIncarnation fuel dv root item currentSeq (ro_expectedRootSeq ro) d3 of
                        Some (None, d4) \<Rightarrow> after_conflict ro d4
                      | result \<Rightarrow> Stop result)))))"

section \<open>One pass\<close>

definition scan_env_of :: "'s daemon_env \<Rightarrow> scan_env" where
  "scan_env_of dv =
     \<lparr>sx_sha256 = px_sha256 (dv_px dv), sx_listing = dv_listing dv, sx_link = dv_link dv,
      sx_fresh = dv_fresh dv, sx_dirsize = dv_dirsize dv\<rparr>"

fun scan_failure :: "scan_error \<Rightarrow> go_error" where
  "scan_failure (ScanNotExist p) = OsFailed ''no such file or directory''"
| "scan_failure ScanInvalid = OsFailed ''invalid argument''"
| "scan_failure (ScanFailed p) = OsFailed ''scan''"

definition rootPathMissing :: "string \<Rightarrow> tree \<Rightarrow> bool" where
  "rootPathMissing path t \<longleftrightarrow> Lstat t path = Inr None"

definition handleDeletedRoot ::
  "nat \<Rightarrow> 's daemon_env \<Rightarrow> Root \<Rightarrow> bool \<Rightarrow> int \<Rightarrow> 's daemon \<Rightarrow> (go_error option \<times> 's daemon) option" where
  "handleDeletedRoot fuel dv root queueRetryable expectedRootSeq d =
     (if cr_State root \<noteq> RootStateActive then Some (None, d)
      else case submit_root_remove dv (cr_RootID root) expectedRootSeq d of
        (None, d1) \<Rightarrow> bootstrapOrCatchUp fuel dv d1
      | (Some e, d1) \<Rightarrow>
          if isBenignRootRemoveError (dv_describe dv) e then Some (None, markRootRemoved root d1)
          else if queueRetryable \<and> isRetryableSyncError (dv_describe dv) e then
            (let (lu, d2) = draw (markRootRemoved root d1) in
             case QueueRootRemove (dv_formatTime dv) (cr_RootID root) (lu_now lu) (mc_db d2) of
               (Inl _, s) \<Rightarrow> Some (Some (OsFailed ''database''), d2\<lparr>mc_db := s\<rparr>)
             | (Inr _, s) \<Rightarrow>
                 Some (None, on_db (SetConnectionStateWithKind ConnectionDegraded
                   (Some (lifecycleKind e IssueTransport)) (error_text (dv_describe dv) e)) (d2\<lparr>mc_db := s\<rparr>)))
          else Some (Some e, d1))"

definition known_entries :: "string \<Rightarrow> client_db \<Rightarrow> (string \<rightharpoonup> Entry) \<Rightarrow> (string \<times> Entry) list" where
  "known_entries rootID s current =
     List.map_filter (\<lambda>r. map_option (\<lambda>e. (er_path r, e)) (current (er_path r)))
       (filter (\<lambda>r. er_root r = rootID) (c_entries s))"

definition rescan_entries ::
  "nat \<Rightarrow> 's daemon_env \<Rightarrow> Root \<Rightarrow> rescan_opts \<Rightarrow> ScanEntry list \<Rightarrow> 's daemon \<Rightarrow> 's flow" where
  "rescan_entries fuel dv root ro scanned d =
     (let rootID = cr_RootID root; current = filterEntriesByHint (EntriesForRoot rootID (mc_db d)) (ro_hint ro) in
      case run_entries (rescan_delete fuel dv root ro scanned) (known_entries rootID (mc_db d) current) d of
        Next d1 \<Rightarrow>
          run_entries (\<lambda>item. if sc_Kind item = RootKindDir
              then rescan_dir dv root ro (current (sc_RelPath item)) item
              else rescan_file fuel dv root ro (current (sc_RelPath item)) item) scanned d1
      | other \<Rightarrow> other)"

text \<open>Everything was submitted: the root is watched and the daemon catches up with its own events.\<close>

definition rescan_done :: "nat \<Rightarrow> 's daemon_env \<Rightarrow> Root \<Rightarrow> 's daemon \<Rightarrow> (go_error option \<times> 's daemon) option" where
  "rescan_done fuel dv root d =
     (let rootID = cr_RootID root in
      bootstrapOrCatchUp fuel dv (snd (addWatcherRoot rootID (cr_TargetAbsPath root) (clearStagedRoot rootID d))))"

definition rescan_scanned ::
  "nat \<Rightarrow> 's daemon_env \<Rightarrow> Root \<Rightarrow> rescan_opts \<Rightarrow> ScanEntry list \<Rightarrow> string list \<Rightarrow> 's daemon \<Rightarrow> 's flow" where
  "rescan_scanned fuel dv root ro scanned warnings d =
     (case rescan_entries fuel dv root ro scanned (recordScanWarnings root warnings d) of
        Next d1 \<Rightarrow> Stop (rescan_done fuel dv root d1) | other \<Rightarrow> other)"

definition rescan_pass ::
  "nat \<Rightarrow> 's daemon_env \<Rightarrow> string \<Rightarrow> rescan_opts \<Rightarrow> 's daemon \<Rightarrow> 's flow" where
  "rescan_pass fuel dv rootID ro d =
     (case RootByID rootID (mc_db d) of
        None \<Rightarrow> Stop (Some (Some ErrNoRows, d))
      | Some root \<Rightarrow>
          if cr_State root \<noteq> RootStateActive then Stop (Some (None, d))
          else (case ScanSubtree (scan_env_of dv) (mc_fs d) (cr_TargetAbsPath root) (ro_hint ro) of
             Inr result \<Rightarrow> rescan_scanned fuel dv root ro (sl_Entries result) (sl_Warnings result) d
           | Inl (ScanNotExist p) \<Rightarrow>
               if cr_Kind root = RootKindDir \<and> rootPathMissing (cr_TargetAbsPath root) (fs_tree (mc_fs d))
               then Stop (handleDeletedRoot fuel dv root (ro_queueRetryable ro) (ro_expectedRootSeq ro) d)
               else rescan_scanned fuel dv root ro [] [] d
           | Inl e \<Rightarrow> Stop (Some (Some (scan_failure e), d))))"

text \<open>The second round does not retry, so two rounds are enough.\<close>

primrec rescan_rounds ::
  "nat \<Rightarrow> nat \<Rightarrow> 's daemon_env \<Rightarrow> string \<Rightarrow> rescan_opts \<Rightarrow> 's daemon \<Rightarrow> (go_error option \<times> 's daemon) option" where
  "rescan_rounds 0 = (\<lambda>fuel dv rootID ro d. None)"
| "rescan_rounds (Suc rounds) = (\<lambda>fuel dv rootID ro d.
     case rescan_pass fuel dv rootID ro d of
       Stop result \<Rightarrow> result
     | Next d1 \<Rightarrow> Some (None, d1)
     | Again force d1 \<Rightarrow>
         rescan_rounds rounds fuel dv rootID (ro\<lparr>ro_allowRetry := False, ro_forceEntries := force\<rparr>) d1)"

definition rescanRootHintWithRetry ::
  "nat \<Rightarrow> 's daemon_env \<Rightarrow> string \<Rightarrow> string \<Rightarrow> bool \<Rightarrow> bool \<Rightarrow> bool \<Rightarrow> int \<Rightarrow> 's daemon
    \<Rightarrow> (go_error option \<times> 's daemon) option" where
  "rescanRootHintWithRetry fuel dv rootID relPathHint allowRetry queueRetryable forceEntries expectedRootSeq =
     rescan_rounds 2 fuel dv rootID
       \<lparr>ro_hint = normalizeRescanHint relPathHint, ro_allowRetry = allowRetry, ro_queueRetryable = queueRetryable,
        ro_forceEntries = forceEntries, ro_expectedRootSeq = expectedRootSeq\<rparr>"

definition rescanRootHint ::
  "nat \<Rightarrow> 's daemon_env \<Rightarrow> string \<Rightarrow> string \<Rightarrow> 's daemon \<Rightarrow> (go_error option \<times> 's daemon) option" where
  "rescanRootHint fuel dv rootID relPathHint = rescanRootHintWithRetry fuel dv rootID relPathHint True True False 0"

definition rescanRoot ::
  "nat \<Rightarrow> 's daemon_env \<Rightarrow> string \<Rightarrow> 's daemon \<Rightarrow> (go_error option \<times> 's daemon) option" where
  "rescanRoot fuel dv rootID = rescanRootHint fuel dv rootID []"

definition rescanRootWithRetry ::
  "nat \<Rightarrow> 's daemon_env \<Rightarrow> string \<Rightarrow> bool \<Rightarrow> bool \<Rightarrow> 's daemon \<Rightarrow> (go_error option \<times> 's daemon) option" where
  "rescanRootWithRetry fuel dv rootID allowRetry queueRetryable =
     rescanRootHintWithRetry fuel dv rootID [] allowRetry queueRetryable False 0"

end
