(* ===== verification/ScanCorrect.thy ===== *)
theory ScanCorrect
  imports Scanner PathsCorrect
begin

text \<open>
  What a scan of a directory finds: exactly the directories and regular files below
  it that carry no staging name, each described as it is, in the order of the scan.
\<close>

section \<open>Absolute paths\<close>

definition abs_path :: "string list \<Rightarrow> string" where
  "abs_path cs = slash # join_on slash cs"

lemma comps_abs_path [simp]: "good cs \<Longrightarrow> comps (abs_path cs) = cs"
  by (simp add: abs_path_def)

lemma abs_path_inj [simp]: "good cs \<Longrightarrow> good ds \<Longrightarrow> abs_path cs = abs_path ds \<longleftrightarrow> cs = ds"
  by (simp add: abs_path_def join_good_inj)

lemma Rel_abs_path: "good cs \<Longrightarrow> good ds \<Longrightarrow> ds \<noteq> [] \<Longrightarrow> Rel (abs_path cs) (abs_path (cs @ ds)) = Some (join_on slash ds)"
  by (simp add: abs_path_def Rel_below)

lemma Base_after_slash: "slash \<notin> set c \<Longrightarrow> c \<noteq> [] \<Longrightarrow> Base (x @ slash # c) = c"
proof -
  assume c: "slash \<notin> set c" "c \<noteq> []"
  then have "hd (rev c) \<noteq> slash" by (metis hd_in_set rev_is_Nil_conv set_rev)
  then have "dropWhile (\<lambda>c. c = slash) (rev c @ y) = rev c @ y" for y
    using c(2) by (cases "rev c") simp_all
  moreover have "takeWhile (\<lambda>c. c \<noteq> slash) (rev c @ slash # y) = rev c" for y
    by (subst takeWhile_append2) (use c in auto)
  ultimately show ?thesis using c(2) by (simp add: Base_def)
qed

lemma Base_abs_path:
  assumes "good cs" and "cs \<noteq> []" shows "Base (abs_path cs) = last cs"
proof -
  obtain ds c where cs: "cs = ds @ [c]" using assms(2) by (cases cs rule: rev_cases) auto
  have c: "slash \<notin> set c" "c \<noteq> []" using assms(1) by (simp_all add: cs proper_def)
  have "\<exists>x. abs_path cs = x @ slash # c"
  proof (cases "ds = []")
    case True
    then show ?thesis by (intro exI [of _ "[]"]) (simp add: cs abs_path_def)
  next
    case False
    then show ?thesis by (intro exI [of _ "abs_path ds"]) (simp add: cs abs_path_def join_on_append)
  qed
  with c show ?thesis by (auto simp: cs Base_after_slash)
qed

section \<open>File systems as a scan reads them\<close>

text \<open>Reading directories yields what the tree holds, and files can be read.\<close>

definition readable :: "scan_env \<Rightarrow> fsys \<Rightarrow> bool" where
  "readable sx fs \<longleftrightarrow> fs_ok fs \<and> set (sx_listing sx (fs_tree fs)) = {p. fs_tree fs p \<noteq> None}
     \<and> distinct (sx_listing sx (fs_tree fs)) \<and> (\<forall>p. fs_tree fs p \<noteq> None \<longrightarrow> (\<exists>cs. good cs \<and> p = abs_path cs))"

definition staged_name :: "string \<Rightarrow> bool" where
  "staged_name c \<longleftrightarrow> prefix staging_prefix c"

text \<open>The entry of what lies at \<open>ds\<close> below the directory \<open>rs\<close>.\<close>

definition entry_below :: "scan_env \<Rightarrow> fsys \<Rightarrow> string list \<Rightarrow> string list \<Rightarrow> ScanEntry option" where
  "entry_below sx fs rs ds =
     (let p = abs_path (rs @ ds); rel = join_on slash ds in
      if list_ex staged_name ds then None
      else case fs_tree fs p of
        Some NodeDir \<Rightarrow> Some (statEntry sx fs rel p RootKindDir [])
      | Some NodeFile \<Rightarrow>
          map_option (\<lambda>b. statEntry sx fs rel p RootKindFile (hex_encode (sx_sha256 sx b))) (fs_data fs p)
      | _ \<Rightarrow> None)"

lemma entry_below_rel: "entry_below sx fs rs ds = Some e \<Longrightarrow> sc_RelPath e = join_on slash ds"
  by (auto simp: entry_below_def Let_def statEntry_def split: if_splits option.splits node.splits)

definition option_list :: "'a option \<Rightarrow> 'a list" where
  "option_list x = (case x of None \<Rightarrow> [] | Some y \<Rightarrow> [y])"

lemma set_option_list [simp]: "set (option_list x) = set_option x"
  by (cases x) (simp_all add: option_list_def)

lemma visit_below:
  assumes "readable sx fs" and "good rs" and "good ds" and "ds \<noteq> []" and "fs_tree fs (abs_path (rs @ ds)) \<noteq> None"
    and "\<not> list_ex staged_name (butlast ds)"
  shows "\<exists>ws'. visit sx fs (abs_path rs) (abs_path (rs @ ds)) (es, ws) = Inr (es @ option_list (entry_below sx fs rs ds), ws')"
proof -
  let ?p = "abs_path (rs @ ds)"
  have stg: "isInternalStagingPath ?p \<longleftrightarrow> list_ex staged_name ds"
  proof -
    have "list_ex staged_name ds \<longleftrightarrow> staged_name (last ds)"
      using assms(4,6) by (cases ds rule: rev_cases) simp_all
    then show ?thesis using assms(2-4) by (simp add: isInternalStagingPath_def Base_abs_path staged_name_def)
  qed
  have rel: "Rel (abs_path rs) ?p = Some (join_on slash ds)" using assms(2-4) by (rule Rel_abs_path)
  obtain n where n: "fs_tree fs ?p = Some n" using assms(5) by blast
  have data: "n = NodeFile \<Longrightarrow> \<exists>b. fs_data fs ?p = Some b" using assms(1) n unfolding readable_def fs_ok_def by blast
  show ?thesis
    using stg rel n data
    by (cases n)
      (auto simp: visit_def entry_below_def Let_def option_list_def file_entry_def hashFile_def read_file_def)
qed

lemma visit_all_below:
  assumes "readable sx fs" and "good rs"
    and "\<forall>ds \<in> set dss. good ds \<and> ds \<noteq> [] \<and> fs_tree fs (abs_path (rs @ ds)) \<noteq> None \<and> \<not> list_ex staged_name (butlast ds)"
  shows "\<exists>ws'. visit_all sx fs (abs_path rs) (map (\<lambda>ds. abs_path (rs @ ds)) dss) (es, ws)
      = Inr (es @ concat (map (\<lambda>ds. option_list (entry_below sx fs rs ds)) dss), ws')"
  using assms(3)
proof (induction dss arbitrary: es ws)
  case (Cons ds dss)
  obtain ws1 where "visit sx fs (abs_path rs) (abs_path (rs @ ds)) (es, ws)
      = Inr (es @ option_list (entry_below sx fs rs ds), ws1)"
    using visit_below [OF assms(1,2)] Cons.prems by (metis list.set_intros(1))
  moreover obtain ws2 where "visit_all sx fs (abs_path rs) (map (\<lambda>ds. abs_path (rs @ ds)) dss)
      (es @ option_list (entry_below sx fs rs ds), ws1)
      = Inr ((es @ option_list (entry_below sx fs rs ds)) @ concat (map (\<lambda>ds. option_list (entry_below sx fs rs ds)) dss), ws2)"
    using Cons.IH [of "es @ option_list (entry_below sx fs rs ds)" ws1] Cons.prems by auto
  ultimately show ?case by simp
qed simp

text \<open>The paths of the walk are those of the tree, without what lies below a staging name.\<close>

lemma walk_paths_below:
  assumes "readable sx fs" and "good rs"
  obtains dss where "walk_paths sx fs (abs_path rs) = map (\<lambda>ds. abs_path (rs @ ds)) dss" and "distinct dss"
    and "set dss = {ds. good ds \<and> ds \<noteq> [] \<and> fs_tree fs (abs_path (rs @ ds)) \<noteq> None \<and> \<not> list_ex staged_name (butlast ds)}"
proof -
  let ?W = "walk_paths sx fs (abs_path rs)"
  define dss where "dss = map (\<lambda>p. drop (length rs) (comps p)) ?W"
  have set_W: "set ?W = {p. fs_tree fs p \<noteq> None \<and> length rs < length (comps p) \<and> prefix rs (comps p)
      \<and> \<not> list_ex staged_name (butlast (drop (length rs) (comps p)))}"
    using assms by (auto simp: walk_paths_def Let_def readable_def staged_name_def [abs_def])
  have form: "\<exists>ds. p = abs_path (rs @ ds) \<and> good ds \<and> ds \<noteq> [] \<and> drop (length rs) (comps p) = ds" if "p \<in> set ?W" for p
  proof -
    from that set_W have p: "fs_tree fs p \<noteq> None" "length rs < length (comps p)" "prefix rs (comps p)" by auto
    then obtain cs where cs: "good cs" "p = abs_path cs" using assms(1) unfolding readable_def by blast
    with p(3) obtain ds where "cs = rs @ ds" by (auto simp: prefix_def)
    with cs p(2) show ?thesis by (intro exI [of _ ds]) auto
  qed
  have W: "?W = map (\<lambda>ds. abs_path (rs @ ds)) dss"
    unfolding dss_def map_map by (rule map_idI [symmetric]) (use form in force)
  have "distinct ?W" using assms(1) by (simp add: walk_paths_def Let_def readable_def)
  then have "distinct dss" using W by (simp add: distinct_map)
  moreover have "set dss = {ds. good ds \<and> ds \<noteq> [] \<and> fs_tree fs (abs_path (rs @ ds)) \<noteq> None \<and> \<not> list_ex staged_name (butlast ds)}"
  proof (intro set_eqI iffI)
    fix ds assume "ds \<in> set dss"
    then obtain p where p: "p \<in> set ?W" "ds = drop (length rs) (comps p)" by (auto simp: dss_def)
    with form [OF p(1)] set_W show "ds \<in> {ds. good ds \<and> ds \<noteq> [] \<and> fs_tree fs (abs_path (rs @ ds)) \<noteq> None
        \<and> \<not> list_ex staged_name (butlast ds)}" by auto
  next
    fix ds assume "ds \<in> {ds. good ds \<and> ds \<noteq> [] \<and> fs_tree fs (abs_path (rs @ ds)) \<noteq> None \<and> \<not> list_ex staged_name (butlast ds)}"
    then have "abs_path (rs @ ds) \<in> set ?W" "drop (length rs) (comps (abs_path (rs @ ds))) = ds"
      using assms(2) by (auto simp: set_W)
    then show "ds \<in> set dss" by (force simp: dss_def)
  qed
  ultimately show ?thesis using W by (intro that)
qed

section \<open>The order of a scan\<close>

definition scan_key :: "ScanEntry \<Rightarrow> bool \<times> bool \<times> string" where
  "scan_key e = (sc_RelPath e \<noteq> [], sc_Kind e \<noteq> RootKindDir, sc_RelPath e)"

lemma scan_order_key: "scan_order = sort_key scan_key"
  by (simp add: scan_order_def scan_key_def [abs_def])

lemma scan_order_sorted:
  assumes "distinct (map sc_RelPath es)"
  shows "sorted_wrt (<) (map scan_key (scan_order es))"
proof -
  have "distinct (map sc_RelPath (scan_order es))"
    using assms by (simp add: scan_order_key distinct_map)
  moreover have "map sc_RelPath (scan_order es) = map (snd \<circ> snd) (map scan_key (scan_order es))"
    by (simp add: scan_key_def)
  ultimately have "distinct (map scan_key (scan_order es))" by (metis distinct_map)
  then show ?thesis by (simp add: strict_sorted_iff scan_order_key)
qed

lemma distinct_entries_below:
  assumes "distinct dss" and "\<forall>ds \<in> set dss. good ds"
  shows "distinct (map sc_RelPath (concat (map (\<lambda>ds. option_list (entry_below sx fs rs ds)) dss)))"
  using assms
proof (induction dss)
  case (Cons ds dss)
  have "sc_RelPath e \<noteq> sc_RelPath e'"
    if "entry_below sx fs rs ds = Some e" "ds' \<in> set dss" "entry_below sx fs rs ds' = Some e'" for e e' ds'
    using that Cons.prems entry_below_rel [OF that(1)] entry_below_rel [OF that(3)] by (metis distinct.simps(2) join_good_inj list.set_intros)
  then have "sc_RelPath e \<notin> sc_RelPath ` (\<Union>ds' \<in> set dss. set_option (entry_below sx fs rs ds'))"
    if "entry_below sx fs rs ds = Some e" for e
    using that by (auto simp: image_iff)
  with Cons show ?case
    by (cases "entry_below sx fs rs ds") (auto simp: option_list_def image_iff split: option.splits)
qed simp

lemma ScanRoot_directory:
  assumes "readable sx fs" and "good rs" and "fs_tree fs (abs_path rs) = Some NodeDir"
  obtains res where "ScanRoot sx fs (abs_path rs) = Inr res" and "sl_RootKind res = RootKindDir"
    and "set (sl_Entries res) = {e. \<exists>ds. good ds \<and> entry_below sx fs rs ds = Some e}"
    and "sorted_wrt (<) (map scan_key (sl_Entries res))" and "distinct (map sc_RelPath (sl_Entries res))"
proof -
  obtain dss where w: "walk_paths sx fs (abs_path rs) = map (\<lambda>ds. abs_path (rs @ ds)) dss" "distinct dss"
    and set_dss: "set dss = {ds. good ds \<and> ds \<noteq> [] \<and> fs_tree fs (abs_path (rs @ ds)) \<noteq> None \<and> \<not> list_ex staged_name (butlast ds)}"
    by (rule walk_paths_below [OF assms(1,2)])
  define root where "root = statEntry sx fs [] (abs_path rs) RootKindDir []"
  have root: "entry_below sx fs rs [] = Some root" using assms(3) by (simp add: entry_below_def root_def)
  let ?es = "concat (map (\<lambda>ds. option_list (entry_below sx fs rs ds)) ([] # dss))"
  obtain ws where ws: "visit_all sx fs (abs_path rs) (walk_paths sx fs (abs_path rs)) ([root], []) = Inr (?es, ws)"
    using visit_all_below [OF assms(1,2), of dss "[root]" "[]"] w(1) set_dss by (auto simp: root option_list_def)
  have "scan_lstat fs (abs_path rs) = Inr NodeDir" using assms(3) by (simp add: scan_lstat_def Lstat_def)
  with ws have run: "ScanRoot sx fs (abs_path rs)
      = Inr \<lparr>sl_Entries = scan_order ?es, sl_Warnings = ws, sl_RootKind = RootKindDir\<rparr>"
    by (simp add: ScanRoot_def scan_def toRelPath_def root_def)
  have "e \<in> set ?es \<longleftrightarrow> (\<exists>ds. good ds \<and> entry_below sx fs rs ds = Some e)" for e
  proof
    assume "e \<in> set ?es"
    then show "\<exists>ds. good ds \<and> entry_below sx fs rs ds = Some e" using set_dss by auto
  next
    assume "\<exists>ds. good ds \<and> entry_below sx fs rs ds = Some e"
    then obtain ds where ds: "good ds" "entry_below sx fs rs ds = Some e" by blast
    then have "fs_tree fs (abs_path (rs @ ds)) \<noteq> None" "\<not> list_ex staged_name ds"
      by (auto simp: entry_below_def Let_def split: if_splits option.splits)
    then have "ds = [] \<or> ds \<in> set dss" using ds(1) by (auto simp: set_dss list_ex_iff dest: in_set_butlastD)
    with ds(2) show "e \<in> set ?es" by force
  qed
  then have "set (scan_order ?es) = {e. \<exists>ds. good ds \<and> entry_below sx fs rs ds = Some e}"
    by (auto simp: scan_order_key)
  moreover have d: "distinct (map sc_RelPath ?es)"
    by (rule distinct_entries_below) (use w(2) set_dss in auto)
  moreover from d have "distinct (map sc_RelPath (scan_order ?es))"
    by (simp only: scan_order_key distinct_map distinct_sort set_sort simp_thms)
  ultimately show ?thesis using run scan_order_sorted by (intro that) auto
qed

end
