(* ===== verification/RescanCorrect.thy ===== *)
theory RescanCorrect
  imports Rescan ScanCorrect ClientStateCorrect
begin

text \<open>
  A rescan that goes through all entries leaves the table of the root in agreement
  with the scan, but for what a rule of the daemon's own writes suppressed, and
  leaves the files alone.
\<close>

section \<open>What a step keeps\<close>

text \<open>The times the daemon will read.\<close>

definition readings :: "'s daemon \<Rightarrow> time set" where
  "readings d = range (\<lambda>n. lu_now (dm_luck d n))"

definition kept :: "string \<Rightarrow> string set \<Rightarrow> 's daemon \<Rightarrow> 's daemon \<Rightarrow> bool" where
  "kept rootID P d d' \<longleftrightarrow> mc_fs d' = mc_fs d \<and> c_ignores (mc_db d') = c_ignores (mc_db d)
     \<and> readings d' \<subseteq> readings d \<and> (client_inv (mc_db d) \<longrightarrow> client_inv (mc_db d'))
     \<and> (client_inv (mc_db d) \<longrightarrow> (\<forall>p. p \<notin> P \<longrightarrow> EntriesForRoot rootID (mc_db d') p = EntriesForRoot rootID (mc_db d) p))"

lemma kept_refl [simp]: "kept rootID P d d"
  by (simp add: kept_def)

lemma kept_trans: "kept rootID P d d1 \<Longrightarrow> kept rootID Q d1 d2 \<Longrightarrow> kept rootID (P \<union> Q) d d2"
  unfolding kept_def by auto

lemma kept_mono: "kept rootID P d d' \<Longrightarrow> P \<subseteq> Q \<Longrightarrow> kept rootID Q d d'"
  unfolding kept_def by auto

lemma draw_kept: "kept rootID P d (snd (draw d))" "lu_now (fst (draw d)) \<in> readings d"
  "mc_db (snd (draw d)) = mc_db d" "mc_fs (snd (draw d)) = mc_fs d"
  by (auto simp: kept_def draw_def readings_def)

lemma submit_kept:
  assumes "submitEventForIncarnation dv rootID pathID k t b q plain refs d = (r, d')"
  shows "kept rid P d d'" and "mc_db d' = mc_db d" and "mc_fs d' = mc_fs d"
  using assms
  by (auto simp: submitEventForIncarnation_def kept_def readings_def draw_def Let_def split: sum.splits prod.splits)

lemma upload_kept:
  assumes "upload_file dv rootID pathID rel absPath mode mtime d = (r, d')"
  shows "kept rid P d d'" and "mc_db d' = mc_db d" and "mc_fs d' = mc_fs d"
  using assms by (auto simp: upload_file_def kept_def readings_def draw_def Let_def split: prod.splits)

lemma EntriesForRoot_insertEntry:
  "client_inv s \<Longrightarrow> EntriesForRoot rootID (insertEntry e s) p
    = (if rootID = en_RootID e \<and> p = en_RelPath e then Some e else EntriesForRoot rootID s p)"
  using entry_at_insertEntry [of s "(rootID, p)" e] by (simp add: entry_at_def)

lemma insert_kept: "en_RootID e = rootID \<Longrightarrow> kept rootID {en_RelPath e} d (on_db (insertEntry e) d)"
  by (auto simp: kept_def on_db_def readings_def insertEntry_inv EntriesForRoot_insertEntry)
    (auto simp: insertEntry_def)

lemma ignore_cong:
  "c_ignores s' = c_ignores s \<Longrightarrow> shouldSuppressIgnoredEntry rootID item now s' = shouldSuppressIgnoredEntry rootID item now s"
  "c_ignores s' = c_ignores s \<Longrightarrow> shouldSuppressIgnoredDelete rootID p now s' = shouldSuppressIgnoredDelete rootID p now s"
  by (simp_all add: shouldSuppressIgnoredEntry_def shouldSuppressIgnoredDelete_def LookupIgnoreRule_def)

section \<open>Agreement\<close>

definition agrees :: "ScanEntry \<Rightarrow> Entry \<Rightarrow> bool" where
  "agrees item e \<longleftrightarrow> \<not> en_Deleted e \<and> en_Kind e = sc_Kind item \<and> en_Mode e = sc_Mode item
     \<and> en_MTimeNS e = sc_MTimeNS item \<and> (sc_Kind item = RootKindFile \<longrightarrow> en_ContentSHA256 e = sc_ContentSHA256 item)"

text \<open>The table says what the scan found, or the scan found what the daemon itself has just written.\<close>

definition settled :: "string \<Rightarrow> 's daemon \<Rightarrow> 's daemon \<Rightarrow> ScanEntry \<Rightarrow> bool" where
  "settled rootID d0 d item \<longleftrightarrow>
     (\<exists>e. EntriesForRoot rootID (mc_db d) (sc_RelPath item) = Some e \<and> agrees item e)
     \<or> (\<exists>now \<in> readings d0. shouldSuppressIgnoredEntry rootID item now (mc_db d0))"

definition settled_missing :: "string \<Rightarrow> 's daemon \<Rightarrow> 's daemon \<Rightarrow> string \<Rightarrow> bool" where
  "settled_missing rootID d0 d p \<longleftrightarrow>
     (case EntriesForRoot rootID (mc_db d) p of None \<Rightarrow> True | Some e \<Rightarrow> en_Deleted e)
     \<or> (\<exists>now \<in> readings d0. shouldSuppressIgnoredDelete rootID p now (mc_db d0))"

text \<open>What the scan says of a file is still true.\<close>

definition current_hash :: "primitives \<Rightarrow> fsys \<Rightarrow> ScanEntry \<Rightarrow> bool" where
  "current_hash px fs item \<longleftrightarrow> sc_Kind item = RootKindDir \<or> (sc_Kind item = RootKindFile
     \<and> (\<forall>b. fs_data fs (sc_AbsPath item) = Some b \<longrightarrow> sc_ContentSHA256 item = hex_encode (px_sha256 px b)))"

lemma settled_kept:
  assumes "settled rootID d0 d item" and "kept rootID P d d'" and "client_inv (mc_db d)" and "sc_RelPath item \<notin> P"
  shows "settled rootID d0 d' item"
  using assms by (auto simp: settled_def kept_def)

lemma settled_missing_kept:
  assumes "settled_missing rootID d0 d p" and "kept rootID P d d'" and "client_inv (mc_db d)" and "p \<notin> P"
  shows "settled_missing rootID d0 d' p"
  using assms by (auto simp: settled_missing_def kept_def)

section \<open>One entry\<close>

text \<open>Conflicts end the pass: it may be retried, or every entry is forced.\<close>

abbreviation conclusive :: "rescan_opts \<Rightarrow> bool" where
  "conclusive ro \<equiv> ro_allowRetry ro \<or> ro_forceEntries ro"

lemma after_conflict_not_Next: "conclusive ro \<Longrightarrow> after_conflict ro d \<noteq> Next d'"
  by (auto simp: after_conflict_def)

lemma rescan_dir_settled:
  assumes run: "rescan_dir dv root ro known item d = Next d'" and "conclusive ro" and inv: "client_inv (mc_db d)"
    and known: "known = EntriesForRoot (cr_RootID root) (mc_db d) (sc_RelPath item)" and dir: "sc_Kind item = RootKindDir"
  shows "kept (cr_RootID root) {sc_RelPath item} d d' \<and> settled (cr_RootID root) d0 d' item"
proof -
  let ?rid = "cr_RootID root"
  have key: "en_RootID old = ?rid \<and> en_RelPath old = sc_RelPath item" if "known = Some old" for old
    using that inv find_some_mem by (fastforce simp: known EntriesForRoot_find is_entry_def entry_of_row_def)
  show ?thesis
  proof (cases "\<not> ro_forceEntries ro \<and> (\<exists>old. known = Some old \<and> \<not> en_Deleted old \<and> en_Kind old = RootKindDir \<and> en_Mode old = sc_Mode item)")
    case True
    then obtain old where old: "known = Some old" "\<not> en_Deleted old" "en_Kind old = RootKindDir" "en_Mode old = sc_Mode item" by blast
    let ?e = "old\<lparr>en_MTimeNS := sc_MTimeNS item\<rparr>"
    have d': "d' = (if en_MTimeNS old \<noteq> sc_MTimeNS item then on_db (insertEntry ?e) d else d)"
      using run True old by (simp add: rescan_dir_def Let_def UpsertEntry_def [abs_def] split: if_splits)
    have "kept ?rid {sc_RelPath item} d (on_db (insertEntry ?e) d)" using insert_kept [of ?e ?rid d] key [OF old(1)] by simp
    moreover have "EntriesForRoot ?rid (mc_db d') (sc_RelPath item) = Some ?e"
      using key [OF old(1)] old(1) inv by (simp add: d' on_db_def EntriesForRoot_insertEntry known [symmetric])
    ultimately show ?thesis using old dir by (auto simp: settled_def agrees_def d')
  next
    case False
    then have "case submit_dir dv ?rid (PathID (dv_px dv) (dv_keys dv) ?rid (sc_RelPath item)) item
        (case known of None \<Rightarrow> 0 | Some old \<Rightarrow> en_CurrentSeq old) (ro_expectedRootSeq ro) d of
         (Inr resp, d1) \<Rightarrow> d' = on_db (insertEntry (submitted_dir ?rid (PathID (dv_px dv) (dv_keys dv) ?rid (sc_RelPath item)) item (es_AcceptedSeq resp))) d1
       | (Inl e, d1) \<Rightarrow> False"
      using run assms(2)
      by (auto simp: rescan_dir_def Let_def UpsertEntry_def [abs_def] stop_or_queue_def after_conflict_not_Next
          split: prod.splits sum.splits option.splits if_splits)
    then obtain resp d1 q b where s: "submit_dir dv ?rid (PathID (dv_px dv) (dv_keys dv) ?rid (sc_RelPath item)) item b q d = (Inr resp, d1)"
      and d': "d' = on_db (insertEntry (submitted_dir ?rid (PathID (dv_px dv) (dv_keys dv) ?rid (sc_RelPath item)) item (es_AcceptedSeq resp))) d1"
      by (auto split: prod.splits sum.splits)
    note k = submit_kept [OF s [unfolded submit_dir_def]]
    let ?e = "submitted_dir ?rid (PathID (dv_px dv) (dv_keys dv) ?rid (sc_RelPath item)) item (es_AcceptedSeq resp)"
    have e: "en_RootID ?e = ?rid" "en_RelPath ?e = sc_RelPath item" "agrees item ?e"
      using dir by (simp_all add: submitted_dir_def agrees_def zero_entry_def)
    have "kept ?rid {sc_RelPath item} d d'"
      using kept_trans [OF k(1) [of ?rid "{}"] insert_kept [OF e(1)]] by (simp add: e(2) d')
    moreover have "EntriesForRoot ?rid (mc_db d') (sc_RelPath item) = Some ?e"
      using inv e by (simp add: d' on_db_def EntriesForRoot_insertEntry k(2))
    ultimately show ?thesis using e(3) by (auto simp: settled_def)
  qed
qed

lemma upload_hash:
  assumes "upload_file dv rootID pathID rel absPath mode mtime d = (Inr up, d')"
  obtains b where "fs_data (mc_fs d) absPath = Some b"
    and "fp_ContentSHA256 (ur_Payload up) = hex_encode (px_sha256 (dv_px dv) b)"
    and "fp_Mode (ur_Payload up) = mode" and "fp_MTimeNS (ur_Payload up) = mtime"
  using assms by (auto simp: upload_file_def UploadFile_def draw_def split: option.splits prod.splits sum.splits)

lemma rescan_file_settled:
  assumes run: "rescan_file fuel dv root ro known item d = Next d'" and "conclusive ro" and inv: "client_inv (mc_db d)"
    and known: "known = EntriesForRoot (cr_RootID root) (mc_db d) (sc_RelPath item)" and isfile: "sc_Kind item = RootKindFile"
    and hash: "current_hash (dv_px dv) (mc_fs d) item"
    and d0: "readings d \<subseteq> readings d0" "c_ignores (mc_db d) = c_ignores (mc_db d0)"
  shows "kept (cr_RootID root) {sc_RelPath item} d d' \<and> settled (cr_RootID root) d0 d' item"
proof -
  let ?rid = "cr_RootID root" and ?pid = "PathID (dv_px dv) (dv_keys dv) (cr_RootID root) (sc_RelPath item)"
  obtain lu d1 where dr: "draw d = (lu, d1)" by fastforce
  have k1: "kept ?rid P d d1" "lu_now lu \<in> readings d" "mc_db d1 = mc_db d" "mc_fs d1 = mc_fs d" for P
    using draw_kept(1) [of ?rid P d] draw_kept(2-4) [of d] by (simp_all add: dr)
  consider (same) old where "known = Some old" "agrees item old" "d' = d"
    | (ignored) "shouldSuppressIgnoredEntry ?rid item (lu_now lu) (mc_db d1)" "d' = d1"
    | (sent) up d2 b q resp d3 where "upload_file dv ?rid ?pid (sc_RelPath item) (sc_AbsPath item) (sc_Mode item) (sc_MTimeNS item) d1 = (Inr up, d2)"
        and "submit_file dv ?rid ?pid up b q d2 = (Inr resp, d3)"
        and "d' = on_db (insertEntry (submitted_file ?rid (sc_RelPath item) ?pid (ur_Payload up) (es_AcceptedSeq resp))) d3"
    using run assms(2) isfile
    by (auto simp: rescan_file_def Let_def UpsertEntry_def [abs_def] stop_or_queue_def after_conflict_not_Next dr agrees_def
        split: prod.splits sum.splits option.splits if_splits)
  then show ?thesis
  proof cases
    case same
    then show ?thesis by (auto simp: settled_def known)
  next
    case ignored
    have "shouldSuppressIgnoredEntry ?rid item (lu_now lu) (mc_db d0)"
      using ignored(1) ignore_cong(1) [of "mc_db d1" "mc_db d0"] k1(3) d0(2) by metis
    with ignored(2) k1(1,2) d0(1) show ?thesis by (auto simp: settled_def)
  next
    case sent
    note u = upload_kept [OF sent(1)] and s = submit_kept [OF sent(2) [unfolded submit_file_def]]
    let ?e = "submitted_file ?rid (sc_RelPath item) ?pid (ur_Payload up) (es_AcceptedSeq resp)"
    obtain b' where b: "fs_data (mc_fs d1) (sc_AbsPath item) = Some b'"
      "fp_ContentSHA256 (ur_Payload up) = hex_encode (px_sha256 (dv_px dv) b')"
      "fp_Mode (ur_Payload up) = sc_Mode item" "fp_MTimeNS (ur_Payload up) = sc_MTimeNS item"
      by (rule upload_hash [OF sent(1)])
    have e: "en_RootID ?e = ?rid" "en_RelPath ?e = sc_RelPath item" "agrees item ?e"
      using isfile hash b k1(4) by (simp_all add: submitted_file_def agrees_def zero_entry_def current_hash_def)
    have "kept ?rid {sc_RelPath item} d d'"
      using kept_trans [OF k1(1) [of "{}"] kept_trans [OF u(1) [of ?rid "{}"]
          kept_trans [OF s(1) [of ?rid "{}"] insert_kept [OF e(1)]]]] by (simp add: e(2) sent(3))
    moreover have "EntriesForRoot ?rid (mc_db d') (sc_RelPath item) = Some ?e"
      using inv e by (simp add: sent(3) on_db_def EntriesForRoot_insertEntry s(2) u(2) k1(3))
    ultimately show ?thesis using e(3) by (auto simp: settled_def)
  qed
qed

lemma rescan_delete_settled:
  assumes run: "rescan_delete fuel dv root ro scanned (p, old) d = Next d'" and inv: "client_inv (mc_db d)"
    and d0: "readings d \<subseteq> readings d0" "c_ignores (mc_db d) = c_ignores (mc_db d0)"
  shows "kept (cr_RootID root) (if list_ex (\<lambda>item. sc_RelPath item = p) scanned then {} else {p}) d d'
    \<and> (EntriesForRoot (cr_RootID root) (mc_db d) p = Some old \<or> settled_missing (cr_RootID root) d0 d p \<longrightarrow>
        list_ex (\<lambda>item. sc_RelPath item = p) scanned \<or> settled_missing (cr_RootID root) d0 d' p)"
proof (cases "list_ex (\<lambda>item. sc_RelPath item = p) scanned")
  case True
  with run show ?thesis by (simp add: rescan_delete_def)
next
  case False
  let ?rid = "cr_RootID root"
  obtain lu d1 where dr: "draw d = (lu, d1)" by fastforce
  have k1: "kept ?rid P d d1" "lu_now lu \<in> readings d" "mc_db d1 = mc_db d" "mc_fs d1 = mc_fs d" for P
    using draw_kept(1) [of ?rid P d] draw_kept(2-4) [of d] by (simp_all add: dr)
  consider (gone) "en_Deleted old" "d' = d"
    | (ignored) "shouldSuppressIgnoredDelete ?rid p (lu_now lu) (mc_db d1)" "d' = d1"
    | (sent) b q resp d2 where "submit_delete dv ?rid (en_PathID old) p b q d1 = (Inr resp, d2)"
        and "d' = on_db (MarkEntryDeleted (submitted_delete old ?rid p (es_AcceptedSeq resp))) d2"
    using run False
    by (auto simp: rescan_delete_def Let_def stop_or_queue_def dr
        split: prod.splits sum.splits option.splits if_splits)
  then show ?thesis
  proof cases
    case gone
    then show ?thesis by (auto simp: settled_missing_def)
  next
    case ignored
    have "shouldSuppressIgnoredDelete ?rid p (lu_now lu) (mc_db d0)"
      using ignored(1) ignore_cong(2) [of "mc_db d1" "mc_db d0"] k1(3) d0(2) by metis
    with ignored(2) k1(1,2) d0(1) show ?thesis by (auto simp: settled_missing_def)
  next
    case sent
    note s = submit_kept [OF sent(1) [unfolded submit_delete_def]]
    define e where "e = (submitted_delete old ?rid p (es_AcceptedSeq resp))
      \<lparr>en_Deleted := True, en_ContentSHA256 := [], en_SizeBytes := 0, en_Mode := 0, en_MTimeNS := 0, en_Inode := 0, en_Device := 0\<rparr>"
    have e: "en_RootID e = ?rid" "en_RelPath e = p" "en_Deleted e" by (simp_all add: e_def submitted_delete_def zero_entry_def)
    have d': "d' = on_db (insertEntry e) d2" using sent(2) by (simp add: MarkEntryDeleted_def [abs_def] e_def)
    have "kept ?rid {p} d d'"
      using kept_trans [OF k1(1) [of "{}"] kept_trans [OF s(1) [of ?rid "{}"] insert_kept [OF e(1)]]]
      by (simp add: e(2) d')
    moreover have "EntriesForRoot ?rid (mc_db d') p = Some e"
      using inv e by (simp add: d' on_db_def EntriesForRoot_insertEntry s(2) k1(3))
    ultimately show ?thesis using e(3) False by (auto simp: settled_missing_def)
  qed
qed

section \<open>All entries\<close>

lemma kept_follow:
  assumes "kept rootID P d d'" and "readings d \<subseteq> readings d0" and "c_ignores (mc_db d) = c_ignores (mc_db d0)" and "client_inv (mc_db d)"
  shows "readings d' \<subseteq> readings d0" and "c_ignores (mc_db d') = c_ignores (mc_db d0)" and "client_inv (mc_db d')"
    and "mc_fs d' = mc_fs d"
  using assms by (auto simp: kept_def)

lemma rescan_delete_kept:
  "rescan_delete fuel dv root ro scanned (p, old) d = Next d' \<Longrightarrow> client_inv (mc_db d) \<Longrightarrow> kept (cr_RootID root) {p} d d'"
  using rescan_delete_settled [of fuel dv root ro scanned p old d d' d] by (auto split: if_splits intro: kept_mono)

lemma run_deletes_frame:
  "run_entries (rescan_delete fuel dv root ro scanned) known d = Next d' \<Longrightarrow> client_inv (mc_db d)
    \<Longrightarrow> kept (cr_RootID root) (fst ` set known) d d'"
proof (induction known arbitrary: d)
  case (Cons x known)
  obtain p old where x: "x = (p, old)" by (cases x)
  obtain d1 where d1: "rescan_delete fuel dv root ro scanned (p, old) d = Next d1"
    and rest: "run_entries (rescan_delete fuel dv root ro scanned) known d1 = Next d'"
    using Cons.prems(1) by (auto simp: x split: flow.splits)
  note k = rescan_delete_kept [OF d1 Cons.prems(2)]
  have "client_inv (mc_db d1)" using k Cons.prems(2) by (simp add: kept_def)
  from kept_trans [OF k Cons.IH [OF rest this]] show ?case by (simp add: x)
qed simp

lemma run_deletes:
  assumes "run_entries (rescan_delete fuel dv root ro scanned) known d = Next d'" and "client_inv (mc_db d)"
    and "\<forall>(p, old) \<in> set known. EntriesForRoot (cr_RootID root) (mc_db d) p = Some old \<or> settled_missing (cr_RootID root) d0 d p"
    and "readings d \<subseteq> readings d0" and "c_ignores (mc_db d) = c_ignores (mc_db d0)"
  shows "kept (cr_RootID root) (- sc_RelPath ` set scanned) d d'
    \<and> (\<forall>(p, old) \<in> set known. p \<in> sc_RelPath ` set scanned \<or> settled_missing (cr_RootID root) d0 d' p)"
  using assms
proof (induction known arbitrary: d)
  case (Cons x known)
  let ?rid = "cr_RootID root"
  obtain p old where x: "x = (p, old)" by (cases x)
  obtain d1 where d1: "rescan_delete fuel dv root ro scanned (p, old) d = Next d1"
    and rest: "run_entries (rescan_delete fuel dv root ro scanned) known d1 = Next d'"
    using Cons.prems(1) by (auto simp: x split: flow.splits)
  let ?in = "list_ex (\<lambda>item. sc_RelPath item = p) scanned"
  have in_iff: "?in \<longleftrightarrow> p \<in> sc_RelPath ` set scanned" by (auto simp: list_ex_iff)
  from rescan_delete_settled [OF d1 Cons.prems(2,4,5)] Cons.prems(3)
  have k: "kept ?rid (if ?in then {} else {p}) d d1" and m: "?in \<or> settled_missing ?rid d0 d1 p" by (auto simp: x)
  note f = kept_follow [OF k Cons.prems(4,5,2)]
  have "\<forall>(q, o') \<in> set known. EntriesForRoot ?rid (mc_db d1) q = Some o' \<or> settled_missing ?rid d0 d1 q"
  proof safe
    fix q o' assume q: "(q, o') \<in> set known" "\<not> settled_missing ?rid d0 d1 q"
    then have "q \<notin> (if ?in then {} else {p})" using m by auto
    with k Cons.prems(2,3) q show "EntriesForRoot ?rid (mc_db d1) q = Some o'"
      using settled_missing_kept [OF _ k Cons.prems(2)] by (auto simp: kept_def)
  qed
  from Cons.IH [OF rest f(3) this f(1,2)]
  have IH: "kept ?rid (- sc_RelPath ` set scanned) d1 d'"
    "\<forall>(q, o') \<in> set known. q \<in> sc_RelPath ` set scanned \<or> settled_missing ?rid d0 d' q" by auto
  have "kept ?rid (- sc_RelPath ` set scanned) d d'"
    using kept_trans [OF k IH(1)] by (rule kept_mono) (auto simp: in_iff)
  moreover have "p \<in> sc_RelPath ` set scanned \<or> settled_missing ?rid d0 d' p"
  proof (cases "p \<in> fst ` set known")
    case True
    with IH(2) show ?thesis by auto
  next
    case False
    show ?thesis
    proof (cases ?in)
      case no: False
      have "kept ?rid (fst ` set known) d1 d'"
        using rest f(3) by (rule run_deletes_frame)
      with no m False f(3) show ?thesis by (auto intro: settled_missing_kept)
    qed (simp add: in_iff)
  qed
  ultimately show ?case using IH(2) by (auto simp: x)
qed simp

lemma run_items:
  assumes "run_entries (\<lambda>item. if sc_Kind item = RootKindDir then rescan_dir dv root ro (current (sc_RelPath item)) item
      else rescan_file fuel dv root ro (current (sc_RelPath item)) item) items d = Next d'"
    and "conclusive ro" and "distinct (map sc_RelPath items)" and "client_inv (mc_db d)"
    and "\<forall>item \<in> set items. current (sc_RelPath item) = EntriesForRoot (cr_RootID root) (mc_db d) (sc_RelPath item)"
    and "\<forall>item \<in> set items. current_hash (dv_px dv) (mc_fs d) item"
    and "readings d \<subseteq> readings d0" and "c_ignores (mc_db d) = c_ignores (mc_db d0)"
  shows "kept (cr_RootID root) (sc_RelPath ` set items) d d' \<and> (\<forall>item \<in> set items. settled (cr_RootID root) d0 d' item)"
  using assms
proof (induction items arbitrary: d)
  case (Cons item items)
  let ?rid = "cr_RootID root"
  let ?f = "\<lambda>item. if sc_Kind item = RootKindDir then rescan_dir dv root ro (current (sc_RelPath item)) item
      else rescan_file fuel dv root ro (current (sc_RelPath item)) item"
  obtain d1 where d1: "?f item d = Next d1" and rest: "run_entries ?f items d1 = Next d'"
    using Cons.prems(1) by (auto split: flow.splits)
  have step: "kept ?rid {sc_RelPath item} d d1 \<and> settled ?rid d0 d1 item"
  proof (cases "sc_Kind item = RootKindDir")
    case True
    with d1 Cons.prems(2,4,5) show ?thesis by (intro rescan_dir_settled) auto
  next
    case False
    with Cons.prems(6) have "sc_Kind item = RootKindFile" by (simp add: current_hash_def)
    with False d1 Cons.prems show ?thesis by (intro rescan_file_settled) auto
  qed
  note f = kept_follow [OF conjunct1 [OF step] Cons.prems(7,8,4)]
  have "\<forall>item' \<in> set items. current (sc_RelPath item') = EntriesForRoot ?rid (mc_db d1) (sc_RelPath item')"
  proof
    fix item' assume i: "item' \<in> set items"
    then have "sc_RelPath item' \<noteq> sc_RelPath item" using Cons.prems(3) by (auto simp: image_iff)
    with i step Cons.prems(4,5) show "current (sc_RelPath item') = EntriesForRoot ?rid (mc_db d1) (sc_RelPath item')"
      by (auto simp: kept_def)
  qed
  moreover have "\<forall>item' \<in> set items. current_hash (dv_px dv) (mc_fs d1) item'" using Cons.prems(6) f(4) by simp
  ultimately have IH: "kept ?rid (sc_RelPath ` set items) d1 d'" "\<forall>item' \<in> set items. settled ?rid d0 d' item'"
    using Cons.IH [OF rest Cons.prems(2) _ f(3) _ _ f(1,2)] Cons.prems(3) by auto
  have "sc_RelPath item \<notin> sc_RelPath ` set items" using Cons.prems(3) by auto
  then have "settled ?rid d0 d' item" using settled_kept [OF conjunct2 [OF step] IH(1) f(3)] by blast
  with kept_trans [OF conjunct1 [OF step] IH(1)] IH(2) show ?case by simp
qed simp

text \<open>The rows of a root are the entries it knows.\<close>

lemma known_entries_complete:
  assumes "client_inv s" and "EntriesForRoot rootID s p = Some e"
  shows "(p, e) \<in> set (known_entries rootID s (EntriesForRoot rootID s))"
proof -
  obtain r where "List.find (is_entry rootID p) (c_entries s) = Some r" using assms by (auto simp: EntriesForRoot_find)
  then have "r \<in> set (c_entries s)" "er_root r = rootID" "er_path r = p"
    using find_some_mem by (fastforce simp: is_entry_def)+
  with assms(2) show ?thesis by (force simp: known_entries_def List.map_filter_def)
qed

lemma known_entries_sound:
  "(p, e) \<in> set (known_entries rootID s current) \<Longrightarrow> current p = Some e"
  by (auto simp: known_entries_def List.map_filter_def split: option.splits)

lemma no_hint [simp]: "filterEntriesByHint m [] = m"
proof -
  have "normalizeRescanHint [] = []" by code_simp
  then show ?thesis by (simp add: filterEntriesByHint_def)
qed

lemma rescan_entries_settled:
  assumes "rescan_entries fuel dv root ro scanned d = Next d'" and "ro_hint ro = []" and "conclusive ro"
    and "client_inv (mc_db d)" and "distinct (map sc_RelPath scanned)"
    and "\<forall>item \<in> set scanned. current_hash (dv_px dv) (mc_fs d) item"
  shows "mc_fs d' = mc_fs d \<and> (\<forall>item \<in> set scanned. settled (cr_RootID root) d d' item)
    \<and> (\<forall>p. p \<notin> sc_RelPath ` set scanned \<longrightarrow> settled_missing (cr_RootID root) d d' p)"
proof -
  let ?rid = "cr_RootID root"
  define current where "current = EntriesForRoot ?rid (mc_db d)"
  let ?known = "known_entries ?rid (mc_db d) current"
  obtain d1 where del: "run_entries (rescan_delete fuel dv root ro scanned) ?known d = Next d1"
    and items: "run_entries (\<lambda>item. if sc_Kind item = RootKindDir then rescan_dir dv root ro (current (sc_RelPath item)) item
      else rescan_file fuel dv root ro (current (sc_RelPath item)) item) scanned d1 = Next d'"
    using assms(1,2) unfolding current_def by (auto simp: rescan_entries_def Let_def split: flow.splits)
  have "\<forall>(p, old) \<in> set ?known. EntriesForRoot ?rid (mc_db d) p = Some old \<or> settled_missing ?rid d d p"
    using known_entries_sound by (fastforce simp: current_def)
  from run_deletes [OF del assms(4) this order_refl refl]
  have k1: "kept ?rid (- sc_RelPath ` set scanned) d d1"
    and m1: "\<forall>(p, old) \<in> set ?known. p \<in> sc_RelPath ` set scanned \<or> settled_missing ?rid d d1 p" by auto
  note f = kept_follow [OF k1 order_refl refl assms(4)]
  have "\<forall>item \<in> set scanned. current (sc_RelPath item) = EntriesForRoot ?rid (mc_db d1) (sc_RelPath item)"
    using k1 assms(4) by (auto simp: kept_def current_def)
  from run_items [OF items assms(3,5) f(3) this _ f(1,2)] assms(6) f(4)
  have k2: "kept ?rid (sc_RelPath ` set scanned) d1 d'" and s: "\<forall>item \<in> set scanned. settled ?rid d d' item" by auto
  have "settled_missing ?rid d d' p" if p: "p \<notin> sc_RelPath ` set scanned" for p
  proof (cases "p \<in> fst ` set ?known")
    case True
    then have "settled_missing ?rid d d1 p" using m1 p by auto
    then show ?thesis using settled_missing_kept [OF _ k2 f(3) p] by blast
  next
    case False
    then have "EntriesForRoot ?rid (mc_db d) p = None"
      using known_entries_complete [OF assms(4), of ?rid p] unfolding current_def
      by (metis fst_conv image_eqI not_None_eq)
    moreover have "kept ?rid (fst ` set ?known) d d1" using del assms(4) by (rule run_deletes_frame)
    ultimately have "EntriesForRoot ?rid (mc_db d1) p = None" using False assms(4) by (simp add: kept_def)
    then have "EntriesForRoot ?rid (mc_db d') p = None" using k2 f(3) p by (simp add: kept_def)
    then show ?thesis by (simp add: settled_missing_def)
  qed
  then show ?thesis using s k2 f(4) by (simp add: kept_def)
qed

section \<open>The scan of the same files\<close>

lemma entry_below_hash:
  assumes "readable sx fs" and "entry_below sx fs rs ds = Some item" and "sx_sha256 sx = px_sha256 px"
  shows "current_hash px fs item"
  using assms
  by (auto simp: entry_below_def Let_def statEntry_def current_hash_def split: if_splits option.splits node.splits)

text \<open>A whole root: the scan and the entries of one pass.\<close>

lemma rescan_root_settled:
  assumes "readable (scan_env_of dv) (mc_fs d)" and "good rs" and "fs_tree (mc_fs d) (abs_path rs) = Some NodeDir"
    and "ScanRoot (scan_env_of dv) (mc_fs d) (abs_path rs) = Inr result"
    and "rescan_entries fuel dv root ro (sl_Entries result) d = Next d'" and "ro_hint ro = []" and "conclusive ro"
    and "client_inv (mc_db d)"
  shows "mc_fs d' = mc_fs d \<and> (\<forall>item \<in> set (sl_Entries result). settled (cr_RootID root) d d' item)
    \<and> (\<forall>p. p \<notin> sc_RelPath ` set (sl_Entries result) \<longrightarrow> settled_missing (cr_RootID root) d d' p)"
proof -
  have es: "set (sl_Entries result) = {e. \<exists>ds. good ds \<and> entry_below (scan_env_of dv) (mc_fs d) rs ds = Some e}"
    and dist: "distinct (map sc_RelPath (sl_Entries result))"
    using ScanRoot_directory [OF assms(1-3)] assms(4) by (metis sum.inject(2))+
  have "sx_sha256 (scan_env_of dv) = px_sha256 (dv_px dv)" by (simp add: scan_env_of_def)
  then have "\<forall>item \<in> set (sl_Entries result). current_hash (dv_px dv) (mc_fs d) item"
    using entry_below_hash [OF assms(1)] by (auto simp: es)
  with rescan_entries_settled [OF assms(5-8) dist] show ?thesis by blast
qed

end
