(* ===== verification/Delivery.thy ===== *)
theory Delivery
  imports Submit FeedServer SyncClaims RescanCorrect
begin

text \<open>
  From one device to another.  The daemon of one device submits an event
  (\<^verbatim>\<open>submit_dir\<close>, \<^verbatim>\<open>submit_file\<close>), the handlers of the server log it, and the daemon of
  another device catches up: what arrives there is what was sent.
\<close>

section \<open>The two requests about events\<close>

lemma Handler_events:
  "hr_Path r = ''/v1/events'' \<Longrightarrow> Handler cfg px now random r b sv
    = withSession (handleEvents cfg now r (body_event b)) px now r sv"
  by (simp add: Handler_def Let_def)

lemma json_request_version [simp]: "hr_Version (json_request c m p) = ''1''"
  by (simp add: json_request_def)

lemma handleEvents_sessions:
  "t_sessions (sv_db (snd (handleEvents cfg now r d sess sv))) = t_sessions (sv_db sv)"
proof -
  have "t_sessions (fold (add_event_ref q) refs s) = t_sessions s" for q refs s
    by (induction refs arbitrary: s) (simp_all add: add_event_ref_def incrementObjectRef_def)
  then have c: "t_sessions (commit_event now sess req q s) = t_sessions s" for req q s
    by (simp add: commit_event_def touch_and_bump_def write_tables_def write_root_add_def write_root_remove_def
        write_content_def drop_heads_def insert_event_def Let_def split: EventType.split)
  have f: "t_sessions (snd (RecomputeRetainedFloor now w s)) = t_sessions s" for w s
    by (simp add: RecomputeRetainedFloor_def Let_def split: sum.split)
  have "t_sessions (snd (SubmitEvent now sess req s)) = t_sessions s" for req s
    using c f by (auto simp: SubmitEvent_def Let_def case_prod_unfold split: option.split sum.split)
  then have sub: "SubmitEvent now sess req s = (r, s') \<Longrightarrow> t_sessions s' = t_sessions s" for req s r s'
    by (metis snd_conv)
  then show ?thesis
    by (auto simp: handleEvents_def handleEventSubmit_def split: option.split sum.split prod.split db_error.split)
qed

text \<open>An accepted submission is one commit of the log.\<close>

lemma submit_request:
  assumes on: "online px tokens w wd" "token \<in> tokens" "token \<noteq> []" and ev: "content_event (rq_EventType req)"
    and run: "cn_SubmitEvent (server_client cfg px u token) req wd = (Inr resp, wd')"
  obtains now sess s1 where "se_WorkspaceID sess = w" and "same_log (sv_db (wd_server wd)) s1"
    and "check_event w req s1 = None" and "t_last_seq s1 < max_int64"
    and "sv_db (wd_server wd') = commit_event now sess req (t_last_seq s1 + 1) s1"
    and "es_AcceptedSeq resp = t_last_seq s1 + 1" and "online px tokens w wd'"
    and "sv_files (wd_server wd') = sv_files (wd_server wd)"
proof -
  let ?r = "json_request (server_client cfg px u token) ''POST'' ''/v1/events''"
  have h: "Handler cfg px now random ?r (ReqEvent req) sv = withSession (handleEvents cfg now ?r (Some req)) px now ?r sv" for now random sv
    using Handler_events [of ?r cfg px now random "ReqEvent req" sv] by simp
  have inv: "system_inv px (snd (withSession (handleEvents cfg now ?r (Some req)) px now ?r (wd_server wd)))" for now
    using on by (intro withSession_inv handleEvents_inv) (auto simp: online_def)
  have au: "hr_Authorization ?r = ''Bearer '' @ token" using on(3) by (simp add: auth_header_def)
  obtain now sess sv1 where sv: "serve cfg px ?r (ReqEvent req) wd = (fst (handleEvents cfg now ?r (Some req) sess sv1),
      \<lparr>wd_server = snd (handleEvents cfg now ?r (Some req) sess sv1), wd_clock = (\<lambda>n. wd_clock wd (Suc n))\<rparr>)"
    and sess: "se_WorkspaceID sess = w" "same_log (sv_db (wd_server wd)) (sv_db sv1)" "sv_files sv1 = sv_files (wd_server wd)"
    and on': "online px tokens w (snd (serve cfg px ?r (ReqEvent req) wd))"
    by (rule server_request [where handler = "\<lambda>now. handleEvents cfg now ?r (Some req)" and b = "ReqEvent req",
          OF on(1,2) _ au h inv handleEvents_sessions]) simp_all
  have hs: "handleEvents cfg now ?r (Some req) sess sv1 = handleEventSubmit now (Some req) sess sv1"
    by (simp add: handleEvents_def)
  obtain a s2 where sub: "SubmitEvent now sess req (sv_db sv1) = (a, s2)" by fastforce
  have wd': "wd' = snd (serve cfg px ?r (ReqEvent req) wd)"
    and r0: "\<not> 400 \<le> fst (fst (handleEventSubmit now (Some req) sess sv1))"
      "snd (fst (handleEventSubmit now (Some req) sess sv1)) = BodySubmit resp"
    using run by (auto simp: cn_SubmitEvent_def doJSONRaw_server Let_def sv hs split: if_splits option.splits body.splits)
  obtain res where a: "a = Inr res" and resp: "es_AcceptedSeq resp = su_AcceptedSeq res"
    and dbs: "sv_db (snd (handleEventSubmit now (Some req) sess sv1)) = s2"
      "sv_files (snd (handleEventSubmit now (Some req) sess sv1)) = sv_files sv1"
    using r0 by (cases a) (auto simp: handleEventSubmit_def sub writeError_def split: db_error.splits)
  have acc: "fst (SubmitEvent now sess req (sv_db sv1)) = Inr res" by (simp add: sub a)
  note all = SubmitEvent_accepted_all [OF acc]
  have "s2 = commit_event now sess req (t_last_seq (sv_db sv1) + 1) (sv_db sv1)"
    using all ev by (simp add: sub content_not_lifecycle)
  with all show ?thesis
    using sess on' by (intro that [of sess "sv_db sv1" now]) (simp_all add: wd' sv hs dbs resp)
qed

text \<open>A fetch from a cursor the server serves is a page of the log.\<close>

lemma fetch_request:
  assumes on: "online px tokens w wd" "token \<in> tokens" "token \<noteq> []"
    and ws: "List.find (is_ws w) (t_workspaces (sv_db (wd_server wd))) \<noteq> None"
    and q: "floor_seq (sv_db (wd_server wd)) w \<le> q" "q \<le> max_int64" and n: "0 < n" "n \<le> max_int64"
  obtains k wd' where "cn_FetchEvents (server_client cfg px u token) q n wd
      = (Inr \<lparr>fr_Events = take k (events_after q (server_log w (sv_db (wd_server wd)))),
          fr_CurrentSeq = cur_seq (sv_db (wd_server wd)) w\<rparr>, wd')"
    and "0 < k" and "online px tokens w wd'" and "stored_objects w wd' = stored_objects w wd"
proof -
  let ?s = "sv_db (wd_server wd)"
  let ?r = "(json_request (server_client cfg px u token) ''GET'' ''/v1/events'')
      \<lparr>hr_AfterSeq := FormatInt q, hr_Limit := FormatInt n\<rparr>"
  have h: "Handler cfg px now random ?r ReqNone sv = withSession (handleEvents cfg now ?r None) px now ?r sv" for now random sv
    using Handler_events [of ?r cfg px now random ReqNone sv] by simp
  have inv: "system_inv px (snd (withSession (handleEvents cfg now ?r None) px now ?r (wd_server wd)))" for now
    using on by (intro withSession_inv handleEvents_inv) (auto simp: online_def)
  have au: "hr_Authorization ?r = ''Bearer '' @ token" using on(3) by (simp add: auth_header_def)
  obtain now sess sv1 where sv: "serve cfg px ?r ReqNone wd = (fst (handleEvents cfg now ?r None sess sv1),
      \<lparr>wd_server = snd (handleEvents cfg now ?r None sess sv1), wd_clock = (\<lambda>n. wd_clock wd (Suc n))\<rparr>)"
    and sess: "se_WorkspaceID sess = w" "same_log ?s (sv_db sv1)" "sv_files sv1 = sv_files (wd_server wd)"
    and on': "online px tokens w (snd (serve cfg px ?r ReqNone wd))"
    by (rule server_request [where handler = "\<lambda>now. handleEvents cfg now ?r None" and b = ReqNone,
          OF on(1,2) _ au h inv handleEvents_sessions]) simp_all
  have hs: "handleEvents cfg now ?r None sess sv1 = (handleEventFetch cfg ?r sess (sv_db sv1), sv1)"
    by (simp add: handleEvents_def)
  have db: "db_inv ?s" using on by (simp add: online_def system_inv_def)
  have "0 \<le> floor_seq ?s w" using db by (simp add: db_inv_def server_inv_def roots_inv_def)
  then have q0: "0 \<le> q" using q(1) by simp
  obtain l where l: "parseEventFetchQuery cfg ?r = Some (q, l)" "0 < l"
  proof -
    have p: "ParseInt64 (FormatInt q) = Some q" "ParseInt64 (FormatInt n) = Some n"
      using q0 q(2) n by (simp_all add: ParseInt64_FormatInt)
    then show ?thesis using q0 n that [of "if cf_MaxEventFetchPage cfg > 0 \<and> n > cf_MaxEventFetchPage cfg then cf_MaxEventFetchPage cfg else n"]
      by (auto simp: parseEventFetchQuery_def split: if_splits)
  qed
  have same: "FetchEvents w q (nat l) (sv_db sv1) = FetchEvents w q (nat l) ?s"
    using sess(2) by (intro same_feed_simps(1)) (simp add: same_log_def same_feed_def)
  obtain x where x: "List.find (is_ws w) (t_workspaces ?s) = Some x" using ws by blast
  then obtain evs cur where f: "FetchEvents w q (nat l) ?s = Inr (evs, cur)"
    using q(1) by (simp add: FetchEvents_def floor_seq_def)
  note pg = page_of_log [OF db f]
  have "handleEventFetch cfg ?r sess (sv_db sv1) = (200, BodyEvents \<lparr>fr_Events = evs, fr_CurrentSeq = cur\<rparr>)"
    using same f by (simp add: handleEventFetch_def l sess(1))
  then have run: "cn_FetchEvents (server_client cfg px u token) q n wd
      = (Inr \<lparr>fr_Events = evs, fr_CurrentSeq = cur\<rparr>, snd (serve cfg px ?r ReqNone wd))"
    by (simp add: cn_FetchEvents_def doJSONRaw_server Let_def sv hs)
  have "stored_objects w (snd (serve cfg px ?r ReqNone wd)) = stored_objects w wd"
    using sess(2,3) by (intro ext) (simp add: stored_objects_def sv hs same_log_visible)
  with run pg on' l(2) show ?thesis by (intro that [of "nat l" "snd (serve cfg px ?r ReqNone wd)"]) simp_all
qed

section \<open>The log after a submission\<close>

text \<open>To a device that was up to date, the new event is the one that follows.\<close>

lemma commit_next:
  assumes inv: "server_inv s" and chk: "check_event (se_WorkspaceID sess) req s = None"
  defines "q \<equiv> t_last_seq s + 1"
  shows "events_after (cur_seq s (se_WorkspaceID sess)) (server_log (se_WorkspaceID sess) (commit_event now sess req q s))
    = [(event_record_of now sess req q)\<lparr>er_ObjectRefs := sort (remdups (rq_ObjectRefs req))\<rparr>]"
proof -
  let ?w = "se_WorkspaceID sess" and ?c = "commit_event now sess req q s"
  from inv have l: "log_inv s" by (simp add: server_inv_def)
  obtain x where x: "List.find (is_ws ?w) (t_workspaces s) = Some x" using check_event_ws [OF chk] by blast
  then have cur: "cur_seq ?c ?w = q" by (simp add: cur_seq_commit)
  have "ev_seq e \<le> cur_seq s ?w" if "e \<in> set (t_events s)" "ev_ws e = ?w" for e
    using l that by (auto simp: log_inv_def)
  then have old: "filter (\<lambda>e. cur_seq s ?w < ev_seq e \<and> ev_ws e = ?w \<and> ev_seq e \<le> q) (t_events s) = []"
    by (fastforce simp: filter_empty_conv)
  have new: "cur_seq s ?w < q" using l by (auto simp: log_inv_def q_def intro: le_less_trans)
  have "events_after (cur_seq s ?w) (server_log ?w ?c) = map (record_of_row ?c) [event_row_of now sess req q]"
    using old new
    by (simp add: events_after_def server_log_def filter_map comp_def record_of_row_def commit_event_tables cur [unfolded q_def]
        event_row_of_def q_def conj_commute conj_left_commute)
  then show ?thesis
    using eventRefs_fresh [OF l, of q now sess req]
    by (simp add: record_of_row_def event_row_of_def event_record_of_def q_def)
qed

lemma commit_visible:
  "objectVisibleToWorkspace w oid (commit_event now sess req q s) = objectVisibleToWorkspace w oid s"
  by (simp add: objectVisibleToWorkspace_def commit_event_tables)

section \<open>What the other device consumes\<close>

text \<open>
  A device on which the root is in sync: active, a directory, not staged, and with no row from
  beyond the cursor.
\<close>

definition replica :: "string \<Rightarrow> Root \<Rightarrow> 's daemon \<Rightarrow> bool" where
  "replica rootID root d \<longleftrightarrow> RootByID rootID (mc_db d) = Some root \<and> cr_State root = RootStateActive
     \<and> cr_Kind root = RootKindDir \<and> \<not> isRootStaged rootID d \<and> cr_LatestSnapshotSeq root \<le> cursor d
     \<and> (\<forall>p e. EntriesForRoot rootID (mc_db d) p = Some e \<longrightarrow> en_CurrentSeq e \<le> cursor d)"

lemma replica_root: "replica rootID root d \<Longrightarrow> cr_RootID root = rootID"
  by (auto simp: replica_def RootByID_def is_croot_def simp: find_Some_iff)

lemma replica_net [simp]: "replica rootID root (d\<lparr>mc_net := s\<rparr>) = replica rootID root d"
  by (simp add: replica_def cursor_eq isRootStaged_def)

lemma consume_content:
  assumes rp: "replica (er_RootID event) root d" and ev: "content_event (er_EventType event)" "cursor d < er_Seq event"
    and path: "er_PathID event = Some pathID"
  shows "consumeRemoteEvent dv event d = (case apply_content dv root event d of
      (Some e, d1) \<Rightarrow> (Some e, d1) | (None, d1) \<Rightarrow> (None, on_db (AdvanceLastSeq (er_Seq event)) d1))"
proof -
  have "\<not> eventMaterializedLocally event (mc_db d)"
    using rp ev path
    by (fastforce simp: eventMaterializedLocally_def replica_def content_event_def list_ex_iff Let_def
        split: option.splits EventType.splits)
  moreover have "applyRemoteEvent dv event d = apply_content dv root event d"
    using rp ev(1) by (auto simp: applyRemoteEvent_def replica_def content_event_def split: EventType.splits)
  ultimately show ?thesis by (simp add: consumeRemoteEvent_def)
qed

text \<open>The state in which the event is applied: one draw of luck later.\<close>

definition drawn :: "'s daemon \<Rightarrow> 's daemon" where
  "drawn d = d\<lparr>dm_luck := (\<lambda>n. dm_luck d (Suc n))\<rparr>"

lemma drawn_sel [simp]: "mc_fs (drawn d) = mc_fs d" "mc_db (drawn d) = mc_db d" "mc_net (drawn d) = mc_net d"
  by (simp_all add: drawn_def)

lemma EntriesForRoot_AdvanceLastSeq [simp]: "EntriesForRoot i (AdvanceLastSeq q s) = EntriesForRoot i s"
  by (intro ext) (simp add: EntriesForRoot_def AdvanceLastSeq_def)

lemma consume_applied:
  assumes rp: "replica (er_RootID event) root d" and ev: "content_event (er_EventType event)" "cursor d < er_Seq event"
      "er_PathID event = Some pathID"
    and run: "ApplyEvent (applier_of dv (dm_luck d 0)) (dv_conn dv) root event False (drawn d) = (r, d2)"
    and ni: "\<And>e. r = Some e \<Longrightarrow> \<not> is_integrity e"
  shows "consumeRemoteEvent dv event d = (r, if r = None then on_db (AdvanceLastSeq (er_Seq event)) d2 else d2)"
    and "cursor (snd (consumeRemoteEvent dv event d)) = (if r = None then er_Seq event else cursor d)"
proof -
  have st: "\<not> isRootStaged (cr_RootID root) d" using rp replica_root [OF rp] by (simp add: replica_def)
  show c: "consumeRemoteEvent dv event d = (r, if r = None then on_db (AdvanceLastSeq (er_Seq event)) d2 else d2)"
    unfolding consume_content [OF rp ev] apply_content_def using st run ni
    by (auto simp: draw_def drawn_def split: option.split)
  have "downloads_keep (\<lambda>_. True) (dv_conn dv)" by (simp add: downloads_keep_def)
  from consumeRemoteEvent_steady(2,3) [OF this c] ev(2)
  show "cursor (snd (consumeRemoteEvent dv event d)) = (if r = None then er_Seq event else cursor d)"
    unfolding c by auto
qed

lemma not_integrity [simp]: "\<not> is_integrity (PathFailed e)" "\<not> is_integrity (OsFailed m)"
  by (simp_all add: is_integrity_def unwrapped.simps)

text \<open>The one event the device is behind by.\<close>

lemma catch_up_one:
  assumes on: "online px tokens w (mc_net d)" "token \<in> tokens" "token \<noteq> []"
    and c: "dv_conn dv = server_client cfg px u token"
    and ws: "List.find (is_ws w) (t_workspaces (sv_db (wd_server (mc_net d)))) \<noteq> None"
    and q: "floor_seq (sv_db (wd_server (mc_net d))) w \<le> cursor d" "cursor d \<le> max_int64"
    and one: "events_after (cursor d) (server_log w (sv_db (wd_server (mc_net d)))) = [event]"
    and head: "cur_seq (sv_db (wd_server (mc_net d))) w \<le> er_Seq event"
  obtains wd where "online px tokens w wd" and "stored_objects w wd = stored_objects w (mc_net d)"
    and "\<And>fuel. bootstrapOrCatchUp (Suc fuel) dv d = Some (consumeRemoteEvent dv event (d\<lparr>mc_net := wd\<rparr>))"
proof -
  have n: "0 < page_size" "page_size \<le> max_int64" by (simp_all add: page_size_def max_int64_def)
  obtain k wd where f: "cn_FetchEvents (dv_conn dv) (cursor d) page_size (mc_net d)
      = (Inr \<lparr>fr_Events = take k [event], fr_CurrentSeq = cur_seq (sv_db (wd_server (mc_net d))) w\<rparr>, wd)" "0 < k"
    and wd: "online px tokens w wd" "stored_objects w wd = stored_objects w (mc_net d)"
    unfolding c by (rule fetch_request [OF on ws q n, unfolded one]) 
  from f(2) have "take k [event] = [event]" by (cases k) simp_all
  then have "bootstrapOrCatchUp (Suc fuel) dv d = Some (consumeRemoteEvent dv event (d\<lparr>mc_net := wd\<rparr>))" for fuel
    using f(1) head by (simp split: option.split prod.split)
  with wd show ?thesis by (rule that)
qed

section \<open>From submission to consumption\<close>

lemma submitted_content_reaches:
  assumes on: "online px {token, token'} w (mc_net d)" "token \<noteq> []" "token' \<noteq> []"
    and a: "dv_conn dv = server_client cfg px u token"
      "submitEventForIncarnation dv rootID pathID rootKind t baseSeq rootCreatedSeq plain objectRefs d = (Inr resp, d')"
    and t: "content_event t"
    and b: "dv_conn dv' = server_client cfg px u' token'" "mc_net p = mc_net d'"
      "cursor p = cur_seq (sv_db (wd_server (mc_net d))) w"
  obtains event blob wd where "Encrypt (dv_px dv) (lu_nonces (dm_luck d 0) 0) (dk_EventKey (dv_keys dv)) plain
        (EventAAD (dv_WorkspaceID dv) rootID pathID (event_type_string t)) = Inr blob"
    and "pathID \<noteq> []" and "er_RootID event = rootID" and "er_PathID event = Some pathID" and "er_EventType event = t"
    and "er_PayloadBlob event = b64_encode blob" and "er_Seq event = es_AcceptedSeq resp"
    and "cursor p < es_AcceptedSeq resp"
    and "online px {token, token'} w wd" and "stored_objects w wd = stored_objects w (mc_net d)"
    and "\<And>fuel. bootstrapOrCatchUp (Suc fuel) dv' p = Some (consumeRemoteEvent dv' event (p\<lparr>mc_net := wd\<rparr>))"
proof -
  obtain blob where enc: "Encrypt (dv_px dv) (lu_nonces (dm_luck d 0) 0) (dk_EventKey (dv_keys dv)) plain
        (EventAAD (dv_WorkspaceID dv) rootID pathID (event_type_string t)) = Inr blob"
    using a(2) by (auto simp: submitEventForIncarnation_def draw_def split: sum.splits)
  let ?req = "event_request rootID pathID rootKind t baseSeq rootCreatedSeq blob objectRefs"
  have sub: "cn_SubmitEvent (server_client cfg px u token) ?req (mc_net d) = (Inr resp, mc_net d')"
    using a enc by (auto simp: submitEventForIncarnation_def draw_def split: sum.splits prod.splits)
  have t': "content_event (rq_EventType ?req)" using t by (simp add: event_request_def)
  obtain now sess s1 where s: "se_WorkspaceID sess = w" "same_log (sv_db (wd_server (mc_net d))) s1"
      "check_event w ?req s1 = None" "t_last_seq s1 < max_int64"
      "sv_db (wd_server (mc_net d')) = commit_event now sess ?req (t_last_seq s1 + 1) s1"
      "es_AcceptedSeq resp = t_last_seq s1 + 1" "online px {token, token'} w (mc_net d')"
      "sv_files (wd_server (mc_net d')) = sv_files (wd_server (mc_net d))"
    by (rule submit_request [OF on(1) _ on(2) t' sub]) simp_all
  have pathID: "pathID \<noteq> []"
    using s(3) t by (auto simp: check_event_def check_content_def event_request_def content_event_def
        split: option.splits EventType.splits if_splits)
  have inv: "server_inv s1"
    using on(1) s(2) db_inv_same_log by (auto simp: online_def system_inv_def db_inv_def)
  obtain x where x: "List.find (is_ws w) (t_workspaces s1) = Some x" using check_event_ws [OF s(3)] by blast
  let ?q = "t_last_seq s1 + 1"
  define event where "event = (event_record_of now sess ?req ?q)\<lparr>er_ObjectRefs := sort (remdups (rq_ObjectRefs ?req))\<rparr>"
  have cur: "cur_seq s1 w = cursor p" and fl: "floor_seq s1 w \<le> cursor p"
    using s(2) b(3) inv by (auto simp: same_log_def cur_seq_def server_inv_def roots_inv_def)
  have one: "events_after (cursor p) (server_log w (sv_db (wd_server (mc_net p)))) = [event]"
    using commit_next [OF inv, of sess ?req now] s(1,3) by (simp add: b(2) s(5) cur event_def)
  then have "event \<in> set (events_after (cursor p) (server_log w (sv_db (wd_server (mc_net p)))))" by simp
  then have less: "cursor p < er_Seq event" by (simp add: events_after_def)
  have seq: "er_Seq event = es_AcceptedSeq resp" by (simp add: event_def event_record_of_def s(6))
  have ws: "List.find (is_ws w) (t_workspaces (sv_db (wd_server (mc_net p)))) \<noteq> None"
    and head: "cur_seq (sv_db (wd_server (mc_net p))) w \<le> er_Seq event"
    and fl': "floor_seq (sv_db (wd_server (mc_net p))) w \<le> cursor p"
    using x fl by (simp_all add: b(2) s find_ws_commit cur_seq_commit floor_seq_commit seq)
  have q: "cursor p \<le> max_int64" using less seq s(4,6) by simp
  have on': "online px {token, token'} w (mc_net p)" using s(7) b(2) by simp
  have st: "stored_objects w (mc_net p) = stored_objects w (mc_net d)"
    using s(2,8) by (intro ext) (simp add: stored_objects_def b(2) s(5) commit_visible same_log_visible)
  obtain wd where "online px {token, token'} w wd" "stored_objects w wd = stored_objects w (mc_net p)"
    "\<And>fuel. bootstrapOrCatchUp (Suc fuel) dv' p = Some (consumeRemoteEvent dv' event (p\<lparr>mc_net := wd\<rparr>))"
    by (rule catch_up_one [OF on' _ on(3) b(1) ws fl' q one head]) blast+
  with enc seq less pathID st show ?thesis
    by (intro that [of blob event wd])
      (simp_all add: event_def event_record_of_def event_request_def nullString_def)
qed

text \<open>The payload of the event is the plaintext that was sent.\<close>

lemma ApplyEvent_sent:
  assumes "Encrypt px nonce key plain (EventAAD w rootID pathID (event_type_string t)) = Inr blob"
    and "aead_ok px" and "length nonce = NonceSizeX"
    and "ae_px env = px" and "dk_EventKey (ae_keys env) = key" and "ae_WorkspaceID env = w"
    and "er_RootID event = rootID" and "er_PathID event = Some pathID" and "er_EventType event = t"
    and "er_PayloadBlob event = b64_encode blob"
  shows "t = EventDirPut \<Longrightarrow> js_DirPut (ae_json env) plain = Some dp
      \<Longrightarrow> ApplyEvent env c root event st m = apply_dir_put env root event st dp m"
    and "t = EventFilePut \<Longrightarrow> js_FilePut (ae_json env) plain = Some fp
      \<Longrightarrow> ApplyEvent env c root event st m = apply_file_put env c root event st fp m"
    and "t = EventDelete \<Longrightarrow> js_Delete (ae_json env) plain = Some del
      \<Longrightarrow> ApplyEvent env c root event st m = apply_delete env root event st del m"
proof -
  have key: "length key = 32" using assms(1) by (auto simp: Encrypt_def split: if_splits)
  have "Decrypt px key blob (EventAAD w rootID pathID (event_type_string t)) = Inr plain"
    by (rule Decrypt_Encrypt [OF key assms(3) _ assms(1)]) (use assms(2,3) key in \<open>simp add: aead_ok_def\<close>)
  then show "t = EventDirPut \<Longrightarrow> js_DirPut (ae_json env) plain = Some dp
      \<Longrightarrow> ApplyEvent env c root event st m = apply_dir_put env root event st dp m"
    and "t = EventFilePut \<Longrightarrow> js_FilePut (ae_json env) plain = Some fp
      \<Longrightarrow> ApplyEvent env c root event st m = apply_file_put env c root event st fp m"
    and "t = EventDelete \<Longrightarrow> js_Delete (ae_json env) plain = Some del
      \<Longrightarrow> ApplyEvent env c root event st m = apply_delete env root event st del m"
    by (simp_all add: ApplyEvent_def assms(4-10) Let_def)
qed

section \<open>Directories\<close>

lemma ensured_dir:
  assumes "IsAbs root" and "IsAbs dir" and "EnsureSafeDir root dir t = (None, t')"
  shows "t' (Clean dir) = Some NodeDir"
proof (cases "Clean dir = Clean root")
  case True
  then have "ensureDirComponent (Clean root) t = (None, t')"
    using assms(3) by (simp add: EnsureSafeDir_def RelWithinRoot_def)
  then show ?thesis using ensureDirComponent_ok True by metis
next
  case False
  obtain ds where "ds \<noteq> []" "comps (Clean dir) = comps (Clean root) @ ds"
    "\<And>es. es \<noteq> [] \<Longrightarrow> prefix es ds \<Longrightarrow> t' (slash # join_on slash (comps (Clean root) @ es)) = Some NodeDir"
    by (rule EnsureSafeDir_ok [OF assms False]) blast
  then have "t' (slash # join_on slash (comps (Clean dir))) = Some NodeDir" by simp
  moreover obtain cs where "good cs" "Clean dir = slash # join_on slash cs" by (rule Clean_IsAbs [OF assms(2)])
  ultimately show ?thesis by simp
qed

lemma ResolveRemoteTarget_clean:
  assumes "IsAbs root" and "ResolveRemoteTarget root raw allowRoot = Inr (rel, target)"
  shows "Clean target = target"
proof -
  have "target = (if rel \<noteq> [] then Join [Clean root, rel] else Clean root)"
    using assms(2) by (auto simp: ResolveRemoteTarget_def Let_def split: sum.splits option.splits)
  then show ?thesis using Join_abs_clean [of "Clean root" rel] assms(1) by simp
qed

text \<open>The sender names a path as the receiver does.\<close>

lemma validate_sent:
  assumes "cr_Kind root = RootKindDir" and "cr_RootID root = rootID"
    and "ResolveRemoteTarget (cr_TargetAbsPath root) rel True = Inr (rel, target)"
    and "PathID (ae_px env) (ae_keys env) rootID rel \<noteq> []"
  shows "validateDirPutTarget env root rel (Some (PathID (ae_px env) (ae_keys env) rootID rel))
      = Inr (rel, target, PathID (ae_px env) (ae_keys env) rootID rel)"
    and "rel \<noteq> [] \<Longrightarrow> validateFilePutTarget env root rel (Some (PathID (ae_px env) (ae_keys env) rootID rel))
      = Inr (rel, target, PathID (ae_px env) (ae_keys env) rootID rel)"
  using assms
  by (simp_all add: validateDirPutTarget_def validateFilePutTarget_def resolveContentTarget_def Let_def)

lemma apply_dir_put_outcome:
  assumes c: "clean_root root" and k: "cr_Kind root = RootKindDir" and db: "client_inv (mc_db m)"
    and v: "validateDirPutTarget env root (dp_Path payload) (er_PathID event) = Inr (rel, target, pathID)"
    and run: "apply_dir_put env root event False payload m = (r, m')"
  shows "r = map_option PathFailed (fst (EnsureSafeDir (cr_TargetAbsPath root) target (fs_tree (mc_fs m))))
    \<and> (r \<noteq> None \<longrightarrow> mc_db m' = mc_db m)
    \<and> (r = None \<longrightarrow> fs_tree (mc_fs m') target = Some NodeDir \<and> fs_meta (mc_fs m') target = Some (dp_Mode payload, dp_MTimeNS payload)
        \<and> (\<exists>e. EntriesForRoot (cr_RootID root) (mc_db m') rel = Some e \<and> en_CurrentSeq e = er_Seq event
          \<and> en_PathID e = pathID \<and> en_Kind e = RootKindDir \<and> \<not> en_Deleted e))"
proof -
  have res: "resolveContentTarget env root (dp_Path payload) True (er_PathID event) = Inr (rel, target, pathID)"
    using v by (auto simp: validateDirPutTarget_def split: sum.splits if_splits)
  have abs: "IsAbs (cr_TargetAbsPath root)" using c by (simp add: clean_root_def)
  note t = resolveContentTarget_ok [OF abs res]
  have clean: "Clean target = target" using t(5) [OF k] ResolveRemoteTarget_clean [OF abs] by blast
  obtain e t' where e: "EnsureSafeDir (cr_TargetAbsPath root) target (fs_tree (mc_fs m)) = (e, t')" by fastforce
  show ?thesis
  proof (cases e)
    case (Some x)
    then show ?thesis
      using run v e k by (auto simp: apply_dir_put_def ensureSafeDirTarget_def on_tree_def Let_def)
  next
    case None
    let ?expected = "zero_entry\<lparr>en_RootID := cr_RootID root, en_RelPath := rel, en_Kind := RootKindDir,
      en_Mode := dp_Mode payload, en_MTimeNS := dp_MTimeNS payload\<rparr>"
    let ?entry = "?expected\<lparr>en_PathID := pathID, en_CurrentSeq := er_Seq event\<rparr>"
    let ?db = "SetIgnore (cr_RootID root) rel (ae_now env + ignore_ttl) ?expected (mc_db m)"
    have m': "mc_fs m' = set_attributes target (dp_Mode payload) (dp_MTimeNS payload) ((mc_fs m)\<lparr>fs_tree := t'\<rparr>)"
      "r = None" "mc_db m' = UpsertEntry ?entry ?db"
      using run v e k None by (auto simp: apply_dir_put_def ensureSafeDirTarget_def on_tree_def Let_def)
    have "t' target = Some NodeDir" using ensured_dir [OF abs t(1) e [unfolded None]] clean by simp
    moreover have "entry_at (cr_RootID root, rel) (UpsertEntry ?entry ?db) = Some ?entry"
      using entry_at_insertEntry [OF client_inv_SetIgnore [OF db]] by (simp add: UpsertEntry_def)
    then have "EntriesForRoot (cr_RootID root) (mc_db m') rel = Some ?entry" by (simp add: entry_at_def m'(3))
    ultimately show ?thesis using m'(1,2) by (simp add: set_attributes_def zero_entry_def e None)
  qed
qed

text \<open>Two daemons of one workspace.\<close>

definition same_workspace :: "primitives \<Rightarrow> string \<Rightarrow> 's daemon_env \<Rightarrow> 's daemon_env \<Rightarrow> bool" where
  "same_workspace px w dv dv' \<longleftrightarrow> dv_px dv = px \<and> dv_px dv' = px \<and> dv_keys dv' = dv_keys dv
     \<and> dv_WorkspaceID dv = w \<and> dv_WorkspaceID dv' = w"

lemma submitted_dir_reaches:
  assumes "online px {token, token'} w (mc_net d)" and "token \<noteq> []" and "token' \<noteq> []"
    and "dv_conn dv = server_client cfg px u token" and "dv_conn dv' = server_client cfg px u' token'"
    and ws: "same_workspace px w dv dv'" and "aead_ok px" and "length (lu_nonces (dm_luck d 0) 0) = NonceSizeX"
    and json: "js_DirPut (dv_json dv') (je_DirPut (dv_encode dv) \<lparr>dp_Path = sc_RelPath item, dp_Mode = sc_Mode item, dp_MTimeNS = sc_MTimeNS item\<rparr>)
      = Some \<lparr>dp_Path = sc_RelPath item, dp_Mode = sc_Mode item, dp_MTimeNS = sc_MTimeNS item\<rparr>"
    and sub: "submit_dir dv rootID (PathID px (dv_keys dv) rootID (sc_RelPath item)) item baseSeq rootCreatedSeq d = (Inr resp, d')"
    and p: "mc_net p = mc_net d'" "cursor p = cur_seq (sv_db (wd_server (mc_net d))) w"
    and root: "replica rootID root p" "clean_root root" "client_inv (mc_db p)"
      "ResolveRemoteTarget (cr_TargetAbsPath root) (sc_RelPath item) True = Inr (sc_RelPath item, target)"
  shows "\<exists>p'. bootstrapOrCatchUp (Suc fuel) dv' p
      = Some (map_option PathFailed (fst (EnsureSafeDir (cr_TargetAbsPath root) target (fs_tree (mc_fs p)))), p')
    \<and> (if fst (EnsureSafeDir (cr_TargetAbsPath root) target (fs_tree (mc_fs p))) = None
        then cursor p' = es_AcceptedSeq resp
          \<and> fs_tree (mc_fs p') target = Some NodeDir \<and> fs_meta (mc_fs p') target = Some (sc_Mode item, sc_MTimeNS item)
          \<and> (\<exists>e. EntriesForRoot rootID (mc_db p') (sc_RelPath item) = Some e
              \<and> en_CurrentSeq e = es_AcceptedSeq resp \<and> en_Kind e = RootKindDir \<and> \<not> en_Deleted e)
        else cursor p' = cursor p)"
proof -
  let ?rel = "sc_RelPath item" and ?payload = "\<lparr>dp_Path = sc_RelPath item, dp_Mode = sc_Mode item, dp_MTimeNS = sc_MTimeNS item\<rparr>"
  let ?id = "PathID px (dv_keys dv) rootID ?rel"
  obtain event blob wd where ev: "Encrypt (dv_px dv) (lu_nonces (dm_luck d 0) 0) (dk_EventKey (dv_keys dv))
        (je_DirPut (dv_encode dv) ?payload) (EventAAD (dv_WorkspaceID dv) rootID ?id (event_type_string EventDirPut)) = Inr blob"
      "?id \<noteq> []" "er_RootID event = rootID" "er_PathID event = Some ?id" "er_EventType event = EventDirPut"
      "er_PayloadBlob event = b64_encode blob" "er_Seq event = es_AcceptedSeq resp" "cursor p < es_AcceptedSeq resp"
    and run: "\<And>fuel. bootstrapOrCatchUp (Suc fuel) dv' p = Some (consumeRemoteEvent dv' event (p\<lparr>mc_net := wd\<rparr>))"
    by (rule submitted_content_reaches [OF assms(1-4) sub [unfolded submit_dir_def] _ assms(5) p])
      (simp_all add: content_event_def)
  let ?p = "p\<lparr>mc_net := wd\<rparr>" and ?env = "applier_of dv' (dm_luck p 0)"
  have env: "ae_px ?env = px" "dk_EventKey (ae_keys ?env) = dk_EventKey (dv_keys dv)" "ae_keys ?env = dv_keys dv"
      "ae_WorkspaceID ?env = w" "ae_json ?env = dv_json dv'"
    using ws by (simp_all add: applier_of_def same_workspace_def)
  have enc: "Encrypt px (lu_nonces (dm_luck d 0) 0) (dk_EventKey (dv_keys dv)) (je_DirPut (dv_encode dv) ?payload)
      (EventAAD w rootID ?id (event_type_string EventDirPut)) = Inr blob"
    using ev(1) ws by (simp add: same_workspace_def)
  obtain r p2 where ap: "apply_dir_put ?env root event False ?payload (drawn ?p) = (r, p2)" by fastforce
  have rp: "replica (er_RootID event) root ?p" and id: "cr_RootID root = rootID"
    using root(1) ev(3) replica_root [OF root(1)] by simp_all
  have k: "cr_Kind root = RootKindDir" using root(1) by (simp add: replica_def)
  have "validateDirPutTarget ?env root (dp_Path ?payload) (er_PathID event) = Inr (?rel, target, ?id)"
    using validate_sent(1) [OF k id root(4), of ?env] ev(2,4) by (simp add: env)
  note out = apply_dir_put_outcome [OF root(2) k _ this ap, unfolded drawn_sel, simplified, OF root(3)]
  have sent: "ApplyEvent (applier_of dv' (dm_luck ?p 0)) (dv_conn dv') root event False (drawn ?p) = (r, p2)"
    using ApplyEvent_sent(1) [OF enc assms(7,8) env(1,2,4) ev(3-6) refl, where dp = ?payload and c = "dv_conn dv'" and m = "drawn ?p"] json ap by (simp add: env(5))
  have r: "r = map_option PathFailed (fst (EnsureSafeDir (cr_TargetAbsPath root) target (fs_tree (mc_fs p))))"
    using out by blast
  have ni: "\<not> is_integrity e" if "r = Some e" for e using that unfolding r by auto
  have ce: "content_event (er_EventType event)" "cursor ?p < er_Seq event"
    using ev by (simp_all add: content_event_def cursor_eq)
  note c = consume_applied [OF rp ce ev(4) sent ni]
  have "cursor ?p = cursor p" by (simp add: cursor_eq)
  then show ?thesis
    using run [of fuel] c out ev(7) id
    by (cases "fst (EnsureSafeDir (cr_TargetAbsPath root) target (fs_tree (mc_fs p)))") (auto simp: r on_db_def)
qed

section \<open>Files\<close>

lemma UploadFile_keeps:
  assumes "online px {token, token'} w wd"
    and "UploadFile px (UploadObject (server_client cfg px u token)) nonces key w' rootID pathID rel absPath mode mtime fs wd = (Inr res, wd')"
  shows "online px {token, token'} w wd'"
    and "fp_Path (ur_Payload res) = rel" and "fp_Mode (ur_Payload res) = mode" and "fp_MTimeNS (ur_Payload res) = mtime"
proof -
  obtain content chunks where lp: "upload_loop px (UploadObject (server_client cfg px u token)) nonces key w' rootID pathID 0 content [] wd = (Inr chunks, wd')"
    and res: "fp_Path (ur_Payload res) = rel" "fp_Mode (ur_Payload res) = mode" "fp_MTimeNS (ur_Payload res) = mtime"
    using assms(2) by (auto simp: UploadFile_def split: prod.splits sum.splits option.splits)
  from server_blobs.upload_loop_cut [OF assms(1) lp] show "online px {token, token'} w wd'" by blast
  show "fp_Path (ur_Payload res) = rel" "fp_Mode (ur_Payload res) = mode" "fp_MTimeNS (ur_Payload res) = mtime"
    by (rule res)+
qed

lemma submitted_file_reaches:
  assumes on: "online px {token, token'} w (mc_net d)" and "token \<noteq> []" and "token' \<noteq> []"
    and cn: "dv_conn dv = server_client cfg px u token" "dv_conn dv' = server_client cfg px u' token'"
    and ws: "same_workspace px w dv dv'" and "aead_ok px" and nonces: "\<And>n i. length (lu_nonces (dm_luck d n) i) = NonceSizeX"
    and content: "fs_data (mc_fs d) absPath = Some content" "int (length content) \<le> max_int64"
    and up: "upload_file dv rootID (PathID px (dv_keys dv) rootID rel) rel absPath mode mtime d = (Inr file, d1)"
    and inj: "inj_on (ObjectID px) (ran (stored_objects w (mc_net d1))
        \<union> chunk_blobs px (lu_nonces (dm_luck d 0)) (dk_BlobKey (dv_keys dv)) w rootID (PathID px (dv_keys dv) rootID rel) content)"
    and json: "js_FilePut (dv_json dv') (je_FilePut (dv_encode dv) (ur_Payload file)) = Some (ur_Payload file)"
    and sub: "submit_file dv rootID (PathID px (dv_keys dv) rootID rel) file baseSeq rootCreatedSeq d1 = (Inr resp, d')"
    and p: "mc_net p = mc_net d'" "cursor p = cur_seq (sv_db (wd_server (mc_net d1))) w"
    and root: "replica rootID root p" "clean_root root" "client_inv (mc_db p)" "fs_ok (mc_fs p)"
      "ResolveRemoteTarget (cr_TargetAbsPath root) rel True = Inr (rel, target)" "rel \<noteq> []"
    and writes: "ft_write (lu_faults (dm_luck p 0)) = (\<lambda>_. None)"
  shows "\<exists>r p'. bootstrapOrCatchUp (Suc fuel) dv' p = Some (r, p')
    \<and> (r = None \<and> cursor p' = es_AcceptedSeq resp
          \<and> fs_at (mc_fs p') target = (Some NodeFile, Some content, Some (mode, mtime))
          \<and> (\<exists>e. EntriesForRoot rootID (mc_db p') rel = Some e \<and> en_CurrentSeq e = es_AcceptedSeq resp
              \<and> en_ContentSHA256 e = hex_encode (px_sha256 px content) \<and> \<not> en_Deleted e)
        \<or> ((\<exists>e. r = Some (PathFailed e)) \<or> (\<exists>e. r = Some (OsFailed e))) \<and> cursor p' = cursor p)"
proof -
  let ?id = "PathID px (dv_keys dv) rootID rel" and ?lu = "dm_luck d 0"
  have px: "dv_px dv = px" "dv_px dv' = px" "dv_keys dv' = dv_keys dv" "dv_WorkspaceID dv = w" "dv_WorkspaceID dv' = w"
    using ws by (simp_all add: same_workspace_def)
  have upl: "UploadFile px (UploadObject (server_client cfg px u token)) (lu_nonces ?lu) (dk_BlobKey (dv_keys dv)) w rootID ?id rel absPath mode mtime (mc_fs d) (mc_net d) = (Inr file, mc_net d1)"
    and d1: "d1 = (drawn d)\<lparr>mc_net := mc_net d1\<rparr>"
    using up by (auto simp: upload_file_def draw_def drawn_def cn px split: prod.splits)
  note keep = UploadFile_keeps [OF on upl]
  have luck: "dm_luck d1 0 = dm_luck d 1" by (subst d1) (simp add: drawn_def)
  obtain event blob wd where ev: "Encrypt (dv_px dv) (lu_nonces (dm_luck d1 0) 0) (dk_EventKey (dv_keys dv))
        (je_FilePut (dv_encode dv) (ur_Payload file)) (EventAAD (dv_WorkspaceID dv) rootID ?id (event_type_string EventFilePut)) = Inr blob"
      "?id \<noteq> []" "er_RootID event = rootID" "er_PathID event = Some ?id" "er_EventType event = EventFilePut"
      "er_PayloadBlob event = b64_encode blob" "er_Seq event = es_AcceptedSeq resp" "cursor p < es_AcceptedSeq resp"
    and wd: "online px {token, token'} w wd" "stored_objects w wd = stored_objects w (mc_net d1)"
    and run: "\<And>fuel. bootstrapOrCatchUp (Suc fuel) dv' p = Some (consumeRemoteEvent dv' event (p\<lparr>mc_net := wd\<rparr>))"
    by (rule submitted_content_reaches [OF keep(1) assms(2,3) cn(1) sub [unfolded submit_file_def] _ cn(2) p])
      (simp_all add: content_event_def)
  let ?p = "p\<lparr>mc_net := wd\<rparr>" and ?env = "applier_of dv' (dm_luck p 0)" and ?payload = "ur_Payload file"
  have env: "ae_px ?env = px" "dk_EventKey (ae_keys ?env) = dk_EventKey (dv_keys dv)" "ae_keys ?env = dv_keys dv"
      "ae_WorkspaceID ?env = w" "ae_json ?env = dv_json dv'" "ft_write (ae_faults ?env) = (\<lambda>_. None)"
    using writes by (simp_all add: applier_of_def px)
  have rp: "replica (er_RootID event) root ?p" and id: "cr_RootID root = rootID"
    using root(1) ev(3) replica_root [OF root(1)] by simp_all
  have k: "cr_Kind root = RootKindDir" using root(1) by (simp add: replica_def)
  have v: "validateFilePutTarget ?env root rel (er_PathID event) = Inr (rel, target, ?id)"
    using validate_sent(2) [OF k id root(5), of ?env] ev(2,4) root(6) by (simp add: env)
  obtain r p2 where ap: "apply_file_put ?env (dv_conn dv') root event False ?payload (drawn ?p) = (r, p2)" by fastforce
  note out = apply_file_put_outcome [OF root(2) _ _ v [folded keep(2)] ap, unfolded drawn_sel, simplified, OF root(4,3)]
  have arrives: "r = None \<and> fs_data (mc_fs p2) target = Some content \<or> (\<exists>e. r = Some (PathFailed e)) \<or> (\<exists>e. r = Some (OsFailed e))"
    by (rule uploaded_file_arrives [OF on _ content assms(7) _ _ env(1,4,6) v _ _ ap [unfolded cn(2)],
          where nonces = "lu_nonces ?lu" and wd' = "mc_net d1"])
      (use upl inj wd nonces in \<open>simp_all add: env id\<close>)
  have enc: "Encrypt px (lu_nonces (dm_luck d 1) 0) (dk_EventKey (dv_keys dv)) (je_FilePut (dv_encode dv) ?payload)
      (EventAAD w rootID ?id (event_type_string EventFilePut)) = Inr blob"
    using ev(1) by (simp add: px luck)
  have sent: "ApplyEvent (applier_of dv' (dm_luck ?p 0)) (dv_conn dv') root event False (drawn ?p) = (r, p2)"
    using ApplyEvent_sent(2) [OF enc assms(7) nonces env(1,2,4) ev(3-6) refl, where fp = ?payload and c = "dv_conn dv'" and m = "drawn ?p"]
      json ap by (simp add: env(5))
  have ni: "\<not> is_integrity e" if "r = Some e" for e using arrives that by auto
  have ce: "content_event (er_EventType event)" "cursor ?p < er_Seq event"
    using ev by (simp_all add: content_event_def cursor_eq)
  note c = consume_applied [OF rp ce ev(4) sent ni]
  have cp: "cursor ?p = cursor p" by (simp add: cursor_eq)
  show ?thesis
  proof (cases r)
    case None
    from out None obtain x where x: "fs_at (mc_fs p2) target = (Some NodeFile, Some x, Some (fp_Mode ?payload, fp_MTimeNS ?payload))"
      "hex_encode (px_sha256 px x) = fp_ContentSHA256 ?payload" by (auto simp: env(1))
    have "x = content" using x(1) arrives None by (simp add: fs_at_def)
    with x have "fs_at (mc_fs p2) target = (Some NodeFile, Some content, Some (mode, mtime))"
      "fp_ContentSHA256 ?payload = hex_encode (px_sha256 px content)" by (simp_all add: keep)
    then show ?thesis using run c cp out [unfolded keep(2)] None ev(7) id by (auto simp: on_db_def)
  next
    case (Some e)
    then show ?thesis using run c cp arrives by auto
  qed
qed

end
