(* ===== verification/DeliveryClaims.thy ===== *)
theory DeliveryClaims
  imports Delivery DaemonClaims
begin

text \<open>What arrives on the other devices of a workspace: the two properties, with their instances.\<close>

section \<open>Two devices and a server\<close>

text \<open>A server with a workspace, its root and two sessions, and a five-byte file.\<close>

definition demo_rows :: server_db where
  "demo_rows = empty_db\<lparr>
     t_workspaces := [\<lparr>ws_id = ''w'', ws_pubkey = ''key'', ws_current_seq = 1, ws_floor = 0, ws_created_at = 10, ws_updated_at = 13\<rparr>],
     t_sessions := [demo_session_row ''aa'' ''d1'', demo_session_row ''bb'' ''d2''],
     t_roots := [\<lparr>rt_ws = ''w'', rt_id = ''r'', rt_kind = RootKindDir, rt_descriptor = ''descriptor'', rt_created_seq = 1,
         rt_removed_seq = None, rt_snap_obj = None, rt_snap_seq = None, rt_created_at = 13, rt_updated_at = 13\<rparr>],
     t_events := [\<lparr>ev_seq = 1, ev_ws = ''w'', ev_root = ''r'', ev_path = None, ev_type = EventRootAdd, ev_base_seq = None,
         ev_author = ''d'', ev_payload = ''descriptor'', ev_created_at = 13\<rparr>],
     t_last_seq := 1\<rparr>"

lemma demo_rows_plain: "demo_rows = plain_db\<lparr>t_sessions := [demo_session_row ''aa'' ''d1'', demo_session_row ''bb'' ''d2'']\<rparr>"
  by code_simp

definition demo_world :: world where
  "demo_world = \<lparr>wd_server = restart demo_cfg (\<lambda>_. None) demo_rows, wd_clock = (\<lambda>_. (60, []))\<rparr>"

definition demo_source :: fsys where
  "demo_source = \<lparr>fs_tree = [''/f'' \<mapsto> NodeFile], fs_data = [''/f'' \<mapsto> ''hello''], fs_meta = Map.empty\<rparr>"

definition demo_nonces :: "nat \<Rightarrow> bytes" where
  "demo_nonces i = replicate NonceSizeX (CHR ''n'')"

definition demo_cipher :: bytes where
  "demo_cipher = char_of blobFormatVersion # replicate NonceSizeX (CHR ''n'') @ ''hello'' @ replicate 16 (CHR ''t'')"

definition demo_uploader :: "world Client" where
  "demo_uploader = server_client demo_cfg demo_px ''https://syna'' ''aa''"

lemma demo_px_ok: "hash_ok demo_px" "aead_ok demo_px"
  by (simp_all add: hash_ok_def aead_ok_def demo_px_def aeadOverhead_def min_def)

lemma demo_online: "online demo_px {''aa'', ''bb''} demo_ws demo_world"
proof -
  let ?db = "plain_db\<lparr>t_sessions := [demo_session_row ''aa'' ''d1'', demo_session_row ''bb'' ''d2'']\<rparr>"
  have same: "same_log plain_db ?db" by (simp add: same_log_def)
  have "db_inv plain_db" using plain_server_ok by (simp add: system_inv_def plain_server_def restart_def)
  moreover have "object_ids plain_db = {}"
    by (simp add: plain_db_def SubmitEvent_objects Ensure_objects) (simp add: object_ids_def empty_db_def)
  ultimately have "system_inv demo_px (wd_server demo_world)"
    using db_inv_same_log [OF same] object_ids_same_log [OF same] unfolding demo_world_def demo_rows_plain world.select_convs
    by (intro restart_inv) (simp add: files_db_inv_def store_inv_def content_ok_def rows_have_files_ids)
  moreover have "token_ok demo_px ''aa'' demo_ws 60 (sv_db (wd_server demo_world))"
    "token_ok demo_px ''bb'' demo_ws 60 (sv_db (wd_server demo_world))"
    by (simp_all add: token_ok_def demo_world_def demo_rows_def restart_def demo_session_row_def key_simps demo_px_def)
  ultimately show ?thesis using demo_px_ok(1) by (auto simp: online_def) (auto simp: demo_world_def)
qed

lemma demo_cut:
  assumes "cut demo_px demo_nonces (replicate 32 (CHR ''b'')) demo_ws ''r'' pid 0 ''hello'' cs"
  shows "cs = [(\<lparr>ch_ObjectID = ObjectID demo_px demo_cipher, ch_PlainSize = 5\<rparr>, demo_cipher)]"
proof -
  have l: "length ''hello'' \<le> ChunkSize" by (simp add: ChunkSize_def MaxFileChunkPlainSize_def)
  then have t: "take ChunkSize ''hello'' = ''hello''" "drop ChunkSize ''hello'' = []" by (metis take_all, metis drop_all)
  have e: "Encrypt demo_px (demo_nonces 0) (replicate 32 (CHR ''b'')) ''hello'' aad = Inr demo_cipher" for aad
    by (simp add: Encrypt_def demo_px_def demo_cipher_def demo_nonces_def)
  have "min (Suc (Suc (Suc (Suc (Suc 0))))) ChunkSize = 5" using l by (simp add: min_def)
  with assms show ?thesis
    by - (erule cut.cases, auto simp: t e elim: cut_nilE)
qed

definition demo_upload :: upload_result where
  "demo_upload = \<lparr>ur_Payload = \<lparr>fp_Path = ''a'', fp_Mode = 420, fp_MTimeNS = 9, fp_SizeBytes = 5,
       fp_ContentSHA256 = hex_encode (px_sha256 demo_px ''hello''),
       fp_Chunks = [\<lparr>ch_ObjectID = ObjectID demo_px demo_cipher, ch_PlainSize = 5\<rparr>]\<rparr>,
     ur_Refs = [ObjectID demo_px demo_cipher]\<rparr>"

definition demo_uploaded :: world where
  "demo_uploaded = snd (UploadObject demo_uploader (ObjectID demo_px demo_cipher) ''file_chunk'' 5 demo_cipher demo_world)"

lemma demo_put: "UploadObject demo_uploader (ObjectID demo_px demo_cipher) ''file_chunk'' 5 demo_cipher demo_world = (None, demo_uploaded)"
proof -
  have "fst (UploadObject demo_uploader (ObjectID demo_px demo_cipher) ''file_chunk'' 5 demo_cipher demo_world) = None"
    by code_simp
  then show ?thesis by (simp add: demo_uploaded_def prod_eq_iff)
qed

lemma demo_upload_ok:
  "UploadFile demo_px (UploadObject demo_uploader) demo_nonces (replicate 32 (CHR ''b'')) demo_ws ''r'' pid
     ''a'' ''/f'' 420 9 demo_source demo_world = (Inr demo_upload, demo_uploaded)"
proof -
  have l: "length ''hello'' < ChunkSize" by (simp add: ChunkSize_def MaxFileChunkPlainSize_def)
  then have t: "take ChunkSize ''hello'' = ''hello''" by (metis less_imp_le take_all)
  have e: "Encrypt demo_px (demo_nonces 0) (replicate 32 (CHR ''b'')) ''hello'' aad = Inr demo_cipher" for aad
    by (simp add: Encrypt_def demo_px_def demo_cipher_def demo_nonces_def)
  have "int (length ''hello'') = 5" by simp
  then have "upload_loop demo_px (UploadObject demo_uploader) demo_nonces (replicate 32 (CHR ''b'')) demo_ws ''r'' pid 0 ''hello'' [] demo_world
      = (Inr [\<lparr>ch_ObjectID = ObjectID demo_px demo_cipher, ch_PlainSize = 5\<rparr>], demo_uploaded)"
    using l by (subst upload_loop.simps) (simp only: t Let_def e demo_put list.distinct if_False if_True sum.case prod.case option.case rev.simps append.simps)
  then show ?thesis by (simp add: UploadFile_def demo_source_def demo_upload_def)
qed

lemma demo_stored: "ran (stored_objects demo_ws demo_uploaded) \<subseteq> {demo_cipher}"
proof -
  let ?oid = "ObjectID demo_px demo_cipher"
  let ?r = "(object_request demo_uploader ''PUT'' ?oid)
      \<lparr>hr_ObjectKind := ''file_chunk'', hr_PlainSize := FormatInt 5, hr_Body := demo_cipher\<rparr>"
  have wu: "demo_uploaded = snd (serve demo_cfg demo_px ?r ReqNone demo_world)"
    using demo_put by (auto simp: UploadObject_def demo_uploader_def http_do_server split: prod.splits if_splits)
  have w: "wd_server demo_uploaded = snd (handleObjects demo_cfg demo_px 60 ?r (wd_server demo_world))"
    using Handler_objects [of ?r ?oid] by (simp add: wu serve_def demo_world_def object_request_path case_prod_unfold Let_def)
  have put: "sv_files (snd (object_put cfg px now r sess sv)) = sv_files sv
      \<or> (\<exists>p. sv_files (snd (object_put cfg px now r sess sv)) = (sv_files sv)(p \<mapsto> hr_Body r))" for cfg px now r sess sv
    by (auto simp: object_put_def Let_def Put_def split: option.split sum.split prod.split)
  obtain sess db where sr: "sessionFromRequest demo_px 60 ?r (sv_db (wd_server demo_world)) = (sess, db)" by fastforce
  let ?sv = "(wd_server demo_world)\<lparr>sv_db := db\<rparr>"
  have e: "sv_files ?sv = Map.empty" by (simp add: demo_world_def restart_def)
  have "wd_server demo_uploaded = (case sess of None \<Rightarrow> ?sv | Some x \<Rightarrow> snd (object_put demo_cfg demo_px 60 ?r x ?sv))"
    by (simp add: w handleObjects_def withSession_def sr split: option.split)
  then have "sv_files (wd_server demo_uploaded) = Map.empty \<or> (\<exists>p. sv_files (wd_server demo_uploaded) = [p \<mapsto> demo_cipher])"
    using put [of demo_cfg demo_px 60 ?r "the sess" ?sv] e by (cases sess) simp_all
  then show "ran (stored_objects demo_ws demo_uploaded) \<subseteq> {demo_cipher}"
    by (auto simp: stored_objects_def ran_def split: if_splits)
qed

text \<open>The sender and the receiver.\<close>

definition demo_sender :: "world daemon_env" where
  "demo_sender = demo_dv\<lparr>dv_DeviceID := ''d1'', dv_conn := demo_uploader,
     dv_encode := demo_encoder\<lparr>je_DirPut := (\<lambda>_. ''D''), je_FilePut := (\<lambda>_. ''F'')\<rparr>\<rparr>"

definition demo_receiver :: "world daemon_env" where
  "demo_receiver = demo_dv\<lparr>dv_DeviceID := ''d2'', dv_conn := server_client demo_cfg demo_px ''https://syna'' ''bb'',
     dv_json := demo_codec\<lparr>js_FilePut := (\<lambda>b. if b = ''F'' then Some (ur_Payload demo_upload) else None)\<rparr>\<rparr>"

definition demo_here :: "world daemon" where
  "demo_here = demo_daemon\<lparr>mc_fs := demo_source, mc_net := demo_world,
     dm_luck := (\<lambda>_. \<lparr>lu_now = 50, lu_random = ''1'', lu_nonces = demo_nonces, lu_faults = no_faults, lu_watch = None\<rparr>)\<rparr>"

definition demo_there :: "world \<Rightarrow> world daemon" where
  "demo_there wd = demo_daemon\<lparr>mc_db := AdvanceLastSeq 1 (mc_db demo_daemon), mc_net := wd\<rparr>"

definition demo_pid :: string where
  "demo_pid = PathID demo_px demo_keys ''r'' ''a''"

definition demo_item :: ScanEntry where
  "demo_item = \<lparr>sc_RelPath = ''a'', sc_AbsPath = ''/h/docs/a'', sc_Kind = RootKindDir, sc_Mode = 493, sc_MTimeNS = 7,
     sc_SizeBytes = 0, sc_ContentSHA256 = []\<rparr>"

lemma demo_there_ok:
  "replica ''r'' (demo_root\<lparr>cr_RootID := ''r''\<rparr>) (demo_there wd)" "clean_root (demo_root\<lparr>cr_RootID := ''r''\<rparr>)"
  "client_inv (mc_db (demo_there wd))" "fs_ok (mc_fs (demo_there wd))" "cursor (demo_there wd) = 1"
proof -
  show "client_inv (mc_db (demo_there wd))"
    by (simp add: demo_there_def demo_daemon_def)
      (intro client_step_inv [OF client_step.advance] client_step_inv [OF client_step.upsert_root] client_inv_init)
  show "clean_root (demo_root\<lparr>cr_RootID := ''r''\<rparr>)" using demo_fs_ok(2) by (simp add: clean_root_def)
  show "fs_ok (mc_fs (demo_there wd))" using demo_fs_ok(1) by (simp add: demo_there_def demo_daemon_def)
  show c: "cursor (demo_there wd) = 1"
    by (simp add: demo_there_def demo_daemon_def cursor_eq AdvanceLastSeq_def UpsertRoot_def client_init_def)
  show "replica ''r'' (demo_root\<lparr>cr_RootID := ''r''\<rparr>) (demo_there wd)"
    unfolding replica_def c
    by (simp add: demo_there_def demo_daemon_def RootByID_def UpsertRoot_def upsert_def client_init_def
        AdvanceLastSeq_def row_exists_def is_croot_def demo_root_def isRootStaged_def EntriesForRoot_def)
qed

lemma demo_envs:
  "dv_conn demo_sender = server_client demo_cfg demo_px ''https://syna'' ''aa''"
  "dv_conn demo_receiver = server_client demo_cfg demo_px ''https://syna'' ''bb''"
  "same_workspace demo_px demo_ws demo_sender demo_receiver" "dv_keys demo_sender = demo_keys"
  "mc_net demo_here = demo_world" "length (lu_nonces (dm_luck demo_here n) i) = NonceSizeX"
  by (simp_all add: demo_sender_def demo_receiver_def demo_dv_def demo_uploader_def same_workspace_def
      demo_here_def demo_nonces_def)

section \<open>The properties\<close>

text \<open>C3: A directory created on one device appears on the others. If the server accepts the event that
  announces it, then a device of the same workspace that was up to date before, and on which the root is
  in sync, catches up by creating the directory with its attributes and recording it under the event's
  number, with the cursor at the event; or its own tree does not admit the directory, and then the
  cursor stays, so that the event is applied again.\<close>

theorem submitted_dir_arrives:
  assumes "online px {token, token'} w (mc_net d)" and "token \<noteq> []" and "token' \<noteq> []"
    and "dv_conn dv = server_client cfg px u token" and "dv_conn dv' = server_client cfg px u' token'"
    and "same_workspace px w dv dv'" and "aead_ok px" and "length (lu_nonces (dm_luck d 0) 0) = NonceSizeX"
    and "js_DirPut (dv_json dv') (je_DirPut (dv_encode dv) \<lparr>dp_Path = sc_RelPath item, dp_Mode = sc_Mode item, dp_MTimeNS = sc_MTimeNS item\<rparr>)
      = Some \<lparr>dp_Path = sc_RelPath item, dp_Mode = sc_Mode item, dp_MTimeNS = sc_MTimeNS item\<rparr>"
    and "submit_dir dv rootID (PathID px (dv_keys dv) rootID (sc_RelPath item)) item baseSeq rootCreatedSeq d = (Inr resp, d')"
    and "mc_net p = mc_net d'" "cursor p = cur_seq (sv_db (wd_server (mc_net d))) w"
    and "replica rootID root p" "clean_root root" "client_inv (mc_db p)"
      "ResolveRemoteTarget (cr_TargetAbsPath root) (sc_RelPath item) True = Inr (sc_RelPath item, target)"
  shows "\<exists>p'. bootstrapOrCatchUp (Suc fuel) dv' p
      = Some (map_option PathFailed (fst (EnsureSafeDir (cr_TargetAbsPath root) target (fs_tree (mc_fs p)))), p')
    \<and> (if fst (EnsureSafeDir (cr_TargetAbsPath root) target (fs_tree (mc_fs p))) = None
        then cursor p' = es_AcceptedSeq resp
          \<and> fs_tree (mc_fs p') target = Some NodeDir \<and> fs_meta (mc_fs p') target = Some (sc_Mode item, sc_MTimeNS item)
          \<and> (\<exists>e. EntriesForRoot rootID (mc_db p') (sc_RelPath item) = Some e
              \<and> en_CurrentSeq e = es_AcceptedSeq resp \<and> en_Kind e = RootKindDir \<and> \<not> en_Deleted e)
        else cursor p' = cursor p)"
  by (rule submitted_dir_reaches [OF assms])

lemma demo_there_target: "ResolveRemoteTarget (cr_TargetAbsPath (demo_root\<lparr>cr_RootID := ''r''\<rparr>)) ''a'' True = Inr (''a'', ''/h/docs/a'')"
  by code_simp

theorem submitted_dir_arrives_witness:
  "\<exists>resp d' p'. submit_dir demo_sender ''r'' demo_pid demo_item 0 1 demo_here = (Inr resp, d')
    \<and> bootstrapOrCatchUp 1 demo_receiver (demo_there (mc_net d')) = Some (None, p')
    \<and> fs_tree (mc_fs p') ''/h/docs/a'' = Some NodeDir"
proof -
  have "case fst (submit_dir demo_sender ''r'' demo_pid demo_item 0 1 demo_here) of Inl e \<Rightarrow> False | Inr resp \<Rightarrow> True"
    by code_simp
  then obtain resp d' where sub: "submit_dir demo_sender ''r'' demo_pid demo_item 0 1 demo_here = (Inr resp, d')"
    by (cases "submit_dir demo_sender ''r'' demo_pid demo_item 0 1 demo_here") (auto split: sum.splits)
  let ?root = "demo_root\<lparr>cr_RootID := ''r''\<rparr>" and ?there = "demo_there (mc_net d')"
  have on: "online demo_px {''aa'', ''bb''} demo_ws (mc_net demo_here)" using demo_online by (simp add: demo_envs)
  have json: "js_DirPut (dv_json demo_receiver) (je_DirPut (dv_encode demo_sender)
        \<lparr>dp_Path = sc_RelPath demo_item, dp_Mode = sc_Mode demo_item, dp_MTimeNS = sc_MTimeNS demo_item\<rparr>)
      = Some \<lparr>dp_Path = sc_RelPath demo_item, dp_Mode = sc_Mode demo_item, dp_MTimeNS = sc_MTimeNS demo_item\<rparr>"
    by (simp add: demo_receiver_def demo_sender_def demo_dv_def demo_codec_def demo_dir_put_def demo_item_def)
  have sub': "submit_dir demo_sender ''r'' (PathID demo_px (dv_keys demo_sender) ''r'' (sc_RelPath demo_item)) demo_item 0 1 demo_here = (Inr resp, d')"
    using sub by (simp add: demo_envs demo_pid_def demo_item_def)
  have net: "mc_net ?there = mc_net d'" by (simp add: demo_there_def)
  have cur: "cursor ?there = cur_seq (sv_db (wd_server (mc_net demo_here))) demo_ws"
    by (simp add: demo_there_ok demo_envs demo_world_def restart_def demo_rows_def cur_seq_def key_simps demo_ws_def)
  have target: "ResolveRemoteTarget (cr_TargetAbsPath ?root) (sc_RelPath demo_item) True = Inr (sc_RelPath demo_item, ''/h/docs/a'')"
    using demo_there_target by (simp add: demo_item_def)
  have fs: "mc_fs ?there = demo_fs" by (simp add: demo_there_def demo_daemon_def)
  have "fst (EnsureSafeDir (cr_TargetAbsPath ?root) ''/h/docs/a'' (fs_tree demo_fs)) = None" by code_simp
  then have dir: "fst (EnsureSafeDir (cr_TargetAbsPath ?root) ''/h/docs/a'' (fs_tree (mc_fs ?there))) = None" by (simp only: fs)
  have "length (lu_nonces (dm_luck demo_here 0) 0) = NonceSizeX" by (simp add: demo_envs)
  from submitted_dir_arrives [OF on _ _ demo_envs(1,2,3) demo_px_ok(2) this json sub' net cur demo_there_ok(1-3) target, of 0] dir
  show ?thesis using sub by (simp del: bootstrapOrCatchUp.simps) blast
qed


lemma demo_uploaded_head: "cur_seq (sv_db (wd_server demo_uploaded)) demo_ws = 1"
  by code_simp


end
