(* ===== verification/ClientSession.thy ===== *)
theory ClientSession
  imports Connector ClientState
begin

text \<open>
  \<^verbatim>\<open>internal/client/daemon/session.go\<close>: how a client logs in.  The nonce is an
  argument and the transport a parameter.  A \<open>network\<close> is the world behind the
  transport together with the channel on which the connector reports rejected tokens.
\<close>

section \<open>Rejected tokens\<close>

record 'w network =
  nw_world :: 'w
  nw_rejected :: "string list"

definition rejected_capacity :: nat where
  "rejected_capacity = 8"

definition notifySessionRejected :: "string \<Rightarrow> 'w network \<Rightarrow> 'w network" where
  "notifySessionRejected token n =
     (if length (nw_rejected n) < rejected_capacity then n\<lparr>nw_rejected := nw_rejected n @ [token]\<rparr> else n)"

definition discardSessionRejections :: "'w network \<Rightarrow> 'w network" where
  "discardSessionRejections n = n\<lparr>nw_rejected := []\<rparr>"

definition over_network :: "'w http \<Rightarrow> 'w network http" where
  "over_network http r b n = (case http r b (nw_world n) of (a, w) \<Rightarrow> (a, n\<lparr>nw_world := w\<rparr>))"

section \<open>The handshake\<close>

record 's sessionHandshake =
  hs_ServerURL :: string
  hs_WorkspaceID :: string
  hs_DeviceID :: string
  hs_DeviceName :: string
  hs_Keys :: "DerivedKeys option"
  hs_CreateIfMissing :: bool
  hs_OnUnauthorized :: "string \<Rightarrow> 's \<Rightarrow> 's"

record 's authenticatedSession =
  as_Client :: "'s Client"
  as_Token :: string
  as_ExpiresAt :: time
  as_CurrentSeq :: int

definition start_request :: "'s sessionHandshake \<Rightarrow> bytes \<Rightarrow> bytes \<Rightarrow> SessionStartRequest" where
  "start_request req clientNonce publicKey =
     \<lparr>ss_WorkspaceID = hs_WorkspaceID req, ss_DeviceID = hs_DeviceID req, ss_DeviceName = hs_DeviceName req,
      ss_ClientNonce = b64_encode clientNonce, ss_CreateIfMissing = hs_CreateIfMissing req,
      ss_WorkspacePubKey = b64_encode publicKey\<rparr>"

definition finish_request :: "'s sessionHandshake \<Rightarrow> bytes \<Rightarrow> string \<Rightarrow> bytes \<Rightarrow> SessionFinishRequest" where
  "finish_request req clientNonce serverNonce64 signature =
     \<lparr>sf_WorkspaceID = hs_WorkspaceID req, sf_DeviceID = hs_DeviceID req, sf_ClientNonce = b64_encode clientNonce,
      sf_ServerNonce = serverNonce64, sf_Signature = b64_encode signature\<rparr>"

definition authenticateSession ::
  "primitives \<Rightarrow> 's http \<Rightarrow> (response \<Rightarrow> int) \<Rightarrow> 's sessionHandshake \<Rightarrow> bytes \<Rightarrow> 's
    \<Rightarrow> (go_error + 's authenticatedSession) \<times> 's" where
  "authenticateSession px http contentLength req clientNonce s =
     (case hs_Keys req of
        None \<Rightarrow> (Inl (Failed ''workspace key unavailable''), s)
      | Some keys \<Rightarrow>
          (let (privateKey, publicKey) = AuthKeys px keys;
               client = WithUnauthorizedHandler (hs_OnUnauthorized req) (New http contentLength (hs_ServerURL req)) in
           case SessionStart client (start_request req clientNonce publicKey) s of
             (Inl e, s1) \<Rightarrow> (Inl e, s1)
           | (Inr startResp, s1) \<Rightarrow>
               (case b64_decode (ssr_ServerNonce startResp) of
                  None \<Rightarrow> (Inl (Failed ''illegal base64 data''), s1)
                | Some serverNonce \<Rightarrow>
                    (let signature = SignTranscript px privateKey (hs_WorkspaceID req) (hs_DeviceID req) clientNonce serverNonce in
                     case SessionFinish client (finish_request req clientNonce (ssr_ServerNonce startResp) signature) s1 of
                       (Inl e, s2) \<Rightarrow> (Inl e, s2)
                     | (Inr finishResp, s2) \<Rightarrow>
                         (Inr \<lparr>as_Client = WithToken (sfr_SessionToken finishResp) client,
                               as_Token = sfr_SessionToken finishResp, as_ExpiresAt = sfr_ExpiresAt finishResp,
                               as_CurrentSeq = sfr_CurrentSeq finishResp\<rparr>, s2)))))"

section \<open>Renewal\<close>

text \<open>Durations in nanoseconds.\<close>

definition sessionRenewalDelay :: "int \<Rightarrow> int \<Rightarrow> int" where
  "sessionRenewalDelay now expiresAt =
     (let remaining = expiresAt - now in
      if remaining \<le> 0 then 0
      else let lead0 = 5 * 60 * 10 ^ 9;
               lead1 = (if lead0 \<ge> remaining then remaining div 10 else lead0);
               lead = (if lead1 \<le> 0 then 1 else lead1)
           in remaining - lead)"

lemma sessionRenewalDelay_bounds:
  "0 \<le> sessionRenewalDelay now expiresAt"
  "now < expiresAt \<Longrightarrow> sessionRenewalDelay now expiresAt < expiresAt - now"
  by (auto simp: sessionRenewalDelay_def Let_def)

text \<open>A stored token is used until five minutes before it ends; times in seconds.\<close>

definition session_fresh :: "time \<Rightarrow> WorkspaceState \<Rightarrow> bool" where
  "session_fresh now st \<longleftrightarrow>
     st_SessionToken st \<noteq> [] \<and> st_SessionExpiresAt st \<noteq> 0 \<and> now < st_SessionExpiresAt st - 5 * 60"

end
