(* ===== verification/LoginCorrect.thy ===== *)
theory LoginCorrect
  imports ClientSession FeedServer ServerGuarantees
begin

text \<open>
  The client's login against the server of the model: the two requests of
  \<open>authenticateSession\<close> reach the two handlers of \<^verbatim>\<open>session.go\<close>, and an honest
  client is let in.
\<close>

text \<open>What a client relies on in Ed25519: the sizes, and that its own signatures verify.\<close>

definition keypair_ok :: "primitives \<Rightarrow> DerivedKeys \<Rightarrow> bytes \<Rightarrow> bool" where
  "keypair_ok px keys pub \<longleftrightarrow> snd (AuthKeys px keys) = pub \<and> length pub = 32
     \<and> (\<forall>b. length (px_sign px (fst (AuthKeys px keys)) (px_sha256 px b)) = 64
          \<and> px_verify px pub (px_sha256 px b) (px_sign px (fst (AuthKeys px keys)) (px_sha256 px b)))"

text \<open>The server knows the workspace under this key, or may create it.\<close>

definition admits :: "config \<Rightarrow> string \<Rightarrow> bytes \<Rightarrow> bool \<Rightarrow> server_db \<Rightarrow> bool" where
  "admits cfg w pub create s \<longleftrightarrow> WorkspacePubKey w s = Inr pub
     \<or> (create \<and> List.find (is_ws w) (t_workspaces s) = None
        \<and> (cf_MaxWorkspaces cfg \<le> 0 \<or> int (length (t_workspaces s)) < cf_MaxWorkspaces cfg))"

lemma start_workspace_admits:
  assumes "admits cfg (ss_WorkspaceID req) pub (ss_CreateIfMissing req) s" and "length pub = 32"
  obtains created s' where "start_workspace cfg now req pub s = (Inr created, s')"
    and "WorkspacePubKey (ss_WorkspaceID req) s' = Inr pub"
proof (cases "List.find (is_ws (ss_WorkspaceID req)) (t_workspaces s)")
  case None
  then have "start_workspace cfg now req pub s = (Inr True, s\<lparr>t_workspaces := t_workspaces s
      @ [\<lparr>ws_id = ss_WorkspaceID req, ws_pubkey = pub, ws_current_seq = 0, ws_floor = 0,
          ws_created_at = now, ws_updated_at = now\<rparr>]\<rparr>)"
    using assms by (auto simp: admits_def start_workspace_def WorkspacePubKey_def EnsureWorkspaceWithinLimit_def)
  with None show ?thesis by (rule_tac that) (auto simp: WorkspacePubKey_def find_append is_ws_def)
next
  case (Some r)
  with assms have "ws_pubkey r = pub" by (auto simp: admits_def WorkspacePubKey_def)
  with Some show ?thesis
    by (rule_tac that [of False s])
      (simp_all add: start_workspace_def WorkspacePubKey_def EnsureWorkspace_def EnsureWorkspaceWithinLimit_def)
qed

lemma start_admitted:
  assumes m: "hr_Method r = ''POST''"
    and req: "ss_WorkspaceID req \<noteq> []" "ss_DeviceID req \<noteq> []" "ss_ClientNonce req = b64_encode cn"
      "ss_WorkspacePubKey req = b64_encode pub" "length cn = 32" "length pub = 32"
    and ok: "admits cfg (ss_WorkspaceID req) pub (ss_CreateIfMissing req) (sv_db sv)"
  obtains resp sv' where "handleSessionStart cfg now sn r (Some req) sv = ((200, BodyStart resp), sv')"
    and "ssr_ServerNonce resp = b64_encode sn"
    and "WorkspacePubKey (ss_WorkspaceID req) (sv_db sv') = Inr pub"
    and "LoadChallenge (ss_WorkspaceID req) (ss_DeviceID req) cn (sv_db sv') = Inr (sn, ss_DeviceName req, now + challenge_ttl)"
proof -
  obtain created s' where sw: "start_workspace cfg now req pub (sv_db sv) = (Inr created, s')"
    "WorkspacePubKey (ss_WorkspaceID req) s' = Inr pub"
    by (rule start_workspace_admits [OF ok req(6)])
  have nonempty: "b64_encode pub \<noteq> []"
    using req(6) b64_decode_encode [of pub] by (auto simp: b64_decode_def simp del: b64_decode_encode)
  have "start_pubkey req = Inr pub" using req(4,6) nonempty by (simp add: start_pubkey_def)
  moreover have "parseFixedBase64 (ss_ClientNonce req) sessionNonceSize = Some cn"
    using req(3,5) by (simp add: parseFixedBase64_def sessionNonceSize_def)
  moreover have pubs: "WorkspacePubKey w (SaveChallenge now a b c d e s') = WorkspacePubKey w s'" for w a b c d e
    by (simp add: WorkspacePubKey_def SaveChallenge_def PruneExpiredChallenges_def Let_def)
  moreover have loads: "LoadChallenge (ss_WorkspaceID req) (ss_DeviceID req) cn
      (SaveChallenge now (ss_WorkspaceID req) (ss_DeviceID req) (ss_DeviceName req) cn sn s')
      = Inr (sn, ss_DeviceName req, now + challenge_ttl)"
    by (simp add: LoadChallenge_def SaveChallenge_def Let_def find_insert_or_replace_same is_challenge_def)
  ultimately have "handleSessionStart cfg now sn r (Some req) sv
      = ((200, BodyStart \<lparr>ssr_WorkspaceExists = True, ssr_Created = created, ssr_ServerNonce = b64_encode sn,
            ssr_ServerTime = now, ssr_ProtocolVersion = 1\<rparr>),
         sv\<lparr>sv_db := SaveChallenge now (ss_WorkspaceID req) (ss_DeviceID req) (ss_DeviceName req) cn sn s'\<rparr>)"
    using m req(1,2) sw(1) by (simp add: handleSessionStart_def)
  then show ?thesis by (rule that) (simp_all add: pubs loads sw(2))
qed

lemma finish_admitted:
  assumes m: "hr_Method r = ''POST''"
    and req: "sf_WorkspaceID req \<noteq> []" "sf_DeviceID req \<noteq> []" "sf_ClientNonce req = b64_encode cn"
      "sf_ServerNonce req = b64_encode sn" "sf_Signature req = b64_encode sig"
      "length cn = 32" "length sn = 32"
    and ch: "LoadChallenge (sf_WorkspaceID req) (sf_DeviceID req) cn (sv_db sv) = Inr (sn, name, expires)" "now \<le> expires"
    and pub: "WorkspacePubKey (sf_WorkspaceID req) (sv_db sv) = Inr pub"
    and ver: "VerifyTranscript px pub (sf_WorkspaceID req) (sf_DeviceID req) cn sn sig"
  obtains body sv' where "handleSessionFinish cfg px now tok r (Some req) sv = ((200, BodyFinish body), sv')"
    and "sfr_SessionToken body = hex_encode tok" and "sfr_ExpiresAt body = now + cf_SessionTTL cfg"
    and "CurrentSeq (sf_WorkspaceID req) (sv_db sv) = Inr (sfr_CurrentSeq body)"
    and "List.find (is_token (px_sha256 px (hex_encode tok))) (t_sessions (sv_db sv'))
      = Some \<lparr>sn_token_hash = px_sha256 px (hex_encode tok), sn_ws = sf_WorkspaceID req, sn_device = sf_DeviceID req,
          sn_issued_at = now, sn_expires_at = now + cf_SessionTTL cfg, sn_last_used = now\<rparr>"
proof -
  have "length pub = 32" "length sig = 64" using ver by (simp_all add: VerifyTranscript_def)
  then have fv: "finish_verify px now req cn (sv_db sv) = Inr name"
    using ch pub ver req by (simp add: finish_verify_def parseFixedBase64_def sessionNonceSize_def)
  obtain cur where cur: "CurrentSeq (sf_WorkspaceID req) (sv_db sv) = Inr cur"
    using pub by (auto simp: WorkspacePubKey_def CurrentSeq_def split: option.splits)
  let ?s = "DeleteChallenge (sf_WorkspaceID req) (sf_DeviceID req) cn (sv_db sv)"
  have cur': "CurrentSeq (sf_WorkspaceID req) ?s = Inr cur" using cur by (simp add: CurrentSeq_def DeleteChallenge_def)
  obtain s' where cs: "CreateSession (px_sha256 px) now tok (sf_WorkspaceID req) (sf_DeviceID req) name (cf_SessionTTL cfg) ?s
      = (Inr (hex_encode tok, now + cf_SessionTTL cfg, cur), s')"
    using cur' by (simp add: CreateSession_def Let_def)
  note tokens = CreateSession_ok [of "px_sha256 px" now tok "sf_WorkspaceID req" "sf_DeviceID req" name "cf_SessionTTL cfg" ?s]
  have "parseFixedBase64 (sf_ClientNonce req) sessionNonceSize = Some cn"
    using req(3,6) by (simp add: parseFixedBase64_def sessionNonceSize_def)
  with m req(1,2) fv cs have "handleSessionFinish cfg px now tok r (Some req) sv
      = ((200, BodyFinish \<lparr>sfr_SessionToken = hex_encode tok, sfr_ExpiresAt = now + cf_SessionTTL cfg,
            sfr_WorkspaceID = sf_WorkspaceID req, sfr_CurrentSeq = cur\<rparr>), sv\<lparr>sv_db := s'\<rparr>)"
    by (simp add: handleSessionFinish_def)
  then show ?thesis by (rule that) (use tokens cs cur in simp_all)
qed

text \<open>A request without a token: the handler for rejected tokens is not called.\<close>

lemma doJSON_anonymous:
  assumes "cn_HTTPClient c = server_http cfg px" and "cn_Token c = []"
    and "serve cfg px r b wd = ((status, rb), wd')" and "status < 400" and "decode rb = Some x"
  shows "doJSON c r b decode wd = (Inr x, wd')"
  using assms by (simp add: doJSON_def doJSONRaw_def http_do_def server_http_def reportUnauthorized_def)

lemma Handler_session:
  "hr_Path r = ''/v1/session/start'' \<Longrightarrow>
    Handler cfg px now random r (ReqSessionStart q) sv = handleSessionStart cfg now random r (Some q) sv"
  "hr_Path r = ''/v1/session/finish'' \<Longrightarrow>
    Handler cfg px now random r (ReqSessionFinish q') sv = handleSessionFinish cfg px now random r (Some q') sv"
  by (simp_all add: Handler_def)

lemma authenticated_session:
  assumes "List.find (is_token (px_sha256 px token)) (t_sessions s) = Some row" and "now \<le> sn_expires_at row"
    and "hr_Version r = ''1''" and "hr_Authorization r = ''Bearer '' @ token"
  shows "fst (sessionFromRequest px now r s)
    = Some \<lparr>se_WorkspaceID = sn_ws row, se_DeviceID = sn_device row, se_ExpiresAt = sn_expires_at row\<rparr>"
  using assms by (simp add: sessionFromRequest_def Authenticate_def)

lemma session_request_sel [simp]:
  "ss_WorkspaceID (start_request q cn pub) = hs_WorkspaceID q" "ss_DeviceID (start_request q cn pub) = hs_DeviceID q"
  "ss_DeviceName (start_request q cn pub) = hs_DeviceName q" "ss_ClientNonce (start_request q cn pub) = b64_encode cn"
  "ss_CreateIfMissing (start_request q cn pub) = hs_CreateIfMissing q"
  "ss_WorkspacePubKey (start_request q cn pub) = b64_encode pub"
  "sf_WorkspaceID (finish_request q cn x sig) = hs_WorkspaceID q" "sf_DeviceID (finish_request q cn x sig) = hs_DeviceID q"
  "sf_ClientNonce (finish_request q cn x sig) = b64_encode cn" "sf_ServerNonce (finish_request q cn x sig) = x"
  "sf_Signature (finish_request q cn x sig) = b64_encode sig"
  by (simp_all add: start_request_def finish_request_def)

lemma authenticateSession_admitted:
  assumes keys: "hs_Keys req = Some keys" and kp: "keypair_ok px keys pub"
    and ids: "hs_WorkspaceID req \<noteq> []" "hs_DeviceID req \<noteq> []"
    and clock: "wd_clock wd 0 = (t0, sn)" "wd_clock wd (Suc 0) = (t1, tok)" "t1 \<le> t0 + challenge_ttl"
    and nonces: "length cn = 32" "length sn = 32"
    and ok: "admits cfg (hs_WorkspaceID req) pub (hs_CreateIfMissing req) (sv_db (wd_server wd))"
  obtains session wd' where
    "authenticateSession px (server_http cfg px) len req cn wd = (Inr session, wd')"
    and "as_Token session = hex_encode tok" and "as_ExpiresAt session = t1 + cf_SessionTTL cfg"
    and "cn_Token (as_Client session) = hex_encode tok"
    and "List.find (is_token (px_sha256 px (hex_encode tok))) (t_sessions (sv_db (wd_server wd')))
      = Some \<lparr>sn_token_hash = px_sha256 px (hex_encode tok), sn_ws = hs_WorkspaceID req, sn_device = hs_DeviceID req,
          sn_issued_at = t1, sn_expires_at = t1 + cf_SessionTTL cfg, sn_last_used = t1\<rparr>"
proof -
  define priv where "priv = fst (AuthKeys px keys)"
  have ak: "AuthKeys px keys = (priv, pub)" using kp by (simp add: priv_def keypair_ok_def prod_eq_iff)
  have lpub: "length pub = 32" using kp by (simp add: keypair_ok_def)
  define c where "c = WithUnauthorizedHandler (hs_OnUnauthorized req) (New (server_http cfg px) len (hs_ServerURL req))"
  have c: "cn_HTTPClient c = server_http cfg px" "cn_Token c = []"
    by (simp_all add: c_def WithUnauthorizedHandler_def New_def)
  let ?q = "start_request req cn pub"
  let ?r = "json_request c ''POST'' ''/v1/session/start''"
  have "admits cfg (ss_WorkspaceID ?q) pub (ss_CreateIfMissing ?q) (sv_db (wd_server wd))"
    using ok by simp
  from start_admitted [OF _ _ _ _ _ nonces(1) lpub this, of ?r t0 sn]
  obtain resp sv1 where st: "handleSessionStart cfg t0 sn ?r (Some ?q) (wd_server wd) = ((200, BodyStart resp), sv1)"
    "ssr_ServerNonce resp = b64_encode sn" "WorkspacePubKey (hs_WorkspaceID req) (sv_db sv1) = Inr pub"
    "LoadChallenge (hs_WorkspaceID req) (hs_DeviceID req) cn (sv_db sv1) = Inr (sn, hs_DeviceName req, t0 + challenge_ttl)"
    using ids by auto
  define wd1 where "wd1 = \<lparr>wd_server = sv1, wd_clock = (\<lambda>n. wd_clock wd (Suc n))\<rparr>"
  have s1: "serve cfg px ?r (ReqSessionStart ?q) wd = ((200, BodyStart resp), wd1)"
    using st(1) clock(1) by (simp add: serve_def Handler_session wd1_def)
  have r1: "SessionStart c ?q wd = (Inr resp, wd1)"
    unfolding SessionStart_def by (rule doJSON_anonymous [OF c s1]) simp_all
  define sig where "sig = SignTranscript px priv (hs_WorkspaceID req) (hs_DeviceID req) cn sn"
  have ver: "VerifyTranscript px pub (hs_WorkspaceID req) (hs_DeviceID req) cn sn sig"
    using kp lpub by (simp add: keypair_ok_def VerifyTranscript_def sig_def SignTranscript_def TranscriptDigest_def priv_def)
  let ?f = "finish_request req cn (ssr_ServerNonce resp) sig"
  let ?r2 = "json_request c ''POST'' ''/v1/session/finish''"
  have "LoadChallenge (sf_WorkspaceID ?f) (sf_DeviceID ?f) cn (sv_db sv1) = Inr (sn, hs_DeviceName req, t0 + challenge_ttl)"
    "WorkspacePubKey (sf_WorkspaceID ?f) (sv_db sv1) = Inr pub"
    "VerifyTranscript px pub (sf_WorkspaceID ?f) (sf_DeviceID ?f) cn sn sig"
    using st ver by simp_all
  from finish_admitted [OF _ _ _ _ _ _ nonces this(1) clock(3) this(2,3), of ?r2 cfg tok]
  obtain body sv2 where fin: "handleSessionFinish cfg px t1 tok ?r2 (Some ?f) sv1 = ((200, BodyFinish body), sv2)"
    "sfr_SessionToken body = hex_encode tok" "sfr_ExpiresAt body = t1 + cf_SessionTTL cfg"
    "List.find (is_token (px_sha256 px (hex_encode tok))) (t_sessions (sv_db sv2))
      = Some \<lparr>sn_token_hash = px_sha256 px (hex_encode tok), sn_ws = hs_WorkspaceID req, sn_device = hs_DeviceID req,
          sn_issued_at = t1, sn_expires_at = t1 + cf_SessionTTL cfg, sn_last_used = t1\<rparr>"
    using ids st(2) by (simp, blast)
  define wd2 where "wd2 = \<lparr>wd_server = sv2, wd_clock = (\<lambda>n. wd_clock wd1 (Suc n))\<rparr>"
  have s2: "serve cfg px ?r2 (ReqSessionFinish ?f) wd1 = ((200, BodyFinish body), wd2)"
    using fin(1) clock(2) by (simp add: serve_def Handler_session wd1_def wd2_def)
  have r2: "SessionFinish c ?f wd1 = (Inr body, wd2)"
    unfolding SessionFinish_def by (rule doJSON_anonymous [OF c s2]) simp_all
  have "authenticateSession px (server_http cfg px) len req cn wd
      = (Inr \<lparr>as_Client = WithToken (sfr_SessionToken body) c, as_Token = sfr_SessionToken body,
              as_ExpiresAt = sfr_ExpiresAt body, as_CurrentSeq = sfr_CurrentSeq body\<rparr>, wd2)"
    using keys r1 r2 st(2) by (simp add: authenticateSession_def ak Let_def c_def [symmetric] sig_def [symmetric])
  then show ?thesis by (rule that) (use fin in \<open>simp_all add: wd2_def WithToken_def\<close>)
qed

end
