(* ===== verification/AgentClaims.thy ===== *)
theory AgentClaims
  imports LoginCorrect RescanCorrect DaemonClaims
begin

text \<open>The theorems on logging in and on the daemon's own changes.\<close>

section \<open>Logging in\<close>

text \<open>C37: An honest client can always log in. If the server knows the workspace under the client's
  key, or may create it within its limit, and the two requests of the handshake are at most a minute
  apart, then the handshake succeeds, its token ends with the configured lifetime, and until then every
  request that carries it is authenticated as this workspace and this device.\<close>

theorem honest_login_succeeds:
  assumes "hs_Keys req = Some keys" and "keypair_ok px keys pub"
    and "hs_WorkspaceID req \<noteq> []" and "hs_DeviceID req \<noteq> []"
    and "wd_clock wd 0 = (t0, serverNonce)" and "wd_clock wd (Suc 0) = (t1, tokenBytes)" and "t1 \<le> t0 + 60"
    and "length clientNonce = 32" and "length serverNonce = 32"
    and "admits cfg (hs_WorkspaceID req) pub (hs_CreateIfMissing req) (sv_db (wd_server wd))"
  shows "\<exists>session wd'. authenticateSession px (server_http cfg px) len req clientNonce wd = (Inr session, wd')
    \<and> cn_Token (as_Client session) = as_Token session \<and> as_ExpiresAt session = t1 + cf_SessionTTL cfg
    \<and> (\<forall>r t. hr_Version r = ''1'' \<and> hr_Authorization r = ''Bearer '' @ as_Token session \<and> t \<le> as_ExpiresAt session \<longrightarrow>
        fst (sessionFromRequest px t r (sv_db (wd_server wd')))
          = Some \<lparr>se_WorkspaceID = hs_WorkspaceID req, se_DeviceID = hs_DeviceID req, se_ExpiresAt = as_ExpiresAt session\<rparr>)"
proof -
  have "t1 \<le> t0 + challenge_ttl" using assms(7) by (simp add: challenge_ttl_def)
  then obtain session wd' where run: "authenticateSession px (server_http cfg px) len req clientNonce wd = (Inr session, wd')"
    and s: "as_Token session = hex_encode tokenBytes" "as_ExpiresAt session = t1 + cf_SessionTTL cfg"
      "cn_Token (as_Client session) = hex_encode tokenBytes"
    and row: "List.find (is_token (px_sha256 px (hex_encode tokenBytes))) (t_sessions (sv_db (wd_server wd')))
      = Some \<lparr>sn_token_hash = px_sha256 px (hex_encode tokenBytes), sn_ws = hs_WorkspaceID req, sn_device = hs_DeviceID req,
          sn_issued_at = t1, sn_expires_at = t1 + cf_SessionTTL cfg, sn_last_used = t1\<rparr>"
    by (rule authenticateSession_admitted [OF assms(1-6) _ assms(8-10)])
  show ?thesis
    by (intro exI [of _ session] exI [of _ wd']) (use run s authenticated_session [OF row] in auto)
qed

definition demo_handshake :: "world sessionHandshake" where
  "demo_handshake = \<lparr>hs_ServerURL = ''https://syna'', hs_WorkspaceID = demo_ws, hs_DeviceID = ''d'', hs_DeviceName = ''laptop'',
     hs_Keys = Some demo_keys, hs_CreateIfMissing = True, hs_OnUnauthorized = (\<lambda>_ s. s)\<rparr>"

definition demo_fresh_world :: world where
  "demo_fresh_world = \<lparr>wd_server = server_init demo_cfg,
     wd_clock = (\<lambda>n. if n = 0 then (100, demo_snonce) else (130, ''token''))\<rparr>"

theorem honest_login_succeeds_witness:
  "\<exists>session wd'. authenticateSession demo_px (server_http demo_cfg demo_px) (\<lambda>_. 0) demo_handshake demo_cnonce
      demo_fresh_world = (Inr session, wd') \<and> as_ExpiresAt session = 86530"
proof -
  have dig: "length (px_sha256 demo_px b) = 32" and seed: "length (px_newkey demo_px b) = 32"
    and pk: "px_public demo_px b = b" for b
    by (simp_all add: demo_px_def)
  have "keypair_ok demo_px demo_keys (snd (AuthKeys demo_px demo_keys))"
    by (simp add: keypair_ok_def AuthKeys_def Let_def dig seed pk) (auto simp: demo_px_def demo_keys_def)
  moreover have "admits demo_cfg (hs_WorkspaceID demo_handshake) pub (hs_CreateIfMissing demo_handshake)
      (sv_db (wd_server demo_fresh_world))" for pub
    by (simp add: admits_def demo_handshake_def demo_fresh_world_def server_init_def restart_def empty_db_def demo_cfg_def)
  moreover have "demo_ws \<noteq> []" "length demo_cnonce = 32" "length demo_snonce = 32" "cf_SessionTTL demo_cfg = 86400"
    by (simp_all add: demo_ws_def demo_cnonce_def demo_snonce_def demo_cfg_def)
  ultimately show ?thesis
    using honest_login_succeeds [of demo_handshake demo_keys demo_px "snd (AuthKeys demo_px demo_keys)" demo_fresh_world
        100 demo_snonce 130 "''token''" demo_cnonce demo_cfg "\<lambda>_. 0"]
    by (simp add: demo_handshake_def demo_fresh_world_def) blast
qed

section \<open>Scanning\<close>

text \<open>C38: A scan of a directory is well formed and exact. On a file system whose directories and files
  can be read it succeeds, its entries are the directory itself and the directories and regular files
  below it that carry no staging name in their path, each with its kind, mode, time, size and the hash
  of its content, and they come strictly ordered: the root, then directories, then files, by path.\<close>

theorem scan_exact:
  assumes "readable sx fs" and "good rs" and "fs_tree fs (abs_path rs) = Some NodeDir"
  shows "\<exists>res. ScanRoot sx fs (abs_path rs) = Inr res \<and> sl_RootKind res = RootKindDir
    \<and> set (sl_Entries res) = {e. \<exists>ds. good ds \<and> entry_below sx fs rs ds = Some e}
    \<and> sorted_wrt (<) (map scan_key (sl_Entries res))"
  by (rule ScanRoot_directory [OF assms]) blast

definition demo_scanned :: fsys where
  "demo_scanned = \<lparr>fs_tree = [''/h'' \<mapsto> NodeDir, ''/h/a'' \<mapsto> NodeFile, ''/h/l'' \<mapsto> NodeSymlink, ''/h/.syna-t'' \<mapsto> NodeFile],
     fs_data = [''/h/a'' \<mapsto> ''x'', ''/h/.syna-t'' \<mapsto> ''y''], fs_meta = Map.empty\<rparr>"

definition demo_scan_env :: scan_env where
  "demo_scan_env = \<lparr>sx_sha256 = (\<lambda>b. b), sx_listing = (\<lambda>_. [''/h/l'', ''/h/a'', ''/h'', ''/h/.syna-t'']),
     sx_link = (\<lambda>_ _. None), sx_fresh = (\<lambda>_. (420, 7)), sx_dirsize = (\<lambda>_. 4096)\<rparr>"

lemma demo_readable: "readable demo_scan_env demo_scanned"
proof -
  have paths: "''/h'' = abs_path [''h'']" "''/h/a'' = abs_path [''h'', ''a'']" "''/h/l'' = abs_path [''h'', ''l'']"
    "''/h/.syna-t'' = abs_path [''h'', ''.syna-t'']"
    by (simp_all add: abs_path_def)
  have "good [''h'']" "good [''h'', ''a'']" "good [''h'', ''l'']" "good [''h'', ''.syna-t'']"
    by (simp_all add: proper_def)
  then have "\<exists>cs. good cs \<and> p = abs_path cs" if "p \<in> {''/h'', ''/h/a'', ''/h/l'', ''/h/.syna-t''}" for p
    using that paths by blast
  moreover have "p \<in> {''/h'', ''/h/a'', ''/h/l'', ''/h/.syna-t''}" if "fs_tree demo_scanned p \<noteq> None" for p
    using that by (auto simp: demo_scanned_def split: if_splits)
  ultimately have "\<forall>p. fs_tree demo_scanned p \<noteq> None \<longrightarrow> (\<exists>cs. good cs \<and> p = abs_path cs)" by blast
  moreover have "fs_ok demo_scanned" by (auto simp: fs_ok_def demo_scanned_def)
  moreover have "set (sx_listing demo_scan_env (fs_tree demo_scanned)) = {p. fs_tree demo_scanned p \<noteq> None}"
    by (auto simp: demo_scan_env_def demo_scanned_def split: if_splits)
  ultimately show ?thesis by (simp add: readable_def) (simp add: demo_scan_env_def)
qed

theorem scan_exact_witness:
  "\<exists>res. ScanRoot demo_scan_env demo_scanned ''/h'' = Inr res
    \<and> \<lparr>sc_RelPath = ''a'', sc_AbsPath = ''/h/a'', sc_Kind = RootKindFile, sc_Mode = 420, sc_MTimeNS = 7,
        sc_SizeBytes = 1, sc_ContentSHA256 = hex_encode ''x''\<rparr> \<in> set (sl_Entries res)"
proof -
  have root: "abs_path [''h''] = ''/h''" "abs_path [''h'', ''a''] = ''/h/a''" by (simp_all add: abs_path_def)
  have g: "good [''h'']" "good [''a'']" by (simp_all add: proper_def)
  have "fs_tree demo_scanned (abs_path [''h'']) = Some NodeDir" by (simp add: root demo_scanned_def)
  then obtain res where res: "ScanRoot demo_scan_env demo_scanned (abs_path [''h'']) = Inr res"
    "set (sl_Entries res) = {e. \<exists>ds. good ds \<and> entry_below demo_scan_env demo_scanned [''h''] ds = Some e}"
    using scan_exact [OF demo_readable g(1)] by blast
  have "entry_below demo_scan_env demo_scanned [''h''] [''a''] = Some \<lparr>sc_RelPath = ''a'', sc_AbsPath = ''/h/a'',
      sc_Kind = RootKindFile, sc_Mode = 420, sc_MTimeNS = 7, sc_SizeBytes = 1, sc_ContentSHA256 = hex_encode ''x''\<rparr>"
    by (simp add: entry_below_def Let_def root staged_name_def staging_prefix_def statEntry_def node_attributes_def
        demo_scanned_def demo_scan_env_def)
  with g(2) have "\<lparr>sc_RelPath = ''a'', sc_AbsPath = ''/h/a'', sc_Kind = RootKindFile, sc_Mode = 420, sc_MTimeNS = 7,
        sc_SizeBytes = 1, sc_ContentSHA256 = hex_encode ''x''\<rparr> \<in> set (sl_Entries res)"
    unfolding res(2) by blast
  with res(1) show ?thesis unfolding root by blast
qed

section \<open>Rescanning\<close>

text \<open>C39: A rescan brings the table into agreement with the disk. When a pass over a whole root goes
  through every entry (it has not met a conflict it resolves by starting over), no file was touched, and
  for everything the scan found the table holds an entry of the same kind, mode, time and content hash,
  and for every other path no entry or a deleted one - unless, at one of the times the daemon read, a
  rule left by its own writes told it that the change is not a local edit.\<close>

theorem rescan_agrees:
  assumes "readable (scan_env_of dv) (mc_fs d)" and "good rs" and "fs_tree (mc_fs d) (abs_path rs) = Some NodeDir"
    and "ScanRoot (scan_env_of dv) (mc_fs d) (abs_path rs) = Inr result"
    and "rescan_entries fuel dv root ro (sl_Entries result) d = Next d'" and "ro_hint ro = []"
    and "ro_allowRetry ro \<or> ro_forceEntries ro" and "client_inv (mc_db d)"
  shows "mc_fs d' = mc_fs d
    \<and> (\<forall>item \<in> set (sl_Entries result).
        (\<exists>e. EntriesForRoot (cr_RootID root) (mc_db d') (sc_RelPath item) = Some e \<and> agrees item e)
        \<or> (\<exists>now \<in> readings d. shouldSuppressIgnoredEntry (cr_RootID root) item now (mc_db d)))
    \<and> (\<forall>p. p \<notin> sc_RelPath ` set (sl_Entries result) \<longrightarrow>
        (case EntriesForRoot (cr_RootID root) (mc_db d') p of None \<Rightarrow> True | Some e \<Rightarrow> en_Deleted e)
        \<or> (\<exists>now \<in> readings d. shouldSuppressIgnoredDelete (cr_RootID root) p now (mc_db d)))"
  using rescan_root_settled [OF assms] by (simp add: settled_def settled_missing_def)

definition demo_rescan_dv :: "unit daemon_env" where
  "demo_rescan_dv = \<lparr>dv_px = demo_px, dv_json = demo_codec, dv_home = Some ''/'', dv_keys = demo_keys,
     dv_WorkspaceID = demo_ws, dv_DeviceID = ''d'', dv_DeviceName = ''My Laptop'',
     dv_conn = New (\<lambda>_ _ s. (Inl (Failed ''offline''), s)) (\<lambda>_. 0) ''https://syna'', dv_describe = (\<lambda>_. []),
     dv_listing = (\<lambda>_. [''/h/l'', ''/h/a'', ''/h'', ''/h/.syna-t'']), dv_link = (\<lambda>_ _. None),
     dv_stamp = (\<lambda>_. ''20260101T000000Z''), dv_encode = demo_encoder, dv_fresh = (\<lambda>_. (420, 7)), dv_dirsize = (\<lambda>_. 4096),
     dv_StateDir = ''/state'', dv_formatTime = (\<lambda>_. ''2026-01-01T00:00:00Z''), dv_cwd = Some ''/h''\<rparr>"

text \<open>The table knows the directory with another time, the file as it is, and nothing else.\<close>

definition demo_known :: "Entry list" where
  "demo_known =
     [zero_entry\<lparr>en_RootID := ''r'', en_RelPath := [], en_Kind := RootKindDir, en_CurrentSeq := 1, en_Mode := 420, en_MTimeNS := 5\<rparr>,
      zero_entry\<lparr>en_RootID := ''r'', en_RelPath := ''a'', en_Kind := RootKindFile, en_CurrentSeq := 2, en_Mode := 420,
        en_MTimeNS := 7, en_ContentSHA256 := hex_encode (px_sha256 demo_px ''x'')\<rparr>]"

definition demo_rescanned :: "unit daemon" where
  "demo_rescanned = \<lparr>mc_fs = demo_scanned, mc_db = ReplaceEntries ''r'' demo_known client_init, mc_net = (),
     dm_staged = {}, dm_live = False, dm_changes = [], dm_watched = Map.empty,
     dm_luck = (\<lambda>_. \<lparr>lu_now = 50, lu_random = ''1'', lu_nonces = (\<lambda>_. []), lu_faults = no_faults, lu_watch = None\<rparr>)\<rparr>"

definition demo_opts :: rescan_opts where
  "demo_opts = \<lparr>ro_hint = [], ro_allowRetry = True, ro_queueRetryable = True, ro_forceEntries = False, ro_expectedRootSeq = 0\<rparr>"

definition demo_scan_result :: ScanResult where
  "demo_scan_result = (case ScanRoot (scan_env_of demo_rescan_dv) demo_scanned ''/h'' of Inr r \<Rightarrow> r)"

lemma demo_scan_ok: "ScanRoot (scan_env_of demo_rescan_dv) demo_scanned ''/h'' = Inr demo_scan_result"
  by code_simp

lemma demo_rescan_runs:
  "case rescan_entries 1 demo_rescan_dv (demo_root\<lparr>cr_RootID := ''r''\<rparr>) demo_opts (sl_Entries demo_scan_result) demo_rescanned of
     Next d' \<Rightarrow> map_option en_MTimeNS (EntriesForRoot ''r'' (mc_db d') []) = Some 7 | _ \<Rightarrow> False"
  by code_simp

theorem rescan_agrees_witness:
  "\<exists>d' e. rescan_entries 1 demo_rescan_dv (demo_root\<lparr>cr_RootID := ''r''\<rparr>) demo_opts (sl_Entries demo_scan_result) demo_rescanned
      = Next d' \<and> mc_fs d' = demo_scanned \<and> EntriesForRoot ''r'' (mc_db d') [] = Some e \<and> en_MTimeNS e = 7"
proof -
  obtain d' e where run: "rescan_entries 1 demo_rescan_dv (demo_root\<lparr>cr_RootID := ''r''\<rparr>) demo_opts
      (sl_Entries demo_scan_result) demo_rescanned = Next d'"
    and e: "EntriesForRoot ''r'' (mc_db d') [] = Some e" "en_MTimeNS e = 7"
    using demo_rescan_runs by (auto split: flow.splits)
  have fs: "mc_fs demo_rescanned = demo_scanned" by (simp add: demo_rescanned_def)
  have root: "abs_path [''h''] = ''/h''" by (simp add: abs_path_def)
  have "readable (scan_env_of demo_rescan_dv) (mc_fs demo_rescanned)"
    using demo_readable by (simp add: fs readable_def scan_env_of_def demo_scan_env_def demo_rescan_dv_def)
  moreover have "good [''h'']" by (simp add: proper_def)
  moreover have "fs_tree (mc_fs demo_rescanned) (abs_path [''h'']) = Some NodeDir"
    by (simp add: fs root) (simp add: demo_scanned_def)
  moreover have "ScanRoot (scan_env_of demo_rescan_dv) (mc_fs demo_rescanned) (abs_path [''h'']) = Inr demo_scan_result"
    unfolding fs root by (rule demo_scan_ok)
  moreover have "ro_hint demo_opts = []" "ro_allowRetry demo_opts \<or> ro_forceEntries demo_opts"
    by (simp_all add: demo_opts_def)
  moreover have "client_inv (mc_db demo_rescanned)"
    by (simp add: demo_rescanned_def ReplaceEntries_inv client_inv_init)
  ultimately have "mc_fs d' = mc_fs demo_rescanned" using rescan_agrees run by blast
  with run e fs show ?thesis by auto
qed

end
