(* ===== verification/ConfigStore.thy ===== *)
theory ConfigStore
  imports ConflictCopy
begin

text \<open>
  \<^verbatim>\<open>internal/client/configstore/config.go\<close> and the paths of
  \<^verbatim>\<open>internal/common/config/xdg.go\<close>: the configuration and the keyring are JSON files
  that are replaced atomically.  The JSON encoding, the host name and fresh UUIDs are
  parameters; the permission bits of these files are not modelled.
\<close>

record ClientConfig =
  cg_DeviceID :: string
  cg_DeviceName :: string
  cg_ServerURL :: string
  cg_WorkspaceID :: string
  cg_DaemonAutoStart :: bool

record Keyring =
  ky_ServerURL :: string
  ky_WorkspaceID :: string
  ky_WorkspaceKey :: string

definition empty_keyring :: Keyring where
  "empty_keyring = \<lparr>ky_ServerURL = [], ky_WorkspaceID = [], ky_WorkspaceKey = []\<rparr>"

definition empty_config :: ClientConfig where
  "empty_config = \<lparr>cg_DeviceID = [], cg_DeviceName = [], cg_ServerURL = [], cg_WorkspaceID = [], cg_DaemonAutoStart = False\<rparr>"

section \<open>Paths\<close>

record ClientPaths =
  pt_ConfigDir :: string
  pt_StateDir :: string
  pt_ConfigFile :: string
  pt_KeyringFile :: string
  pt_DBFile :: string
  pt_SocketFile :: string
  pt_PIDFile :: string
  pt_SystemdDir :: string
  pt_UnitFile :: string

text \<open>An unset variable of the environment is empty.\<close>

definition ResolveClientPaths :: "string option \<Rightarrow> string \<Rightarrow> string \<Rightarrow> go_error + ClientPaths" where
  "ResolveClientPaths home xdgConfigHome xdgStateHome =
     (case home of
        None \<Rightarrow> Inl (OsFailed ''home directory'')
      | Some h \<Rightarrow>
          if h = [] then Inl (Failed ''home directory is empty'')
          else let configHome = (if xdgConfigHome = [] then Join [h, ''.config''] else xdgConfigHome);
                   stateHome = (if xdgStateHome = [] then Join [h, ''.local'', ''state''] else xdgStateHome);
                   configDir = Join [configHome, ''syna'']; stateDir = Join [stateHome, ''syna''];
                   systemdDir = Join [configHome, ''systemd'', ''user''] in
               Inr \<lparr>pt_ConfigDir = configDir, pt_StateDir = stateDir,
                    pt_ConfigFile = Join [configDir, ''config.json''], pt_KeyringFile = Join [configDir, ''keyring.json''],
                    pt_DBFile = Join [stateDir, ''client.db''], pt_SocketFile = Join [stateDir, ''agent.sock''],
                    pt_PIDFile = Join [stateDir, ''daemon.pid''], pt_SystemdDir = systemdDir,
                    pt_UnitFile = Join [systemdDir, ''syna.service'']\<rparr>)"

text \<open>\<open>os.MkdirAll\<close>: missing directories are created from the top; a link counts as a directory.\<close>

fun mkdir_all :: "string list \<Rightarrow> tree \<Rightarrow> go_error option \<times> tree" where
  "mkdir_all [] t = (None, t)"
| "mkdir_all (p # ps) t =
     (case t p of
        None \<Rightarrow> mkdir_all ps (t(p \<mapsto> NodeDir))
      | Some NodeDir \<Rightarrow> mkdir_all ps t
      | Some NodeSymlink \<Rightarrow> mkdir_all ps t
      | Some _ \<Rightarrow> (Some (OsFailed ''mkdir''), t))"

definition MkdirAll :: "string \<Rightarrow> fsys \<Rightarrow> go_error option \<times> fsys" where
  "MkdirAll dir fs =
     (case mkdir_all (ancestors dir @ [Clean dir]) (fs_tree fs) of (e, t) \<Rightarrow> (e, fs\<lparr>fs_tree := t\<rparr>))"

fun mkdir_each :: "string list \<Rightarrow> fsys \<Rightarrow> go_error option \<times> fsys" where
  "mkdir_each [] fs = (None, fs)"
| "mkdir_each (dir # dirs) fs =
     (case MkdirAll dir fs of (Some e, fs1) \<Rightarrow> (Some e, fs1) | (None, fs1) \<Rightarrow> mkdir_each dirs fs1)"

definition EnsureClientDirs :: "ClientPaths \<Rightarrow> fsys \<Rightarrow> go_error option \<times> fsys" where
  "EnsureClientDirs paths = mkdir_each [pt_ConfigDir paths, pt_StateDir paths, pt_SystemdDir paths]"

section \<open>JSON files\<close>

definition saveJSONFile :: "faults \<Rightarrow> string \<Rightarrow> string \<Rightarrow> bytes \<Rightarrow> fsys \<Rightarrow> go_error option \<times> fsys" where
  "saveJSONFile ft random path content fs =
     (case MkdirAll (Dir path) fs of
        (Some e, fs1) \<Rightarrow> (Some e, fs1)
      | (None, fs1) \<Rightarrow>
          (case Lstat (fs_tree fs1) path of
             Inl e \<Rightarrow> (Some (PathFailed e), fs1)
           | Inr n \<Rightarrow>
               if n = Some NodeSymlink then (Some (Failed ''is a symlink''), fs1)
               else let tmp = temp_name (Dir path) (''.'' @ Base path @ ''.tmp-'') random in
               (case copy_temp ft (Dir path) tmp (Some (content @ [CHR 0x0A])) fs1 of
                  (Some e, fs2) \<Rightarrow> (Some e, fs2)
                | (None, fs2) \<Rightarrow> rename_temp ft tmp path fs2)))"

text \<open>\<open>Inr None\<close> is a file that does not exist.\<close>

definition loadJSONFile ::
  "(fsys \<Rightarrow> string \<Rightarrow> bytes option) \<Rightarrow> (bytes \<Rightarrow> 'a option) \<Rightarrow> string \<Rightarrow> fsys \<Rightarrow> go_error + 'a option" where
  "loadJSONFile link decode path fs =
     (case Lstat (fs_tree fs) path of
        Inl e \<Rightarrow> Inl (PathFailed e)
      | Inr None \<Rightarrow> Inr None
      | Inr (Some n) \<Rightarrow>
          (case read_file link path fs of
             None \<Rightarrow> if n = NodeSymlink then Inr None else Inl (OsFailed ''read file'')
           | Some b \<Rightarrow> (case decode b of None \<Rightarrow> Inl (Failed ''invalid JSON file'') | Some x \<Rightarrow> Inr (Some x))))"

section \<open>The store\<close>

record config_env =
  ce_Paths :: ClientPaths
  ce_link :: "fsys \<Rightarrow> string \<Rightarrow> bytes option"
  ce_hostname :: string
  ce_uuid :: string
  ce_encode_config :: "ClientConfig \<Rightarrow> bytes"
  ce_decode_config :: "bytes \<Rightarrow> ClientConfig option"
  ce_encode_keyring :: "Keyring \<Rightarrow> bytes"
  ce_decode_keyring :: "bytes \<Rightarrow> Keyring option"

definition SaveConfig :: "config_env \<Rightarrow> faults \<Rightarrow> string \<Rightarrow> ClientConfig \<Rightarrow> fsys \<Rightarrow> go_error option \<times> fsys" where
  "SaveConfig ce ft random c = saveJSONFile ft random (pt_ConfigFile (ce_Paths ce)) (ce_encode_config ce c)"

definition SaveKeyring :: "config_env \<Rightarrow> faults \<Rightarrow> string \<Rightarrow> Keyring \<Rightarrow> fsys \<Rightarrow> go_error option \<times> fsys" where
  "SaveKeyring ce ft random k = saveJSONFile ft random (pt_KeyringFile (ce_Paths ce)) (ce_encode_keyring ce k)"

definition ClearKeyring :: "config_env \<Rightarrow> faults \<Rightarrow> string \<Rightarrow> fsys \<Rightarrow> go_error option \<times> fsys" where
  "ClearKeyring ce ft random = SaveKeyring ce ft random empty_keyring"

definition complete_config :: "config_env \<Rightarrow> ClientConfig \<Rightarrow> ClientConfig" where
  "complete_config ce c =
     c\<lparr>cg_DeviceID := (if cg_DeviceID c = [] then ce_uuid ce else cg_DeviceID c),
       cg_DeviceName := (if cg_DeviceName c = [] then ce_hostname ce else cg_DeviceName c)\<rparr>"

definition LoadConfig :: "config_env \<Rightarrow> faults \<Rightarrow> string \<Rightarrow> fsys \<Rightarrow> (go_error + ClientConfig) \<times> fsys" where
  "LoadConfig ce ft random fs =
     (case loadJSONFile (ce_link ce) (ce_decode_config ce) (pt_ConfigFile (ce_Paths ce)) fs of
        Inl e \<Rightarrow> (Inl e, fs)
      | Inr (Some c) \<Rightarrow> (Inr (complete_config ce c), fs)
      | Inr None \<Rightarrow>
          (let c = empty_config\<lparr>cg_DeviceID := ce_uuid ce, cg_DeviceName := ce_hostname ce, cg_DaemonAutoStart := True\<rparr> in
           case SaveConfig ce ft random c fs of
             (Some e, fs1) \<Rightarrow> (Inl e, fs1) | (None, fs1) \<Rightarrow> (Inr (complete_config ce c), fs1)))"

definition LoadKeyring :: "config_env \<Rightarrow> fsys \<Rightarrow> go_error + Keyring" where
  "LoadKeyring ce fs =
     (case loadJSONFile (ce_link ce) (ce_decode_keyring ce) (pt_KeyringFile (ce_Paths ce)) fs of
        Inl e \<Rightarrow> Inl e | Inr None \<Rightarrow> Inr empty_keyring | Inr (Some k) \<Rightarrow> Inr k)"

end
