(* ===== verification/SyncLoop.thy ===== *)
theory SyncLoop
  imports Rescan
begin

text \<open>
  The loops around a rescan (\<^verbatim>\<open>internal/client/daemon/daemon.go\<close>): the queue of
  operations that could not reach the server, the initial reconciliation, the
  debouncing of watcher events, and the order of a synchronisation.
\<close>

section \<open>Several roots\<close>

fun rescan_each ::
  "nat \<Rightarrow> 's daemon_env \<Rightarrow> Root list \<Rightarrow> 's daemon \<Rightarrow> (go_error option \<times> 's daemon) option" where
  "rescan_each fuel dv [] d = Some (None, d)"
| "rescan_each fuel dv (root # roots) d =
     (if cr_State root \<noteq> RootStateActive then rescan_each fuel dv roots d
      else case rescanRoot fuel dv (cr_RootID root) d of
        Some (None, d1) \<Rightarrow> rescan_each fuel dv roots d1
      | result \<Rightarrow> result)"

definition reconcileActiveRoots :: "nat \<Rightarrow> 's daemon_env \<Rightarrow> 's daemon \<Rightarrow> (go_error option \<times> 's daemon) option" where
  "reconcileActiveRoots fuel dv d = rescan_each fuel dv (ListRoots (mc_db d)) d"

section \<open>Initial reconciliation\<close>

primrec reconcile_attempts ::
  "nat \<Rightarrow> nat \<Rightarrow> 's daemon_env \<Rightarrow> string \<Rightarrow> int \<Rightarrow> 's daemon \<Rightarrow> (go_error option \<times> 's daemon) option" where
  "reconcile_attempts 0 = (\<lambda>fuel dv rootID rootCreatedSeq d.
     Some (Some (Failed ''initial reconciliation retries exhausted''), d))"
| "reconcile_attempts (Suc left) = (\<lambda>fuel dv rootID rootCreatedSeq d.
     case rescanRootHintWithRetry fuel dv rootID [] True False True rootCreatedSeq d of
       None \<Rightarrow> None
     | Some (err, d1) \<Rightarrow>
         if map_option unwrapped err = Some retry_initial
         then reconcile_attempts left fuel dv rootID rootCreatedSeq d1 else Some (err, d1))"

definition reconcileInitialRoot ::
  "nat \<Rightarrow> 's daemon_env \<Rightarrow> string \<Rightarrow> int \<Rightarrow> 's daemon \<Rightarrow> (go_error option \<times> 's daemon) option" where
  "reconcileInitialRoot fuel dv rootID rootCreatedSeq d =
     (case RootByID rootID (mc_db d) of
        None \<Rightarrow> Some (Some ErrNoRows, d)
      | Some root \<Rightarrow>
          (case ScanRoot (scan_env_of dv) (mc_fs d) (cr_TargetAbsPath root) of
             Inl e \<Rightarrow> Some (Some (scan_failure e), d)
           | Inr result \<Rightarrow>
               reconcile_attempts (length (sl_Entries result) * 2 + 16) fuel dv rootID rootCreatedSeq d))"

section \<open>The queue of operations\<close>

text \<open>Whether the incarnation the server has is the one this device created.\<close>

definition own_incarnation :: "'s daemon_env \<Rightarrow> int \<Rightarrow> int \<Rightarrow> 's daemon \<Rightarrow> (go_error + bool) \<times> 's daemon" where
  "own_incarnation dv baseSeq remoteSeq d =
     (if baseSeq \<noteq> 0 then (Inr (remoteSeq = baseSeq), d)
      else case fetchCurrentRemoteHead dv remoteSeq d of
        (Inl e, d1) \<Rightarrow> (Inl e, d1)
      | (Inr event, d1) \<Rightarrow>
          (Inr (er_EventType event = EventRootAdd \<and> er_AuthorDeviceID event = dv_DeviceID dv), d1))"

text \<open>The result says whether the operation is done with, or why it failed.\<close>

definition recoverPendingInitialRoot ::
  "nat \<Rightarrow> 's daemon_env \<Rightarrow> PendingOp \<Rightarrow> 's daemon \<Rightarrow> ((go_error + bool) \<times> 's daemon) option" where
  "recoverPendingInitialRoot fuel dv op d =
     (let rootID = op_RootID op in
      case RootByID rootID (mc_db d) of
        None \<Rightarrow> Some (Inr True, d)
      | Some root \<Rightarrow>
          if cr_State root \<noteq> RootStateActive then Some (Inr True, d)
          else (case remoteRootIncarnation dv rootID d of
             (Inl e, d1) \<Rightarrow> Some (Inl e, d1)
           | (Inr None, d1) \<Rightarrow> Some (Inr True, markRootRemoved root d1)
           | (Inr (Some remoteSeq), d1) \<Rightarrow>
          (case own_incarnation dv (op_BaseSeq op) remoteSeq d1 of
             (Inl e, d2) \<Rightarrow> Some (Inl e, d2)
           | (Inr False, d2) \<Rightarrow> Some (Inr True, markStagedRoot rootID d2)
           | (Inr True, d2) \<Rightarrow>
          (case requireRootIncarnationBinding dv d2 of
             (Some e, d3) \<Rightarrow> Some (Inl e, d3)
           | (None, d3) \<Rightarrow>
          (case reconcileInitialRoot fuel dv rootID remoteSeq d3 of
             None \<Rightarrow> None
           | Some (Some e, d4) \<Rightarrow> Some (Inl e, d4)
           | Some (None, d4) \<Rightarrow>
          (case RootByID rootID (mc_db d4) of
             None \<Rightarrow> Some (Inl ErrNoRows, d4)
           | Some current \<Rightarrow>
               if cr_State current \<noteq> RootStateActive \<or> isRootStaged rootID d4 then Some (Inr True, d4)
               else (case addWatcherRoot rootID (cr_TargetAbsPath current) d4 of
                  (True, d5) \<Rightarrow> Some (Inr True, d5)
                | (False, d5) \<Rightarrow> Some (Inl (Failed ''watcher could not monitor''), d5))))))))"

text \<open>A pending rescan that meets a conflict applies the head and tries once more.\<close>

definition flush_rescan ::
  "nat \<Rightarrow> 's daemon_env \<Rightarrow> string \<Rightarrow> 's daemon \<Rightarrow> (go_error option \<times> 's daemon) option" where
  "flush_rescan fuel dv rootID d =
     (case rescanRootWithRetry fuel dv rootID True False d of
        Some (Some e, d1) \<Rightarrow>
          (case path_conflict e of
             None \<Rightarrow> Some (Some e, d1)
           | Some (currentSeq, _) \<Rightarrow>
               (case applyCurrentRemoteHead fuel dv currentSeq d1 of
                  Some (None, d2) \<Rightarrow> rescanRootWithRetry fuel dv rootID True False d2
                | result \<Rightarrow> result))
      | result \<Rightarrow> result)"

text \<open>One operation: the error that keeps it, or whether it is deleted.\<close>

definition perform_op ::
  "nat \<Rightarrow> 's daemon_env \<Rightarrow> PendingOp \<Rightarrow> 's daemon \<Rightarrow> ((go_error + bool) \<times> 's daemon) option" where
  "perform_op fuel dv op d =
     (if op_OpType op = ''recover_initial_root'' then recoverPendingInitialRoot fuel dv op d
      else if op_OpType op = ''rescan_root'' then
        map_option (\<lambda>(err, d1). (case err of Some e \<Rightarrow> Inl e | None \<Rightarrow> Inr True, d1)) (flush_rescan fuel dv (op_RootID op) d)
      else if op_OpType op = ''root_remove'' then
        (case submit_root_remove dv (op_RootID op) 0 d of
           (Some e, d1) \<Rightarrow> Some (if isBenignRootRemoveError (dv_describe dv) e then Inr True else Inl e, d1)
         | (None, d1) \<Rightarrow> Some (Inr True, d1))
      else Some (Inr True, d))"

fun flush_ops ::
  "nat \<Rightarrow> 's daemon_env \<Rightarrow> PendingOp list \<Rightarrow> 's daemon \<Rightarrow> (go_error option \<times> 's daemon) option" where
  "flush_ops fuel dv [] d = Some (None, d)"
| "flush_ops fuel dv (op # ops) d =
     (case perform_op fuel dv op d of
        None \<Rightarrow> None
      | Some (Inl e, d1) \<Rightarrow>
          (let (lu, d2) = draw d1 in
           Some (Some e, on_db (\<lambda>s. snd (BumpPendingOpRetry (op_OpID op) (error_text (dv_describe dv) e) (lu_now lu) s)) d2))
      | Some (Inr done, d1) \<Rightarrow> flush_ops fuel dv ops (if done then on_db (DeletePendingOp (op_OpID op)) d1 else d1))"

definition flushPendingOps :: "nat \<Rightarrow> 's daemon_env \<Rightarrow> 's daemon \<Rightarrow> (go_error option \<times> 's daemon) option" where
  "flushPendingOps fuel dv d =
     (let (lu, d1) = draw d in flush_ops fuel dv (ListPendingOpsReady (lu_now lu) (mc_db d1)) d1)"

definition degraded :: "'s daemon_env \<Rightarrow> DaemonIssueKind \<Rightarrow> go_error \<Rightarrow> client_db \<Rightarrow> client_db" where
  "degraded dv fallback e =
     SetConnectionStateWithKind ConnectionDegraded (Some (lifecycleKind e fallback)) (error_text (dv_describe dv) e)"

text \<open>While the stream is live, once a second; the context is not cancelled before.\<close>

definition retryLivePendingOps :: "nat \<Rightarrow> 's daemon_env \<Rightarrow> 's daemon \<Rightarrow> (go_error option \<times> 's daemon) option" where
  "retryLivePendingOps fuel dv d =
     (if CountPendingOps (mc_db d) = 0 then Some (None, d)
      else case flushPendingOps fuel dv d of
        None \<Rightarrow> None
      | Some (Some e, d1) \<Rightarrow>
          if IsHTTPError e 404 ''workspace_not_found'' \<or> unwrapped e = ContextCanceled then Some (Some e, d1)
          else Some (None, on_db (degraded dv IssueTransport e) d1)
      | Some (None, d1) \<Rightarrow>
          if CountPendingOps (mc_db d1) \<noteq> 0 then Some (None, d1)
          else (case bootstrapOrCatchUp fuel dv d1 of
             Some (None, d2) \<Rightarrow> Some (None, on_db (SetConnectionState ConnectionLive []) d2)
           | result \<Rightarrow> result))"

section \<open>Debouncing\<close>

text \<open>The hints collected for a root until its timer fires.\<close>

definition note_change :: "string \<Rightarrow> string \<Rightarrow> (string \<rightharpoonup> string) \<Rightarrow> (string \<rightharpoonup> string)" where
  "note_change rootID hint hints =
     hints(rootID \<mapsto> (case hints rootID of
        Some currentHint \<Rightarrow> mergeRescanHints currentHint hint | None \<Rightarrow> normalizeRescanHint hint))"

definition fire_change ::
  "nat \<Rightarrow> 's daemon_env \<Rightarrow> string \<Rightarrow> (string \<rightharpoonup> string) \<Rightarrow> 's daemon
    \<Rightarrow> (string \<rightharpoonup> string) \<times> (go_error option \<times> 's daemon) option" where
  "fire_change fuel dv rootID hints d =
     (hints(rootID := None),
      if isRootStaged rootID d then Some (None, d)
      else rescanRootHint fuel dv rootID (case hints rootID of Some h \<Rightarrow> h | None \<Rightarrow> []) d)"

section \<open>One synchronisation\<close>

text \<open>A step of the sequence: its errors are marked with the kind of issue they are.\<close>

definition then_sync ::
  "DaemonIssueKind \<Rightarrow> ('s daemon \<Rightarrow> (go_error option \<times> 's daemon) option)
    \<Rightarrow> ('s daemon \<Rightarrow> (go_error option \<times> 's daemon) option) \<Rightarrow> 's daemon \<Rightarrow> (go_error option \<times> 's daemon) option" where
  "then_sync kind step rest d =
     (case step d of
        None \<Rightarrow> None
      | Some (Some e, d1) \<Rightarrow> Some (markLifecycle kind (Some e), d1)
      | Some (None, d1) \<Rightarrow> rest d1)"

text \<open>
  \<open>syncAndStream\<close> from the opened websocket to the live stream: pending operations
  before remote events, so that offline edits meet their conflicts first, and a
  second catch-up after the local changes are out.  \<open>streamErr\<close> is the error the
  websocket had meanwhile.
\<close>

definition synchronise ::
  "nat \<Rightarrow> 's daemon_env \<Rightarrow> go_error option \<Rightarrow> 's daemon \<Rightarrow> (go_error option \<times> 's daemon) option" where
  "synchronise fuel dv streamErr =
     then_sync IssueTransport (flushPendingOps fuel dv)
    (then_sync IssueBootstrap (bootstrapOrCatchUp fuel dv)
    (then_sync IssueBootstrap (retryBlockedRoots fuel dv)
    (then_sync IssueTransport (reconcileActiveRoots fuel dv)
    (then_sync IssueBootstrap (bootstrapOrCatchUp fuel dv)
    (then_sync IssueTransport (\<lambda>d. Some (streamErr, d))
      (\<lambda>d. Some (None, setStreamingLive True (on_db (SetConnectionState ConnectionLive []) d))))))))"

end
