(* ===== verification/AddRoot.thy ===== *)
theory AddRoot
  imports SyncLoop
begin

text \<open>
  Adding and removing a root (\<^verbatim>\<open>internal/client/daemon/daemon.go\<close>, \<open>AddRootWithProgress\<close>
  and \<open>RemoveRoot\<close>; \<^verbatim>\<open>internal/client/daemon/initial_sync.go\<close>;
  \<^verbatim>\<open>internal/client/snapshotter/snapshotter.go\<close>).  The root is announced, every entry is
  submitted under the incarnation the announcement created, and a snapshot of exactly
  these entries is published when nobody else has written since.  Reports of
  progress are left out.  The daemon is connected: what \<open>d.conn\<close>, \<open>d.keys\<close> and the
  configuration hold is \<open>dv\<close>.
\<close>

section \<open>Submitting the entries\<close>

record initialRootSync =
  is_Entries :: "Entry list"
  is_Snapshot :: SnapshotPayload
  is_ObjectRefs :: "string list"
  is_Conflict :: "(ScanEntry \<times> int) option"

definition submitInitialDir ::
  "'s daemon_env \<Rightarrow> string \<Rightarrow> string \<Rightarrow> int \<Rightarrow> ScanEntry \<Rightarrow> initialRootSync \<Rightarrow> 's daemon
    \<Rightarrow> go_error option \<times> initialRootSync \<times> 's daemon" where
  "submitInitialDir dv rootID pathID rootCreatedSeq item sync d =
     (case submit_dir dv rootID pathID item 0 rootCreatedSeq d of
        (Inl e, d1) \<Rightarrow> (Some e, sync, d1)
      | (Inr resp, d1) \<Rightarrow>
          (None, sync\<lparr>is_Entries := is_Entries sync @ [submitted_dir rootID pathID item (es_AcceptedSeq resp)],
             is_Snapshot := (is_Snapshot sync)\<lparr>snp_Entries := snp_Entries (is_Snapshot sync) @
               [\<lparr>sne_Path = sc_RelPath item, sne_Kind = RootKindDir, sne_Mode = sc_Mode item,
                 sne_MTimeNS = sc_MTimeNS item, sne_SizeBytes = 0, sne_ContentSHA256 = [], sne_Chunks = []\<rparr>]\<rparr>\<rparr>, d1))"

definition snapshot_file_entry :: "string \<Rightarrow> FilePutPayload \<Rightarrow> SnapshotEntry" where
  "snapshot_file_entry relPath payload =
     \<lparr>sne_Path = relPath, sne_Kind = RootKindFile, sne_Mode = fp_Mode payload, sne_MTimeNS = fp_MTimeNS payload,
      sne_SizeBytes = fp_SizeBytes payload, sne_ContentSHA256 = fp_ContentSHA256 payload,
      sne_Chunks = fp_Chunks payload\<rparr>"

definition submitInitialFile ::
  "'s daemon_env \<Rightarrow> string \<Rightarrow> string \<Rightarrow> int \<Rightarrow> ScanEntry \<Rightarrow> initialRootSync \<Rightarrow> 's daemon
    \<Rightarrow> go_error option \<times> initialRootSync \<times> 's daemon" where
  "submitInitialFile dv rootID pathID rootCreatedSeq item sync d =
     (case upload_file dv rootID pathID (sc_RelPath item) (sc_AbsPath item) (sc_Mode item) (sc_MTimeNS item) d of
        (Inl e, d1) \<Rightarrow> (Some e, sync, d1)
      | (Inr up, d1) \<Rightarrow>
          (case submit_file dv rootID pathID up 0 rootCreatedSeq d1 of
             (Inl e, d2) \<Rightarrow> (Some e, sync, d2)
           | (Inr resp, d2) \<Rightarrow>
               (None, sync\<lparr>is_Entries := is_Entries sync @
                    [submitted_file rootID (sc_RelPath item) pathID (ur_Payload up) (es_AcceptedSeq resp)],
                  is_Snapshot := (is_Snapshot sync)\<lparr>snp_BaseSeq := es_AcceptedSeq resp,
                    snp_Entries := snp_Entries (is_Snapshot sync) @ [snapshot_file_entry (sc_RelPath item) (ur_Payload up)]\<rparr>,
                  is_ObjectRefs := is_ObjectRefs sync @ ur_Refs up\<rparr>, d2)))"

fun submit_entries ::
  "'s daemon_env \<Rightarrow> string \<Rightarrow> int \<Rightarrow> ScanEntry list \<Rightarrow> initialRootSync \<Rightarrow> 's daemon
    \<Rightarrow> go_error option \<times> initialRootSync \<times> 's daemon" where
  "submit_entries dv rootID rootCreatedSeq [] sync d = (None, sync, d)"
| "submit_entries dv rootID rootCreatedSeq (item # items) sync d =
     (let pathID = PathID (dv_px dv) (dv_keys dv) rootID (sc_RelPath item) in
      case (if sc_Kind item = RootKindDir then submitInitialDir dv rootID pathID rootCreatedSeq item sync d
            else if sc_Kind item = RootKindFile then submitInitialFile dv rootID pathID rootCreatedSeq item sync d
            else (None, sync, d)) of
        (Some e, sync1, d1) \<Rightarrow>
          (Some e, (case path_conflict e of
             None \<Rightarrow> sync1 | Some (q, _) \<Rightarrow> sync1\<lparr>is_Conflict := Some (item, q)\<rparr>), d1)
      | (None, sync1, d1) \<Rightarrow> submit_entries dv rootID rootCreatedSeq items sync1 d1)"

definition submitInitialRootEntries ::
  "'s daemon_env \<Rightarrow> string \<Rightarrow> string \<Rightarrow> int \<Rightarrow> ScanResult \<Rightarrow> 's daemon
    \<Rightarrow> go_error option \<times> initialRootSync \<times> 's daemon" where
  "submitInitialRootEntries dv rootID homeRelPath rootCreatedSeq result =
     submit_entries dv rootID rootCreatedSeq (syncOrder (sl_Entries result))
       \<lparr>is_Entries = [], is_Snapshot = \<lparr>snp_RootID = rootID, snp_Kind = sl_RootKind result,
          snp_HomeRelPath = homeRelPath, snp_BaseSeq = 0, snp_Entries = []\<rparr>, is_ObjectRefs = [], is_Conflict = None\<rparr>"

section \<open>Publishing a snapshot\<close>

definition BuildSnapshotBlob ::
  "'s daemon_env \<Rightarrow> bytes \<Rightarrow> string \<Rightarrow> int \<Rightarrow> SnapshotPayload \<Rightarrow> go_error + bytes \<times> string" where
  "BuildSnapshotBlob dv nonce rootID baseSeq payload =
     (case Encrypt (dv_px dv) nonce (dk_SnapshotKey (dv_keys dv)) (je_Snapshot (dv_encode dv) payload)
             (SnapshotAAD (dv_WorkspaceID dv) rootID baseSeq) of
        Inl e \<Rightarrow> Inl (CryptoFailed e) | Inr blob \<Rightarrow> Inr (blob, ObjectID (dv_px dv) blob))"

definition publishInitialSnapshot ::
  "'s daemon_env \<Rightarrow> string \<Rightarrow> initialRootSync \<Rightarrow> 's daemon \<Rightarrow> go_error option \<times> 's daemon" where
  "publishInitialSnapshot dv rootID sync d =
     (if is_Entries sync = [] then (None, d)
      else let lastSeq = en_CurrentSeq (last (is_Entries sync)); (lu, d1) = draw d in
      case BuildSnapshotBlob dv (lu_nonces lu 0) rootID lastSeq ((is_Snapshot sync)\<lparr>snp_BaseSeq := lastSeq\<rparr>) of
        Inl e \<Rightarrow> (Some (Wrapped ''build snapshot'' e), d1)
      | Inr (blob, objectID) \<Rightarrow>
          (case UploadObject (dv_conn dv) objectID ''snapshot'' (int (length blob)) blob (mc_net d1) of
             (Some e, s) \<Rightarrow> (Some (Wrapped ''upload snapshot'' e), d1\<lparr>mc_net := s\<rparr>)
           | (None, s) \<Rightarrow>
               (case SubmitSnapshot (dv_conn dv) \<lparr>sr_RootID = rootID, sr_BaseSeq = lastSeq, sr_ObjectID = objectID,
                         sr_ObjectRefs = dedupe (is_ObjectRefs sync)\<rparr> s of
                  (Inl e, s') \<Rightarrow> (Some (Wrapped ''submit snapshot'' e), d1\<lparr>mc_net := s'\<rparr>)
                | (Inr _, s') \<Rightarrow> (None, d1\<lparr>mc_net := s'\<rparr>))))"

text \<open>The snapshot describes what the table says now, no more and no less.\<close>

definition initialSnapshotMatches :: "string \<Rightarrow> initialRootSync \<Rightarrow> client_db \<Rightarrow> bool" where
  "initialSnapshotMatches rootID sync s \<longleftrightarrow>
     (let current = EntriesForRoot rootID s in
      length (remdups (map er_path (filter (\<lambda>r. er_root r = rootID) (c_entries s)))) = length (is_Entries sync)
      \<and> list_all (\<lambda>initial. case current (en_RelPath initial) of
            None \<Rightarrow> False
          | Some e \<Rightarrow> \<not> en_Deleted e \<and> en_PathID e = en_PathID initial \<and> en_Kind e = en_Kind initial
              \<and> en_CurrentSeq e = en_CurrentSeq initial \<and> en_ContentSHA256 e = en_ContentSHA256 initial
              \<and> en_SizeBytes e = en_SizeBytes initial \<and> en_Mode e = en_Mode initial \<and> en_MTimeNS e = en_MTimeNS initial)
          (is_Entries sync))"

section \<open>The incarnation of the root\<close>

definition gone :: go_error where
  "gone = Failed ''root is no longer active after initial sync''"

definition replaced :: go_error where
  "replaced = Failed ''root was replaced during initial sync''"

definition activeRootAfterInitialSync :: "string \<Rightarrow> client_db \<Rightarrow> go_error + Root" where
  "activeRootAfterInitialSync rootID s =
     (case RootByID rootID s of
        None \<Rightarrow> Inl gone | Some root \<Rightarrow> if cr_State root \<noteq> RootStateActive then Inl gone else Inr root)"

text \<open>The result: whether nothing is left to do, and the error to report.\<close>

primrec stage_replaced ::
  "nat \<Rightarrow> nat \<Rightarrow> 's daemon_env \<Rightarrow> string \<Rightarrow> 's daemon \<Rightarrow> (bool \<times> go_error \<times> 's daemon) option" where
  "stage_replaced 0 = (\<lambda>fuel dv rootID d. Some (False, Failed ''root kept changing during initial sync'', d))"
| "stage_replaced (Suc left) = (\<lambda>fuel dv rootID d.
     case remoteRootIncarnation dv rootID d of
       (Inl e, d1) \<Rightarrow> Some (False, e, d1)
     | (Inr None, d1) \<Rightarrow> Some (True, gone, d1)
     | (Inr (Some beforeSeq), d1) \<Rightarrow>
         (case bootstrapOrCatchUp fuel dv (markStagedRoot rootID d1) of
            None \<Rightarrow> None
          | Some (Some e, d2) \<Rightarrow> Some (False, e, d2)
          | Some (None, d2) \<Rightarrow>
              (case remoteRootIncarnation dv rootID d2 of
                 (Inl e, d3) \<Rightarrow> Some (False, e, d3)
               | (Inr afterSeq, d3) \<Rightarrow>
                   if afterSeq \<noteq> Some beforeSeq then stage_replaced left fuel dv rootID d3
                   else (case activeRootAfterInitialSync rootID (mc_db d3) of
                           Inl e \<Rightarrow> Some (True, e, d3)
                         | Inr _ \<Rightarrow> Some (True, replaced, enqueueRootRescan rootID d3)))))"

definition stageReplacedRootAfterInitialSync ::
  "nat \<Rightarrow> 's daemon_env \<Rightarrow> string \<Rightarrow> 's daemon \<Rightarrow> (bool \<times> go_error \<times> 's daemon) option" where
  "stageReplacedRootAfterInitialSync = stage_replaced 3"

text \<open>A later attempt to finish: whether it is the last one, and its error.\<close>

definition retryInitialRootFinalization ::
  "nat \<Rightarrow> 's daemon_env \<Rightarrow> string \<Rightarrow> int \<Rightarrow> 's daemon \<Rightarrow> (bool \<times> go_error option \<times> 's daemon) option" where
  "retryInitialRootFinalization fuel dv rootID createdSeq d =
     (case bootstrapOrCatchUp fuel dv d of
        None \<Rightarrow> None
      | Some (Some e, d1) \<Rightarrow> Some (False, Some e, d1)
      | Some (None, d1) \<Rightarrow>
     (case activeRootAfterInitialSync rootID (mc_db d1) of
        Inl e \<Rightarrow> Some (True, Some e, d1)
      | Inr root \<Rightarrow>
     (case verifyRootIncarnation dv rootID createdSeq d1 of
        (Inl e, d2) \<Rightarrow> Some (False, Some e, d2)
      | (Inr (matched, active), d2) \<Rightarrow>
          if \<not> active then Some (True, Some gone, d2)
          else if \<not> matched then
            map_option (\<lambda>(done, e, d3). (done, Some e, d3)) (stageReplacedRootAfterInitialSync fuel dv rootID d2)
          else if isRootStaged rootID d2 then Some (True, Some replaced, enqueueRootRescan rootID d2)
          else (case addWatcherRoot rootID (cr_TargetAbsPath root) d2 of
                  (True, d3) \<Rightarrow> Some (True, None, d3)
                | (False, d3) \<Rightarrow> Some (False, Some (Failed ''watcher could not monitor''), d3)))))"

definition preserveInitialRootRecovery ::
  "'s daemon_env \<Rightarrow> string \<Rightarrow> int \<Rightarrow> 's daemon \<Rightarrow> go_error option \<times> 's daemon" where
  "preserveInitialRootRecovery dv rootID createdSeq d =
     (case RootByID rootID (mc_db d) of
        None \<Rightarrow> (None, d)
      | Some root \<Rightarrow>
          if cr_State root \<noteq> RootStateActive then (None, d)
          else let (lu, d1) = draw d in
          (case QueueInitialRootRecovery (dv_formatTime dv) rootID createdSeq (lu_now lu) (mc_db d1) of
             (Inl _, s) \<Rightarrow> (Some (OsFailed ''database''), d1\<lparr>mc_db := s\<rparr>)
           | (Inr _, s) \<Rightarrow>
          (case remoteRootIncarnation dv rootID (d1\<lparr>mc_db := s\<rparr>) of
             (Inr (Some remoteSeq), d2) \<Rightarrow>
               (case own_incarnation dv createdSeq remoteSeq d2 of
                  (Inr True, d3) \<Rightarrow>
                    (None, if isRootStaged rootID d3 then d3
                           else snd (addWatcherRoot rootID (cr_TargetAbsPath root) d3))
                | (_, d3) \<Rightarrow> (None, markStagedRoot rootID d3))
           | (_, d2) \<Rightarrow> (None, d2))))"

section \<open>The stages of adding a root\<close>

text \<open>
  Every stage ends with the error, whether a later finalization is scheduled, and the
  daemon; \<open>None\<close> is a catch-up that has not ended within its fuel.
\<close>

type_synonym 's adding = "(go_error option \<times> bool \<times> 's daemon) option"

definition add_replaced :: "nat \<Rightarrow> 's daemon_env \<Rightarrow> string \<Rightarrow> 's daemon \<Rightarrow> 's adding" where
  "add_replaced fuel dv rootID d =
     map_option (\<lambda>(done, e, d1). (Some e, \<not> done, d1)) (stageReplacedRootAfterInitialSync fuel dv rootID d)"

text \<open>After the last catch-up: the root must still be the one that was created.\<close>

definition add_complete :: "nat \<Rightarrow> 's daemon_env \<Rightarrow> string \<Rightarrow> int \<Rightarrow> 's daemon \<Rightarrow> 's adding" where
  "add_complete fuel dv rootID createdSeq d =
     (case activeRootAfterInitialSync rootID (mc_db d) of
        Inl e \<Rightarrow> Some (Some e, False, d)
      | Inr currentRoot \<Rightarrow>
          (case (case verifyRootIncarnation dv rootID createdSeq d of
                   (Inl _, d1) \<Rightarrow> verifyRootIncarnation dv rootID createdSeq d1 | result \<Rightarrow> result) of
             (Inl e, d1) \<Rightarrow> Some (Some (Wrapped ''verify root after initial sync'' e), True, d1)
           | (Inr (matched, active), d1) \<Rightarrow>
               if \<not> active then Some (Some gone, False, d1)
               else if \<not> matched then add_replaced fuel dv rootID d1
               else if isRootStaged rootID d1 then Some (Some replaced, False, enqueueRootRescan rootID d1)
               else (case addWatcherRoot rootID (cr_TargetAbsPath currentRoot) d1 of
                       (True, d2) \<Rightarrow> Some (None, False, d2)
                     | (False, d2) \<Rightarrow>
                         Some (Some (Failed ''root is active but its watcher could not be installed; recovery was queued''),
                           False, d2))))"

text \<open>The snapshot, when it is still accurate, and the catch-up after it.\<close>

definition add_publish ::
  "nat \<Rightarrow> 's daemon_env \<Rightarrow> string \<Rightarrow> int \<Rightarrow> initialRootSync \<Rightarrow> bool \<Rightarrow> 's daemon \<Rightarrow> 's adding" where
  "add_publish fuel dv rootID createdSeq sync eligible d =
     (let d1 = (if eligible \<and> initialSnapshotMatches rootID sync (mc_db d)
                then snd (publishInitialSnapshot dv rootID sync d) else d) in
      case bootstrapOrCatchUp fuel dv d1 of
        None \<Rightarrow> None
      | Some (None, d2) \<Rightarrow> add_complete fuel dv rootID createdSeq d2
      | Some (Some catchUpErr, d2) \<Rightarrow>
          (case bootstrapOrCatchUp fuel dv d2 of
             None \<Rightarrow> None
           | Some (None, d3) \<Rightarrow> add_complete fuel dv rootID createdSeq d3
           | Some (Some retryErr, d3) \<Rightarrow>
               Some (Some (Wrapped (''catch up after initial sync: '' @ error_text (dv_describe dv) catchUpErr
                 @ ''; retry'') retryErr), True, d3)))"

definition add_verify ::
  "nat \<Rightarrow> 's daemon_env \<Rightarrow> string \<Rightarrow> int \<Rightarrow> initialRootSync \<Rightarrow> 's daemon \<Rightarrow> 's adding" where
  "add_verify fuel dv rootID createdSeq sync d =
     (case activeRootAfterInitialSync rootID (mc_db d) of
        Inl e \<Rightarrow> Some (Some e, False, d)
      | Inr _ \<Rightarrow>
          (case verifyRootIncarnation dv rootID createdSeq d of
             (Inl _, d1) \<Rightarrow> add_publish fuel dv rootID createdSeq sync False d1
           | (Inr (matched, active), d1) \<Rightarrow>
               if \<not> active then Some (Some gone, False, d1)
               else if \<not> matched then add_replaced fuel dv rootID d1
               else add_publish fuel dv rootID createdSeq sync (is_Conflict sync = None) d1))"

definition recoverInitialRootConflict ::
  "nat \<Rightarrow> 's daemon_env \<Rightarrow> Root \<Rightarrow> ScanEntry \<Rightarrow> int \<Rightarrow> int \<Rightarrow> 's daemon \<Rightarrow> (go_error option \<times> 's daemon) option" where
  "recoverInitialRootConflict fuel dv root item currentSeq rootCreatedSeq d =
     (if sc_Kind item = RootKindFile then resolveFileConflictForIncarnation fuel dv root item currentSeq rootCreatedSeq d
      else Some (resolveDirectoryConflict dv root item currentSeq d))"

text \<open>A path another device wrote first: the conflict is resolved, then the whole root reconciled.\<close>

definition add_collided ::
  "nat \<Rightarrow> 's daemon_env \<Rightarrow> Root \<Rightarrow> int \<Rightarrow> initialRootSync \<Rightarrow> ScanEntry \<Rightarrow> int \<Rightarrow> 's daemon \<Rightarrow> 's adding" where
  "add_collided fuel dv root createdSeq sync item currentSeq d =
     (let rootID = cr_RootID root; unverified = Wrapped ''verify root before initial conflict recovery'' in
      case verifyRootIncarnation dv rootID createdSeq d of
        (Inl e, d1) \<Rightarrow> Some (Some (unverified e), False, d1)
      | (Inr (matched, active), d1) \<Rightarrow>
          if \<not> active then Some (Some gone, False, d1)
          else if \<not> matched then Some (Some replaced, False, markStagedRoot rootID d1)
          else (case recoverInitialRootConflict fuel dv root item currentSeq createdSeq d1 of
             None \<Rightarrow> None
           | Some (Some e, d2) \<Rightarrow> Some (Some (Wrapped ''recover initial path conflict'' e), False, d2)
           | Some (None, d2) \<Rightarrow>
          (case verifyRootIncarnation dv rootID createdSeq d2 of
             (Inl e, d3) \<Rightarrow> Some (Some (unverified e), False, d3)
           | (Inr (matched, active), d3) \<Rightarrow>
               if \<not> active then Some (Some gone, False, d3)
               else if \<not> matched then add_replaced fuel dv rootID d3
               else (case reconcileInitialRoot fuel dv rootID createdSeq d3 of
                  None \<Rightarrow> None
                | Some (Some e, d4) \<Rightarrow> Some (Some (Wrapped ''reconcile initial path conflict'' e), False, d4)
                | Some (None, d4) \<Rightarrow> add_verify fuel dv rootID createdSeq sync d4))))"

text \<open>From the announcement of the root on.\<close>

definition add_announced ::
  "nat \<Rightarrow> 's daemon_env \<Rightarrow> Root \<Rightarrow> ScanResult \<Rightarrow> int \<Rightarrow> 's daemon \<Rightarrow> 's adding" where
  "add_announced fuel dv root result createdSeq d =
     (let rootID = cr_RootID root in
      case submitInitialRootEntries dv rootID (cr_HomeRelPath root) createdSeq result d of
        (err, sync, d1) \<Rightarrow>
          (let d2 = on_db (ReplaceEntries rootID (is_Entries sync)) d1 in
           case err of
             Some e \<Rightarrow>
               (case is_Conflict sync of
                  None \<Rightarrow> Some (Some (Wrapped ''initial root upload'' e), False, d2)
                | Some (item, currentSeq) \<Rightarrow> add_collided fuel dv root createdSeq sync item currentSeq d2)
           | None \<Rightarrow>
               (case bootstrapOrCatchUp fuel dv d2 of
                  None \<Rightarrow> None
                | Some (Some e, d3) \<Rightarrow> Some (Some e, False, d3)
                | Some (None, d3) \<Rightarrow> add_verify fuel dv rootID createdSeq sync d3)))"

text \<open>The deferred recovery of everything after the root was recorded.\<close>

definition add_deferred ::
  "'s daemon_env \<Rightarrow> string \<Rightarrow> int \<Rightarrow> go_error option \<times> bool \<times> 's daemon \<Rightarrow> go_error option \<times> bool \<times> 's daemon" where
  "add_deferred dv rootID createdSeq result =
     (case result of
        (None, scheduled, d) \<Rightarrow> result
      | (Some e, scheduled, d) \<Rightarrow>
          (case preserveInitialRootRecovery dv rootID createdSeq d of
             (None, d1) \<Rightarrow> (Some e, scheduled, d1)
           | (Some recoveryErr, d1) \<Rightarrow>
               (Some (Wrapped (error_text (dv_describe dv) e @ ''; queue initial-root recovery'') recoveryErr),
                scheduled, d1)))"

definition add_recorded ::
  "nat \<Rightarrow> 's daemon_env \<Rightarrow> Root \<Rightarrow> ScanResult \<Rightarrow> 's daemon \<Rightarrow> 's adding" where
  "add_recorded fuel dv root result d =
     (let rootID = cr_RootID root;
          d1 = recordScanWarnings root (sl_Warnings result) (on_db (UpsertRoot root) d) in
      case submitEvent dv rootID [] (sl_RootKind result) EventRootAdd None
             (je_RootAdd (dv_encode dv)
                \<lparr>ra_RootID = rootID, ra_Kind = sl_RootKind result, ra_HomeRelPath = cr_HomeRelPath root\<rparr>) [] d1 of
        (Inl e, d2) \<Rightarrow> Some (add_deferred dv rootID 0 (Some e, False, d2))
      | (Inr resp, d2) \<Rightarrow>
          map_option (add_deferred dv rootID (es_AcceptedSeq resp))
            (add_announced fuel dv root result (es_AcceptedSeq resp) d2))"

definition AddRootWithProgress :: "nat \<Rightarrow> 's daemon_env \<Rightarrow> string \<Rightarrow> 's daemon \<Rightarrow> 's adding" where
  "AddRootWithProgress fuel dv input d =
     (case requireRootIncarnationBinding dv d of
        (Some e, d1) \<Rightarrow> Some (Some e, False, d1)
      | (None, d1) \<Rightarrow>
     (case CanonicalizeRootPath (dv_home dv) (dv_cwd dv) input
             (map cr_HomeRelPath (filter (\<lambda>r. cr_State r \<noteq> RootStateRemoved) (ListRoots (mc_db d1)))) of
        Inl e \<Rightarrow> Some (Some (PathFailed e), False, d1)
      | Inr (absPath, homeRelPath) \<Rightarrow>
     (case scan_lstat (mc_fs d1) absPath of
        Inl e \<Rightarrow> Some (Some (scan_failure e), False, d1)
      | Inr n \<Rightarrow>
          if n = NodeSymlink then Some (Some (Failed ''symlink roots are not supported''), False, d1)
          else (case ScanRoot (scan_env_of dv) (mc_fs d1) absPath of
             Inl e \<Rightarrow> Some (Some (scan_failure e), False, d1)
           | Inr result \<Rightarrow>
               add_recorded fuel dv
                 \<lparr>cr_RootID = RootID (dv_px dv) (dv_keys dv) homeRelPath, cr_Kind = sl_RootKind result,
                  cr_HomeRelPath = homeRelPath, cr_TargetAbsPath = absPath, cr_State = RootStateActive,
                  cr_LatestSnapshotSeq = 0, cr_LastScanAt = None\<rparr> result d1))))"

section \<open>Removing a root\<close>

fun remove_failure :: "remove_error \<Rightarrow> go_error" where
  "remove_failure AlreadyRemoved = Failed ''path is already removed from sync''"
| "remove_failure (InsideTrackedRoot root) = Failed ''path is inside tracked root; syna rm only removes tracked roots''"
| "remove_failure (NotTracked active) = Failed ''path is not a tracked root''"

definition RemoveRoot :: "nat \<Rightarrow> 's daemon_env \<Rightarrow> string \<Rightarrow> 's daemon \<Rightarrow> (go_error option \<times> 's daemon) option" where
  "RemoveRoot fuel dv input d =
     (case CanonicalizeRootPath (dv_home dv) (dv_cwd dv) input [] of
        Inl e \<Rightarrow> Some (Some (PathFailed e), d)
      | Inr (absPath, homeRelPath) \<Rightarrow>
          (case rootForRemove (ListRoots (mc_db d)) absPath homeRelPath of
             Inl e \<Rightarrow> Some (Some (remove_failure e), d)
           | Inr root \<Rightarrow>
               (case submit_root_remove dv (cr_RootID root) 0 d of
                  (Some e, d1) \<Rightarrow> Some (Some e, d1) | (None, d1) \<Rightarrow> bootstrapOrCatchUp fuel dv d1)))"

end
