(* ===== verification/Agent.thy ===== *)
theory Agent
  imports ClientSession ConfigStore AddRoot
begin

text \<open>
  The daemon as a service (\<^verbatim>\<open>internal/client/daemon/daemon.go\<close>): connecting to a
  workspace and leaving it, keeping a session, one turn of the reconnect loop, the
  consumption of the live stream, and the status.  An \<open>agent\<close> is the \<open>Daemon\<close>
  structure: the synchronising daemon of the other theories together with its
  configuration, its keys and its connection.  Locks are not modelled: the operations
  are taken one at a time, as \<open>d.mu\<close> and \<open>d.syncMu\<close> make them.
\<close>

record 'w agent =
  ag_daemon :: "'w network daemon"
  ag_cfg :: ClientConfig
  ag_keyring :: Keyring
  ag_keys :: "DerivedKeys option"
  ag_conn :: "'w network Client option"
  ag_reconnecting :: bool
  ag_intentionalDisconnect :: bool
  ag_purgeTransition :: bool

text \<open>
  \<open>an_base\<close> is the environment of a connected daemon but for its keys, its names and
  its connection; \<open>an_parse_url\<close> is \<^verbatim>\<open>net/url\<close> (scheme and host), \<open>an_allow_http\<close> the
  environment variable for local development.
\<close>

record 'w agent_env =
  an_base :: "'w network daemon_env"
  an_config :: config_env
  an_http :: "'w http"
  an_length :: "response \<Rightarrow> int"
  an_parse_url :: "string \<Rightarrow> (string \<times> string) option"
  an_allow_http :: bool

definition agent_px :: "'w agent_env \<Rightarrow> primitives" where
  "agent_px an = dv_px (an_base an)"

definition connected_env :: "'w agent_env \<Rightarrow> 'w agent \<Rightarrow> DerivedKeys \<Rightarrow> 'w network Client \<Rightarrow> 'w network daemon_env" where
  "connected_env an ag keys conn =
     (an_base an)\<lparr>dv_keys := keys, dv_WorkspaceID := cg_WorkspaceID (ag_cfg ag), dv_DeviceID := cg_DeviceID (ag_cfg ag),
       dv_DeviceName := cg_DeviceName (ag_cfg ag), dv_conn := conn\<rparr>"

definition on_net :: "('w network \<Rightarrow> 'w network) \<Rightarrow> 'w agent \<Rightarrow> 'w agent" where
  "on_net f ag = ag\<lparr>ag_daemon := (ag_daemon ag)\<lparr>mc_net := f (mc_net (ag_daemon ag))\<rparr>\<rparr>"

definition on_state :: "(client_db \<Rightarrow> client_db) \<Rightarrow> 'w agent \<Rightarrow> 'w agent" where
  "on_state f ag = ag\<lparr>ag_daemon := on_db f (ag_daemon ag)\<rparr>"

definition ag_draw :: "'w agent \<Rightarrow> luck \<times> 'w agent" where
  "ag_draw ag = (case draw (ag_daemon ag) of (lu, d) \<Rightarrow> (lu, ag\<lparr>ag_daemon := d\<rparr>))"

definition ag_state :: "'w agent \<Rightarrow> WorkspaceState" where
  "ag_state ag = LoadWorkspaceState (mc_db (ag_daemon ag))"

section \<open>The server's address\<close>

definition validateServerURL :: "'w agent_env \<Rightarrow> string \<Rightarrow> go_error option" where
  "validateServerURL an serverURL =
     (case an_parse_url an serverURL of
        None \<Rightarrow> Some (Wrapped ''parse server URL'' (OsFailed ''url''))
      | Some (scheme, host) \<Rightarrow>
          if host = [] then Some (Failed ''server URL must include a host'')
          else if scheme = ''https'' then None
          else if scheme = ''http'' then
            (if an_allow_http an then None else Some (Failed ''insecure http transport is disabled''))
          else Some (Failed ''unsupported server URL scheme''))"

section \<open>Saving the configuration\<close>

definition save_config :: "'w agent_env \<Rightarrow> ClientConfig \<Rightarrow> 'w agent \<Rightarrow> go_error option \<times> 'w agent" where
  "save_config an c ag =
     (let (lu, ag1) = ag_draw ag; d = ag_daemon ag1 in
      case SaveConfig (an_config an) (lu_faults lu) (lu_random lu) c (mc_fs d) of
        (e, fs) \<Rightarrow> (e, ag1\<lparr>ag_daemon := d\<lparr>mc_fs := fs\<rparr>\<rparr>))"

definition save_keyring :: "'w agent_env \<Rightarrow> Keyring \<Rightarrow> 'w agent \<Rightarrow> go_error option \<times> 'w agent" where
  "save_keyring an k ag =
     (let (lu, ag1) = ag_draw ag; d = ag_daemon ag1 in
      case SaveKeyring (an_config an) (lu_faults lu) (lu_random lu) k (mc_fs d) of
        (e, fs) \<Rightarrow> (e, ag1\<lparr>ag_daemon := d\<lparr>mc_fs := fs\<rparr>\<rparr>))"

section \<open>Sessions\<close>

definition log_in ::
  "'w agent_env \<Rightarrow> string \<Rightarrow> string \<Rightarrow> DerivedKeys option \<Rightarrow> bool \<Rightarrow> 'w agent
    \<Rightarrow> (go_error + 'w network authenticatedSession) \<times> 'w agent" where
  "log_in an serverURL workspaceID keys createIfMissing ag =
     (let (lu, ag1) = ag_draw ag; d = ag_daemon ag1 in
      case authenticateSession (agent_px an) (over_network (an_http an)) (an_length an)
             \<lparr>hs_ServerURL = serverURL, hs_WorkspaceID = workspaceID, hs_DeviceID = cg_DeviceID (ag_cfg ag1),
              hs_DeviceName = cg_DeviceName (ag_cfg ag1), hs_Keys = keys, hs_CreateIfMissing = createIfMissing,
              hs_OnUnauthorized = notifySessionRejected\<rparr> (lu_nonces lu 0) (mc_net d) of
        (r, s) \<Rightarrow> (r, ag1\<lparr>ag_daemon := d\<lparr>mc_net := s\<rparr>\<rparr>))"

definition session_state ::
  "string \<Rightarrow> string \<Rightarrow> 'w network authenticatedSession \<Rightarrow> int \<Rightarrow> ConnectionState \<Rightarrow> WorkspaceState" where
  "session_state serverURL workspaceID session lastSeq connection =
     \<lparr>st_ServerURL = serverURL, st_WorkspaceID = workspaceID, st_SessionToken = as_Token session,
      st_SessionExpiresAt = as_ExpiresAt session, st_LastServerSeq = lastSeq, st_ConnectionState = connection,
      st_LastErrorKind = None, st_LastError = []\<rparr>"

definition ensureSession :: "'w agent_env \<Rightarrow> 'w agent \<Rightarrow> go_error option \<times> 'w agent" where
  "ensureSession an ag =
     (let cfg = ag_cfg ag in
      case validateServerURL an (cg_ServerURL cfg) of
        Some e \<Rightarrow> (Some e, ag)
      | None \<Rightarrow>
          (let st = ag_state ag; (lu, ag1) = ag_draw ag in
           if session_fresh (lu_now lu) st then
             (None, on_net discardSessionRejections
                (ag1\<lparr>ag_conn := Some (WithToken (st_SessionToken st) (WithUnauthorizedHandler notifySessionRejected
                   (New (over_network (an_http an)) (an_length an) (cg_ServerURL cfg))))\<rparr>))
           else
             (case log_in an (cg_ServerURL cfg) (cg_WorkspaceID cfg) (ag_keys ag1) False ag1 of
                (Inl e, ag2) \<Rightarrow> (Some e, ag2)
              | (Inr session, ag2) \<Rightarrow>
                  (None, on_state (SaveWorkspaceState (session_state (cg_ServerURL cfg) (cg_WorkspaceID cfg) session
                      (st_LastServerSeq st) ConnectionAuthenticating))
                    (on_net discardSessionRejections (ag2\<lparr>ag_conn := Some (as_Client session)\<rparr>))))))"

definition discardRejectedCachedSession :: "go_error \<Rightarrow> 'w agent \<Rightarrow> bool \<times> 'w agent" where
  "discardRejectedCachedSession syncErr ag =
     (if \<not> IsHTTPError syncErr 401 [] then (False, ag)
      else if st_SessionToken (ag_state ag) = [] then (False, ag)
      else (True, on_state ClearSession ag))"

section \<open>Connecting\<close>

record ConnectRequest =
  cq_ServerURL :: string
  cq_RecoveryKey :: string
  cq_Recreate :: bool

record ConnectResponse =
  cp_WorkspaceID :: string
  cp_GeneratedRecoveryKey :: string
  cp_Warnings :: "string list"

text \<open>The key to use: the one shown to the user, its bytes, and whether the workspace may be created.\<close>

definition connect_key ::
  "primitives \<Rightarrow> ConnectRequest \<Rightarrow> bytes \<Rightarrow> go_error + string \<times> bytes \<times> bool \<times> bool" where
  "connect_key px req random =
     (if cq_RecoveryKey req \<noteq> [] then
        (case ParseRecoveryKey px (cq_RecoveryKey req) of
           Inl e \<Rightarrow> Inl (CryptoFailed e)
         | Inr raw \<Rightarrow> Inr (cq_RecoveryKey req, raw, cq_Recreate req, False))
      else if cq_Recreate req then Inl (Failed ''recreating a workspace requires the retained recovery key'')
      else case GenerateRecoveryKey px random of (display, raw) \<Rightarrow> Inr (display, raw, True, True))"

definition service_warning :: "string \<Rightarrow> string \<Rightarrow> string option \<Rightarrow> 'w agent \<Rightarrow> string list \<times> 'w agent" where
  "service_warning key text result ag =
     (if \<not> cg_DaemonAutoStart (ag_cfg ag) then ([], ag)
      else case result of
        None \<Rightarrow> ([], on_state (ClearWarningsWithPrefix key) ag)
      | Some err \<Rightarrow>
          (let (lu, ag1) = ag_draw ag; warning = text @ err in
           ([warning], on_state (UpsertWarning key warning (lu_now lu)) ag1)))"

text \<open>The first bootstrap of a workspace that has events.\<close>

definition connect_bootstrap ::
  "nat \<Rightarrow> 'w agent_env \<Rightarrow> DerivedKeys \<Rightarrow> 'w network authenticatedSession \<Rightarrow> 'w agent
    \<Rightarrow> (go_error option \<times> 'w agent) option" where
  "connect_bootstrap fuel an keys session ag =
     (if as_CurrentSeq session \<le> 0 then Some (None, ag)
      else let dv = connected_env an ag keys (as_Client session) in
      case bootstrap (bootstrapOrCatchUp fuel dv) dv (ag_daemon ag) of
        None \<Rightarrow> None
      | Some (None, d) \<Rightarrow> Some (None, ag\<lparr>ag_daemon := d\<rparr>)
      | Some (Some e, d) \<Rightarrow>
          Some (Some e, ag\<lparr>ag_daemon := on_db (SetConnectionStateWithKind ConnectionDegraded (Some IssueBootstrap)
            (error_text (dv_describe dv) e)) d\<rparr>))"

definition connect_saved ::
  "nat \<Rightarrow> 'w agent_env \<Rightarrow> string option \<Rightarrow> string \<Rightarrow> string \<Rightarrow> DerivedKeys \<Rightarrow> 'w network authenticatedSession
    \<Rightarrow> string \<Rightarrow> 'w agent \<Rightarrow> ((go_error + ConnectResponse) \<times> 'w agent) option" where
  "connect_saved fuel an install serverURL workspaceID keys session generated ag =
     (let ag1 = on_state (SaveWorkspaceState (session_state serverURL workspaceID session 0 ConnectionCatchingUp)) ag;
          (warnings, ag2) = service_warning ''service:install'' ''background service could not be enabled: '' install ag1 in
      case connect_bootstrap fuel an keys session ag2 of
        None \<Rightarrow> None
      | Some (Some e, ag3) \<Rightarrow> Some (Inl e, ag3)
      | Some (None, ag3) \<Rightarrow>
          Some (Inr \<lparr>cp_WorkspaceID = workspaceID, cp_GeneratedRecoveryKey = generated, cp_Warnings = warnings\<rparr>,
                ag3\<lparr>ag_intentionalDisconnect := False, ag_reconnecting := True\<rparr>))"

text \<open>\<open>install\<close> is the error of enabling the background service, if any.\<close>

definition Connect ::
  "nat \<Rightarrow> 'w agent_env \<Rightarrow> string option \<Rightarrow> ConnectRequest \<Rightarrow> 'w agent
    \<Rightarrow> ((go_error + ConnectResponse) \<times> 'w agent) option" where
  "Connect fuel an install req ag =
     (if ag_purgeTransition ag then Some (Inl (Failed ''workspace purge transition is still being finalized''), ag)
      else if cg_ServerURL (ag_cfg ag) \<noteq> [] \<and> cg_ServerURL (ag_cfg ag) \<noteq> cq_ServerURL req then
        Some (Inl (Failed ''already connected; run `syna disconnect` first''), ag)
      else let serverURL = trim_right slash (cq_ServerURL req); (lu, ag1) = ag_draw ag in
     (case validateServerURL an serverURL of
        Some e \<Rightarrow> Some (Inl e, ag1)
      | None \<Rightarrow>
     (case connect_key (agent_px an) req (lu_nonces lu 0) of
        Inl e \<Rightarrow> Some (Inl e, ag1)
      | Inr (displayKey, rawKey, createIfMissing, isGenerated) \<Rightarrow>
     (case Derive (agent_px an) rawKey of
        Inl e \<Rightarrow> Some (Inl (CryptoFailed e), ag1)
      | Inr keys \<Rightarrow>
          (let workspaceID = WorkspaceID (agent_px an) keys in
           case log_in an serverURL workspaceID (Some keys) createIfMissing ag1 of
             (Inl e, ag2) \<Rightarrow> Some (Inl e, ag2)
           | (Inr session, ag2) \<Rightarrow>
               (let ag3 = ag2\<lparr>ag_cfg := (ag_cfg ag2)\<lparr>cg_ServerURL := serverURL, cg_WorkspaceID := workspaceID\<rparr>,
                       ag_keyring := \<lparr>ky_ServerURL = serverURL, ky_WorkspaceID = workspaceID, ky_WorkspaceKey = displayKey\<rparr>,
                       ag_keys := Some keys, ag_conn := Some (as_Client session)\<rparr> in
                case save_config an (ag_cfg ag3) ag3 of
                  (Some e, ag4) \<Rightarrow> Some (Inl e, ag4)
                | (None, ag4) \<Rightarrow>
                    (case save_keyring an (ag_keyring ag4) ag4 of
                       (Some e, ag5) \<Rightarrow> Some (Inl e, ag5)
                     | (None, ag5) \<Rightarrow>
                         connect_saved fuel an install serverURL workspaceID keys session
                           (if isGenerated then displayKey else []) ag5)))))))"

section \<open>Leaving a workspace\<close>

definition unwatch_roots :: "'w agent \<Rightarrow> 'w agent" where
  "unwatch_roots ag =
     ag\<lparr>ag_daemon := fold (\<lambda>root. watcher_RemoveRoot (cr_RootID root)) (ListRoots (mc_db (ag_daemon ag))) (ag_daemon ag)\<rparr>"

definition disconnected_config :: "ClientConfig \<Rightarrow> ClientConfig" where
  "disconnected_config c = c\<lparr>cg_ServerURL := [], cg_WorkspaceID := []\<rparr>"

definition DisconnectWithResponse ::
  "'w agent_env \<Rightarrow> string option \<Rightarrow> 'w agent \<Rightarrow> (go_error + string list) \<times> 'w agent" where
  "DisconnectWithResponse an disable ag =
     (let ag1 = (unwatch_roots ag)\<lparr>ag_intentionalDisconnect := True, ag_reconnecting := False,
            ag_cfg := disconnected_config (ag_cfg ag), ag_keyring := empty_keyring, ag_keys := None, ag_conn := None\<rparr> in
      case save_config an (ag_cfg ag1) ag1 of
        (Some e, ag2) \<Rightarrow> (Inl e, ag2)
      | (None, ag2) \<Rightarrow>
          (case save_keyring an empty_keyring ag2 of
             (Some e, ag3) \<Rightarrow> (Inl e, ag3)
           | (None, ag3) \<Rightarrow>
               (case service_warning ''service:disable'' ''background service could not be disabled: '' disable
                       (on_state ClearWorkspace ag3) of
                  (warnings, ag4) \<Rightarrow> (Inr warnings, ag4))))"

definition handlePurgedWorkspace :: "'w agent_env \<Rightarrow> 'w agent \<Rightarrow> go_error option \<times> 'w agent" where
  "handlePurgedWorkspace an ag =
     (let ag1 = on_state ClearPurgedWorkspace (unwatch_roots ag); nextConfig = disconnected_config (ag_cfg ag1) in
      case save_config an nextConfig ag1 of
        (Some e, ag2) \<Rightarrow> (Some e, ag2)
      | (None, ag2) \<Rightarrow>
          (None, ag2\<lparr>ag_cfg := nextConfig, ag_intentionalDisconnect := True, ag_keys := None, ag_conn := None,
                     ag_reconnecting := False\<rparr>))"

text \<open>Attempts until the local state is cleared; \<open>None\<close> is a daemon that stops before that.\<close>

primrec finishPurgedWorkspace :: "nat \<Rightarrow> 'w agent_env \<Rightarrow> 'w agent \<Rightarrow> 'w agent option" where
  "finishPurgedWorkspace 0 = (\<lambda>an ag. None)"
| "finishPurgedWorkspace (Suc attempts) = (\<lambda>an ag.
     case handlePurgedWorkspace an (ag\<lparr>ag_purgeTransition := True\<rparr>) of
       (None, ag1) \<Rightarrow> Some (ag1\<lparr>ag_purgeTransition := False\<rparr>)
     | (Some e, ag1) \<Rightarrow> finishPurgedWorkspace attempts an ag1)"

section \<open>Starting\<close>

text \<open>A purge that was interrupted after the state was cleared is finished, and the keys are derived.\<close>

definition start_keys :: "primitives \<Rightarrow> Keyring \<Rightarrow> DerivedKeys option" where
  "start_keys px k =
     (if ky_WorkspaceKey k = [] then None
      else case ParseRecoveryKey px (ky_WorkspaceKey k) of
        Inl e \<Rightarrow> None
      | Inr raw \<Rightarrow> (case Derive px raw of Inl e \<Rightarrow> None | Inr keys \<Rightarrow> Some keys))"

definition start_conn :: "'w agent_env \<Rightarrow> ClientConfig \<Rightarrow> WorkspaceState \<Rightarrow> 'w network Client option" where
  "start_conn an c st =
     (if cg_ServerURL c = [] \<or> validateServerURL an (cg_ServerURL c) \<noteq> None then None
      else let client = WithUnauthorizedHandler notifySessionRejected
                 (New (over_network (an_http an)) (an_length an) (cg_ServerURL c)) in
        Some (if st_SessionToken st = [] then client else WithToken (st_SessionToken st) client))"

definition start_agent :: "'w agent_env \<Rightarrow> 'w network daemon \<Rightarrow> (go_error + 'w agent) \<times> 'w network daemon" where
  "start_agent an d =
     (let (lu, d1) = draw d; ce = an_config an in
      case EnsureClientDirs (ce_Paths ce) (mc_fs d1) of
        (Some e, fs) \<Rightarrow> (Inl e, d1\<lparr>mc_fs := fs\<rparr>)
      | (None, fs) \<Rightarrow>
     (case LoadConfig ce (lu_faults lu) (lu_random lu) fs of
        (Inl e, fs1) \<Rightarrow> (Inl e, d1\<lparr>mc_fs := fs1\<rparr>)
      | (Inr c, fs1) \<Rightarrow>
     (case LoadKeyring ce fs1 of
        Inl e \<Rightarrow> (Inl e, d1\<lparr>mc_fs := fs1\<rparr>)
      | Inr k \<Rightarrow>
          (let st = LoadWorkspaceState (mc_db d1);
               stale = (st_ConnectionState st = ConnectionWorkspacePurged \<and> (cg_ServerURL c \<noteq> [] \<or> cg_WorkspaceID c \<noteq> []));
               c1 = (if stale then disconnected_config c else c); (lu2, d2) = draw (d1\<lparr>mc_fs := fs1\<rparr>) in
           case (if stale then SaveConfig ce (lu_faults lu2) (lu_random lu2) c1 (mc_fs d2) else (None, mc_fs d2)) of
             (Some e, fs2) \<Rightarrow> (Inl (Wrapped ''finish purged workspace recovery'' e), d2\<lparr>mc_fs := fs2\<rparr>)
           | (None, fs2) \<Rightarrow>
               (let d3 = d2\<lparr>mc_fs := fs2, dm_staged := {}, dm_live := False, dm_changes := [], dm_watched := Map.empty,
                            mc_net := discardSessionRejections (mc_net d2)\<rparr> in
                (Inr \<lparr>ag_daemon = d3, ag_cfg = c1, ag_keyring = k, ag_keys = start_keys (agent_px an) k,
                      ag_conn = start_conn an c1 st, ag_reconnecting = False, ag_intentionalDisconnect = False,
                      ag_purgeTransition = False\<rparr>, d3))))))"

section \<open>The reconnect loop\<close>

definition session_renewal :: go_error where
  "session_renewal = Failed ''session renewal due''"

text \<open>
  A synchronisation from the session to the live stream.  \<open>dial\<close> is the error of
  opening the websocket, \<open>streamErr\<close> one it had during the catch-up.  The result is
  an error, or nothing and whether the stream is live.
\<close>

definition syncAndStream ::
  "nat \<Rightarrow> 'w agent_env \<Rightarrow> go_error option \<Rightarrow> go_error option \<Rightarrow> 'w agent \<Rightarrow> (go_error option \<times> bool \<times> 'w agent) option" where
  "syncAndStream fuel an dial streamErr ag =
     (if ag_intentionalDisconnect ag \<or> ag_conn ag = None \<or> ag_keys ag = None \<or> cg_WorkspaceID (ag_cfg ag) = []
      then Some (None, False, ag)
      else case ensureSession an ag of
        (Some e, ag1) \<Rightarrow> Some (markLifecycle IssueAuth (Some e), False, ag1)
      | (None, ag1) \<Rightarrow>
     (case (ag_conn ag1, ag_keys ag1) of
        (Some conn, Some keys) \<Rightarrow>
          (let ag2 = on_state (SetConnectionState ConnectionCatchingUp []) ag1 in
           case dial of
             Some e \<Rightarrow> Some (markLifecycle IssueTransport (Some e), False, ag2)
           | None \<Rightarrow>
               map_option (\<lambda>(e, d). (e, e = None, ag2\<lparr>ag_daemon := d\<rparr>))
                 (synchronise fuel (connected_env an ag2 keys conn) streamErr (ag_daemon ag2)))
      | _ \<Rightarrow> Some (markLifecycle IssueAuth (Some (Failed ''session connector is unavailable'')), False, ag1)))"

datatype stream_event = StreamDone | RenewalDue | RetryTick | TokenRejected string | StreamFailed go_error | Notified

text \<open>One event of the live stream: the error that ends it, or nothing.\<close>

definition stream_step ::
  "nat \<Rightarrow> 's daemon_env \<Rightarrow> string \<Rightarrow> stream_event \<Rightarrow> 's daemon \<Rightarrow> (go_error option \<times> 's daemon) option" where
  "stream_step fuel dv token ev d =
     (case ev of
        StreamDone \<Rightarrow> Some (Some ContextCanceled, d)
      | RenewalDue \<Rightarrow> Some (Some session_renewal, d)
      | RetryTick \<Rightarrow> retryLivePendingOps fuel dv d
      | TokenRejected rejected \<Rightarrow>
          Some (if token = [] \<or> rejected \<noteq> token then None else Some (HTTPError 401 ''unauthorized'' []), d)
      | StreamFailed e \<Rightarrow> Some (Some e, d)
      | Notified \<Rightarrow> bootstrapOrCatchUp fuel dv d)"

fun consumeWebsocketStream ::
  "nat \<Rightarrow> 's daemon_env \<Rightarrow> string \<Rightarrow> stream_event list \<Rightarrow> 's daemon \<Rightarrow> (go_error option \<times> 's daemon) option" where
  "consumeWebsocketStream fuel dv token [] d = Some (None, d)"
| "consumeWebsocketStream fuel dv token (ev # evs) d =
     (case stream_step fuel dv token ev d of
        Some (None, d1) \<Rightarrow> consumeWebsocketStream fuel dv token evs d1 | result \<Rightarrow> result)"

text \<open>What the loop does after a synchronisation ended; pauses are in milliseconds.\<close>

datatype turn = StopLoop | SyncAgain | WorkspaceGone | PauseFor int int

definition reconnect_turn ::
  "'w agent_env \<Rightarrow> int \<Rightarrow> int \<Rightarrow> go_error option \<Rightarrow> 'w agent \<Rightarrow> turn \<times> 'w agent" where
  "reconnect_turn an backoff random result ag =
     (case result of
        None \<Rightarrow> (PauseFor 1000 1000, ag)
      | Some e \<Rightarrow>
          if unwrapped e = ContextCanceled then (StopLoop, ag)
          else if unwrapped e = session_renewal then (SyncAgain, on_state ClearSession ag)
          else (case discardRejectedCachedSession e ag of
             (True, ag1) \<Rightarrow> (SyncAgain, ag1)
           | (False, ag1) \<Rightarrow>
               if IsHTTPError e 404 ''workspace_not_found'' then (WorkspaceGone, ag1)
               else (PauseFor (jitter backoff random) (next_backoff backoff),
                     on_state (degraded (an_base an) IssueTransport e) ag1)))"

section \<open>Status\<close>

record WorkspaceStatus =
  ws_ServerURL :: string
  ws_WorkspaceID :: string
  ws_Connection :: ConnectionState
  ws_LastServerSeq :: int
  ws_PendingOps :: nat
  ws_LastErrorKind :: "DaemonIssueKind option"
  ws_LastError :: string
  ws_Issues :: "(DaemonIssueKind option \<times> string) list"
  ws_Warnings :: "string list"
  ws_TrackedRoots :: "RootStatus list"

definition status_issues :: "WorkspaceState \<Rightarrow> Warning list \<Rightarrow> (DaemonIssueKind option \<times> string) list" where
  "status_issues st warnings =
     (if st_LastError st = [] then []
      else [(case st_LastErrorKind st of None \<Rightarrow> Some IssueTransport | k \<Rightarrow> k, st_LastError st)])
     @ map (\<lambda>w. (warningIssueKind (wn_Key w), wn_Message w)) warnings"

definition root_status :: "Root \<Rightarrow> RootStatus" where
  "root_status root =
     \<lparr>rs_RootID = cr_RootID root, rs_Kind = cr_Kind root, rs_HomeRelPath = cr_HomeRelPath root,
      rs_TargetAbsPath = cr_TargetAbsPath root, rs_State = cr_State root\<rparr>"

text \<open>The version strings of the binary are left out.\<close>

definition Status :: "client_db \<Rightarrow> WorkspaceStatus" where
  "Status s =
     (let st = LoadWorkspaceState s; roots = ListRoots s;
          blocked = list_ex (\<lambda>r. cr_State r = RootStateBlockedNonEmpty) roots;
          connection = st_ConnectionState st in
      \<lparr>ws_ServerURL = st_ServerURL st, ws_WorkspaceID = st_WorkspaceID st,
       ws_Connection = (if blocked \<and> connection \<noteq> ConnectionDisconnected \<and> connection \<noteq> ConnectionDegraded
                        then ConnectionBlockedNonEmpty else connection),
       ws_LastServerSeq = st_LastServerSeq st, ws_PendingOps = CountPendingOps s,
       ws_LastErrorKind = st_LastErrorKind st, ws_LastError = st_LastError st,
       ws_Issues = status_issues st (ListWarnings s), ws_Warnings = map wn_Message (ListWarnings s),
       ws_TrackedRoots = map root_status roots\<rparr>)"

end
