(* ===== verification/Watcher.thy ===== *)
theory Watcher
  imports Scanner "HOL-Library.AList"
begin

text \<open>
  \<^verbatim>\<open>internal/client/watcher/watcher.go\<close>: which directories are watched for which
  roots, and which changes an event of the file system is turned into.
  \<^verbatim>\<open>fsnotify\<close> is its set of watched directories and the answer \<open>refuses\<close> to \<open>Add\<close>;
  a directory that disappears loses its watch, as \<^verbatim>\<open>inotify\<close> does.  Sets of roots
  are lists without duplicates in place of Go maps; \<open>os.Stat\<close> follows links, which
  \<open>isdir\<close> decides.
\<close>

record Change =
  wc_RootID :: string
  wc_RelPathHint :: string

record manager =
  wm_rootDirs :: "(string \<times> string) list"
  wm_dirRoots :: "(string \<times> string list) list"
  wm_watches :: "string list"

record watch_env =
  we_listing :: "tree \<Rightarrow> string list"
  we_isdir :: "tree \<Rightarrow> string \<Rightarrow> bool option"
  we_refuses :: "string \<Rightarrow> string option"

text \<open>\<open>we_isdir\<close> is \<open>os.Stat\<close>: nothing for an error, otherwise whether it is a directory.\<close>

section \<open>Paths\<close>

definition samePath :: "string \<Rightarrow> string \<Rightarrow> bool" where
  "samePath a b \<longleftrightarrow> Clean a = Clean b"

definition withinPath :: "string \<Rightarrow> string \<Rightarrow> bool" where
  "withinPath root path \<longleftrightarrow>
     (let r = Clean root; p = Clean path in r = p \<or> prefix (r @ ''/'') p)"

definition root_path :: "manager \<Rightarrow> string \<Rightarrow> string" where
  "root_path m rootID = (case map_of (wm_rootDirs m) rootID of None \<Rightarrow> [] | Some p \<Rightarrow> p)"

definition rel_hint :: "watch_env \<Rightarrow> tree \<Rightarrow> string \<Rightarrow> string \<Rightarrow> string" where
  "rel_hint we t rootPath path =
     (if samePath path rootPath then []
      else if we_isdir we t rootPath = Some False then []
      else case Rel rootPath path of
        None \<Rightarrow> [] | Some rel \<Rightarrow> (if Clean rel = ''.'' then [] else Clean rel))"

definition root_hint :: "watch_env \<Rightarrow> tree \<Rightarrow> manager \<Rightarrow> string \<Rightarrow> string \<Rightarrow> string" where
  "root_hint we t m rootID path =
     (if root_path m rootID = [] then [] else rel_hint we t (root_path m rootID) path)"

definition pathMatchesRoot :: "watch_env \<Rightarrow> tree \<Rightarrow> manager \<Rightarrow> string \<Rightarrow> string \<Rightarrow> bool" where
  "pathMatchesRoot we t m rootID path \<longleftrightarrow>
     (let rootPath = root_path m rootID in
      if rootPath = [] then False
      else if samePath path rootPath then True
      else case we_isdir we t rootPath of
        None \<Rightarrow> False | Some True \<Rightarrow> withinPath rootPath path | Some False \<Rightarrow> samePath path rootPath)"

definition isExactRoot :: "manager \<Rightarrow> string \<Rightarrow> bool" where
  "isExactRoot m path \<longleftrightarrow> list_ex (\<lambda>(_, root). root = Clean path) (wm_rootDirs m)"

section \<open>Watching\<close>

definition addDir :: "watch_env \<Rightarrow> string \<Rightarrow> string \<Rightarrow> manager \<Rightarrow> go_error option \<times> manager" where
  "addDir we rootID path m =
     (let dir = Clean path in
      case map_of (wm_dirRoots m) dir of
        Some roots \<Rightarrow>
          (None, if rootID \<in> set roots then m
                 else m\<lparr>wm_dirRoots := AList.update dir (roots @ [rootID]) (wm_dirRoots m)\<rparr>)
      | None \<Rightarrow>
          (case we_refuses we dir of
             Some e \<Rightarrow> (Some (OsFailed e), m)
           | None \<Rightarrow>
               (None, m\<lparr>wm_watches := List.insert dir (wm_watches m),
                        wm_dirRoots := AList.update dir [rootID] (wm_dirRoots m)\<rparr>)))"

fun add_dirs :: "watch_env \<Rightarrow> string \<Rightarrow> string list \<Rightarrow> manager \<Rightarrow> go_error option \<times> manager" where
  "add_dirs we rootID [] m = (None, m)"
| "add_dirs we rootID (dir # dirs) m =
     (case addDir we rootID dir m of (Some e, m1) \<Rightarrow> (Some e, m1) | (None, m1) \<Rightarrow> add_dirs we rootID dirs m1)"

text \<open>\<open>filepath.WalkDir\<close>: the directories of the tree, parents first; links are not entered.\<close>

definition tree_dirs :: "watch_env \<Rightarrow> tree \<Rightarrow> string \<Rightarrow> string list" where
  "tree_dirs we t absPath =
     sort_key comps (filter (\<lambda>p. prefix (comps absPath) (comps p) \<and> t p = Some NodeDir) (we_listing we t))"

definition addDirTree :: "watch_env \<Rightarrow> tree \<Rightarrow> string \<Rightarrow> string \<Rightarrow> manager \<Rightarrow> go_error option \<times> manager" where
  "addDirTree we t rootID absPath m = add_dirs we rootID (tree_dirs we t absPath) m"

definition drop_root :: "string \<Rightarrow> string \<times> string list \<Rightarrow> string \<times> string list" where
  "drop_root rootID dr = (fst dr, filter (\<lambda>r. r \<noteq> rootID) (snd dr))"

definition wm_RemoveRoot :: "string \<Rightarrow> manager \<Rightarrow> manager" where
  "wm_RemoveRoot rootID m =
     (let emptied = map fst (filter (\<lambda>dr. rootID \<in> set (snd dr) \<and> snd (drop_root rootID dr) = []) (wm_dirRoots m)) in
      m\<lparr>wm_rootDirs := AList.delete rootID (wm_rootDirs m),
        wm_watches := filter (\<lambda>w. w \<notin> set emptied) (wm_watches m),
        wm_dirRoots := filter (\<lambda>dr. fst dr \<notin> set emptied) (map (drop_root rootID) (wm_dirRoots m))\<rparr>)"

definition wm_AddRoot :: "watch_env \<Rightarrow> tree \<Rightarrow> string \<Rightarrow> string \<Rightarrow> manager \<Rightarrow> go_error option \<times> manager" where
  "wm_AddRoot we t rootID path m =
     (let absPath = Clean path in
      case we_isdir we t absPath of
        None \<Rightarrow> (Some (OsFailed ''stat''), m)
      | Some isdir \<Rightarrow>
          (let m1 = m\<lparr>wm_rootDirs := AList.update rootID absPath (wm_rootDirs m)\<rparr> in
           case (if isdir then addDirTree we t rootID absPath m1 else addDir we rootID (Dir absPath) m1) of
             (Some e, m2) \<Rightarrow> (Some e, wm_RemoveRoot rootID m2) | (None, m2) \<Rightarrow> (None, m2)))"

section \<open>Events\<close>

text \<open>The nearest watched directory at or above a path decides; parents are tried up to the top.\<close>

primrec roots_above ::
  "nat \<Rightarrow> watch_env \<Rightarrow> tree \<Rightarrow> manager \<Rightarrow> string \<Rightarrow> string \<Rightarrow> string list" where
  "roots_above 0 = (\<lambda>we t m path current. [])"
| "roots_above (Suc n) = (\<lambda>we t m path current.
     case map_of (wm_dirRoots m) current of
       Some candidates \<Rightarrow>
         if candidates \<noteq> [] then filter (\<lambda>r. pathMatchesRoot we t m r path) candidates
         else if Dir current = current then [] else roots_above n we t m path (Dir current)
     | None \<Rightarrow> if Dir current = current then [] else roots_above n we t m path (Dir current))"

definition rootsForEvent :: "watch_env \<Rightarrow> tree \<Rightarrow> manager \<Rightarrow> string \<Rightarrow> string list" where
  "rootsForEvent we t m path = roots_above (length (Clean path) + 2) we t m (Clean path) (Clean path)"

primrec ancestor_hint ::
  "nat \<Rightarrow> watch_env \<Rightarrow> tree \<Rightarrow> string \<Rightarrow> string \<Rightarrow> string" where
  "ancestor_hint 0 = (\<lambda>we t rootPath current. [])"
| "ancestor_hint (Suc n) = (\<lambda>we t rootPath current.
     if samePath current rootPath then []
     else if we_isdir we t current \<noteq> None then rel_hint we t rootPath current
     else if Dir current = current then [] else ancestor_hint n we t rootPath (Dir current))"

definition nearestExistingAncestorHint :: "watch_env \<Rightarrow> tree \<Rightarrow> manager \<Rightarrow> string \<Rightarrow> string \<Rightarrow> string" where
  "nearestExistingAncestorHint we t m rootID path =
     (if root_path m rootID = [] then []
      else ancestor_hint (length path + 2) we t (root_path m rootID) path)"

definition changesForExistingAncestor ::
  "watch_env \<Rightarrow> tree \<Rightarrow> manager \<Rightarrow> string \<Rightarrow> string \<Rightarrow> Change list" where
  "changesForExistingAncestor we t m ancestor path =
     map (\<lambda>r. \<lparr>wc_RootID = r, wc_RelPathHint = nearestExistingAncestorHint we t m r path\<rparr>)
       (rootsForEvent we t m ancestor)"

primrec missing_path ::
  "nat \<Rightarrow> watch_env \<Rightarrow> tree \<Rightarrow> manager \<Rightarrow> string \<Rightarrow> string \<Rightarrow> Change list" where
  "missing_path 0 = (\<lambda>we t m path current. [])"
| "missing_path (Suc n) = (\<lambda>we t m path current.
     if current = ''.'' \<or> current = ''/'' \<or> current = [] then changesForExistingAncestor we t m (Dir path) path
     else if we_isdir we t current \<noteq> None then changesForExistingAncestor we t m current path
     else if Dir current = current then [] else missing_path n we t m path (Dir current))"

definition changesForMissingPath :: "watch_env \<Rightarrow> tree \<Rightarrow> manager \<Rightarrow> string \<Rightarrow> Change list" where
  "changesForMissingPath we t m path = missing_path (length path + 2) we t m path (Dir path)"

record fs_event =
  fe_Name :: string
  fe_Create :: bool
  fe_Write :: bool
  fe_Remove :: bool
  fe_Rename :: bool

text \<open>
  One turn of the loop for an event: what is reported, and the manager after new
  directories are watched.  Errors of watching them are ignored.
\<close>

definition watch_event :: "watch_env \<Rightarrow> tree \<Rightarrow> fs_event \<Rightarrow> manager \<Rightarrow> Change list \<times> manager" where
  "watch_event we t ev m =
     (let name = fe_Name ev in
      if isInternalStagingPath name \<and> \<not> isExactRoot m name then ([], m)
      else let rootIDs = rootsForEvent we t m name;
               m1 = (if rootIDs \<noteq> [] \<and> (fe_Create ev \<or> fe_Rename ev \<or> fe_Write ev) \<and> we_isdir we t name = Some True
                     then fold (\<lambda>r m. snd (addDirTree we t r name m)) rootIDs m else m);
               changes = map (\<lambda>r. \<lparr>wc_RootID = r, wc_RelPathHint = root_hint we t m1 r name\<rparr>) rootIDs in
           ((if changes = [] \<and> (fe_Remove ev \<or> fe_Rename ev) then changesForMissingPath we t m1 name else changes), m1))"

definition notifyAllRoots :: "manager \<Rightarrow> Change list" where
  "notifyAllRoots m = map (\<lambda>(r, _). \<lparr>wc_RootID = r, wc_RelPathHint = []\<rparr>) (wm_rootDirs m)"

text \<open>\<open>New\<close> asks the library for its watcher; the loop ends with the library's channels, and an error of
  the library, which may have lost events, has every root scanned again.\<close>

definition watcher_New :: "go_error option \<Rightarrow> go_error + manager" where
  "watcher_New failed =
     (case failed of Some e \<Rightarrow> Inl e | None \<Rightarrow> Inr \<lparr>wm_rootDirs = [], wm_dirRoots = [], wm_watches = []\<rparr>)"

datatype watch_input = WatchEvent tree fs_event | WatchError | ChannelClosed

fun watcher_loop :: "watch_env \<Rightarrow> watch_input list \<Rightarrow> manager \<Rightarrow> Change list \<times> manager" where
  "watcher_loop we [] m = ([], m)"
| "watcher_loop we (ChannelClosed # rest) m = ([], m)"
| "watcher_loop we (WatchError # rest) m =
     (case watcher_loop we rest m of (changes, m1) \<Rightarrow> (notifyAllRoots m @ changes, m1))"
| "watcher_loop we (WatchEvent t ev # rest) m =
     (case watch_event we t ev m of
        (now, m1) \<Rightarrow> (case watcher_loop we rest m1 of (changes, m2) \<Rightarrow> (now @ changes, m2)))"

text \<open>The loop keeps the roots it is given, so after an error every one of them is reported.\<close>

lemma addDir_rootDirs [simp]: "wm_rootDirs (snd (addDir we r dir m)) = wm_rootDirs m"
  by (auto simp: addDir_def Let_def split: option.splits)

lemma add_dirs_rootDirs [simp]: "wm_rootDirs (snd (add_dirs we r dirs m)) = wm_rootDirs m"
  by (induction dirs arbitrary: m) (auto split: prod.splits option.splits dest: arg_cong [of _ _ "\<lambda>x. wm_rootDirs (snd x)"])

lemma watch_event_rootDirs [simp]: "wm_rootDirs (snd (watch_event we t ev m)) = wm_rootDirs m"
proof -
  have "wm_rootDirs (fold (\<lambda>r m. snd (addDirTree we t r name m)) rs m) = wm_rootDirs m" for name rs
    by (induction rs arbitrary: m) (simp_all add: addDirTree_def)
  then show ?thesis by (simp add: watch_event_def Let_def)
qed

lemma watcher_loop_rootDirs: "wm_rootDirs (snd (watcher_loop we ins m)) = wm_rootDirs m"
proof (induction we ins m rule: watcher_loop.induct)
  case (4 we t ev rest m)
  obtain now m1 where "watch_event we t ev m = (now, m1)" by fastforce
  moreover obtain changes m2 where "watcher_loop we rest m1 = (changes, m2)" by fastforce
  ultimately show ?case using 4 watch_event_rootDirs [of we t ev m] by simp
qed (auto split: prod.splits)

lemma watch_error_rescans_all:
  assumes "WatchError \<in> set ins" and "ChannelClosed \<notin> set ins" and "(r, dir) \<in> set (wm_rootDirs m)"
  shows "\<lparr>wc_RootID = r, wc_RelPathHint = []\<rparr> \<in> set (fst (watcher_loop we ins m))"
  using assms
proof (induction we ins m rule: watcher_loop.induct)
  case (4 we t ev rest m)
  obtain now m1 where "watch_event we t ev m = (now, m1)" by fastforce
  with 4 watch_event_rootDirs [of we t ev m] show ?case by (auto split: prod.splits)
qed (force simp: notifyAllRoots_def split: prod.splits)+

section \<open>A watched directory that is deleted and created again\<close>

text \<open>What \<^verbatim>\<open>inotify\<close> does when a watched directory disappears.\<close>

definition watch_lost :: "string \<Rightarrow> manager \<Rightarrow> manager" where
  "watch_lost dir m = m\<lparr>wm_watches := filter (\<lambda>w. w \<noteq> dir) (wm_watches m)\<rparr>"

lemma recreated_directory_unwatched:
  assumes "map_of (wm_dirRoots m) (Clean dir) = Some roots"
  shows "Clean dir \<notin> set (wm_watches (snd (addDir we rootID dir (watch_lost (Clean dir) m))))"
  using assms by (simp add: addDir_def Let_def watch_lost_def)

end
