(* ===== verification/ServerMain.thy ===== *)
theory ServerMain
  imports ServerSystem
begin

text \<open>
  The server as a command: its settings (\<^verbatim>\<open>internal/server/config/config.go\<close>), the
  version of its schema (\<^verbatim>\<open>internal/server/db/migrations.go\<close>), its reports
  (\<^verbatim>\<open>internal/server/admin/admin.go\<close>) and the choice of the command
  (\<^verbatim>\<open>internal/server/app/app.go\<close>).  The environment, URL and duration parsing, and
  whether another process holds the lock on the data directory
  (\<^verbatim>\<open>internal/server/processlock/lock.go\<close>) are parameters.
\<close>

section \<open>Settings\<close>

text \<open>Durations in nanoseconds.\<close>

record settings =
  cs_Listen :: string
  cs_DataDir :: string
  cs_PublicBaseURL :: string
  cs_SessionTTL :: int
  cs_EventRetention :: int
  cs_ZeroRefRetention :: int
  cs_LogLevel :: string
  cs_AllowHTTP :: bool
  cs_MaxEventFetchPage :: int
  cs_MaxPlainChunkSize :: int
  cs_MaxEventBodyBytes :: int
  cs_MaxSnapshotBody :: int
  cs_MaxSnapshotPlain :: int
  cs_MaxWSClients :: int
  cs_MaxWorkspaces :: int
  cs_ReadHeaderTimeout :: int
  cs_ReadTimeout :: int
  cs_WriteTimeout :: int
  cs_IdleTimeout :: int

datatype settings_error = NotANumber string | Negative string | BadDuration string | NotPositive string
  | BadURL | NeedsHTTPS | NeedsHTTPScheme

text \<open>An unset variable is empty.\<close>

record server_setup =
  su_getenv :: "string \<Rightarrow> string"
  su_parse_url :: "string \<Rightarrow> (string \<times> string) option"
  su_parse_duration :: "string \<Rightarrow> int option"

definition env :: "server_setup \<Rightarrow> string \<Rightarrow> string \<Rightarrow> string" where
  "env su key fallback = (let v = su_getenv su key in if v \<noteq> [] then v else fallback)"

definition parseNonNegativeInt :: "string \<Rightarrow> string \<Rightarrow> settings_error + int" where
  "parseNonNegativeInt key v =
     (case ParseInt64 v of
        None \<Rightarrow> Inl (NotANumber key) | Some n \<Rightarrow> if n < 0 then Inl (Negative key) else Inr n)"

definition Validate :: "server_setup \<Rightarrow> settings \<Rightarrow> settings_error option" where
  "Validate su cfg =
     (if cs_MaxPlainChunkSize cfg \<le> 0 then Some (NotPositive ''MaxPlainChunkSize'')
      else if cs_MaxSnapshotPlain cfg \<le> 0 then Some (NotPositive ''MaxSnapshotPlain'')
      else if cs_MaxWSClients cfg \<le> 0 then Some (NotPositive ''MaxWSClients'')
      else if cs_MaxWorkspaces cfg < 0 then Some (Negative ''MaxWorkspaces'')
      else if cs_PublicBaseURL cfg = [] then None
      else case su_parse_url su (cs_PublicBaseURL cfg) of
        None \<Rightarrow> Some BadURL
      | Some (scheme, host) \<Rightarrow>
          if scheme = ''http'' \<and> \<not> cs_AllowHTTP cfg then Some NeedsHTTPS
          else if scheme \<noteq> ''https'' \<and> scheme \<noteq> ''http'' then Some NeedsHTTPScheme
          else None)"

text \<open>The settings that are durations, in the order they are read.\<close>

definition durations :: "(string \<times> string \<times> (int \<Rightarrow> settings \<Rightarrow> settings)) list" where
  "durations =
     [(''SYNA_SESSION_TTL'', ''24h'', \<lambda>d c. c\<lparr>cs_SessionTTL := d\<rparr>),
      (''SYNA_EVENT_RETENTION'', ''24h'', \<lambda>d c. c\<lparr>cs_EventRetention := d\<rparr>),
      (''SYNA_ZERO_REF_RETENTION'', ''168h'', \<lambda>d c. c\<lparr>cs_ZeroRefRetention := d\<rparr>),
      (''SYNA_READ_HEADER_TIMEOUT'', ''10s'', \<lambda>d c. c\<lparr>cs_ReadHeaderTimeout := d\<rparr>),
      (''SYNA_READ_TIMEOUT'', ''30s'', \<lambda>d c. c\<lparr>cs_ReadTimeout := d\<rparr>),
      (''SYNA_WRITE_TIMEOUT'', ''30s'', \<lambda>d c. c\<lparr>cs_WriteTimeout := d\<rparr>),
      (''SYNA_IDLE_TIMEOUT'', ''120s'', \<lambda>d c. c\<lparr>cs_IdleTimeout := d\<rparr>)]"

fun load_durations ::
  "server_setup \<Rightarrow> (string \<times> string \<times> (int \<Rightarrow> settings \<Rightarrow> settings)) list \<Rightarrow> settings \<Rightarrow> settings_error + settings" where
  "load_durations su [] cfg = Inr cfg"
| "load_durations su ((key, fallback, assign) # rest) cfg =
     (case su_parse_duration su (env su key fallback) of
        None \<Rightarrow> Inl (BadDuration key) | Some d \<Rightarrow> load_durations su rest (assign d cfg))"

definition default_settings :: "server_setup \<Rightarrow> settings" where
  "default_settings su =
     \<lparr>cs_Listen = env su ''SYNA_LISTEN'' '':8080'', cs_DataDir = env su ''SYNA_DATA_DIR'' ''/var/lib/syna'',
      cs_PublicBaseURL = su_getenv su ''SYNA_PUBLIC_BASE_URL'', cs_SessionTTL = 0, cs_EventRetention = 0,
      cs_ZeroRefRetention = 0, cs_LogLevel = env su ''SYNA_LOG_LEVEL'' ''info'',
      cs_AllowHTTP = (env su ''SYNA_ALLOW_HTTP'' ''false'' = ''true''), cs_MaxEventFetchPage = 1000,
      cs_MaxPlainChunkSize = MaxFileChunkPlainSize, cs_MaxEventBodyBytes = 2 ^ 20,
      cs_MaxSnapshotBody = MaxSnapshotPlainSize, cs_MaxSnapshotPlain = MaxSnapshotPlainSize, cs_MaxWSClients = 32,
      cs_MaxWorkspaces = 10, cs_ReadHeaderTimeout = 0, cs_ReadTimeout = 0, cs_WriteTimeout = 0, cs_IdleTimeout = 0\<rparr>"

definition Load :: "server_setup \<Rightarrow> settings_error + settings" where
  "Load su =
     (case parseNonNegativeInt ''SYNA_MAX_WORKSPACES'' (env su ''SYNA_MAX_WORKSPACES'' ''10'') of
        Inl e \<Rightarrow> Inl e
      | Inr n \<Rightarrow>
          (case load_durations su durations ((default_settings su)\<lparr>cs_MaxWorkspaces := n\<rparr>) of
             Inl e \<Rightarrow> Inl e
           | Inr cfg \<Rightarrow> (case Validate su cfg of Some e \<Rightarrow> Inl e | None \<Rightarrow> Inr cfg)))"

definition config_warnings :: "settings \<Rightarrow> string list" where
  "config_warnings cfg =
     (if cs_AllowHTTP cfg then [''SYNA_ALLOW_HTTP=true enables insecure transport; use this only for local development behind loopback'']
      else [])
     @ (if cs_PublicBaseURL cfg = []
        then [''SYNA_PUBLIC_BASE_URL is unset; deploy behind an HTTPS reverse proxy and set the public HTTPS origin explicitly'']
        else if take 7 (cs_PublicBaseURL cfg) = ''http://''
        then [''SYNA_PUBLIC_BASE_URL uses http://; production clients will reject it unless SYNA_ALLOW_HTTP=true'']
        else [])
     @ (if take 1 (cs_Listen cfg) = '':'' \<or> take 8 (cs_Listen cfg) = ''0.0.0.0:'' \<or> take 5 (cs_Listen cfg) = ''[::]:''
        then [''bind the backend to localhost or a private interface and expose it only through an HTTPS reverse proxy'']
        else [])
     @ (if cs_MaxWorkspaces cfg = 0
        then [''SYNA_MAX_WORKSPACES=0 allows unlimited workspace creation; use a finite limit for public deployments''] else [])"

text \<open>What the handlers read; their times are in seconds.\<close>

definition config_of :: "settings \<Rightarrow> config" where
  "config_of cfg =
     \<lparr>cf_SessionTTL = cs_SessionTTL cfg div 10 ^ 9, cf_MaxEventFetchPage = cs_MaxEventFetchPage cfg,
      cf_MaxPlainChunkSize = cs_MaxPlainChunkSize cfg, cf_MaxSnapshotPlain = cs_MaxSnapshotPlain cfg,
      cf_MaxWorkspaces = cs_MaxWorkspaces cfg, cf_MaxWSClients = cs_MaxWSClients cfg\<rparr>"

text \<open>The origin a websocket may be opened from; \<open>origin\<close> is the header, empty when there is none.\<close>

definition checkWSOrigin :: "server_setup \<Rightarrow> settings \<Rightarrow> string \<Rightarrow> bool" where
  "checkWSOrigin su cfg origin =
     (if origin = [] \<or> cs_PublicBaseURL cfg = [] then True
      else case (su_parse_url su origin, su_parse_url su (cs_PublicBaseURL cfg)) of
        (Some o', Some p) \<Rightarrow> o' = p | _ \<Rightarrow> False)"

text \<open>
  What \<^verbatim>\<open>handleWS\<close> does after it has subscribed: the upgrade, which the library refuses for a
  foreign origin or a request that is none (\<open>wellformed\<close>), and the end of the subscription
  when the handler returns without a connection.
\<close>

definition upgradeWS :: "server_setup \<Rightarrow> settings \<Rightarrow> string \<Rightarrow> bool \<Rightarrow> string \<Rightarrow> nat \<Rightarrow> server \<Rightarrow> response \<times> server" where
  "upgradeWS su cfg origin wellformed w sub sv =
     (if wellformed \<and> checkWSOrigin su cfg origin then ((101, BodyStream sub), sv)
      else ((if wellformed then 403 else 400, BodyNone), sv\<lparr>sv_hub := Unsubscribe w sub (sv_hub sv)\<rparr>))"

lemma Subscribe_tables:
  "Subscribe w h = (Some sub, h') \<Longrightarrow> sub = hb_next h \<and> hb_subs h' = (hb_subs h)(w := hb_subs h w @ [hb_next h])"
  by (auto simp: Subscribe_def split: if_splits)

lemma refused_upgrade_unsubscribes:
  assumes "hub_inv h" and "Subscribe w h = (Some sub, sv_hub sv)" and "\<not> (wellformed \<and> checkWSOrigin su cfg origin)"
  shows "hb_subs (sv_hub (snd (upgradeWS su cfg origin wellformed w sub sv))) = hb_subs h"
proof -
  have "hb_next h \<notin> set (hb_subs h v)" for v using assms(1) by (force simp: hub_inv_def)
  then have "filter (\<lambda>x. x \<noteq> hb_next h) (hb_subs h w) = hb_subs h w" by (auto simp: filter_id_conv)
  moreover have "sub = hb_next h" "hb_subs (sv_hub sv) = (hb_subs h)(w := hb_subs h w @ [hb_next h])"
    using Subscribe_tables [OF assms(2)] by simp_all
  ultimately show ?thesis using assms(3) by (auto simp: upgradeWS_def Unsubscribe_def)
qed

section \<open>The schema\<close>

definition LatestSchemaVersion :: int where
  "LatestSchemaVersion = 5"

definition add_visibility :: "string \<Rightarrow> string \<Rightarrow> server_db \<Rightarrow> server_db" where
  "add_visibility w oid s =
     (case List.find (is_obj oid) (t_objects s) of
        None \<Rightarrow> s
      | Some ob \<Rightarrow> s\<lparr>t_ws_objects := insert_or_ignore (is_ws_obj w oid)
          \<lparr>wo_ws = w, wo_obj = oid, wo_created_at = ob_created_at ob\<rparr> (t_ws_objects s)\<rparr>)"

text \<open>What the three statements select: references of events, snapshots, and references of snapshots.\<close>

definition referenced_objects :: "server_db \<Rightarrow> (string \<times> string) list" where
  "referenced_objects s =
     [(ev_ws e, xr_obj x). e \<leftarrow> t_events s, x \<leftarrow> t_event_refs s, xr_seq x = ev_seq e]
     @ [(sp_ws p, sp_obj p). p \<leftarrow> t_snapshots s]
     @ [(sp_ws p, rf_obj x). p \<leftarrow> t_snapshots s, x \<leftarrow> t_snapshot_refs s, rf_snap x = sp_obj p]"

definition backfillWorkspaceObjects :: "server_db \<Rightarrow> server_db" where
  "backfillWorkspaceObjects s = fold (\<lambda>(w, oid). add_visibility w oid) (referenced_objects s) s"

text \<open>The rows of \<open>schema_migrations\<close> are the versions.\<close>

definition Migrate :: "int list \<times> server_db \<Rightarrow> int list \<times> server_db" where
  "Migrate vs =
     (insert_or_ignore (\<lambda>v. v = LatestSchemaVersion) LatestSchemaVersion
        (insert_or_ignore (\<lambda>v. v = 1) 1 (fst vs)),
      backfillWorkspaceObjects (snd vs))"

definition CurrentSchemaVersion :: "int list \<Rightarrow> int" where
  "CurrentSchemaVersion versions = (if versions = [] then 0 else Max (set versions))"

subsection \<open>What a migration does to the data\<close>

lemma add_visibility_visible:
  "objectVisibleToWorkspace v x (add_visibility w oid s) \<longleftrightarrow>
     objectVisibleToWorkspace v x s \<or> (v, x) = (w, oid) \<and> row_exists (is_obj oid) (t_objects s)"
proof (cases "List.find (is_obj oid) (t_objects s)")
  case None
  then have "\<not> row_exists (is_obj oid) (t_objects s)" by (simp add: find_none_iff)
  with None show ?thesis by (simp add: add_visibility_def)
next
  case (Some ob)
  then have "row_exists (is_obj oid) (t_objects s)" by (auto simp: row_exists_iff dest: find_some_mem)
  with Some show ?thesis
    by (auto simp: add_visibility_def objectVisibleToWorkspace_def insert_or_ignore_def is_ws_obj_def)
qed

lemma add_visibility_frame:
  "\<exists>t. add_visibility w oid s = s\<lparr>t_ws_objects := t\<rparr>"
  by (auto simp: add_visibility_def split: option.splits intro: exI [of _ "t_ws_objects s"])

lemma add_visibility_objects [simp]: "t_objects (add_visibility w oid s) = t_objects s"
  using add_visibility_frame [of w oid s] by auto

lemma add_visibility_noop:
  assumes "row_exists (is_obj oid) (t_objects s) \<Longrightarrow> objectVisibleToWorkspace w oid s"
  shows "add_visibility w oid s = s"
proof (cases "List.find (is_obj oid) (t_objects s)")
  case (Some ob)
  then have "row_exists (is_obj oid) (t_objects s)" by (auto simp: row_exists_iff dest: find_some_mem)
  with Some assms show ?thesis
    by (simp add: add_visibility_def objectVisibleToWorkspace_def insert_or_ignore_def)
qed (simp add: add_visibility_def)

lemma backfill_fold:
  fixes ps :: "(string \<times> string) list"
  shows "objectVisibleToWorkspace v x (fold (\<lambda>(w, oid). add_visibility w oid) ps s) \<longleftrightarrow>
      objectVisibleToWorkspace v x s \<or> (v, x) \<in> set ps \<and> row_exists (is_obj x) (t_objects s)"
    and "\<exists>t. fold (\<lambda>(w, oid). add_visibility w oid) ps s = s\<lparr>t_ws_objects := t\<rparr>"
proof (induction ps arbitrary: s)
  case (Cons p ps)
  obtain w oid where p: "p = (w, oid)" by (cases p)
  {
    case 1
    show ?case by (auto simp: p Cons.IH(1) add_visibility_visible)
  next
    case 2
    from add_visibility_frame obtain t where "add_visibility w oid s = s\<lparr>t_ws_objects := t\<rparr>" by blast
    with Cons.IH(2) [of "s\<lparr>t_ws_objects := t\<rparr>"] show ?case by (auto simp: p)
  }
next
  case Nil
  {
    case 1
    show ?case by simp
  next
    case 2
    show ?case by (auto intro: exI [of _ "t_ws_objects s"])
  }
qed

lemma backfill_noop:
  assumes "\<And>w oid. (w, oid) \<in> set ps \<Longrightarrow> row_exists (is_obj oid) (t_objects s) \<Longrightarrow> objectVisibleToWorkspace w oid s"
  shows "fold (\<lambda>(w, oid). add_visibility w oid) ps s = s"
  using assms by (induction ps) (auto simp: add_visibility_noop)

lemma referenced_objects_frame: "referenced_objects (s\<lparr>t_ws_objects := t\<rparr>) = referenced_objects s"
  by (simp add: referenced_objects_def)

lemma backfill_idempotent:
  "backfillWorkspaceObjects (backfillWorkspaceObjects s) = backfillWorkspaceObjects s"
proof -
  obtain t where t: "backfillWorkspaceObjects s = s\<lparr>t_ws_objects := t\<rparr>"
    unfolding backfillWorkspaceObjects_def using backfill_fold(2) by blast
  have "objectVisibleToWorkspace w oid (s\<lparr>t_ws_objects := t\<rparr>)"
    if "(w, oid) \<in> set (referenced_objects s)" "row_exists (is_obj oid) (t_objects s)" for w oid
    using that backfill_fold(1) [of w oid "referenced_objects s" s]
    unfolding t [symmetric] backfillWorkspaceObjects_def by blast
  then have "backfillWorkspaceObjects (s\<lparr>t_ws_objects := t\<rparr>) = s\<lparr>t_ws_objects := t\<rparr>"
    unfolding backfillWorkspaceObjects_def referenced_objects_frame by (intro backfill_noop) simp
  with t show ?thesis by simp
qed

lemma insert_or_ignore_twice:
  "p new \<Longrightarrow> insert_or_ignore p new (insert_or_ignore p new t) = insert_or_ignore p new t"
  by (simp add: insert_or_ignore_def)

lemma Migrate_idempotent: "Migrate (Migrate vs) = Migrate vs"
  by (auto simp: Migrate_def backfill_idempotent insert_or_ignore_def row_exists_iff)

lemma Migrate_visible:
  "objectVisibleToWorkspace w oid (snd (Migrate vs)) \<longleftrightarrow> objectVisibleToWorkspace w oid (snd vs)
     \<or> (w, oid) \<in> set (referenced_objects (snd vs)) \<and> row_exists (is_obj oid) (t_objects (snd vs))"
  by (simp add: Migrate_def backfillWorkspaceObjects_def backfill_fold(1))

lemma Migrate_frame: "\<exists>t. snd (Migrate vs) = (snd vs)\<lparr>t_ws_objects := t\<rparr>"
  by (simp add: Migrate_def backfillWorkspaceObjects_def backfill_fold(2))

lemma Migrate_version:
  assumes "\<forall>v \<in> set (fst vs). v \<le> LatestSchemaVersion"
  shows "CurrentSchemaVersion (fst (Migrate vs)) = LatestSchemaVersion"
proof -
  have "LatestSchemaVersion \<in> set (fst (Migrate vs))"
    by (auto simp: Migrate_def set_insert_or_ignore row_exists_iff)
  moreover have "\<forall>v \<in> set (fst (Migrate vs)). v \<le> LatestSchemaVersion"
    using assms by (auto simp: Migrate_def set_insert_or_ignore LatestSchemaVersion_def)
  moreover from calculation(1) have "fst (Migrate vs) \<noteq> []" by auto
  ultimately show ?thesis by (simp add: CurrentSchemaVersion_def Max_eq_iff)
qed

section \<open>Reports\<close>

definition Stats :: "int list \<times> server_db \<Rightarrow> string list" where
  "Stats vs =
     [''schema_version: '' @ FormatInt (CurrentSchemaVersion (fst vs)),
      ''latest_schema_version: '' @ FormatInt LatestSchemaVersion]
     @ map (\<lambda>key. key @ '': '' @ FormatInt (case map_of (Counts (snd vs)) key of None \<Rightarrow> 0 | Some n \<Rightarrow> int n))
         [''workspaces'', ''devices'', ''roots'', ''events'', ''objects'', ''sessions'']
     @ [''transferred_bytes: '' @ FormatInt (TransferredBytes (snd vs))]"

text \<open>\<open>unreadable\<close>: a path of the data directory that exists but cannot be inspected.\<close>

definition Doctor :: "bool \<Rightarrow> int list \<times> server_db \<Rightarrow> string list option" where
  "Doctor unreadable vs =
     (if unreadable then None
      else Some [''schema_version: '' @ FormatInt (CurrentSchemaVersion (fst vs)),
                 ''latest_schema_version: '' @ FormatInt LatestSchemaVersion])"

section \<open>Commands\<close>

record data_dir =
  dd_versions :: "int list"
  dd_admin :: admin_state

datatype main_error = SettingsFailed settings_error | DirsFailed | LockHeld | Unreadable | AdminError admin_error

datatype main_result = Usage | Reported "string list" | MainFailed main_error | Serving config server

fun exit_code :: "main_result \<Rightarrow> int" where
  "exit_code Usage = 2"
| "exit_code (MainFailed e) = 1"
| "exit_code _ = 0"

record main_env =
  me_setup :: server_setup
  me_dirs_ok :: bool
  me_locked :: bool
  me_unreadable :: bool
  me_now :: time
  me_buildinfo :: string

definition commandUsesDataDir :: "string \<Rightarrow> bool" where
  "commandUsesDataDir command \<longleftrightarrow>
     command \<in> {''migrate'', ''stats'', ''doctor'', ''gc'', ''serve'', ''purge-workspace''}"

definition migrated :: "data_dir \<Rightarrow> data_dir" where
  "migrated dd =
     (let (versions, s) = Migrate (dd_versions dd, ad_db (dd_admin dd)) in
      dd\<lparr>dd_versions := versions, dd_admin := (dd_admin dd)\<lparr>ad_db := s\<rparr>\<rparr>)"

definition purge_report :: "string \<Rightarrow> PurgeResult \<Rightarrow> string list" where
  "purge_report w r =
     [''workspace_id: '' @ w, ''deleted_devices: '' @ FormatInt (int (pr_Devices r)),
      ''deleted_sessions: '' @ FormatInt (int (pr_Sessions r)), ''deleted_roots: '' @ FormatInt (int (pr_Roots r)),
      ''deleted_events: '' @ FormatInt (int (pr_Events r)), ''deleted_snapshots: '' @ FormatInt (int (pr_Snapshots r)),
      ''deleted_objects: '' @ FormatInt (int (length (pr_Objects r))),
      ''deleted_bytes: '' @ FormatInt (sum_list (map po_SizeBytes (pr_Objects r)))]"

definition run_gc :: "settings \<Rightarrow> time \<Rightarrow> data_dir \<Rightarrow> main_result \<times> data_dir" where
  "run_gc cfg now dd =
     (let a = dd_admin dd;
          ((events, snapshots, objects), f, s) = GC now (cs_EventRetention cfg div 10 ^ 9)
            (cs_ZeroRefRetention cfg div 10 ^ 9) (ad_files a, ad_db a)
      in (Reported [''deleted_events: '' @ FormatInt (int events), ''deleted_snapshots: '' @ FormatInt (int snapshots),
            ''deleted_objects: '' @ FormatInt (int (length objects))],
          dd\<lparr>dd_admin := a\<lparr>ad_files := f, ad_db := s\<rparr>\<rparr>))"

text \<open>The server listens on the recovered data; that it does not return is the result \<open>Serving\<close>.\<close>

definition run_serve :: "settings \<Rightarrow> data_dir \<Rightarrow> main_result \<times> data_dir" where
  "run_serve cfg dd =
     (case RecoverPurgeStaging (dd_admin dd) of
        (Inl e, a) \<Rightarrow> (MainFailed (AdminError e), dd\<lparr>dd_admin := a\<rparr>)
      | (Inr _, a) \<Rightarrow> (Serving (config_of cfg) (restart (config_of cfg) (ad_files a) (ad_db a)), dd\<lparr>dd_admin := a\<rparr>))"

definition run_command :: "main_env \<Rightarrow> settings \<Rightarrow> string list \<Rightarrow> data_dir \<Rightarrow> main_result \<times> data_dir" where
  "run_command me cfg args dd =
     (let command = args ! 1; dd1 = migrated dd; vs = (dd_versions dd1, ad_db (dd_admin dd1)) in
      if command = ''migrate'' then (Reported [], dd1)
      else if command = ''stats'' then (Reported (Stats vs), dd1)
      else if command = ''doctor'' then
        (case Doctor (me_unreadable me) vs of
           None \<Rightarrow> (MainFailed Unreadable, dd1) | Some report \<Rightarrow> (Reported report, dd1))
      else if command = ''gc'' then run_gc cfg (me_now me) dd1
      else if command = ''purge-workspace'' then
        (if length args \<noteq> 3 then (Usage, dd)
         else case admin_PurgeWorkspace (me_now me) (args ! 2) (dd_admin dd1) of
           (Inl e, a) \<Rightarrow> (MainFailed (AdminError e), dd1\<lparr>dd_admin := a\<rparr>)
         | (Inr result, a) \<Rightarrow> (Reported (purge_report (args ! 2) result), dd1\<lparr>dd_admin := a\<rparr>))
      else if command = ''serve'' then run_serve cfg dd1
      else (Usage, dd))"

definition server_main :: "main_env \<Rightarrow> string list \<Rightarrow> data_dir \<Rightarrow> main_result \<times> data_dir" where
  "server_main me args dd =
     (if length args < 2 then (Usage, dd)
      else if args ! 1 \<in> {''version'', ''--version'', ''-version''} then
        (Reported [''syna-server '' @ me_buildinfo me], dd)
      else case Load (me_setup me) of
        Inl e \<Rightarrow> (MainFailed (SettingsFailed e), dd)
      | Inr cfg \<Rightarrow>
          if \<not> me_dirs_ok me then (MainFailed DirsFailed, dd)
          else if commandUsesDataDir (args ! 1) \<and> me_locked me then (MainFailed LockHeld, dd)
          else run_command me cfg args dd)"


end
