(* ===== verification/LiveStream.thy ===== *)
theory LiveStream
  imports Hub Connector
begin

text \<open>
  The live stream between the server and a client, as the processes that take part in
  it: the handlers that commit an event and publish it afterwards, in any order
  (\<^verbatim>\<open>internal/server/api/events.go\<close>), the loop that writes a subscriber's channel to
  its connection (\<^verbatim>\<open>handleWS\<close> of \<^verbatim>\<open>internal/server/api/websocket.go\<close>), the client's
  reader and pinger (\<^verbatim>\<open>startWebsocketStream\<close>) and the consumer of its notifications
  (\<^verbatim>\<open>consumeWebsocketStream\<close>, both in \<^verbatim>\<open>internal/client/daemon/daemon.go\<close>).  They
  interleave arbitrarily; a step is one operation on what they share.
\<close>

section \<open>Opening\<close>

text \<open>
  \<^verbatim>\<open>DialWS\<close>: \<open>parse\<close> is the URL parser (scheme and host), \<open>dial\<close> the websocket library, which
  answers with a connection, or an error and the response that refused the upgrade.
\<close>

definition websocket_url :: "(string \<Rightarrow> (string \<times> string) option) \<Rightarrow> string \<Rightarrow> go_error + string \<times> string \<times> string" where
  "websocket_url parse baseURL =
     (case parse baseURL of
        None \<Rightarrow> Inl (OsFailed ''url'')
      | Some (scheme, host) \<Rightarrow>
          if scheme = ''http'' then Inr (''ws'', host, ''/v1/ws'')
          else if scheme = ''https'' then Inr (''wss'', host, ''/v1/ws'')
          else Inl (Failed ''unsupported websocket URL scheme''))"

definition DialWS ::
  "(string \<Rightarrow> (string \<times> string) option)
    \<Rightarrow> (string \<times> string \<times> string \<Rightarrow> request \<Rightarrow> 's \<Rightarrow> ((go_error \<times> response option) + 'c) \<times> 's)
    \<Rightarrow> 's Client \<Rightarrow> 's \<Rightarrow> (go_error + 'c) \<times> 's" where
  "DialWS parse dial c s =
     (case websocket_url parse (cn_BaseURL c) of
        Inl e \<Rightarrow> (Inl e, s)
      | Inr url \<Rightarrow>
          (case dial url ((json_request c ''GET'' ''/v1/ws'')\<lparr>hr_Authorization := ''Bearer '' @ cn_Token c\<rparr>) s of
             (Inr conn, s1) \<Rightarrow> (Inr conn, s1)
           | (Inl (e, None), s1) \<Rightarrow> (Inl e, s1)
           | (Inl (e, Some resp), s1) \<Rightarrow>
               (Inl (responseError ''open websocket'' resp), reportUnauthorized c (fst resp) s1)))"

section \<open>The client's end\<close>

text \<open>Both channels have capacity one: a second notification is dropped, and so is a second error.\<close>

record websocketStream =
  ss_notify :: bool
  ss_errors :: "go_error option"
  ss_canceled :: bool
  ss_closed :: bool

definition startWebsocketStream :: websocketStream where
  "startWebsocketStream = \<lparr>ss_notify = False, ss_errors = None, ss_canceled = False, ss_closed = False\<rparr>"

definition stream_fail :: "go_error \<Rightarrow> websocketStream \<Rightarrow> websocketStream" where
  "stream_fail e st =
     st\<lparr>ss_errors := (case ss_errors st of None \<Rightarrow> Some e | Some e' \<Rightarrow> Some e'),
        ss_canceled := True, ss_closed := True\<rparr>"

definition is_event :: "WSMessage \<Rightarrow> bool" where
  "is_event msg \<longleftrightarrow> wm_Type msg = ''event'' \<and> wm_Event msg \<noteq> None"

definition stream_message :: "WSMessage \<Rightarrow> websocketStream \<Rightarrow> websocketStream" where
  "stream_message msg st = (if is_event msg then st\<lparr>ss_notify := True\<rparr> else st)"

definition stream_Close :: "websocketStream \<Rightarrow> websocketStream" where
  "stream_Close st = st\<lparr>ss_canceled := True, ss_closed := True\<rparr>"

definition stream_Err :: "websocketStream \<Rightarrow> go_error option \<times> websocketStream" where
  "stream_Err st = (ss_errors st, st\<lparr>ss_errors := None\<rparr>)"

definition take_notification :: "websocketStream \<Rightarrow> websocketStream option" where
  "take_notification st = (if ss_notify st then Some (st\<lparr>ss_notify := False\<rparr>) else None)"

section \<open>The processes\<close>

text \<open>
  A consumer fetches, applies a page that was read when the workspace was at \<open>c\<close>,
  waits for a notification, or has left the stream.
\<close>

datatype consumer = Fetching | Applying int | Waiting | Ended

record live =
  lv_hub :: "WSMessage hub"
  lv_head :: int
  lv_unsent :: "EventRecord list"
  lv_serving :: bool
  lv_wire :: "WSMessage list"
  lv_reading :: bool
  lv_stream :: websocketStream
  lv_consumer :: consumer
  lv_cursor :: int

definition event_message :: "EventRecord \<Rightarrow> WSMessage" where
  "event_message e = \<lparr>wm_Type = ''event'', wm_Event = Some e\<rparr>"

text \<open>
  The steps, for the subscriber \<open>sub\<close> of the workspace \<open>w\<close>: \<open>write_frame\<close>, \<open>write_failed\<close> and \<open>hang_up\<close> are
  the handler of its connection, \<open>read\<close>, \<open>read_error\<close> and \<open>ping_error\<close> the goroutines
  of the client, and the rules from \<open>notified\<close> on its consumer.
\<close>

inductive live_step :: "string \<Rightarrow> nat \<Rightarrow> live \<Rightarrow> live \<Rightarrow> bool" for w sub where
  commit: "lv_head l < er_Seq e \<Longrightarrow>
    live_step w sub l (l\<lparr>lv_head := er_Seq e, lv_unsent := lv_unsent l @ [e]\<rparr>)"
| publish: "e \<in> set (lv_unsent l) \<Longrightarrow>
    live_step w sub l (l\<lparr>lv_unsent := remove1 e (lv_unsent l),
                         lv_hub := Publish w (event_message e) (lv_hub l)\<rparr>)"
| publish_elsewhere: "v \<noteq> w \<Longrightarrow> live_step w sub l (l\<lparr>lv_hub := Publish v m (lv_hub l)\<rparr>)"
| subscribe: "live_step w sub l (l\<lparr>lv_hub := snd (Subscribe v (lv_hub l))\<rparr>)"
| unsubscribe: "x \<noteq> sub \<Longrightarrow> live_step w sub l (l\<lparr>lv_hub := Unsubscribe v x (lv_hub l)\<rparr>)"
| receive: "x \<noteq> sub \<Longrightarrow> live_step w sub l (l\<lparr>lv_hub := snd (Receive x (lv_hub l))\<rparr>)"
| write_frame: "lv_serving l \<Longrightarrow> Receive sub (lv_hub l) = (Some m, h) \<Longrightarrow>
    live_step w sub l (l\<lparr>lv_hub := h, lv_wire := lv_wire l @ [m]\<rparr>)"
| hang_up: "lv_serving l \<Longrightarrow>
    live_step w sub l (l\<lparr>lv_serving := False, lv_hub := Unsubscribe w sub (lv_hub l)\<rparr>)"
| write_failed: "lv_serving l \<Longrightarrow> Receive sub (lv_hub l) = (Some m, h) \<Longrightarrow>
    live_step w sub l (l\<lparr>lv_serving := False, lv_hub := Unsubscribe w sub h\<rparr>)"
| read_frame: "lv_reading l \<Longrightarrow> lv_wire l = m # ms \<Longrightarrow>
    live_step w sub l (l\<lparr>lv_wire := ms, lv_stream := stream_message m (lv_stream l)\<rparr>)"
| read_error: "lv_reading l \<Longrightarrow>
    live_step w sub l (l\<lparr>lv_reading := False, lv_stream := stream_fail e (lv_stream l)\<rparr>)"
| ping_error: "\<not> ss_canceled (lv_stream l) \<Longrightarrow>
    live_step w sub l (l\<lparr>lv_stream := stream_fail e (lv_stream l)\<rparr>)"
| notified: "lv_consumer l = Waiting \<Longrightarrow> take_notification (lv_stream l) = Some st \<Longrightarrow>
    live_step w sub l (l\<lparr>lv_stream := st, lv_consumer := Fetching\<rparr>)"
| retry_tick: "lv_consumer l = Waiting \<Longrightarrow> live_step w sub l (l\<lparr>lv_consumer := Fetching\<rparr>)"
| fetch: "lv_consumer l = Fetching \<Longrightarrow> live_step w sub l (l\<lparr>lv_consumer := Applying (lv_head l)\<rparr>)"
| more: "lv_consumer l = Applying c \<Longrightarrow> q < c \<Longrightarrow>
    live_step w sub l (l\<lparr>lv_consumer := Fetching, lv_cursor := q\<rparr>)"
| current: "lv_consumer l = Applying c \<Longrightarrow> c \<le> q \<Longrightarrow> q \<le> lv_head l \<Longrightarrow>
    live_step w sub l (l\<lparr>lv_consumer := Waiting, lv_cursor := q\<rparr>)"
| failed: "lv_consumer l \<noteq> Ended \<Longrightarrow>
    live_step w sub l (l\<lparr>lv_consumer := Ended, lv_stream := stream_Close (lv_stream l)\<rparr>)"
| stream_failed: "lv_consumer l = Waiting \<Longrightarrow> stream_Err (lv_stream l) = (Some e, st) \<Longrightarrow>
    live_step w sub l (l\<lparr>lv_consumer := Ended, lv_stream := stream_Close st\<rparr>)"

text \<open>
  The client opens the websocket before it catches up, and the server subscribes it
  before it answers; events may have been committed and not yet published.
\<close>

definition live_start :: "string \<Rightarrow> nat \<Rightarrow> live \<Rightarrow> bool" where
  "live_start w sub l \<longleftrightarrow> (\<exists>h. hub_inv h \<and> Subscribe w h = (Some sub, lv_hub l))
     \<and> lv_serving l \<and> lv_wire l = [] \<and> lv_reading l \<and> lv_stream l = startWebsocketStream
     \<and> lv_consumer l = Fetching"

definition live_reachable :: "string \<Rightarrow> nat \<Rightarrow> live \<Rightarrow> bool" where
  "live_reachable w sub l \<longleftrightarrow> (\<exists>l0. live_start w sub l0 \<and> (live_step w sub)\<^sup>*\<^sup>* l0 l)"

section \<open>Nothing is missed\<close>

text \<open>An event is on its way to the consumer, or the stream is about to break.\<close>

definition in_flight :: "nat \<Rightarrow> live \<Rightarrow> bool" where
  "in_flight sub l \<longleftrightarrow> lv_unsent l \<noteq> []
     \<or> list_ex is_event (cn_buf (hb_chan (lv_hub l) sub))
     \<or> list_ex is_event (lv_wire l)
     \<or> ss_notify (lv_stream l)
     \<or> cn_closed (hb_chan (lv_hub l) sub)"

fun covered :: "consumer \<Rightarrow> int \<Rightarrow> int option" where
  "covered Fetching cursor = None"
| "covered (Applying c) cursor = Some c"
| "covered Waiting cursor = Some cursor"
| "covered Ended cursor = None"

text \<open>The hub's side: the subscriber is registered for its workspace, or its channel is closed.\<close>

definition watched :: "string \<Rightarrow> nat \<Rightarrow> 'm hub \<Rightarrow> bool" where
  "watched w sub h \<longleftrightarrow> hub_inv h \<and> sub < hb_next h \<and> (\<forall>v. sub \<in> set (hb_subs h v) \<longrightarrow> v = w)
     \<and> (sub \<in> set (hb_subs h w) \<or> cn_closed (hb_chan h sub))"

lemma watched_Subscribed:
  assumes "hub_inv h" and "Subscribe w h = (Some sub, h')"
  shows "watched w sub h'"
proof -
  have inv: "hub_inv h'" using Subscribe_inv [OF assms(1), of w] by (simp add: assms(2))
  have eq: "sub = hb_next h" "hb_next h' = hb_next h + 1" "hb_subs h' = (hb_subs h)(w := hb_subs h w @ [hb_next h])"
    using assms(2) by (auto simp: Subscribe_def split: if_splits)
  have "hb_next h \<notin> set (hb_subs h v)" for v using assms(1) by (force simp: hub_inv_def)
  with inv eq show ?thesis by (auto simp: watched_def)
qed

lemma watched_Subscribe:
  assumes "watched w sub h"
  shows "watched w sub (snd (Subscribe v h))" and "hb_chan (snd (Subscribe v h)) sub = hb_chan h sub"
proof -
  have inv: "hub_inv (snd (Subscribe v h))" and sub: "sub < hb_next h" and own: "\<And>u. sub \<in> set (hb_subs h u) \<Longrightarrow> u = w"
    and reg: "sub \<in> set (hb_subs h w) \<or> cn_closed (hb_chan h sub)"
    using assms Subscribe_inv [of h v] unfolding watched_def by blast+
  from sub show chan: "hb_chan (snd (Subscribe v h)) sub = hb_chan h sub" by (simp add: Subscribe_def)
  have mem: "sub \<in> set (hb_subs (snd (Subscribe v h)) u) \<longleftrightarrow> sub \<in> set (hb_subs h u)" for u
    using sub by (auto simp: Subscribe_def)
  have "hb_next h \<le> hb_next (snd (Subscribe v h))" by (simp add: Subscribe_def)
  with inv sub own reg show "watched w sub (snd (Subscribe v h))"
    unfolding watched_def chan mem by auto
qed

lemma watched_Unsubscribe:
  assumes "watched w sub h"
  shows "watched w sub (Unsubscribe v x h)"
proof -
  have inv: "hub_inv (Unsubscribe v x h)" and sub: "sub < hb_next h" and own: "\<And>u. sub \<in> set (hb_subs h u) \<Longrightarrow> u = w"
    and reg: "sub \<in> set (hb_subs h w) \<or> cn_closed (hb_chan h sub)"
    using assms Unsubscribe_inv [of h v x] unfolding watched_def by blast+
  have "hb_next (Unsubscribe v x h) = hb_next h" by (simp add: Unsubscribe_def)
  moreover have "sub \<in> set (hb_subs (Unsubscribe v x h) u) \<Longrightarrow> sub \<in> set (hb_subs h u)" for u
    by (auto simp: Unsubscribe_def split: if_splits)
  moreover have "sub \<in> set (hb_subs (Unsubscribe v x h) w) \<or> cn_closed (hb_chan (Unsubscribe v x h) sub)"
    using reg by (auto simp: Unsubscribe_def)
  ultimately show ?thesis using inv sub own unfolding watched_def by auto
qed

lemma Unsubscribe_other: "x \<noteq> sub \<Longrightarrow> hb_chan (Unsubscribe v x h) sub = hb_chan h sub"
  by (simp add: Unsubscribe_def)

lemma Unsubscribe_closed:
  assumes "watched w sub h"
  shows "cn_closed (hb_chan (Unsubscribe w sub h) sub)"
proof -
  have "sub \<in> set (hb_subs h w) \<or> cn_closed (hb_chan h sub)" using assms by (simp add: watched_def)
  then show ?thesis by (auto simp: Unsubscribe_def)
qed

lemma watched_Receive:
  assumes "watched w sub h"
  shows "watched w sub (snd (Receive x h))"
proof -
  have "hb_subs (snd (Receive x h)) = hb_subs h" "hb_next (snd (Receive x h)) = hb_next h"
    "cn_closed (hb_chan (snd (Receive x h)) sub) = cn_closed (hb_chan h sub)"
    by (simp_all add: Receive_def split: list.splits)
  with assms Receive_inv [of h x] show ?thesis by (simp add: watched_def)
qed

lemma Receive_other: "x \<noteq> sub \<Longrightarrow> hb_chan (snd (Receive x h)) sub = hb_chan h sub"
  by (auto simp: Receive_def split: list.splits)

lemma watched_Publish:
  assumes "watched w sub h"
  shows "watched w sub (Publish v m h)"
proof -
  have h: "hub_inv h" and sub: "sub < hb_next h" and own: "\<And>u. sub \<in> set (hb_subs h u) \<Longrightarrow> u = w"
    and reg: "sub \<in> set (hb_subs h w) \<or> cn_closed (hb_chan h sub)"
    using assms unfolding watched_def by blast+
  have "hb_next (Publish v m h) = hb_next h" by (simp add: Publish_eq [OF h])
  moreover have "sub \<in> set (hb_subs (Publish v m h) u) \<Longrightarrow> sub \<in> set (hb_subs h u)" for u
    by (auto simp: Publish_eq [OF h] split: if_splits)
  moreover have "sub \<in> set (hb_subs (Publish v m h) w) \<or> cn_closed (hb_chan (Publish v m h) sub)"
    using reg by (auto simp: Publish_eq [OF h])
  ultimately show ?thesis using Publish_inv [OF h] sub own unfolding watched_def by auto
qed

lemma Publish_elsewhere:
  assumes "watched w sub h" and "v \<noteq> w"
  shows "hb_chan (Publish v m h) sub = hb_chan h sub"
  using assms by (auto simp: watched_def Publish_eq)

lemma Publish_here:
  assumes "watched w sub h"
  shows "cn_closed (hb_chan (Publish w m h) sub)
    \<or> hb_chan (Publish w m h) sub = (hb_chan h sub)\<lparr>cn_buf := cn_buf (hb_chan h sub) @ [m]\<rparr>"
  using assms by (auto simp: watched_def Publish_eq)

definition live_inv :: "string \<Rightarrow> nat \<Rightarrow> live \<Rightarrow> bool" where
  "live_inv w sub l \<longleftrightarrow> watched w sub (lv_hub l)
     \<and> (\<not> lv_serving l \<longrightarrow> cn_closed (hb_chan (lv_hub l) sub))
     \<and> (\<not> lv_reading l \<and> lv_consumer l \<noteq> Ended \<longrightarrow> ss_errors (lv_stream l) \<noteq> None)
     \<and> (\<forall>c. covered (lv_consumer l) (lv_cursor l) = Some c \<and> c < lv_head l \<longrightarrow> in_flight sub l)"

lemma is_event_message [simp]: "is_event (event_message e)"
  by (simp add: is_event_def event_message_def)

lemma live_start_inv: "live_start w sub l \<Longrightarrow> live_inv w sub l"
  using watched_Subscribed [of _ w sub "lv_hub l"] by (auto simp: live_inv_def live_start_def)

text \<open>A step that leaves the consumer alone keeps the invariant if what was in flight stays so.\<close>

lemma live_inv_keep:
  assumes "live_inv w sub l" and "watched w sub (lv_hub l')"
    and "\<not> lv_serving l' \<Longrightarrow> \<not> lv_serving l \<or> cn_closed (hb_chan (lv_hub l') sub)"
    and "cn_closed (hb_chan (lv_hub l) sub) \<Longrightarrow> cn_closed (hb_chan (lv_hub l') sub)"
    and "lv_reading l' = lv_reading l" and "ss_errors (lv_stream l') = ss_errors (lv_stream l)"
    and "lv_consumer l' = lv_consumer l" and "lv_cursor l' = lv_cursor l"
    and "lv_head l' = lv_head l" and "in_flight sub l \<Longrightarrow> in_flight sub l'"
  shows "live_inv w sub l'"
  using assms unfolding live_inv_def by auto

lemma live_step_inv: "live_step w sub l l' \<Longrightarrow> live_inv w sub l \<Longrightarrow> live_inv w sub l'"
proof (induction rule: live_step.induct)
  case (commit l e)
  then show ?case by (auto simp: live_inv_def in_flight_def)
next
  case (publish e l)
  let ?h = "Publish w (event_message e) (lv_hub l)"
  have w: "watched w sub (lv_hub l)" using publish.prems by (simp add: live_inv_def)
  have closed: "cn_closed (hb_chan (lv_hub l) sub) \<Longrightarrow> cn_closed (hb_chan ?h sub)"
    using Publish_here [OF w, of "event_message e"] by auto
  have "cn_closed (hb_chan ?h sub) \<or> list_ex is_event (cn_buf (hb_chan ?h sub))"
    using Publish_here [OF w, of "event_message e"] by auto
  then show ?case
    using closed watched_Publish [OF w] by (intro live_inv_keep [OF publish.prems]) (auto simp: in_flight_def)
next
  case (publish_elsewhere v l m)
  then have w: "watched w sub (lv_hub l)" by (simp add: live_inv_def)
  show ?case
    using publish_elsewhere watched_Publish [OF w] Publish_elsewhere [OF w]
    by (intro live_inv_keep [OF publish_elsewhere.prems]) (auto simp: in_flight_def)
next
  case (subscribe l v)
  then have w: "watched w sub (lv_hub l)" by (simp add: live_inv_def)
  show ?case
    using watched_Subscribe [OF w]
    by (intro live_inv_keep [OF subscribe.prems]) (auto simp: in_flight_def)
next
  case (unsubscribe x l v)
  then have w: "watched w sub (lv_hub l)" by (simp add: live_inv_def)
  show ?case
    using watched_Unsubscribe [OF w] unsubscribe.hyps
    by (intro live_inv_keep [OF unsubscribe.prems]) (simp_all add: in_flight_def Unsubscribe_other)
next
  case (receive x l)
  then have w: "watched w sub (lv_hub l)" by (simp add: live_inv_def)
  show ?case
    using watched_Receive [OF w] receive.hyps
    by (intro live_inv_keep [OF receive.prems]) (simp_all add: in_flight_def Receive_other)
next
  case (write_frame l m h)
  then have w: "watched w sub (lv_hub l)" by (simp add: live_inv_def)
  obtain ms where b: "cn_buf (hb_chan (lv_hub l) sub) = m # ms"
    and h: "h = (lv_hub l)\<lparr>hb_chan := (hb_chan (lv_hub l))(sub := (hb_chan (lv_hub l) sub)\<lparr>cn_buf := ms\<rparr>)\<rparr>"
    using write_frame.hyps(2) by (auto simp: Receive_def split: list.splits)
  have "watched w sub h" using watched_Receive [OF w, of sub] write_frame.hyps(2) by simp
  then show ?case
    using b h by (intro live_inv_keep [OF write_frame.prems]) (auto simp: in_flight_def)
next
  case (hang_up l)
  then have w: "watched w sub (lv_hub l)" by (simp add: live_inv_def)
  show ?case
    using watched_Unsubscribe [OF w] Unsubscribe_closed [OF w]
    by (intro live_inv_keep [OF hang_up.prems]) (auto simp: in_flight_def)
next
  case (write_failed l m h)
  then have "watched w sub (lv_hub l)" by (simp add: live_inv_def)
  from watched_Receive [OF this, of sub] have w: "watched w sub h" using write_failed.hyps(2) by simp
  show ?case
    using watched_Unsubscribe [OF w] Unsubscribe_closed [OF w]
    by (intro live_inv_keep [OF write_failed.prems]) (auto simp: in_flight_def)
next
  case (read_frame l m ms)
  then show ?case
    by (intro live_inv_keep [OF read_frame.prems]) (auto simp: in_flight_def stream_message_def live_inv_def)
qed (auto simp: live_inv_def in_flight_def stream_fail_def stream_Close_def stream_Err_def take_notification_def
    split: option.splits if_splits)

lemma live_reachable_inv: "live_reachable w sub l \<Longrightarrow> live_inv w sub l"
  unfolding live_reachable_def
  by (auto elim: rtranclp_induct simp: live_start_inv live_step_inv)


text \<open>Whenever the client waits behind the server, something of the event is in flight.\<close>

lemma no_event_missed:
  assumes "live_inv w sub l" and "lv_consumer l = Waiting" and "lv_cursor l < lv_head l"
  shows "in_flight sub l"
  using assms by (simp add: live_inv_def)

section \<open>Everything arrives\<close>

text \<open>
  The steps that only finish what was begun: publishing what is committed, moving
  frames along, ending a connection whose channel is closed and empty, and reacting
  to a notification or an error.  Each is a step of the processes.
\<close>

inductive drain_step :: "string \<Rightarrow> nat \<Rightarrow> live \<Rightarrow> live \<Rightarrow> bool" for w sub where
  drain_publish: "e \<in> set (lv_unsent l) \<Longrightarrow>
    drain_step w sub l (l\<lparr>lv_unsent := remove1 e (lv_unsent l),
                          lv_hub := Publish w (event_message e) (lv_hub l)\<rparr>)"
| drain_write: "lv_serving l \<Longrightarrow> Receive sub (lv_hub l) = (Some m, h) \<Longrightarrow>
    drain_step w sub l (l\<lparr>lv_hub := h, lv_wire := lv_wire l @ [m]\<rparr>)"
| drain_hang_up: "lv_serving l \<Longrightarrow> cn_closed (hb_chan (lv_hub l) sub) \<Longrightarrow> cn_buf (hb_chan (lv_hub l) sub) = [] \<Longrightarrow>
    drain_step w sub l (l\<lparr>lv_serving := False, lv_hub := Unsubscribe w sub (lv_hub l)\<rparr>)"
| drain_read: "lv_reading l \<Longrightarrow> lv_wire l = m # ms \<Longrightarrow>
    drain_step w sub l (l\<lparr>lv_wire := ms, lv_stream := stream_message m (lv_stream l)\<rparr>)"
| drain_eof: "lv_reading l \<Longrightarrow> lv_wire l = [] \<Longrightarrow> \<not> lv_serving l \<Longrightarrow>
    drain_step w sub l (l\<lparr>lv_reading := False, lv_stream := stream_fail e (lv_stream l)\<rparr>)"
| drain_notified: "lv_consumer l = Waiting \<Longrightarrow> take_notification (lv_stream l) = Some st \<Longrightarrow>
    drain_step w sub l (l\<lparr>lv_stream := st, lv_consumer := Fetching\<rparr>)"
| drain_failed: "lv_consumer l = Waiting \<Longrightarrow> stream_Err (lv_stream l) = (Some e, st) \<Longrightarrow>
    drain_step w sub l (l\<lparr>lv_consumer := Ended, lv_stream := stream_Close st\<rparr>)"

lemma drain_is_live: "drain_step w sub l l' \<Longrightarrow> live_step w sub l l'"
  by (induction rule: drain_step.induct) (auto intro: live_step.intros)

definition drain_bound :: "nat \<Rightarrow> live \<Rightarrow> nat" where
  "drain_bound sub l = 3 * length (lv_unsent l) + 2 * length (cn_buf (hb_chan (lv_hub l) sub)) + length (lv_wire l)
     + of_bool (lv_serving l) + of_bool (lv_reading l) + of_bool (lv_consumer l = Waiting)"

lemma drain_decreases:
  assumes "drain_step w sub l l'" and "live_inv w sub l"
  shows "drain_bound sub l' < drain_bound sub l"
  using assms
proof (induction rule: drain_step.induct)
  case (drain_publish e l)
  have "length (cn_buf (hb_chan (Publish w (event_message e) (lv_hub l)) sub))
      \<le> Suc (length (cn_buf (hb_chan (lv_hub l) sub)))"
    using drain_publish.prems by (auto simp: live_inv_def watched_def Publish_eq)
  moreover have "length (remove1 e (lv_unsent l)) + 1 = length (lv_unsent l)"
    using drain_publish.hyps length_pos_if_in_set [of e "lv_unsent l"] by (simp add: length_remove1)
  ultimately show ?case unfolding drain_bound_def by simp
next
  case (drain_write l m h)
  then show ?case by (auto simp: drain_bound_def Receive_def split: list.splits)
next
  case (drain_hang_up l)
  then show ?case by (simp add: drain_bound_def Unsubscribe_def)
qed (simp_all add: drain_bound_def)

text \<open>As long as the client waits behind the server, one of these steps is possible.\<close>

lemma drain_enabled:
  assumes "live_inv w sub l" and "lv_consumer l = Waiting" and "lv_cursor l < lv_head l"
  shows "\<exists>l'. drain_step w sub l l'"
proof (rule ccontr)
  assume stuck: "\<nexists>l'. drain_step w sub l l'"
  let ?ch = "hb_chan (lv_hub l) sub"
  have unsent: "lv_unsent l = []"
    using stuck drain_publish [of "hd (lv_unsent l)" l w sub] by (metis list.set_sel(1))
  have err: "ss_errors (lv_stream l) = None"
  proof (rule ccontr)
    assume "ss_errors (lv_stream l) \<noteq> None"
    then obtain e where "stream_Err (lv_stream l) = (Some e, (lv_stream l)\<lparr>ss_errors := None\<rparr>)"
      by (auto simp: stream_Err_def)
    with stuck drain_failed [OF assms(2)] show False by blast
  qed
  have quiet: "\<not> ss_notify (lv_stream l)"
    using stuck drain_notified [OF assms(2), of "(lv_stream l)\<lparr>ss_notify := False\<rparr>" w sub]
    by (auto simp: take_notification_def)
  have reading: "lv_reading l" using assms(1,2) err by (auto simp: live_inv_def)
  have wire: "lv_wire l = []"
    using stuck drain_read [OF reading] by (metis list.exhaust)
  have serving: "lv_serving l" using stuck drain_eof [OF reading wire] by blast
  have buf: "cn_buf ?ch = []"
    using stuck drain_write [OF serving, of sub] by (cases "cn_buf ?ch") (auto simp: Receive_def)
  have "\<not> cn_closed ?ch" using stuck drain_hang_up [OF serving _ buf] by blast
  with no_event_missed [OF assms] unsent wire quiet buf show False by (simp add: in_flight_def)
qed

lemma drain_run:
  assumes "(drain_step w sub ^^ n) l l'" and "live_inv w sub l"
  shows "live_inv w sub l' \<and> n + drain_bound sub l' \<le> drain_bound sub l"
  using assms
proof (induction n arbitrary: l')
  case (Suc n)
  then obtain l1 where l1: "(drain_step w sub ^^ n) l l1" "drain_step w sub l1 l'" by auto
  with Suc have "live_inv w sub l1" "n + drain_bound sub l1 \<le> drain_bound sub l" by auto
  with drain_decreases [OF l1(2)] live_step_inv [OF drain_is_live [OF l1(2)]] show ?case by auto
qed simp

section \<open>The guarantee of the stream\<close>

text \<open>C30: No event is missed by a live client, however the commits and publications of the server, the
  two ends of the connection and the client's catch-ups interleave. From every reachable state, finishing
  what is in flight takes boundedly many steps in whatever order they happen, and when nothing is left to
  do a client that still waits has reached the head of the log.\<close>

theorem waiting_client_is_current:
  assumes "live_reachable w sub l" and "(drain_step w sub ^^ n) l l'"
  shows "n \<le> 3 * length (lv_unsent l) + 2 * length (cn_buf (hb_chan (lv_hub l) sub)) + length (lv_wire l) + 3
    \<and> ((\<nexists>l''. drain_step w sub l' l'') \<and> lv_consumer l' = Waiting \<longrightarrow> lv_head l' \<le> lv_cursor l')"
proof (intro conjI impI)
  have inv: "live_inv w sub l'" "n \<le> drain_bound sub l"
    using drain_run [OF assms(2) live_reachable_inv [OF assms(1)]] by simp_all
  then show "n \<le> 3 * length (lv_unsent l) + 2 * length (cn_buf (hb_chan (lv_hub l) sub)) + length (lv_wire l) + 3"
    by (simp add: drain_bound_def of_bool_def split: if_splits)
  assume "(\<nexists>l''. drain_step w sub l' l'') \<and> lv_consumer l' = Waiting"
  then show "lv_head l' \<le> lv_cursor l'"
    using drain_enabled [OF inv(1)] by (meson linorder_not_le)
qed

definition live_demo_event :: EventRecord where
  "live_demo_event = \<lparr>er_Seq = 7, er_RootID = ''r'', er_PathID = Some ''p'', er_EventType = EventDirPut, er_BaseSeq = None,
     er_AuthorDeviceID = ''d'', er_PayloadBlob = [], er_ObjectRefs = [], er_CreatedAt = 0\<rparr>"

definition live_demo :: "consumer \<Rightarrow> int \<Rightarrow> live" where
  "live_demo c q = \<lparr>lv_hub = snd (Subscribe ''w'' (new_hub 8)), lv_head = 0, lv_unsent = [], lv_serving = True,
     lv_wire = [], lv_reading = True, lv_stream = startWebsocketStream, lv_consumer = c, lv_cursor = q\<rparr>"

definition live_demo_end :: live where
  "live_demo_end = (live_demo Waiting 0)\<lparr>lv_head := 7, lv_hub := Publish ''w'' (event_message live_demo_event)
     (snd (Subscribe ''w'' (new_hub 8)))\<rparr>"

lemma live_demo_reachable: "live_reachable ''w'' 0 live_demo_end"
proof -
  let ?e = live_demo_event
  let ?l = "(live_demo Waiting 0)\<lparr>lv_head := 7, lv_unsent := [?e]\<rparr>"
  have "hub_inv (new_hub 8 :: WSMessage hub)" by (rule new_hub_inv)
  moreover have "Subscribe ''w'' (new_hub 8 :: WSMessage hub) = (Some 0, snd (Subscribe ''w'' (new_hub 8)))"
    by (simp add: Subscribe_def new_hub_def)
  ultimately have start: "live_start ''w'' 0 (live_demo Fetching 0)"
    unfolding live_start_def by (auto simp: live_demo_def intro!: exI [of _ "new_hub 8"])
  have "live_step ''w'' 0 (live_demo Fetching 0) (live_demo (Applying 0) 0)"
    using live_step.fetch [of "live_demo Fetching 0" "''w''" 0] by (simp add: live_demo_def)
  moreover have "live_step ''w'' 0 (live_demo (Applying 0) 0) (live_demo Waiting 0)"
    using live_step.current [of "live_demo (Applying 0) 0" 0 0 "''w''" 0] by (simp add: live_demo_def)
  moreover have "live_step ''w'' 0 (live_demo Waiting 0) ?l"
    using live_step.commit [of "live_demo Waiting 0" ?e "''w''" 0] by (simp add: live_demo_def live_demo_event_def)
  moreover have "live_step ''w'' 0 ?l live_demo_end"
    using live_step.publish [of ?e ?l "''w''" 0] by (simp add: live_demo_def live_demo_end_def)
  ultimately have "(live_step ''w'' 0)\<^sup>*\<^sup>* (live_demo Fetching 0) live_demo_end"
    by (meson rtranclp.rtrancl_refl rtranclp.rtrancl_into_rtrancl)
  with start show ?thesis unfolding live_reachable_def by blast
qed

theorem waiting_client_is_current_witness:
  "(\<forall>l'. \<not> (drain_step ''w'' 0 ^^ 8) live_demo_end l') \<and> lv_cursor live_demo_end < lv_head live_demo_end"
proof -
  have "length (cn_buf (hb_chan (lv_hub live_demo_end) 0)) = 1"
    unfolding live_demo_end_def live_demo_def by code_simp
  then have "3 * length (lv_unsent live_demo_end) + 2 * length (cn_buf (hb_chan (lv_hub live_demo_end) 0))
      + length (lv_wire live_demo_end) + 3 < 8" by (simp add: live_demo_end_def live_demo_def)
  with waiting_client_is_current [OF live_demo_reachable, of 8] show ?thesis
    by (force simp: live_demo_end_def live_demo_def)
qed

end
