(* ===== verification/AgentRpc.thy ===== *)
theory AgentRpc
  imports Agent
begin

text \<open>
  The socket between the command line and the daemon: requests and responses
  (\<^verbatim>\<open>internal/client/agentrpc/rpc.go\<close>), their dispatch (\<^verbatim>\<open>daemon/rpc.go\<close>), the reports of
  progress (\<^verbatim>\<open>daemon/progress.go\<close>) and the identity of the binary
  (\<^verbatim>\<open>internal/buildinfo\<close>).  JSON is a parameter: a decoder per type of arguments, and
  a connection that delivers decoded responses or an error.
\<close>

section \<open>Identity of the binary\<close>

record build =
  bd_Version :: string
  bd_Commit :: string
  bd_BuildDate :: string

definition build_String :: "build \<Rightarrow> string" where
  "build_String b = ''version='' @ bd_Version b @ '' commit='' @ bd_Commit b @ '' build_date='' @ bd_BuildDate b"

text \<open>\<open>exe\<close> is the content of \<^verbatim>\<open>/proc/self/exe\<close>, if it can be read.\<close>

definition ExecutableID :: "primitives \<Rightarrow> bytes option \<Rightarrow> string option" where
  "ExecutableID px exe = map_option (\<lambda>b. hex_encode (px_sha256 px b)) exe"

section \<open>Progress\<close>

record AddProgress =
  ap_Stage :: string
  ap_Message :: string
  ap_Path :: string
  ap_DoneBytes :: int
  ap_TotalBytes :: int
  ap_DoneFiles :: int
  ap_TotalFiles :: int
  ap_DoneEntries :: int
  ap_TotalEntries :: int

record addProgressState =
  at_DoneBytes :: int
  at_TotalBytes :: int
  at_DoneFiles :: int
  at_TotalFiles :: int
  at_DoneEntries :: int
  at_TotalEntries :: int

fun count_entry :: "ScanEntry \<Rightarrow> addProgressState \<Rightarrow> addProgressState" where
  "count_entry entry totals =
     (if sc_Kind entry \<noteq> RootKindFile then totals
      else totals\<lparr>at_TotalFiles := at_TotalFiles totals + 1,
                  at_TotalBytes := at_TotalBytes totals + sc_SizeBytes entry\<rparr>)"

definition addProgressTotals :: "ScanEntry list \<Rightarrow> addProgressState" where
  "addProgressTotals entries =
     fold count_entry entries
       \<lparr>at_DoneBytes = 0, at_TotalBytes = 0, at_DoneFiles = 0, at_TotalFiles = 0, at_DoneEntries = 0,
        at_TotalEntries = int (length entries)\<rparr>"

definition displaySyncPath :: "string \<Rightarrow> string \<Rightarrow> string" where
  "displaySyncPath homeRelPath relPath = (if relPath = [] then homeRelPath else Join [homeRelPath, relPath])"

lemma addProgressTotals_exact:
  "addProgressTotals entries =
     \<lparr>at_DoneBytes = 0, at_TotalBytes = (\<Sum>e \<leftarrow> filter (\<lambda>e. sc_Kind e = RootKindFile) entries. sc_SizeBytes e),
      at_DoneFiles = 0, at_TotalFiles = int (length (filter (\<lambda>e. sc_Kind e = RootKindFile) entries)),
      at_DoneEntries = 0, at_TotalEntries = int (length entries)\<rparr>"
proof -
  have "fold count_entry es t = t\<lparr>at_TotalFiles := at_TotalFiles t + int (length (filter (\<lambda>e. sc_Kind e = RootKindFile) es)),
      at_TotalBytes := at_TotalBytes t + (\<Sum>e \<leftarrow> filter (\<lambda>e. sc_Kind e = RootKindFile) es. sc_SizeBytes e)\<rparr>" for es t
    by (induction es arbitrary: t) auto
  then show ?thesis by (simp add: addProgressTotals_def)
qed

section \<open>Messages\<close>

record rpc_request =
  rq_Method :: string
  rq_Params :: bytes
  rq_Progress :: bool

datatype rpc_result = NoResult | ResultConnect ConnectResponse | ResultDisconnect "string list"
  | ResultStatus string string WorkspaceStatus

record rpc_response =
  rr_OK :: bool
  rr_Error :: string
  rr_Result :: rpc_result
  rr_Progress :: "AddProgress option"

text \<open>What the client's decoder meets on the connection, whose end is the end of the list.\<close>

datatype rpc_item = Response rpc_response | Undecodable go_error

fun read_responses :: "rpc_item list \<Rightarrow> (go_error + rpc_result) \<times> AddProgress list" where
  "read_responses [] = (Inl (Failed ''daemon closed the connection before sending a response''), [])"
| "read_responses (Undecodable e # items) = (Inl (Wrapped ''read daemon response'' e), [])"
| "read_responses (Response r # items) =
     (case rr_Progress r of
        Some p \<Rightarrow> (case read_responses items of (result, ps) \<Rightarrow> (result, p # ps))
      | None \<Rightarrow>
          if \<not> rr_OK r then (Inl (Failed (if rr_Error r = [] then ''rpc failed'' else rr_Error r)), [])
          else (Inr (rr_Result r), []))"

section \<open>Dispatch\<close>

text \<open>
  \<open>rp_install\<close> and \<open>rp_disable\<close> are the errors of enabling and disabling the background
  service, \<open>rp_progress\<close> the reports the operation makes on its way.
\<close>

record 'w rpc_env =
  rp_agent :: "'w agent_env"
  rp_connect :: "bytes \<Rightarrow> go_error + ConnectRequest"
  rp_path :: "bytes \<Rightarrow> go_error + string"
  rp_install :: "string option"
  rp_disable :: "string option"
  rp_progress :: "string \<Rightarrow> AddProgress list"
  rp_build :: build
  rp_image :: "bytes option"

definition not_connected :: go_error where
  "not_connected = Failed ''not connected''"

definition on_daemon ::
  "'w agent \<Rightarrow> ('a \<times> 'w network daemon) option \<Rightarrow> ('a \<times> 'w agent) option" where
  "on_daemon ag r = map_option (\<lambda>(x, d). (x, ag\<lparr>ag_daemon := d\<rparr>)) r"

definition agent_AddRoot ::
  "nat \<Rightarrow> 'w agent_env \<Rightarrow> string \<Rightarrow> 'w agent \<Rightarrow> (go_error option \<times> 'w agent) option" where
  "agent_AddRoot fuel an path ag =
     (case (ag_conn ag, ag_keys ag) of
        (Some conn, Some keys) \<Rightarrow>
          if cg_WorkspaceID (ag_cfg ag) = [] then Some (Some not_connected, ag)
          else on_daemon ag (map_option (\<lambda>(e, reported, d). (e, d))
                 (AddRootWithProgress fuel (connected_env an ag keys conn) path (ag_daemon ag)))
      | _ \<Rightarrow> Some (Some not_connected, ag))"

definition agent_RemoveRoot ::
  "nat \<Rightarrow> 'w agent_env \<Rightarrow> string \<Rightarrow> 'w agent \<Rightarrow> (go_error option \<times> 'w agent) option" where
  "agent_RemoveRoot fuel an path ag =
     (case (ag_conn ag, ag_keys ag) of
        (Some conn, Some keys) \<Rightarrow>
          on_daemon ag (RemoveRoot fuel (connected_env an ag keys conn) path (ag_daemon ag))
      | _ \<Rightarrow> Some (Some not_connected, ag))"

definition done_rpc :: "go_error option \<Rightarrow> go_error + rpc_result" where
  "done_rpc e = (case e of None \<Rightarrow> Inr NoResult | Some e \<Rightarrow> Inl e)"

definition dispatchRPC ::
  "nat \<Rightarrow> 'w rpc_env \<Rightarrow> rpc_request \<Rightarrow> 'w agent \<Rightarrow> ((go_error + rpc_result) \<times> 'w agent) option" where
  "dispatchRPC fuel rp req ag =
     (let an = rp_agent rp; m = rq_Method req in
      if m = ''connect'' then
        (case rp_connect rp (rq_Params req) of
           Inl e \<Rightarrow> Some (Inl e, ag)
         | Inr args \<Rightarrow> map_option (\<lambda>(r, ag1). (map_sum id ResultConnect r, ag1)) (Connect fuel an (rp_install rp) args ag))
      else if m = ''disconnect'' then
        Some (case DisconnectWithResponse an (rp_disable rp) ag of (r, ag1) \<Rightarrow> (map_sum id ResultDisconnect r, ag1))
      else if m = ''add'' then
        (case rp_path rp (rq_Params req) of
           Inl e \<Rightarrow> Some (Inl e, ag)
         | Inr path \<Rightarrow> map_option (\<lambda>(e, ag1). (done_rpc e, ag1)) (agent_AddRoot fuel an path ag))
      else if m = ''rm'' then
        (case rp_path rp (rq_Params req) of
           Inl e \<Rightarrow> Some (Inl e, ag)
         | Inr path \<Rightarrow> map_option (\<lambda>(e, ag1). (done_rpc e, ag1)) (agent_RemoveRoot fuel an path ag))
      else if m = ''status'' then
        Some (Inr (ResultStatus (case ExecutableID (agent_px an) (rp_image rp) of None \<Rightarrow> [] | Some i \<Rightarrow> i)
                (build_String (rp_build rp)) (Status (mc_db (ag_daemon ag)))), ag)
      else Some (Inl (Failed (''unknown method '' @ m)), ag))"

definition final_response :: "(go_error \<Rightarrow> string) \<Rightarrow> go_error + rpc_result \<Rightarrow> rpc_response" where
  "final_response describe r =
     (case r of
        Inl e \<Rightarrow> \<lparr>rr_OK = False, rr_Error = error_text describe e, rr_Result = NoResult, rr_Progress = None\<rparr>
      | Inr x \<Rightarrow> \<lparr>rr_OK = True, rr_Error = [], rr_Result = x, rr_Progress = None\<rparr>)"

definition progress_response :: "AddProgress \<Rightarrow> rpc_response" where
  "progress_response p = \<lparr>rr_OK = True, rr_Error = [], rr_Result = NoResult, rr_Progress = Some p\<rparr>"

text \<open>
  One connection: what is written to it, whether the daemon stops afterwards, and its
  next state.  A request that cannot be decoded is answered with the error.
\<close>

definition handleConn ::
  "nat \<Rightarrow> 'w rpc_env \<Rightarrow> go_error + rpc_request \<Rightarrow> 'w agent \<Rightarrow> (rpc_response list \<times> bool \<times> 'w agent) option" where
  "handleConn fuel rp incoming ag =
     (let describe = dv_describe (an_base (rp_agent rp)) in
      case incoming of
        Inl e \<Rightarrow> Some ([final_response describe (Inl e)], False, ag)
      | Inr req \<Rightarrow>
          map_option (\<lambda>(r, ag1).
            ((if rq_Progress req \<and> rq_Method req = ''add''
              then (case rp_path rp (rq_Params req) of Inl e \<Rightarrow> [] | Inr path \<Rightarrow> map progress_response (rp_progress rp path))
              else []) @ [final_response describe r],
             rq_Method req = ''disconnect'' \<and> isl r = False, ag1))
            (dispatchRPC fuel rp req ag))"

text \<open>What the client reads is what the daemon did: its result, or the text of its error.\<close>

lemma read_progress:
  "read_responses (map (Response \<circ> progress_response) ps @ items)
     = (fst (read_responses items), ps @ snd (read_responses items))"
  by (induction ps) (auto simp: progress_response_def split: prod.splits)

lemma read_final:
  "read_responses [Response (final_response describe r)] =
     ((case r of
         Inl e \<Rightarrow> Inl (Failed (if error_text describe e = [] then ''rpc failed'' else error_text describe e))
       | Inr x \<Rightarrow> Inr x), [])"
  by (simp add: final_response_def split: sum.splits)

lemma read_handled:
  assumes "handleConn fuel rp (Inr req) ag = Some (responses, stopping, ag')"
  obtains r where "dispatchRPC fuel rp req ag = Some (r, ag')"
    and "fst (read_responses (map Response responses)) =
      (case r of Inr x \<Rightarrow> Inr x | Inl e \<Rightarrow>
         (let t = error_text (dv_describe (an_base (rp_agent rp))) e in
          Inl (Failed (if t = [] then ''rpc failed'' else t))))"
    and "stopping \<longleftrightarrow> rq_Method req = ''disconnect'' \<and> (\<exists>x. r = Inr x)"
proof -
  from assms obtain r where r: "dispatchRPC fuel rp req ag = Some (r, ag')"
    by (auto simp: handleConn_def Let_def)
  obtain ps where ps: "responses = map progress_response ps
      @ [final_response (dv_describe (an_base (rp_agent rp))) r]"
    "stopping \<longleftrightarrow> rq_Method req = ''disconnect'' \<and> \<not> isl r"
    using assms r by (fastforce simp: handleConn_def Let_def split: if_splits sum.splits intro: that [of "[]"])
  have "fst (read_responses (map Response responses))
      = fst (read_responses [Response (final_response (dv_describe (an_base (rp_agent rp))) r)])"
    using read_progress [of ps "[Response (final_response (dv_describe (an_base (rp_agent rp))) r)]"] by (simp add: ps(1))
  then have "fst (read_responses (map Response responses)) =
      (case r of Inr x \<Rightarrow> Inr x | Inl e \<Rightarrow>
         (let t = error_text (dv_describe (an_base (rp_agent rp))) e in
          Inl (Failed (if t = [] then ''rpc failed'' else t))))"
    by (cases r) (simp_all only: read_final Let_def fst_conv sum.case)
  moreover have "\<not> isl r \<longleftrightarrow> (\<exists>x. r = Inr x)" by (cases r) simp_all
  ultimately show ?thesis using that [OF r] ps(2) by blast
qed

end
