(* ===== verification/UserService.thy ===== *)
theory UserService
  imports AgentRpc
begin

text \<open>
  The client's background service (\<^verbatim>\<open>internal/client/daemon/service.go\<close>): the systemd
  unit, and the commands run for it.  A \<open>host\<close> is the file system and what the process
  did to the rest of the machine, in order; \<open>outside\<close> answers for the rest of the
  machine, given what was done before.  White space outside ASCII is not trimmed here.
\<close>

datatype act = RanCommand "string list" | Signalled int int | Waited | Probed | Called rpc_request

record host =
  ho_fs :: fsys
  ho_acts :: "act list"
  ho_out :: "string list"
  ho_err :: "string list"

text \<open>\<open>NotListening\<close> is an absent or refusing socket, \<open>NotDialled\<close> another failure to connect.\<close>

datatype probe_answer = NotListening go_error | NotDialled go_error | Probe rpc_item

record outside =
  os_command :: "act list \<Rightarrow> string list \<Rightarrow> string \<times> go_error option"
  os_kill :: "act list \<Rightarrow> int \<Rightarrow> int \<Rightarrow> go_error option"
  os_cmdline :: "act list \<Rightarrow> int \<Rightarrow> go_error + bytes option"
  os_probe :: "act list \<Rightarrow> probe_answer"
  os_call :: "act list \<Rightarrow> rpc_request \<Rightarrow> go_error + rpc_item list"
  os_daemon :: "act list \<Rightarrow> go_error option"
  os_executable :: "go_error + string"
  os_lookup :: "string \<Rightarrow> go_error + string"
  os_arg0 :: string
  os_home :: "string option"
  os_cwd :: "string option"
  os_getpid :: int
  os_stdin :: string
  os_denied :: "string \<Rightarrow> bool"
  os_empty_dir :: "string \<Rightarrow> fsys \<Rightarrow> bool"
  os_partial :: "bytes \<Rightarrow> bytes option"
  os_write_link :: "string \<Rightarrow> bytes \<Rightarrow> fsys \<Rightarrow> go_error option \<times> fsys"
  os_stat_link :: "string \<Rightarrow> fsys \<Rightarrow> go_error + bool"
  os_config :: config_env
  os_faults :: faults
  os_random :: string
  os_describe :: "go_error \<Rightarrow> string"
  os_polls :: nat

definition act :: "act \<Rightarrow> host \<Rightarrow> host" where
  "act a h = h\<lparr>ho_acts := ho_acts h @ [a]\<rparr>"

definition and_then ::
  "(host \<Rightarrow> go_error option \<times> host) \<Rightarrow> (host \<Rightarrow> go_error option \<times> host) \<Rightarrow> host \<Rightarrow> go_error option \<times> host" where
  "and_then f g h = (case f h of (Some e, h1) \<Rightarrow> (Some e, h1) | (None, h1) \<Rightarrow> g h1)"

definition is_space :: "char \<Rightarrow> bool" where
  "is_space c \<longleftrightarrow> c \<in> {CHR '' '', CHR 0x09, CHR 0x0A, CHR 0x0B, CHR 0x0C, CHR 0x0D}"

definition TrimSpace :: "string \<Rightarrow> string" where
  "TrimSpace s = rev (dropWhile is_space (rev (dropWhile is_space s)))"

text \<open>\<^verbatim>\<open>strings.Join\<close>.\<close>

fun joined :: "string \<Rightarrow> string list \<Rightarrow> string" where
  "joined sep [] = []"
| "joined sep [x] = x"
| "joined sep (x # xs) = x @ sep @ joined sep xs"

definition runCommand :: "outside \<Rightarrow> string list \<Rightarrow> host \<Rightarrow> go_error option \<times> host" where
  "runCommand o' args h =
     (let (out, err) = os_command o' (ho_acts h) args; message = TrimSpace out in
      ((case err of
          None \<Rightarrow> None
        | Some e \<Rightarrow> Some (if message = [] then Wrapped (joined '' '' args) e
                         else Failed (joined '' '' args @ '': '' @ error_text (os_describe o') e @ '': '' @ message))),
       act (RanCommand args) h))"

definition systemctl :: "string list \<Rightarrow> string list" where
  "systemctl args = [''systemctl'', ''--user''] @ args"

definition unit_text :: "string \<Rightarrow> bytes" where
  "unit_text execPath = concat (map (\<lambda>line. line @ [CHR 0x0A])
     [''[Unit]'', ''Description=Syna user daemon'', ''After=default.target'', [],
      ''[Service]'', ''ExecStart='' @ execPath @ '' daemon'', ''Restart=on-failure'', [],
      ''[Install]'', ''WantedBy=default.target''])"

text \<open>\<^verbatim>\<open>os.WriteFile\<close>: a file is created or truncated, and a failing write leaves a part.\<close>

definition os_WriteFile :: "outside \<Rightarrow> string \<Rightarrow> bytes \<Rightarrow> fsys \<Rightarrow> go_error option \<times> fsys" where
  "os_WriteFile o' p content fs =
     (let (e, written) = (case os_partial o' content of None \<Rightarrow> (None, content) | Some b \<Rightarrow> (Some (OsFailed ''write''), b));
          stored = fs\<lparr>fs_tree := (fs_tree fs)(p \<mapsto> NodeFile), fs_data := (fs_data fs)(p \<mapsto> written)\<rparr> in
      case fs_tree fs p of
        None \<Rightarrow> if ft_create (os_faults o') \<or> fs_tree fs (Dir p) = None then (Some (OsFailed ''open''), fs) else (e, stored)
      | Some NodeFile \<Rightarrow> if ft_create (os_faults o') then (Some (OsFailed ''open''), fs) else (e, stored)
      | Some NodeDir \<Rightarrow> (Some (OsFailed ''is a directory''), fs)
      | Some _ \<Rightarrow> os_write_link o' p content fs)"

definition on_files :: "(fsys \<Rightarrow> go_error option \<times> fsys) \<Rightarrow> host \<Rightarrow> go_error option \<times> host" where
  "on_files f h = (case f (ho_fs h) of (e, fs) \<Rightarrow> (e, h\<lparr>ho_fs := fs\<rparr>))"

definition installUserServiceUnit :: "outside \<Rightarrow> ClientPaths \<Rightarrow> host \<Rightarrow> go_error option \<times> host" where
  "installUserServiceUnit o' paths h =
     (case os_executable o' of
        Inl e \<Rightarrow> (Some e, h)
      | Inr execPath \<Rightarrow>
          and_then (on_files (MkdirAll (Dir (pt_UnitFile paths))))
            (and_then (on_files (os_WriteFile o' (pt_UnitFile paths) (unit_text execPath)))
              (runCommand o' (systemctl [''daemon-reload'']))) h)"

definition InstallUserService :: "outside \<Rightarrow> ClientPaths \<Rightarrow> host \<Rightarrow> go_error option \<times> host" where
  "InstallUserService o' paths =
     and_then (installUserServiceUnit o' paths) (runCommand o' (systemctl [''enable'', ''--now'', ''syna.service'']))"

definition StartUserService :: "outside \<Rightarrow> ClientPaths \<Rightarrow> host \<Rightarrow> go_error option \<times> host" where
  "StartUserService o' paths =
     and_then (installUserServiceUnit o' paths) (runCommand o' (systemctl [''start'', ''syna.service'']))"

definition EnsureUserServiceEnabled :: "outside \<Rightarrow> ClientPaths \<Rightarrow> host \<Rightarrow> go_error option \<times> host" where
  "EnsureUserServiceEnabled o' paths h =
     (let args = systemctl [''is-enabled'', ''--quiet'', ''syna.service''];
          enabled = (snd (os_command o' (ho_acts h) args) = None); h1 = act (RanCommand args) h in
      if enabled then (None, h1)
      else and_then (installUserServiceUnit o' paths) (runCommand o' (systemctl [''enable'', ''syna.service''])) h1)"

definition load_config :: "outside \<Rightarrow> host \<Rightarrow> (go_error + ClientConfig) \<times> host" where
  "load_config o' h =
     (case LoadConfig (os_config o') (os_faults o') (os_random o') (ho_fs h) of (r, fs) \<Rightarrow> (r, h\<lparr>ho_fs := fs\<rparr>))"

definition auto_start :: "ClientConfig \<Rightarrow> bool" where
  "auto_start c \<longleftrightarrow> cg_DaemonAutoStart c \<and> cg_ServerURL c \<noteq> [] \<and> cg_WorkspaceID c \<noteq> []"

definition RefreshUserService :: "outside \<Rightarrow> ClientPaths \<Rightarrow> host \<Rightarrow> go_error option \<times> host" where
  "RefreshUserService o' paths h =
     (case load_config o' h of
        (Inl e, h1) \<Rightarrow> (Some e, h1)
      | (Inr c, h1) \<Rightarrow>
          and_then (installUserServiceUnit o' paths)
            (and_then (if auto_start c then runCommand o' (systemctl [''enable'', ''syna.service'']) else Pair None)
              (runCommand o' (systemctl [''restart'', ''syna.service'']))) h1)"

definition disableUserService :: "outside \<Rightarrow> host \<Rightarrow> go_error option \<times> host" where
  "disableUserService o' = runCommand o' (systemctl [''disable'', ''syna.service''])"

end
