(* ===== verification/Cli.thy ===== *)
theory Cli
  imports UserService
begin

text \<open>
  The command line of the client (\<^verbatim>\<open>cmd/syna/cli.go\<close>, \<^verbatim>\<open>cmd/syna/main.go\<close>): each command,
  from its arguments and the host to the error it ends with.  JSON of requests and of
  the status is a parameter; what is printed are lines.
\<close>

record cli =
  cl_outside :: outside
  cl_Paths :: ClientPaths
  cl_encode_connect :: "ConnectRequest \<Rightarrow> bytes"
  cl_encode_path :: "string \<Rightarrow> bytes"
  cl_print_status :: "rpc_result \<Rightarrow> string list \<Rightarrow> string"
  cl_build :: build
  cl_id :: "go_error + string"
  cl_usage :: "string list"

datatype cli_error = ExitCode int | CliFailed go_error

definition failed :: "go_error option \<times> host \<Rightarrow> cli_error option \<times> host" where
  "failed r = map_prod (map_option CliFailed) id r"

definition print_out :: "string list \<Rightarrow> host \<Rightarrow> host" where
  "print_out lines h = h\<lparr>ho_out := ho_out h @ lines\<rparr>"

definition print_warnings :: "string list \<Rightarrow> host \<Rightarrow> host" where
  "print_warnings warnings h = h\<lparr>ho_err := ho_err h @ map (\<lambda>w. ''warning: '' @ w) warnings\<rparr>"

definition usage :: "cli \<Rightarrow> host \<Rightarrow> cli_error option \<times> host" where
  "usage c h = (Some (ExitCode 2), print_out (cl_usage c) h)"

section \<open>Processes\<close>

definition ESRCH :: go_error where
  "ESRCH = OsFailed ''no such process''"

definition isNoSuchProcess :: "go_error option \<Rightarrow> bool" where
  "isNoSuchProcess e \<longleftrightarrow> (case e of None \<Rightarrow> False | Some e \<Rightarrow> unwrapped e = ESRCH)"

text \<open>A signal number 0 only asks whether the process exists.\<close>

definition processGone :: "outside \<Rightarrow> int \<Rightarrow> host \<Rightarrow> bool \<times> host" where
  "processGone o' pid h = (isNoSuchProcess (os_kill o' (ho_acts h) pid 0), act (Signalled pid 0) h)"

text \<open>\<^verbatim>\<open>Process.Signal\<close> of the standard library reports a process that is gone as an error of its own.\<close>

definition process_done :: go_error where
  "process_done = OsFailed ''os: process already finished''"

definition proc_Signal :: "outside \<Rightarrow> int \<Rightarrow> int \<Rightarrow> host \<Rightarrow> go_error option \<times> host" where
  "proc_Signal o' pid signal h =
     ((case os_kill o' (ho_acts h) pid signal of
         None \<Rightarrow> None | Some e \<Rightarrow> Some (if e = ESRCH then process_done else e)), act (Signalled pid signal) h)"

text \<open>Until the deadline; \<open>n\<close> is the number of rounds the clock leaves time for.\<close>

primrec waitForProcessExit :: "nat \<Rightarrow> outside \<Rightarrow> int \<Rightarrow> host \<Rightarrow> bool \<times> host" where
  "waitForProcessExit 0 o' pid h = processGone o' pid h"
| "waitForProcessExit (Suc n) o' pid h =
     (case processGone o' pid h of
        (True, h1) \<Rightarrow> (True, h1) | (False, h1) \<Rightarrow> waitForProcessExit n o' pid (act Waited h1))"

definition looks_like_daemon :: "bytes \<Rightarrow> bool" where
  "looks_like_daemon cmdline =
     (let fields = split_on (CHR 0x00) (trim_right (CHR 0x00) cmdline) in
      length fields \<ge> 2 \<and> ''daemon'' \<in> set (tl fields) \<and> Base (hd fields) = ''syna'')"

definition isSynaDaemonProcess :: "outside \<Rightarrow> int \<Rightarrow> host \<Rightarrow> go_error + bool" where
  "isSynaDaemonProcess o' pid h =
     (case os_cmdline o' (ho_acts h) pid of
        Inl e \<Rightarrow> Inl (Wrapped ''verify daemon pid'' e)
      | Inr None \<Rightarrow> Inr False
      | Inr (Some cmdline) \<Rightarrow> Inr (looks_like_daemon cmdline))"

definition SIGTERM :: int where "SIGTERM = 15"
definition SIGKILL :: int where "SIGKILL = 9"

definition stop_process :: "outside \<Rightarrow> int \<Rightarrow> host \<Rightarrow> go_error option \<times> host" where
  "stop_process o' pid h =
     (case proc_Signal o' pid SIGTERM h of
        (e1, h1) \<Rightarrow>
          if e1 \<noteq> None \<and> \<not> isNoSuchProcess e1 then (map_option (Wrapped ''stop daemon'') e1, h1)
          else (case waitForProcessExit (os_polls o') o' pid h1 of
             (True, h2) \<Rightarrow> (None, h2)
           | (False, h2) \<Rightarrow>
               (case proc_Signal o' pid SIGKILL h2 of
                  (e2, h3) \<Rightarrow>
                    if e2 \<noteq> None \<and> \<not> isNoSuchProcess e2 then (map_option (Wrapped ''kill daemon'') e2, h3)
                    else (case waitForProcessExit (os_polls o') o' pid h3 of
                       (True, h4) \<Rightarrow> (None, h4) | (False, h4) \<Rightarrow> (Some (Failed ''daemon did not exit''), h4)))))"

definition recorded_pid :: "outside \<Rightarrow> ClientPaths \<Rightarrow> host \<Rightarrow> go_error + int option" where
  "recorded_pid o' paths h =
     (case (fs_tree (ho_fs h) (pt_PIDFile paths), read_file (ce_link (os_config o')) (pt_PIDFile paths) (ho_fs h)) of
        (None, _) \<Rightarrow> Inr None
      | (Some NodeSymlink, None) \<Rightarrow> Inr None
      | (Some _, None) \<Rightarrow> Inl (Wrapped ''read daemon pid file'' (OsFailed ''read''))
      | (Some _, Some b) \<Rightarrow>
          let pidText = TrimSpace b in
          if pidText = [] then Inr None
          else case ParseInt64 pidText of
            None \<Rightarrow> Inl (Failed ''invalid daemon pid'')
          | Some pid \<Rightarrow> if pid \<le> 0 then Inl (Failed ''invalid daemon pid'') else Inr (Some pid))"

definition terminateRecordedDaemon :: "outside \<Rightarrow> ClientPaths \<Rightarrow> host \<Rightarrow> go_error option \<times> host" where
  "terminateRecordedDaemon o' paths h =
     (case recorded_pid o' paths h of
        Inl e \<Rightarrow> (Some e, h)
      | Inr None \<Rightarrow> (None, h)
      | Inr (Some pid) \<Rightarrow>
          if pid = os_getpid o' then (None, h)
          else case processGone o' pid h of
            (True, h1) \<Rightarrow> (None, h1)
          | (False, h1) \<Rightarrow>
              (case isSynaDaemonProcess o' pid h1 of
                 Inl e \<Rightarrow> (Some e, h1)
               | Inr False \<Rightarrow> (Some (Failed ''refusing to stop a process that does not look like a Syna daemon''), h1)
               | Inr True \<Rightarrow> stop_process o' pid h1))"

section \<open>Files\<close>

datatype removal = Removed | WasMissing | PermissionDenied | NotRemoved

text \<open>\<^verbatim>\<open>os.Remove\<close>: a directory that is not empty stays.\<close>

definition os_Remove :: "outside \<Rightarrow> string \<Rightarrow> fsys \<Rightarrow> removal \<times> fsys" where
  "os_Remove o' p fs =
     (if fs_tree fs p = None then (WasMissing, fs)
      else if os_denied o' p then (PermissionDenied, fs)
      else if fs_tree fs p = Some NodeDir \<and> \<not> os_empty_dir o' p fs then (NotRemoved, fs)
      else (Removed, Remove p fs))"

fun remove_all_of :: "outside \<Rightarrow> string list \<Rightarrow> host \<Rightarrow> go_error option \<times> host" where
  "remove_all_of o' [] h = (None, h)"
| "remove_all_of o' (p # ps) h =
     (if os_denied o' p then (Some (Wrapped ''remove'' (OsFailed p)), h)
      else remove_all_of o' ps (h\<lparr>ho_fs := RemoveAll p (ho_fs h)\<rparr>))"

definition removeClientData :: "outside \<Rightarrow> ClientPaths \<Rightarrow> host \<Rightarrow> go_error option \<times> host" where
  "removeClientData o' paths = remove_all_of o' [pt_ConfigDir paths, pt_StateDir paths]"

text \<open>With the privileges of \<^verbatim>\<open>sudo\<close> the removal is a command.\<close>

definition removeBinaryPath :: "outside \<Rightarrow> string \<Rightarrow> host \<Rightarrow> go_error option \<times> host" where
  "removeBinaryPath o' path h =
     (case os_Remove o' path (ho_fs h) of
        (Removed, fs) \<Rightarrow> (None, h\<lparr>ho_fs := fs\<rparr>)
      | (WasMissing, fs) \<Rightarrow> (None, h)
      | (NotRemoved, fs) \<Rightarrow> (Some (Wrapped ''remove binary'' (OsFailed path)), h)
      | (PermissionDenied, fs) \<Rightarrow>
          (case os_lookup o' ''sudo'' of
             Inl e \<Rightarrow> (Some (Failed (''remove binary '' @ path @ '': permission denied; remove it with sudo'')), h)
           | Inr sudo \<Rightarrow>
               (case runCommand o' [''sudo'', ''rm'', ''-f'', ''--'', path] h of
                  (e, h1) \<Rightarrow> (map_option (Wrapped (''remove binary '' @ path @ '' with sudo'')) e, h1))))"

fun remove_binaries :: "outside \<Rightarrow> string list \<Rightarrow> host \<Rightarrow> go_error option \<times> host" where
  "remove_binaries o' [] h = (None, h)"
| "remove_binaries o' (p # ps) h = and_then (removeBinaryPath o' p) (remove_binaries o' ps) h"

definition binary_paths :: "outside \<Rightarrow> go_error + string list" where
  "binary_paths o' =
     (case os_executable o' of
        Inl e \<Rightarrow> Inl e
      | Inr exe \<Rightarrow>
          (case Abs (os_cwd o') exe of
             Inl e \<Rightarrow> Inl (PathFailed e)
           | Inr execPath \<Rightarrow>
               (case os_lookup o' (os_arg0 o') of
                  Inl e \<Rightarrow> Inr [execPath]
                | Inr found \<Rightarrow>
                    (case Abs (os_cwd o') found of
                       Inl e \<Rightarrow> Inr [execPath]
                     | Inr p \<Rightarrow> Inr (if p = execPath then [execPath] else [execPath, p])))))"

definition removeCurrentBinary :: "outside \<Rightarrow> host \<Rightarrow> (go_error + string list) \<times> host" where
  "removeCurrentBinary o' h =
     (case binary_paths o' of
        Inl e \<Rightarrow> (Inl e, h)
      | Inr ps \<Rightarrow> (case remove_binaries o' ps h of (Some e, h1) \<Rightarrow> (Inl e, h1) | (None, h1) \<Rightarrow> (Inr ps, h1)))"

definition the_errors :: "go_error option list \<Rightarrow> go_error list" where
  "the_errors es = map the (filter (\<lambda>e. e \<noteq> None) es)"

text \<open>The warning of an incomplete clean-up, empty when there is none.\<close>

definition removeUserServiceIfPresent :: "outside \<Rightarrow> ClientPaths \<Rightarrow> host \<Rightarrow> (go_error + string) \<times> host" where
  "removeUserServiceIfPresent o' paths h =
     (let unit = pt_UnitFile paths; fs = ho_fs h;
          present = (case fs_tree fs unit of
             None \<Rightarrow> Inr False | Some NodeSymlink \<Rightarrow> os_stat_link o' unit fs | Some _ \<Rightarrow> Inr True) in
      case present of
        Inl e \<Rightarrow> (Inl (Wrapped ''could not inspect user service'' e), h)
      | Inr False \<Rightarrow> (Inr [], h)
      | Inr True \<Rightarrow>
          (case runCommand o' (systemctl [''disable'', ''--now'', ''syna.service'']) h of
             (e1, h1) \<Rightarrow>
               (case os_Remove o' unit (ho_fs h1) of
                  (r, fs1) \<Rightarrow>
                    if r = PermissionDenied \<or> r = NotRemoved then
                      (Inl (Wrapped (''remove user service '' @ unit) (OsFailed ''remove'')), h1)
                    else (case runCommand o' (systemctl [''daemon-reload'']) (h1\<lparr>ho_fs := fs1\<rparr>) of
                       (e2, h2) \<Rightarrow>
                         (let problems = map (error_text (os_describe o')) (the_errors [e1, e2]) in
                          (Inr (if problems = [] then [] else ''systemd cleanup was incomplete: '' @ joined ''; '' problems),
                           h2))))))"


section \<open>Reaching the daemon\<close>

datatype probe_error = DaemonNotRunning go_error | ProbeFailed go_error

definition probeSocket :: "outside \<Rightarrow> host \<Rightarrow> probe_error option \<times> host" where
  "probeSocket o' h =
     ((case os_probe o' (ho_acts h) of
         NotListening e \<Rightarrow> Some (DaemonNotRunning e)
       | NotDialled e \<Rightarrow> Some (ProbeFailed e)
       | Probe (Undecodable e) \<Rightarrow> Some (ProbeFailed e)
       | Probe (Response r) \<Rightarrow>
           if rr_OK r then None
           else Some (ProbeFailed (Failed (if rr_Error r = [] then ''daemon status RPC failed'' else rr_Error r)))),
      act Probed h)"

fun probe_failure :: "probe_error \<Rightarrow> go_error" where
  "probe_failure (DaemonNotRunning e) = Wrapped ''daemon is not listening'' e"
| "probe_failure (ProbeFailed e) = e"

primrec waitForSocket :: "nat \<Rightarrow> outside \<Rightarrow> probe_error option \<Rightarrow> host \<Rightarrow> go_error option \<times> host" where
  "waitForSocket 0 o' lastErr h =
     (Some (case lastErr of Some e \<Rightarrow> probe_failure e | None \<Rightarrow> Failed ''daemon socket did not appear''), h)"
| "waitForSocket (Suc n) o' lastErr h =
     (case probeSocket o' h of
        (None, h1) \<Rightarrow> (None, h1) | (Some e, h1) \<Rightarrow> waitForSocket n o' (Some e) (act Waited h1))"

definition start_daemon :: "outside \<Rightarrow> ClientPaths \<Rightarrow> host \<Rightarrow> go_error option \<times> host" where
  "start_daemon o' paths h =
     (case StartUserService o' paths h of
        (Some e, h1) \<Rightarrow> (Some (Wrapped ''cannot start Syna daemon with user systemd'' e), h1)
      | (None, h1) \<Rightarrow>
          (case waitForSocket (os_polls o') o' None h1 of
             (e, h2) \<Rightarrow> (map_option (Wrapped
                ''cannot start Syna daemon with user systemd: service started but daemon did not answer'') e, h2)))"

definition enable_service :: "outside \<Rightarrow> ClientPaths \<Rightarrow> ClientConfig \<Rightarrow> host \<Rightarrow> host" where
  "enable_service o' paths c h =
     (if \<not> auto_start c then h
      else case EnsureUserServiceEnabled o' paths h of
        (None, h1) \<Rightarrow> h1
      | (Some e, h1) \<Rightarrow> print_warnings [''background service could not be enabled: '' @ error_text (os_describe o') e] h1)"

definition ensureSocket :: "outside \<Rightarrow> ClientPaths \<Rightarrow> host \<Rightarrow> go_error option \<times> host" where
  "ensureSocket o' paths h =
     (case on_files (EnsureClientDirs paths) h of
        (Some e, h1) \<Rightarrow> (Some e, h1)
      | (None, h1) \<Rightarrow>
     (case load_config o' h1 of
        (Inl e, h2) \<Rightarrow> (Some e, h2)
      | (Inr c, h2) \<Rightarrow>
     (case probeSocket o' h2 of
        (Some (ProbeFailed e), h3) \<Rightarrow> (Some (Wrapped ''daemon status probe failed'' e), h3)
      | (None, h3) \<Rightarrow> (None, enable_service o' paths c h3)
      | (Some (DaemonNotRunning e), h3) \<Rightarrow>
          let h4 = enable_service o' paths c h3 in
          if \<not> cg_DaemonAutoStart c then
            (Some (Failed ''daemon socket is absent and auto-start is disabled; run `syna daemon` manually''), h4)
          else start_daemon o' paths h4)))"

text \<open>A call over the socket, once there is one: its result and the reports of progress.\<close>

definition call_daemon ::
  "cli \<Rightarrow> string \<Rightarrow> bytes \<Rightarrow> bool \<Rightarrow> host \<Rightarrow> (go_error + rpc_result) \<times> AddProgress list \<times> host" where
  "call_daemon c m params streamProgress h =
     (let o' = cl_outside c; req = \<lparr>rq_Method = m, rq_Params = params, rq_Progress = streamProgress\<rparr> in
      case os_call o' (ho_acts h) req of
        Inl e \<Rightarrow> (Inl e, [], act (Called req) h)
      | Inr items \<Rightarrow> (case read_responses items of (r, ps) \<Rightarrow> (r, ps, act (Called req) h)))"

definition with_daemon ::
  "cli \<Rightarrow> (host \<Rightarrow> cli_error option \<times> host) \<Rightarrow> host \<Rightarrow> cli_error option \<times> host" where
  "with_daemon c f h =
     (case ensureSocket (cl_outside c) (cl_Paths c) h of
        (Some e, h1) \<Rightarrow> (Some (CliFailed e), h1) | (None, h1) \<Rightarrow> f h1)"

section \<open>Commands\<close>

definition stored_key :: "cli \<Rightarrow> string \<Rightarrow> host \<Rightarrow> go_error + string" where
  "stored_key c missing h =
     (case LoadKeyring (os_config (cl_outside c)) (ho_fs h) of
        Inl e \<Rightarrow> Inl e
      | Inr k \<Rightarrow> if ky_WorkspaceKey k = [] then Inl (Failed missing) else Inr (ky_WorkspaceKey k))"

text \<open>\<open>bufio\<close>'s first line of the standard input.\<close>

definition connect_recovery_key :: "cli \<Rightarrow> bool \<Rightarrow> host \<Rightarrow> go_error + string" where
  "connect_recovery_key c recreate h =
     (if recreate then stored_key c ''no retained recovery key is available'' h
      else Inr (TrimSpace (takeWhile (\<lambda>ch. ch \<noteq> CHR 0x0A) (os_stdin (cl_outside c)))))"

definition connect_answer :: "rpc_result \<Rightarrow> string \<times> string list" where
  "connect_answer r = (case r of ResultConnect resp \<Rightarrow> (cp_GeneratedRecoveryKey resp, cp_Warnings resp) | _ \<Rightarrow> ([], []))"

definition connectCommand :: "cli \<Rightarrow> string list \<Rightarrow> host \<Rightarrow> cli_error option \<times> host" where
  "connectCommand c args h =
     (let recreate = (args \<noteq> [] \<and> hd args = ''--recreate'') in
      if recreate \<and> length args \<noteq> 2 \<or> \<not> recreate \<and> length args \<noteq> 1 then usage c h
      else with_daemon c (\<lambda>h1.
        case connect_recovery_key c recreate h1 of
          Inl e \<Rightarrow> (Some (CliFailed e), h1)
        | Inr key \<Rightarrow>
            (case call_daemon c ''connect'' (cl_encode_connect c
                    \<lparr>cq_ServerURL = last args, cq_RecoveryKey = key, cq_Recreate = recreate\<rparr>) False
                    (if recreate then h1
                     else print_out [''Recovery key (leave blank to create a new workspace): ''] h1) of
               (Inl e, ps, h2) \<Rightarrow> (Some (CliFailed e), h2)
             | (Inr r, ps, h2) \<Rightarrow>
                 (case connect_answer r of (generated, warnings) \<Rightarrow>
                    (None, print_warnings warnings (print_out
                      (if generated \<noteq> []
                       then [[], ''Your secret key: '' @ generated, [],
                             ''Use it to connect other devices and don't share it with anyone!'']
                       else [''Connection established!'']) h2))))) h)"

definition disconnectCommand :: "cli \<Rightarrow> string list \<Rightarrow> host \<Rightarrow> cli_error option \<times> host" where
  "disconnectCommand c args = with_daemon c (\<lambda>h1.
     case call_daemon c ''disconnect'' [] False h1 of
       (Inl e, ps, h2) \<Rightarrow> (Some (CliFailed e), h2)
     | (Inr r, ps, h2) \<Rightarrow>
         (None, print_warnings (case r of ResultDisconnect ws \<Rightarrow> ws | _ \<Rightarrow> [])
            (print_out [''Successfully disconnected this device. Local files were left untouched.''] h2)))"

definition keyCommand :: "cli \<Rightarrow> string list \<Rightarrow> host \<Rightarrow> cli_error option \<times> host" where
  "keyCommand c args h =
     (if args \<noteq> [''show''] then usage c h
      else case stored_key c ''no recovery key is stored; connect to a workspace first'' h of
        Inl e \<Rightarrow> (Some (CliFailed e), h) | Inr key \<Rightarrow> (None, print_out [key] h))"

definition home_expanded :: "outside \<Rightarrow> string \<Rightarrow> go_error + string" where
  "home_expanded o' input =
     (if input = ''~'' \<or> prefix ''~/'' input then
        (case os_home o' of
           None \<Rightarrow> Inl (OsFailed ''home directory'')
         | Some home \<Rightarrow> Inr (if input = ''~'' then home else Join [home, drop 2 input]))
      else Inr input)"

definition resolvePathArg :: "outside \<Rightarrow> string \<Rightarrow> go_error + string" where
  "resolvePathArg o' input =
     (case home_expanded o' input of
        Inl e \<Rightarrow> Inl e
      | Inr p \<Rightarrow> if IsAbs p then Inr (Clean p) else map_sum PathFailed id (Abs (os_cwd o') p))"

definition path_command ::
  "cli \<Rightarrow> string \<Rightarrow> bool \<Rightarrow> string list \<Rightarrow> host \<Rightarrow> (cli_error option \<times> AddProgress list) \<times> host" where
  "path_command c m streamProgress args h =
     (if length args \<noteq> 1 then (case usage c h of (e, h1) \<Rightarrow> ((e, []), h1))
      else case resolvePathArg (cl_outside c) (hd args) of
        Inl e \<Rightarrow> ((Some (CliFailed e), []), h)
      | Inr path \<Rightarrow>
          (case ensureSocket (cl_outside c) (cl_Paths c) h of
             (Some e, h1) \<Rightarrow> ((Some (CliFailed e), []), h1)
           | (None, h1) \<Rightarrow>
               (case call_daemon c m (cl_encode_path c path) streamProgress h1 of
                  (Inl e, ps, h2) \<Rightarrow> ((Some (CliFailed e), ps), h2) | (Inr r, ps, h2) \<Rightarrow> ((None, ps), h2))))"

text \<open>The reports of an \<open>add\<close> go to the progress bar, which is not modelled; \<open>cl_print_status\<close> is the JSON of a
  status with the warnings appended to its own.\<close>

definition addCommand :: "cli \<Rightarrow> string list \<Rightarrow> host \<Rightarrow> cli_error option \<times> host" where
  "addCommand c args h = (case path_command c ''add'' True args h of ((e, ps), h1) \<Rightarrow> (e, h1))"

definition removeCommand :: "cli \<Rightarrow> string list \<Rightarrow> host \<Rightarrow> cli_error option \<times> host" where
  "removeCommand c args h = (case path_command c ''rm'' False args h of ((e, ps), h1) \<Rightarrow> (e, h1))"

definition serviceCommand :: "cli \<Rightarrow> string list \<Rightarrow> host \<Rightarrow> cli_error option \<times> host" where
  "serviceCommand c args h =
     (if args \<noteq> [''refresh''] then (Some (CliFailed (Failed ''usage: syna service refresh'')), h)
      else failed (RefreshUserService (cl_outside c) (cl_Paths c) h))"

definition status_warnings :: "cli \<Rightarrow> string \<Rightarrow> string \<Rightarrow> string list" where
  "status_warnings c daemonID daemonVersion =
     (case cl_id c of
        Inl e \<Rightarrow> [''could not identify CLI executable: '' @ error_text (os_describe (cl_outside c)) e]
      | Inr executableID \<Rightarrow>
          if daemonID = [] then
            [''cannot verify running daemon executable (older daemon or unavailable executable identity); run `syna service refresh` to restart using this binary'']
          else if daemonID \<noteq> executableID \<or> daemonVersion \<noteq> build_String (cl_build c) then
            [''running daemon executable ('' @ (if daemonVersion = [] then ''unknown (older daemon)'' else daemonVersion)
             @ '') differs from CLI ('' @ build_String (cl_build c)
             @ ''); run `syna service refresh` to restart using this binary'']
          else [])"

definition daemon_identity :: "rpc_result \<Rightarrow> string \<times> string" where
  "daemon_identity r = (case r of ResultStatus executableID version status \<Rightarrow> (executableID, version) | _ \<Rightarrow> ([], []))"

definition statusCommand :: "cli \<Rightarrow> string list \<Rightarrow> host \<Rightarrow> cli_error option \<times> host" where
  "statusCommand c args = with_daemon c (\<lambda>h1.
     case call_daemon c ''status'' [] False h1 of
       (Inl e, ps, h2) \<Rightarrow> (Some (CliFailed e), h2)
     | (Inr r, ps, h2) \<Rightarrow>
         (case daemon_identity r of (executableID, version) \<Rightarrow>
            (None, print_out [cl_print_status c r (status_warnings c executableID version)] h2)))"

definition uninstall_done :: "string list \<Rightarrow> string list" where
  "uninstall_done binaries =
     [''Removed Syna config, keyring, local state, daemon files, and user service.'']
     @ (if binaries = [] then [] else [''Removed Syna binary: '' @ joined '', '' binaries])
     @ [''Synced directories were left untouched.'']"

definition uninstallCommand :: "cli \<Rightarrow> string list \<Rightarrow> host \<Rightarrow> cli_error option \<times> host" where
  "uninstallCommand c args h =
     (let o' = cl_outside c; paths = cl_Paths c in
      if args \<noteq> [] then usage c h
      else case removeUserServiceIfPresent o' paths h of
        (Inl e, h1) \<Rightarrow> (Some (CliFailed e), h1)
      | (Inr warning, h1) \<Rightarrow>
     (case and_then (terminateRecordedDaemon o' paths) (removeClientData o' paths) h1 of
        (Some e, h2) \<Rightarrow> (Some (CliFailed e), h2)
      | (None, h2) \<Rightarrow>
     (case removeCurrentBinary o' h2 of
        (Inl e, h3) \<Rightarrow> (Some (CliFailed e), h3)
      | (Inr binaries, h3) \<Rightarrow>
          (None, print_out (uninstall_done binaries)
             (print_warnings (if warning = [] then [] else [warning]) h3)))))"

definition helpCommand :: "cli \<Rightarrow> string list \<Rightarrow> host \<Rightarrow> cli_error option \<times> host" where
  "helpCommand c args h = (None, print_out (cl_usage c) h)"

definition versionCommand :: "cli \<Rightarrow> string list \<Rightarrow> host \<Rightarrow> cli_error option \<times> host" where
  "versionCommand c args h = (None, print_out [''syna '' @ build_String (cl_build c)] h)"

text \<open>The daemon itself is the \<open>agent\<close>; here it is a process that ends with an error or without.\<close>

definition daemonCommand :: "cli \<Rightarrow> string list \<Rightarrow> host \<Rightarrow> cli_error option \<times> host" where
  "daemonCommand c args h = failed (os_daemon (cl_outside c) (ho_acts h), h)"

definition commands :: "(string \<times> (cli \<Rightarrow> string list \<Rightarrow> host \<Rightarrow> cli_error option \<times> host)) list" where
  "commands =
     [(''help'', helpCommand), (''-h'', helpCommand), (''--help'', helpCommand),
      (''version'', versionCommand), (''--version'', versionCommand), (''-version'', versionCommand),
      (''daemon'', daemonCommand), (''connect'', connectCommand), (''disconnect'', disconnectCommand),
      (''key'', keyCommand), (''add'', addCommand), (''rm'', removeCommand), (''status'', statusCommand),
      (''service'', serviceCommand), (''uninstall'', uninstallCommand)]"

definition run :: "cli \<Rightarrow> string list \<Rightarrow> host \<Rightarrow> cli_error option \<times> host" where
  "run c args h =
     (if length args = 1 then usage c h
      else case map_of commands (args ! 1) of None \<Rightarrow> usage c h | Some cmd \<Rightarrow> cmd c (drop 2 args) h)"

text \<open>The exit code of the process, and what it prints last.\<close>

definition client_main :: "cli \<Rightarrow> string list \<Rightarrow> host \<Rightarrow> int \<times> host" where
  "client_main c args h =
     (case run c args h of
        (None, h1) \<Rightarrow> (0, h1)
      | (Some (ExitCode n), h1) \<Rightarrow> (n, h1)
      | (Some (CliFailed e), h1) \<Rightarrow>
          (1, h1\<lparr>ho_err := ho_err h1 @ [''error: '' @ error_text (os_describe (cl_outside c)) e]\<rparr>))"


section \<open>Uninstalling\<close>

lemma unwrapped_process_done [simp]: "\<not> isNoSuchProcess (Some process_done)"
  by (simp add: isNoSuchProcess_def process_done_def ESRCH_def)

text \<open>
  A daemon that exits between the check that it runs and the signal makes the command
  fail, although it is gone: the standard library does not report \<^verbatim>\<open>ESRCH\<close> here, so
  the test for it never holds.
\<close>

lemma exited_daemon_fails_uninstall:
  assumes "os_kill o' (ho_acts h) pid SIGTERM = Some ESRCH"
  shows "stop_process o' pid h = (Some (Wrapped ''stop daemon'' process_done), act (Signalled pid SIGTERM) h)"
  using assms by (simp add: stop_process_def proc_Signal_def)

text \<open>What the removal of Syna may touch, and what the process may do to the machine.\<close>

definition syna_files :: "outside \<Rightarrow> ClientPaths \<Rightarrow> string \<Rightarrow> bool" where
  "syna_files o' paths p \<longleftrightarrow> p = pt_UnitFile paths
     \<or> (\<exists>d \<in> {pt_ConfigDir paths, pt_StateDir paths}. p = d \<or> prefix (d @ ''/'') p)
     \<or> (case binary_paths o' of Inl e \<Rightarrow> False | Inr ps \<Rightarrow> p \<in> set ps)"

definition harmless :: "outside \<Rightarrow> ClientPaths \<Rightarrow> act \<Rightarrow> bool" where
  "harmless o' paths a \<longleftrightarrow>
     (case a of
        RanCommand args \<Rightarrow> take 2 args = [''systemctl'', ''--user'']
          \<or> (\<exists>p. args = [''sudo'', ''rm'', ''-f'', ''--'', p] \<and> syna_files o' paths p)
      | Signalled pid signal \<Rightarrow> signal = 0
          \<or> (pid \<noteq> os_getpid o' \<and> (\<exists>acts cmdline. os_cmdline o' acts pid = Inr (Some cmdline) \<and> looks_like_daemon cmdline))
      | _ \<Rightarrow> True)"

definition within_syna :: "outside \<Rightarrow> ClientPaths \<Rightarrow> host \<Rightarrow> host \<Rightarrow> bool" where
  "within_syna o' paths h h' \<longleftrightarrow>
     (\<forall>p. \<not> syna_files o' paths p \<longrightarrow> fs_tree (ho_fs h') p = fs_tree (ho_fs h) p
        \<and> fs_data (ho_fs h') p = fs_data (ho_fs h) p \<and> fs_meta (ho_fs h') p = fs_meta (ho_fs h) p)
     \<and> (\<exists>acts. ho_acts h' = ho_acts h @ acts \<and> list_all (harmless o' paths) acts)"

lemma within_refl [simp]: "within_syna o' paths h h"
  by (simp add: within_syna_def)

lemma within_trans [trans]:
  assumes "within_syna o' paths h1 h2" and "within_syna o' paths h2 h3"
  shows "within_syna o' paths h1 h3"
proof -
  obtain a b where ab: "ho_acts h2 = ho_acts h1 @ a" "ho_acts h3 = ho_acts h2 @ b"
    "list_all (harmless o' paths) a" "list_all (harmless o' paths) b"
    using assms by (auto simp: within_syna_def)
  then have "ho_acts h3 = ho_acts h1 @ (a @ b)" "list_all (harmless o' paths) (a @ b)" by simp_all
  then show ?thesis using assms by (fastforce simp: within_syna_def)
qed


definition keeps :: "outside \<Rightarrow> ClientPaths \<Rightarrow> (host \<Rightarrow> 'a \<times> host) \<Rightarrow> bool" where
  "keeps o' paths f \<longleftrightarrow> (\<forall>h. within_syna o' paths h (snd (f h)))"

lemma keepsD: "keeps o' paths f \<Longrightarrow> f h = (x, h') \<Longrightarrow> within_syna o' paths h h'"
  unfolding keeps_def by (metis snd_conv)

lemma within_act: "harmless o' paths a \<Longrightarrow> within_syna o' paths h (act a h)"
  by (auto simp: within_syna_def act_def)

lemma within_print [simp]:
  "within_syna o' paths h (print_out ls h') = within_syna o' paths h h'"
  "within_syna o' paths h (print_warnings ws h') = within_syna o' paths h h'"
  by (simp_all add: within_syna_def print_out_def print_warnings_def)

lemma keeps_and_then: "keeps o' paths f \<Longrightarrow> keeps o' paths g \<Longrightarrow> keeps o' paths (and_then f g)"
  unfolding keeps_def and_then_def
  by (auto split: prod.splits option.splits) (metis within_trans snd_conv)+

lemma keeps_command:
  "take 2 args = [''systemctl'', ''--user''] \<or> (\<exists>p. args = [''sudo'', ''rm'', ''-f'', ''--'', p] \<and> syna_files o' paths p)
    \<Longrightarrow> keeps o' paths (runCommand o' args)"
  by (auto simp: keeps_def runCommand_def Let_def harmless_def intro!: within_act split: prod.splits)

lemma keeps_systemctl: "keeps o' paths (runCommand o' (systemctl args))"
  by (rule keeps_command) (simp add: systemctl_def)

lemma keeps_processGone: "keeps o' paths (processGone o' pid)"
  by (simp add: keeps_def processGone_def within_act harmless_def)

lemma within_Waited: "within_syna o' paths h (act Waited h)"
  by (simp add: within_act harmless_def)

lemma keeps_waitForProcessExit: "keeps o' paths (waitForProcessExit n o' pid)"
proof (induction n)
  case 0
  then show ?case using keeps_processGone by (simp add: keeps_def)
next
  case (Suc n)
  then show ?case
    using keeps_processGone [of o' paths pid] within_Waited unfolding keeps_def
    by (auto split: prod.splits bool.splits) (metis within_trans snd_conv)+
qed

definition is_daemon :: "outside \<Rightarrow> int \<Rightarrow> bool" where
  "is_daemon o' pid \<longleftrightarrow> pid \<noteq> os_getpid o'
     \<and> (\<exists>acts cmdline. os_cmdline o' acts pid = Inr (Some cmdline) \<and> looks_like_daemon cmdline)"

lemma keeps_proc_Signal: "is_daemon o' pid \<Longrightarrow> keeps o' paths (proc_Signal o' pid signal)"
  by (auto simp: keeps_def proc_Signal_def is_daemon_def harmless_def intro!: within_act)

lemma keeps_stop_process:
  assumes "is_daemon o' pid"
  shows "keeps o' paths (stop_process o' pid)"
  unfolding keeps_def
proof
  fix h :: host
  obtain e1 h1 where 1: "proc_Signal o' pid SIGTERM h = (e1, h1)" by fastforce
  obtain b2 h2 where 2: "waitForProcessExit (os_polls o') o' pid h1 = (b2, h2)" by fastforce
  obtain e3 h3 where 3: "proc_Signal o' pid SIGKILL h2 = (e3, h3)" by fastforce
  obtain b4 h4 where 4: "waitForProcessExit (os_polls o') o' pid h3 = (b4, h4)" by fastforce
  have c: "within_syna o' paths h h1" "within_syna o' paths h1 h2" "within_syna o' paths h2 h3" "within_syna o' paths h3 h4"
    using keepsD [OF keeps_proc_Signal [OF assms]] 1 3 keepsD [OF keeps_waitForProcessExit] 2 4 by blast+
  then have "within_syna o' paths h h2" "within_syna o' paths h h3" "within_syna o' paths h h4"
    by (meson within_trans)+
  then show "within_syna o' paths h (snd (stop_process o' pid h))"
    using c(1) by (simp add: stop_process_def 1 2 3 4 split: bool.splits)
qed

lemma keeps_terminate: "keeps o' paths (terminateRecordedDaemon o' paths')"
  unfolding keeps_def
proof
  fix h :: host
  show "within_syna o' paths h (snd (terminateRecordedDaemon o' paths' h))"
  proof (cases "\<exists>pid. recorded_pid o' paths' h = Inr (Some pid) \<and> pid \<noteq> os_getpid o'")
    case False
    then show ?thesis by (auto simp: terminateRecordedDaemon_def split: sum.splits option.splits)
  next
    case True
    then obtain pid where pid: "recorded_pid o' paths' h = Inr (Some pid)" "pid \<noteq> os_getpid o'" by blast
    obtain gone h1 where g: "processGone o' pid h = (gone, h1)" by fastforce
    have c: "within_syna o' paths h h1" using keepsD [OF keeps_processGone g] .
    show ?thesis
    proof (cases "\<not> gone \<and> isSynaDaemonProcess o' pid h1 = Inr True")
      case False
      then show ?thesis
        using c by (auto simp: terminateRecordedDaemon_def pid g split: sum.splits bool.splits)
    next
      case True
      then have "is_daemon o' pid"
        using pid(2) by (auto simp: is_daemon_def isSynaDaemonProcess_def split: sum.splits option.splits)
      then have "within_syna o' paths h1 (snd (stop_process o' pid h1))"
        using keeps_stop_process by (simp add: keeps_def)
      with True c show ?thesis
        by (auto simp: terminateRecordedDaemon_def pid g intro: within_trans)
    qed
  qed
qed

lemma within_files:
  assumes "\<And>p. \<not> syna_files o' paths p \<Longrightarrow> fs_tree fs p = fs_tree (ho_fs h) p
    \<and> fs_data fs p = fs_data (ho_fs h) p \<and> fs_meta fs p = fs_meta (ho_fs h) p"
  shows "within_syna o' paths h (h\<lparr>ho_fs := fs\<rparr>)"
  using assms by (simp add: within_syna_def)

lemma within_os_Remove:
  assumes "syna_files o' paths p" and "os_Remove o' p (ho_fs h) = (r, fs)"
  shows "within_syna o' paths h (h\<lparr>ho_fs := fs\<rparr>)"
  using assms by (intro within_files) (auto simp: os_Remove_def Remove_def split: if_splits)

lemma keeps_removeClientData: "keeps o' paths (removeClientData o' paths)"
proof -
  have "within_syna o' paths h (snd (remove_all_of o' ds h))"
    if "set ds \<subseteq> {pt_ConfigDir paths, pt_StateDir paths}" for ds h
    using that
  proof (induction ds arbitrary: h)
    case (Cons d ds)
    have "within_syna o' paths h (h\<lparr>ho_fs := RemoveAll d (ho_fs h)\<rparr>)"
      using Cons.prems by (intro within_files) (auto simp: RemoveAll_def syna_files_def)
    with Cons.IH [of "h\<lparr>ho_fs := RemoveAll d (ho_fs h)\<rparr>"] Cons.prems show ?case
      by (auto intro: within_trans)
  qed simp
  note all = this
  have "within_syna o' paths h (snd (remove_all_of o' [pt_ConfigDir paths, pt_StateDir paths] h))" for h
    by (rule all) simp
  then show ?thesis unfolding keeps_def removeClientData_def by blast
qed

lemma keeps_removeBinaryPath:
  assumes "syna_files o' paths path"
  shows "keeps o' paths (removeBinaryPath o' path)"
  unfolding keeps_def
proof
  fix h :: host
  obtain r fs where r: "os_Remove o' path (ho_fs h) = (r, fs)" by fastforce
  have "within_syna o' paths h (snd (runCommand o' [''sudo'', ''rm'', ''-f'', ''--'', path] h))"
    using keeps_command [of "[''sudo'', ''rm'', ''-f'', ''--'', path]" o' paths] assms by (simp add: keeps_def)
  then show "within_syna o' paths h (snd (removeBinaryPath o' path h))"
    using within_os_Remove [OF assms r]
    by (auto simp: removeBinaryPath_def r split: removal.splits sum.splits prod.splits)
qed

lemma keeps_removeCurrentBinary: "keeps o' paths (removeCurrentBinary o')"
proof (cases "binary_paths o'")
  case (Inr ps)
  have "keeps o' paths (remove_binaries o' qs)" if "set qs \<subseteq> set ps" for qs
    using that
  proof (induction qs)
    case (Cons q qs)
    then have "syna_files o' paths q" by (auto simp: syna_files_def Inr)
    with Cons keeps_and_then [OF keeps_removeBinaryPath] show ?case by (auto simp: keeps_def)
  qed (simp add: keeps_def)
  then show ?thesis
    by (auto simp: keeps_def removeCurrentBinary_def Inr split: prod.splits option.splits) (metis order_refl snd_conv)+
qed (simp add: keeps_def removeCurrentBinary_def)

lemma keeps_removeUserService: "keeps o' paths (removeUserServiceIfPresent o' paths)"
  unfolding keeps_def
proof
  fix h :: host
  let ?unit = "pt_UnitFile paths"
  obtain e1 h1 where 1: "runCommand o' (systemctl [''disable'', ''--now'', ''syna.service'']) h = (e1, h1)" by fastforce
  obtain r fs where 2: "os_Remove o' ?unit (ho_fs h1) = (r, fs)" by fastforce
  obtain e3 h3 where 3: "runCommand o' (systemctl [''daemon-reload'']) (h1\<lparr>ho_fs := fs\<rparr>) = (e3, h3)" by fastforce
  have "syna_files o' paths ?unit" by (simp add: syna_files_def)
  then have "within_syna o' paths h h1" "within_syna o' paths h1 (h1\<lparr>ho_fs := fs\<rparr>)"
    "within_syna o' paths (h1\<lparr>ho_fs := fs\<rparr>) h3"
    using keepsD [OF keeps_systemctl 1] within_os_Remove 2 keepsD [OF keeps_systemctl 3] by blast+
  then have "within_syna o' paths h h1" "within_syna o' paths h h3" by (meson within_trans)+
  then show "within_syna o' paths h (snd (removeUserServiceIfPresent o' paths h))"
    by (auto simp: removeUserServiceIfPresent_def Let_def 1 2 3 split: sum.splits bool.splits)
qed

lemma uninstall_contained:
  "within_syna (cl_outside c) (cl_Paths c) h (snd (uninstallCommand c args h))"
proof -
  let ?o = "cl_outside c" and ?p = "cl_Paths c"
  obtain w h1 where 1: "removeUserServiceIfPresent ?o ?p h = (w, h1)" by fastforce
  obtain e h2 where 2: "and_then (terminateRecordedDaemon ?o ?p) (removeClientData ?o ?p) h1 = (e, h2)" by fastforce
  obtain b h3 where 3: "removeCurrentBinary ?o h2 = (b, h3)" by fastforce
  have "within_syna ?o ?p h h1" "within_syna ?o ?p h1 h2" "within_syna ?o ?p h2 h3"
    using keepsD [OF keeps_removeUserService 1] keepsD [OF keeps_and_then [OF keeps_terminate keeps_removeClientData] 2]
      keepsD [OF keeps_removeCurrentBinary 3] by blast+
  then have "within_syna ?o ?p h h1" "within_syna ?o ?p h h2" "within_syna ?o ?p h h3" by (meson within_trans)+
  then show ?thesis
    by (auto simp: uninstallCommand_def usage_def Let_def 1 2 3 split: sum.splits option.splits)
qed


text \<open>What is removed stays removed.\<close>

definition in_dirs :: "ClientPaths \<Rightarrow> string \<Rightarrow> bool" where
  "in_dirs paths q \<longleftrightarrow> (\<exists>d \<in> {pt_ConfigDir paths, pt_StateDir paths}. q = d \<or> prefix (d @ ''/'') q)"

lemma removeClientData_removes:
  assumes "removeClientData o' paths h = (None, h')" and "in_dirs paths q"
  shows "fs_tree (ho_fs h') q = None"
  using assms by (auto simp: removeClientData_def in_dirs_def RemoveAll_def split: if_splits)

lemma remove_binaries_only_removes:
  assumes "remove_binaries o' ps h = (e, h')" and "fs_tree (ho_fs h) q = None"
  shows "fs_tree (ho_fs h') q = None"
  using assms
proof (induction ps arbitrary: h)
  case (Cons p ps)
  obtain e1 h1 where 1: "removeBinaryPath o' p h = (e1, h1)" by fastforce
  have "fs_tree (ho_fs h1) q = None"
    using 1 Cons.prems(2)
    by (auto simp: removeBinaryPath_def os_Remove_def Remove_def runCommand_def act_def Let_def
        split: prod.splits removal.splits sum.splits if_splits)
  with Cons 1 show ?case by (auto simp: and_then_def split: option.splits)
qed simp

lemma removeCurrentBinary_only_removes:
  "removeCurrentBinary o' h = (r, h') \<Longrightarrow> fs_tree (ho_fs h) q = None \<Longrightarrow> fs_tree (ho_fs h') q = None"
  using remove_binaries_only_removes
  by (fastforce simp: removeCurrentBinary_def split: sum.splits prod.splits option.splits)

lemma uninstall_complete:
  assumes "uninstallCommand c args h = (None, h')" and "in_dirs (cl_Paths c) q"
  shows "fs_tree (ho_fs h') q = None"
proof -
  let ?o = "cl_outside c" and ?p = "cl_Paths c"
  obtain w h1 where 1: "removeUserServiceIfPresent ?o ?p h = (Inr w, h1)"
    using assms(1) by (auto simp: uninstallCommand_def usage_def Let_def split: if_splits prod.splits sum.splits)
  obtain h2 where 2: "and_then (terminateRecordedDaemon ?o ?p) (removeClientData ?o ?p) h1 = (None, h2)"
    using assms(1) by (auto simp: uninstallCommand_def usage_def Let_def 1 split: if_splits prod.splits option.splits)
  obtain b h3 where 3: "removeCurrentBinary ?o h2 = (Inr b, h3)"
    using assms(1) by (auto simp: uninstallCommand_def usage_def Let_def 1 2 split: if_splits prod.splits sum.splits)
  have "ho_fs h' = ho_fs h3"
    using assms(1)
    by (auto simp: uninstallCommand_def usage_def Let_def 1 2 3 print_out_def print_warnings_def split: if_splits)
  moreover from 2 obtain h4 where "removeClientData ?o ?p h4 = (None, h2)"
    by (auto simp: and_then_def split: prod.splits option.splits)
  then have "fs_tree (ho_fs h2) q = None" using removeClientData_removes assms(2) by blast
  ultimately show ?thesis using removeCurrentBinary_only_removes [OF 3] by simp
qed

text \<open>C40: Uninstalling removes Syna and nothing else. Whatever the answers of the machine, no file outside
  the client's two directories, its unit file and its binary is touched, the commands it runs are those of
  systemd and the removal of the binary, and no process is signalled whose command line is not that of a
  Syna daemon; and when it reports success nothing is left in the two directories.\<close>

theorem uninstall_exact:
  assumes "uninstallCommand c args h = (r, h')" and "\<not> syna_files (cl_outside c) (cl_Paths c) p"
  shows "fs_tree (ho_fs h') p = fs_tree (ho_fs h) p \<and> fs_data (ho_fs h') p = fs_data (ho_fs h) p
    \<and> fs_meta (ho_fs h') p = fs_meta (ho_fs h) p
    \<and> (\<exists>acts. ho_acts h' = ho_acts h @ acts \<and> list_all (harmless (cl_outside c) (cl_Paths c)) acts)
    \<and> (r = None \<longrightarrow> (\<forall>q. in_dirs (cl_Paths c) q \<longrightarrow> fs_tree (ho_fs h') q = None))"
  using uninstall_contained [of c h args] uninstall_complete [of c args h h'] assms
  by (auto simp: within_syna_def)

definition demo_paths :: ClientPaths where
  "demo_paths = \<lparr>pt_ConfigDir = ''/c'', pt_StateDir = ''/s'', pt_ConfigFile = ''/c/config.json'',
     pt_KeyringFile = ''/c/keyring.json'', pt_DBFile = ''/s/client.db'', pt_SocketFile = ''/s/agent.sock'',
     pt_PIDFile = ''/s/daemon.pid'', pt_SystemdDir = ''/u'', pt_UnitFile = ''/u/syna.service''\<rparr>"

definition demo_outside :: outside where
  "demo_outside =
     \<lparr>os_command = (\<lambda>acts args. ([], None)),
      os_kill = (\<lambda>acts pid signal. if Signalled pid SIGTERM \<in> set acts then Some ESRCH else None),
      os_cmdline = (\<lambda>acts pid. Inr (Some (''/b/syna'' @ [CHR 0x00] @ ''daemon'' @ [CHR 0x00]))),
      os_probe = (\<lambda>acts. NotListening ESRCH), os_call = (\<lambda>acts req. Inr []), os_daemon = (\<lambda>acts. None),
      os_executable = Inr ''/b/syna'', os_lookup = (\<lambda>n. Inr ''/b/syna''), os_arg0 = ''syna'', os_home = Some ''/h'',
      os_cwd = Some ''/h'', os_getpid = 1, os_stdin = [], os_denied = (\<lambda>p. False), os_empty_dir = (\<lambda>p fs. False),
      os_partial = (\<lambda>b. None), os_write_link = (\<lambda>p b fs. (None, fs)), os_stat_link = (\<lambda>p fs. Inr True),
      os_config = \<lparr>ce_Paths = demo_paths, ce_link = (\<lambda>fs p. None), ce_hostname = ''host'', ce_uuid = ''u'',
        ce_encode_config = (\<lambda>c. []), ce_decode_config = (\<lambda>b. None), ce_encode_keyring = (\<lambda>k. []),
        ce_decode_keyring = (\<lambda>b. None)\<rparr>,
      os_faults = no_faults, os_random = ''1'', os_describe = (\<lambda>e. []), os_polls = 3\<rparr>"

definition demo_cli :: cli where
  "demo_cli = \<lparr>cl_outside = demo_outside, cl_Paths = demo_paths, cl_encode_connect = (\<lambda>r. []), cl_encode_path = id,
     cl_print_status = (\<lambda>r ws. []), cl_build = \<lparr>bd_Version = ''1'', bd_Commit = ''c'', bd_BuildDate = ''d''\<rparr>,
     cl_id = Inr ''x'', cl_usage = [''usage'']\<rparr>"

definition demo_host :: host where
  "demo_host = \<lparr>ho_fs = \<lparr>fs_tree = [''/'' \<mapsto> NodeDir, ''/c'' \<mapsto> NodeDir, ''/s'' \<mapsto> NodeDir, ''/s/daemon.pid'' \<mapsto> NodeFile,
       ''/b'' \<mapsto> NodeDir, ''/b/syna'' \<mapsto> NodeFile, ''/h'' \<mapsto> NodeDir, ''/h/notes'' \<mapsto> NodeFile],
     fs_data = [''/s/daemon.pid'' \<mapsto> ''42'' @ [CHR 0x0A], ''/b/syna'' \<mapsto> ''x'', ''/h/notes'' \<mapsto> ''text''],
     fs_meta = Map.empty\<rparr>, ho_acts = [], ho_out = [], ho_err = []\<rparr>"

theorem uninstall_exact_witness:
  "fst (uninstallCommand demo_cli [] demo_host) = None
   \<and> Signalled 42 SIGTERM \<in> set (ho_acts (snd (uninstallCommand demo_cli [] demo_host)))
   \<and> fs_tree (ho_fs (snd (uninstallCommand demo_cli [] demo_host))) ''/s/daemon.pid'' = None
   \<and> fs_data (ho_fs (snd (uninstallCommand demo_cli [] demo_host))) ''/h/notes'' = Some ''text''"
proof -
  have r: "fst (uninstallCommand demo_cli [] demo_host) = None" by code_simp
  have s: "Signalled 42 SIGTERM \<in> set (ho_acts (snd (uninstallCommand demo_cli [] demo_host)))" by code_simp
  have "\<not> syna_files demo_outside demo_paths ''/h/notes''" by code_simp
  with uninstall_exact [of demo_cli "[]" demo_host "fst (uninstallCommand demo_cli [] demo_host)"
      "snd (uninstallCommand demo_cli [] demo_host)" "''/h/notes''"] r s
  show ?thesis by (simp add: demo_cli_def demo_host_def in_dirs_def demo_paths_def)
qed

end
