(* ===== verification/Float64.thy ===== *)
theory Float64
  imports Complex_Main Encoding
begin

text \<open>
  What the program uses of Go's \<^verbatim>\<open>float64\<close>: a value is the rational number it stands for, and every
  operation rounds its exact result to 53 significant bits, ties to even.  The numbers of the
  program are counts, sizes and durations of 64 bits, their products and their quotients, which are far
  from overflow, infinities and subnormal numbers.
\<close>

section \<open>Rounding\<close>

function bit_length :: "int \<Rightarrow> nat" where
  "bit_length n = (if n \<le> 0 then 0 else Suc (bit_length (n div 2)))"
  by auto

termination by (relation "measure nat") auto

declare bit_length.simps [simp del]

definition pow2 :: "int \<Rightarrow> rat" where
  "pow2 e = (if 0 \<le> e then 2 ^ nat e else 1 / 2 ^ nat (- e))"

text \<open>The exponent of a positive number.\<close>

definition ilog2 :: "rat \<Rightarrow> int" where
  "ilog2 x = (case quotient_of x of (n, d) \<Rightarrow>
     let k = int (bit_length n) - int (bit_length d) in if pow2 k \<le> x then k else k - 1)"

definition round_even :: "rat \<Rightarrow> int" where
  "round_even x =
     (let f = \<lfloor>x\<rfloor>; r = x - of_int f in
      if r < 1 / 2 then f else if r > 1 / 2 then f + 1 else if even f then f else f + 1)"

definition fl :: "rat \<Rightarrow> rat" where
  "fl x = (if x = 0 then 0 else let u = pow2 (ilog2 \<bar>x\<bar> - 52) in of_int (round_even (x / u)) * u)"

text \<open>\<^verbatim>\<open>math.Round\<close> of a number that is not negative, and the conversion to an integer.\<close>

definition math_Round :: "rat \<Rightarrow> int" where
  "math_Round x = \<lfloor>x + 1 / 2\<rfloor>"

definition float_to_int :: "rat \<Rightarrow> int" where
  "float_to_int x = (if 0 \<le> x then \<lfloor>x\<rfloor> else \<lceil>x\<rceil>)"

text \<open>The verb \<^verbatim>\<open>%.nf\<close> for a number that is not negative.\<close>

definition format_fixed :: "nat \<Rightarrow> rat \<Rightarrow> string" where
  "format_fixed n x =
     (let k = round_even (x * 10 ^ n); frac = show_nat (nat (k mod 10 ^ n)) in
      FormatInt (k div 10 ^ n) @ (if n = 0 then [] else CHR ''.'' # replicate (n - length frac) (CHR ''0'') @ frac))"

section \<open>Facts\<close>

lemma bit_length_bounds: "0 < n \<Longrightarrow> 2 ^ bit_length n \<le> 2 * n \<and> n < 2 ^ bit_length n"
proof (induction n rule: bit_length.induct)
  case (1 n)
  show ?case
  proof (cases "n div 2 = 0")
    case True
    with 1 have "n = 1" by simp
    moreover have "bit_length 1 = 1" by (subst bit_length.simps) (simp add: bit_length.simps [of 0])
    ultimately show ?thesis by simp
  next
    case False
    with 1 have "2 ^ bit_length (n div 2) \<le> 2 * (n div 2)" "n div 2 < 2 ^ bit_length (n div 2)" by auto
    then show ?thesis using 1(2) by (subst (1 2) bit_length.simps) auto
  qed
qed

lemma pow2_pos [simp]: "0 < pow2 e"
  by (simp add: pow2_def)

lemma pow2_diff: "pow2 (int m - int n) = 2 ^ m / 2 ^ n"
proof (cases "n \<le> m")
  case True
  then obtain k where "m = n + k" using le_Suc_ex by blast
  then show ?thesis by (simp add: pow2_def power_add)
next
  case False
  then obtain k where "n = m + k" using le_Suc_ex [of m n] by auto
  with False show ?thesis by (simp add: pow2_def power_add)
qed

lemma pow2_add: "pow2 (a + b) = pow2 a * pow2 b"
proof -
  obtain m n where a: "a = int m - int n" by (metis int_diff_cases)
  obtain m' n' where b: "b = int m' - int n'" by (metis int_diff_cases)
  have "a + b = int (m + m') - int (n + n')" by (simp add: a b)
  then show ?thesis by (simp only: pow2_diff a b) (simp add: power_add)
qed

lemma pow2_Suc: "pow2 (e + 1) = 2 * pow2 e"
  by (simp add: pow2_add) (simp add: pow2_def)

lemma pow2_mono: "a \<le> b \<Longrightarrow> pow2 a \<le> pow2 b"
proof -
  assume "a \<le> b"
  then obtain n where "b = a + int n" using zle_iff_zadd by blast
  then have "pow2 b = pow2 a * 2 ^ n" by (simp add: pow2_add) (simp add: pow2_def)
  then show ?thesis by simp
qed

text \<open>The exponent of a number.\<close>

lemma ilog2_bounds:
  assumes "0 < x"
  shows "pow2 (ilog2 x) \<le> x" and "x < pow2 (ilog2 x + 1)"
proof -
  obtain n d where q: "quotient_of x = (n, d)" by fastforce
  have d: "0 < d" and x: "x = of_int n / of_int d"
    using q quotient_of_denom_pos quotient_of_div by blast+
  have n: "0 < n" using assms d by (simp add: x zero_less_divide_iff)
  let ?a = "bit_length n" and ?b = "bit_length d"
  have bounds: "(2::rat) ^ bit_length m \<le> 2 * of_int m \<and> of_int m < (2::rat) ^ bit_length m" if "0 < m" for m
  proof -
    have "2 ^ bit_length m \<le> 2 * m" "m < 2 ^ bit_length m" using bit_length_bounds [of m] that by auto
    then have "(of_int (2 ^ bit_length m) :: rat) \<le> of_int (2 * m)" "(of_int m :: rat) < of_int (2 ^ bit_length m)"
      by (simp_all only: of_int_le_iff of_int_less_iff)
    then show ?thesis using that by simp
  qed
  let ?k = "int ?a - int ?b" and ?n = "of_int n :: rat" and ?d = "of_int d :: rat"
  have nd: "0 < ?n" "0 < ?d" using n d by simp_all
  have k: "pow2 ?k = 2 ^ ?a / 2 ^ ?b" by (rule pow2_diff)
  have "?n * 2 ^ ?b < 2 ^ ?a * (2 * ?d)"
    using bounds [OF n] bounds [OF d] nd by (intro mult_less_le_imp_less) simp_all
  then have "x < 2 * (2 ^ ?a / 2 ^ ?b)" using nd by (simp add: x field_simps)
  then have up: "x < pow2 (?k + 1)" by (simp only: pow2_Suc k)
  have "2 ^ ?a * ?d \<le> (2 * ?n) * 2 ^ ?b"
    using bounds [OF n] bounds [OF d] nd by (intro mult_mono) simp_all
  then have "2 ^ ?a / 2 ^ ?b \<le> 2 * x" using nd by (simp add: x field_simps)
  moreover have "2 * pow2 (?k - 1) = 2 ^ ?a / 2 ^ ?b" using pow2_Suc [of "?k - 1"] k by simp
  ultimately have low: "pow2 (?k - 1) \<le> x" by linarith
  show "pow2 (ilog2 x) \<le> x" and "x < pow2 (ilog2 x + 1)"
    using up low by (auto simp: ilog2_def q Let_def)
qed

text \<open>Rounding keeps signs, and does not pass an integer of at most 53 bits.\<close>

lemma round_even_le: "x \<le> of_int n \<Longrightarrow> round_even x \<le> n"
proof -
  assume le: "x \<le> of_int n"
  then have f: "\<lfloor>x\<rfloor> \<le> n" by (simp add: floor_le_iff)
  show ?thesis
  proof (cases "\<lfloor>x\<rfloor> = n")
    case True
    then have "x = of_int n" using le by (simp add: floor_eq_iff)
    then show ?thesis by (simp add: round_even_def)
  qed (use f in \<open>auto simp: round_even_def Let_def\<close>)
qed

lemma round_even_nonneg: "0 \<le> x \<Longrightarrow> 0 \<le> round_even x"
  by (simp add: round_even_def Let_def)

lemma fl_nonneg: "0 \<le> x \<Longrightarrow> 0 \<le> fl x"
  by (auto simp: fl_def Let_def less_imp_le round_even_nonneg intro!: mult_nonneg_nonneg divide_nonneg_nonneg)

lemma fl_le_int:
  assumes "x \<le> of_int c" and "0 < c" and "c < 2 ^ 53" and "0 \<le> x"
  shows "fl x \<le> of_int c"
proof (cases "x = 0")
  case False
  then have x: "0 < x" using assms(4) by simp
  let ?e = "ilog2 x"
  let ?u = "pow2 (?e - 52)"
  note b = ilog2_bounds [OF x]
  have fl: "fl x = of_int (round_even (x / ?u)) * ?u" using x by (simp add: fl_def Let_def)
  show ?thesis
  proof (cases "pow2 (?e + 1) \<le> of_int c")
    case True
    have "pow2 (?e + 1) = pow2 53 * ?u" by (simp flip: pow2_add) (simp add: algebra_simps)
    then have top: "pow2 (?e + 1) = of_int (2 ^ 53) * ?u" by (simp add: pow2_def)
    then have "x / ?u \<le> of_int (2 ^ 53)" using b(2) by (simp add: divide_le_eq)
    then have "round_even (x / ?u) \<le> 2 ^ 53" by (rule round_even_le)
    then have "of_int (round_even (x / ?u)) * ?u \<le> of_int (2 ^ 53) * ?u"
      by (intro mult_right_mono) (simp_all only: of_int_le_iff less_imp_le [OF pow2_pos])
    then show ?thesis using True by (simp only: fl top [symmetric])
  next
    case False
    have "?e < 53"
    proof (rule ccontr)
      assume "\<not> ?e < 53"
      then have "pow2 53 \<le> pow2 ?e" by (intro pow2_mono) simp
      then have "pow2 53 \<le> of_int c" using b(1) assms(1) by linarith
      then have "of_int (2 ^ 53) \<le> (of_int c :: rat)" by (simp add: pow2_def)
      then show False using assms(3) by (simp only: of_int_le_iff)
    qed
    then have "0 \<le> 52 - ?e" by simp
    then obtain k where k: "52 - ?e = int k" by (rule nonneg_int_cases)
    have "pow2 (52 - ?e) * ?u = 1" by (simp flip: pow2_add) (simp add: pow2_def)
    then have inv: "of_int (2 ^ k) * ?u = 1" by (simp add: k) (simp add: pow2_def)
    then have c: "of_int c = of_int (c * 2 ^ k) * ?u" by (simp add: mult.assoc)
    have "x \<le> of_int (c * 2 ^ k) * ?u" using assms(1) by (simp only: c [symmetric])
    then have "x / ?u \<le> of_int (c * 2 ^ k)" by (simp only: divide_le_eq pow2_pos if_True)
    then have "round_even (x / ?u) \<le> c * 2 ^ k" by (rule round_even_le)
    then have "of_int (round_even (x / ?u)) * ?u \<le> of_int (c * 2 ^ k) * ?u"
      by (intro mult_right_mono) (simp_all only: of_int_le_iff less_imp_le [OF pow2_pos])
    then show ?thesis by (simp only: fl c [symmetric])
  qed
qed (use assms(2) in \<open>simp add: fl_def\<close>)

end
