(* ===== verification/ProgressBar.thy ===== *)
theory ProgressBar
  imports AgentRpc Float64 "HOL-Library.Word"
begin

text \<open>
  \<^verbatim>\<open>cmd/syna/progress.go\<close>: when the progress line of \<^verbatim>\<open>syna add\<close> is drawn and how it ends, the
  text of the line with its bar, percentage, sizes and remaining time, and shortened paths.
  Times are in nanoseconds.  The conversion of a \<^verbatim>\<open>float64\<close> outside the range of \<^verbatim>\<open>int64\<close>, which Go
  leaves to the implementation, is the parameter \<open>big\<close>.
\<close>

record addProgressRenderer =
  ar_w :: "string list"
  ar_enabled :: bool
  ar_started :: int
  ar_frame :: nat
  ar_lastDraw :: int
  ar_drew :: bool
  ar_done :: bool

definition isTerminal :: "32 word option \<Rightarrow> bool" where
  "isTerminal stat = (case stat of None \<Rightarrow> False | Some mode \<Rightarrow> bit mode 21)"

definition newAddProgressRenderer :: "32 word option \<Rightarrow> int \<Rightarrow> addProgressRenderer" where
  "newAddProgressRenderer stat now =
     \<lparr>ar_w = [], ar_enabled = isTerminal stat, ar_started = now, ar_frame = 0, ar_lastDraw = 0, ar_drew = False, ar_done = False\<rparr>"

definition erase_line :: string where
  "erase_line = [CHR 0x0D, CHR 0x1B] @ ''[2K''"

definition shouldDraw :: "AddProgress \<Rightarrow> int \<Rightarrow> addProgressRenderer \<Rightarrow> bool" where
  "shouldDraw p now r \<longleftrightarrow>
     \<not> ar_drew r \<or> ap_Stage p \<in> {''done'', ''finalizing'', ''scanning''} \<or> now - ar_lastDraw r \<ge> 100 * 10 ^ 6"

definition renderer_Done :: "bool \<Rightarrow> addProgressRenderer \<Rightarrow> addProgressRenderer" where
  "renderer_Done failed r =
     (if \<not> ar_enabled r \<or> ar_done r then r
      else if failed then (if ar_drew r then r\<lparr>ar_w := ar_w r @ [erase_line]\<rparr> else r)
      else if ar_drew r then r\<lparr>ar_w := ar_w r @ [[CHR 0x0A]]\<rparr> else r)"

definition progressTitle :: "string \<Rightarrow> string" where
  "progressTitle stage =
     (if stage = ''scanning'' then ''Scanning '' else if stage = ''finalizing'' then ''Finalizing''
      else if stage = ''done'' then ''Synced   '' else ''Syncing  '')"

definition two_digits :: "int \<Rightarrow> string" where
  "two_digits n = (if n < 10 then ''0'' @ FormatInt n else FormatInt n)"

text \<open>\<^verbatim>\<open>Duration.Round(time.Second)\<close>, for a duration that is not negative.\<close>

definition round_second :: "int \<Rightarrow> int" where
  "round_second d =
     (let r = d mod 10 ^ 9 in
      if 2 * r < 10 ^ 9 then d - r else if d - r + 10 ^ 9 < 2 ^ 63 then d - r + 10 ^ 9 else 2 ^ 63 - 1)"

definition formatDuration :: "int \<Rightarrow> string" where
  "formatDuration d =
     (let seconds = round_second (max d 0) div 10 ^ 9; minutes = seconds div 60 in
      if seconds < 60 then FormatInt seconds @ ''s''
      else if minutes < 60 then FormatInt minutes @ ''m'' @ two_digits (seconds mod 60) @ ''s''
      else FormatInt (minutes div 60) @ ''h'' @ two_digits (minutes mod 60) @ ''m'' @ two_digits (seconds mod 60) @ ''s'')"

definition shortenMiddle :: "string \<Rightarrow> nat \<Rightarrow> string" where
  "shortenMiddle value m =
     (if length value \<le> m \<or> m < 8 then value
      else let keep = m - 3; left = keep div 2; right = keep - left in
        take left value @ ''...'' @ drop (length value - right) value)"

definition progressFraction :: "AddProgress \<Rightarrow> rat" where
  "progressFraction p =
     (if ap_Stage p = ''done'' then 1
      else
        let fraction =
              (if ap_TotalBytes p > 0 then fl (fl (of_int (ap_DoneBytes p)) / fl (of_int (ap_TotalBytes p)))
               else if ap_TotalEntries p > 0 then fl (fl (of_int (ap_DoneEntries p)) / fl (of_int (ap_TotalEntries p)))
               else 0)
        in if fraction < 0 then 0 else if fraction > 1 then 1 else fraction)"

definition progressBar :: "rat \<Rightarrow> int \<Rightarrow> string" where
  "progressBar fraction width =
     (if width \<le> 0 then []
      else if fraction \<ge> 1 then replicate (nat width) (CHR ''='')
      else
        let k = float_to_int (fl (fraction * fl (of_int width))); filled = (if k \<ge> width then width - 1 else k) in
        replicate (nat filled) (CHR ''='') @ ''>'' @ replicate (nat (width - filled - 1)) (CHR ''-''))"

definition float_to_int64 :: "(rat \<Rightarrow> int) \<Rightarrow> rat \<Rightarrow> int" where
  "float_to_int64 big x = (let k = float_to_int x in if - (2 ^ 63) \<le> k \<and> k < 2 ^ 63 then k else big x)"

definition progressETA :: "(rat \<Rightarrow> int) \<Rightarrow> AddProgress \<Rightarrow> int \<Rightarrow> string" where
  "progressETA big p elapsed =
     (if ap_Stage p = ''scanning'' \<or> ap_Stage p = ''done'' then []
      else
        let fraction = progressFraction p in
        if fraction \<le> 0 then ''--''
        else if fraction \<ge> 1 then []
        else formatDuration (float_to_int64 big (fl (fl (fl (of_int elapsed) * fl (1 - fraction)) / fraction))))"

fun scale_bytes :: "string list \<Rightarrow> rat \<Rightarrow> string" where
  "scale_bytes [] value = format_fixed 1 (fl (value / 1000)) @ '' PB''"
| "scale_bytes (label # rest) value =
     (let v = fl (value / 1000) in if v < 1000 then format_fixed 1 v @ '' '' @ label else scale_bytes rest v)"

definition formatBytes :: "int \<Rightarrow> string" where
  "formatBytes bytes =
     (if bytes < 1000 then FormatInt bytes @ '' B''
      else scale_bytes [''KB'', ''MB'', ''GB'', ''TB''] (fl (of_int bytes)))"

definition progress_percent :: "AddProgress \<Rightarrow> int" where
  "progress_percent p = math_Round (fl (progressFraction p * 100))"

definition pad_left :: "nat \<Rightarrow> string \<Rightarrow> string" where
  "pad_left n s = replicate (n - length s) (CHR '' '') @ s"

definition progress_line :: "(rat \<Rightarrow> int) \<Rightarrow> AddProgress \<Rightarrow> nat \<Rightarrow> int \<Rightarrow> string" where
  "progress_line big p frame elapsed =
     (let frames = [CHR ''-'', CHR 0x5C, CHR ''|'', CHR ''/'']; eta = progressETA big p elapsed in
      progressTitle (ap_Stage p) @ '' '' @ [frames ! (frame mod 4)] @ '' ['' @ progressBar (progressFraction p) 24 @ ''] ''
        @ pad_left 3 (FormatInt (progress_percent p)) @ ''%''
        @ (if ap_TotalBytes p > 0 then ''  '' @ formatBytes (ap_DoneBytes p) @ ''/'' @ formatBytes (ap_TotalBytes p) else [])
        @ (if ap_TotalFiles p > 0 then ''  '' @ FormatInt (ap_DoneFiles p) @ ''/'' @ FormatInt (ap_TotalFiles p) @ '' files''
           else if ap_TotalEntries p > 0
             then ''  '' @ FormatInt (ap_DoneEntries p) @ ''/'' @ FormatInt (ap_TotalEntries p) @ '' entries''
           else [])
        @ (if eta \<noteq> [] then ''  ETA '' @ eta else [])
        @ (if ap_Path p \<noteq> [] then ''  '' @ shortenMiddle (ap_Path p) 44
           else if ap_Message p \<noteq> [] then ''  '' @ ap_Message p
           else []))"

definition renderer_draw :: "(rat \<Rightarrow> int) \<Rightarrow> AddProgress \<Rightarrow> int \<Rightarrow> addProgressRenderer \<Rightarrow> addProgressRenderer" where
  "renderer_draw big p now r =
     (let line = progress_line big p (ar_frame r) (now - ar_started r);
          r1 = r\<lparr>ar_frame := ar_frame r + 1, ar_w := ar_w r @ [erase_line @ line], ar_lastDraw := now, ar_drew := True\<rparr>
      in if ap_Stage p = ''done'' then r1\<lparr>ar_done := True, ar_w := ar_w r1 @ [[CHR 0x0A]]\<rparr> else r1)"

definition renderer_Update :: "(rat \<Rightarrow> int) \<Rightarrow> AddProgress \<Rightarrow> int \<Rightarrow> addProgressRenderer \<Rightarrow> addProgressRenderer" where
  "renderer_Update big p now r =
     (if \<not> ar_enabled r then r else if \<not> shouldDraw p now r then r else renderer_draw big p now r)"

text \<open>A shortened path fits its column; a disabled renderer writes nothing; and after the last
  report nothing more is written.\<close>

lemma shortenMiddle_fits: "8 \<le> m \<Longrightarrow> length (shortenMiddle value m) = min m (length value)"
  by (auto simp: shortenMiddle_def Let_def min_def)

lemma disabled_renderer_is_silent:
  "\<not> ar_enabled r \<Longrightarrow> renderer_Update big p now r = r \<and> renderer_Done failed r = r"
  by (simp add: renderer_Update_def renderer_Done_def)

lemma done_ends_the_line:
  "ar_enabled r \<Longrightarrow> ap_Stage p = ''done'' \<Longrightarrow>
    renderer_Done failed (renderer_Update big p now r) = renderer_Update big p now r"
  by (simp add: renderer_Update_def renderer_Done_def renderer_draw_def shouldDraw_def Let_def)

text \<open>Whatever counts the agent reports, more done than in total or negative ones among them, the
  fraction is between 0 and 1, the bar fills exactly its columns and the percentage is at most 100.\<close>

lemma progressFraction_bounds: "0 \<le> progressFraction p" "progressFraction p \<le> 1"
  by (simp_all add: progressFraction_def Let_def)

lemma progressBar_width:
  assumes "0 \<le> fraction" and "0 \<le> width"
  shows "int (length (progressBar fraction width)) = width"
proof -
  have "0 \<le> fl (fraction * fl (of_int width))"
    using assms by (intro fl_nonneg mult_nonneg_nonneg) simp_all
  then have "0 \<le> float_to_int (fl (fraction * fl (of_int width)))" by (simp add: float_to_int_def)
  then show ?thesis using assms by (auto simp: progressBar_def Let_def)
qed

lemma progress_percent_range: "0 \<le> progress_percent p" "progress_percent p \<le> 100"
proof -
  let ?x = "fl (progressFraction p * 100)"
  have "0 \<le> ?x" by (intro fl_nonneg mult_nonneg_nonneg) (simp_all add: progressFraction_bounds)
  then show "0 \<le> progress_percent p" by (simp add: progress_percent_def math_Round_def)
  have "?x \<le> of_int 100"
    using progressFraction_bounds [of p] by (intro fl_le_int) simp_all
  then have "?x + 1 / 2 < of_int 101" by simp
  then have "\<lfloor>?x + 1 / 2\<rfloor> < 101" by (simp only: floor_less_iff)
  then show "progress_percent p \<le> 100" by (simp add: progress_percent_def math_Round_def)
qed

lemma drawn_bar_fits: "length (progressBar (progressFraction p) 24) = 24"
  using progressBar_width [of "progressFraction p" 24] progressFraction_bounds [of p] by simp

text \<open>The bar is full only when everything is done.\<close>

lemma progressBar_unfinished:
  assumes "0 \<le> fraction" and "fraction < 1" and "0 < width"
  shows "CHR ''>'' \<in> set (progressBar fraction width)"
  using assms by (simp add: progressBar_def Let_def)

text \<open>Two lines as they are shown.\<close>

lemma progress_line_examples:
  "progress_line (\<lambda>_. 0) \<lparr>ap_Stage = ''uploading'', ap_Message = [], ap_Path = ''a.txt'', ap_DoneBytes = 1500000,
     ap_TotalBytes = 4500000, ap_DoneFiles = 1, ap_TotalFiles = 3, ap_DoneEntries = 1, ap_TotalEntries = 4\<rparr> 2 (10 ^ 10)
   = ''Syncing   | [========>---------------]  33%  1.5 MB/4.5 MB  1/3 files  ETA 20s  a.txt''"
  "progress_line (\<lambda>_. 0) \<lparr>ap_Stage = ''done'', ap_Message = ''ok'', ap_Path = [], ap_DoneBytes = 0,
     ap_TotalBytes = 0, ap_DoneFiles = 0, ap_TotalFiles = 0, ap_DoneEntries = 7, ap_TotalEntries = 7\<rparr> 4 0
   = ''Synced    - [========================] 100%  7/7 entries  ok''"
  by code_simp+

end
