(* ===== verification/DaemonLoops.thy ===== *)
theory DaemonLoops
  imports AgentRpc
begin

text \<open>
  The goroutines of the daemon that never end by themselves
  (\<^verbatim>\<open>internal/client/daemon/daemon.go\<close>): the reconnect loop, the retries of blocked
  roots and of the finalization of an added root, and \<open>Run\<close>, which starts them.  What
  happens to a loop from outside, the ticks of its timers included, is a list with an
  element per turn; the end of the list is the cancellation of its context.  Pauses are
  in milliseconds.  \<open>None\<close> is fuel that did not suffice for a catch-up.
\<close>

section \<open>The reconnect loop\<close>

record round =
  rd_dial :: "go_error option"
  rd_streamErr :: "go_error option"
  rd_events :: "stream_event list"
  rd_random :: int
  rd_attempts :: nat

text \<open>A synchronisation and, when it reaches the live stream, the consumption of the stream.\<close>

definition stream_round ::
  "nat \<Rightarrow> 'w agent_env \<Rightarrow> stream_event list \<Rightarrow> 'w agent \<Rightarrow> (go_error option \<times> 'w agent) option" where
  "stream_round fuel an evs ag =
     (case (ag_conn ag, ag_keys ag) of
        (Some conn, Some keys) \<Rightarrow>
          map_option (\<lambda>(e, d). (e, ag\<lparr>ag_daemon := setStreamingLive False d\<rparr>))
            (consumeWebsocketStream fuel (connected_env an ag keys conn) (cn_Token conn) evs
               (setStreamingLive True (ag_daemon ag)))
      | _ \<Rightarrow> Some (None, ag))"

definition sync_round ::
  "nat \<Rightarrow> 'w agent_env \<Rightarrow> round \<Rightarrow> 'w agent \<Rightarrow> (go_error option \<times> 'w agent) option" where
  "sync_round fuel an rd ag =
     (case syncAndStream fuel an (rd_dial rd) (rd_streamErr rd) ag of
        None \<Rightarrow> None
      | Some (e, live, ag1) \<Rightarrow>
          if live \<and> e = None then stream_round fuel an (rd_events rd) ag1 else Some (e, ag1))"

text \<open>The pauses of the loop, and the agent it leaves; a purged workspace ends it.\<close>

fun reconnectLoop ::
  "nat \<Rightarrow> 'w agent_env \<Rightarrow> round list \<Rightarrow> int \<Rightarrow> 'w agent \<Rightarrow> (int list \<times> 'w agent) option" where
  "reconnectLoop fuel an [] backoff ag = Some ([], ag)"
| "reconnectLoop fuel an (rd # rounds) backoff ag =
     (case sync_round fuel an rd ag of
        None \<Rightarrow> None
      | Some (e, ag1) \<Rightarrow>
          (case reconnect_turn an backoff (rd_random rd) e ag1 of
             (StopLoop, ag2) \<Rightarrow> Some ([], ag2)
           | (SyncAgain, ag2) \<Rightarrow> reconnectLoop fuel an rounds backoff ag2
           | (WorkspaceGone, ag2) \<Rightarrow> map_option (Pair []) (finishPurgedWorkspace (rd_attempts rd) an ag2)
           | (PauseFor pause next, ag2) \<Rightarrow>
               map_option (\<lambda>(pauses, ag3). (pause # pauses, ag3)) (reconnectLoop fuel an rounds next ag2)))"

definition first_backoff :: int where
  "first_backoff = 1000"

definition backoffs :: "int set" where
  "backoffs = {1000, 2000, 4000, 8000, 16000, 32000, 64000}"

lemma next_backoff_closed: "b \<in> backoffs \<Longrightarrow> next_backoff b \<in> backoffs"
  by (auto simp: next_backoff_def backoffs_def)

lemma jitter_range: "b \<in> backoffs \<Longrightarrow> 1 \<le> jitter b r \<and> jitter b r \<le> b"
proof -
  assume "b \<in> backoffs"
  then have b: "1000 \<le> b" "b \<le> 64000" by (auto simp: backoffs_def)
  then have "(b + 1) mod 2 ^ 32 = b + 1" by simp
  moreover have "r mod (b + 1) \<le> b" using b pos_mod_bound [of "b + 1" r] by linarith
  ultimately show "1 \<le> jitter b r \<and> jitter b r \<le> b" using b by (simp add: jitter_def Let_def)
qed

lemma reconnect_turn_pause:
  assumes "reconnect_turn an b r e ag = (PauseFor pause nx, ag')" and "b \<in> backoffs"
  shows "1 \<le> pause \<and> pause \<le> 64000 \<and> nx \<in> backoffs"
proof -
  have "b \<le> 64000" "(1000 :: int) \<in> backoffs" using assms(2) by (auto simp: backoffs_def)
  then show ?thesis
    using assms jitter_range [OF assms(2), of r] next_backoff_closed [OF assms(2)]
    by (auto simp: reconnect_turn_def split: option.splits if_splits prod.splits bool.splits)
qed

text \<open>The daemon tries again after at most 64 seconds, however often it failed before.\<close>

lemma reconnectLoop_pauses:
  assumes "reconnectLoop fuel an rounds b ag = Some (pauses, ag')" and "b \<in> backoffs"
  shows "\<forall>p \<in> set pauses. 1 \<le> p \<and> p \<le> 64000"
  using assms
proof (induction rounds arbitrary: b ag pauses)
  case (Cons rd rounds)
  obtain e ag1 where 1: "sync_round fuel an rd ag = Some (e, ag1)"
    using Cons.prems(1) by (auto split: option.splits)
  obtain t ag2 where t: "reconnect_turn an b (rd_random rd) e ag1 = (t, ag2)" by fastforce
  show ?case
  proof (cases t)
    case (PauseFor pause nx)
    obtain ps where ps: "reconnectLoop fuel an rounds nx ag2 = Some (ps, ag')" "pauses = pause # ps"
      using Cons.prems(1) by (auto simp: 1 t PauseFor)
    have "1 \<le> pause \<and> pause \<le> 64000 \<and> nx \<in> backoffs"
      using reconnect_turn_pause t Cons.prems(2) PauseFor by blast
    with Cons.IH [OF ps(1)] ps(2) show ?thesis by auto
  next
    case SyncAgain
    with Cons.prems Cons.IH [of b ag2 pauses] show ?thesis by (simp add: 1 t)
  qed (use Cons.prems in \<open>auto simp: 1 t\<close>)
qed simp

section \<open>Blocked roots\<close>

definition blocked_tick :: "nat \<Rightarrow> 'w agent_env \<Rightarrow> 'w agent \<Rightarrow> (go_error option \<times> 'w agent) option" where
  "blocked_tick fuel an ag =
     (case (ag_conn ag, ag_keys ag) of
        (Some conn, Some keys) \<Rightarrow>
          if cg_WorkspaceID (ag_cfg ag) = [] then Some (None, ag)
          else on_daemon ag (retryBlockedRoots fuel (connected_env an ag keys conn) (ag_daemon ag))
      | _ \<Rightarrow> Some (None, ag))"

text \<open>Every 30 seconds; an error is only logged.\<close>

primrec blockedRetryLoop :: "nat \<Rightarrow> nat \<Rightarrow> 'w agent_env \<Rightarrow> 'w agent \<Rightarrow> (go_error list \<times> 'w agent) option" where
  "blockedRetryLoop 0 fuel an ag = Some ([], ag)"
| "blockedRetryLoop (Suc ticks) fuel an ag =
     (case blocked_tick fuel an ag of
        None \<Rightarrow> None
      | Some (e, ag1) \<Rightarrow>
          map_option (\<lambda>(es, ag2).
            ((case e of Some x \<Rightarrow> if unwrapped x = ContextCanceled then es else x # es | None \<Rightarrow> es), ag2))
            (blockedRetryLoop ticks fuel an ag1))"

section \<open>The finalization of an added root\<close>

definition finalization_attempt ::
  "nat \<Rightarrow> 'w agent_env \<Rightarrow> string \<Rightarrow> int \<Rightarrow> 'w agent \<Rightarrow> (bool \<times> go_error option \<times> 'w agent) option" where
  "finalization_attempt fuel an rootID createdSeq ag =
     (case (ag_conn ag, ag_keys ag) of
        (Some conn, Some keys) \<Rightarrow>
          if cg_WorkspaceID (ag_cfg ag) = [] then Some (False, Some not_connected, ag)
          else map_option (\<lambda>(finished, e, d). (finished, e, ag\<lparr>ag_daemon := d\<rparr>))
                 (retryInitialRootFinalization fuel (connected_env an ag keys conn) rootID createdSeq (ag_daemon ag))
      | _ \<Rightarrow> Some (False, Some not_connected, ag))"

text \<open>The delays before its attempts, and whether the last attempt finished it.\<close>

primrec scheduleInitialRootFinalization ::
  "nat \<Rightarrow> nat \<Rightarrow> 'w agent_env \<Rightarrow> string \<Rightarrow> int \<Rightarrow> int \<Rightarrow> 'w agent \<Rightarrow> (int list \<times> bool \<times> 'w agent) option" where
  "scheduleInitialRootFinalization 0 fuel an rootID createdSeq delay ag = Some ([], False, ag)"
| "scheduleInitialRootFinalization (Suc attempts) fuel an rootID createdSeq delay ag =
     (case finalization_attempt fuel an rootID createdSeq ag of
        None \<Rightarrow> None
      | Some (True, e, ag1) \<Rightarrow> Some ([delay], True, ag1)
      | Some (False, e, ag1) \<Rightarrow>
          map_option (\<lambda>(delays, finished, ag2). (delay # delays, finished, ag2))
            (scheduleInitialRootFinalization attempts fuel an rootID createdSeq
               (if delay < 30000 then delay * 2 else delay) ag1))"

lemma finalization_delays:
  assumes "scheduleInitialRootFinalization n fuel an rootID createdSeq delay ag = Some (delays, finished, ag')"
    and "delay \<in> backoffs" and "delay \<le> 32000"
  shows "set delays \<subseteq> backoffs \<and> (\<forall>t \<in> set delays. t \<le> 32000) \<and> length delays \<le> n \<and> (length delays < n \<longrightarrow> finished)"
  using assms
proof (induction n arbitrary: delay ag delays)
  case (Suc n)
  let ?next = "if delay < 30000 then delay * 2 else delay"
  have "?next \<in> backoffs" "?next \<le> 32000" using Suc.prems(2,3) by (auto simp: backoffs_def)
  with Suc show ?case by (fastforce split: option.splits prod.splits bool.splits)
qed simp

section \<open>Running\<close>

text \<open>
  \<open>Run\<close> records its process id, replaces a left-over socket and listens, and starts the
  reconnect loop of a daemon that is connected.  \<open>listen\<close> is the error of listening.
\<close>

definition run_start ::
  "(string \<Rightarrow> bytes \<Rightarrow> fsys \<Rightarrow> go_error option \<times> fsys) \<Rightarrow> ClientPaths \<Rightarrow> int \<Rightarrow> go_error option \<Rightarrow> 'w agent
    \<Rightarrow> go_error option \<times> 'w agent" where
  "run_start write paths pid listen ag =
     (let d = ag_daemon ag in
      case write (pt_PIDFile paths) (FormatInt pid @ [CHR 0x0A]) (mc_fs d) of
        (Some e, fs) \<Rightarrow> (Some e, ag\<lparr>ag_daemon := d\<lparr>mc_fs := fs\<rparr>\<rparr>)
      | (None, fs) \<Rightarrow>
          let fs1 = Remove (pt_SocketFile paths) fs in
          (case listen of
             Some e \<Rightarrow> (Some e, ag\<lparr>ag_daemon := d\<lparr>mc_fs := fs1\<rparr>\<rparr>)
           | None \<Rightarrow>
               (None, ag\<lparr>ag_daemon := d\<lparr>mc_fs := fs1\<lparr>fs_tree := (fs_tree fs1)(pt_SocketFile paths \<mapsto> NodeOther)\<rparr>\<rparr>,
                         ag_reconnecting := ag_reconnecting ag
                           \<or> cg_ServerURL (ag_cfg ag) \<noteq> [] \<and> ky_WorkspaceKey (ag_keyring ag) \<noteq> []\<rparr>)))"

definition run_stop :: "ClientPaths \<Rightarrow> 'w agent \<Rightarrow> 'w agent" where
  "run_stop paths ag =
     ag\<lparr>ag_daemon := (ag_daemon ag)\<lparr>mc_fs := Remove (pt_PIDFile paths) (Remove (pt_SocketFile paths) (mc_fs (ag_daemon ag)))\<rparr>\<rparr>"

end
