(* ===== verification/ServerProcess.thy ===== *)
theory ServerProcess
  imports ServerMain LiveStream ConfigStore Float64
begin

text \<open>
  The server as a process: the lock that keeps a second process off its data directory
  (\<^verbatim>\<open>internal/server/processlock/lock.go\<close>), the directories it creates
  (\<^verbatim>\<open>internal/server/config/config.go\<close>), the loop that serves and its end
  (\<^verbatim>\<open>runServer\<close> of \<^verbatim>\<open>internal/server/app/app.go\<close>), the loop of a websocket
  (\<^verbatim>\<open>internal/server/api/websocket.go\<close>) and the data of the landing page
  (\<^verbatim>\<open>internal/server/api/root.go\<close>).
\<close>

section \<open>The data directory and its lock\<close>

definition EnsureDataDirs :: "string \<Rightarrow> fsys \<Rightarrow> go_error option \<times> fsys" where
  "EnsureDataDirs dataDir = mkdir_each [dataDir, Join [dataDir, ''objects''], Join [dataDir, ''tmp'']]"

text \<open>
  The advisory locks of a machine: the number of the next open file description, and the description
  that holds the lock of a file.  \<open>ino\<close> is the file a path leads to; \<open>open_ok\<close> and \<open>flock_ok\<close> are the
  answers of the system apart from the lock being held.
\<close>

record locks =
  lk_next :: nat
  lk_held :: "nat \<Rightarrow> nat option"

record Lock =
  lc_ino :: nat
  lc_fd :: nat

datatype acquire_error = OpenFailed | InUse string | FlockFailed

definition Acquire ::
  "(string \<Rightarrow> nat) \<Rightarrow> bool \<Rightarrow> bool \<Rightarrow> string \<Rightarrow> locks \<Rightarrow> (acquire_error + Lock) \<times> locks" where
  "Acquire ino open_ok flock_ok dataDir lk =
     (if \<not> open_ok then (Inl OpenFailed, lk)
      else
        let f = ino (Join [dataDir, ''server.lock'']); fd = lk_next lk; lk1 = lk\<lparr>lk_next := fd + 1\<rparr> in
        if lk_held lk f \<noteq> None then (Inl (InUse dataDir), lk1)
        else if \<not> flock_ok then (Inl FlockFailed, lk1)
        else (Inr \<lparr>lc_ino = f, lc_fd = fd\<rparr>, lk1\<lparr>lk_held := (lk_held lk)(f \<mapsto> fd)\<rparr>))"

text \<open>Closing the description releases its lock, whatever unlocking answered; a second \<open>Close\<close> finds
  nothing to release, and a process that ends closes what it has open.\<close>

definition lock_Close :: "Lock option \<Rightarrow> locks \<Rightarrow> locks" where
  "lock_Close l lk =
     (case l of
        None \<Rightarrow> lk
      | Some l \<Rightarrow>
          if lk_held lk (lc_ino l) = Some (lc_fd l) then lk\<lparr>lk_held := (lk_held lk)(lc_ino l := None)\<rparr> else lk)"

section \<open>The processes of a machine\<close>

text \<open>
  Processes start commands of the server on one data directory beside each other.  A process that
  has the lock is \<open>Locked\<close> until it ends, or until it has recovered the data and serves with a hub
  of its own; requests and commands work on the shared files and tables.
\<close>

datatype proc = Absent | Locked Lock | Online Lock "WSMessage hub"

record machine_state =
  ms_locks :: locks
  ms_files :: files
  ms_db :: server_db
  ms_procs :: "nat \<Rightarrow> proc"

fun proc_lock :: "proc \<Rightarrow> Lock option" where
  "proc_lock Absent = None"
| "proc_lock (Locked l) = Some l"
| "proc_lock (Online l h) = Some l"

fun is_request :: "server_op \<Rightarrow> bool" where
  "is_request (AdminGC _ _ _) = False"
| "is_request (AdminPurge _ _) = False"
| "is_request (AdminPurgeCrash _ _ _) = False"
| "is_request _ = True"

definition with_data :: "server \<Rightarrow> machine_state \<Rightarrow> machine_state" where
  "with_data sv ms = ms\<lparr>ms_files := sv_files sv, ms_db := sv_db sv\<rparr>"

definition data_of :: "WSMessage hub \<Rightarrow> machine_state \<Rightarrow> server" where
  "data_of h ms = \<lparr>sv_files = ms_files ms, sv_db = ms_db ms, sv_hub = h\<rparr>"

inductive machine_step ::
  "(string \<Rightarrow> nat) \<Rightarrow> config \<Rightarrow> primitives \<Rightarrow> string \<Rightarrow> machine_state \<Rightarrow> machine_state \<Rightarrow> bool"
  for ino cfg px dir where
  start: "ms_procs ms p = Absent \<Longrightarrow> Acquire ino op fk dir (ms_locks ms) = (Inr l, lk) \<Longrightarrow>
    machine_step ino cfg px dir ms (ms\<lparr>ms_locks := lk, ms_procs := (ms_procs ms)(p := Locked l)\<rparr>)"
| refused: "ms_procs ms p = Absent \<Longrightarrow> Acquire ino op fk dir (ms_locks ms) = (Inl e, lk) \<Longrightarrow>
    machine_step ino cfg px dir ms (ms\<lparr>ms_locks := lk\<rparr>)"
| admin: "ms_procs ms p = Locked l \<Longrightarrow> \<not> is_request op \<Longrightarrow>
    machine_step ino cfg px dir ms (with_data (server_step cfg px op (data_of (new_hub 0) ms)) ms)"
| serves: "ms_procs ms p = Locked l \<Longrightarrow>
    machine_step ino cfg px dir ms (ms\<lparr>ms_procs := (ms_procs ms)(p := Online l (new_hub (cf_MaxWSClients cfg)))\<rparr>)"
| request: "ms_procs ms p = Online l h \<Longrightarrow> is_request op \<Longrightarrow> sv = server_step cfg px op (data_of h ms) \<Longrightarrow>
    machine_step ino cfg px dir ms ((with_data sv ms)\<lparr>ms_procs := (ms_procs ms)(p := Online l (sv_hub sv))\<rparr>)"
| leave: "machine_step ino cfg px dir ms
    (ms\<lparr>ms_locks := lock_Close (proc_lock (ms_procs ms p)) (ms_locks ms), ms_procs := (ms_procs ms)(p := Absent)\<rparr>)"

definition machine_init :: machine_state where
  "machine_init = \<lparr>ms_locks = \<lparr>lk_next = 0, lk_held = (\<lambda>_. None)\<rparr>, ms_files = (\<lambda>_. None), ms_db = empty_db, ms_procs = (\<lambda>_. Absent)\<rparr>"

definition locks_inv :: "nat \<Rightarrow> machine_state \<Rightarrow> bool" where
  "locks_inv f ms \<longleftrightarrow>
     (\<forall>p l. proc_lock (ms_procs ms p) = Some l \<longrightarrow> lc_ino l = f \<and> lk_held (ms_locks ms) f = Some (lc_fd l))
     \<and> (\<forall>p q. ms_procs ms p \<noteq> Absent \<longrightarrow> ms_procs ms q \<noteq> Absent \<longrightarrow> p = q)"

lemma proc_lock_None [simp]: "proc_lock c = None \<longleftrightarrow> c = Absent"
  by (cases c) auto

lemma Acquire_cases:
  "Acquire ino op fk dir lk = (r, lk') \<Longrightarrow>
    (case r of
       Inl e \<Rightarrow> lk_held lk' = lk_held lk
     | Inr l \<Rightarrow> lc_ino l = ino (Join [dir, ''server.lock'']) \<and> lk_held lk (lc_ino l) = None
         \<and> lk_held lk' = (lk_held lk)(lc_ino l \<mapsto> lc_fd l))"
  by (auto simp: Acquire_def Let_def split: if_splits)

lemma machine_step_locks:
  assumes "machine_step ino cfg px dir ms ms'" and "locks_inv (ino (Join [dir, ''server.lock''])) ms"
  shows "locks_inv (ino (Join [dir, ''server.lock''])) ms'"
  using assms
proof (induction rule: machine_step.induct)
  case (start ms p op fk l lk)
  let ?f = "ino (Join [dir, ''server.lock''])"
  have a: "lc_ino l = ?f" "lk_held (ms_locks ms) ?f = None" "lk_held lk = (lk_held (ms_locks ms))(?f \<mapsto> lc_fd l)"
    using Acquire_cases [OF start.hyps(2)] by auto
  have "ms_procs ms q = Absent" for q
    using start.prems a(2) by (cases "proc_lock (ms_procs ms q)") (auto simp: locks_inv_def)
  with a show ?case by (auto simp: locks_inv_def)
next
  case (refused ms p op fk e lk)
  with Acquire_cases [OF refused.hyps(2)] show ?case by (simp add: locks_inv_def)
next
  case (admin ms p l op)
  then show ?case by (simp add: locks_inv_def with_data_def)
next
  case (serves ms p l)
  have "proc_lock (((ms_procs ms)(p := Online l (new_hub (cf_MaxWSClients cfg)))) q) = proc_lock (ms_procs ms q)"
      "((ms_procs ms)(p := Online l (new_hub (cf_MaxWSClients cfg)))) q = Absent \<longleftrightarrow> ms_procs ms q = Absent" for q
    using serves.hyps by simp_all
  with serves.prems show ?case unfolding locks_inv_def by simp
next
  case (request ms p l h op sv)
  have "proc_lock (((ms_procs ms)(p := Online l (sv_hub sv))) q) = proc_lock (ms_procs ms q)"
      "((ms_procs ms)(p := Online l (sv_hub sv))) q = Absent \<longleftrightarrow> ms_procs ms q = Absent" for q
    using request.hyps by simp_all
  with request.prems show ?case unfolding locks_inv_def with_data_def by simp
next
  case (leave ms p)
  show ?case
  proof (cases "ms_procs ms p = Absent")
    case True
    then have "(ms_procs ms)(p := Absent) = ms_procs ms" by auto
    with True leave show ?thesis by (simp add: lock_Close_def)
  next
    case False
    then have "ms_procs ms q = Absent" if "q \<noteq> p" for q using leave that by (auto simp: locks_inv_def)
    then have "((ms_procs ms)(p := Absent)) q = Absent" for q by simp
    then show ?thesis by (auto simp: locks_inv_def)
  qed
qed

text \<open>The data of the machine is that of one server: every step works on well-formed data, and a server
  that is online has a well-formed hub beside it.\<close>

definition machine_inv :: "primitives \<Rightarrow> machine_state \<Rightarrow> bool" where
  "machine_inv px ms \<longleftrightarrow> files_db_inv px (ms_files ms) (ms_db ms)
     \<and> (\<forall>p l h. ms_procs ms p = Online l h \<longrightarrow> hub_inv h)"

lemma machine_step_inv:
  assumes "machine_step ino cfg px dir ms ms'" and "machine_inv px ms"
  shows "machine_inv px ms'"
  using assms
proof (induction rule: machine_step.induct)
  case (admin ms p l op)
  then have "system_inv px (data_of (new_hub 0) ms)"
    by (simp add: system_inv_eq data_of_def machine_inv_def new_hub_inv)
  from server_step_inv [OF this] admin.prems show ?case
    by (simp add: machine_inv_def with_data_def system_inv_eq)
next
  case (request ms p l h op sv)
  then have "system_inv px (data_of h ms)" by (auto simp: system_inv_eq data_of_def machine_inv_def)
  from server_step_inv [OF this] request show ?case
    by (auto simp: machine_inv_def with_data_def system_inv_eq split: if_splits)
qed (auto simp: machine_inv_def new_hub_inv split: if_splits)

definition machine_reachable :: "(string \<Rightarrow> nat) \<Rightarrow> config \<Rightarrow> primitives \<Rightarrow> string \<Rightarrow> machine_state \<Rightarrow> bool" where
  "machine_reachable ino cfg px dir ms \<longleftrightarrow> (machine_step ino cfg px dir)\<^sup>*\<^sup>* machine_init ms"

lemma machine_reachable_inv:
  assumes "machine_reachable ino cfg px dir ms"
  shows "locks_inv (ino (Join [dir, ''server.lock''])) ms \<and> machine_inv px ms"
  using assms unfolding machine_reachable_def
proof (induction rule: rtranclp_induct)
  case base
  then show ?case
    using server_init_inv [of px undefined]
    by (simp add: locks_inv_def machine_inv_def machine_init_def system_inv_eq server_init_def restart_def)
next
  case (step ms ms')
  then show ?case using machine_step_locks machine_step_inv by blast
qed

text \<open>Two processes never work on the data at once, and while one has the lock another is refused.\<close>

lemma one_process_at_a_time:
  assumes "machine_reachable ino cfg px dir ms" and "ms_procs ms p \<noteq> Absent"
  shows "(\<forall>q. q \<noteq> p \<longrightarrow> ms_procs ms q = Absent)
    \<and> (\<exists>e. fst (Acquire ino open_ok flock_ok dir (ms_locks ms)) = Inl e)"
proof -
  obtain l where "proc_lock (ms_procs ms p) = Some l" using assms(2) by (cases "ms_procs ms p") auto
  moreover note machine_reachable_inv [OF assms(1)]
  ultimately have "lk_held (ms_locks ms) (ino (Join [dir, ''server.lock''])) \<noteq> None"
    and "\<forall>q. q \<noteq> p \<longrightarrow> ms_procs ms q = Absent"
    using assms(2) unfolding locks_inv_def by blast+
  then show ?thesis by (simp add: Acquire_def Let_def)
qed

lemma shared_data_wellformed:
  "machine_reachable ino cfg px dir ms \<Longrightarrow> files_db_inv px (ms_files ms) (ms_db ms)"
  using machine_reachable_inv by (auto simp: machine_inv_def)

section \<open>Serving\<close>

text \<open>The log of a start, and the settings of the HTTP server.\<close>

definition startup_log :: "settings \<Rightarrow> string list" where
  "startup_log cfg = map (\<lambda>w. ''warning: '' @ w) (config_warnings cfg) @ [''listening on '' @ cs_Listen cfg]"

record http_server =
  hs_Addr :: string
  hs_ReadHeaderTimeout :: int
  hs_ReadTimeout :: int
  hs_WriteTimeout :: int
  hs_IdleTimeout :: int

definition http_server_of :: "settings \<Rightarrow> http_server" where
  "http_server_of cfg =
     \<lparr>hs_Addr = cs_Listen cfg, hs_ReadHeaderTimeout = cs_ReadHeaderTimeout cfg, hs_ReadTimeout = cs_ReadTimeout cfg,
      hs_WriteTimeout = cs_WriteTimeout cfg, hs_IdleTimeout = cs_IdleTimeout cfg\<rparr>"

text \<open>
  \<^verbatim>\<open>ListenAndServe\<close> returns as soon as the listener fails or \<^verbatim>\<open>Shutdown\<close> begins, in the second case
  with \<^verbatim>\<open>ErrServerClosed\<close>; \<^verbatim>\<open>Shutdown\<close> itself waits for the requests in progress, in a goroutine that
  \<^verbatim>\<open>runServer\<close> does not wait for.
\<close>

datatype listening = Listening | Returned "go_error option" | Exited int

record serving =
  sg_pending :: "(request \<times> request_body) list"
  sg_answers :: "response list"
  sg_world :: world
  sg_state :: listening

inductive runServer :: "config \<Rightarrow> primitives \<Rightarrow> serving \<Rightarrow> serving \<Rightarrow> bool" for cfg px where
  accept: "sg_state s = Listening \<Longrightarrow> runServer cfg px s (s\<lparr>sg_pending := sg_pending s @ [(r, b)]\<rparr>)"
| answer: "\<forall>n. sg_state s \<noteq> Exited n \<Longrightarrow> (r, b) \<in> set (sg_pending s) \<Longrightarrow> serve cfg px r b (sg_world s) = (resp, w) \<Longrightarrow>
    runServer cfg px s (s\<lparr>sg_pending := remove1 (r, b) (sg_pending s), sg_answers := sg_answers s @ [resp], sg_world := w\<rparr>)"
| interrupt: "sg_state s = Listening \<Longrightarrow> runServer cfg px s (s\<lparr>sg_state := Returned None\<rparr>)"
| listener_failed: "sg_state s = Listening \<Longrightarrow> runServer cfg px s (s\<lparr>sg_state := Returned (Some e)\<rparr>)"
| exits: "sg_state s = Returned e \<Longrightarrow>
    runServer cfg px s (s\<lparr>sg_state := Exited (case e of None \<Rightarrow> 0 | Some _ \<Rightarrow> 1)\<rparr>)"

text \<open>The requests in progress are not waited for: the process can end with status 0 and a request it
  accepted unanswered, so the ten seconds given to \<^verbatim>\<open>Shutdown\<close> have no effect.\<close>

lemma shutdown_drops_requests:
  assumes "sg_state s = Listening"
  shows "\<exists>s'. (runServer cfg px)\<^sup>*\<^sup>* s s' \<and> sg_state s' = Exited 0 \<and> sg_answers s' = sg_answers s
    \<and> sg_pending s' = sg_pending s @ [(r, b)]"
proof -
  let ?s1 = "s\<lparr>sg_pending := sg_pending s @ [(r, b)]\<rparr>"
  let ?s2 = "?s1\<lparr>sg_state := Returned None\<rparr>"
  let ?s3 = "?s2\<lparr>sg_state := Exited (case None of None \<Rightarrow> 0 | Some (e :: go_error) \<Rightarrow> 1)\<rparr>"
  have "runServer cfg px s ?s1" by (rule runServer.accept [OF assms])
  moreover have "runServer cfg px ?s1 ?s2" by (rule interrupt) (simp add: assms)
  moreover have "runServer cfg px ?s2 ?s3" by (rule exits) simp
  ultimately have "(runServer cfg px)\<^sup>*\<^sup>* s ?s3" by (iprover intro: rtranclp.intros)
  then show ?thesis by (intro exI [of _ ?s3]) simp
qed

section \<open>The loop of a websocket\<close>

text \<open>
  What the loop of \<^verbatim>\<open>handleWS\<close> selects: the end of the request or of the reader, a message of its
  channel (with the answers to setting the deadline and to writing), and a tick of the pinger (with
  the answer to writing).  A channel that is empty and open is not selected; one that is empty and closed
  ends the loop.  An iteration gives the frame it wrote and whether the handler returns.
\<close>

datatype ws_select = WsCanceled | WsMessage bool bool | WsTick bool

datatype ws_frame = WsJSON WSMessage | WsPing

definition wsPingEvery :: int where
  "wsPingEvery = 45 * 10 ^ 9"

definition wsPongWait :: int where
  "wsPongWait = 60 * 10 ^ 9"

fun ws_iteration :: "nat \<Rightarrow> ws_select \<Rightarrow> WSMessage hub \<Rightarrow> ws_frame option \<times> bool \<times> WSMessage hub" where
  "ws_iteration sub WsCanceled h = (None, True, h)"
| "ws_iteration sub (WsMessage deadline_ok write_ok) h =
     (case Receive sub h of
        (None, h1) \<Rightarrow> (None, cn_closed (hb_chan h1 sub), h1)
      | (Some m, h1) \<Rightarrow> if deadline_ok \<and> write_ok then (Some (WsJSON m), False, h1) else (None, True, h1))"
| "ws_iteration sub (WsTick write_ok) h = (if write_ok then (Some WsPing, False, h) else (None, True, h))"

text \<open>When it returns, the deferred calls end the subscription and the connection.\<close>

definition ws_turn :: "string \<Rightarrow> nat \<Rightarrow> ws_select \<Rightarrow> live \<Rightarrow> live" where
  "ws_turn w sub sel l =
     (case ws_iteration sub sel (lv_hub l) of
        (frame, returns, h) \<Rightarrow>
          if returns then l\<lparr>lv_serving := False, lv_hub := Unsubscribe w sub h\<rparr>
          else l\<lparr>lv_hub := h, lv_wire := lv_wire l @ (case frame of Some (WsJSON m) \<Rightarrow> [m] | _ \<Rightarrow> [])\<rparr>)"

text \<open>The loop refines the steps of the live stream: an iteration writes a frame, ends the
  connection, or leaves what they share as it is.\<close>

lemma ws_turn_live:
  assumes "lv_serving l"
  shows "ws_turn w sub sel l = l \<or> live_step w sub l (ws_turn w sub sel l)"
proof (cases sel)
  case WsCanceled
  then show ?thesis using hang_up [OF assms] by (simp add: ws_turn_def)
next
  case (WsMessage d wr)
  obtain m h where r: "Receive sub (lv_hub l) = (m, h)" by fastforce
  show ?thesis
  proof (cases m)
    case None
    then have "h = lv_hub l" using r by (auto simp: Receive_def split: list.splits)
    then show ?thesis using None r WsMessage hang_up [OF assms, of w sub] by (auto simp: ws_turn_def)
  next
    case (Some x)
    with r have "Receive sub (lv_hub l) = (Some x, h)" by simp
    from write_frame [OF assms this] write_failed [OF assms this] this show ?thesis
      by (auto simp: ws_turn_def WsMessage)
  qed
next
  case (WsTick wr)
  then show ?thesis using hang_up [OF assms] by (auto simp: ws_turn_def)
qed

lemma ws_turn_reachable:
  "live_reachable w sub l \<Longrightarrow> lv_serving l \<Longrightarrow> live_reachable w sub (ws_turn w sub sel l)"
  using ws_turn_live [of l w sub sel] unfolding live_reachable_def
  by (metis rtranclp.rtrancl_into_rtrancl)

text \<open>A connection that answers every ping in time is not cut by the read deadline.\<close>

lemma ping_before_deadline: "wsPingEvery < wsPongWait"
  by (simp add: wsPingEvery_def wsPongWait_def)

section \<open>The landing page\<close>

record rootPageData =
  rp_ServerURL :: string
  rp_TransferredText :: string

definition trim_right_slashes :: "string \<Rightarrow> string" where
  "trim_right_slashes s = rev (dropWhile (\<lambda>c. c = CHR ''/'') (rev s))"

definition rootServerURL :: "settings \<Rightarrow> bool \<Rightarrow> string \<Rightarrow> string \<Rightarrow> string" where
  "rootServerURL cfg tls forwardedProto host =
     (if cs_PublicBaseURL cfg \<noteq> [] then trim_right_slashes (cs_PublicBaseURL cfg)
      else
        let scheme = (if tls \<or> forwardedProto = ''https'' then ''https'' else ''http'') in
        if host = [] then ''https://your-syna-server.example'' else scheme @ ''://'' @ host)"

definition formatTransferredMB :: "int \<Rightarrow> string" where
  "formatTransferredMB bytes = format_fixed 2 (fl (fl (of_int (max bytes 0)) / 1000000)) @ '' MB''"

text \<open>The page of a request that \<open>handleRoot\<close> answers with 200; the answer to \<open>HEAD\<close> has none.\<close>

definition root_page :: "settings \<Rightarrow> request \<Rightarrow> bool \<Rightarrow> string \<Rightarrow> string \<Rightarrow> server_db \<Rightarrow> rootPageData option" where
  "root_page cfg r tls forwardedProto host s =
     (if fst (handleRoot r) \<noteq> 200 \<or> hr_Method r = ''HEAD'' then None
      else Some \<lparr>rp_ServerURL = rootServerURL cfg tls forwardedProto host,
                 rp_TransferredText = formatTransferredMB (TransferredBytes s)\<rparr>)"

lemma trim_right_slashes_end: "trim_right_slashes s = [] \<or> last (trim_right_slashes s) \<noteq> CHR ''/''"
proof (cases "dropWhile (\<lambda>c. c = CHR ''/'') (rev s)")
  case (Cons c cs)
  then have "c \<noteq> CHR ''/''" using hd_dropWhile [of "\<lambda>c. c = CHR ''/''" "rev s"] by auto
  with Cons show ?thesis by (simp add: trim_right_slashes_def)
qed (simp add: trim_right_slashes_def)

lemma formatTransferredMB_examples:
  "formatTransferredMB 0 = ''0.00 MB''" "formatTransferredMB 1234567 = ''1.23 MB''" "formatTransferredMB (- 5) = ''0.00 MB''"
  "formatTransferredMB 125000 = ''0.12 MB''" "formatTransferredMB 2500000005 = ''2500.00 MB''"
  by code_simp+

end
