(* ===== verification/ReconnectLoops.thy ===== *)
theory ReconnectLoops
  imports Main
begin

text \<open>
  How many reconnect loops of \<^verbatim>\<open>internal/client/daemon/daemon.go\<close> run: \<^verbatim>\<open>startReconnectLoopLocked\<close>, the
  wrapper of its goroutine, and the end of a loop whose workspace was purged
  (\<^verbatim>\<open>finishPurgedWorkspace\<close>, \<^verbatim>\<open>handlePurgedWorkspace\<close>), as steps under the lock of the daemon.
  \<^verbatim>\<open>Disconnect\<close>, after which the process ends, is left out.
\<close>

datatype loop_phase = Looping | Purging | Cleared | Returning

record loops =
  lp_cancel :: "nat option"
  lp_id :: nat
  lp_transition :: bool
  lp_phase :: "nat \<rightharpoonup> loop_phase"

definition no_loops :: loops where
  "no_loops = \<lparr>lp_cancel = None, lp_id = 0, lp_transition = False, lp_phase = Map.empty\<rparr>"

definition startReconnectLoopLocked :: "loops \<Rightarrow> loops" where
  "startReconnectLoopLocked l =
     (if lp_cancel l \<noteq> None then l
      else let n = lp_id l + 1 in
        l\<lparr>lp_cancel := Some n, lp_id := n, lp_phase := (lp_phase l)(n \<mapsto> Looping)\<rparr>)"

definition wrapper_ends :: "nat \<Rightarrow> loops \<Rightarrow> loops" where
  "wrapper_ends n l =
     (let l1 = l\<lparr>lp_phase := (lp_phase l)(n := None)\<rparr> in
      if lp_id l = n then l1\<lparr>lp_cancel := None\<rparr> else l1)"

text \<open>
  A loop starts when the daemon starts or connects, which is refused during a purge
  transition.  A purged loop sets the transition, retries until the workspace is cleared,
  and ends the transition; or its context ends and the transition stays.
\<close>

inductive loop_step :: "loops \<Rightarrow> loops \<Rightarrow> bool" where
  starts: "\<not> lp_transition l \<Longrightarrow> loop_step l (startReconnectLoopLocked l)"
| purge_found: "lp_phase l n = Some Looping \<Longrightarrow>
    loop_step l (l\<lparr>lp_transition := True, lp_phase := (lp_phase l)(n \<mapsto> Purging)\<rparr>)"
| purge_cleared: "lp_phase l n = Some Purging \<Longrightarrow>
    loop_step l (l\<lparr>lp_cancel := None, lp_phase := (lp_phase l)(n \<mapsto> Cleared)\<rparr>)"
| purge_finished: "lp_phase l n = Some Cleared \<Longrightarrow>
    loop_step l (l\<lparr>lp_transition := False, lp_phase := (lp_phase l)(n \<mapsto> Returning)\<rparr>)"
| purge_abandoned: "lp_phase l n = Some Purging \<Longrightarrow> loop_step l (l\<lparr>lp_phase := (lp_phase l)(n \<mapsto> Returning)\<rparr>)"
| canceled: "lp_phase l n = Some Looping \<Longrightarrow> loop_step l (l\<lparr>lp_phase := (lp_phase l)(n \<mapsto> Returning)\<rparr>)"
| ends: "lp_phase l n = Some Returning \<Longrightarrow> loop_step l (wrapper_ends n l)"

definition working :: "loops \<Rightarrow> nat \<Rightarrow> bool" where
  "working l n \<longleftrightarrow> lp_phase l n \<in> {Some Looping, Some Purging, Some Cleared}"

definition loops_inv :: "loops \<Rightarrow> bool" where
  "loops_inv l \<longleftrightarrow>
     (\<forall>n. working l n \<longrightarrow> n = lp_id l)
     \<and> (\<forall>n. lp_phase l n \<noteq> None \<longrightarrow> n \<le> lp_id l)
     \<and> (\<forall>n. lp_phase l n = Some Looping \<or> lp_phase l n = Some Purging \<longrightarrow> lp_cancel l = Some n)
     \<and> (\<forall>n. lp_phase l n = Some Purging \<or> lp_phase l n = Some Cleared \<longrightarrow> lp_transition l)
     \<and> (\<forall>n. lp_cancel l = Some n \<longrightarrow> n = lp_id l \<and> lp_phase l n \<noteq> None)"

text \<open>A step of the one loop that works.\<close>

lemma loops_inv_phase:
  assumes "loops_inv l" and "working l n" and "c = None \<or> c = lp_cancel l"
    and "ph = Looping \<or> ph = Purging \<Longrightarrow> c = lp_cancel l \<and> lp_phase l n \<noteq> Some Cleared"
    and "ph = Purging \<or> ph = Cleared \<Longrightarrow> t"
  shows "loops_inv (l\<lparr>lp_cancel := c, lp_transition := t, lp_phase := (lp_phase l)(n \<mapsto> ph)\<rparr>)"
proof -
  have n: "n = lp_id l" and other: "\<And>m. working l m \<Longrightarrow> m = n"
    using assms(1,2) unfolding loops_inv_def by blast+
  have le: "\<And>m. lp_phase l m \<noteq> None \<Longrightarrow> m \<le> lp_id l"
    and can: "\<And>m. lp_cancel l = Some m \<Longrightarrow> m = lp_id l"
    and own: "lp_phase l n \<noteq> Some Cleared \<Longrightarrow> lp_cancel l = Some n"
    using assms(1,2) unfolding loops_inv_def working_def by blast+
  have phases: "((lp_phase l)(n \<mapsto> ph)) m = Some Looping \<or> ((lp_phase l)(n \<mapsto> ph)) m = Some Purging
      \<or> ((lp_phase l)(n \<mapsto> ph)) m = Some Cleared \<Longrightarrow> m = n" for m
    using other [of m] by (auto simp: working_def split: if_splits)
  let ?l = "l\<lparr>lp_cancel := c, lp_transition := t, lp_phase := (lp_phase l)(n \<mapsto> ph)\<rparr>"
  have sel: "lp_phase ?l = (lp_phase l)(n \<mapsto> ph)" "lp_cancel ?l = c" "lp_id ?l = lp_id l" "lp_transition ?l = t"
    by simp_all
  show ?thesis
    unfolding loops_inv_def working_def sel
  proof (intro conjI allI impI)
    fix m
    show "((lp_phase l)(n \<mapsto> ph)) m \<in> {Some Looping, Some Purging, Some Cleared} \<Longrightarrow> m = lp_id l"
      using phases n by blast
    show "((lp_phase l)(n \<mapsto> ph)) m \<noteq> None \<Longrightarrow> m \<le> lp_id l"
      using le n by (cases "m = n") simp_all
    show "((lp_phase l)(n \<mapsto> ph)) m = Some Looping \<or> ((lp_phase l)(n \<mapsto> ph)) m = Some Purging \<Longrightarrow> c = Some m"
      using phases [of m] assms(4) own by (cases "m = n") auto
    show "((lp_phase l)(n \<mapsto> ph)) m = Some Purging \<or> ((lp_phase l)(n \<mapsto> ph)) m = Some Cleared \<Longrightarrow> t"
      using phases [of m] assms(5) by (cases "m = n") auto
    show "c = Some m \<Longrightarrow> m = lp_id l" using can assms(3) by auto
    show "c = Some m \<Longrightarrow> ((lp_phase l)(n \<mapsto> ph)) m \<noteq> None" using can assms(3) n by auto
  qed
qed

lemma loop_step_inv: "loop_step l l' \<Longrightarrow> loops_inv l \<Longrightarrow> loops_inv l'"
proof (induction rule: loop_step.induct)
  case (starts l)
  show ?case
  proof (cases "lp_cancel l")
    case None
    then have "\<not> working l n" for n using starts by (auto simp: loops_inv_def working_def)
    with None starts show ?thesis
      by (auto simp: loops_inv_def working_def startReconnectLoopLocked_def Let_def intro: le_SucI)
  qed (use starts in \<open>simp add: startReconnectLoopLocked_def\<close>)
next
  case (purge_found l n)
  with loops_inv_phase [of l n "lp_cancel l" Purging True] show ?case by (simp add: working_def)
next
  case (purge_cleared l n)
  moreover from this have "lp_transition l" by (auto simp: loops_inv_def)
  ultimately show ?case
    using loops_inv_phase [of l n None Cleared True] loops.surjective [of l] by (cases l) (simp add: working_def)
next
  case (purge_finished l n)
  with loops_inv_phase [of l n "lp_cancel l" Returning False] show ?case by (simp add: working_def)
next
  case (purge_abandoned l n)
  with loops_inv_phase [of l n "lp_cancel l" Returning "lp_transition l"] show ?case by (simp add: working_def)
next
  case (canceled l n)
  with loops_inv_phase [of l n "lp_cancel l" Returning "lp_transition l"] show ?case by (simp add: working_def)
next
  case (ends l n)
  then show ?case by (auto simp: loops_inv_def working_def wrapper_ends_def Let_def split: if_splits)
qed

lemma loops_reachable_inv: "loop_step\<^sup>*\<^sup>* no_loops l \<Longrightarrow> loops_inv l"
proof (induction rule: rtranclp_induct)
  case base
  show ?case by (simp add: loops_inv_def no_loops_def working_def)
qed (simp add: loop_step_inv)

text \<open>One loop at most works at a time; the wrapper of an old loop never cancels its replacement; and
  once the wrapper of the last loop has ended, a start outside a transition begins a new one.\<close>

lemma one_loop_works:
  "loop_step\<^sup>*\<^sup>* no_loops l \<Longrightarrow> working l m \<Longrightarrow> working l n \<Longrightarrow> m = n"
  using loops_reachable_inv unfolding loops_inv_def by blast

lemma replacement_survives:
  assumes "loop_step\<^sup>*\<^sup>* no_loops l" and "lp_phase l n = Some Looping" and "lp_phase l m = Some Returning"
  shows "lp_cancel (wrapper_ends m l) = Some n \<and> lp_phase (wrapper_ends m l) n = Some Looping"
proof -
  have "n = lp_id l" "lp_cancel l = Some n" "m \<noteq> n"
    using loops_reachable_inv [OF assms(1)] assms(2,3) by (auto simp: loops_inv_def working_def)
  with assms(2) show ?thesis by (auto simp: wrapper_ends_def Let_def)
qed

lemma loop_restarts:
  assumes "loop_step\<^sup>*\<^sup>* no_loops l" and "lp_phase l (lp_id l) = None"
  shows "working (startReconnectLoopLocked l) (lp_id l + 1)"
proof -
  have "lp_cancel l \<noteq> Some n" for n
    using loops_reachable_inv [OF assms(1)] assms(2) by (auto simp: loops_inv_def)
  then have "lp_cancel l = None" by auto
  then show ?thesis by (simp add: startReconnectLoopLocked_def working_def Let_def)
qed

text \<open>A purge transition that is given up leaves the daemon refusing to connect.\<close>

lemma abandoned_transition:
  assumes "lp_transition l" and "\<forall>n. \<not> working l n" and "loop_step l l'"
  shows "lp_transition l' \<and> (\<forall>n. \<not> working l' n)"
  using assms(3,1,2)
  by (induction rule: loop_step.induct) (auto simp: working_def wrapper_ends_def Let_def split: if_splits)

end
