(* ===== verification/Spec2Isabelle.thy ===== *)
theory Spec2Isabelle
  imports ServerClaims ClientClaims DaemonClaims DeliveryClaims AgentClaims Agent Watcher ServerMain LiveStream Cli ProgressBar DaemonLoops ServerProcess ReconnectLoops
begin

text \<open>
  A model of Syna, an end-to-end encrypted file synchroniser, and the theorems that
  make it correct.

  \<^bold>\<open>The program.\<close>  A server keeps, per workspace, an append-only log of encrypted events, the
  encrypted objects they refer to, and encrypted snapshots; it knows ids, sequence numbers and sizes,
  never names or contents.  A client daemon on every device scans the directories its user added,
  uploads what changed as objects and events, follows the log, and applies what other devices wrote.
  The server runs in one process over one SQLite database and a directory of object files; the daemon
  keeps a SQLite database of its own, a configuration and a keyring.  A websocket only tells clients
  that something happened; all data moves over HTTP requests.

  \<^bold>\<open>Shared theories.\<close>  \<open>Prelude\<close>: bytes, times, 64-bit wrap-around, the SQL statements over
  tables that are lists of rows, and the facts about them every database proof uses.  \<open>Protocol\<close>
  (\<^verbatim>\<open>internal/common/protocol/types.go\<close>): the wire types.  \<open>Encoding\<close>: hex, base64 and decimal integers of the
  Go library.  \<open>Crypto\<close> (\<^verbatim>\<open>internal/common/crypto\<close>): keys, ids, transcripts, blobs, additional data, over a
  record \<open>primitives\<close> for SHA-256, HMAC, HKDF, Ed25519 and XChaCha20-Poly1305.  \<open>Paths\<close>,
  \<open>PathsCorrect\<close> (\<^verbatim>\<open>internal/common/paths\<close>): cleaning, containment and the walks that refuse links, over
  a tree that maps absolute paths to kinds of node.

  \<^bold>\<open>Server theories\<close> (\<^verbatim>\<open>internal/server\<close>).  \<open>ServerStore\<close>: the tables of \<^verbatim>\<open>db/migrations.go\<close> as the
  record \<open>server_db\<close>.  \<open>Workspaces\<close>, \<open>Events\<close>, \<open>Snapshots\<close>, \<open>Maintenance\<close>, \<open>Purge\<close>, \<open>Sessions\<close>:
  one theory per file of \<^verbatim>\<open>db\<close>, one definition per statement or check, composed in the order of the
  code; a transaction returns the old tables on an error, what runs outside one is a sequence of
  statements that can stop in between.  \<open>ObjectStore\<close> (\<^verbatim>\<open>objectstore\<close>), \<open>Hub\<close> (\<^verbatim>\<open>hub\<close>), \<open>Admin\<close>
  (\<^verbatim>\<open>admin\<close>, its crashes included).  \<open>Api\<close> (\<^verbatim>\<open>api\<close>): every handler on every branch, from the decoded
  request and the state to the response and the next state; \<open>Router\<close>: the routes, and \<open>serve\<close>, the
  server as a client sees it, with one reading of clock and randomness per request.  \<open>ServerInvariant\<close>,
  \<open>EventsCorrect\<close>, \<open>MaintenanceCorrect\<close>, \<open>EventProperties\<close>, \<open>ServerGuarantees\<close>: the invariant
  (\<open>server_inv\<close>, \<open>db_inv\<close>) and what each component promises.  \<open>ServerSystem\<close>: requests,
  administrative commands and restarts as steps, and the invariant of all reachable states.
  \<open>ServerMain\<close>: the settings (\<^verbatim>\<open>config\<close>), what a migration does to the data, the reports, and the
  commands of the server process (\<^verbatim>\<open>app\<close>).  \<open>ServerProcess\<close>: the lock on the data directory and the processes
  that share it (\<^verbatim>\<open>processlock\<close>), serving and shutting down, the loop of a websocket, the data of the landing
  page.  \<open>Float64\<close>: the floating-point numbers the program prints.  \<open>Scenario\<close>: a concrete run for the instances;
  \<open>ServerClaims\<close>: the properties C1 and C4 to C21.

  \<^bold>\<open>Client theories\<close> (\<^verbatim>\<open>internal/client\<close>).  \<open>ClientState\<close>, \<open>ClientStateCorrect\<close> (\<^verbatim>\<open>state\<close>): the
  database, as keyed tables.  \<open>Connector\<close> (\<^verbatim>\<open>connector\<close>): the client's side of the API over a transport.
  \<open>FileSys\<close>: the calls of \<^verbatim>\<open>os\<close> the client makes, with an oracle of faults.  \<open>Uploader\<close>, \<open>Applier\<close>,
  \<open>ApplierCorrect\<close>, \<open>FileTransfer\<close> (\<^verbatim>\<open>uploader\<close>, \<^verbatim>\<open>applier\<close>): sending and writing a file.
  \<open>Daemon\<close>, \<open>RemoteApply\<close>, \<open>ConflictCopy\<close>, \<open>SnapshotApply\<close>, \<open>CatchUp\<close> (\<^verbatim>\<open>daemon\<close>): following the log;
  \<open>EventFeed\<close>, \<open>FeedServer\<close>, \<open>CatchUpCorrect\<close>, \<open>SnapshotCorrect\<close>: its correctness.
  \<open>Delivery\<close>, \<open>DeliveryClaims\<close>: the whole way of a change, from the submission on one device through the
  server's handlers to the files of another.
  \<open>Scanner\<close>, \<open>ScanCorrect\<close> (\<^verbatim>\<open>scanner\<close>); \<open>SyncHelpers\<close>, \<open>Submit\<close>, \<open>Conflict\<close>, \<open>Rescan\<close>,
  \<open>RescanCorrect\<close>, \<open>SyncLoop\<close>, \<open>AddRoot\<close> (\<^verbatim>\<open>daemon\<close>, \<^verbatim>\<open>snapshotter\<close>): local changes, conflicts, the
  queue, adding and removing roots.  \<open>ClientSession\<close>, \<open>LoginCorrect\<close>, \<open>ConfigStore\<close>, \<open>Agent\<close>
  (\<^verbatim>\<open>daemon\<close>, \<^verbatim>\<open>configstore\<close>): logging in, connecting, leaving, the stream and the reconnect loop.
  \<open>Watcher\<close> (\<^verbatim>\<open>watcher\<close>).  \<open>DaemonLoops\<close>, \<open>ReconnectLoops\<close> (\<^verbatim>\<open>daemon\<close>): the goroutines that never
  end by themselves, and that one reconnect loop works at a time.
  \<open>LiveStream\<close>: the interleaving of the server's commits and publications, its websocket loop, the client's
  reader and the consumer of its notifications, as a step relation over the hub.  \<open>AgentRpc\<close>
  (\<^verbatim>\<open>agentrpc\<close>, \<^verbatim>\<open>daemon/rpc.go\<close>), \<open>UserService\<close> (\<^verbatim>\<open>daemon/service.go\<close>), \<open>Cli\<close> and \<open>ProgressBar\<close>
  (\<^verbatim>\<open>cmd/syna\<close>): the socket, the background service and every command of the command line, over a \<open>host\<close>
  that records what is done to files, processes and commands.  \<open>ClientClaims\<close>, \<open>SyncClaims\<close>,
  \<open>DaemonClaims\<close>, \<open>AgentClaims\<close>, with \<open>LiveStream\<close>, \<open>ServerMain\<close> and \<open>Cli\<close> for one each: the properties C22
  to C40.

  \<^bold>\<open>State and errors.\<close>  A Go struct is a record with a prefix per type, an enumeration a datatype with
  a constructor for values outside it, a map a partial function or an association list, an error a value
  of a sum type (\<open>db_error\<close>, \<open>path_error\<close>, \<open>crypto_error\<close>, \<open>admin_error\<close>, \<open>go_error\<close>); \<open>go_error\<close>
  keeps the wrapping that \<^verbatim>\<open>errors.Is\<close> and \<^verbatim>\<open>errors.As\<close> look through.  \<open>'s daemon\<close> is the file system,
  the database, the daemon's fields and the state \<open>'s\<close> of the network; with \<open>'s = world\<close> the network is
  the server of the model, which is how the theorems on catch-up, file transfer and logging in span both
  programs.  Lengths and sequence numbers are \<open>int\<close>; where a counter is computed on data of a peer it is
  wrapped to 64 bits (\<open>wrap64\<close>).

  \<^bold>\<open>Interfaces.\<close>  \<open>ref_counter\<close> (\<open>ServerStore\<close>) is what submissions and retention promise about reference
  counts; \<open>db_preserved\<close> and its extension \<open>db_property\<close> (\<open>ServerGuarantees\<close>) what a property of the database
  has to be kept by to hold in every run of the server; \<open>keyed_store\<close> (\<open>ClientStateCorrect\<close>) a table with a
  primary key; \<open>blob_store\<close> (\<open>FileTransfer\<close>) what an upload and a download have to do with each other;
  \<open>event_feed\<close> (\<open>EventFeed\<close>) what the daemon needs of the log it follows.  Each is interpreted on the
  definitions of the component that provides it; the last two on the model of the server, so that the
  client's theorems hold against it.

  \<^bold>\<open>What the theorems show.\<close>  C2 and C3, the program as a whole: a file or directory that one device submits
  and the server accepts is there, with its content and attributes, after another device has caught up.
  C1 and C4 to C21, the server: reachable states are well formed; no lost updates,
  exact answers, sequence numbers that never come back; retention no served client can observe; purges that
  are complete, isolated and survive a crash; sound and single-use logins; gapless subscriber streams; and
  three runs in which the code goes wrong (a floor that moves back, an interrupted prune, a bootstrap that
  races an event).  C22 to C29: path rules, recovery keys, additional data, the client database.
  C30: a live client misses no event under any interleaving.  C31: what a migration does.  C32 and C33:
  applied events stay inside their root, files are replaced as a whole.  C34 to
  C36: catching up ends, consumes the log without gaps, and snapshots keep local edits.  C37 to C39: honest
  logins succeed, scans are exact, rescans bring the table into agreement with the disk.  C40: uninstalling
  removes Syna and nothing else.

  \<^bold>\<open>Bounds.\<close>  The loop of a catch-up takes fuel: one unit per page, with \<open>2 * n + 2\<close> enough on a log
  of \<open>n\<close> events (C34); \<open>None\<close> is the only result for too little.  A rescan starts over at most once, so two
  rounds suffice; a conflict copy is tried five times, a replaced root three times, an initial
  reconciliation twice per entry and sixteen times more, as in the code.  The reconnect loop pauses at most 64 seconds.  Loops that run until they
  are cancelled take the list of what happens to them; the polls of a command take the number the clock
  leaves time for.

  \<^bold>\<open>Parameters.\<close>  Cryptographic primitives; JSON (decoded requests are options, payloads go through
  \<open>codec\<close> and \<open>encoder\<close>); the clock and randomness (\<open>wd_clock\<close> for the server, the sequence of \<open>luck\<close>
  for the daemon, with the faults of the file system); the paths a directory listing yields; the file
  behind a symbolic link; attributes nobody set; URL parsing; formatting of times; the answers of
  systemd, of signals and of the socket (\<open>outside\<close>), each given what was done before.  Go maps are iterated
  in the order of the rows.  Mutexes are not modelled: what they guard is one step, and where the code holds
  none a handler takes the states of both its reads (bootstrap) or a run stops between statements (prune).

  \<^bold>\<open>Not modelled.\<close>  The landing page's HTML; framing and deadlines of websockets and HTTP; infinities
  and subnormal numbers, which the program's quotients never reach; SQL text, the DDL of a
  migration and compaction; flushing to disk, which the model's atomic renames do not need; permission bits
  of the client's own files; logging; timers, which appear as the events they cause.
\<close>

end
